(* ===== verification/GoBase.thy ===== *)
theory GoBase
  imports Main "HOL-Library.AList" "HOL-Library.List_Lexorder" "HOL-Library.Char_ord"
    "HOL-Library.Sublist"
begin

text \<open>
  The prelude of the development: the collections of simplification rules, the generic
  lemmas on results, lists and association lists that the components share, and the two
  interfaces that several components implement.

  Conventions of the whole development.  A Go string is a list of bytes (\<open>string\<close>), so
  its order is Go's byte order.  A Go error return is the left injection of a sum.  A Go
  map that the code iterates over is an association list with distinct keys, read with
  \<open>map_of\<close>; one that the code only reads and writes is a HOL map.  Machine integers whose
  range does not matter to the code (counts, generations, ranks) are \<open>int\<close>.
\<close>

named_theorems go_defs "definitions of the small predicates of the model"
named_theorems go_split "case splits that the component proofs use"

section \<open>Results\<close>

text \<open>Sequencing of fallible steps: the early return on a non-nil error.\<close>

fun and_then :: "'e + 'a \<Rightarrow> ('a \<Rightarrow> 'e + 'b) \<Rightarrow> 'e + 'b" where
  "and_then (Inl e) f = Inl e"
| "and_then (Inr x) f = f x"

lemma and_then_Inr: "and_then r f = Inr y \<longleftrightarrow> (\<exists>x. r = Inr x \<and> f x = Inr y)"
  by (cases r) auto

lemma and_then_Inl:
  "and_then r f = Inl e \<longleftrightarrow> r = Inl e \<or> (\<exists>x. r = Inr x \<and> f x = Inl e)"
  by (cases r) auto

fun is_ok :: "'e + 'a \<Rightarrow> bool" where
  "is_ok (Inl e) = False"
| "is_ok (Inr x) = True"

lemma is_ok_iff: "is_ok r \<longleftrightarrow> (\<exists>x. r = Inr x)"
  by (cases r) auto

lemma not_is_ok_iff: "\<not> is_ok r \<longleftrightarrow> (\<exists>e. r = Inl e)"
  by (cases r) auto

section \<open>Lists\<close>

text \<open>Go's loops that keep the first occurrence of each value.\<close>

fun first_occurrences :: "'a list \<Rightarrow> 'a list \<Rightarrow> 'a list" where
  "first_occurrences seen [] = []"
| "first_occurrences seen (x # xs) =
     (if x \<in> set seen then first_occurrences seen xs
      else x # first_occurrences (x # seen) xs)"

lemma set_first_occurrences [simp]: "set (first_occurrences seen xs) = set xs - set seen"
  by (induction seen xs rule: first_occurrences.induct) auto

lemma distinct_first_occurrences [simp]: "distinct (first_occurrences seen xs)"
  by (induction seen xs rule: first_occurrences.induct) auto

lemma first_occurrences_id:
  "distinct xs \<Longrightarrow> set xs \<inter> set seen = {} \<Longrightarrow> first_occurrences seen xs = xs"
  by (induction xs arbitrary: seen) auto

lemma sorted_distinct_unique:
  "sorted xs \<Longrightarrow> distinct xs \<Longrightarrow> sorted ys \<Longrightarrow> distinct ys \<Longrightarrow> set xs = set ys \<Longrightarrow> xs = ys"
  by (simp add: sorted_distinct_set_unique)

lemma hd_sort_in_set: "xs \<noteq> [] \<Longrightarrow> hd (sort xs) \<in> set xs"
  by (metis hd_in_set set_empty set_sort)

lemma list_ex_set: "list_ex P xs \<longleftrightarrow> (\<exists>x \<in> set xs. P x)"
  by (simp add: list_ex_iff)

text \<open>\<open>ORDER BY \<dots> LIMIT 1\<close>: the first row no other one strictly precedes.\<close>

fun first_by :: "('a \<Rightarrow> 'a \<Rightarrow> bool) \<Rightarrow> 'a list \<Rightarrow> 'a option" where
  "first_by precedes [] = None"
| "first_by precedes (x # xs) =
     (case first_by precedes xs of
        None \<Rightarrow> Some x | Some y \<Rightarrow> if precedes y x then Some y else Some x)"

lemma first_by_in: "first_by precedes xs = Some x \<Longrightarrow> x \<in> set xs"
  by (induction xs) (auto split: option.splits if_splits)

lemma first_by_None [simp]: "first_by precedes xs = None \<longleftrightarrow> xs = []"
  by (cases xs) (auto split: option.splits)

lemma first_by_least:
  assumes "first_by precedes xs = Some x" "y \<in> set xs"
    and irr: "\<And>a. \<not> precedes a a"
    and trans: "\<And>a b c. \<not> precedes a b \<Longrightarrow> \<not> precedes b c \<Longrightarrow> \<not> precedes a c"
    and asym: "\<And>a b. precedes a b \<Longrightarrow> \<not> precedes b a"
  shows "\<not> precedes y x"
  using assms(1,2)
proof (induction xs arbitrary: x y)
  case (Cons z zs)
  show ?case
  proof (cases "first_by precedes zs")
    case None
    with Cons.prems irr show ?thesis by auto
  next
    case (Some w)
    note IH = Cons.IH [OF Some]
    show ?thesis
    proof (cases "precedes w z")
      case True
      with Some Cons.prems IH asym [OF True] show ?thesis by auto
    next
      case False
      then have x: "x = z" using Some Cons.prems by simp
      with Cons.prems(2) IH irr trans [OF _ False] show ?thesis by auto
    qed
  qed
qed simp

section \<open>Association lists\<close>

lemma distinct_AList_update [simp]: "distinct (map fst m) \<Longrightarrow> distinct (map fst (AList.update k v m))"
  by (rule distinct_update)

lemma distinct_map_fst_filter: "distinct (map fst m) \<Longrightarrow> distinct (map fst (filter P m))"
  by (induction m) auto

lemma map_of_filter_key:
  "map_of (filter (\<lambda>kv. P (fst kv)) m) k = (if P k then map_of m k else None)"
  by (induction m) auto

lemma map_of_filter_value:
  "distinct (map fst m) \<Longrightarrow>
   map_of (filter (\<lambda>kv. P (snd kv)) m) k =
     (case map_of m k of None \<Rightarrow> None | Some v \<Rightarrow> if P v then Some v else None)"
proof (induction m)
  case Nil
  then show ?case by simp
next
  case (Cons kv m)
  obtain k' v' where kv: "kv = (k', v')" by force
  with Cons.prems have fresh: "map_of m k' = None" and d: "distinct (map fst m)"
    by (auto simp: map_of_eq_None_iff)
  from Cons.IH [OF d] fresh show ?case by (auto simp: kv split: option.splits)
qed

lemma length_AList_update_le: "length (AList.update k v m) \<le> Suc (length m)"
  by (induction m) auto

lemma length_AList_delete_le: "length (AList.delete k m) \<le> length m"
  by (simp add: AList.delete_eq)

lemma length_AList_delete_less:
  "k \<in> fst ` set m \<Longrightarrow> length (AList.delete k m) < length m"
  unfolding AList.delete_eq by (auto intro!: length_filter_less)

lemma map_of_map_entry:
  "map_of (AList.map_entry k f al) i = (if i = k then map_option f (map_of al k) else map_of al i)"
  by (simp add: AList.map_of_map_entry split: option.splits)

lemma fst_map_entry [simp]: "map fst (AList.map_entry k f al) = map fst al"
  by (induction al) auto

section \<open>Interface: a normal form and the equality it induces\<close>

text \<open>
  Several types of the program are compared "after normalising": two action references are
  the same reference when their trimmed parts are.  The contract is that the normal form
  is idempotent; the induced comparison is then an equivalence, and any predicate that
  looks at the normal form only respects it.
\<close>

locale normal_form =
  fixes norm :: "'a \<Rightarrow> 'a"
    and same :: "'a \<Rightarrow> 'a \<Rightarrow> bool"
  assumes norm_idem: "norm (norm x) = norm x"
    and same_norm: "same x y \<longleftrightarrow> norm x = norm y"
begin

lemma same_refl: "same x x"
  by (simp add: same_norm)

lemma same_sym: "same x y \<Longrightarrow> same y x"
  by (simp add: same_norm)

lemma same_trans: "same x y \<Longrightarrow> same y z \<Longrightarrow> same x z"
  by (simp add: same_norm)

lemma same_equivp: "equivp same"
  by (rule equivpI) (auto simp: reflp_def symp_def transp_def same_norm)

lemma same_norm_left: "same (norm x) y \<longleftrightarrow> same x y"
  by (simp add: same_norm norm_idem)

lemma same_norm_self: "same (norm x) x"
  by (simp add: same_norm norm_idem)

end

section \<open>Interface: a machine whose steps may be refused\<close>

text \<open>
  A component with state is a step function that either refuses an event or returns the
  next state.  The contract is an invariant that every accepted step keeps.  \<open>run\<close> feeds a
  list of events, leaving the state alone where a step is refused, as the callers of the
  store and of the reducer do.
\<close>

fun run_machine :: "('s \<Rightarrow> 'e \<Rightarrow> 'r + 's) \<Rightarrow> 's \<Rightarrow> 'e list \<Rightarrow> 's" where
  "run_machine step s [] = s"
| "run_machine step s (e # es) =
     run_machine step (case step s e of Inl r \<Rightarrow> s | Inr t \<Rightarrow> t) es"

lemma run_machine_append:
  "run_machine step s (es @ fs) = run_machine step (run_machine step s es) fs"
  by (induction es arbitrary: s) auto

locale guarded_machine =
  fixes step :: "'s \<Rightarrow> 'e \<Rightarrow> 'r + 's"
    and inv :: "'s \<Rightarrow> bool"
  assumes step_inv: "inv s \<Longrightarrow> step s e = Inr t \<Longrightarrow> inv t"
begin

lemma run_inv: "inv s \<Longrightarrow> inv (run_machine step s es)"
  by (induction es arbitrary: s) (auto split: sum.splits dest: step_inv)

lemma run_prefix_inv:
  "inv s \<Longrightarrow> es = fs @ gs \<Longrightarrow> inv (run_machine step s fs)"
  by (rule run_inv)

end

end
