(* ===== verification/GoText.thy ===== *)
theory GoText
  imports GoBase
begin

text \<open>
  The parts of Go's \<open>strings\<close>, \<open>unicode/utf8\<close> and \<open>strconv\<close> packages that the program
  uses, on byte strings.

  \<open>trim_space\<close> removes every encoding of a rune for which \<open>unicode.IsSpace\<close> holds, so it
  is exact on arbitrary bytes.
\<close>

section \<open>White space\<close>

text \<open>The width in bytes of the white-space rune a string starts with, 0 if it starts with none.\<close>

definition ascii_space :: "char \<Rightarrow> bool" where
  "ascii_space c \<longleftrightarrow> c \<in> {CHR 0x09, CHR 0x0A, CHR 0x0B, CHR 0x0C, CHR 0x0D, CHR '' ''}"

definition latin_space :: "char \<Rightarrow> char \<Rightarrow> bool" where
  "latin_space c d \<longleftrightarrow> c = CHR 0xC2 \<and> d \<in> {CHR 0x85, CHR 0xA0}"

definition wide_space :: "char \<Rightarrow> char \<Rightarrow> char \<Rightarrow> bool" where
  "wide_space c d e \<longleftrightarrow>
     c = CHR 0xE1 \<and> d = CHR 0x9A \<and> e = CHR 0x80
     \<or> c = CHR 0xE2 \<and> d = CHR 0x80 \<and>
       e \<in> {CHR 0x80, CHR 0x81, CHR 0x82, CHR 0x83, CHR 0x84, CHR 0x85, CHR 0x86,
             CHR 0x87, CHR 0x88, CHR 0x89, CHR 0x8A, CHR 0xA8, CHR 0xA9, CHR 0xAF}
     \<or> c = CHR 0xE2 \<and> d = CHR 0x81 \<and> e = CHR 0x9F
     \<or> c = CHR 0xE3 \<and> d = CHR 0x80 \<and> e = CHR 0x80"

fun space_width :: "string \<Rightarrow> nat" where
  "space_width [] = 0"
| "space_width (c # cs) =
     (if ascii_space c then 1
      else case cs of
        [] \<Rightarrow> 0
      | d # ds \<Rightarrow>
          if latin_space c d then 2
          else case ds of
            [] \<Rightarrow> 0
          | e # _ \<Rightarrow> if wide_space c d e then 3 else 0)"

text \<open>The same for the end of a string, read on the reversed bytes.\<close>

fun space_width_rev :: "string \<Rightarrow> nat" where
  "space_width_rev [] = 0"
| "space_width_rev (c # cs) =
     (if ascii_space c then 1
      else case cs of
        [] \<Rightarrow> 0
      | d # ds \<Rightarrow>
          if latin_space d c then 2
          else case ds of
            [] \<Rightarrow> 0
          | e # _ \<Rightarrow> if wide_space e d c then 3 else 0)"

function strip_front :: "(string \<Rightarrow> nat) \<Rightarrow> string \<Rightarrow> string" where
  "strip_front w s = (if s = [] \<or> w s = 0 then s else strip_front w (drop (w s) s))"
  by pat_completeness auto
termination
  by (relation "measure (\<lambda>(w, s). length s)") auto

declare strip_front.simps [simp del]

definition trim_left :: "string \<Rightarrow> string" where
  "trim_left s = strip_front space_width s"

definition trim_right :: "string \<Rightarrow> string" where
  "trim_right s = rev (strip_front space_width_rev (rev s))"

text \<open>\<open>strings.TrimSpace\<close>.\<close>

definition trim_space :: "string \<Rightarrow> string" where
  "trim_space s = trim_right (trim_left s)"

lemma strip_front_Nil [simp]: "strip_front w [] = []"
  by (simp add: strip_front.simps)

lemma strip_front_stop: "w s = 0 \<Longrightarrow> strip_front w s = s"
  by (simp add: strip_front.simps)

lemma strip_front_step: "s \<noteq> [] \<Longrightarrow> w s \<noteq> 0 \<Longrightarrow> strip_front w s = strip_front w (drop (w s) s)"
  by (subst strip_front.simps) simp

lemma strip_front_done: "strip_front w s = [] \<or> w (strip_front w s) = 0"
proof (induction w s rule: strip_front.induct)
  case (1 w s)
  then show ?case by (cases "s = [] \<or> w s = 0") (auto simp: strip_front.simps [of w s])
qed

lemma strip_front_idem: "strip_front w (strip_front w s) = strip_front w s"
  using strip_front_done [of w s] by (auto simp: strip_front_stop)

lemma strip_front_suffix: "\<exists>p. s = p @ strip_front w s"
proof (induction w s rule: strip_front.induct)
  case (1 w s)
  show ?case
  proof (cases "s = [] \<or> w s = 0")
    case True
    then show ?thesis by (auto simp: strip_front.simps [of w s])
  next
    case False
    with 1 obtain p where "drop (w s) s = p @ strip_front w (drop (w s) s)" by blast
    then have "s = (take (w s) s @ p) @ strip_front w (drop (w s) s)"
      by (metis append.assoc append_take_drop_id)
    with False show ?thesis by (metis strip_front_step)
  qed
qed

lemma length_strip_front: "length (strip_front w s) \<le> length s"
  using strip_front_suffix [of s w] by (metis length_append le_add2)

text \<open>A prefix of a string that starts with no white space starts with none either.\<close>

lemma space_width_prefix: "space_width p \<noteq> 0 \<Longrightarrow> space_width (p @ q) \<noteq> 0"
  by (cases p rule: space_width.cases) (auto split: list.splits if_splits)

lemma trim_right_prefix: "\<exists>q. s = trim_right s @ q"
  using strip_front_suffix [of "rev s" space_width_rev]
  by (metis rev_append rev_rev_ident trim_right_def)

lemma trim_left_trim_right: "space_width s = 0 \<Longrightarrow> trim_left (trim_right s) = trim_right s"
  by (metis space_width_prefix strip_front_stop trim_left_def trim_right_prefix)

lemma trim_right_idem: "trim_right (trim_right s) = trim_right s"
  by (simp add: trim_right_def strip_front_idem)

lemma trim_space_Nil [simp]: "trim_space [] = []"
  by (simp add: trim_space_def trim_left_def trim_right_def)

lemma trim_space_idem [simp]: "trim_space (trim_space s) = trim_space s"
proof -
  have "trim_left s = [] \<or> space_width (trim_left s) = 0"
    unfolding trim_left_def by (rule strip_front_done)
  then show ?thesis
    by (auto simp: trim_space_def trim_left_trim_right trim_right_idem)
qed

lemma length_trim_space: "length (trim_space s) \<le> length s"
  by (metis le_trans length_rev length_strip_front trim_left_def trim_right_def trim_space_def)

lemma trim_space_infix: "\<exists>p q. s = p @ trim_space s @ q"
  by (metis strip_front_suffix trim_left_def trim_right_prefix trim_space_def)

definition blank :: "string \<Rightarrow> bool" where
  "blank s \<longleftrightarrow> trim_space s = []"

lemma blank_Nil [simp]: "blank []"
  by (simp add: blank_def)

lemma blank_trim_space [simp]: "blank (trim_space s) \<longleftrightarrow> blank s"
  by (simp add: blank_def)

lemma strip_front_eval:
  "strip_front w (c # cs) =
     (if w (c # cs) = 0 then c # cs else strip_front w (drop (w (c # cs)) (c # cs)))"
  by (simp add: strip_front.simps [of w "c # cs"])

text \<open>Rewriting a trimmed literal to its value.\<close>

lemmas trim_eval = trim_space_def trim_left_def trim_right_def strip_front_eval
  ascii_space_def latin_space_def wide_space_def

text \<open>\<open>strings.Fields\<close>: the words between runs of white space; the first argument is the word
  being read, reversed.\<close>

function fields_from :: "string \<Rightarrow> string \<Rightarrow> string list" where
  "fields_from cur s =
     (let word = (if cur = [] then [] else [rev cur]) in
      if s = [] then word
      else if space_width s = 0 then fields_from (hd s # cur) (tl s)
      else word @ fields_from [] (drop (space_width s) s))"
  by pat_completeness auto
termination
  by (relation "measure (\<lambda>(cur, s). length s)") auto

declare fields_from.simps [simp del]

definition Fields :: "string \<Rightarrow> string list" where
  "Fields s = fields_from [] s"

section \<open>Searching\<close>

definition has_prefix :: "string \<Rightarrow> string \<Rightarrow> bool" where
  "has_prefix s p \<longleftrightarrow> take (length p) s = p"

lemma has_prefix_Nil [simp]: "has_prefix s []"
  by (simp add: has_prefix_def)

lemma has_prefix_Nil2 [simp]: "has_prefix [] p \<longleftrightarrow> p = []"
  by (auto simp: has_prefix_def)

lemma has_prefix_Cons [simp]: "has_prefix (c # s) (d # p) \<longleftrightarrow> c = d \<and> has_prefix s p"
  by (auto simp: has_prefix_def)

lemma has_prefix_iff: "has_prefix s p \<longleftrightarrow> (\<exists>q. s = p @ q)"
  by (metis append_eq_conv_conj append_take_drop_id has_prefix_def)

lemma has_prefix_append [simp]: "has_prefix (p @ q) p"
  by (simp add: has_prefix_def)

lemma has_prefix_length: "has_prefix s p \<Longrightarrow> length p \<le> length s"
  by (metis has_prefix_def length_take min.cobounded1)

text \<open>\<open>strings.Index\<close>: the first position where the pattern occurs.\<close>

fun index_of :: "string \<Rightarrow> string \<Rightarrow> nat option" where
  "index_of [] p = (if p = [] then Some 0 else None)"
| "index_of (c # s) p =
     (if has_prefix (c # s) p then Some 0 else map_option Suc (index_of s p))"

definition contains :: "string \<Rightarrow> string \<Rightarrow> bool" where
  "contains s p \<longleftrightarrow> index_of s p \<noteq> None"

lemma index_of_Some:
  "index_of s p = Some i \<Longrightarrow> i + length p \<le> length s \<and> has_prefix (drop i s) p"
  by (induction s p arbitrary: i rule: index_of.induct)
    (auto dest: has_prefix_length split: if_splits)

lemma index_of_least: "index_of s p = Some i \<Longrightarrow> j < i \<Longrightarrow> \<not> has_prefix (drop j s) p"
proof (induction s p arbitrary: i j rule: index_of.induct)
  case (1 p)
  then show ?case by (auto split: if_splits)
next
  case (2 c s p)
  then show ?case by (cases j) (auto split: if_splits)
qed

lemma index_of_None: "index_of s p = None \<longleftrightarrow> (\<forall>u v. s \<noteq> u @ p @ v)"
proof (induction s p rule: index_of.induct)
  case (1 p)
  then show ?case by auto
next
  case (2 c s p)
  have "(\<exists>u v. c # s = u @ p @ v) \<longleftrightarrow> has_prefix (c # s) p \<or> (\<exists>u v. s = u @ p @ v)"
    unfolding has_prefix_iff by (metis append_Cons append_Nil append_eq_Cons_conv)
  with 2 show ?case by auto
qed

lemma contains_iff: "contains s p \<longleftrightarrow> (\<exists>u v. s = u @ p @ v)"
  by (auto simp: contains_def index_of_None)

lemma index_of_cut: "index_of s p = Some i \<Longrightarrow> s = take i s @ p @ drop (i + length p) s"
proof -
  assume i: "index_of s p = Some i"
  then obtain q where "drop i s = p @ q"
    using index_of_Some has_prefix_iff by blast
  then show ?thesis
    by (metis add.commute append_eq_conv_conj append_take_drop_id drop_drop)
qed

section \<open>Joining and rendering\<close>

text \<open>\<open>strings.Join\<close>.\<close>

fun join :: "string list \<Rightarrow> string \<Rightarrow> string" where
  "join [] sep = []"
| "join [x] sep = x"
| "join (x # y # ys) sep = x @ sep @ join (y # ys) sep"

text \<open>\<open>strings.ReplaceAll\<close> of one byte by one byte.\<close>

definition replace_byte :: "char \<Rightarrow> char \<Rightarrow> string \<Rightarrow> string" where
  "replace_byte a b s = map (\<lambda>c. if c = a then b else c) s"

text \<open>Decimal rendering, \<open>strconv.Itoa\<close> and the \<open>%d\<close> verb.\<close>

definition digit_char :: "nat \<Rightarrow> char" where
  "digit_char n = ''0123456789'' ! (n mod 10)"

fun decimal :: "nat \<Rightarrow> string" where
  "decimal n = (if n < 10 then [digit_char n] else decimal (n div 10) @ [digit_char n])"

declare decimal.simps [simp del]

definition itoa :: "int \<Rightarrow> string" where
  "itoa i = (if i < 0 then CHR ''-'' # decimal (nat (- i)) else decimal (nat i))"

text \<open>\<open>core.FirstNonempty\<close>: the first value that is not blank, or the empty string.\<close>

fun FirstNonempty :: "string list \<Rightarrow> string" where
  "FirstNonempty [] = []"
| "FirstNonempty (v # vs) = (if trim_space v \<noteq> [] then v else FirstNonempty vs)"

lemma FirstNonempty_spec:
  "FirstNonempty vs = (case filter (\<lambda>v. \<not> blank v) vs of [] \<Rightarrow> [] | v # _ \<Rightarrow> v)"
  by (induction vs) (auto simp: blank_def)

end
