(* ===== verification/GoRunes.thy ===== *)
theory GoRunes
  imports GoText
begin

text \<open>
  Runes: \<open>unicode/utf8\<close> on byte strings, \<open>strings.ToLower\<close>, and the text bounds of
  \<open>internal/core/text.go\<close> that every stored and displayed text of the program goes through.

  \<open>rune_width\<close> is the width of the encoding a string starts with, 0 where Go's decoder
  returns \<open>RuneError\<close> for a malformed byte.  \<open>to_lower\<close> decodes as \<open>strings.Map\<close> does (a
  malformed byte becomes the encoding of U+FFFD) and applies \<open>unicode.ToLower\<close>, whose table
  is the list of ranges \<open>lower_ranges\<close>: first rune, last rune, stride, difference.
\<close>

section \<open>Decoding and encoding\<close>

definition byte :: "char \<Rightarrow> nat" where
  "byte c = of_char c"

definition continuation :: "char \<Rightarrow> bool" where
  "continuation c \<longleftrightarrow> 128 \<le> byte c \<and> byte c \<le> 191"

text \<open>The least and the greatest second byte that may follow a first byte of three or four.\<close>

definition second_low :: "nat \<Rightarrow> nat" where
  "second_low b = (if b = 224 then 160 else if b = 240 then 144 else 128)"

definition second_high :: "nat \<Rightarrow> nat" where
  "second_high b = (if b = 237 then 159 else if b = 244 then 143 else 191)"

fun rune_width :: "string \<Rightarrow> nat" where
  "rune_width [] = 0"
| "rune_width (c # cs) =
     (let b = byte c in
      if b < 128 then 1
      else if b < 194 \<or> 244 < b then 0
      else case cs of
        [] \<Rightarrow> 0
      | d # ds \<Rightarrow>
          if byte d < second_low b \<or> second_high b < byte d then 0
          else if b < 224 then 2
          else case ds of
            [] \<Rightarrow> 0
          | e # es \<Rightarrow>
              if \<not> continuation e then 0
              else if b < 240 then 3
              else case es of [] \<Rightarrow> 0 | f # _ \<Rightarrow> if continuation f then 4 else 0)"

text \<open>The code point of a well-formed encoding.\<close>

fun rune_value :: "string \<Rightarrow> nat" where
  "rune_value [c] = byte c"
| "rune_value [c, d] = (byte c - 192) * 64 + (byte d - 128)"
| "rune_value [c, d, e] =
     (byte c - 224) * 4096 + (byte d - 128) * 64 + (byte e - 128)"
| "rune_value [c, d, e, f] =
     (byte c - 240) * 262144 + (byte d - 128) * 4096 + (byte e - 128) * 64 + (byte f - 128)"
| "rune_value _ = 65533"

definition encode_rune :: "nat \<Rightarrow> string" where
  "encode_rune r = map char_of
     (if r < 128 then [r]
      else if r < 2048 then [192 + r div 64, 128 + r mod 64]
      else if r < 65536 then [224 + r div 4096, 128 + r div 64 mod 64, 128 + r mod 64]
      else [240 + r div 262144, 128 + r div 4096 mod 64, 128 + r div 64 mod 64, 128 + r mod 64])"

lemma rune_width_le: "rune_width s \<le> length s"
  by (cases s rule: rune_width.cases) (auto simp: Let_def split: list.splits)

lemma rune_width_le4: "rune_width s \<le> 4"
  by (cases s rule: rune_width.cases) (auto simp: Let_def split: list.splits)

text \<open>The width only looks at the first bytes, so it is the same in every longer string.\<close>

lemma rune_width_append: "rune_width p \<noteq> 0 \<Longrightarrow> rune_width (p @ q) = rune_width p"
  by (cases p rule: rune_width.cases) (auto simp: Let_def split: list.splits if_splits)

lemma rune_width_take:
  "rune_width s \<le> n \<Longrightarrow> rune_width (take n s) = rune_width s"
  by (cases s rule: rune_width.cases; cases n)
    (auto simp: Let_def take_Cons' split: list.splits if_splits)

section \<open>Validity\<close>

text \<open>\<open>utf8.ValidString\<close>.\<close>

function valid_utf8 :: "string \<Rightarrow> bool" where
  "valid_utf8 s =
     (if s = [] then True
      else if rune_width s = 0 then False
      else valid_utf8 (drop (rune_width s) s))"
  by pat_completeness auto
termination
  by (relation "measure length") (auto simp: rune_width_le)

declare valid_utf8.simps [simp del]

lemma valid_utf8_Nil [simp]: "valid_utf8 []"
  by (simp add: valid_utf8.simps)

lemma valid_utf8_Cons:
  "valid_utf8 (c # cs) \<longleftrightarrow>
   rune_width (c # cs) \<noteq> 0 \<and> valid_utf8 (drop (rune_width (c # cs)) (c # cs))"
  by (simp add: valid_utf8.simps [of "c # cs"])

lemma valid_utf8_append: "valid_utf8 p \<Longrightarrow> valid_utf8 (p @ q) \<longleftrightarrow> valid_utf8 q"
proof (induction p rule: valid_utf8.induct)
  case (1 p)
  show ?case
  proof (cases "p = []")
    case False
    with 1 have "rune_width p \<noteq> 0" "valid_utf8 (drop (rune_width p) p)"
      by (auto simp: valid_utf8.simps [of p] split: if_splits)
    with False 1 show ?thesis
      by (auto simp: valid_utf8.simps [of "p @ q"] rune_width_append rune_width_le)
  qed simp
qed


text \<open>Every byte of an encoding after the first is a continuation byte, so an encoding never
  starts inside another one.\<close>

lemma second_bounds: "second_low b \<le> n \<Longrightarrow> n \<le> second_high b \<Longrightarrow> 128 \<le> n \<and> n \<le> 191"
  by (auto simp: second_low_def second_high_def split: if_splits)

lemma rune_width_continuation:
  "0 < i \<Longrightarrow> i < rune_width s \<Longrightarrow> continuation (s ! i)"
  by (cases s rule: rune_width.cases)
    (auto simp: Let_def nth_Cons' continuation_def not_less dest: second_bounds
      split: list.splits if_splits)

lemma valid_utf8_boundary:
  "valid_utf8 (p @ c # q) \<Longrightarrow> \<not> continuation c \<Longrightarrow> valid_utf8 p"
proof (induction p rule: valid_utf8.induct)
  case (1 p)
  let ?s = "p @ c # q"
  show ?case
  proof (cases "p = []")
    case False
    with "1.prems" have w: "rune_width ?s \<noteq> 0" "valid_utf8 (drop (rune_width ?s) ?s)"
      by (auto simp: valid_utf8.simps [of ?s] split: if_splits)
    have le: "rune_width ?s \<le> length p"
      using rune_width_continuation [of "length p" ?s] False "1.prems"(2) by fastforce
    from rune_width_take [OF this] have "rune_width p = rune_width ?s" by simp
    with w le False 1 show ?thesis by (simp add: valid_utf8.simps [of p])
  qed simp
qed

lemma ascii_space_byte: "ascii_space c \<Longrightarrow> \<not> continuation c \<and> rune_width (c # cs) = 1"
  unfolding ascii_space_def by (elim insertE) (simp_all add: byte_def continuation_def)

lemma latin_space_byte:
  "latin_space c d \<Longrightarrow> \<not> continuation c \<and> rune_width (c # d # ds) = 2"
  unfolding latin_space_def
  by (elim conjE insertE)
    (simp_all add: byte_def continuation_def second_low_def second_high_def)

lemma wide_space_byte:
  "wide_space c d e \<Longrightarrow> \<not> continuation c \<and> rune_width (c # d # e # es) = 3"
  unfolding wide_space_def
  by (elim conjE disjE insertE)
    (simp_all add: byte_def continuation_def second_low_def second_high_def)

lemma space_width_rune: "space_width s \<noteq> 0 \<Longrightarrow> rune_width s = space_width s"
  by (cases s rule: space_width.cases)
    (auto simp: ascii_space_byte latin_space_byte wide_space_byte simp del: rune_width.simps
      split: list.splits if_splits)

lemma valid_utf8_trim_left: "valid_utf8 s \<Longrightarrow> valid_utf8 (strip_front space_width s)"
proof (induction "length s" arbitrary: s rule: less_induct)
  case less
  show ?case
  proof (cases "s = [] \<or> space_width s = 0")
    case True
    then show ?thesis using less.prems by (auto simp: strip_front_stop)
  next
    case False
    with less.prems have "valid_utf8 (drop (space_width s) s)"
      by (auto simp: valid_utf8.simps [of s] space_width_rune split: if_splits)
    with False less.hyps [of "drop (space_width s) s"] show ?thesis
      by (simp add: strip_front_step)
  qed
qed

lemma space_width_rev_split:
  "space_width_rev r \<noteq> 0 \<Longrightarrow>
   \<exists>c q. rev r = rev (drop (space_width_rev r) r) @ c # q \<and> \<not> continuation c"
  by (cases r rule: space_width_rev.cases)
    (auto simp: ascii_space_byte latin_space_byte wide_space_byte split: list.splits if_splits)

lemma valid_utf8_trim_right:
  "valid_utf8 (rev r) \<Longrightarrow> valid_utf8 (rev (strip_front space_width_rev r))"
proof (induction "length r" arbitrary: r rule: less_induct)
  case less
  show ?case
  proof (cases "r = [] \<or> space_width_rev r = 0")
    case True
    then show ?thesis using less.prems by (auto simp: strip_front_stop)
  next
    case False
    with less.prems have "valid_utf8 (rev (drop (space_width_rev r) r))"
      using space_width_rev_split [of r] valid_utf8_boundary by metis
    with False less.hyps [of "drop (space_width_rev r) r"] show ?thesis
      by (simp add: strip_front_step)
  qed
qed

lemma valid_utf8_trim_space: "valid_utf8 s \<Longrightarrow> valid_utf8 (trim_space s)"
  using valid_utf8_trim_right [of "rev (trim_left s)"] valid_utf8_trim_left [of s]
  by (simp add: trim_space_def trim_right_def trim_left_def)

section \<open>Lower case\<close>

definition lower_ranges :: "(int \<times> int \<times> int \<times> int) list" where
  "lower_ranges = [
    (65, 90, 1, 32), (192, 214, 1, 32), (216, 222, 1, 32), (256, 302, 2, 1), (304, 304, 1, -199),
    (306, 310, 2, 1), (313, 327, 2, 1), (330, 374, 2, 1), (376, 376, 1, -121), (377, 381, 2, 1),
    (385, 385, 1, 210), (386, 388, 2, 1), (390, 390, 1, 206), (391, 391, 1, 1), (393, 394, 1, 205),
    (395, 395, 1, 1), (398, 398, 1, 79), (399, 399, 1, 202), (400, 400, 1, 203), (401, 401, 1, 1),
    (403, 403, 1, 205), (404, 404, 1, 207), (406, 406, 1, 211), (407, 407, 1, 209), (408, 408, 1,
    1), (412, 412, 1, 211), (413, 413, 1, 213), (415, 415, 1, 214), (416, 420, 2, 1), (422, 422, 1,
    218), (423, 423, 1, 1), (425, 425, 1, 218), (428, 428, 1, 1), (430, 430, 1, 218), (431, 431, 1,
    1), (433, 434, 1, 217), (435, 437, 2, 1), (439, 439, 1, 219), (440, 440, 1, 1), (444, 444, 1,
    1), (452, 452, 1, 2), (453, 453, 1, 1), (455, 455, 1, 2), (456, 456, 1, 1), (458, 458, 1, 2),
    (459, 475, 2, 1), (478, 494, 2, 1), (497, 497, 1, 2), (498, 500, 2, 1), (502, 502, 1, -97),
    (503, 503, 1, -56), (504, 542, 2, 1), (544, 544, 1, -130), (546, 562, 2, 1), (570, 570, 1,
    10795), (571, 571, 1, 1), (573, 573, 1, -163), (574, 574, 1, 10792), (577, 577, 1, 1), (579,
    579, 1, -195), (580, 580, 1, 69), (581, 581, 1, 71), (582, 590, 2, 1), (880, 882, 2, 1), (886,
    886, 1, 1), (895, 895, 1, 116), (902, 902, 1, 38), (904, 906, 1, 37), (908, 908, 1, 64), (910,
    911, 1, 63), (913, 929, 1, 32), (931, 939, 1, 32), (975, 975, 1, 8), (984, 1006, 2, 1), (1012,
    1012, 1, -60), (1015, 1015, 1, 1), (1017, 1017, 1, -7), (1018, 1018, 1, 1), (1021, 1023, 1,
    -130), (1024, 1039, 1, 80), (1040, 1071, 1, 32), (1120, 1152, 2, 1), (1162, 1214, 2, 1), (1216,
    1216, 1, 15), (1217, 1229, 2, 1), (1232, 1326, 2, 1), (1329, 1366, 1, 48), (4256, 4293, 1,
    7264), (4295, 4295, 1, 7264), (4301, 4301, 1, 7264), (5024, 5103, 1, 38864), (5104, 5109, 1, 8),
    (7312, 7354, 1, -3008), (7357, 7359, 1, -3008), (7680, 7828, 2, 1), (7838, 7838, 1, -7615),
    (7840, 7934, 2, 1), (7944, 7951, 1, -8), (7960, 7965, 1, -8), (7976, 7983, 1, -8), (7992, 7999,
    1, -8), (8008, 8013, 1, -8), (8025, 8031, 2, -8), (8040, 8047, 1, -8), (8072, 8079, 1, -8),
    (8088, 8095, 1, -8), (8104, 8111, 1, -8), (8120, 8121, 1, -8), (8122, 8123, 1, -74), (8124,
    8124, 1, -9), (8136, 8139, 1, -86), (8140, 8140, 1, -9), (8152, 8153, 1, -8), (8154, 8155, 1,
    -100), (8168, 8169, 1, -8), (8170, 8171, 1, -112), (8172, 8172, 1, -7), (8184, 8185, 1, -128),
    (8186, 8187, 1, -126), (8188, 8188, 1, -9), (8486, 8486, 1, -7517), (8490, 8490, 1, -8383),
    (8491, 8491, 1, -8262), (8498, 8498, 1, 28), (8544, 8559, 1, 16), (8579, 8579, 1, 1), (9398,
    9423, 1, 26), (11264, 11311, 1, 48), (11360, 11360, 1, 1), (11362, 11362, 1, -10743), (11363,
    11363, 1, -3814), (11364, 11364, 1, -10727), (11367, 11371, 2, 1), (11373, 11373, 1, -10780),
    (11374, 11374, 1, -10749), (11375, 11375, 1, -10783), (11376, 11376, 1, -10782), (11378, 11378,
    1, 1), (11381, 11381, 1, 1), (11390, 11391, 1, -10815), (11392, 11490, 2, 1), (11499, 11501, 2,
    1), (11506, 11506, 1, 1), (42560, 42604, 2, 1), (42624, 42650, 2, 1), (42786, 42798, 2, 1),
    (42802, 42862, 2, 1), (42873, 42875, 2, 1), (42877, 42877, 1, -35332), (42878, 42886, 2, 1),
    (42891, 42891, 1, 1), (42893, 42893, 1, -42280), (42896, 42898, 2, 1), (42902, 42920, 2, 1),
    (42922, 42922, 1, -42308), (42923, 42923, 1, -42319), (42924, 42924, 1, -42315), (42925, 42925,
    1, -42305), (42926, 42926, 1, -42308), (42928, 42928, 1, -42258), (42929, 42929, 1, -42282),
    (42930, 42930, 1, -42261), (42931, 42931, 1, 928), (42932, 42946, 2, 1), (42948, 42948, 1, -48),
    (42949, 42949, 1, -42307), (42950, 42950, 1, -35384), (42951, 42953, 2, 1), (42960, 42960, 1,
    1), (42966, 42968, 2, 1), (42997, 42997, 1, 1), (65313, 65338, 1, 32), (66560, 66599, 1, 40),
    (66736, 66771, 1, 40), (66928, 66938, 1, 39), (66940, 66954, 1, 39), (66956, 66962, 1, 39),
    (66964, 66965, 1, 39), (68736, 68786, 1, 64), (71840, 71871, 1, 32), (93760, 93791, 1, 32),
    (125184, 125217, 1, 34)]"

text \<open>\<open>unicode.ToLower\<close>.\<close>

definition rune_lower :: "nat \<Rightarrow> nat" where
  "rune_lower r =
     (if r < 128 then (if 65 \<le> r \<and> r \<le> 90 then r + 32 else r)
      else case find (\<lambda>(lo, hi, st, d). lo \<le> int r \<and> int r \<le> hi \<and> (int r - lo) mod st = 0)
             lower_ranges of
        None \<Rightarrow> r
      | Some (lo, hi, st, d) \<Rightarrow> nat (int r + d))"

text \<open>\<open>strings.ToLower\<close>: one rune at a time, a malformed byte read as U+FFFD.\<close>

function to_lower :: "string \<Rightarrow> string" where
  "to_lower s =
     (if s = [] then []
      else if rune_width s = 0 then encode_rune 65533 @ to_lower (drop 1 s)
      else encode_rune (rune_lower (rune_value (take (rune_width s) s)))
             @ to_lower (drop (rune_width s) s))"
  by pat_completeness auto
termination
  by (relation "measure length") auto

declare to_lower.simps [simp del]

lemma to_lower_Nil [simp]: "to_lower [] = []"
  by (simp add: to_lower.simps)

definition lower_byte :: "char \<Rightarrow> char" where
  "lower_byte c = (if 65 \<le> byte c \<and> byte c \<le> 90 then char_of (byte c + 32) else c)"

text \<open>On ASCII text it is the map of a byte function, and idempotent.\<close>

lemma to_lower_ascii_Cons: "byte c < 128 \<Longrightarrow> to_lower (c # cs) = lower_byte c # to_lower cs"
  by (simp add: to_lower.simps [of "c # cs"] Let_def encode_rune_def rune_lower_def
        lower_byte_def byte_def)

lemma to_lower_ascii: "\<forall>c \<in> set s. byte c < 128 \<Longrightarrow> to_lower s = map lower_byte s"
  by (induction s) (auto simp: to_lower_ascii_Cons)

lemma lower_byte_idem [simp]: "lower_byte (lower_byte c) = lower_byte c"
  by (auto simp: lower_byte_def byte_def)

lemma lower_byte_ascii: "byte c < 128 \<Longrightarrow> byte (lower_byte c) < 128"
  by (auto simp: lower_byte_def byte_def)

lemma to_lower_ascii_idem: "\<forall>c \<in> set s. byte c < 128 \<Longrightarrow> to_lower (to_lower s) = to_lower s"
  by (simp add: to_lower_ascii lower_byte_ascii)

section \<open>The text bounds of core/text.go\<close>

lemma invalid_shrinks: "\<not> valid_utf8 s \<Longrightarrow> length (butlast s) < length s"
  by (cases s) auto

text \<open>The loop of \<open>TruncateUTF8\<close>: the last byte is dropped until what is left is valid.\<close>

function cut_to_valid :: "string \<Rightarrow> string" where
  "cut_to_valid s = (if valid_utf8 s then s else cut_to_valid (butlast s))"
  by pat_completeness auto
termination
  by (relation "measure length") (rule wf_measure, unfold in_measure, erule invalid_shrinks)

declare cut_to_valid.simps [simp del]

definition TruncateUTF8 :: "string \<Rightarrow> int \<Rightarrow> string" where
  "TruncateUTF8 value limit =
     (if limit \<le> 0 then []
      else if int (length value) \<le> limit then value
      else trim_space (cut_to_valid (take (nat limit) value)))"

definition BoundedText :: "string \<Rightarrow> int \<Rightarrow> string" where
  "BoundedText value limit = TruncateUTF8 (trim_space value) limit"

definition TruncateUTF8WithSuffix :: "string \<Rightarrow> int \<Rightarrow> string \<Rightarrow> string" where
  "TruncateUTF8WithSuffix value limit sfx =
     (if int (length value) \<le> limit then value
      else TruncateUTF8 value (limit - int (length sfx)) @ sfx)"

definition PromptTruncationMarker :: string where
  "PromptTruncationMarker =
     '' '' @ [CHR 0xE2, CHR 0x80, CHR 0xA6] @ ''[the host cut the rest of this message to fit]''"

definition TruncateForPrompt :: "string \<Rightarrow> int \<Rightarrow> string" where
  "TruncateForPrompt value limit = TruncateUTF8WithSuffix value limit PromptTruncationMarker"

lemma valid_cut_to_valid: "valid_utf8 (cut_to_valid s)"
  by (induction s rule: cut_to_valid.induct) (subst cut_to_valid.simps, simp)

lemma cut_to_valid_prefix: "\<exists>q. s = cut_to_valid s @ q"
proof (induction s rule: cut_to_valid.induct)
  case (1 s)
  show ?case
  proof (cases "valid_utf8 s")
    case True
    then show ?thesis by (simp add: cut_to_valid.simps [of s])
  next
    case False
    then have "s = butlast s @ [last s]" by (metis append_butlast_last_id valid_utf8_Nil)
    with 1 [OF False] False show ?thesis
      by (metis append.assoc cut_to_valid.simps)
  qed
qed

lemma cut_to_valid_longest:
  "valid_utf8 p \<Longrightarrow> s = p @ r \<Longrightarrow> length p \<le> length (cut_to_valid s)"
proof (induction s arbitrary: p r rule: cut_to_valid.induct)
  case (1 s)
  show ?case
  proof (cases "valid_utf8 s")
    case True
    then have "cut_to_valid s = s" by (simp add: cut_to_valid.simps [of s])
    with "1.prems" show ?thesis by simp
  next
    case False
    with "1.prems" have "r \<noteq> []" by auto
    with "1.prems" have "butlast s = p @ butlast r" by (simp add: butlast_append)
    with "1.IH" [OF False] "1.prems"(1) False show ?thesis
      by (simp add: cut_to_valid.simps [of s])
  qed
qed

lemma length_cut_to_valid: "length (cut_to_valid s) \<le> length s"
  using cut_to_valid_prefix [of s] by (metis length_append le_add1)

text \<open>A valid text has a rune boundary in every window of four positions.\<close>

lemma valid_utf8_near:
  "valid_utf8 s \<Longrightarrow> n \<le> length s \<Longrightarrow> \<exists>k. k \<le> n \<and> n \<le> k + 3 \<and> valid_utf8 (take k s)"
proof (induction s arbitrary: n rule: valid_utf8.induct)
  case (1 s)
  show ?case
  proof (cases "n < rune_width s \<or> s = []")
    case True
    then show ?thesis using rune_width_le4 [of s] 1(3)
      by (intro exI [of _ 0]) auto
  next
    case False
    let ?w = "rune_width s"
    from False 1(2) have w: "?w \<noteq> 0" and v: "valid_utf8 (drop ?w s)"
      by (auto simp: valid_utf8.simps [of s] split: if_splits)
    have "n - ?w \<le> length (drop ?w s)" using 1(3) by simp
    from 1(1) [OF _ w v this] False obtain k where
      k: "k \<le> n - ?w" "n - ?w \<le> k + 3" "valid_utf8 (take k (drop ?w s))"
      by blast
    have take: "take (?w + k) s = take ?w s @ take k (drop ?w s)" by (simp add: take_add)
    have "valid_utf8 (take ?w s)"
      using w False by (simp add: valid_utf8.simps [of "take ?w s"] rune_width_take)
    with take k(3) have "valid_utf8 (take (?w + k) s)" by (simp add: valid_utf8_append)
    with k False show ?thesis by (intro exI [of _ "?w + k"]) auto
  qed
qed

lemma length_TruncateUTF8: "int (length (TruncateUTF8 value limit)) \<le> max 0 limit"
proof -
  have "length (trim_space (cut_to_valid (take (nat limit) value))) \<le> nat limit"
    by (metis le_trans length_cut_to_valid length_take length_trim_space min.cobounded2)
  then show ?thesis by (auto simp: TruncateUTF8_def)
qed

lemma TruncateUTF8_valid: "valid_utf8 value \<Longrightarrow> valid_utf8 (TruncateUTF8 value limit)"
  by (simp add: TruncateUTF8_def valid_utf8_trim_space valid_cut_to_valid)

text \<open>What is cut from a valid text beyond the bound itself is at most three bytes and the white
  space at its ends.\<close>

lemma cut_to_valid_near:
  assumes "valid_utf8 value" and "n \<le> length value"
  shows "n \<le> length (cut_to_valid (take n value)) + 3"
proof -
  from valid_utf8_near [OF assms] obtain k where
    k: "k \<le> n" "n \<le> k + 3" "valid_utf8 (take k value)" by blast
  have "take n value = take k value @ drop k (take n value)"
    by (metis append_take_drop_id k(1) min.absorb1 take_take)
  from cut_to_valid_longest [OF k(3) this] k assms(2) show ?thesis by simp
qed

end
