(* ===== verification/GoTime.thy ===== *)
theory GoTime
  imports GoText
begin

text \<open>
  Instants and durations.  A \<open>time.Time\<close> is the number of nanoseconds since the zero time,
  1 January of year 1 in UTC, so \<open>IsZero\<close> is equality with 0; a \<open>time.Duration\<close> is an
  integer number of nanoseconds.  The theory has the calendar that \<open>Format\<close> needs and the
  stored text form of \<open>internal/core/time.go\<close>: text order is chronological order.
\<close>

section \<open>Instants\<close>

datatype gotime = Time (nanos: int)

instantiation gotime :: linorder
begin

definition less_eq_gotime :: "gotime \<Rightarrow> gotime \<Rightarrow> bool" where
  "less_eq_gotime s t \<longleftrightarrow> nanos s \<le> nanos t"

definition less_gotime :: "gotime \<Rightarrow> gotime \<Rightarrow> bool" where
  "less_gotime s t \<longleftrightarrow> nanos s < nanos t"

instance
  by standard (auto simp: less_eq_gotime_def less_gotime_def gotime.expand)

end

lemma gotime_order [simp]: "Time a \<le> Time b \<longleftrightarrow> a \<le> b" "Time a < Time b \<longleftrightarrow> a < b"
  by (simp_all add: less_eq_gotime_def less_gotime_def)

definition ZeroTime :: gotime where
  "ZeroTime = Time 0"

definition IsZero :: "gotime \<Rightarrow> bool" where
  "IsZero t \<longleftrightarrow> nanos t = 0"

lemma IsZero_iff: "IsZero t \<longleftrightarrow> t = ZeroTime"
  by (cases t) (simp add: IsZero_def ZeroTime_def)

lemma IsZero_simps [simp]: "IsZero (Time n) \<longleftrightarrow> n = 0" "IsZero ZeroTime"
  by (simp_all add: IsZero_def ZeroTime_def)

definition second :: int where "second = 10 ^ 9"
definition minute :: int where "minute = 60 * second"
definition hour :: int where "hour = 60 * minute"
definition day :: int where "day = 24 * hour"

lemmas duration_units = second_def minute_def hour_def day_def

text \<open>\<open>Time.Add\<close>, and \<open>Time.Sub\<close>, which saturates at the range of \<open>int64\<close>.\<close>

definition time_add :: "gotime \<Rightarrow> int \<Rightarrow> gotime" where
  "time_add t d = Time (nanos t + d)"

definition time_sub :: "gotime \<Rightarrow> gotime \<Rightarrow> int" where
  "time_sub s t = max (- (2 ^ 63)) (min (2 ^ 63 - 1) (nanos s - nanos t))"

lemma time_add_simps [simp]:
  "nanos (time_add t d) = nanos t + d" "time_add (Time n) d = Time (n + d)"
  by (simp_all add: time_add_def)

lemma time_add_less: "s < time_add t d \<longleftrightarrow> nanos s < nanos t + d"
  by (simp add: less_gotime_def)

section \<open>The calendar\<close>

text \<open>Days from 1 January of year 1 to 1 January of year \<open>y\<close>.\<close>

definition days_before_year :: "int \<Rightarrow> int" where
  "days_before_year y =
     365 * (y - 1) + (y - 1) div 4 - (y - 1) div 100 + (y - 1) div 400"

definition leap_year :: "int \<Rightarrow> bool" where
  "leap_year y \<longleftrightarrow> y mod 4 = 0 \<and> (y mod 100 \<noteq> 0 \<or> y mod 400 = 0)"

definition year_of_day :: "int \<Rightarrow> int" where
  "year_of_day d =
     (let y = 400 * d div 146097 in
      if days_before_year (y + 2) \<le> d then y + 2
      else if days_before_year (y + 1) \<le> d then y + 1 else y)"

definition month_starts :: "bool \<Rightarrow> int list" where
  "month_starts leap =
     (if leap then [0, 31, 60, 91, 121, 152, 182, 213, 244, 274, 305, 335]
      else [0, 31, 59, 90, 120, 151, 181, 212, 243, 273, 304, 334])"

definition month_of :: "bool \<Rightarrow> int \<Rightarrow> nat" where
  "month_of leap yday = length (takeWhile (\<lambda>s. s \<le> yday) (month_starts leap))"

fun civil :: "int \<Rightarrow> int \<times> int \<times> int" where
  "civil d =
     (let y = year_of_day d; yday = d - days_before_year y;
          m = month_of (leap_year y) yday
      in (y, int m, yday - month_starts (leap_year y) ! (m - 1) + 1))"

section \<open>Rendering\<close>

fun fixed_digits :: "nat \<Rightarrow> nat \<Rightarrow> string" where
  "fixed_digits 0 n = []"
| "fixed_digits (Suc w) n = fixed_digits w (n div 10) @ [digit_char n]"

text \<open>Zero padding of the layout fields; a number wider than its field is written in full.\<close>

definition pad :: "nat \<Rightarrow> int \<Rightarrow> string" where
  "pad w n = (if 0 \<le> n \<and> n < 10 ^ w then fixed_digits w (nat n) else itoa n)"

definition day_text :: "int \<Rightarrow> string" where
  "day_text n = (case civil n of (y, m, d) \<Rightarrow> pad 4 y @ ''-'' @ pad 2 m @ ''-'' @ pad 2 d)"

definition date_text :: "gotime \<Rightarrow> string" where
  "date_text t = day_text (nanos t div day)"

definition clock_text :: "gotime \<Rightarrow> string" where
  "clock_text t =
     pad 2 (nanos t mod day div hour) @ '':'' @ pad 2 (nanos t mod hour div minute) @ '':''
       @ pad 2 (nanos t mod minute div second)"

text \<open>\<open>Format(time.RFC3339)\<close> and \<open>Format(core.TimestampFormat)\<close> of an instant in UTC.\<close>

definition format_rfc3339 :: "gotime \<Rightarrow> string" where
  "format_rfc3339 t = date_text t @ ''T'' @ clock_text t @ ''Z''"

definition TimestampText :: "gotime \<Rightarrow> string" where
  "TimestampText t =
     date_text t @ ''T'' @ clock_text t @ ''.'' @ pad 9 (nanos t mod second) @ ''Z''"

definition PermanentExpiry :: gotime where
  "PermanentExpiry = Time (days_before_year 10000 * day - 1)"

definition IsPermanentExpiry :: "gotime \<Rightarrow> bool" where
  "IsPermanentExpiry t \<longleftrightarrow> \<not> t < PermanentExpiry"

section \<open>Calendar arithmetic\<close>

lemma div_plus_one:
  "0 < (k::int) \<Longrightarrow> (n + 1) div k = n div k + (if (n + 1) mod k = 0 then 1 else 0)"
proof -
  assume k: "0 < k"
  have n: "n = k * (n div k) + n mod k" "0 \<le> n mod k" "n mod k < k" using k by simp_all
  show ?thesis
  proof (cases "n mod k = k - 1")
    case True
    with n have "n + 1 = k * (n div k + 1)" by (simp add: algebra_simps)
    then show ?thesis using k by simp
  next
    case False
    have a: "n + 1 = k * (n div k) + (n mod k + 1)" "n mod k + 1 < k" using n False by linarith+
    then have "(n + 1) mod k = n mod k + 1"
      using n by (intro int_mod_pos_eq [of _ _ "n div k"]) auto
    moreover have "(n + 1) div k = n div k"
      using n a by (intro int_div_pos_eq [of _ _ _ "n mod k + 1"]) auto
    ultimately show ?thesis using n(2) by simp
  qed
qed

lemma div_bounds:
  assumes "0 < (k::int)"
  shows "k * (n div k) \<le> n" "n < k * (n div k) + k"
proof -
  have "n = k * (n div k) + n mod k" by simp
  then show "k * (n div k) \<le> n" "n < k * (n div k) + k"
    using assms pos_mod_sign [of k n] pos_mod_bound [of k n] by linarith+
qed

lemma div_minus_one:
  "0 < (k::int) \<Longrightarrow> y div k = (y - 1) div k + (if y mod k = 0 then 1 else 0)"
  using div_plus_one [of k "y - 1"] by simp

lemma step_cases:
  fixes a b c n :: int
  assumes "p100 \<Longrightarrow> p4" and "p400 \<Longrightarrow> p100"
  shows "365 * n + (a + (if p4 then 1 else 0)) - (b + (if p100 then 1 else 0))
      + (c + (if p400 then 1 else 0))
    = 365 * (n - 1) + a - b + c + (if p4 \<and> (\<not> p100 \<or> p400) then 366 else 365)"
  using assms by (cases p4; cases p100; cases p400) auto

lemma days_before_year_step:
  "days_before_year (y + 1) = days_before_year y + (if leap_year y then 366 else 365)"
proof -
  have "y mod 100 = 0 \<Longrightarrow> y mod 4 = 0" "y mod 400 = 0 \<Longrightarrow> y mod 100 = 0"
    using dvd_trans [of 4 100 y] dvd_trans [of 100 400 y] by (simp_all add: mod_eq_0_iff_dvd)
  then show ?thesis
    unfolding days_before_year_def leap_year_def add_diff_cancel_right'
      div_minus_one [of 4 y, OF zero_less_numeral] div_minus_one [of 100 y, OF zero_less_numeral]
      div_minus_one [of 400 y, OF zero_less_numeral]
    by (rule step_cases)
qed

lemma days_before_year_less_Suc: "days_before_year y < days_before_year (y + 1)"
  by (simp add: days_before_year_step)

lemma days_before_year_mono: "x \<le> y \<Longrightarrow> days_before_year x \<le> days_before_year y"
proof (induction y rule: int_ge_induct)
  case (step y)
  then show ?case using days_before_year_less_Suc [of y] by simp
qed simp

lemma days_before_year_bounds:
  "400 * days_before_year y \<le> 146097 * (y - 1) + 400"
  "146097 * (y - 1) - 800 < 400 * days_before_year y"
proof -
  define n where "n = y - 1"
  define a b c where "a = n div 4" and "b = n div 100" and "c = n div 400"
  have "4 * a \<le> n" "n < 4 * a + 4" "100 * b \<le> n" "n < 100 * b + 100"
    "400 * c \<le> n" "n < 400 * c + 400"
    unfolding a_def b_def c_def
    using div_bounds [of 4 n] div_bounds [of 100 n] div_bounds [of 400 n] by simp_all
  then show "400 * days_before_year y \<le> 146097 * (y - 1) + 400"
    "146097 * (y - 1) - 800 < 400 * days_before_year y"
    unfolding days_before_year_def n_def [symmetric] a_def [symmetric] b_def [symmetric]
      c_def [symmetric] by (simp_all add: algebra_simps)
qed

text \<open>The year of a day is the one whose days enclose it.\<close>

lemma year_of_day:
  "days_before_year (year_of_day d) \<le> d" "d < days_before_year (year_of_day d + 1)"
proof -
  define y where "y = 400 * d div 146097"
  have y: "146097 * y \<le> 400 * d" "400 * d < 146097 * y + 146097"
    unfolding y_def using div_bounds [of 146097 "400 * d"] by simp_all
  have "days_before_year y \<le> d"
    using days_before_year_bounds(1) [of y] y by (simp add: algebra_simps)
  moreover have "d < days_before_year (y + 3)"
    using days_before_year_bounds(2) [of "y + 3"] y by (simp add: algebra_simps)
  ultimately show "days_before_year (year_of_day d) \<le> d" "d < days_before_year (year_of_day d + 1)"
    unfolding year_of_day_def y_def [symmetric] by (auto simp: Let_def add.assoc)
qed

lemma year_of_day_unique:
  assumes "days_before_year y \<le> d" and "d < days_before_year (y + 1)"
  shows "year_of_day d = y"
proof (rule ccontr)
  assume "year_of_day d \<noteq> y"
  then have "year_of_day d + 1 \<le> y \<or> y + 1 \<le> year_of_day d" by linarith
  then show False
    using days_before_year_mono [of "year_of_day d + 1" y]
      days_before_year_mono [of "y + 1" "year_of_day d"] year_of_day [of d] assms by auto
qed

lemma year_of_day_mono: "d \<le> e \<Longrightarrow> year_of_day d \<le> year_of_day e"
  using days_before_year_mono [of "year_of_day e + 1" "year_of_day d"] year_of_day [of d]
    year_of_day [of e] by linarith

lemma month_of_mono: "a \<le> b \<Longrightarrow> month_of l a \<le> month_of l b"
proof -
  have "length (takeWhile (\<lambda>s. s \<le> a) xs) \<le> length (takeWhile (\<lambda>s. s \<le> b) xs)"
    if "a \<le> b" for xs using that by (induction xs) auto
  then show "a \<le> b \<Longrightarrow> month_of l a \<le> month_of l b" by (simp add: month_of_def)
qed

lemma month_of_bounds:
  assumes "0 \<le> n" and "n < (if l then 366 else 365)"
  shows "1 \<le> month_of l n" "month_of l n \<le> 12"
    "month_starts l ! (month_of l n - 1) \<le> n" "n < month_starts l ! (month_of l n - 1) + 31"
  using assms by (auto simp: month_of_def month_starts_def split: if_splits)

section \<open>Text order of stored instants\<close>

text \<open>Two texts of the same length are compared at their first field that differs.\<close>

lemma append_less_iff:
  "length u = length v \<Longrightarrow> u @ x < v @ y \<longleftrightarrow> u < v \<or> u = v \<and> x < (y :: string)"
  by (induction u v rule: list_induct2) auto

lemma digit_char_less: "m < 10 \<Longrightarrow> n < 10 \<Longrightarrow> digit_char m < digit_char n \<longleftrightarrow> m < n"
proof -
  assume "m < 10" "n < 10"
  moreover have "\<forall>m \<in> set [0..<10]. \<forall>n \<in> set [0..<10]. digit_char m < digit_char n \<longleftrightarrow> m < n"
    by code_simp
  ultimately show ?thesis by simp
qed

lemma digit_char_mod [simp]: "digit_char (n mod 10) = digit_char n"
  by (simp add: digit_char_def)

lemma length_fixed_digits [simp]: "length (fixed_digits w n) = w"
  by (induction w n rule: fixed_digits.induct) auto

lemma fixed_digits_less:
  "m < 10 ^ w \<Longrightarrow> n < 10 ^ w \<Longrightarrow> m < n \<Longrightarrow> fixed_digits w m < fixed_digits w n"
proof (induction w arbitrary: m n)
  case (Suc w)
  have d: "m div 10 < 10 ^ w" "n div 10 < 10 ^ w" using Suc.prems by auto
  show ?case
  proof (cases "m div 10 = n div 10")
    case True
    with Suc.prems(3) have "m mod 10 < n mod 10"
      by (metis div_mult_mod_eq nat_add_left_cancel_less)
    then have "digit_char m < digit_char n"
      using digit_char_less [of "m mod 10" "n mod 10"] by simp
    with True show ?thesis by (simp add: append_less_iff)
  next
    case False
    with Suc.prems(3) have "m div 10 < n div 10" by (simp add: div_le_mono le_neq_implies_less)
    from Suc.IH [OF d this] show ?thesis by (simp add: append_less_iff)
  qed
qed simp

lemma length_pad: "0 \<le> n \<Longrightarrow> n < 10 ^ w \<Longrightarrow> length (pad w n) = w"
  by (simp add: pad_def)

lemma pad_less: "0 \<le> m \<Longrightarrow> m < n \<Longrightarrow> n < 10 ^ w \<Longrightarrow> pad w m < pad w n"
proof -
  assume a: "0 \<le> m" "m < n" "n < 10 ^ w"
  then have "nat m < nat n" "nat n < 10 ^ w" by (simp_all add: nat_less_iff)
  moreover from this have "nat m < 10 ^ w" by simp
  ultimately show ?thesis using a by (simp add: pad_def fixed_digits_less)
qed

text \<open>One field of a layout: a smaller value, or an equal one and a smaller rest.\<close>

lemma field_less:
  assumes "0 \<le> m" "0 \<le> n" "m < 10 ^ w" "n < 10 ^ w" and "m < n \<or> m = n \<and> x < y"
  shows "pad w m @ x < pad w n @ (y :: string)"
  using assms by (auto simp: append_less_iff length_pad pad_less)

text \<open>The fields of a date within the years 1 to 9999, and their order.\<close>

lemma year_of_day_range:
  assumes "0 \<le> d" "d < days_before_year 10000"
  shows "1 \<le> year_of_day d" "year_of_day d < 10000"
proof -
  have "year_of_day 0 = 1" by (rule year_of_day_unique) (simp_all add: days_before_year_def)
  with year_of_day_mono [OF assms(1)] show "1 \<le> year_of_day d" by simp
  show "year_of_day d < 10000"
    using days_before_year_mono [of 10000 "year_of_day d"] year_of_day(1) [of d] assms(2)
    by linarith
qed

definition month_day :: "int \<Rightarrow> nat \<times> int" where
  "month_day d =
     (let y = year_of_day d; yday = d - days_before_year y; m = month_of (leap_year y) yday
      in (m, yday - month_starts (leap_year y) ! (m - 1) + 1))"

lemma day_text_month_day:
  "day_text d = pad 4 (year_of_day d) @ ''-'' @ pad 2 (int (fst (month_day d))) @ ''-''
     @ pad 2 (snd (month_day d))"
  by (simp add: day_text_def month_day_def Let_def)

lemma month_day_range:
  "1 \<le> fst (month_day d)" "fst (month_day d) \<le> 12" "1 \<le> snd (month_day d)" "snd (month_day d) \<le> 31"
proof -
  let ?y = "year_of_day d"
  have "0 \<le> d - days_before_year ?y" "d - days_before_year ?y < (if leap_year ?y then 366 else 365)"
    using year_of_day [of d] days_before_year_step [of ?y] by (simp_all split: if_splits)
  from month_of_bounds [OF this] show
    "1 \<le> fst (month_day d)" "fst (month_day d) \<le> 12"
    "1 \<le> snd (month_day d)" "snd (month_day d) \<le> 31"
    by (simp_all add: month_day_def Let_def)
qed

lemma month_day_less:
  assumes "d < e" and "year_of_day d = year_of_day e"
  shows "fst (month_day d) < fst (month_day e)
    \<or> fst (month_day d) = fst (month_day e) \<and> snd (month_day d) < snd (month_day e)"
  using month_of_mono [of "d - days_before_year (year_of_day e)"
      "e - days_before_year (year_of_day e)" "leap_year (year_of_day e)"] assms
  by (auto simp: month_day_def Let_def)

lemma day_text_less:
  assumes "0 \<le> d" "e < days_before_year 10000" and "d < e \<or> d = e \<and> x < z"
  shows "day_text d @ x < day_text e @ z"
proof -
  have r: "1 \<le> year_of_day d" "year_of_day d < 10000" "1 \<le> year_of_day e" "year_of_day e < 10000"
    using assms by (auto intro: year_of_day_range)
  have "year_of_day d < year_of_day e \<or> year_of_day d = year_of_day e \<and>
      (fst (month_day d) < fst (month_day e) \<or> fst (month_day d) = fst (month_day e) \<and>
        (snd (month_day d) < snd (month_day e) \<or> snd (month_day d) = snd (month_day e) \<and> x < z))"
    using assms(3) month_day_less [of d e] year_of_day_mono [of d e] by fastforce
  then show ?thesis
    using r month_day_range [of d] month_day_range [of e]
    by (auto simp: day_text_month_day intro!: field_less)
qed

lemma zdiv_less: "0 < (k::int) \<Longrightarrow> n < j * k \<Longrightarrow> n div k < j"
  using div_bounds(1) [of k n] by (metis le_less_trans mult.commute mult_less_cancel_right_pos)

lemma div_mod_less:
  assumes "0 < (k::int)" and "a < b"
  shows "a div k < b div k \<or> a div k = b div k \<and> a mod k < b mod k"
proof (cases "a div k = b div k")
  case True
  then show ?thesis
    using mult_div_mod_eq [of k a] mult_div_mod_eq [of k b] assms(2)
    by (metis add_less_cancel_left)
next
  case False
  with zdiv_mono1 [of a b k] assms show ?thesis by simp
qed

lemma mod_units [simp]:
  "n mod day mod hour = n mod hour" "n mod hour mod minute = n mod minute"
  "n mod minute mod second = n mod second"
  by (simp_all add: mod_mod_cancel hour_def day_def minute_def)

lemma unit_range:
  "0 \<le> n mod day div hour \<and> n mod day div hour < 24"
  "0 \<le> n mod hour div minute \<and> n mod hour div minute < 60"
  "0 \<le> n mod minute div second \<and> n mod minute div second < 60"
  "0 \<le> n mod second \<and> n mod second < 10 ^ 9"
proof -
  have *: "0 \<le> n mod (j * k) div k \<and> n mod (j * k) div k < j" if "0 < j" "0 < k" for j k :: int
    using that by (simp add: pos_imp_zdiv_nonneg_iff zdiv_less)
  show "0 \<le> n mod day div hour \<and> n mod day div hour < 24"
    "0 \<le> n mod hour div minute \<and> n mod hour div minute < 60"
    "0 \<le> n mod minute div second \<and> n mod minute div second < 60"
    "0 \<le> n mod second \<and> n mod second < 10 ^ 9"
    using *[of 24 hour] *[of 60 minute] *[of 60 second] by (simp_all add: duration_units)
qed

lemma clock_text_less:
  assumes "nanos s mod day < nanos t mod day"
  shows "clock_text s @ CHR ''.'' # pad 9 (nanos s mod second) @ x
    < clock_text t @ CHR ''.'' # pad 9 (nanos t mod second) @ (z :: string)"
proof -
  have k: "0 < hour" "0 < minute" "0 < second" by (simp_all add: duration_units)
  let ?a = "nanos s" and ?b = "nanos t"
  have "?a mod day div hour < ?b mod day div hour \<or> ?a mod day div hour = ?b mod day div hour \<and>
      (?a mod hour div minute < ?b mod hour div minute \<or>
        ?a mod hour div minute = ?b mod hour div minute \<and>
        (?a mod minute div second < ?b mod minute div second \<or>
          ?a mod minute div second = ?b mod minute div second \<and> ?a mod second < ?b mod second))"
    using div_mod_less [OF k(1) assms] div_mod_less [OF k(2), of "?a mod hour" "?b mod hour"]
      div_mod_less [OF k(3), of "?a mod minute" "?b mod minute"] by auto
  then show ?thesis
    using unit_range [of ?a] unit_range [of ?b]
    by (auto simp: clock_text_def intro!: field_less)
qed

lemma TimestampText_mono:
  assumes "ZeroTime \<le> s" and "s < t" and "t \<le> PermanentExpiry"
  shows "TimestampText s < TimestampText t"
proof -
  have "0 < day" by (simp add: duration_units)
  from div_mod_less [OF this, of "nanos s" "nanos t"] assms(2)
  have "nanos s div day < nanos t div day \<or>
      nanos s div day = nanos t div day \<and> nanos s mod day < nanos t mod day"
    by (simp add: less_gotime_def)
  moreover have "0 \<le> nanos s div day"
    using assms(1) \<open>0 < day\<close> by (simp add: ZeroTime_def less_eq_gotime_def pos_imp_zdiv_nonneg_iff)
  moreover have "nanos t div day < days_before_year 10000"
    using assms(3) \<open>0 < day\<close>
    by (simp add: PermanentExpiry_def less_eq_gotime_def zdiv_less)
  ultimately show ?thesis
    using clock_text_less [of s t]
    by (auto simp: TimestampText_def date_text_def intro!: day_text_less)
qed

end
