(* ===== verification/Timing.thy ===== *)
theory Timing
  imports GoTime
begin

text \<open>
  The bounded delays of the program: \<open>internal/retrydelay/retrydelay.go\<close> (exponential
  retries, dependency polling, session generations) and
  \<open>internal/schedule/external_poll.go\<close> (the fallback poll of a model-authored wait).
  Durations are nanoseconds; the floating-point power of \<open>Duration\<close> is taken at an integer
  exponent from 1 to 9, where it is exact.
\<close>

definition Duration :: "int \<Rightarrow> int" where
  "Duration attempt = min 300 (2 ^ nat (min (max attempt 1) 9)) * second"

text \<open>Go's integer division truncates toward zero.\<close>

definition quot :: "int \<Rightarrow> int \<Rightarrow> int" where
  "quot a b = (if a < 0 then - (- a div b) else a div b)"

definition DependencyWait :: "int \<Rightarrow> int" where
  "DependencyWait waited = min (max (quot waited 8) second) (15 * second)"

definition At :: "gotime \<Rightarrow> int \<Rightarrow> int \<Rightarrow> gotime" where
  "At now attempt minimum = time_add now (max (Duration attempt) minimum)"

definition Exhausted :: "int \<Rightarrow> int \<Rightarrow> bool" where
  "Exhausted attempt maximum \<longleftrightarrow> maximum \<le> attempt"

definition NextSessionGeneration :: "int \<Rightarrow> int \<Rightarrow> bool \<Rightarrow> int" where
  "NextSessionGeneration current observed unusable =
     (let nxt = max current observed in
      if unusable \<and> 0 < observed then max nxt (observed + 1) else nxt)"

definition minimumTerraformPollInterval :: int where
  "minimumTerraformPollInterval = 10 * minute"

definition BoundedExternalPollAfter ::
    "string \<Rightarrow> gotime \<Rightarrow> gotime \<Rightarrow> gotime \<Rightarrow> gotime" where
  "BoundedExternalPollAfter kind pollAfter deadline now =
     (if kind \<noteq> ''terraform_run'' \<or> IsZero pollAfter then pollAfter
      else
        let earliest = time_add now minimumTerraformPollInterval;
            earliest = (if \<not> IsZero deadline \<and> deadline < earliest then deadline else earliest)
        in if pollAfter < earliest then earliest else pollAfter)"

section \<open>Lemmas\<close>

lemma Duration_clamp: "Duration attempt = min 300 (2 ^ nat (min (max attempt 1) 9)) * 10 ^ 9"
  by (simp add: Duration_def second_def)

lemma Duration_mono: "a \<le> b \<Longrightarrow> Duration a \<le> Duration b"
proof -
  assume "a \<le> b"
  then have "nat (min (max a 1) 9) \<le> nat (min (max b 1) 9)" by simp
  then have "(2::int) ^ nat (min (max a 1) 9) \<le> 2 ^ nat (min (max b 1) 9)"
    by (rule power_increasing) simp
  then show ?thesis by (simp add: Duration_clamp min.coboundedI2)
qed

lemma Duration_range: "2 * second \<le> Duration attempt \<and> Duration attempt \<le> 300 * second"
proof -
  have "(2::int) ^ 1 \<le> 2 ^ nat (min (max attempt 1) 9)" by (rule power_increasing) simp_all
  then show ?thesis by (simp add: Duration_def second_def)
qed

lemma Duration_saturates: "9 \<le> attempt \<Longrightarrow> Duration attempt = 300 * second"
  by (simp add: Duration_def)

lemma Duration_doubles: "1 \<le> a \<Longrightarrow> a < 8 \<Longrightarrow> Duration (a + 1) = 2 * Duration a"
proof -
  assume "1 \<le> a" "a < 8"
  then have a: "nat (a + 1) = Suc (nat a)" "nat a \<le> 7" by simp_all
  have "(2::int) ^ nat a \<le> 2 ^ 7" using a(2) by (rule power_increasing) simp
  with a \<open>1 \<le> a\<close> \<open>a < 8\<close> show ?thesis by (simp add: Duration_def)
qed

text \<open>Retry delays: every delay is between two seconds and five minutes, never shrinks as
  attempts grow, doubles with every attempt up to the eighth, and is five minutes from the
  ninth on.\<close>

theorem Duration_schedule:
  "2 * second \<le> Duration a \<and> Duration a \<le> 300 * second
   \<and> Duration a \<le> Duration (a + 1)
   \<and> Duration (a + 1) = (if 1 \<le> a \<and> a < 8 then 2 * Duration a
                          else if a < 1 then 2 * second else 300 * second)"
proof -
  have "Duration (a + 1) = 2 * second" if "a < 1" using that by (simp add: Duration_def)
  moreover have "Duration (a + 1) = 300 * second" if "8 \<le> a"
    using that by (simp add: Duration_saturates)
  ultimately show ?thesis
    using Duration_range [of a] Duration_mono [of a "a + 1"] Duration_doubles [of a] by auto
qed

text \<open>An external poll never runs sooner than ten minutes from now, unless the wait's own
  deadline is sooner, and is never moved earlier than the model asked; other kinds of wait and
  an absent poll time are left alone.\<close>

theorem BoundedExternalPollAfter_bounds:
  "BoundedExternalPollAfter kind pollAfter deadline now =
     (if kind = ''terraform_run'' \<and> pollAfter \<noteq> ZeroTime
      then max pollAfter
        (if deadline = ZeroTime then time_add now (10 * minute)
         else min deadline (time_add now (10 * minute)))
      else pollAfter)"
  by (auto simp: BoundedExternalPollAfter_def minimumTerraformPollInterval_def IsZero_iff
      Let_def max_def min_def not_less)

end
