(* ===== verification/CoreModel.thy ===== *)
theory CoreModel
  imports GoTime
begin

text \<open>
  The data model of \<open>internal/core/model.go\<close>: the records the components share, field by
  field in the order of the source, each field name prefixed with its record's abbreviation.
  The string-typed enumerations stay strings, because the values come from the database and
  from a model's output and the code's \<open>default\<close> branches handle the unknown ones; their
  constants are abbreviations.  A nil pointer is \<open>None\<close>, a JSON payload its bytes, and a
  string map an association list.
\<close>

section \<open>Enumerations\<close>

abbreviation SignalFiring :: string where "SignalFiring \<equiv> ''firing''"
abbreviation SignalResolved :: string where "SignalResolved \<equiv> ''resolved''"
abbreviation IncidentActive :: string where "IncidentActive \<equiv> ''active''"
abbreviation IncidentMonitoring :: string where "IncidentMonitoring \<equiv> ''monitoring''"
abbreviation IncidentResolved :: string where "IncidentResolved \<equiv> ''resolved''"
abbreviation IncidentClosed :: string where "IncidentClosed \<equiv> ''closed''"
abbreviation WorkflowProvisioningChannel :: string where "WorkflowProvisioningChannel \<equiv> ''provisioning_channel''"
abbreviation WorkflowProvisioningSession :: string where "WorkflowProvisioningSession \<equiv> ''provisioning_session''"
abbreviation WorkflowHolding :: string where "WorkflowHolding \<equiv> ''holding''"
abbreviation WorkflowInvestigating :: string where "WorkflowInvestigating \<equiv> ''investigating''"
abbreviation WorkflowParked :: string where "WorkflowParked \<equiv> ''parked''"
abbreviation WorkflowBlocked :: string where "WorkflowBlocked \<equiv> ''blocked''"
abbreviation WorkflowClosing :: string where "WorkflowClosing \<equiv> ''closing''"
abbreviation WorkflowClosed :: string where "WorkflowClosed \<equiv> ''closed''"
abbreviation ChannelPending :: string where "ChannelPending \<equiv> ''pending''"
abbreviation ChannelActive :: string where "ChannelActive \<equiv> ''active''"
abbreviation ChannelArchived :: string where "ChannelArchived \<equiv> ''archived''"
abbreviation ChannelDeleted :: string where "ChannelDeleted \<equiv> ''deleted''"
abbreviation ChannelUnreachable :: string where "ChannelUnreachable \<equiv> ''unreachable''"
abbreviation WorkKindIncident :: string where "WorkKindIncident \<equiv> ''incident''"
abbreviation WorkKindEngineeringTask :: string where "WorkKindEngineeringTask \<equiv> ''engineering_task''"
abbreviation WorkScopeRoom :: string where "WorkScopeRoom \<equiv> ''room''"
abbreviation WorkScopeThread :: string where "WorkScopeThread \<equiv> ''thread''"
abbreviation AgentRunTriage :: string where "AgentRunTriage \<equiv> ''triage''"
abbreviation AgentRunIncident :: string where "AgentRunIncident \<equiv> ''incident''"
abbreviation AgentRunEngineeringTask :: string where "AgentRunEngineeringTask \<equiv> ''engineering_task''"
abbreviation AgentRunPending :: string where "AgentRunPending \<equiv> ''pending''"
abbreviation AgentRunPreparing :: string where "AgentRunPreparing \<equiv> ''preparing''"
abbreviation AgentRunRunning :: string where "AgentRunRunning \<equiv> ''running''"
abbreviation AgentRunApplying :: string where "AgentRunApplying \<equiv> ''applying''"
abbreviation AgentRunFinalizing :: string where "AgentRunFinalizing \<equiv> ''finalizing''"
abbreviation AgentRunCompleted :: string where "AgentRunCompleted \<equiv> ''completed''"
abbreviation AgentRunFailed :: string where "AgentRunFailed \<equiv> ''failed''"
abbreviation AgentRunCancelled :: string where "AgentRunCancelled \<equiv> ''cancelled''"
abbreviation AgentRunSuperseded :: string where "AgentRunSuperseded \<equiv> ''superseded''"
abbreviation EffortConversational :: string where "EffortConversational \<equiv> ''conversational''"
abbreviation EffortFocusedCheck :: string where "EffortFocusedCheck \<equiv> ''focused_check''"
abbreviation EffortOperationalAssessment :: string where "EffortOperationalAssessment \<equiv> ''operational_assessment''"
abbreviation EffortIncidentInvestigation :: string where "EffortIncidentInvestigation \<equiv> ''incident_investigation''"
abbreviation EffortEngineeringTask :: string where "EffortEngineeringTask \<equiv> ''engineering_task''"
abbreviation AuthorityReadOnly :: string where "AuthorityReadOnly \<equiv> ''read_only''"
abbreviation AuthorityRepositoryWrite :: string where "AuthorityRepositoryWrite \<equiv> ''repository_write''"
abbreviation AuthorityGovernedOperation :: string where "AuthorityGovernedOperation \<equiv> ''governed_operation''"
abbreviation ActivityInvestigating :: string where "ActivityInvestigating \<equiv> ''investigating''"
abbreviation ActivityExplaining :: string where "ActivityExplaining \<equiv> ''explaining''"
abbreviation ActivityScheduling :: string where "ActivityScheduling \<equiv> ''scheduling''"
abbreviation ActivityEngineering :: string where "ActivityEngineering \<equiv> ''engineering''"
abbreviation ActivityOperating :: string where "ActivityOperating \<equiv> ''operating''"
abbreviation EpisodeAccepted :: string where "EpisodeAccepted \<equiv> ''accepted''"
abbreviation EpisodeAcknowledged :: string where "EpisodeAcknowledged \<equiv> ''acknowledged''"
abbreviation EpisodePlanning :: string where "EpisodePlanning \<equiv> ''planning''"
abbreviation EpisodeWorking :: string where "EpisodeWorking \<equiv> ''working''"
abbreviation EpisodeBlocked :: string where "EpisodeBlocked \<equiv> ''blocked''"
abbreviation EpisodeWaitingOperator :: string where "EpisodeWaitingOperator \<equiv> ''waiting_operator''"
abbreviation EpisodeWaitingExternal :: string where "EpisodeWaitingExternal \<equiv> ''waiting_external''"
abbreviation EpisodeWaitingApproval :: string where "EpisodeWaitingApproval \<equiv> ''waiting_approval''"
abbreviation EpisodeRetrying :: string where "EpisodeRetrying \<equiv> ''retrying''"
abbreviation EpisodeVerifying :: string where "EpisodeVerifying \<equiv> ''verifying''"
abbreviation EpisodeCompleted :: string where "EpisodeCompleted \<equiv> ''completed''"
abbreviation EpisodeFailed :: string where "EpisodeFailed \<equiv> ''failed''"
abbreviation EpisodeRefused :: string where "EpisodeRefused \<equiv> ''refused''"
abbreviation EpisodeCancelled :: string where "EpisodeCancelled \<equiv> ''cancelled''"
abbreviation EpisodeSuperseded :: string where "EpisodeSuperseded \<equiv> ''superseded''"
abbreviation EpisodeConversation :: string where "EpisodeConversation \<equiv> ''conversation''"
abbreviation EpisodeCheck :: string where "EpisodeCheck \<equiv> ''check''"
abbreviation EpisodeIncident :: string where "EpisodeIncident \<equiv> ''incident''"
abbreviation EpisodeEngineering :: string where "EpisodeEngineering \<equiv> ''engineering''"
abbreviation EpisodeScheduledVerification :: string where "EpisodeScheduledVerification \<equiv> ''scheduled_verification''"
abbreviation EpisodeStandingAssignment :: string where "EpisodeStandingAssignment \<equiv> ''standing_assignment''"
abbreviation GoalPlanned :: string where "GoalPlanned \<equiv> ''planned''"
abbreviation GoalReady :: string where "GoalReady \<equiv> ''ready''"
abbreviation GoalWorking :: string where "GoalWorking \<equiv> ''working''"
abbreviation GoalWaiting :: string where "GoalWaiting \<equiv> ''waiting''"
abbreviation GoalCompleted :: string where "GoalCompleted \<equiv> ''completed''"
abbreviation GoalBlocked :: string where "GoalBlocked \<equiv> ''blocked''"
abbreviation GoalExcluded :: string where "GoalExcluded \<equiv> ''excluded''"
abbreviation GoalCancelled :: string where "GoalCancelled \<equiv> ''cancelled''"
abbreviation PublicationReviewing :: string where "PublicationReviewing \<equiv> ''reviewing''"
abbreviation PublicationPublishing :: string where "PublicationPublishing \<equiv> ''publishing''"
abbreviation PublicationRetrying :: string where "PublicationRetrying \<equiv> ''retrying''"
abbreviation PublicationFailed :: string where "PublicationFailed \<equiv> ''failed''"
abbreviation PublicationPublished :: string where "PublicationPublished \<equiv> ''published''"
abbreviation PublicationStale :: string where "PublicationStale \<equiv> ''stale''"
abbreviation PublicationFailureNoChanges :: string where "PublicationFailureNoChanges \<equiv> ''no_changes''"
abbreviation PublicationFailureSessionBinding :: string where "PublicationFailureSessionBinding \<equiv> ''session_binding''"

section \<open>Records\<close>

record PullRequestTarget =
  prt_Repository :: string
  prt_Number :: int
  prt_URL :: string
  prt_BaseBranch :: string
  prt_HeadBranch :: string
  prt_HeadCommit :: string

record Signal =
  sig_Route :: string
  sig_SourceID :: string
  sig_SourceIncidentID :: string
  sig_EventID :: string
  sig_Repository :: string
  sig_CorrelationKey :: string
  sig_Status :: string
  sig_Title :: string
  sig_Severity :: string
  sig_Summary :: string
  sig_SourceURL :: string
  sig_Labels :: "(string \<times> string) list"
  sig_Annotations :: "(string \<times> string) list"
  sig_StartsAt :: gotime
  sig_EndsAt :: gotime
  sig_ReceivedAt :: gotime
  sig_ResolveAfter :: int

record Incident =
  inc_ID :: string
  inc_Route :: string
  inc_Repository :: string
  inc_CorrelationKey :: string
  inc_SourceIncidentID :: string
  inc_WorkKind :: string
  inc_WorkScope :: string
  inc_OriginChannelID :: string
  inc_OriginThreadTS :: string
  inc_TaskPullRequest :: "PullRequestTarget option"
  inc_Title :: string
  inc_Severity :: string
  inc_Status :: string
  inc_Workflow :: string
  inc_SignalCount :: int
  inc_FiringCount :: int
  inc_ChannelID :: string
  inc_ChannelName :: string
  inc_ChannelState :: string
  inc_ChannelStateChangedAt :: gotime
  inc_ChannelCheckedAt :: gotime
  inc_RootTS :: string
  inc_CoopSessionID :: string
  inc_CoopForkName :: string
  inc_CoopSessionGeneration :: int
  inc_CoopRevision :: int
  inc_CoopEventSequence :: int
  inc_ActiveTurnID :: string
  inc_InitialTurnQueued :: bool
  inc_CardVersion :: int
  inc_CardRenderedVersion :: int
  inc_LastError :: string
  inc_LatestUpdate :: string
  inc_LatestUpdateRunID :: string
  inc_LatestUpdateRunKey :: string
  inc_ChangesMessageTS :: string
  inc_ChangesStat :: string
  inc_CreatedAt :: gotime
  inc_UpdatedAt :: gotime
  inc_LastFiringAt :: gotime
  inc_ResolveDueAt :: gotime
  inc_ResolvedAt :: gotime
  inc_ClosedAt :: gotime

record SlackReaction =
  rct_Name :: string
  rct_Count :: int
  rct_UserIDs :: "string list"

record SlackAttachment =
  att_ID :: string
  att_Name :: string
  att_MediaType :: string
  att_Size :: int
  att_URLPrivate :: string

record SlackInput =
  inp_ID :: string
  inp_EnvelopeID :: string
  inp_EventID :: string
  inp_Kind :: string
  inp_TeamID :: string
  inp_ChannelID :: string
  inp_ThreadTS :: string
  inp_MessageTS :: string
  inp_UserID :: string
  inp_Text :: string
  inp_Attachments :: "SlackAttachment list"
  inp_Reactions :: "SlackReaction list"
  inp_ActionID :: string
  inp_ActionValue :: string
  inp_Frozen :: string
  inp_State :: string
  inp_Attempts :: int
  inp_Failures :: int
  inp_ReceivedAt :: gotime

record Evidence =
  ev_ID :: string
  ev_IncidentID :: string
  ev_ChannelID :: string
  ev_SourceInput :: string
  ev_ClaimID :: string
  ev_Claim :: string
  ev_Observation :: string
  ev_Relation :: string
  ev_HealthEffect :: string
  ev_SourceType :: string
  ev_SourceID :: string
  ev_SourceName :: string
  ev_SourceURL :: string
  ev_Target :: string
  ev_ScopeNote :: string
  ev_Freshness :: string
  ev_Confidence :: string
  ev_ObservedAt :: gotime
  ev_ValidUntil :: gotime
  ev_Dimensions :: "(string \<times> string) list"
  ev_Metadata :: "(string \<times> string) list"
  ev_Supersedes :: "string list"
  ev_CreatedAt :: gotime

record Coverage =
  cov_ID :: string
  cov_IncidentID :: string
  cov_ChannelID :: string
  cov_SourceInput :: string
  cov_Layer :: string
  cov_ClaimIDs :: "string list"
  cov_Status :: string
  cov_Source :: string
  cov_Detail :: string
  cov_ObservedAt :: gotime
  cov_CreatedAt :: gotime

record ClaimAssessment =
  asm_ID :: string
  asm_EpisodeID :: string
  asm_ClaimID :: string
  asm_Status :: string
  asm_Confidence :: string
  asm_EvidenceIDs :: "string list"
  asm_ContradictionIDs :: "string list"
  asm_Detail :: string
  asm_UpdatedAt :: gotime

record ConversationRef =
  cnv_Platform :: string
  cnv_WorkspaceID :: string
  cnv_ChannelID :: string
  cnv_ThreadTS :: string
  cnv_AnchorTS :: string
  cnv_Visibility :: string

record BoundDestination =
  dst_ChannelID :: string
  dst_ThreadTS :: string
  dst_Reason :: string

record WorkEpisode =
  ep_ID :: string
  ep_WorkspaceID :: string
  ep_ParentEpisodeID :: string
  ep_Mode :: string
  ep_Conversation :: ConversationRef
  ep_Destination :: BoundDestination
  ep_DestinationRevision :: int
  ep_Revision :: int
  ep_LatestAttemptID :: string
  ep_AuthoritySnapshot :: string
  ep_AgentRunID :: string
  ep_Effort :: string
  ep_Authority :: string
  ep_Activity :: string
  ep_State :: string
  ep_Objective :: string
  ep_RequiredCoverage :: "string list"
  ep_CompletionCriteria :: "string list"
  ep_Phase :: string
  ep_Status :: string
  ep_NextAction :: string
  ep_EventSequence :: int
  ep_ProgressSequence :: int
  ep_LastProgressAt :: gotime
  ep_LastActivityAt :: gotime
  ep_ProgressDueAt :: gotime
  ep_CreatedAt :: gotime
  ep_UpdatedAt :: gotime
  ep_CompletedAt :: gotime

record EpisodeGoal =
  goal_ID :: string
  goal_EpisodeID :: string
  goal_ParentGoalID :: string
  goal_PrerequisiteGoalIDs :: "string list"
  goal_Kind :: string
  goal_RequestedOutcome :: string
  goal_CompletionContract :: string
  goal_WritableRepository :: string
  goal_ReadOnlyRepositories :: "string list"
  goal_AuthorityRequirement :: string
  goal_Required :: bool
  goal_State :: string
  goal_Blocker :: string
  goal_CreatedAt :: gotime
  goal_UpdatedAt :: gotime
  goal_CompletedAt :: gotime

record WorkEpisodeEvent =
  evt_ID :: string
  evt_EpisodeID :: string
  evt_Sequence :: int
  evt_Kind :: string
  evt_Actor :: string
  evt_IdempotencyKey :: string
  evt_Payload :: string
  evt_CreatedAt :: gotime

record AgentRun =
  run_ID :: string
  run_EpisodeID :: string
  run_AttemptID :: string
  run_AttemptNumber :: int
  run_Mode :: string
  run_IncidentID :: string
  run_ChannelID :: string
  run_ThreadTS :: string
  run_ConversationKey :: string
  run_SourceKind :: string
  run_SourceID :: string
  run_UserID :: string
  run_Repository :: string
  run_Prompt :: string
  run_IdempotencyKey :: string
  run_SessionID :: string
  run_SessionGeneration :: int
  run_ExpectedRevision :: int
  run_CoopTurnID :: string
  run_CoopEventSequence :: int
  run_Context :: string
  run_Result :: string
  run_TerminalState :: string
  run_State :: string
  run_Failures :: int
  run_NextAttemptAt :: gotime
  run_LastError :: string
  run_CreatedAt :: gotime
  run_UpdatedAt :: gotime
  run_StartedAt :: gotime
  run_CompletedAt :: gotime
  run_CommitmentTitle :: string
  run_Episode :: "WorkEpisode option"

record TimelineEvent =
  tl_ID :: string
  tl_IncidentID :: string
  tl_ChannelID :: string
  tl_Kind :: string
  tl_ActorID :: string
  tl_Title :: string
  tl_Detail :: string
  tl_URL :: string
  tl_EvidenceIDs :: "string list"
  tl_CreatedAt :: gotime

record EmisarApproval =
  apr_RequestID :: string
  apr_IncidentID :: string
  apr_EpisodeID :: string
  apr_ChannelID :: string
  apr_SourceInput :: string
  apr_RequestedBy :: string
  apr_DeliveryID :: string
  apr_MessageTS :: string
  apr_RunID :: string
  apr_OperationID :: string
  apr_ActionID :: string
  apr_PackRef :: string
  apr_RunnerRef :: string
  apr_Status :: string
  apr_ApprovalURL :: string
  apr_RunURL :: string
  apr_LastError :: string
  apr_FailureCount :: int
  apr_ContinuationQueued :: bool
  apr_NextCheckAt :: gotime
  apr_ExpiresAt :: gotime
  apr_TerminalAt :: gotime
  apr_CreatedAt :: gotime
  apr_UpdatedAt :: gotime

record Publication =
  pub_IncidentID :: string
  pub_EpisodeID :: string
  pub_AttemptInputID :: string
  pub_Generation :: int
  pub_Repository :: string
  pub_BaseBranch :: string
  pub_HeadBranch :: string
  pub_ParentHead :: string
  pub_CandidateTree :: string
  pub_CommitSHA :: string
  pub_RemoteSHA :: string
  pub_PRNumber :: int
  pub_PRURL :: string
  pub_State :: string
  pub_FailureCode :: string
  pub_LastError :: string
  pub_CreatedAt :: gotime
  pub_UpdatedAt :: gotime
  pub_PublishedAt :: gotime

record PublicationFollowup =
  fol_IncidentID :: string
  fol_PRState :: string
  fol_ChecksState :: string
  fol_ChecksTotal :: int
  fol_ChecksPassed :: int
  fol_ChecksFailed :: int
  fol_ChecksURL :: string
  fol_MergeSHA :: string
  fol_MergedAt :: gotime
  fol_NextCheckAt :: gotime
  fol_FailureCount :: int
  fol_LastError :: string
  fol_LastEventKey :: string
  fol_CreatedAt :: gotime
  fol_UpdatedAt :: gotime

record PublicationLifecycleEvent =
  ple_ID :: string
  ple_IncidentID :: string
  ple_Kind :: string
  ple_State :: string
  ple_Summary :: string
  ple_SourceChannelID :: string
  ple_SourceMessageTS :: string
  ple_CreatedAt :: gotime

section \<open>Zero values\<close>

text \<open>Go's zero value of each record.\<close>

definition zero_PullRequestTarget :: PullRequestTarget where
  "zero_PullRequestTarget =
    \<lparr>
      prt_Repository = [], prt_Number = 0, prt_URL = [], prt_BaseBranch = [], prt_HeadBranch =
      [], prt_HeadCommit = []\<rparr>"

definition zero_Signal :: Signal where
  "zero_Signal =
    \<lparr>
      sig_Route = [], sig_SourceID = [], sig_SourceIncidentID = [], sig_EventID = [],
      sig_Repository = [], sig_CorrelationKey = [], sig_Status = [], sig_Title = [],
      sig_Severity = [], sig_Summary = [], sig_SourceURL = [], sig_Labels = [], sig_Annotations
      = [], sig_StartsAt = ZeroTime, sig_EndsAt = ZeroTime, sig_ReceivedAt = ZeroTime,
      sig_ResolveAfter = 0\<rparr>"

definition zero_Incident :: Incident where
  "zero_Incident =
    \<lparr>
      inc_ID = [], inc_Route = [], inc_Repository = [], inc_CorrelationKey = [],
      inc_SourceIncidentID = [], inc_WorkKind = [], inc_WorkScope = [], inc_OriginChannelID =
      [], inc_OriginThreadTS = [], inc_TaskPullRequest = None, inc_Title = [], inc_Severity =
      [], inc_Status = [], inc_Workflow = [], inc_SignalCount = 0, inc_FiringCount = 0,
      inc_ChannelID = [], inc_ChannelName = [], inc_ChannelState = [], inc_ChannelStateChangedAt
      = ZeroTime, inc_ChannelCheckedAt = ZeroTime, inc_RootTS = [], inc_CoopSessionID = [],
      inc_CoopForkName = [], inc_CoopSessionGeneration = 0, inc_CoopRevision = 0,
      inc_CoopEventSequence = 0, inc_ActiveTurnID = [], inc_InitialTurnQueued = False,
      inc_CardVersion = 0, inc_CardRenderedVersion = 0, inc_LastError = [], inc_LatestUpdate =
      [], inc_LatestUpdateRunID = [], inc_LatestUpdateRunKey = [], inc_ChangesMessageTS = [],
      inc_ChangesStat = [], inc_CreatedAt = ZeroTime, inc_UpdatedAt = ZeroTime, inc_LastFiringAt
      = ZeroTime, inc_ResolveDueAt = ZeroTime, inc_ResolvedAt = ZeroTime, inc_ClosedAt =
      ZeroTime\<rparr>"

definition zero_SlackReaction :: SlackReaction where
  "zero_SlackReaction =
    \<lparr>
      rct_Name = [], rct_Count = 0, rct_UserIDs = []\<rparr>"

definition zero_SlackAttachment :: SlackAttachment where
  "zero_SlackAttachment =
    \<lparr>
      att_ID = [], att_Name = [], att_MediaType = [], att_Size = 0, att_URLPrivate = []\<rparr>"

definition zero_SlackInput :: SlackInput where
  "zero_SlackInput =
    \<lparr>
      inp_ID = [], inp_EnvelopeID = [], inp_EventID = [], inp_Kind = [], inp_TeamID = [],
      inp_ChannelID = [], inp_ThreadTS = [], inp_MessageTS = [], inp_UserID = [], inp_Text = [],
      inp_Attachments = [], inp_Reactions = [], inp_ActionID = [], inp_ActionValue = [],
      inp_Frozen = [], inp_State = [], inp_Attempts = 0, inp_Failures = 0, inp_ReceivedAt =
      ZeroTime\<rparr>"

definition zero_Evidence :: Evidence where
  "zero_Evidence =
    \<lparr>
      ev_ID = [], ev_IncidentID = [], ev_ChannelID = [], ev_SourceInput = [], ev_ClaimID = [],
      ev_Claim = [], ev_Observation = [], ev_Relation = [], ev_HealthEffect = [], ev_SourceType
      = [], ev_SourceID = [], ev_SourceName = [], ev_SourceURL = [], ev_Target = [],
      ev_ScopeNote = [], ev_Freshness = [], ev_Confidence = [], ev_ObservedAt = ZeroTime,
      ev_ValidUntil = ZeroTime, ev_Dimensions = [], ev_Metadata = [], ev_Supersedes = [],
      ev_CreatedAt = ZeroTime\<rparr>"

definition zero_Coverage :: Coverage where
  "zero_Coverage =
    \<lparr>
      cov_ID = [], cov_IncidentID = [], cov_ChannelID = [], cov_SourceInput = [], cov_Layer =
      [], cov_ClaimIDs = [], cov_Status = [], cov_Source = [], cov_Detail = [], cov_ObservedAt =
      ZeroTime, cov_CreatedAt = ZeroTime\<rparr>"

definition zero_ClaimAssessment :: ClaimAssessment where
  "zero_ClaimAssessment =
    \<lparr>
      asm_ID = [], asm_EpisodeID = [], asm_ClaimID = [], asm_Status = [], asm_Confidence = [],
      asm_EvidenceIDs = [], asm_ContradictionIDs = [], asm_Detail = [], asm_UpdatedAt = ZeroTime\<rparr>"

definition zero_ConversationRef :: ConversationRef where
  "zero_ConversationRef =
    \<lparr>
      cnv_Platform = [], cnv_WorkspaceID = [], cnv_ChannelID = [], cnv_ThreadTS = [],
      cnv_AnchorTS = [], cnv_Visibility = []\<rparr>"

definition zero_BoundDestination :: BoundDestination where
  "zero_BoundDestination =
    \<lparr>
      dst_ChannelID = [], dst_ThreadTS = [], dst_Reason = []\<rparr>"

definition zero_WorkEpisode :: WorkEpisode where
  "zero_WorkEpisode =
    \<lparr>
      ep_ID = [], ep_WorkspaceID = [], ep_ParentEpisodeID = [], ep_Mode = [], ep_Conversation =
      zero_ConversationRef, ep_Destination = zero_BoundDestination, ep_DestinationRevision = 0,
      ep_Revision = 0, ep_LatestAttemptID = [], ep_AuthoritySnapshot = [], ep_AgentRunID = [],
      ep_Effort = [], ep_Authority = [], ep_Activity = [], ep_State = [], ep_Objective = [],
      ep_RequiredCoverage = [], ep_CompletionCriteria = [], ep_Phase = [], ep_Status = [],
      ep_NextAction = [], ep_EventSequence = 0, ep_ProgressSequence = 0, ep_LastProgressAt =
      ZeroTime, ep_LastActivityAt = ZeroTime, ep_ProgressDueAt = ZeroTime, ep_CreatedAt =
      ZeroTime, ep_UpdatedAt = ZeroTime, ep_CompletedAt = ZeroTime\<rparr>"

definition zero_EpisodeGoal :: EpisodeGoal where
  "zero_EpisodeGoal =
    \<lparr>
      goal_ID = [], goal_EpisodeID = [], goal_ParentGoalID = [], goal_PrerequisiteGoalIDs = [],
      goal_Kind = [], goal_RequestedOutcome = [], goal_CompletionContract = [],
      goal_WritableRepository = [], goal_ReadOnlyRepositories = [], goal_AuthorityRequirement =
      [], goal_Required = False, goal_State = [], goal_Blocker = [], goal_CreatedAt = ZeroTime,
      goal_UpdatedAt = ZeroTime, goal_CompletedAt = ZeroTime\<rparr>"

definition zero_WorkEpisodeEvent :: WorkEpisodeEvent where
  "zero_WorkEpisodeEvent =
    \<lparr>
      evt_ID = [], evt_EpisodeID = [], evt_Sequence = 0, evt_Kind = [], evt_Actor = [],
      evt_IdempotencyKey = [], evt_Payload = [], evt_CreatedAt = ZeroTime\<rparr>"

definition zero_AgentRun :: AgentRun where
  "zero_AgentRun =
    \<lparr>
      run_ID = [], run_EpisodeID = [], run_AttemptID = [], run_AttemptNumber = 0, run_Mode = [],
      run_IncidentID = [], run_ChannelID = [], run_ThreadTS = [], run_ConversationKey = [],
      run_SourceKind = [], run_SourceID = [], run_UserID = [], run_Repository = [], run_Prompt =
      [], run_IdempotencyKey = [], run_SessionID = [], run_SessionGeneration = 0,
      run_ExpectedRevision = 0, run_CoopTurnID = [], run_CoopEventSequence = 0, run_Context =
      [], run_Result = [], run_TerminalState = [], run_State = [], run_Failures = 0,
      run_NextAttemptAt = ZeroTime, run_LastError = [], run_CreatedAt = ZeroTime, run_UpdatedAt
      = ZeroTime, run_StartedAt = ZeroTime, run_CompletedAt = ZeroTime, run_CommitmentTitle =
      [], run_Episode = None\<rparr>"

definition zero_TimelineEvent :: TimelineEvent where
  "zero_TimelineEvent =
    \<lparr>
      tl_ID = [], tl_IncidentID = [], tl_ChannelID = [], tl_Kind = [], tl_ActorID = [], tl_Title
      = [], tl_Detail = [], tl_URL = [], tl_EvidenceIDs = [], tl_CreatedAt = ZeroTime\<rparr>"

definition zero_EmisarApproval :: EmisarApproval where
  "zero_EmisarApproval =
    \<lparr>
      apr_RequestID = [], apr_IncidentID = [], apr_EpisodeID = [], apr_ChannelID = [],
      apr_SourceInput = [], apr_RequestedBy = [], apr_DeliveryID = [], apr_MessageTS = [],
      apr_RunID = [], apr_OperationID = [], apr_ActionID = [], apr_PackRef = [], apr_RunnerRef =
      [], apr_Status = [], apr_ApprovalURL = [], apr_RunURL = [], apr_LastError = [],
      apr_FailureCount = 0, apr_ContinuationQueued = False, apr_NextCheckAt = ZeroTime,
      apr_ExpiresAt = ZeroTime, apr_TerminalAt = ZeroTime, apr_CreatedAt = ZeroTime,
      apr_UpdatedAt = ZeroTime\<rparr>"

definition zero_Publication :: Publication where
  "zero_Publication =
    \<lparr>
      pub_IncidentID = [], pub_EpisodeID = [], pub_AttemptInputID = [], pub_Generation = 0,
      pub_Repository = [], pub_BaseBranch = [], pub_HeadBranch = [], pub_ParentHead = [],
      pub_CandidateTree = [], pub_CommitSHA = [], pub_RemoteSHA = [], pub_PRNumber = 0,
      pub_PRURL = [], pub_State = [], pub_FailureCode = [], pub_LastError = [], pub_CreatedAt =
      ZeroTime, pub_UpdatedAt = ZeroTime, pub_PublishedAt = ZeroTime\<rparr>"

definition zero_PublicationFollowup :: PublicationFollowup where
  "zero_PublicationFollowup =
    \<lparr>
      fol_IncidentID = [], fol_PRState = [], fol_ChecksState = [], fol_ChecksTotal = 0,
      fol_ChecksPassed = 0, fol_ChecksFailed = 0, fol_ChecksURL = [], fol_MergeSHA = [],
      fol_MergedAt = ZeroTime, fol_NextCheckAt = ZeroTime, fol_FailureCount = 0,
      fol_LastError = [], fol_LastEventKey = [], fol_CreatedAt = ZeroTime,
      fol_UpdatedAt = ZeroTime\<rparr>"

lemmas zero_defs = zero_PullRequestTarget_def zero_Signal_def zero_Incident_def zero_SlackReaction_def
  zero_SlackAttachment_def zero_SlackInput_def zero_Evidence_def zero_Coverage_def
  zero_ClaimAssessment_def zero_ConversationRef_def zero_BoundDestination_def
  zero_WorkEpisode_def zero_EpisodeGoal_def zero_WorkEpisodeEvent_def zero_AgentRun_def
  zero_TimelineEvent_def zero_EmisarApproval_def zero_Publication_def zero_PublicationFollowup_def

section \<open>Predicates of the records\<close>

definition ChannelWritable :: "Incident \<Rightarrow> bool" where
  "ChannelWritable i \<longleftrightarrow> inc_ChannelState i = [] \<or> inc_ChannelState i = ChannelActive"

definition IsEngineeringTask :: "Incident \<Rightarrow> bool" where
  "IsEngineeringTask i \<longleftrightarrow>
     inc_WorkKind i = WorkKindEngineeringTask
     \<or> (inc_WorkKind i = [] \<and> inc_Route i = ''manual'' \<and> has_prefix (inc_SourceIncidentID i) ''task:'')"

definition IsThreadScoped :: "Incident \<Rightarrow> bool" where
  "IsThreadScoped i \<longleftrightarrow>
     inc_WorkScope i = WorkScopeThread
     \<or> (inc_WorkScope i = [] \<and> IsEngineeringTask i \<and> inc_OriginThreadTS i \<noteq> [])"

definition ConversationThreadTS :: "Incident \<Rightarrow> string" where
  "ConversationThreadTS i =
     (if IsThreadScoped i \<and> inc_OriginThreadTS i \<noteq> [] then inc_OriginThreadTS i else inc_RootTS i)"

definition ValidTarget :: "PullRequestTarget \<Rightarrow> bool" where
  "ValidTarget p \<longleftrightarrow>
     prt_Repository p \<noteq> [] \<and> 0 < prt_Number p \<and> prt_URL p \<noteq> []
     \<and> prt_BaseBranch p \<noteq> [] \<and> prt_HeadBranch p \<noteq> [] \<and> prt_HeadCommit p \<noteq> []"

definition Published :: "Publication \<Rightarrow> bool" where
  "Published p \<longleftrightarrow> pub_State p = PublicationPublished \<and> 0 < pub_PRNumber p \<and> pub_PRURL p \<noteq> []"

definition HasPR :: "Publication \<Rightarrow> bool" where
  "HasPR p \<longleftrightarrow> 0 < pub_PRNumber p \<and> pub_PRURL p \<noteq> []"

definition NeedsUpdate :: "Publication \<Rightarrow> bool" where
  "NeedsUpdate p \<longleftrightarrow> pub_State p = PublicationStale \<and> HasPR p"

definition InProgress :: "Publication \<Rightarrow> bool" where
  "InProgress p \<longleftrightarrow>
     pub_State p \<in> {PublicationReviewing, PublicationPublishing, PublicationRetrying}"

definition TerminalFollowup :: "PublicationFollowup \<Rightarrow> bool" where
  "TerminalFollowup f \<longleftrightarrow> fol_PRState f = ''merged'' \<or> fol_PRState f = ''closed''"

lemmas [go_defs] = ChannelWritable_def IsEngineeringTask_def IsThreadScoped_def
  ConversationThreadTS_def ValidTarget_def Published_def HasPR_def NeedsUpdate_def InProgress_def

end
