(* ===== verification/Remediation.thy ===== *)
theory Remediation
  imports CoreModel
begin

text \<open>
  The trust ladder of \<open>internal/remediation\<close>: \<open>ladder.go\<close> (rungs, grant identities, the
  matcher \<open>Decide\<close>, promotion by \<open>EvaluateOffer\<close>, demotion), \<open>confirmation.go\<close> (the payload
  of the operator's button) and \<open>runstatus.go\<close>.  A rung is a string, as in the source, because
  a stored row may hold any.  The wrapped error sentinels are the constructors of
  \<open>OfferError\<close>, \<open>GrantError\<close> and \<open>StaleReason\<close>; the reasons of \<open>Decide\<close> are the strings the
  code builds.
\<close>

section \<open>Rungs\<close>

abbreviation RungObserve :: string where "RungObserve \<equiv> ''observe''"
abbreviation RungPropose :: string where "RungPropose \<equiv> ''propose''"
abbreviation RungOneClick :: string where "RungOneClick \<equiv> ''one_click''"
abbreviation RungAuto :: string where "RungAuto \<equiv> ''auto''"

definition Ceiling :: string where
  "Ceiling = RungOneClick"

definition ladder :: "string list" where
  "ladder = [RungObserve, RungPropose, RungOneClick, RungAuto]"

definition ValidRung :: "string \<Rightarrow> bool" where
  "ValidRung r \<longleftrightarrow> list_ex (\<lambda>known. r = known) ladder"

fun rank_from :: "int \<Rightarrow> string list \<Rightarrow> string \<Rightarrow> int" where
  "rank_from i [] r = -1"
| "rank_from i (known # ks) r = (if r = known then i else rank_from (i + 1) ks r)"

definition rank :: "string \<Rightarrow> int" where
  "rank r = rank_from 0 ladder r"

definition atMost :: "string \<Rightarrow> string \<Rightarrow> string \<times> bool" where
  "atMost r limit = (if rank limit < rank r then (limit, True) else (r, False))"

section \<open>Identities\<close>

record ActionRef =
  ar_ActionID :: string
  ar_PackRef :: string
  ar_RunnerRef :: string

definition normalizedAction :: "ActionRef \<Rightarrow> ActionRef" where
  "normalizedAction a =
     \<lparr>ar_ActionID = trim_space (ar_ActionID a), ar_PackRef = trim_space (ar_PackRef a),
      ar_RunnerRef = trim_space (ar_RunnerRef a)\<rparr>"

definition CompleteAction :: "ActionRef \<Rightarrow> bool" where
  "CompleteAction a \<longleftrightarrow>
     (let n = normalizedAction a
      in ar_ActionID n \<noteq> [] \<and> ar_PackRef n \<noteq> [] \<and> ar_RunnerRef n \<noteq> [])"

definition EqualAction :: "ActionRef \<Rightarrow> ActionRef \<Rightarrow> bool" where
  "EqualAction a b \<longleftrightarrow> normalizedAction a = normalizedAction b"

definition StringAction :: "ActionRef \<Rightarrow> string" where
  "StringAction a =
     (let n = normalizedAction a
      in ar_ActionID n @ '' @ '' @ ar_PackRef n @ '' on '' @ ar_RunnerRef n)"

record TriggerClass =
  tc_AlertGroupKey :: string
  tc_ChannelID :: string
  tc_Repository :: string

definition normalizedTrigger :: "TriggerClass \<Rightarrow> TriggerClass" where
  "normalizedTrigger t =
     \<lparr>tc_AlertGroupKey = trim_space (tc_AlertGroupKey t), tc_ChannelID = trim_space (tc_ChannelID t),
      tc_Repository = trim_space (tc_Repository t)\<rparr>"

definition CompleteTrigger :: "TriggerClass \<Rightarrow> bool" where
  "CompleteTrigger t \<longleftrightarrow>
     (let n = normalizedTrigger t in tc_AlertGroupKey n \<noteq> [] \<and> tc_ChannelID n \<noteq> [])"

definition EqualTrigger :: "TriggerClass \<Rightarrow> TriggerClass \<Rightarrow> bool" where
  "EqualTrigger t u \<longleftrightarrow> normalizedTrigger t = normalizedTrigger u"

definition StringTrigger :: "TriggerClass \<Rightarrow> string" where
  "StringTrigger t =
     (let n = normalizedTrigger t in
      if tc_Repository n = [] then tc_AlertGroupKey n @ '' in '' @ tc_ChannelID n
      else tc_AlertGroupKey n @ '' in '' @ tc_ChannelID n @ ''/'' @ tc_Repository n)"

section \<open>Grants and the matcher\<close>

record Grant =
  gr_ID :: string
  gr_Trigger :: TriggerClass
  gr_Action :: ActionRef
  gr_Rung :: string
  gr_GrantedBy :: string
  gr_GrantedAt :: gotime
  gr_ExpiresAt :: gotime
  gr_SuccessCount :: int
  gr_LastVerifiedAt :: gotime
  gr_DemotedReason :: string
  gr_DemotedAt :: gotime

definition emptyAction :: ActionRef where
  "emptyAction = \<lparr>ar_ActionID = [], ar_PackRef = [], ar_RunnerRef = []\<rparr>"

definition emptyTrigger :: TriggerClass where
  "emptyTrigger = \<lparr>tc_AlertGroupKey = [], tc_ChannelID = [], tc_Repository = []\<rparr>"

definition emptyGrant :: Grant where
  "emptyGrant =
     \<lparr>gr_ID = [], gr_Trigger = emptyTrigger, gr_Action = emptyAction, gr_Rung = [],
      gr_GrantedBy = [], gr_GrantedAt = ZeroTime, gr_ExpiresAt = ZeroTime, gr_SuccessCount = 0,
      gr_LastVerifiedAt = ZeroTime, gr_DemotedReason = [], gr_DemotedAt = ZeroTime\<rparr>"

datatype GrantError = TriggerIncomplete | ActionIncomplete | UnsupportedRung string
  | NoExpiry ActionRef | NoOperator ActionRef

definition ValidateGrant :: "Grant \<Rightarrow> GrantError option" where
  "ValidateGrant g =
     (if \<not> CompleteTrigger (gr_Trigger g) then Some TriggerIncomplete
      else if \<not> CompleteAction (gr_Action g) then Some ActionIncomplete
      else if \<not> ValidRung (gr_Rung g) then Some (UnsupportedRung (gr_Rung g))
      else if IsZero (gr_ExpiresAt g) then Some (NoExpiry (gr_Action g))
      else if trim_space (gr_GrantedBy g) = [] then Some (NoOperator (gr_Action g))
      else None)"

definition Live :: "Grant \<Rightarrow> gotime \<Rightarrow> bool" where
  "Live g now \<longleftrightarrow> now < gr_ExpiresAt g"

record Trigger =
  tg_Class :: TriggerClass
  tg_Action :: ActionRef

record Decision =
  de_Rung :: string
  de_Grant :: Grant
  de_Matched :: bool
  de_MayOffer :: bool
  de_MaySubmitUnattended :: bool
  de_Reason :: string

definition observe :: "string \<Rightarrow> Decision" where
  "observe reason =
     \<lparr>de_Rung = RungObserve, de_Grant = emptyGrant, de_Matched = False, de_MayOffer = False,
      de_MaySubmitUnattended = False, de_Reason = reason\<rparr>"

text \<open>The loop of \<open>Decide\<close>, with \<open>best\<close>/\<open>found\<close> as an option and the \<open>lapsed\<close> flag.\<close>

fun decide_scan ::
    "Trigger \<Rightarrow> gotime \<Rightarrow> Grant list \<Rightarrow> Grant option \<Rightarrow> bool \<Rightarrow> Grant option \<times> bool" where
  "decide_scan trigger now [] best lapsed = (best, lapsed)"
| "decide_scan trigger now (g # gs) best lapsed =
     (if ValidateGrant g \<noteq> None \<and> \<not> IsZero (gr_ExpiresAt g)
      then decide_scan trigger now gs best lapsed
      else if IsZero (gr_ExpiresAt g) then decide_scan trigger now gs best lapsed
      else if \<not> EqualTrigger (gr_Trigger g) (tg_Class trigger)
        \<or> \<not> EqualAction (gr_Action g) (tg_Action trigger)
      then decide_scan trigger now gs best lapsed
      else if \<not> Live g now then decide_scan trigger now gs best True
      else decide_scan trigger now gs
        (case best of None \<Rightarrow> Some g
         | Some b \<Rightarrow> if gr_GrantedAt b < gr_GrantedAt g then Some g else best) lapsed)"

definition Decide :: "Grant list \<Rightarrow> Trigger \<Rightarrow> gotime \<Rightarrow> Decision" where
  "Decide grants trigger now =
     (if \<not> CompleteTrigger (tg_Class trigger) \<or> \<not> CompleteAction (tg_Action trigger)
      then observe ''the trigger does not name a complete alert class and action identity''
      else case decide_scan trigger now grants None False of
        (None, lapsed) \<Rightarrow>
          if lapsed
          then observe (''the grant for '' @ StringAction (tg_Action trigger) @ '' has expired'')
          else observe (''no grant covers '' @ StringAction (tg_Action trigger) @ '' for ''
                 @ StringTrigger (tg_Class trigger))
      | (Some best, _) \<Rightarrow>
          let (rung, clamped) = atMost (gr_Rung best) Ceiling;
              reason = ''grant '' @ gr_ID best @ '' allows '' @ rung @ '' for ''
                @ StringTrigger (tg_Class trigger) @ '' until '' @ format_rfc3339 (gr_ExpiresAt best)
          in \<lparr>de_Rung = rung, de_Grant = best, de_Matched = True,
              de_MayOffer = (rank RungPropose \<le> rank rung), de_MaySubmitUnattended = False,
              de_Reason =
                (if clamped
                 then reason @ ''; the auto rung is not implemented in this build, so it acts at ''
                   @ Ceiling
                 else reason)\<rparr>)"

definition NextRung :: "Grant \<Rightarrow> string" where
  "NextRung current =
     (let r = rank (gr_Rung current); r = (if r < 0 then rank RungObserve else r); nxt = r + 1
      in if nxt \<le> rank Ceiling then ladder ! nat nxt else Ceiling)"

section \<open>Promotion\<close>

record Policy =
  po_RequiredSuccesses :: int
  po_GrantTTL :: int

definition DefaultPolicy :: Policy where
  "DefaultPolicy = \<lparr>po_RequiredSuccesses = 3, po_GrantTTL = 30 * 24 * hour\<rparr>"

record Offer =
  of_Trigger :: TriggerClass
  of_Action :: ActionRef
  of_Rung :: string
  of_ClaimedSuccesses :: int

datatype OfferError = OfferIncomplete | RungNotImplemented | OfferWidensGrant string
  | OfferSkipsRung string string | OfferUnverifiable int int | OfferNotEarned int int

definition EvaluateOffer ::
    "Offer \<Rightarrow> Grant \<Rightarrow> int \<Rightarrow> Policy \<Rightarrow> gotime \<Rightarrow> OfferError + Grant" where
  "EvaluateOffer offer current verified policy now =
     (if \<not> CompleteTrigger (of_Trigger offer) \<or> \<not> CompleteAction (of_Action offer)
        \<or> \<not> ValidRung (of_Rung offer)
      then Inl OfferIncomplete
      else if of_Rung offer = RungAuto then Inl RungNotImplemented
      else if (gr_Rung current \<noteq> [] \<or> gr_ID current \<noteq> [])
        \<and> (\<not> EqualAction (gr_Action current) (of_Action offer)
            \<or> \<not> EqualTrigger (gr_Trigger current) (of_Trigger offer))
      then Inl (OfferWidensGrant (gr_ID current))
      else
        let held = (if gr_Rung current = [] then RungObserve else gr_Rung current) in
        if rank (of_Rung offer) \<noteq> rank held + 1 then Inl (OfferSkipsRung held (of_Rung offer))
        else if verified < of_ClaimedSuccesses offer
        then Inl (OfferUnverifiable (of_ClaimedSuccesses offer) verified)
        else if verified < po_RequiredSuccesses policy
        then Inl (OfferNotEarned (po_RequiredSuccesses policy) verified)
        else Inr \<lparr>gr_ID = gr_ID current, gr_Trigger = normalizedTrigger (of_Trigger offer),
                  gr_Action = normalizedAction (of_Action offer), gr_Rung = of_Rung offer,
                  gr_GrantedBy = [], gr_GrantedAt = now,
                  gr_ExpiresAt = time_add now (po_GrantTTL policy), gr_SuccessCount = verified,
                  gr_LastVerifiedAt = ZeroTime, gr_DemotedReason = [], gr_DemotedAt = ZeroTime\<rparr>)"

section \<open>Demotion\<close>

abbreviation VerificationFailed :: string where "VerificationFailed \<equiv> ''verification_failed''"
abbreviation Expired :: string where "Expired \<equiv> ''expired''"
abbreviation ContractChanged :: string where "ContractChanged \<equiv> ''target_contract_changed''"
abbreviation OperatorCommand :: string where "OperatorCommand \<equiv> ''operator_command''"

definition Demote :: "Grant \<Rightarrow> string \<Rightarrow> gotime \<Rightarrow> Grant" where
  "Demote g reason now =
     g\<lparr>gr_Rung := (if 0 < rank (gr_Rung g) then ladder ! nat (rank (gr_Rung g) - 1) else RungObserve),
       gr_DemotedReason := reason, gr_DemotedAt := now, gr_SuccessCount := 0\<rparr>"

definition DemotionForRunStatus :: "string \<Rightarrow> string option" where
  "DemotionForRunStatus status =
     (if status \<in> {''failed'', ''error'', ''timed_out'', ''refused''} then Some VerificationFailed
      else if status \<in> {''unknown_action'', ''validation_failed''} then Some ContractChanged
      else None)"

section \<open>The confirmation payload\<close>

record Confirmation =
  cf_Version :: int
  cf_ChannelID :: string
  cf_IssuedAt :: gotime
  cf_AlertGroupKey :: string
  cf_Repository :: string
  cf_ActionID :: string
  cf_PackRef :: string
  cf_RunnerRef :: string
  cf_Rung :: string

definition ConfirmationMaxAge :: int where
  "ConfirmationMaxAge = 24 * hour"

definition NewConfirmation :: "Grant \<Rightarrow> gotime \<Rightarrow> Confirmation" where
  "NewConfirmation g issuedAt =
     \<lparr>cf_Version = 1, cf_ChannelID = tc_ChannelID (gr_Trigger g), cf_IssuedAt = issuedAt,
      cf_AlertGroupKey = tc_AlertGroupKey (gr_Trigger g),
      cf_Repository = tc_Repository (gr_Trigger g), cf_ActionID = ar_ActionID (gr_Action g),
      cf_PackRef = ar_PackRef (gr_Action g), cf_RunnerRef = ar_RunnerRef (gr_Action g),
      cf_Rung = gr_Rung g\<rparr>"

datatype StaleReason = BadVersion int | WrongChannel string string | NoIssueTime | IssuedInFuture
  | TooOld | IncompleteIdentity | BadRung string

definition Resolve ::
    "Confirmation \<Rightarrow> string \<Rightarrow> gotime \<Rightarrow> StaleReason + TriggerClass \<times> ActionRef \<times> string" where
  "Resolve c channelID now =
     (let cls = \<lparr>tc_AlertGroupKey = cf_AlertGroupKey c, tc_ChannelID = cf_ChannelID c,
                 tc_Repository = cf_Repository c\<rparr>;
          action = \<lparr>ar_ActionID = cf_ActionID c, ar_PackRef = cf_PackRef c,
                    ar_RunnerRef = cf_RunnerRef c\<rparr>;
          rung = trim_space (cf_Rung c)
      in if cf_Version c \<noteq> 1 then Inl (BadVersion (cf_Version c))
         else if trim_space channelID = [] \<or> cf_ChannelID c \<noteq> channelID
         then Inl (WrongChannel (cf_ChannelID c) channelID)
         else if IsZero (cf_IssuedAt c) then Inl NoIssueTime
         else if time_add now (5 * minute) < cf_IssuedAt c then Inl IssuedInFuture
         else if ConfirmationMaxAge < time_sub now (cf_IssuedAt c) then Inl TooOld
         else if \<not> CompleteTrigger cls \<or> \<not> CompleteAction action then Inl IncompleteIdentity
         else if \<not> ValidRung rung then Inl (BadRung (cf_Rung c))
         else Inr (cls, action, rung))"

section \<open>Facts about rungs and identities\<close>

lemma rank_eq:
  "rank r = (if r = RungObserve then 0 else if r = RungPropose then 1
     else if r = RungOneClick then 2 else if r = RungAuto then 3 else -1)"
  by (simp add: rank_def ladder_def)

lemma rank_simps [simp]:
  "rank RungObserve = 0" "rank RungPropose = 1" "rank RungOneClick = 2" "rank RungAuto = 3"
  "rank [] = -1"
  by (simp_all add: rank_eq)

lemma rank_Ceiling [simp]: "rank Ceiling = 2"
  by (simp add: Ceiling_def)

lemma rank_range: "-1 \<le> rank r" "rank r \<le> 3"
  by (simp_all add: rank_eq)

lemma ValidRung_rank: "ValidRung r \<longleftrightarrow> 0 \<le> rank r"
  by (simp add: ValidRung_def ladder_def rank_eq)

lemma rank_ladder: "0 \<le> i \<Longrightarrow> i \<le> 3 \<Longrightarrow> rank (ladder ! nat i) = i"
proof -
  assume "0 \<le> i" "i \<le> 3"
  then have "i = 0 \<or> i = 1 \<or> i = 2 \<or> i = 3" by linarith
  then show ?thesis by (elim disjE) (simp_all add: ladder_def)
qed

lemma rank_inject: "0 \<le> rank r \<Longrightarrow> rank r = rank q \<Longrightarrow> r = q"
  by (simp add: rank_eq split: if_splits)

lemma rank_auto: "rank r = 3 \<longleftrightarrow> r = RungAuto"
  by (simp add: rank_eq)

lemma rank_atMost: "rank (fst (atMost r Ceiling)) \<le> 2"
  by (simp add: atMost_def)

lemma rank_Demote: "rank (gr_Rung (Demote g reason now)) = max 0 (rank (gr_Rung g) - 1)"
  using rank_range(2) [of "gr_Rung g"] by (simp add: Demote_def rank_ladder max_def)

interpretation action_nf: normal_form normalizedAction EqualAction
  by unfold_locales (simp_all add: normalizedAction_def EqualAction_def)

interpretation trigger_nf: normal_form normalizedTrigger EqualTrigger
  by unfold_locales (simp_all add: normalizedTrigger_def EqualTrigger_def)

lemma CompleteAction_cong: "EqualAction a b \<Longrightarrow> CompleteAction a \<longleftrightarrow> CompleteAction b"
  by (simp add: EqualAction_def CompleteAction_def)

lemma CompleteTrigger_cong: "EqualTrigger a b \<Longrightarrow> CompleteTrigger a \<longleftrightarrow> CompleteTrigger b"
  by (simp add: EqualTrigger_def CompleteTrigger_def)

lemma Complete_normalized [simp]:
  "CompleteAction (normalizedAction a) = CompleteAction a"
  "CompleteTrigger (normalizedTrigger t) = CompleteTrigger t"
  by (simp_all add: CompleteAction_def CompleteTrigger_def action_nf.norm_idem trigger_nf.norm_idem)

lemma ValidateGrant_None:
  "ValidateGrant g = None \<longleftrightarrow>
     CompleteTrigger (gr_Trigger g) \<and> CompleteAction (gr_Action g) \<and> ValidRung (gr_Rung g)
     \<and> gr_ExpiresAt g \<noteq> ZeroTime \<and> \<not> blank (gr_GrantedBy g)"
  by (simp add: ValidateGrant_def IsZero_iff blank_def)

section \<open>The matcher\<close>

text \<open>What it is for a grant on file to cover an occurrence.\<close>

definition covers :: "Trigger \<Rightarrow> gotime \<Rightarrow> Grant \<Rightarrow> bool" where
  "covers trigger now g \<longleftrightarrow>
     ValidateGrant g = None \<and> EqualTrigger (gr_Trigger g) (tg_Class trigger)
     \<and> EqualAction (gr_Action g) (tg_Action trigger) \<and> Live g now"

definition lapsed_for :: "Trigger \<Rightarrow> gotime \<Rightarrow> Grant \<Rightarrow> bool" where
  "lapsed_for trigger now g \<longleftrightarrow>
     ValidateGrant g = None \<and> EqualTrigger (gr_Trigger g) (tg_Class trigger)
     \<and> EqualAction (gr_Action g) (tg_Action trigger) \<and> \<not> Live g now"

lemma covers_complete:
  "covers trigger now g \<or> lapsed_for trigger now g \<Longrightarrow>
   CompleteTrigger (tg_Class trigger) \<and> CompleteAction (tg_Action trigger)"
  using CompleteTrigger_cong CompleteAction_cong
  by (auto simp: covers_def lapsed_for_def ValidateGrant_None)

lemma decide_scan_Cons:
  "decide_scan trigger now (g # gs) best lapsed =
     (if covers trigger now g
      then decide_scan trigger now gs
        (case best of None \<Rightarrow> Some g
         | Some b \<Rightarrow> if gr_GrantedAt b < gr_GrantedAt g then Some g else best) lapsed
      else decide_scan trigger now gs best (lapsed \<or> lapsed_for trigger now g))"
  by (auto simp: covers_def lapsed_for_def ValidateGrant_def)

declare decide_scan.simps(2) [simp del]
declare decide_scan_Cons [simp]

lemma decide_scan_lapsed:
  "snd (decide_scan trigger now gs best lapsed) \<longleftrightarrow> lapsed \<or> (\<exists>g \<in> set gs. lapsed_for trigger now g)"
  by (induction gs arbitrary: best lapsed) (auto simp: covers_def lapsed_for_def)

lemma decide_scan_None:
  "fst (decide_scan trigger now gs best lapsed) = None \<longleftrightarrow>
   best = None \<and> (\<forall>g \<in> set gs. \<not> covers trigger now g)"
  by (induction gs arbitrary: best lapsed) (auto split: option.splits)

text \<open>The scan keeps a grant that covers and that no other covering grant is newer than.\<close>

lemma decide_scan_Some:
  assumes "fst (decide_scan trigger now gs best lapsed) = Some b"
  shows "(best = Some b \<or> b \<in> set gs \<and> covers trigger now b)
    \<and> (\<forall>g. best = Some g \<or> g \<in> set gs \<and> covers trigger now g \<longrightarrow> gr_GrantedAt g \<le> gr_GrantedAt b)"
  using assms
proof (induction gs arbitrary: best lapsed)
  case (Cons g gs)
  show ?case
  proof (cases "covers trigger now g")
    case True
    with Cons.IH [of _ lapsed] Cons.prems show ?thesis
      by (cases best) (fastforce split: if_splits)+
  next
    case False
    with Cons.IH Cons.prems show ?thesis by auto
  qed
qed auto

text \<open>The matcher gives authority exactly when a valid, unexpired grant for this exact action
  and trigger class is on file: it then names such a grant, none newer covers the occurrence,
  and the authority is that grant's rung clamped to the ceiling.  Otherwise the decision is to
  observe.  No decision offers above the ceiling and none allows unattended submission.\<close>

theorem Decide_authority:
  "let d = Decide grants trigger now in
     (de_Matched d \<longleftrightarrow> (\<exists>g \<in> set grants. covers trigger now g))
     \<and> (de_Matched d \<longrightarrow>
          de_Grant d \<in> set grants \<and> covers trigger now (de_Grant d)
          \<and> (\<forall>g \<in> set grants. covers trigger now g \<longrightarrow> gr_GrantedAt g \<le> gr_GrantedAt (de_Grant d))
          \<and> rank (de_Rung d) = min 2 (rank (gr_Rung (de_Grant d))))
     \<and> (\<not> de_Matched d \<longrightarrow> de_Rung d = RungObserve)
     \<and> (de_MayOffer d \<longleftrightarrow> 1 \<le> rank (de_Rung d))
     \<and> rank (de_Rung d) \<le> rank Ceiling \<and> \<not> de_MaySubmitUnattended d"
proof (cases "CompleteTrigger (tg_Class trigger) \<and> CompleteAction (tg_Action trigger)")
  case False
  with covers_complete have "\<not> (\<exists>g \<in> set grants. covers trigger now g)" by blast
  with False show ?thesis by (auto simp: Decide_def observe_def)
next
  case True
  obtain best lapsed where scan: "decide_scan trigger now grants None False = (best, lapsed)"
    by force
  show ?thesis
  proof (cases best)
    case None
    with scan decide_scan_None [of trigger now grants None False] True show ?thesis
      by (auto simp: Decide_def observe_def)
  next
    case (Some b)
    with scan decide_scan_Some [of trigger now grants None False b] have
      "b \<in> set grants" "covers trigger now b"
      "\<forall>g \<in> set grants. covers trigger now g \<longrightarrow> gr_GrantedAt g \<le> gr_GrantedAt b"
      by auto
    with Some scan True show ?thesis by (auto simp: Decide_def atMost_def Let_def)
  qed
qed

text \<open>An occurrence that only expired grants cover is told apart from one that none covers:
  the decision says the grant has expired exactly when a valid grant for the pair is on file
  and all such grants have lapsed.\<close>

theorem Decide_expired_reason:
  assumes "CompleteTrigger (tg_Class trigger)" and "CompleteAction (tg_Action trigger)"
    and "\<forall>g \<in> set grants. \<not> covers trigger now g"
  shows "de_Reason (Decide grants trigger now) =
    (if \<exists>g \<in> set grants. lapsed_for trigger now g
     then ''the grant for '' @ StringAction (tg_Action trigger) @ '' has expired''
     else ''no grant covers '' @ StringAction (tg_Action trigger) @ '' for ''
       @ StringTrigger (tg_Class trigger))"
proof -
  obtain best lapsed where scan: "decide_scan trigger now grants None False = (best, lapsed)"
    by force
  moreover have "best = None"
    using decide_scan_None [of trigger now grants None False] scan assms(3) by auto
  ultimately show ?thesis
    using decide_scan_lapsed [of trigger now grants None False] assms
    by (auto simp: Decide_def observe_def)
qed

section \<open>Promotion and demotion\<close>

definition held_rung :: "Grant \<Rightarrow> string" where
  "held_rung current = (if gr_Rung current = [] then RungObserve else gr_Rung current)"

text \<open>The grant a successful evaluation returns.\<close>

definition earned_grant :: "Offer \<Rightarrow> Grant \<Rightarrow> int \<Rightarrow> Policy \<Rightarrow> gotime \<Rightarrow> Grant" where
  "earned_grant offer current verified policy now =
     emptyGrant\<lparr>gr_ID := gr_ID current, gr_Trigger := normalizedTrigger (of_Trigger offer),
       gr_Action := normalizedAction (of_Action offer), gr_Rung := of_Rung offer,
       gr_GrantedAt := now, gr_ExpiresAt := time_add now (po_GrantTTL policy),
       gr_SuccessCount := verified\<rparr>"

lemma EvaluateOffer_Inr:
  "EvaluateOffer offer current verified policy now = Inr g \<longleftrightarrow>
     CompleteTrigger (of_Trigger offer) \<and> CompleteAction (of_Action offer)
     \<and> ValidRung (of_Rung offer) \<and> of_Rung offer \<noteq> RungAuto
     \<and> (gr_Rung current = [] \<and> gr_ID current = []
        \<or> EqualAction (gr_Action current) (of_Action offer)
          \<and> EqualTrigger (gr_Trigger current) (of_Trigger offer))
     \<and> rank (of_Rung offer) = rank (held_rung current) + 1
     \<and> of_ClaimedSuccesses offer \<le> verified \<and> po_RequiredSuccesses policy \<le> verified
     \<and> g = earned_grant offer current verified policy now"
  by (auto simp: EvaluateOffer_def held_rung_def earned_grant_def emptyGrant_def Let_def not_less)

text \<open>A promotion is earned exactly when the offer names a complete identity and a
  grantable rung one above the rung held, does not change the identity of the grant on file,
  does not claim more successes than the host counts, and the host counts at least the required
  number; the rung it gives is then at most the ceiling, and the model's claim does not appear
  in the result.\<close>

theorem EvaluateOffer_earned:
  "(\<exists>g. EvaluateOffer offer current verified policy now = Inr g) \<longleftrightarrow>
     CompleteTrigger (of_Trigger offer) \<and> CompleteAction (of_Action offer)
     \<and> (gr_Rung current = [] \<and> gr_ID current = []
        \<or> EqualAction (gr_Action current) (of_Action offer)
          \<and> EqualTrigger (gr_Trigger current) (of_Trigger offer))
     \<and> (held_rung current = RungObserve \<and> of_Rung offer = RungPropose
        \<or> held_rung current = RungPropose \<and> of_Rung offer = RungOneClick
        \<or> \<not> ValidRung (held_rung current) \<and> of_Rung offer = RungObserve)
     \<and> max (of_ClaimedSuccesses offer) (po_RequiredSuccesses policy) \<le> verified"
proof -
  have "ValidRung (of_Rung offer) \<and> of_Rung offer \<noteq> RungAuto
      \<and> rank (of_Rung offer) = rank (held_rung current) + 1
    \<longleftrightarrow> (held_rung current = RungObserve \<and> of_Rung offer = RungPropose
        \<or> held_rung current = RungPropose \<and> of_Rung offer = RungOneClick
        \<or> \<not> ValidRung (held_rung current) \<and> of_Rung offer = RungObserve)"
    by (auto simp: ValidRung_rank rank_eq split: if_splits)
  then show ?thesis unfolding EvaluateOffer_Inr max.bounded_iff by blast
qed

text \<open>Promotion is human: what \<open>EvaluateOffer\<close> returns is refused by \<open>Validate\<close> for the
  missing operator alone, and naming one makes it storable.  The host's count decides: the
  result is the same for every claim that is accepted.\<close>

theorem EvaluateOffer_unconfirmed:
  assumes "EvaluateOffer offer current verified policy now = Inr g"
    and "time_add now (po_GrantTTL policy) \<noteq> ZeroTime"
  shows "ValidateGrant g = Some (NoOperator (normalizedAction (of_Action offer)))
    \<and> (\<not> blank operator \<longrightarrow> ValidateGrant (g\<lparr>gr_GrantedBy := operator\<rparr>) = None)
    \<and> (claim \<le> verified \<longrightarrow>
        EvaluateOffer (offer\<lparr>of_ClaimedSuccesses := claim\<rparr>) current verified policy now = Inr g)"
  using assms
  by (auto simp: EvaluateOffer_Inr ValidateGrant_def earned_grant_def emptyGrant_def IsZero_iff
      blank_def)

text \<open>A grant cannot be renewed: an offer at the rung the grant already holds is never
  accepted, whatever its evidence and however long ago it expired, and \<open>NextRung\<close> of a grant at
  the ceiling is an offer that is never accepted.\<close>

theorem no_renewal:
  assumes "gr_Rung current \<noteq> []"
  shows "(\<forall>offer verified policy now g. of_Rung offer = gr_Rung current \<longrightarrow>
      EvaluateOffer offer current verified policy now \<noteq> Inr g)
    \<and> (gr_Rung current = Ceiling \<longrightarrow>
      (\<forall>offer verified policy now g. of_Rung offer = NextRung current \<longrightarrow>
         EvaluateOffer offer current verified policy now \<noteq> Inr g))"
  using assms
  by (auto simp: EvaluateOffer_Inr held_rung_def NextRung_def Ceiling_def)

text \<open>Demotion takes exactly one rung, stops at observe, clears the earned count and records
  the reason; applied as often as the rung is high it reaches observe, and it never adds
  authority to any decision.\<close>

theorem Demote_one_rung:
  "rank (gr_Rung (Demote g reason now)) = max 0 (rank (gr_Rung g) - 1)
   \<and> gr_SuccessCount (Demote g reason now) = 0
   \<and> gr_DemotedReason (Demote g reason now) = reason
   \<and> gr_Rung (((\<lambda>g. Demote g reason now) ^^ nat (rank (gr_Rung g))) (Demote g reason now)) = RungObserve
   \<and> gr_ID (Demote g reason now) = gr_ID g \<and> gr_Trigger (Demote g reason now) = gr_Trigger g
   \<and> gr_Action (Demote g reason now) = gr_Action g \<and> gr_ExpiresAt (Demote g reason now) = gr_ExpiresAt g"
proof -
  have iter: "rank (gr_Rung (((\<lambda>g. Demote g reason now) ^^ n) h)) = max 0 (rank (gr_Rung h) - int n)"
    if "0 \<le> rank (gr_Rung h)" for n h
    using that by (induction n) (auto simp: rank_Demote)
  have "rank (gr_Rung (((\<lambda>g. Demote g reason now) ^^ nat (rank (gr_Rung g))) (Demote g reason now))) = 0"
    by (subst iter) (auto simp: rank_Demote)
  then have "gr_Rung (((\<lambda>g. Demote g reason now) ^^ nat (rank (gr_Rung g))) (Demote g reason now))
      = RungObserve"
    by (simp add: rank_eq split: if_splits)
  then show ?thesis by (simp add: rank_Demote) (simp add: Demote_def)
qed

text \<open>A demotion does not cost the evidence: a grant that was earned with some count of
  verified successes, stored, and then demoted, is earned back at once by the same offer with
  the same count.\<close>

theorem demoted_grant_earned_again:
  assumes "EvaluateOffer offer current verified policy now = Inr g"
    and "ValidRung (held_rung current)"
  shows "\<exists>g'. EvaluateOffer offer (Demote (g\<lparr>gr_GrantedBy := operator\<rparr>) reason later)
      verified policy later = Inr g' \<and> gr_Rung g' = gr_Rung g"
proof -
  let ?d = "Demote (g\<lparr>gr_GrantedBy := operator\<rparr>) reason later"
  have "rank (gr_Rung g) \<ge> 1" "gr_Rung g = of_Rung offer"
    using assms by (auto simp: EvaluateOffer_Inr earned_grant_def ValidRung_rank)
  then have r: "rank (of_Rung offer) = rank (gr_Rung ?d) + 1" "gr_Rung ?d \<noteq> []"
    using rank_Demote [of "g\<lparr>gr_GrantedBy := operator\<rparr>" reason later] by auto
  have "EqualAction (gr_Action ?d) (of_Action offer)" "EqualTrigger (gr_Trigger ?d) (of_Trigger offer)"
    using assms(1)
    by (auto simp: EvaluateOffer_Inr earned_grant_def Demote_def action_nf.same_norm_self
        trigger_nf.same_norm_self)
  with r assms(1) have
    "EvaluateOffer offer ?d verified policy later = Inr (earned_grant offer ?d verified policy later)"
    by (auto simp: EvaluateOffer_Inr held_rung_def)
  then show ?thesis using \<open>gr_Rung g = of_Rung offer\<close> by (auto simp: earned_grant_def)
qed

section \<open>Confirmation and run status\<close>

lemma time_sub_le: "d < 2 ^ 63 - 1 \<Longrightarrow> - (2 ^ 63) \<le> d \<Longrightarrow> time_sub s t \<le> d \<longleftrightarrow> nanos s - nanos t \<le> d"
  by (auto simp: time_sub_def max_def min_def)

lemma Resolve_Inr:
  "Resolve c channelID now = Inr (cls, action, rung) \<longleftrightarrow>
     cf_Version c = 1 \<and> \<not> blank channelID \<and> cf_ChannelID c = channelID
     \<and> cf_IssuedAt c \<noteq> ZeroTime \<and> cf_IssuedAt c \<le> time_add now (5 * minute)
     \<and> time_sub now (cf_IssuedAt c) \<le> ConfirmationMaxAge
     \<and> CompleteTrigger cls \<and> CompleteAction action \<and> ValidRung rung
     \<and> cls = \<lparr>tc_AlertGroupKey = cf_AlertGroupKey c, tc_ChannelID = cf_ChannelID c,
               tc_Repository = cf_Repository c\<rparr>
     \<and> action = \<lparr>ar_ActionID = cf_ActionID c, ar_PackRef = cf_PackRef c, ar_RunnerRef = cf_RunnerRef c\<rparr>
     \<and> rung = trim_space (cf_Rung c)"
  by (auto simp: Resolve_def Let_def IsZero_iff blank_def not_less)

lemma trim_rung: "ValidRung r \<Longrightarrow> trim_space r = r"
  by (auto simp: ValidRung_def ladder_def trim_eval)

lemma ConfirmationMaxAge_value: "ConfirmationMaxAge = 86400 * 10 ^ 9"
  by (simp add: ConfirmationMaxAge_def duration_units)

text \<open>The button's payload names exactly the grant it was built from: resolved in the grant's
  own channel, between five minutes before and twenty-four hours after its issue, it gives back
  the grant's trigger class, action and rung.\<close>

theorem confirmation_roundtrip:
  assumes "CompleteTrigger (gr_Trigger g)" and "CompleteAction (gr_Action g)"
    and "ValidRung (gr_Rung g)" and "issued \<noteq> ZeroTime"
    and "nanos issued \<le> nanos now + 5 * minute" and "nanos now \<le> nanos issued + 24 * hour"
  shows "Resolve (NewConfirmation g issued) (tc_ChannelID (gr_Trigger g)) now
    = Inr (gr_Trigger g, gr_Action g, gr_Rung g)"
proof -
  have "\<not> blank (tc_ChannelID (gr_Trigger g))"
    using assms(1) by (simp add: CompleteTrigger_def normalizedTrigger_def Let_def blank_def)
  moreover have "time_sub now issued \<le> ConfirmationMaxAge"
    using assms(6) by (subst time_sub_le) (simp_all add: ConfirmationMaxAge_value duration_units)
  ultimately show ?thesis
    using assms
    by (simp add: Resolve_Inr NewConfirmation_def trim_rung less_eq_gotime_def)
qed

text \<open>A payload is refused in any other channel than the one it was issued for, after
  twenty-four hours, more than five minutes before its issue, or when its version, identity or
  rung is not one the host wrote; nothing else is refused.\<close>

theorem Resolve_refuses:
  "is_ok (Resolve c channelID now) \<longleftrightarrow>
     cf_Version c = 1 \<and> cf_ChannelID c = channelID \<and> cf_IssuedAt c \<noteq> ZeroTime
     \<and> nanos (cf_IssuedAt c) \<le> nanos now + 5 * minute
     \<and> nanos now \<le> nanos (cf_IssuedAt c) + 24 * hour
     \<and> \<not> blank (cf_AlertGroupKey c) \<and> \<not> blank channelID
     \<and> \<not> blank (cf_ActionID c) \<and> \<not> blank (cf_PackRef c) \<and> \<not> blank (cf_RunnerRef c)
     \<and> trim_space (cf_Rung c) \<in> {RungObserve, RungPropose, RungOneClick, RungAuto}"
proof -
  have age: "time_sub now (cf_IssuedAt c) \<le> ConfirmationMaxAge \<longleftrightarrow>
      nanos now \<le> nanos (cf_IssuedAt c) + 24 * hour"
    by (subst time_sub_le) (auto simp: ConfirmationMaxAge_value duration_units)
  have "is_ok (Resolve c channelID now) \<longleftrightarrow>
      (\<exists>cls action rung. Resolve c channelID now = Inr (cls, action, rung))"
    by (auto simp: is_ok_iff)
  then show ?thesis
    unfolding Resolve_Inr age
    by (auto simp: CompleteTrigger_def CompleteAction_def normalizedTrigger_def
        normalizedAction_def blank_def Let_def ValidRung_def ladder_def less_eq_gotime_def)
qed

section \<open>Witnesses\<close>

definition ex_grant :: Grant where
  "ex_grant = emptyGrant\<lparr>gr_ID := ''g1'',
     gr_Trigger := \<lparr>tc_AlertGroupKey = ''disk'', tc_ChannelID = ''C1'', tc_Repository = []\<rparr>,
     gr_Action := \<lparr>ar_ActionID = ''restart'', ar_PackRef = ''k8s@1'', ar_RunnerRef = ''prod''\<rparr>,
     gr_Rung := RungOneClick, gr_GrantedBy := ''U1'', gr_GrantedAt := Time 1,
     gr_ExpiresAt := Time 100\<rparr>"

definition ex_trigger :: Trigger where
  "ex_trigger = \<lparr>tg_Class = gr_Trigger ex_grant, tg_Action = gr_Action ex_grant\<rparr>"

definition ex_offer :: Offer where
  "ex_offer = \<lparr>of_Trigger = gr_Trigger ex_grant, of_Action = gr_Action ex_grant,
     of_Rung = RungPropose, of_ClaimedSuccesses = 3\<rparr>"

theorem Decide_authority_witness:
  "de_Matched (Decide [ex_grant] ex_trigger (Time 50))
   \<and> \<not> de_Matched (Decide [ex_grant] ex_trigger (Time 100))"
proof -
  have "covers ex_trigger (Time 50) ex_grant" "\<not> covers ex_trigger (Time 100) ex_grant"
    by code_simp+
  then show ?thesis
    using Decide_authority [of "[ex_grant]" ex_trigger "Time 50"]
      Decide_authority [of "[ex_grant]" ex_trigger "Time 100"]
    by (simp add: Let_def)
qed

theorem Decide_expired_reason_witness:
  "de_Reason (Decide [ex_grant] ex_trigger (Time 100))
     = ''the grant for '' @ StringAction (tg_Action ex_trigger) @ '' has expired''"
proof -
  have "CompleteTrigger (tg_Class ex_trigger)" "CompleteAction (tg_Action ex_trigger)"
    "\<forall>g \<in> set [ex_grant]. \<not> covers ex_trigger (Time 100) g"
    "\<exists>g \<in> set [ex_grant]. lapsed_for ex_trigger (Time 100) g"
    by code_simp+
  then show ?thesis using Decide_expired_reason [of ex_trigger "[ex_grant]" "Time 100"] by simp
qed

lemma ex_earned:
  "EvaluateOffer ex_offer emptyGrant 3 DefaultPolicy (Time 5)
     = Inr (earned_grant ex_offer emptyGrant 3 DefaultPolicy (Time 5))"
  by code_simp

theorem EvaluateOffer_unconfirmed_witness:
  "ValidateGrant (earned_grant ex_offer emptyGrant 3 DefaultPolicy (Time 5))
     = Some (NoOperator (normalizedAction (of_Action ex_offer)))
   \<and> ValidateGrant ((earned_grant ex_offer emptyGrant 3 DefaultPolicy (Time 5))\<lparr>gr_GrantedBy := ''U1''\<rparr>)
     = None"
proof -
  have "time_add (Time 5) (po_GrantTTL DefaultPolicy) \<noteq> ZeroTime" "\<not> blank ''U1''" by code_simp+
  then show ?thesis
    using EvaluateOffer_unconfirmed [OF ex_earned] by blast
qed

theorem no_renewal_witness:
  "NextRung ex_grant = RungOneClick \<and> \<not> (\<exists>offer verified policy now g.
     of_Rung offer = RungOneClick \<and> EvaluateOffer offer ex_grant verified policy now = Inr g)"
proof -
  have "gr_Rung ex_grant \<noteq> []" "gr_Rung ex_grant = RungOneClick" "NextRung ex_grant = RungOneClick"
    by code_simp+
  then show ?thesis using no_renewal [of ex_grant] by auto
qed

theorem demoted_grant_earned_again_witness:
  "\<exists>g'. EvaluateOffer ex_offer (Demote ((earned_grant ex_offer emptyGrant 3 DefaultPolicy (Time 5))
      \<lparr>gr_GrantedBy := ''U1''\<rparr>) VerificationFailed (Time 6)) 3 DefaultPolicy (Time 6) = Inr g'
    \<and> gr_Rung g' = RungPropose"
proof -
  have "ValidRung (held_rung emptyGrant)" by code_simp
  from demoted_grant_earned_again [OF ex_earned this, of "''U1''" VerificationFailed "Time 6"]
  show ?thesis by (simp add: earned_grant_def ex_offer_def)
qed

theorem confirmation_roundtrip_witness:
  "Resolve (NewConfirmation ex_grant (Time 7)) ''C1'' (Time 8)
     = Inr (gr_Trigger ex_grant, gr_Action ex_grant, RungOneClick)"
proof -
  have "CompleteTrigger (gr_Trigger ex_grant)" "CompleteAction (gr_Action ex_grant)"
    "ValidRung (gr_Rung ex_grant)" by code_simp+
  then show ?thesis
    using confirmation_roundtrip [of ex_grant "Time 7" "Time 8"]
    by (simp add: ZeroTime_def duration_units ex_grant_def)
qed

end
