(* ===== verification/GrantLadder.thy ===== *)
theory GrantLadder
  imports Remediation
begin

text \<open>
  The trust ladder at work: the grants table of \<open>internal/store/grantstore/grantstore.go\<close> and
  the service's use of it in \<open>internal/service/remediation_grant.go\<close> (offer, operator's
  click, demotion by a failed run).

  The table is the list of its rows in insertion order; \<open>created_at\<close> and \<open>updated_at\<close>, which
  nothing reads back, are left out, and statements succeed unless a constraint of the schema
  fails.  What is not under \<open>src/\<close> or is decided elsewhere is an argument: the operators of
  the configuration, Slack's membership answer, the JSON decoder and encoder, the new row id and
  the clock, read once per handler.
\<close>

section \<open>The store\<close>

record EpisodeOutcome =
  eo_EpisodeID :: string
  eo_ChannelID :: string
  eo_AlertGroupKey :: string
  eo_Repository :: string
  eo_Verified :: bool

record LadderAudit =
  la_ID :: string
  la_Kind :: string
  la_ActorID :: string
  la_ObjectID :: string
  la_Outcome :: string

record LadderState =
  ls_grants :: "Grant list"
  ls_approvals :: "EmisarApproval list"
  ls_runs :: "AgentRun list"
  ls_outcomes :: "EpisodeOutcome list"
  ls_incidents :: "(string \<times> Incident) list"
  ls_audits :: "LadderAudit list"

definition Matching :: "Grant list \<Rightarrow> TriggerClass \<Rightarrow> Grant list" where
  "Matching rows cls =
     sort_key (\<lambda>g. - nanos (gr_GrantedAt g))
       (filter (\<lambda>g. tc_AlertGroupKey (gr_Trigger g) = tc_AlertGroupKey cls
                    \<and> tc_ChannelID (gr_Trigger g) = tc_ChannelID cls) rows)"

definition identity :: "Grant \<Rightarrow> TriggerClass \<times> ActionRef" where
  "identity g = (gr_Trigger g, gr_Action g)"

definition GetGrant :: "Grant list \<Rightarrow> TriggerClass \<Rightarrow> ActionRef \<Rightarrow> Grant option" where
  "GetGrant rows cls action = find (\<lambda>g. identity g = (cls, action)) rows"

datatype ConfirmError = InvalidGrant GrantError | NoNewID | IDTaken

text \<open>The two arms of the upsert of \<open>Confirm\<close>.\<close>

definition update_row :: "Grant \<Rightarrow> Grant \<Rightarrow> Grant" where
  "update_row g row =
     (if identity row = identity g
      then row\<lparr>gr_Rung := gr_Rung g, gr_GrantedBy := gr_GrantedBy g, gr_GrantedAt := gr_GrantedAt g,
               gr_ExpiresAt := gr_ExpiresAt g, gr_SuccessCount := gr_SuccessCount g,
               gr_DemotedReason := [], gr_DemotedAt := ZeroTime\<rparr>
      else row)"

definition insert_row :: "Grant \<Rightarrow> Grant" where
  "insert_row g = g\<lparr>gr_LastVerifiedAt := ZeroTime, gr_DemotedReason := [], gr_DemotedAt := ZeroTime\<rparr>"

definition ConfirmGrant ::
    "Grant list \<Rightarrow> Grant \<Rightarrow> gotime \<Rightarrow> string option \<Rightarrow> ConfirmError + Grant list" where
  "ConfirmGrant rows grant now newID =
     (case ValidateGrant grant of
        Some e \<Rightarrow> Inl (InvalidGrant e)
      | None \<Rightarrow>
          (case (if gr_ID grant = [] then newID else Some (gr_ID grant)) of
             None \<Rightarrow> Inl NoNewID
           | Some i \<Rightarrow>
               let g = grant\<lparr>gr_ID := i,
                         gr_GrantedAt := (if IsZero (gr_GrantedAt grant) then now
                                          else gr_GrantedAt grant)\<rparr>
               in if list_ex (\<lambda>row. identity row = identity g) rows
                  then Inr (map (update_row g) rows)
                  else if list_ex (\<lambda>row. gr_ID row = i) rows then Inl IDTaken
                  else Inr (rows @ [insert_row g])))"

definition DemoteGrants ::
    "Grant list \<Rightarrow> ActionRef \<Rightarrow> string \<Rightarrow> gotime \<Rightarrow> Grant list \<times> Grant list" where
  "DemoteGrants rows action reason now =
     (let live = filter (\<lambda>g. gr_Action g = action \<and> gr_Rung g \<noteq> RungObserve) rows;
          demoted = map (\<lambda>g. Demote g reason now) live;
          write = (\<lambda>nxt rows. map (\<lambda>g. if gr_ID g = gr_ID nxt
             then g\<lparr>gr_Rung := gr_Rung nxt, gr_SuccessCount := 0,
                    gr_DemotedReason := gr_DemotedReason nxt, gr_DemotedAt := gr_DemotedAt nxt\<rparr>
             else g) rows)
      in (fold write demoted rows, demoted))"

definition RecordVerification ::
    "Grant list \<Rightarrow> string \<Rightarrow> gotime \<Rightarrow> string + Grant list" where
  "RecordVerification rows i when =
     (if length (filter (\<lambda>g. gr_ID g = i) rows) \<noteq> 1 then Inl ''conflict''
      else Inr (map (\<lambda>g. if gr_ID g = i then g\<lparr>gr_LastVerifiedAt := when\<rparr> else g) rows))"

text \<open>The join of \<open>VerifiedSuccesses\<close>, and its \<open>COUNT(DISTINCT o.episode_id)\<close>.\<close>

definition verified_episodes :: "LadderState \<Rightarrow> TriggerClass \<Rightarrow> ActionRef \<Rightarrow> string list" where
  "verified_episodes st cls action =
     [eo_EpisodeID o'.
        a \<leftarrow> ls_approvals st,
        r \<leftarrow> ls_runs st, run_SourceKind r = ''emisar_approval:'' @ apr_RequestID a,
        o' \<leftarrow> ls_outcomes st, eo_EpisodeID o' = run_EpisodeID r,
        apr_ActionID a = ar_ActionID action \<and> apr_PackRef a = ar_PackRef action
          \<and> apr_RunnerRef a = ar_RunnerRef action \<and> apr_Status a = ''success''
          \<and> eo_Verified o' \<and> eo_ChannelID o' = tc_ChannelID cls
          \<and> eo_AlertGroupKey o' = tc_AlertGroupKey cls \<and> eo_Repository o' = tc_Repository cls]"

definition VerifiedSuccesses :: "LadderState \<Rightarrow> TriggerClass \<Rightarrow> ActionRef \<Rightarrow> int" where
  "VerifiedSuccesses st cls action =
     (if \<not> CompleteTrigger cls \<or> \<not> CompleteAction action then 0
      else int (length (remdups (verified_episodes st cls action))))"

section \<open>The service\<close>

definition grantTriggerClass :: "LadderState \<Rightarrow> string \<Rightarrow> string \<Rightarrow> TriggerClass option" where
  "grantTriggerClass st incidentID channelID =
     (if incidentID = [] \<or> channelID = [] then None
      else case map_of (ls_incidents st) incidentID of
        None \<Rightarrow> None
      | Some incident \<Rightarrow>
          if inc_SourceIncidentID incident = [] then None
          else Some \<lparr>tc_AlertGroupKey = inc_SourceIncidentID incident, tc_ChannelID = channelID,
                     tc_Repository = inc_Repository incident\<rparr>)"

definition evaluateGrantPromotion ::
    "LadderState \<Rightarrow> TriggerClass \<Rightarrow> ActionRef \<Rightarrow> string \<Rightarrow> int \<Rightarrow> gotime \<Rightarrow> (Grant \<times> int) option" where
  "evaluateGrantPromotion st cls action rung claimed now =
     (let current = (case GetGrant (ls_grants st) cls action of None \<Rightarrow> emptyGrant | Some g \<Rightarrow> g);
          verified = VerifiedSuccesses st cls action;
          rung = (if rung = [] then NextRung current else rung)
      in case EvaluateOffer
             \<lparr>of_Trigger = cls, of_Action = action, of_Rung = rung, of_ClaimedSuccesses = claimed\<rparr>
             current verified DefaultPolicy now of
           Inl e \<Rightarrow> None
         | Inr granted \<Rightarrow> Some (granted, verified))"

text \<open>The card of \<open>offerGrantPromotion\<close>, when one is posted: the grant, the count it shows and
  the button's payload.  \<open>encode\<close> is \<open>json.Marshal\<close>.\<close>

definition offerGrantPromotion ::
    "(Confirmation \<Rightarrow> string option) \<Rightarrow> LadderState \<Rightarrow> string \<Rightarrow> string \<Rightarrow> ActionRef \<Rightarrow> string \<Rightarrow> int
     \<Rightarrow> gotime \<Rightarrow> (Grant \<times> int \<times> string) option" where
  "offerGrantPromotion encode st incidentID channelID action rung claimed now =
     (case grantTriggerClass st incidentID channelID of
        None \<Rightarrow> None
      | Some cls \<Rightarrow>
          (case evaluateGrantPromotion st cls action rung claimed now of
             None \<Rightarrow> None
           | Some (granted, verified) \<Rightarrow>
               (case encode (NewConfirmation granted now) of
                  None \<Rightarrow> None
                | Some payload \<Rightarrow>
                    if 1900 < length payload then None else Some (granted, verified, payload))))"

definition demoteGrantsForRun :: "LadderState \<Rightarrow> EmisarApproval \<Rightarrow> gotime \<Rightarrow> LadderState" where
  "demoteGrantsForRun st approval now =
     (case DemotionForRunStatus (apr_Status approval) of
        None \<Rightarrow> st
      | Some reason \<Rightarrow>
          let action = \<lparr>ar_ActionID = apr_ActionID approval, ar_PackRef = apr_PackRef approval,
                        ar_RunnerRef = apr_RunnerRef approval\<rparr>;
              (rows, demoted) = DemoteGrants (ls_grants st) action reason now
          in st\<lparr>ls_grants := rows,
                ls_audits := ls_audits st @ map (\<lambda>g.
                  \<lparr>la_ID = ''audit_grant_demoted_'' @ gr_ID g @ ''_'' @ apr_RequestID approval,
                   la_Kind = ''remediation.grant.demoted'', la_ActorID = ''responder'',
                   la_ObjectID = gr_ID g, la_Outcome = reason\<rparr>) demoted\<rparr>)"

datatype GrantReply = MustBeOperator | MustBeMember | ConfirmationStale | AlreadyHeld Grant
  | PromotionRefused | NotRecorded ConfirmError | PromotionConfirmed "Grant option" int

text \<open>\<open>authorizeGrantAction\<close>: an error of the membership lookup, a refusal, or permission.\<close>

definition authorizeGrantAction ::
    "string list \<Rightarrow> (string \<Rightarrow> string + bool) \<Rightarrow> SlackInput \<Rightarrow> string + GrantReply option" where
  "authorizeGrantAction operators userAllowed input =
     (if inp_UserID input \<notin> set operators then Inr (Some MustBeOperator)
      else case userAllowed (inp_UserID input) of
        Inl err \<Rightarrow> Inl err
      | Inr allowed \<Rightarrow> Inr (if allowed then None else Some MustBeMember))"

definition handleConfirmGrantPromotion ::
    "string list \<Rightarrow> (string \<Rightarrow> string + bool) \<Rightarrow> (string \<Rightarrow> Confirmation option) \<Rightarrow> LadderState
     \<Rightarrow> SlackInput \<Rightarrow> gotime \<Rightarrow> string option \<Rightarrow> string + GrantReply \<times> LadderState" where
  "handleConfirmGrantPromotion operators userAllowed decode st input now newID =
     (case authorizeGrantAction operators userAllowed input of
        Inl err \<Rightarrow> Inl err
      | Inr (Some reply) \<Rightarrow> Inr (reply, st)
      | Inr None \<Rightarrow>
        (case decode (inp_ActionValue input) of
           None \<Rightarrow> Inr (ConfirmationStale, st)
         | Some payload \<Rightarrow>
           (case Resolve payload (inp_ChannelID input) now of
              Inl _ \<Rightarrow> Inr (ConfirmationStale, st)
            | Inr (cls, action, rung) \<Rightarrow>
              (let held = GetGrant (ls_grants st) cls action in
               if (case held of None \<Rightarrow> False | Some h \<Rightarrow> gr_Rung h = rung \<and> Live h now)
               then Inr (AlreadyHeld (the held), st)
               else case evaluateGrantPromotion st cls action rung 0 now of
                 None \<Rightarrow> Inr (PromotionRefused, st)
               | Some (granted, verified) \<Rightarrow>
                   let granted = granted\<lparr>gr_GrantedBy := inp_UserID input\<rparr> in
                   (case ConfirmGrant (ls_grants st) granted now newID of
                      Inl e \<Rightarrow> Inr (NotRecorded e, st)
                    | Inr rows \<Rightarrow>
                        let stored = GetGrant rows (gr_Trigger granted) (gr_Action granted)
                        in Inr (PromotionConfirmed stored verified,
                             st\<lparr>ls_grants := rows,
                                ls_audits := ls_audits st @
                                  [\<lparr>la_ID = ''audit_grant_confirmed_'' @ inp_ID input,
                                    la_Kind = ''remediation.grant.confirmed'',
                                    la_ActorID = inp_UserID input,
                                    la_ObjectID = (case stored of None \<Rightarrow> [] | Some g \<Rightarrow> gr_ID g),
                                    la_Outcome = (case stored of None \<Rightarrow> [] | Some g \<Rightarrow> gr_Rung g)\<rparr>]\<rparr>))))))"

section \<open>The ladder as a machine\<close>

text \<open>What happens to the grants: an operator's click, the end of a supervised run, a stamped
  verification, and the rest of the program writing the records the evidence is counted on.\<close>

datatype LadderEvent = Click SlackInput gotime "string option"
  | RunFinished EmisarApproval gotime
  | Verification string gotime
  | Records "EmisarApproval list" "AgentRun list" "EpisodeOutcome list"

fun ladder_step ::
    "string list \<Rightarrow> (string \<Rightarrow> string + bool) \<Rightarrow> (string \<Rightarrow> Confirmation option) \<Rightarrow> LadderState
     \<Rightarrow> LadderEvent \<Rightarrow> string + LadderState" where
  "ladder_step operators userAllowed decode st (Click input now newID) =
     (case handleConfirmGrantPromotion operators userAllowed decode st input now newID of
        Inl err \<Rightarrow> Inl err | Inr (_, st') \<Rightarrow> Inr st')"
| "ladder_step operators userAllowed decode st (RunFinished approval now) =
     Inr (demoteGrantsForRun st approval now)"
| "ladder_step operators userAllowed decode st (Verification i when) =
     (case RecordVerification (ls_grants st) i when of
        Inl err \<Rightarrow> Inl err | Inr rows \<Rightarrow> Inr (st\<lparr>ls_grants := rows\<rparr>))"
| "ladder_step operators userAllowed decode st (Records approvals runs outcomes) =
     Inr (st\<lparr>ls_approvals := approvals, ls_runs := runs, ls_outcomes := outcomes\<rparr>)"

section \<open>The invariant\<close>

definition row_ok :: "string list \<Rightarrow> Grant \<Rightarrow> bool" where
  "row_ok operators g \<longleftrightarrow>
     ValidateGrant g = None \<and> rank (gr_Rung g) \<le> rank Ceiling \<and> gr_GrantedBy g \<in> set operators
     \<and> normalizedTrigger (gr_Trigger g) = gr_Trigger g \<and> normalizedAction (gr_Action g) = gr_Action g"

definition rows_ok :: "string list \<Rightarrow> Grant list \<Rightarrow> bool" where
  "rows_ok operators rows \<longleftrightarrow>
     distinct (map gr_ID rows) \<and> distinct (map identity rows) \<and> (\<forall>g \<in> set rows. row_ok operators g)"

lemma GetGrant_Some:
  "distinct (map identity rows) \<Longrightarrow>
   GetGrant rows cls action = Some g \<longleftrightarrow> g \<in> set rows \<and> identity g = (cls, action)"
  unfolding GetGrant_def by (induction rows) (auto simp: image_iff)

lemma GetGrant_None:
  "GetGrant rows cls action = None \<longleftrightarrow> (\<forall>g \<in> set rows. identity g \<noteq> (cls, action))"
  by (auto simp: GetGrant_def find_None_iff)

lemma GetGrant_map:
  "(\<And>g. identity (f g) = identity g) \<Longrightarrow>
   GetGrant (map f rows) cls action = map_option f (GetGrant rows cls action)"
  unfolding GetGrant_def by (induction rows) auto

lemma GetGrant_append:
  "GetGrant (rows @ rows') cls action =
     (case GetGrant rows cls action of None \<Rightarrow> GetGrant rows' cls action | Some g \<Rightarrow> Some g)"
  unfolding GetGrant_def by (induction rows) auto

lemma GetGrant_single:
  "GetGrant [g] cls action = (if identity g = (cls, action) then Some g else None)"
  by (simp add: GetGrant_def)

lemma identity_update_row [simp]: "identity (update_row g row) = identity row"
  by (simp add: update_row_def identity_def)

lemma gr_ID_update_row [simp]: "gr_ID (update_row g row) = gr_ID row"
  by (simp add: update_row_def)

lemma identity_Demote [simp]: "identity (Demote g reason now) = identity g"
  by (simp add: Demote_def identity_def)

lemma gr_ID_Demote [simp]: "gr_ID (Demote g reason now) = gr_ID g"
  by (simp add: Demote_def)

text \<open>With one row per id, the updates of a demotion rewrite the selected rows in place.\<close>

definition demote_row :: "ActionRef \<Rightarrow> string \<Rightarrow> gotime \<Rightarrow> Grant \<Rightarrow> Grant" where
  "demote_row action reason now g =
     (if gr_Action g = action \<and> gr_Rung g \<noteq> RungObserve then Demote g reason now else g)"

lemma fold_write:
  assumes w: "\<And>n g. gr_ID (w n g) = gr_ID g"
    and "distinct (map gr_ID ns)"
  shows "fold (\<lambda>n rows. map (\<lambda>g. if gr_ID g = gr_ID n then w n g else g) rows) ns rows =
    map (\<lambda>g. case find (\<lambda>n. gr_ID n = gr_ID g) ns of None \<Rightarrow> g | Some n \<Rightarrow> w n g) rows"
  using assms(2)
proof (induction ns arbitrary: rows)
  case (Cons n ns)
  have "find (\<lambda>m. gr_ID m = gr_ID n) ns = None"
    using Cons.prems by (auto simp: find_None_iff) (metis image_eqI)
  with Cons.IH Cons.prems show ?case by (simp add: w split: option.splits)
qed simp

lemma find_demoted:
  assumes f: "\<And>g. gr_ID (f g) = gr_ID g"
    and "distinct (map gr_ID rows)" and "g \<in> set rows"
  shows "find (\<lambda>n. gr_ID n = gr_ID g) (map f (filter P rows)) = (if P g then Some (f g) else None)"
  using assms(2,3)
proof (induction rows)
  case (Cons h rows)
  show ?case
  proof (cases "g = h")
    case True
    with Cons.prems have "find (\<lambda>n. gr_ID n = gr_ID g) (map f (filter P rows)) = None"
      by (auto simp: find_None_iff f image_iff)
    with True f show ?thesis by simp
  next
    case False
    with Cons.prems have "g \<in> set rows" "gr_ID h \<noteq> gr_ID g" by (auto simp: image_iff)
    with Cons show ?thesis by (simp add: f)
  qed
qed simp

lemma DemoteGrants_rows:
  assumes "distinct (map gr_ID rows)"
  shows "fst (DemoteGrants rows action reason now) = map (demote_row action reason now) rows"
proof -
  let ?P = "\<lambda>g. gr_Action g = action \<and> gr_Rung g \<noteq> RungObserve"
  let ?ns = "map (\<lambda>g. Demote g reason now) (filter ?P rows)"
  let ?w = "\<lambda>n g. g\<lparr>gr_Rung := gr_Rung n, gr_SuccessCount := 0,
    gr_DemotedReason := gr_DemotedReason n, gr_DemotedAt := gr_DemotedAt n\<rparr>"
  have "fst (DemoteGrants rows action reason now) =
      map (\<lambda>g. case find (\<lambda>n. gr_ID n = gr_ID g) ?ns of None \<Rightarrow> g | Some n \<Rightarrow> ?w n g) rows"
    unfolding DemoteGrants_def Let_def fst_conv
    by (rule fold_write) (use assms in \<open>simp_all add: o_def distinct_map_filter\<close>)
  also have "\<dots> = map (demote_row action reason now) rows"
    using find_demoted [of "\<lambda>g. Demote g reason now", OF gr_ID_Demote assms]
    by (intro map_cong) (auto simp: demote_row_def Demote_def)
  finally show ?thesis .
qed

lemma identity_demote_row [simp]: "identity (demote_row action reason now g) = identity g"
  by (simp add: demote_row_def)

lemma gr_ID_demote_row [simp]: "gr_ID (demote_row action reason now g) = gr_ID g"
  by (simp add: demote_row_def)

lemma row_ok_demote: "row_ok operators g \<Longrightarrow> row_ok operators (demote_row action reason now g)"
  using rank_Demote [of g reason now]
  by (auto simp: row_ok_def demote_row_def ValidateGrant_None ValidRung_rank)
    (auto simp: Demote_def)

lemma rows_ok_map:
  assumes "rows_ok operators rows"
    and "\<And>g. gr_ID (f g) = gr_ID g" and "\<And>g. identity (f g) = identity g"
    and "\<And>g. g \<in> set rows \<Longrightarrow> row_ok operators (f g)"
  shows "rows_ok operators (map f rows)"
  using assms by (simp add: rows_ok_def o_def)

lemma rows_ok_demote:
  "rows_ok operators rows \<Longrightarrow> rows_ok operators (fst (DemoteGrants rows action reason now))"
  by (subst DemoteGrants_rows) (auto simp: rows_ok_def o_def row_ok_demote)

lemma rows_ok_verification:
  "rows_ok operators rows \<Longrightarrow> RecordVerification rows i when = Inr rows' \<Longrightarrow> rows_ok operators rows'"
  unfolding RecordVerification_def
  by (auto split: if_splits intro!: rows_ok_map)
    (auto simp: identity_def rows_ok_def row_ok_def ValidateGrant_None)

text \<open>What an accepted confirmation writes, in terms of the row read back.\<close>

definition stored_grant :: "Grant \<Rightarrow> gotime \<Rightarrow> Grant" where
  "stored_grant grant now =
     grant\<lparr>gr_GrantedAt := (if IsZero (gr_GrantedAt grant) then now else gr_GrantedAt grant)\<rparr>"

lemma ConfirmGrant_cases:
  assumes "ConfirmGrant rows grant now newID = Inr rows'"
  obtains i g where "ValidateGrant grant = None" "g = stored_grant grant now\<lparr>gr_ID := i\<rparr>"
    "\<exists>row \<in> set rows. identity row = identity grant" "rows' = map (update_row g) rows"
  | i g where "ValidateGrant grant = None" "g = stored_grant grant now\<lparr>gr_ID := i\<rparr>"
    "\<forall>row \<in> set rows. identity row \<noteq> identity grant" "\<forall>row \<in> set rows. gr_ID row \<noteq> i"
    "rows' = rows @ [insert_row g]"
proof -
  obtain i where i: "(if gr_ID grant = [] then newID else Some (gr_ID grant)) = Some i"
    and valid: "ValidateGrant grant = None"
    using assms by (auto simp: ConfirmGrant_def split: option.splits if_splits)
  let ?g = "stored_grant grant now\<lparr>gr_ID := i\<rparr>"
  have g: "grant\<lparr>gr_ID := i, gr_GrantedAt := (if IsZero (gr_GrantedAt grant) then now
      else gr_GrantedAt grant)\<rparr> = ?g"
    by (simp add: stored_grant_def)
  have ident: "identity ?g = identity grant" by (simp add: stored_grant_def identity_def)
  have "(\<exists>row \<in> set rows. identity row = identity grant) \<and> rows' = map (update_row ?g) rows
    \<or> (\<forall>row \<in> set rows. identity row \<noteq> identity grant) \<and> (\<forall>row \<in> set rows. gr_ID row \<noteq> i)
      \<and> rows' = rows @ [insert_row ?g]"
    using assms unfolding ConfirmGrant_def valid i option.case Let_def g ident
    by (auto simp: list_ex_iff split: if_splits)
  with that valid show thesis by blast
qed

lemma identity_insert_row [simp]: "identity (insert_row g) = identity g"
  by (simp add: insert_row_def identity_def)

lemma row_ok_written:
  assumes "row_ok operators grant" and "g = stored_grant grant now\<lparr>gr_ID := i\<rparr>"
  shows "row_ok operators (insert_row g)"
    and "row_ok operators row \<Longrightarrow> row_ok operators (update_row g row)"
proof -
  show "row_ok operators (insert_row g)"
    using assms by (simp add: row_ok_def insert_row_def stored_grant_def ValidateGrant_None)
  show "row_ok operators row \<Longrightarrow> row_ok operators (update_row g row)"
    using assms by (simp add: row_ok_def update_row_def stored_grant_def ValidateGrant_None)
qed

lemma rows_ok_confirm:
  assumes "rows_ok operators rows" and "row_ok operators grant"
    and "ConfirmGrant rows grant now newID = Inr rows'"
  shows "rows_ok operators rows'"
  using assms(3)
proof (cases rule: ConfirmGrant_cases)
  case (1 i g)
  show ?thesis unfolding \<open>rows' = map (update_row g) rows\<close>
    using assms(1) row_ok_written(2) [OF assms(2) 1(2)]
    by (intro rows_ok_map) (auto simp: rows_ok_def)
next
  case (2 i g)
  then have "gr_ID (insert_row g) = i" "identity g = identity grant"
    by (simp_all add: insert_row_def stored_grant_def identity_def)
  with 2 assms(1) row_ok_written(1) [OF assms(2) 2(2)] show ?thesis
    by (auto simp: rows_ok_def)
qed

lemma authorizeGrantAction_None:
  "authorizeGrantAction operators userAllowed input = Inr None \<longleftrightarrow>
   inp_UserID input \<in> set operators \<and> userAllowed (inp_UserID input) = Inr True"
  by (auto simp: authorizeGrantAction_def split: sum.splits)

text \<open>The one branch of the handler that writes.\<close>

lemma click_cases:
  assumes "handleConfirmGrantPromotion operators userAllowed decode st input now newID = Inr (reply, st')"
    and "st' \<noteq> st"
  obtains payload cls action rung granted verified rows audits where
    "inp_UserID input \<in> set operators" "userAllowed (inp_UserID input) = Inr True"
    "decode (inp_ActionValue input) = Some payload"
    "Resolve payload (inp_ChannelID input) now = Inr (cls, action, rung)"
    "evaluateGrantPromotion st cls action rung 0 now = Some (granted, verified)"
    "ConfirmGrant (ls_grants st) (granted\<lparr>gr_GrantedBy := inp_UserID input\<rparr>) now newID = Inr rows"
    "st' = st\<lparr>ls_grants := rows, ls_audits := audits\<rparr>"
proof -
  note h = assms(1) [unfolded handleConfirmGrantPromotion_def]
  from assms(2) h have auth: "authorizeGrantAction operators userAllowed input = Inr None"
    by (auto split: sum.splits option.splits)
  note h = h [unfolded auth sum.case option.case]
  from assms(2) h obtain payload where p: "decode (inp_ActionValue input) = Some payload"
    by (cases "decode (inp_ActionValue input)") auto
  note h = h [unfolded p option.case]
  from assms(2) h obtain cls action rung where
    r: "Resolve payload (inp_ChannelID input) now = Inr (cls, action, rung)"
    by (cases "Resolve payload (inp_ChannelID input) now") auto
  note h = h [unfolded r sum.case prod.case Let_def]
  from assms(2) h obtain granted verified where
    e: "evaluateGrantPromotion st cls action rung 0 now = Some (granted, verified)"
    by (cases "evaluateGrantPromotion st cls action rung 0 now") (auto split: if_splits)
  note h = h [unfolded e option.case prod.case]
  let ?c = "ConfirmGrant (ls_grants st) (granted\<lparr>gr_GrantedBy := inp_UserID input\<rparr>) now newID"
  from assms(2) h obtain rows where c: "?c = Inr rows"
    by (cases ?c) (auto split: if_splits)
  note h = h [unfolded c sum.case]
  from assms(2) h obtain audits where "st' = st\<lparr>ls_grants := rows, ls_audits := audits\<rparr>"
    by (auto split: if_splits)
  with auth p r e c show thesis
    using that by (simp add: authorizeGrantAction_None)
qed

definition current_grant :: "Grant list \<Rightarrow> TriggerClass \<Rightarrow> ActionRef \<Rightarrow> Grant" where
  "current_grant rows cls action =
     (case GetGrant rows cls action of None \<Rightarrow> emptyGrant | Some g \<Rightarrow> g)"

lemma evaluateGrantPromotion_Some:
  assumes "evaluateGrantPromotion st cls action rung claimed now = Some (granted, verified)"
  shows "verified = VerifiedSuccesses st cls action"
    and "3 \<le> verified" and "claimed \<le> verified"
    and "CompleteTrigger cls" "CompleteAction action"
    and "rank (gr_Rung granted) = rank (held_rung (current_grant (ls_grants st) cls action)) + 1"
    and "0 \<le> rank (gr_Rung granted)" "rank (gr_Rung granted) \<le> 2"
    and "identity granted = (normalizedTrigger cls, normalizedAction action)"
    and "gr_GrantedAt granted = now" "gr_ExpiresAt granted = time_add now (30 * day)"
    and "gr_SuccessCount granted = verified"
proof -
  let ?o = "\<lparr>of_Trigger = cls, of_Action = action,
    of_Rung = (if rung = [] then NextRung (current_grant (ls_grants st) cls action) else rung),
    of_ClaimedSuccesses = claimed\<rparr>"
  from assms have "verified = VerifiedSuccesses st cls action"
    and e: "EvaluateOffer ?o (current_grant (ls_grants st) cls action) verified DefaultPolicy now
      = Inr granted"
    by (auto simp: evaluateGrantPromotion_def current_grant_def Let_def split: sum.splits)
  moreover have "ValidRung (gr_Rung granted)" "gr_Rung granted \<noteq> RungAuto"
    using e by (auto simp: EvaluateOffer_Inr earned_grant_def)
  then have "0 \<le> rank (gr_Rung granted)" "rank (gr_Rung granted) \<le> 2"
    using rank_auto [of "gr_Rung granted"] rank_range(2) [of "gr_Rung granted"]
    by (auto simp: ValidRung_rank)
  ultimately show "verified = VerifiedSuccesses st cls action"
    "3 \<le> verified" "claimed \<le> verified" "CompleteTrigger cls" "CompleteAction action"
    "rank (gr_Rung granted) = rank (held_rung (current_grant (ls_grants st) cls action)) + 1"
    "0 \<le> rank (gr_Rung granted)" "rank (gr_Rung granted) \<le> 2"
    "identity granted = (normalizedTrigger cls, normalizedAction action)"
    "gr_GrantedAt granted = now" "gr_ExpiresAt granted = time_add now (30 * day)"
    "gr_SuccessCount granted = verified"
    by (auto simp: EvaluateOffer_Inr earned_grant_def identity_def DefaultPolicy_def
        duration_units)
qed

lemma confirm_valid: "ConfirmGrant rows grant now newID = Inr rows' \<Longrightarrow> ValidateGrant grant = None"
  by (auto simp: ConfirmGrant_def split: option.splits)

lemma rows_ok_click:
  assumes "rows_ok operators (ls_grants st)"
    and "handleConfirmGrantPromotion operators userAllowed decode st input now newID = Inr (reply, st')"
  shows "rows_ok operators (ls_grants st')"
proof (cases "st' = st")
  case False
  from click_cases [OF assms(2) False] obtain cls action rung granted verified rows audits where
    u: "inp_UserID input \<in> set operators"
    and e: "evaluateGrantPromotion st cls action rung 0 now = Some (granted, verified)"
    and c: "ConfirmGrant (ls_grants st) (granted\<lparr>gr_GrantedBy := inp_UserID input\<rparr>) now newID = Inr rows"
    and st': "st' = st\<lparr>ls_grants := rows, ls_audits := audits\<rparr>"
    by metis
  have "row_ok operators (granted\<lparr>gr_GrantedBy := inp_UserID input\<rparr>)"
    using confirm_valid [OF c] evaluateGrantPromotion_Some(8,9) [OF e] u
    by (simp add: row_ok_def identity_def trigger_nf.norm_idem action_nf.norm_idem)
  from rows_ok_confirm [OF assms(1) this c] st' show ?thesis by simp
qed (use assms in simp)

definition ladder_ok :: "string list \<Rightarrow> LadderState \<Rightarrow> bool" where
  "ladder_ok operators st \<longleftrightarrow> rows_ok operators (ls_grants st)"

lemma ladder_ok_run: "ladder_ok operators st \<Longrightarrow> ladder_ok operators (demoteGrantsForRun st approval now)"
  using rows_ok_demote
  by (auto simp: ladder_ok_def demoteGrantsForRun_def Let_def split: option.splits prod.splits)
    (metis fst_conv)

interpretation grant_ladder: guarded_machine
    "ladder_step operators userAllowed decode" "ladder_ok operators"
  for operators :: "string list" and userAllowed :: "string \<Rightarrow> string + bool"
    and decode :: "string \<Rightarrow> Confirmation option"
proof
  fix st e st'
  assume "ladder_ok operators st" "ladder_step operators userAllowed decode st e = Inr st'"
  then show "ladder_ok operators st'"
    using rows_ok_click rows_ok_verification
    by (cases e) (auto simp: ladder_ok_def ladder_ok_run [unfolded ladder_ok_def]
        split: sum.splits prod.splits)
qed

text \<open>Whatever is clicked, run or recorded, and however the button's payload is forged, every
  grant on file is complete, unique for its identity, has an expiry, holds a rung at or below the
  ceiling and names a configured operator.\<close>

theorem grants_on_file:
  assumes "ls_grants st = []"
    and "g \<in> set (ls_grants (run_machine (ladder_step operators userAllowed decode) st events))"
  shows "ValidateGrant g = None \<and> gr_GrantedBy g \<in> set operators \<and> rank (gr_Rung g) \<le> rank Ceiling
    \<and> GetGrant (ls_grants (run_machine (ladder_step operators userAllowed decode) st events))
        (gr_Trigger g) (gr_Action g) = Some g"
proof -
  have "ladder_ok operators st" using assms(1) by (simp add: ladder_ok_def rows_ok_def)
  from grant_ladder.run_inv [OF this] have
    "rows_ok operators (ls_grants (run_machine (ladder_step operators userAllowed decode) st events))"
    by (simp add: ladder_ok_def)
  with assms(2) show ?thesis
    by (auto simp: rows_ok_def row_ok_def GetGrant_Some) (auto simp: identity_def)
qed

definition held_rank :: "Grant list \<Rightarrow> TriggerClass \<Rightarrow> ActionRef \<Rightarrow> int" where
  "held_rank rows cls action = rank (held_rung (current_grant rows cls action))"

lemma held_rank_None: "GetGrant rows cls action = None \<Longrightarrow> held_rank rows cls action = 0"
  by (simp add: held_rank_def held_rung_def current_grant_def emptyGrant_def)

lemma held_rank_Some:
  "GetGrant rows cls action = Some g \<Longrightarrow> ValidateGrant g = None \<Longrightarrow>
   held_rank rows cls action = rank (gr_Rung g)"
  by (auto simp: held_rank_def held_rung_def current_grant_def ValidateGrant_None ValidRung_rank)

lemma rows_ok_Get:
  "rows_ok operators rows \<Longrightarrow> GetGrant rows cls action = Some g \<Longrightarrow>
   row_ok operators g \<and> identity g = (cls, action)"
  by (simp add: rows_ok_def GetGrant_Some)

lemma held_rank_nonneg: "rows_ok operators rows \<Longrightarrow> 0 \<le> held_rank rows cls action"
  using rows_ok_Get [of operators rows cls action] held_rank_None [of rows cls action]
  by (cases "GetGrant rows cls action")
    (auto simp: held_rank_Some row_ok_def ValidateGrant_None ValidRung_rank)

text \<open>A row of the table is at its own normal form, so a lookup under any other spelling of the
  identity finds nothing.\<close>

lemma held_rank_spelling:
  assumes "rows_ok operators rows" and "\<not> (normalizedTrigger cls = cls \<and> normalizedAction action = action)"
  shows "held_rank rows cls action = 0"
  using assms rows_ok_Get [OF assms(1), of cls action]
  by (cases "GetGrant rows cls action") (auto simp: held_rank_None row_ok_def identity_def)

lemma held_rank_demote:
  assumes "rows_ok operators rows"
  shows "held_rank (fst (DemoteGrants rows a reason now)) cls action =
    (if action = a then max 0 (held_rank rows cls action - 1) else held_rank rows cls action)"
proof (cases "GetGrant rows cls action")
  case None
  have "distinct (map gr_ID rows)" using assms by (simp add: rows_ok_def)
  with None show ?thesis by (auto simp: DemoteGrants_rows held_rank_None GetGrant_map)
next
  case (Some g)
  have "distinct (map gr_ID rows)" using assms by (simp add: rows_ok_def)
  then have get: "GetGrant (fst (DemoteGrants rows a reason now)) cls action = Some (demote_row a reason now g)"
    using Some by (simp add: DemoteGrants_rows GetGrant_map)
  have ok: "row_ok operators g" "identity g = (cls, action)" using rows_ok_Get [OF assms Some] by auto
  then have "ValidateGrant (demote_row a reason now g) = None" "ValidateGrant g = None"
    using row_ok_demote [of operators g a reason now] by (auto simp: row_ok_def)
  with get Some have "held_rank (fst (DemoteGrants rows a reason now)) cls action
      = rank (gr_Rung (demote_row a reason now g))" "held_rank rows cls action = rank (gr_Rung g)"
    by (simp_all add: held_rank_Some)
  moreover have "0 \<le> rank (gr_Rung g)" using ok by (simp add: row_ok_def ValidateGrant_None ValidRung_rank)
  ultimately show ?thesis
    using ok(2) by (auto simp: demote_row_def rank_Demote identity_def)
qed

lemma held_rank_confirm:
  assumes "rows_ok operators rows" and "row_ok operators grant"
    and "ConfirmGrant rows grant now newID = Inr rows'"
  shows "identity grant \<noteq> (cls, action) \<Longrightarrow> held_rank rows' cls action = held_rank rows cls action"
    and "identity grant = (cls, action) \<Longrightarrow>
      \<exists>g. GetGrant rows' cls action = Some g \<and> gr_Rung g = gr_Rung grant
        \<and> gr_GrantedBy g = gr_GrantedBy grant \<and> gr_ExpiresAt g = gr_ExpiresAt grant
        \<and> held_rank rows' cls action = rank (gr_Rung grant)"
proof -
  have ok: "rows_ok operators rows'" by (rule rows_ok_confirm [OF assms])
  from assms(3) have "(identity grant \<noteq> (cls, action) \<longrightarrow>
       GetGrant rows' cls action = GetGrant rows cls action)
    \<and> (identity grant = (cls, action) \<longrightarrow>
      (\<exists>g. GetGrant rows' cls action = Some g \<and> gr_Rung g = gr_Rung grant
        \<and> gr_GrantedBy g = gr_GrantedBy grant \<and> gr_ExpiresAt g = gr_ExpiresAt grant))"
  proof (cases rule: ConfirmGrant_cases)
    case (1 i g)
    have g: "identity g = identity grant" "gr_Rung g = gr_Rung grant"
      "gr_GrantedBy g = gr_GrantedBy grant" "gr_ExpiresAt g = gr_ExpiresAt grant"
      by (simp_all add: 1(2) stored_grant_def identity_def)
    have get: "GetGrant rows' cls action = map_option (update_row g) (GetGrant rows cls action)"
      by (simp add: 1(4) GetGrant_map)
    show ?thesis
    proof (cases "GetGrant rows cls action")
      case None
      then have "identity grant \<noteq> (cls, action)" using 1(3) by (auto simp: GetGrant_None)
      with None get show ?thesis by simp
    next
      case (Some row)
      with rows_ok_Get [OF assms(1)] have "identity row = (cls, action)" by blast
      with Some get g show ?thesis by (auto simp: update_row_def)
    qed
  next
    case (2 i g)
    have g: "identity (insert_row g) = identity grant" "gr_Rung (insert_row g) = gr_Rung grant"
      "gr_GrantedBy (insert_row g) = gr_GrantedBy grant"
      "gr_ExpiresAt (insert_row g) = gr_ExpiresAt grant"
      by (simp_all add: 2(2) stored_grant_def identity_def insert_row_def)
    have "GetGrant rows cls action = None" if "identity grant = (cls, action)"
      using 2(3) that by (auto simp: GetGrant_None)
    with g show ?thesis
      unfolding 2(5) by (auto simp: GetGrant_append GetGrant_single split: option.splits)
  qed
  note get = this
  show "identity grant \<noteq> (cls, action) \<Longrightarrow> held_rank rows' cls action = held_rank rows cls action"
    using get by (simp add: held_rank_def current_grant_def)
  assume "identity grant = (cls, action)"
  with get obtain g where g: "GetGrant rows' cls action = Some g" "gr_Rung g = gr_Rung grant"
    "gr_GrantedBy g = gr_GrantedBy grant" "gr_ExpiresAt g = gr_ExpiresAt grant" by blast
  moreover have "held_rank rows' cls action = rank (gr_Rung g)"
    using rows_ok_Get [OF ok g(1)] g(1) by (simp add: held_rank_Some row_ok_def)
  ultimately show "\<exists>g. GetGrant rows' cls action = Some g \<and> gr_Rung g = gr_Rung grant
        \<and> gr_GrantedBy g = gr_GrantedBy grant \<and> gr_ExpiresAt g = gr_ExpiresAt grant
        \<and> held_rank rows' cls action = rank (gr_Rung grant)"
    by auto
qed

text \<open>C11. Only an operator's click climbs the ladder: a step after which more authority is held
  for an exact identity is a click by a configured operator with workspace membership, on at
  least three verified successes counted by the host at that moment; it climbs exactly one rung,
  and the row names the operator and expires thirty days later.\<close>

theorem rung_climbs_only_by_click:
  assumes "ladder_ok operators st" and "ladder_step operators userAllowed decode st e = Inr st'"
    and "held_rank (ls_grants st) cls action < held_rank (ls_grants st') cls action"
  shows "\<exists>input now newID cls0 action0 g.
    e = Click input now newID \<and> inp_UserID input \<in> set operators
    \<and> userAllowed (inp_UserID input) = Inr True
    \<and> EqualTrigger cls0 cls \<and> EqualAction action0 action \<and> 3 \<le> VerifiedSuccesses st cls0 action0
    \<and> held_rank (ls_grants st') cls action = held_rank (ls_grants st) cls action + 1
    \<and> GetGrant (ls_grants st') cls action = Some g \<and> gr_GrantedBy g = inp_UserID input
    \<and> gr_ExpiresAt g = time_add now (30 * day)"
proof (cases e)
  case (Click input now newID)
  then obtain reply where h:
    "handleConfirmGrantPromotion operators userAllowed decode st input now newID = Inr (reply, st')"
    using assms(2) by (auto split: sum.splits)
  have ok: "rows_ok operators (ls_grants st)" using assms(1) by (simp add: ladder_ok_def)
  have "st' \<noteq> st" using assms(3) by auto
  from click_cases [OF h this] obtain cls0 action0 rung granted verified rows audits where
    u: "inp_UserID input \<in> set operators" "userAllowed (inp_UserID input) = Inr True"
    and ev: "evaluateGrantPromotion st cls0 action0 rung 0 now = Some (granted, verified)"
    and c: "ConfirmGrant (ls_grants st) (granted\<lparr>gr_GrantedBy := inp_UserID input\<rparr>) now newID = Inr rows"
    and st': "st' = st\<lparr>ls_grants := rows, ls_audits := audits\<rparr>"
    by metis
  let ?g = "granted\<lparr>gr_GrantedBy := inp_UserID input\<rparr>"
  note E = evaluateGrantPromotion_Some [OF ev]
  have rok: "row_ok operators ?g"
    using confirm_valid [OF c] E(8,9) u
    by (simp add: row_ok_def identity_def trigger_nf.norm_idem action_nf.norm_idem)
  have ident: "identity ?g = (normalizedTrigger cls0, normalizedAction action0)"
    using E(9) by (simp add: identity_def)
  have same: "cls = normalizedTrigger cls0" "action = normalizedAction action0"
    using held_rank_confirm(1) [OF ok rok c, of cls action] assms(3) st' ident by auto
  with held_rank_confirm(2) [OF ok rok c, of cls action] ident st' obtain g where
    g: "GetGrant (ls_grants st') cls action = Some g" "gr_GrantedBy g = inp_UserID input"
    "gr_ExpiresAt g = gr_ExpiresAt granted"
    and r: "held_rank (ls_grants st') cls action = rank (gr_Rung granted)"
    by auto
  have climb: "rank (gr_Rung granted) = held_rank (ls_grants st) cls0 action0 + 1"
    using E(6) by (simp add: held_rank_def)
  have "held_rank (ls_grants st) cls0 action0 = held_rank (ls_grants st) cls action"
  proof (cases "normalizedTrigger cls0 = cls0 \<and> normalizedAction action0 = action0")
    case True
    then show ?thesis unfolding same by simp
  next
    case False
    from held_rank_spelling [OF ok this] climb r assms(3) held_rank_nonneg [OF ok, of cls action]
    show ?thesis by linarith
  qed
  then have "held_rank (ls_grants st') cls action = held_rank (ls_grants st) cls action + 1"
    using r climb by simp
  moreover have "EqualTrigger cls0 cls" "EqualAction action0 action"
    by (simp_all add: same trigger_nf.same_norm action_nf.same_norm trigger_nf.norm_idem
        action_nf.norm_idem)
  moreover have "3 \<le> VerifiedSuccesses st cls0 action0" using E(1,2) by simp
  moreover have "gr_ExpiresAt g = time_add now (30 * day)" using g(3) E(11) by simp
  ultimately show ?thesis using Click u g by blast
next
  case (RunFinished approval now)
  have ok: "rows_ok operators (ls_grants st)" using assms(1) by (simp add: ladder_ok_def)
  have "held_rank (ls_grants (demoteGrantsForRun st approval now)) cls action
      \<le> held_rank (ls_grants st) cls action"
    using held_rank_demote [OF ok] held_rank_nonneg [OF ok, of cls action]
    by (auto simp: demoteGrantsForRun_def Let_def case_prod_beta split: option.splits)
  with RunFinished assms show ?thesis by simp
next
  case (Verification i stamp)
  have "held_rank rows cls action = held_rank (ls_grants st) cls action"
    if "RecordVerification (ls_grants st) i stamp = Inr rows" for rows
  proof -
    from that have "rows = map (\<lambda>g. if gr_ID g = i then g\<lparr>gr_LastVerifiedAt := stamp\<rparr> else g) (ls_grants st)"
      by (auto simp: RecordVerification_def split: if_splits)
    then have "GetGrant rows cls action =
        map_option (\<lambda>g. if gr_ID g = i then g\<lparr>gr_LastVerifiedAt := stamp\<rparr> else g)
          (GetGrant (ls_grants st) cls action)"
      by (simp add: GetGrant_map identity_def)
    then show ?thesis
      by (cases "GetGrant (ls_grants st) cls action")
        (auto simp: held_rank_def held_rung_def current_grant_def)
  qed
  with Verification assms show ?thesis by (auto split: sum.splits)
next
  case (Records approvals runs outcomes)
  with assms show ?thesis by auto
qed

text \<open>A supervised run that failed takes one rung from every grant of that exact action, under
  whatever trigger class it was granted, and from no other; a run that succeeded, was denied or
  cancelled, or ended in a status the host does not know, takes nothing.\<close>

theorem failed_run_demotes:
  assumes "ladder_ok operators st"
  shows "held_rank (ls_grants (demoteGrantsForRun st approval now)) cls action =
    (if apr_Status approval \<in> {''failed'', ''error'', ''timed_out'', ''refused'', ''unknown_action'',
           ''validation_failed''}
        \<and> ar_ActionID action = apr_ActionID approval \<and> ar_PackRef action = apr_PackRef approval
        \<and> ar_RunnerRef action = apr_RunnerRef approval
     then max 0 (held_rank (ls_grants st) cls action - 1) else held_rank (ls_grants st) cls action)"
proof -
  let ?a = "\<lparr>ar_ActionID = apr_ActionID approval, ar_PackRef = apr_PackRef approval,
    ar_RunnerRef = apr_RunnerRef approval\<rparr>"
  have eq: "action = ?a \<longleftrightarrow> ar_ActionID action = apr_ActionID approval
      \<and> ar_PackRef action = apr_PackRef approval \<and> ar_RunnerRef action = apr_RunnerRef approval"
    by (cases action) auto
  have demote: "held_rank (fst (DemoteGrants (ls_grants st) ?a reason now)) cls action =
      (if action = ?a then max 0 (held_rank (ls_grants st) cls action - 1)
       else held_rank (ls_grants st) cls action)" for reason
    using assms by (simp only: ladder_ok_def held_rank_demote)
  show ?thesis
  proof (cases "DemotionForRunStatus (apr_Status approval)")
    case None
    then show ?thesis
      by (auto simp: demoteGrantsForRun_def DemotionForRunStatus_def split: if_splits)
  next
    case (Some reason)
    then have "ls_grants (demoteGrantsForRun st approval now)
        = fst (DemoteGrants (ls_grants st) ?a reason now)"
      by (simp add: demoteGrantsForRun_def Let_def case_prod_beta)
    moreover from Some have "apr_Status approval \<in> {''failed'', ''error'', ''timed_out'', ''refused'',
        ''unknown_action'', ''validation_failed''}"
      by (auto simp: DemotionForRunStatus_def split: if_splits)
    ultimately show ?thesis by (simp only: demote eq simp_thms)
  qed
qed

lemma set_Matching: "set (Matching rows cls) \<subseteq> set rows"
  by (auto simp: Matching_def)

text \<open>C24. End to end: after any sequence of clicks, runs and records from an empty table, a card
  gets a button only when a configured operator granted this exact action for this exact trigger
  class, the grant has not expired, and its rung is propose or one click.\<close>

theorem offered_only_when_granted:
  assumes "ls_grants st = []"
    and "de_MayOffer (Decide (Matching
      (ls_grants (run_machine (ladder_step operators userAllowed decode) st events))
      (tg_Class trigger)) trigger now)"
  shows "\<exists>g \<in> set (ls_grants (run_machine (ladder_step operators userAllowed decode) st events)).
    gr_GrantedBy g \<in> set operators \<and> EqualTrigger (gr_Trigger g) (tg_Class trigger)
    \<and> EqualAction (gr_Action g) (tg_Action trigger) \<and> now < gr_ExpiresAt g
    \<and> gr_Rung g \<in> {RungPropose, RungOneClick}"
proof -
  let ?rows = "ls_grants (run_machine (ladder_step operators userAllowed decode) st events)"
  let ?d = "Decide (Matching ?rows (tg_Class trigger)) trigger now"
  have "ladder_ok operators st" using assms(1) by (simp add: ladder_ok_def rows_ok_def)
  from grant_ladder.run_inv [OF this] have ok: "rows_ok operators ?rows" by (simp add: ladder_ok_def)
  obtain b where b: "decide_scan trigger now (Matching ?rows (tg_Class trigger)) None False
      = (Some b, snd (decide_scan trigger now (Matching ?rows (tg_Class trigger)) None False))"
    and rung: "1 \<le> rank (fst (atMost (gr_Rung b) Ceiling))"
    using assms(2) by (auto simp: Decide_def observe_def Let_def split: if_splits option.splits prod.splits)
  from b have "fst (decide_scan trigger now (Matching ?rows (tg_Class trigger)) None False) = Some b"
    by (metis fst_conv)
  from decide_scan_Some [OF this] have "b \<in> set ?rows" "covers trigger now b"
    using set_Matching [of ?rows "tg_Class trigger"] by auto
  moreover from this ok have "row_ok operators b" by (simp add: rows_ok_def)
  ultimately show ?thesis
    using rung
    by (intro bexI [of _ b])
      (auto simp: covers_def row_ok_def Live_def atMost_def Ceiling_def rank_eq split: if_splits)
qed

section \<open>A worked example\<close>

text \<open>One action verified three times for one alert, and the operator's click that grants it.\<close>

definition ex_action :: ActionRef where
  "ex_action = \<lparr>ar_ActionID = ''restart'', ar_PackRef = ''k8s@1'', ar_RunnerRef = ''prod''\<rparr>"

definition ex_class :: TriggerClass where
  "ex_class = \<lparr>tc_AlertGroupKey = ''disk'', tc_ChannelID = ''C1'', tc_Repository = []\<rparr>"

definition ex_run :: "string \<Rightarrow> AgentRun" where
  "ex_run n = zero_AgentRun\<lparr>run_SourceKind := ''emisar_approval:'' @ n, run_EpisodeID := n\<rparr>"

definition ex_approval :: "string \<Rightarrow> EmisarApproval" where
  "ex_approval n = zero_EmisarApproval\<lparr>apr_RequestID := n, apr_ActionID := ''restart'',
     apr_PackRef := ''k8s@1'', apr_RunnerRef := ''prod'', apr_Status := ''success''\<rparr>"

definition ex_outcome :: "string \<Rightarrow> EpisodeOutcome" where
  "ex_outcome n = \<lparr>eo_EpisodeID = n, eo_ChannelID = ''C1'', eo_AlertGroupKey = ''disk'',
     eo_Repository = [], eo_Verified = True\<rparr>"

definition ex_state :: LadderState where
  "ex_state = \<lparr>ls_grants = [], ls_approvals = map ex_approval [''a'', ''b'', ''c''],
     ls_runs = map ex_run [''a'', ''b'', ''c''], ls_outcomes = map ex_outcome [''a'', ''b'', ''c''],
     ls_incidents = [], ls_audits = []\<rparr>"

definition ex_confirmation :: Confirmation where
  "ex_confirmation = \<lparr>cf_Version = 1, cf_ChannelID = ''C1'', cf_IssuedAt = Time 1,
     cf_AlertGroupKey = ''disk'', cf_Repository = [], cf_ActionID = ''restart'',
     cf_PackRef = ''k8s@1'', cf_RunnerRef = ''prod'', cf_Rung = RungPropose\<rparr>"

definition ex_click :: SlackInput where
  "ex_click = zero_SlackInput\<lparr>inp_ID := ''i1'', inp_ChannelID := ''C1'', inp_UserID := ''U1'',
     inp_ActionValue := ''payload''\<rparr>"

abbreviation ex_step :: "LadderState \<Rightarrow> LadderEvent \<Rightarrow> string + LadderState" where
  "ex_step \<equiv> ladder_step [''U1''] (\<lambda>_. Inr True) (\<lambda>_. Some ex_confirmation)"

definition ex_granted :: LadderState where
  "ex_granted = run_machine ex_step ex_state [Click ex_click (Time 2) (Some ''g1'')]"

lemma ex_step_click:
  "ex_step ex_state (Click ex_click (Time 2) (Some ''g1'')) = Inr ex_granted"
proof -
  have "is_ok (ex_step ex_state (Click ex_click (Time 2) (Some ''g1'')))" by code_simp
  then obtain t where "ex_step ex_state (Click ex_click (Time 2) (Some ''g1'')) = Inr t"
    unfolding is_ok_iff by blast
  then show ?thesis by (simp only: ex_granted_def run_machine.simps sum.case)
qed

lemma ex_state_ok: "ladder_ok [''U1''] ex_state"
  by (simp add: ladder_ok_def rows_ok_def ex_state_def)

lemma ex_granted_ok: "ladder_ok [''U1''] ex_granted"
  unfolding ex_granted_def by (rule grant_ladder.run_inv [OF ex_state_ok])

lemma ex_held: "held_rank (ls_grants ex_state) ex_class ex_action = 0"
  "held_rank (ls_grants ex_granted) ex_class ex_action = 1"
  by code_simp+

theorem rung_climbs_only_by_click_witness:
  "\<exists>input now newID cls0 action0 g.
    Click ex_click (Time 2) (Some ''g1'') = Click input now newID
    \<and> inp_UserID input \<in> set [''U1''] \<and> EqualTrigger cls0 ex_class
    \<and> EqualAction action0 ex_action \<and> 3 \<le> VerifiedSuccesses ex_state cls0 action0
    \<and> GetGrant (ls_grants ex_granted) ex_class ex_action = Some g
    \<and> gr_ExpiresAt g = time_add now (30 * day)"
  using rung_climbs_only_by_click [OF ex_state_ok ex_step_click, of ex_class ex_action] ex_held
  by auto

theorem failed_run_demotes_witness:
  "held_rank (ls_grants (demoteGrantsForRun ex_granted
     ((ex_approval ''d'')\<lparr>apr_Status := ''failed''\<rparr>) (Time 9))) ex_class ex_action = 0"
  using failed_run_demotes [OF ex_granted_ok, of "(ex_approval ''d'')\<lparr>apr_Status := ''failed''\<rparr>"
      "Time 9" ex_class ex_action] ex_held(2)
  by (simp add: ex_approval_def ex_action_def)

definition ex_occurrence :: Trigger where
  "ex_occurrence = \<lparr>tg_Class = ex_class, tg_Action = ex_action\<rparr>"

lemma ex_offered:
  "de_MayOffer (Decide (Matching (ls_grants (run_machine ex_step ex_state
      [Click ex_click (Time 2) (Some ''g1'')])) (tg_Class ex_occurrence)) ex_occurrence (Time 3))"
  by code_simp

theorem offered_only_when_granted_witness:
  "\<exists>g :: Grant. gr_GrantedBy g \<in> set [''U1''] \<and> EqualAction (gr_Action g) ex_action \<and> Time 3 < gr_ExpiresAt g"
proof -
  have "ls_grants ex_state = []" by (simp add: ex_state_def)
  from offered_only_when_granted [OF this ex_offered] show ?thesis
    unfolding ex_occurrence_def Trigger.select_convs by blast
qed

theorem grants_on_file_witness:
  "\<exists>g. g \<in> set (ls_grants ex_granted) \<and> ValidateGrant g = None \<and> gr_GrantedBy g = ''U1''"
proof -
  obtain g where g: "g \<in> set (ls_grants ex_granted)"
    using ex_held(2) by (cases "ls_grants ex_granted") (auto simp: held_rank_None GetGrant_def)
  have "ls_grants ex_state = []" by (simp add: ex_state_def)
  from grants_on_file [OF this, of g "[''U1'']" "\<lambda>_. Inr True" "\<lambda>_. Some ex_confirmation"
      "[Click ex_click (Time 2) (Some ''g1'')]"] g show ?thesis
    unfolding ex_granted_def by auto
qed

end
