(* ===== verification/EpisodeKernel.thy ===== *)
theory EpisodeKernel
  imports CoreModel GoRunes
begin

text \<open>
  The episode reducer and its projections, \<open>internal/episode\<close>: \<open>reducer.go\<close> (the events and
  what each does to an episode), \<open>projection.go\<close> (what operators see), \<open>resume.go\<close> (binding
  attempts and operator answers) and \<open>objective.go\<close>.

  \<open>decode\<close> stands for \<open>json.Unmarshal\<close> into a \<open>Transition\<close>, \<open>None\<close> being its error.
\<close>

section \<open>Events and transitions\<close>

abbreviation EventCreated :: string where "EventCreated \<equiv> ''episode_created''"
abbreviation EventAccepted :: string where "EventAccepted \<equiv> ''episode_accepted''"
abbreviation EventPhaseChanged :: string where "EventPhaseChanged \<equiv> ''phase_changed''"
abbreviation EventProgressReported :: string where "EventProgressReported \<equiv> ''progress_reported''"
abbreviation EventProgressRecorded :: string where "EventProgressRecorded \<equiv> ''progress_recorded''"
abbreviation EventVerificationStarted :: string where
  "EventVerificationStarted \<equiv> ''verification_started''"
abbreviation EventEpisodeCompleted :: string where "EventEpisodeCompleted \<equiv> ''episode_completed''"
abbreviation EventEpisodeReopened :: string where "EventEpisodeReopened \<equiv> ''episode_reopened''"
abbreviation EventEpisodeBlocked :: string where "EventEpisodeBlocked \<equiv> ''episode_blocked''"
abbreviation EventEpisodeCancelled :: string where "EventEpisodeCancelled \<equiv> ''episode_cancelled''"
abbreviation EventEpisodeRefused :: string where "EventEpisodeRefused \<equiv> ''episode_refused''"
abbreviation EventCompletionAccepted :: string where
  "EventCompletionAccepted \<equiv> ''completion_accepted''"

record Transition =
  tr_State :: string
  tr_Phase :: string
  tr_Status :: string
  tr_NextAction :: string
  tr_ProgressDue :: gotime
  tr_Summary :: string

definition emptyTransition :: Transition where
  "emptyTransition = \<lparr>tr_State = [], tr_Phase = [], tr_Status = [], tr_NextAction = [],
     tr_ProgressDue = ZeroTime, tr_Summary = []\<rparr>"

definition DecodeTransition ::
    "(string \<Rightarrow> Transition option) \<Rightarrow> WorkEpisodeEvent \<Rightarrow> Transition option" where
  "DecodeTransition decode event =
     (if evt_Payload event = [] then Some emptyTransition else decode (evt_Payload event))"

definition terminal :: "string \<Rightarrow> bool" where
  "terminal state \<longleftrightarrow>
     state \<in> {EpisodeCompleted, EpisodeFailed, EpisodeRefused, EpisodeCancelled, EpisodeSuperseded}"

text \<open>The kinds that \<open>Reduce\<close> handles together.\<close>

definition phase_event :: "string \<Rightarrow> bool" where
  "phase_event kind \<longleftrightarrow>
     kind \<in> {EventPhaseChanged, EventCompletionAccepted, EventEpisodeCompleted, EventEpisodeBlocked,
              EventEpisodeCancelled, EventEpisodeRefused, EventVerificationStarted}"

datatype ReduceError = EventIdentityMissing | TransitionUndecodable | AcceptanceNotFirst
  | PhaseIncomplete | TerminalTransition string string | ReopenNotTerminal | ReopenIncomplete
  | ProgressAfterTerminal | ProgressIncomplete

definition stamp :: "WorkEpisodeEvent \<Rightarrow> WorkEpisode \<Rightarrow> WorkEpisode" where
  "stamp event e = e\<lparr>ep_EventSequence := evt_Sequence event, ep_UpdatedAt := evt_CreatedAt event\<rparr>"

definition move_to :: "Transition \<Rightarrow> WorkEpisode \<Rightarrow> WorkEpisode" where
  "move_to t e =
     e\<lparr>ep_State := tr_State t, ep_Phase := trim_space (tr_Phase t),
       ep_Status := trim_space (tr_Status t), ep_NextAction := trim_space (tr_NextAction t),
       ep_ProgressDueAt := tr_ProgressDue t\<rparr>"

definition Reduce ::
    "(string \<Rightarrow> Transition option) \<Rightarrow> WorkEpisode \<Rightarrow> WorkEpisodeEvent \<Rightarrow> ReduceError + WorkEpisode" where
  "Reduce decode current event =
     (if trim_space (evt_Kind event) = [] \<or> trim_space (evt_IdempotencyKey event) = []
      then Inl EventIdentityMissing
      else case DecodeTransition decode event of
        None \<Rightarrow> Inl TransitionUndecodable
      | Some t \<Rightarrow>
          if evt_Kind event = EventCreated \<or> evt_Kind event = EventAccepted
          then if ep_EventSequence current \<noteq> 0 then Inl AcceptanceNotFirst
               else Inr (stamp event current)
          else if phase_event (evt_Kind event)
          then if tr_State t = [] \<or> trim_space (tr_Phase t) = [] \<or> trim_space (tr_Status t) = []
               then Inl PhaseIncomplete
               else if terminal (ep_State current) \<and> tr_State t \<noteq> ep_State current
               then Inl (TerminalTransition (ep_State current) (tr_State t))
               else let nxt = move_to t current in
                 Inr (stamp event
                   (if terminal (ep_State nxt) then nxt\<lparr>ep_CompletedAt := evt_CreatedAt event\<rparr> else nxt))
          else if evt_Kind event = EventEpisodeReopened
          then if \<not> terminal (ep_State current) then Inl ReopenNotTerminal
               else if tr_State t = [] \<or> terminal (tr_State t) \<or> trim_space (tr_Phase t) = []
                 \<or> trim_space (tr_Status t) = []
               then Inl ReopenIncomplete
               else Inr (stamp event ((move_to t current)\<lparr>ep_CompletedAt := ZeroTime\<rparr>))
          else if evt_Kind event = EventProgressReported \<or> evt_Kind event = EventProgressRecorded
          then if terminal (ep_State current) then Inl ProgressAfterTerminal
               else if trim_space (tr_Phase t) = [] \<or> trim_space (tr_Summary t) = []
               then Inl ProgressIncomplete
               else Inr (stamp event
                 (current\<lparr>ep_Phase := trim_space (tr_Phase t), ep_Status := trim_space (tr_Summary t),
                          ep_ProgressDueAt := tr_ProgressDue t\<rparr>))
          else Inr (stamp event current))"

section \<open>Projection\<close>

record Projection =
  pj_CommitmentState :: string
  pj_NativeStatus :: string
  pj_NextAction :: string
  pj_Busy :: bool
  pj_WaitingApproval :: bool
  pj_Terminal :: bool
  pj_CanStop :: bool

definition ActivityNativeStatus :: "string \<Rightarrow> string" where
  "ActivityNativeStatus activity =
     (if activity = ActivityExplaining then ''is explaining the earlier answer...''
      else if activity = ActivityScheduling then ''is scheduling the follow-up...''
      else if activity = ActivityEngineering then ''is working on the code...''
      else if activity = ActivityOperating then ''is checking the governed operation...''
      else ''is investigating...'')"

definition Project :: "WorkEpisode \<Rightarrow> Projection" where
  "Project value =
     (let s = ep_State value;
          result = \<lparr>pj_CommitmentState = [], pj_NativeStatus = [],
            pj_NextAction = trim_space (ep_NextAction value), pj_Busy = False,
            pj_WaitingApproval = False, pj_Terminal = terminal s, pj_CanStop = False\<rparr>
      in if s \<in> {EpisodeAccepted, EpisodeAcknowledged, EpisodePlanning, EpisodeRetrying}
         then result\<lparr>pj_CommitmentState := ''queued'', pj_NativeStatus := ''is planning...'',
                pj_Busy := True, pj_CanStop := True\<rparr>
         else if s = EpisodeWorking
         then result\<lparr>pj_CommitmentState := ''working'',
                pj_NativeStatus := ActivityNativeStatus (ep_Activity value),
                pj_Busy := True, pj_CanStop := True\<rparr>
         else if s = EpisodeVerifying
         then result\<lparr>pj_CommitmentState := ''finishing'',
                pj_NativeStatus := ''is verifying the result...'', pj_Busy := True, pj_CanStop := True\<rparr>
         else if s \<in> {EpisodeWaitingApproval, EpisodeWaitingOperator, EpisodeWaitingExternal}
         then result\<lparr>pj_CommitmentState := ''finishing'',
                pj_NativeStatus := ''is waiting for approval...'', pj_WaitingApproval := True\<rparr>
         else if s = EpisodeCompleted then result\<lparr>pj_CommitmentState := ''done''\<rparr>
         else if s \<in> {EpisodeBlocked, EpisodeFailed, EpisodeRefused}
         then result\<lparr>pj_CommitmentState := ''blocked''\<rparr>
         else if s \<in> {EpisodeCancelled, EpisodeSuperseded}
         then result\<lparr>pj_CommitmentState := ''cancelled''\<rparr>
         else result\<lparr>pj_CommitmentState := ''blocked''\<rparr>)"

definition progressSentence :: "string \<Rightarrow> string \<times> string" where
  "progressSentence effort =
     (if effort = EffortOperationalAssessment
      then (''Still working'', ''checking every required system layer'')
      else if effort = EffortIncidentInvestigation
      then (''Still investigating'', ''verifying impact and the safest response'')
      else if effort = EffortEngineeringTask
      then (''Still working'', ''implementing and validating the focused change'')
      else (''Still working'', ''completing the requested checks''))"

definition progressSummaryBytes :: int where
  "progressSummaryBytes = 200"

definition em_dash :: string where
  "em_dash = [CHR 0xE2, CHR 0x80, CHR 0x94]"

definition ProgressSummary :: "string \<Rightarrow> string \<Rightarrow> string" where
  "ProgressSummary effort activity =
     (case progressSentence effort of (lead, generic) \<Rightarrow>
        if activity = [] then lead @ ''; '' @ generic
        else TruncateUTF8 (lead @ '' '' @ em_dash @ '' '' @ activity) progressSummaryBytes)"

section \<open>Resuming work\<close>

definition BindAttempt :: "WorkEpisode \<Rightarrow> AgentRun \<Rightarrow> string + AgentRun" where
  "BindAttempt episode run =
     (if terminal (ep_State episode) then Inl ''cannot resume terminal episode''
      else Inr (run\<lparr>run_Episode := Some episode, run_EpisodeID := ep_ID episode,
                    run_AttemptID := [], run_AttemptNumber := 0\<rparr>))"

definition PreferredWaitingThread :: "SlackInput \<Rightarrow> string \<Rightarrow> bool \<Rightarrow> string" where
  "PreferredWaitingThread input responseThread operationalLifecycle =
     (if operationalLifecycle then []
      else FirstNonempty [responseThread, inp_ThreadTS input, inp_MessageTS input])"

definition AcceptsOperatorAnswer :: "WorkEpisode \<Rightarrow> SlackInput \<Rightarrow> string \<Rightarrow> bool \<Rightarrow> bool" where
  "AcceptsOperatorAnswer episode input responseThread conversationFollowup =
     (if ep_State episode \<noteq> EpisodeWaitingOperator \<or> inp_Kind input = ''bot_message''
        \<or> inp_Kind input = ''scheduled'' \<or> inp_Kind input = ''recheck''
        \<or> dst_ChannelID (ep_Destination episode) = []
        \<or> dst_ChannelID (ep_Destination episode) \<noteq> inp_ChannelID input
      then False
      else if dst_ThreadTS (ep_Destination episode) = [] then conversationFollowup
      else dst_ThreadTS (ep_Destination episode) = responseThread
        \<or> dst_ThreadTS (ep_Destination episode) = inp_ThreadTS input)"

definition ObjectiveForSlackInput :: "SlackInput \<Rightarrow> string" where
  "ObjectiveForSlackInput input =
     (let txt = trim_space (BoundedText (inp_Text input) 20480) in
      if txt = []
      then (if inp_Attachments input \<noteq> []
            then (if length (inp_Attachments input) = 1 then ''Inspect an attached file''
                  else ''Inspect '' @ decimal (length (inp_Attachments input)) @ '' attached files'')
            else if inp_Kind input = ''bot_message'' then ''Review an app notification''
            else if inp_Kind input = ''shortcut'' then ''Investigate a selected Slack message''
            else ''Answer a Slack request'')
      else TruncateUTF8WithSuffix (join (Fields txt) '' '') 180 ''...'')"

section \<open>The lifecycle as a step relation\<close>

text \<open>What the reducer promises about the state alone, labelled with the event's kind.\<close>

inductive lifecycle :: "string \<Rightarrow> string \<Rightarrow> string \<Rightarrow> bool" where
  fact: "lifecycle kind s s"
| move: "phase_event kind \<Longrightarrow> \<not> terminal s \<Longrightarrow> s' \<noteq> [] \<Longrightarrow> lifecycle kind s s'"
| reopen: "terminal s \<Longrightarrow> \<not> terminal s' \<Longrightarrow> s' \<noteq> [] \<Longrightarrow> lifecycle EventEpisodeReopened s s'"

inductive_cases lifecycle_elim: "lifecycle kind s s'"

lemma lifecycle_phase:
  "phase_event kind \<Longrightarrow> s' \<noteq> [] \<Longrightarrow> (terminal s \<Longrightarrow> s' = s) \<Longrightarrow> lifecycle kind s s'"
  by (cases "terminal s") (auto intro: lifecycle.intros)

lemma phase_event_kinds:
  "phase_event kind \<Longrightarrow> kind \<noteq> EventEpisodeReopened \<and> kind \<noteq> EventCreated \<and> kind \<noteq> EventAccepted
     \<and> kind \<noteq> []"
  by (auto simp: phase_event_def)

lemma terminal_nonempty: "terminal s \<Longrightarrow> s \<noteq> []"
  by (auto simp: terminal_def)

lemma stamp_simps [simp]:
  "ep_State (stamp event e) = ep_State e" "ep_CompletedAt (stamp event e) = ep_CompletedAt e"
  "ep_EventSequence (stamp event e) = evt_Sequence event" "ep_ID (stamp event e) = ep_ID e"
  "ep_ProgressSequence (stamp event e) = ep_ProgressSequence e"
  "ep_UpdatedAt (stamp event e) = evt_CreatedAt event"
  by (simp_all add: stamp_def)

lemma move_to_simps [simp]:
  "ep_State (move_to t e) = tr_State t" "ep_CompletedAt (move_to t e) = ep_CompletedAt e"
  "ep_ID (move_to t e) = ep_ID e" "ep_EventSequence (move_to t e) = ep_EventSequence e"
  "ep_ProgressSequence (move_to t e) = ep_ProgressSequence e"
  by (simp_all add: move_to_def)

text \<open>The reducer by the class of its event.\<close>

lemma Reduce_cases:
  assumes "Reduce decode current event = Inr nxt"
  obtains (accept) "evt_Kind event \<in> {EventCreated, EventAccepted}" "ep_EventSequence current = 0"
      "nxt = stamp event current"
  | (phase) t where "phase_event (evt_Kind event)" "DecodeTransition decode event = Some t"
      "tr_State t \<noteq> []" "\<not> blank (tr_Phase t)" "\<not> blank (tr_Status t)"
      "terminal (ep_State current) \<Longrightarrow> tr_State t = ep_State current"
      "nxt = stamp event (if terminal (tr_State t)
         then (move_to t current)\<lparr>ep_CompletedAt := evt_CreatedAt event\<rparr> else move_to t current)"
  | (reopen) t where "evt_Kind event = EventEpisodeReopened" "DecodeTransition decode event = Some t"
      "terminal (ep_State current)" "tr_State t \<noteq> []" "\<not> terminal (tr_State t)"
      "nxt = stamp event ((move_to t current)\<lparr>ep_CompletedAt := ZeroTime\<rparr>)"
  | (progress) t where "evt_Kind event \<in> {EventProgressReported, EventProgressRecorded}"
      "DecodeTransition decode event = Some t" "\<not> terminal (ep_State current)"
      "nxt = stamp event (current\<lparr>ep_Phase := trim_space (tr_Phase t),
         ep_Status := trim_space (tr_Summary t), ep_ProgressDueAt := tr_ProgressDue t\<rparr>)"
  | (other) "\<not> phase_event (evt_Kind event)" "evt_Kind event \<noteq> EventEpisodeReopened"
      "nxt = stamp event current"
  using assms unfolding Reduce_def Let_def blank_def
  by (auto split: if_splits option.splits)

text \<open>C27. The reducer refines the step relation: an accepted event moves the state only along the
  lifecycle, so a terminal state is left by a reopening alone, and every step of the lifecycle
  is taken by some accepted event.\<close>

theorem Reduce_refines_lifecycle:
  "(\<forall>decode current event nxt. Reduce decode current event = Inr nxt \<longrightarrow>
      lifecycle (evt_Kind event) (ep_State current) (ep_State nxt))
   \<and> (\<forall>kind s s'. lifecycle kind s s' \<and> phase_event kind \<or> lifecycle kind s s' \<and> s \<noteq> s' \<longrightarrow>
      s \<noteq> [] \<longrightarrow>
      (\<exists>decode current event nxt. ep_State current = s \<and> evt_Kind event = kind
         \<and> Reduce decode current event = Inr nxt \<and> ep_State nxt = s'))"
proof (intro conjI allI impI)
  fix decode current event nxt
  assume "Reduce decode current event = Inr nxt"
  then show "lifecycle (evt_Kind event) (ep_State current) (ep_State nxt)"
    by (cases rule: Reduce_cases) (auto intro: lifecycle.fact lifecycle.reopen lifecycle_phase)
next
  fix kind s s'
  assume step: "lifecycle kind s s' \<and> phase_event kind \<or> lifecycle kind s s' \<and> s \<noteq> s'" and ne: "s \<noteq> []"
  define t where "t = emptyTransition\<lparr>tr_State := s', tr_Phase := ''p'', tr_Status := ''q''\<rparr>"
  define current where "current = zero_WorkEpisode\<lparr>ep_State := s\<rparr>"
  define event where
    "event = zero_WorkEpisodeEvent\<lparr>evt_Kind := kind, evt_IdempotencyKey := ''k'', evt_Payload := ''t''\<rparr>"
  have f: "DecodeTransition (\<lambda>_. Some t) event = Some t" "evt_Kind event = kind" "ep_State current = s"
    "tr_State t = s'"
    by (simp_all add: DecodeTransition_def event_def current_def t_def)
  have g: "trim_space (tr_Phase t) \<noteq> []" "trim_space (tr_Status t) \<noteq> []"
    "trim_space (evt_IdempotencyKey event) \<noteq> []"
    by (simp_all add: t_def event_def trim_eval)
  have h: "phase_event kind \<and> (terminal s \<longrightarrow> s' = s)
      \<or> kind = EventEpisodeReopened \<and> terminal s \<and> \<not> terminal s'" and "s' \<noteq> []"
    using step ne by (auto elim!: lifecycle_elim dest: phase_event_kinds)
  from h have k: "trim_space kind \<noteq> []" by (auto simp: phase_event_def trim_eval)
  have "\<exists>nxt. Reduce (\<lambda>_. Some t) current event = Inr nxt \<and> ep_State nxt = s'"
    using h
  proof
    assume "phase_event kind \<and> (terminal s \<longrightarrow> s' = s)"
    with phase_event_kinds [of kind] \<open>s' \<noteq> []\<close> show ?thesis
      by (simp add: Reduce_def f g k Let_def)
  next
    assume "kind = EventEpisodeReopened \<and> terminal s \<and> \<not> terminal s'"
    with phase_event_kinds [of kind] \<open>s' \<noteq> []\<close> k show ?thesis
      by (auto simp: Reduce_def f g Let_def)
  qed
  with f show "\<exists>decode current event nxt. ep_State current = s \<and> evt_Kind event = kind
      \<and> Reduce decode current event = Inr nxt \<and> ep_State nxt = s'"
    by blast
qed

text \<open>The reducer owns nothing else: identity, authority, objective and destination are as they
  were, and the sequence and the update time are the event's.\<close>

definition contract_of :: "WorkEpisode \<Rightarrow> WorkEpisode" where
  "contract_of e = e\<lparr>ep_State := [], ep_Phase := [], ep_Status := [], ep_NextAction := [],
     ep_ProgressDueAt := ZeroTime, ep_CompletedAt := ZeroTime, ep_EventSequence := 0,
     ep_UpdatedAt := ZeroTime\<rparr>"

theorem Reduce_frame:
  assumes "Reduce decode current event = Inr nxt"
  shows "contract_of nxt = contract_of current \<and> ep_EventSequence nxt = evt_Sequence event
    \<and> ep_UpdatedAt nxt = evt_CreatedAt event"
  using assms by (cases rule: Reduce_cases) (auto simp: contract_of_def stamp_def move_to_def)

definition completion_marked :: "WorkEpisode \<Rightarrow> bool" where
  "completion_marked e \<longleftrightarrow> (terminal (ep_State e) \<longleftrightarrow> ep_CompletedAt e \<noteq> ZeroTime)"

lemma Reduce_completion_marked:
  assumes "Reduce decode current event = Inr nxt" and "completion_marked current"
    and "evt_CreatedAt event \<noteq> ZeroTime"
  shows "completion_marked nxt"
  using assms(1)
  by (cases rule: Reduce_cases) (use assms(2,3) in \<open>auto simp: completion_marked_def stamp_def\<close>)

text \<open>What operators see agrees with the lifecycle: a finished episode is never shown busy or
  stoppable, work can be stopped exactly while it is busy, "done" is shown exactly for completed
  work, and a state the host does not know is shown as blocked.\<close>

theorem Project_consistent:
  "(pj_Terminal (Project e) \<longleftrightarrow> terminal (ep_State e))
   \<and> (pj_CanStop (Project e) \<longleftrightarrow> pj_Busy (Project e))
   \<and> \<not> (pj_Terminal (Project e) \<and> (pj_Busy (Project e) \<or> pj_WaitingApproval (Project e)))
   \<and> \<not> (pj_Busy (Project e) \<and> pj_WaitingApproval (Project e))
   \<and> (pj_CommitmentState (Project e) = ''done'' \<longleftrightarrow> ep_State e = EpisodeCompleted)
   \<and> (pj_NativeStatus (Project e) \<noteq> [] \<longleftrightarrow> pj_Busy (Project e) \<or> pj_WaitingApproval (Project e))
   \<and> pj_CommitmentState (Project e) \<noteq> []"
  by (auto simp: Project_def Let_def terminal_def ActivityNativeStatus_def)

lemma length_ProgressSummary: "length (ProgressSummary effort activity) \<le> 200"
proof (cases "activity = []")
  case True
  then show ?thesis by (auto simp: ProgressSummary_def progressSentence_def)
next
  case False
  obtain lead generic where "progressSentence effort = (lead, generic)" by force
  with False show ?thesis
    using length_TruncateUTF8 [of "lead @ '' '' @ em_dash @ '' '' @ activity" 200]
    by (simp add: ProgressSummary_def progressSummaryBytes_def)
qed

lemma length_Objective: "length (ObjectiveForSlackInput input) \<le> 180 \<or> inp_Attachments input \<noteq> []"
proof (cases "trim_space (BoundedText (inp_Text input) 20480) = []")
  case False
  then show ?thesis
    using length_TruncateUTF8 [of "join (Fields (trim_space (BoundedText (inp_Text input) 20480))) '' ''" 177]
    by (auto simp: ObjectiveForSlackInput_def Let_def TruncateUTF8WithSuffix_def)
qed (auto simp: ObjectiveForSlackInput_def)

theorem Reduce_refines_lifecycle_witness:
  "\<exists>decode current event nxt. ep_State current = EpisodeCompleted
     \<and> evt_Kind event = EventEpisodeReopened \<and> Reduce decode current event = Inr nxt
     \<and> ep_State nxt = EpisodePlanning"
proof -
  have "lifecycle EventEpisodeReopened EpisodeCompleted EpisodePlanning"
    by (rule lifecycle.reopen) (simp_all add: terminal_def)
  moreover have "EpisodeCompleted \<noteq> EpisodePlanning" "EpisodeCompleted \<noteq> []" by simp_all
  ultimately show ?thesis using Reduce_refines_lifecycle by blast
qed

end
