(* ===== verification/EpisodeStore.thy ===== *)
theory EpisodeStore
  imports EpisodeKernel
begin

text \<open>
  The durable event stream of episodes, \<open>internal/store/work_episode.go\<close>: the one transition
  path \<open>appendEpisodeEventTx\<close>, the run-addressed \<open>setWorkEpisodePhaseTx\<close> over it, and the
  creation rules \<open>normalizeWorkEpisode\<close>.

  A transaction is one function: it returns an error and leaves the store alone, or returns the
  new store.  Rows are kept in insertion order; \<open>es_outcomes\<close> records the calls of
  \<open>ProjectEpisodeOutcomeTx\<close>, whose table belongs to another package.  The compare-and-set of
  the final \<open>UPDATE\<close> always finds the sequence it read, because one transaction runs at a time.
\<close>

section \<open>Creation\<close>

definition defaultWorkEpisode :: "AgentRun \<Rightarrow> WorkEpisode" where
  "defaultWorkEpisode run =
     (let objective = trim_space (run_CommitmentTitle run);
          objective = (if objective = [] then trim_space (run_Prompt run) else objective);
          objective = (if objective = [] then ''Complete the accepted Slack request'' else objective);
          episode = zero_WorkEpisode\<lparr>ep_ID := ''episode_'' @ run_ID run, ep_AgentRunID := run_ID run,
            ep_LatestAttemptID := run_AttemptID run, ep_Mode := EpisodeCheck,
            ep_Conversation := \<lparr>cnv_Platform = ''slack'', cnv_WorkspaceID = [],
              cnv_ChannelID = run_ChannelID run, cnv_ThreadTS = run_ThreadTS run,
              cnv_AnchorTS = run_SourceID run, cnv_Visibility = ''channel''\<rparr>,
            ep_Destination := \<lparr>dst_ChannelID = run_ChannelID run, dst_ThreadTS = run_ThreadTS run,
              dst_Reason = ''accepted''\<rparr>,
            ep_DestinationRevision := 1, ep_Effort := EffortFocusedCheck,
            ep_Authority := AuthorityReadOnly, ep_Activity := ActivityInvestigating,
            ep_State := EpisodeAccepted, ep_Objective := objective, ep_Phase := ''accepted'',
            ep_Status := ''Accepted'', ep_NextAction := ''Plan the work''\<rparr>
      in if run_Mode run = AgentRunEngineeringTask
         then episode\<lparr>ep_Mode := EpisodeEngineering, ep_Effort := EffortEngineeringTask,
                ep_Authority := AuthorityRepositoryWrite\<rparr>
         else if run_Mode run = AgentRunIncident
         then episode\<lparr>ep_Mode := EpisodeIncident, ep_Effort := EffortIncidentInvestigation\<rparr>
         else episode)"

definition validEffort :: "string \<Rightarrow> bool" where
  "validEffort v \<longleftrightarrow> v \<in> {EffortConversational, EffortFocusedCheck, EffortOperationalAssessment,
     EffortIncidentInvestigation, EffortEngineeringTask}"

definition validAuthority :: "string \<Rightarrow> bool" where
  "validAuthority v \<longleftrightarrow>
     v \<in> {AuthorityReadOnly, AuthorityRepositoryWrite, AuthorityGovernedOperation}"

definition validActivity :: "string \<Rightarrow> bool" where
  "validActivity v \<longleftrightarrow> v \<in> {ActivityInvestigating, ActivityExplaining, ActivityScheduling,
     ActivityEngineering, ActivityOperating}"

definition validWorkEpisodeState :: "string \<Rightarrow> bool" where
  "validWorkEpisodeState v \<longleftrightarrow> v \<in> {EpisodeAccepted, EpisodeAcknowledged, EpisodePlanning,
     EpisodeWorking, EpisodeBlocked, EpisodeWaitingOperator, EpisodeWaitingExternal,
     EpisodeWaitingApproval, EpisodeRetrying, EpisodeVerifying, EpisodeCompleted, EpisodeFailed,
     EpisodeRefused, EpisodeCancelled, EpisodeSuperseded}"

text \<open>The loop of \<open>normalizedUniqueStrings\<close>, with the result reversed as it grows.\<close>

fun unique_strings :: "string list \<Rightarrow> string list \<Rightarrow> nat \<Rightarrow> string list" where
  "unique_strings result [] limit = rev result"
| "unique_strings result (item # items) limit =
     (let item = trim_space item in
      if item = [] then unique_strings result items limit
      else if item \<in> set result then unique_strings result items limit
      else if Suc (length result) = limit then rev (item # result)
      else unique_strings (item # result) items limit)"

definition normalizedUniqueStrings :: "string list \<Rightarrow> nat \<Rightarrow> string list" where
  "normalizedUniqueStrings items limit = unique_strings [] items limit"

definition if_set :: "string \<Rightarrow> string \<Rightarrow> string" where
  "if_set v old = (if v \<noteq> [] then v else old)"

text \<open>The overrides a run's own episode record makes.\<close>

definition override_episode :: "WorkEpisode \<Rightarrow> WorkEpisode \<Rightarrow> WorkEpisode" where
  "override_episode e c =
     e\<lparr>ep_ID := if_set (ep_ID c) (ep_ID e),
       ep_WorkspaceID := if_set (ep_WorkspaceID c) (ep_WorkspaceID e),
       ep_ParentEpisodeID := if_set (ep_ParentEpisodeID c) (ep_ParentEpisodeID e),
       ep_Mode := if_set (ep_Mode c) (ep_Mode e),
       ep_Conversation := (if cnv_Platform (ep_Conversation c) \<noteq> [] then ep_Conversation c
                           else ep_Conversation e),
       ep_Destination := (if dst_ChannelID (ep_Destination c) \<noteq> [] then ep_Destination c
                          else ep_Destination e),
       ep_DestinationRevision := (if 0 < ep_DestinationRevision c then ep_DestinationRevision c
                                  else ep_DestinationRevision e),
       ep_AuthoritySnapshot := if_set (ep_AuthoritySnapshot c) (ep_AuthoritySnapshot e),
       ep_Effort := if_set (ep_Effort c) (ep_Effort e),
       ep_Authority := if_set (ep_Authority c) (ep_Authority e),
       ep_Activity := if_set (ep_Activity c) (ep_Activity e),
       ep_Objective := if_set (trim_space (ep_Objective c)) (ep_Objective e),
       ep_RequiredCoverage := ep_RequiredCoverage c,
       ep_CompletionCriteria := ep_CompletionCriteria c\<rparr>"

definition normalizeWorkEpisode :: "AgentRun \<Rightarrow> string + WorkEpisode" where
  "normalizeWorkEpisode run =
     (let e = (case run_Episode run of None \<Rightarrow> defaultWorkEpisode run
               | Some c \<Rightarrow> override_episode (defaultWorkEpisode run) c);
          e = e\<lparr>ep_AgentRunID := run_ID run, ep_LatestAttemptID := run_AttemptID run\<rparr>
      in if \<not> validEffort (ep_Effort e) then Inl ''unsupported work episode effort''
         else if \<not> validAuthority (ep_Authority e) then Inl ''unsupported work episode authority''
         else if \<not> validActivity (ep_Activity e) then Inl ''unsupported work episode activity''
         else Inr (e\<lparr>ep_RequiredCoverage := normalizedUniqueStrings (ep_RequiredCoverage e) 9,
                     ep_CompletionCriteria := normalizedUniqueStrings (ep_CompletionCriteria e) 12,
                     ep_Objective := TruncateUTF8 (ep_Objective e) 500\<rparr>))"

section \<open>The event stream\<close>

record ProgressRow =
  pg_ID :: string
  pg_EpisodeID :: string
  pg_Sequence :: int
  pg_Phase :: string
  pg_Summary :: string
  pg_CreatedAt :: gotime

record AttemptRow =
  at_ID :: string
  at_EpisodeID :: string
  at_AgentRunID :: string
  at_Number :: int
  at_State :: string
  at_FailureClass :: string
  at_FailureGeneration :: int
  at_LeaseOwner :: string
  at_FencingToken :: int
  at_LeaseExpiresAt :: gotime
  at_ContextManifestID :: string
  at_StartedAt :: gotime
  at_CompletedAt :: gotime
  at_CreatedAt :: gotime
  at_UpdatedAt :: gotime

definition zero_AttemptRow :: AttemptRow where
  "zero_AttemptRow = \<lparr>at_ID = [], at_EpisodeID = [], at_AgentRunID = [], at_Number = 0, at_State = [],
     at_FailureClass = [], at_FailureGeneration = 0, at_LeaseOwner = [], at_FencingToken = 0,
     at_LeaseExpiresAt = ZeroTime, at_ContextManifestID = [], at_StartedAt = ZeroTime,
     at_CompletedAt = ZeroTime, at_CreatedAt = ZeroTime, at_UpdatedAt = ZeroTime\<rparr>"

record EpisodeStore =
  es_episodes :: "(string \<times> WorkEpisode) list"
  es_events :: "WorkEpisodeEvent list"
  es_progress :: "ProgressRow list"
  es_goals :: "EpisodeGoal list"
  es_runs :: "(string \<times> AgentRun) list"
  es_attempts :: "AttemptRow list"
  es_outcomes :: "(string \<times> string \<times> gotime) list"

datatype AppendError = AppendIncomplete | AppendNotFound | KeyBelongsTo string
  | AppendRefused ReduceError | GoalsOpen | ConstraintViolated
  | PhaseRequired | UnsupportedState string | AttemptSuperseded | ReopenConsumed

definition BoundedError :: "string \<Rightarrow> string" where
  "BoundedError value = BoundedText value 1000"

definition eventProjectsProgress :: "string \<Rightarrow> bool" where
  "eventProjectsProgress kind \<longleftrightarrow>
     kind \<in> {EventPhaseChanged, EventProgressReported, EventCompletionAccepted}"

definition open_required_goals :: "EpisodeStore \<Rightarrow> string \<Rightarrow> EpisodeGoal list" where
  "open_required_goals st episodeID =
     filter (\<lambda>g. goal_EpisodeID g = episodeID \<and> goal_Required g
       \<and> goal_State g \<notin> {GoalCompleted, GoalExcluded, GoalCancelled}) (es_goals st)"

text \<open>The event as it is stored: trimmed, attributed, numbered and stamped.\<close>

definition trimmed_event :: "WorkEpisodeEvent \<Rightarrow> WorkEpisodeEvent" where
  "trimmed_event event =
     event\<lparr>evt_Kind := trim_space (evt_Kind event),
           evt_Actor := (if trim_space (evt_Actor event) = [] then ''host''
                         else trim_space (evt_Actor event)),
           evt_IdempotencyKey := trim_space (evt_IdempotencyKey event)\<rparr>"

definition numbered_event :: "WorkEpisode \<Rightarrow> gotime \<Rightarrow> WorkEpisodeEvent \<Rightarrow> WorkEpisodeEvent" where
  "numbered_event current now event =
     event\<lparr>evt_EpisodeID := ep_ID current, evt_Sequence := ep_EventSequence current + 1,
           evt_ID := (if evt_ID event = []
             then ''episode_event_'' @ ep_ID current @ ''_'' @ pad 6 (ep_EventSequence current + 1)
             else evt_ID event),
           evt_CreatedAt := (if IsZero (evt_CreatedAt event) then now else evt_CreatedAt event),
           evt_Payload := (if evt_Payload event = [] then ''{}'' else evt_Payload event)\<rparr>"

definition progress_row :: "WorkEpisode \<Rightarrow> WorkEpisodeEvent \<Rightarrow> Transition \<Rightarrow> ProgressRow" where
  "progress_row current event t =
     \<lparr>pg_ID = ''episode_progress_'' @ ep_ID current @ ''_'' @ pad 6 (ep_ProgressSequence current + 1),
      pg_EpisodeID = ep_ID current, pg_Sequence = ep_ProgressSequence current + 1,
      pg_Phase = trim_space (tr_Phase t),
      pg_Summary = BoundedError (if tr_Summary t = [] then tr_Status t else tr_Summary t),
      pg_CreatedAt = evt_CreatedAt event\<rparr>"

text \<open>The row the final \<open>UPDATE\<close> leaves; \<open>scanWorkEpisode\<close> reads the revision off the sequence.\<close>

definition stored_episode :: "WorkEpisode \<Rightarrow> WorkEpisode" where
  "stored_episode e =
     e\<lparr>ep_Status := BoundedError (ep_Status e), ep_NextAction := BoundedError (ep_NextAction e),
       ep_Revision := ep_EventSequence e\<rparr>"

definition appendEpisodeEvent ::
    "(string \<Rightarrow> Transition option) \<Rightarrow> gotime \<Rightarrow> string \<Rightarrow> WorkEpisodeEvent \<Rightarrow> EpisodeStore
     \<Rightarrow> AppendError + WorkEpisodeEvent \<times> EpisodeStore" where
  "appendEpisodeEvent decode now episodeID event0 st =
     (let event = trimmed_event event0 in
      if evt_Kind event = [] \<or> evt_IdempotencyKey event = [] then Inl AppendIncomplete
      else case map_of (es_episodes st) episodeID of
        None \<Rightarrow> Inl AppendNotFound
      | Some current \<Rightarrow>
        (case find (\<lambda>e. evt_EpisodeID e = ep_ID current
                       \<and> evt_IdempotencyKey e = evt_IdempotencyKey event) (es_events st) of
           Some existing \<Rightarrow>
             if evt_Kind existing \<noteq> evt_Kind event then Inl (KeyBelongsTo (evt_Kind existing))
             else Inr (existing, st)
         | None \<Rightarrow>
             let event = numbered_event current now event in
             (case Reduce decode current event of
                Inl e \<Rightarrow> Inl (AppendRefused e)
              | Inr nxt \<Rightarrow>
                if ep_State nxt = EpisodeCompleted \<and> ep_State current \<noteq> EpisodeCompleted
                  \<and> open_required_goals st (ep_ID current) \<noteq> []
                then Inl GoalsOpen
                else if list_ex (\<lambda>e. evt_ID e = evt_ID event
                    \<or> evt_EpisodeID e = evt_EpisodeID event \<and> evt_Sequence e = evt_Sequence event)
                    (es_events st)
                then Inl ConstraintViolated
                else
                  let t = (case DecodeTransition decode event of Some t \<Rightarrow> t | None \<Rightarrow> emptyTransition);
                      row = progress_row current event t;
                      projects = eventProjectsProgress (evt_Kind event);
                      nxt = (if projects
                        then nxt\<lparr>ep_ProgressSequence := ep_ProgressSequence current + 1,
                                 ep_LastProgressAt := evt_CreatedAt event\<rparr>
                        else nxt)
                  in if projects \<and> list_ex (\<lambda>p. pg_ID p = pg_ID row
                        \<or> pg_EpisodeID p = pg_EpisodeID row \<and> pg_Sequence p = pg_Sequence row)
                        (es_progress st)
                     then Inl ConstraintViolated
                     else Inr (event,
                       st\<lparr>es_events := es_events st @ [event],
                          es_progress := (if projects then es_progress st @ [row] else es_progress st),
                          es_episodes := AList.update episodeID (stored_episode nxt) (es_episodes st),
                          es_outcomes := (if ep_State nxt \<noteq> ep_State current
                            then es_outcomes st @ [(ep_ID current, ep_State nxt, evt_CreatedAt event)]
                            else es_outcomes st)\<rparr>))))"

definition appendWorkEpisodeEvent ::
    "(string \<Rightarrow> Transition option) \<Rightarrow> gotime \<Rightarrow> string \<Rightarrow> WorkEpisodeEvent \<Rightarrow> EpisodeStore
     \<Rightarrow> AppendError + WorkEpisodeEvent \<times> EpisodeStore" where
  "appendWorkEpisodeEvent decode now runID event st =
     (case map_of (es_runs st) runID of
        None \<Rightarrow> Inl AppendNotFound
      | Some run \<Rightarrow>
          if trim_space (run_EpisodeID run) = [] then Inl AppendNotFound
          else appendEpisodeEvent decode now (run_EpisodeID run) event st)"

definition workEpisodeAttemptOwnership :: "EpisodeStore \<Rightarrow> string \<Rightarrow> (string \<times> string) option" where
  "workEpisodeAttemptOwnership st runID =
     (case find (\<lambda>a. at_AgentRunID a = runID) (es_attempts st) of
        None \<Rightarrow> None
      | Some current \<Rightarrow>
          (case map_of (es_episodes st) (at_EpisodeID current) of
             None \<Rightarrow> None
           | Some episode \<Rightarrow>
               map_option (\<lambda>latest. (ep_State episode, at_AgentRunID latest))
                 (find (\<lambda>a. at_ID a = ep_LatestAttemptID episode) (es_attempts st))))"

definition host_event :: "string \<Rightarrow> string \<Rightarrow> string \<Rightarrow> WorkEpisodeEvent" where
  "host_event kind key payload =
     zero_WorkEpisodeEvent\<lparr>evt_Kind := kind, evt_Actor := ''host'', evt_IdempotencyKey := key,
       evt_Payload := payload\<rparr>"

definition run_episode_state :: "EpisodeStore \<Rightarrow> string \<Rightarrow> string" where
  "run_episode_state st runID =
     (case map_of (es_runs st) runID of
        None \<Rightarrow> []
      | Some run \<Rightarrow> (case map_of (es_episodes st) (run_EpisodeID run) of
           None \<Rightarrow> [] | Some e \<Rightarrow> ep_State e))"

definition setWorkEpisodePhase ::
    "(Transition \<Rightarrow> string) \<Rightarrow> (string \<Rightarrow> Transition option) \<Rightarrow> gotime \<Rightarrow> string \<Rightarrow> Transition
     \<Rightarrow> string \<Rightarrow> EpisodeStore \<Rightarrow> AppendError + EpisodeStore" where
  "setWorkEpisodePhase encode decode now runID t key st =
     (if trim_space (tr_Phase t) = [] \<or> trim_space (tr_Status t) = [] then Inl PhaseRequired
      else if \<not> validWorkEpisodeState (tr_State t) then Inl (UnsupportedState (tr_State t))
      else case workEpisodeAttemptOwnership st runID of
        None \<Rightarrow> Inl AppendNotFound
      | Some (currentState, latestRunID) \<Rightarrow>
          if terminal (tr_State t) \<and> latestRunID \<noteq> runID then Inr st
          else
            let phase = (\<lambda>st. map_sum id snd (appendWorkEpisodeEvent decode now runID
                  (host_event EventPhaseChanged key (encode t)) st)) in
            if terminal currentState \<and> \<not> terminal (tr_State t)
            then if latestRunID \<noteq> runID then Inl AttemptSuperseded
                 else case appendWorkEpisodeEvent decode now runID
                     (host_event EventEpisodeReopened (key @ '':reopened'')
                       (encode (emptyTransition\<lparr>tr_State := EpisodeAccepted, tr_Phase := ''accepted'',
                          tr_Status := ''Accepted'',
                          tr_NextAction := ''Continue the operational lifecycle''\<rparr>))) st of
                   Inl e \<Rightarrow> Inl e
                 | Inr (_, st') \<Rightarrow>
                     if terminal (run_episode_state st' runID) then Inl ReopenConsumed else phase st'
            else phase st)"

section \<open>One append\<close>

text \<open>The part of an episode that the stream determines.\<close>

definition core_of :: "WorkEpisode \<Rightarrow> string \<times> string \<times> gotime \<times> gotime \<times> int \<times> gotime" where
  "core_of e = (ep_State e, ep_Phase e, ep_ProgressDueAt e, ep_CompletedAt e, ep_EventSequence e,
     ep_UpdatedAt e)"

definition with_progress :: "WorkEpisode \<Rightarrow> WorkEpisodeEvent \<Rightarrow> WorkEpisode \<Rightarrow> WorkEpisode" where
  "with_progress current event nxt =
     (if eventProjectsProgress (evt_Kind event)
      then nxt\<lparr>ep_ProgressSequence := ep_ProgressSequence current + 1,
               ep_LastProgressAt := evt_CreatedAt event\<rparr>
      else nxt)"

lemma core_with_progress [simp]: "core_of (with_progress current event nxt) = core_of nxt"
  by (simp add: core_of_def with_progress_def)

lemma core_stored [simp]: "core_of (stored_episode e) = core_of e"
  by (simp add: core_of_def stored_episode_def)

lemma stored_simps [simp]:
  "ep_ID (stored_episode e) = ep_ID e" "ep_State (stored_episode e) = ep_State e"
  "ep_ID (with_progress current event e) = ep_ID e"
  "ep_State (with_progress current event e) = ep_State e"
  by (simp_all add: stored_episode_def with_progress_def)

lemma Reduce_ID: "Reduce decode current event = Inr nxt \<Longrightarrow> ep_ID nxt = ep_ID current"
  by (cases rule: Reduce_cases) auto

lemma append_cases:
  assumes "appendEpisodeEvent decode now episodeID event0 st = Inr (event, st')"
  obtains (replayed) current where "map_of (es_episodes st) episodeID = Some current" "st' = st"
      "find (\<lambda>e. evt_EpisodeID e = ep_ID current
         \<and> evt_IdempotencyKey e = trim_space (evt_IdempotencyKey event0)) (es_events st) = Some event"
      "evt_Kind event = trim_space (evt_Kind event0)"
  | (appended) current nxt where "map_of (es_episodes st) episodeID = Some current"
      "event = numbered_event current now (trimmed_event event0)"
      "\<forall>e \<in> set (es_events st). \<not> (evt_EpisodeID e = ep_ID current
         \<and> evt_IdempotencyKey e = trim_space (evt_IdempotencyKey event0))"
      "Reduce decode current event = Inr nxt"
      "ep_State nxt = EpisodeCompleted \<Longrightarrow> ep_State current \<noteq> EpisodeCompleted \<Longrightarrow>
         open_required_goals st (ep_ID current) = []"
      "\<forall>e \<in> set (es_events st). evt_ID e \<noteq> evt_ID event"
      "es_events st' = es_events st @ [event]"
      "es_episodes st' =
         AList.update episodeID (stored_episode (with_progress current event nxt)) (es_episodes st)"
      "es_goals st' = es_goals st" "es_runs st' = es_runs st" "es_attempts st' = es_attempts st"
proof -
  let ?ev = "trimmed_event event0"
  note h = assms [unfolded appendEpisodeEvent_def Let_def]
  obtain current where cur: "map_of (es_episodes st) episodeID = Some current"
    using h by (cases "map_of (es_episodes st) episodeID") (auto split: if_splits)
  note h = h [unfolded cur option.case]
  let ?P = "\<lambda>e. evt_EpisodeID e = ep_ID current \<and> evt_IdempotencyKey e = evt_IdempotencyKey ?ev"
  have key: "evt_IdempotencyKey ?ev = trim_space (evt_IdempotencyKey event0)"
    "evt_Kind ?ev = trim_space (evt_Kind event0)"
    by (simp_all add: trimmed_event_def)
  show thesis
  proof (cases "find ?P (es_events st)")
    case (Some existing)
    with h have "event = existing" "st' = st" "evt_Kind existing = evt_Kind ?ev"
      by (auto split: if_splits)
    with Some show thesis using replayed [OF cur] key by simp
  next
    case None
    let ?e = "numbered_event current now ?ev"
    note h = h [unfolded None option.case]
    from h obtain nxt where nxt: "Reduce decode current ?e = Inr nxt"
      by (cases "Reduce decode current ?e") (auto split: if_splits)
    note h = h [unfolded nxt sum.case]
    from h have ev: "event = ?e"
      and goals: "ep_State nxt = EpisodeCompleted \<Longrightarrow> ep_State current \<noteq> EpisodeCompleted \<Longrightarrow>
        open_required_goals st (ep_ID current) = []"
      and fresh: "\<forall>e \<in> set (es_events st). evt_ID e \<noteq> evt_ID ?e"
      and st': "es_events st' = es_events st @ [?e]"
        "es_episodes st' = AList.update episodeID (stored_episode (with_progress current ?e nxt)) (es_episodes st)"
        "es_goals st' = es_goals st" "es_runs st' = es_runs st" "es_attempts st' = es_attempts st"
      by (auto simp: list_ex_iff with_progress_def split: if_splits)
    from None have "\<forall>e \<in> set (es_events st). \<not> ?P e" by (auto simp: find_None_iff)
    with cur ev nxt goals fresh st' key show thesis by (intro appended) auto
  qed
qed

section \<open>Replaying the stream\<close>

fun replay :: "(string \<Rightarrow> Transition option) \<Rightarrow> WorkEpisode \<Rightarrow> WorkEpisodeEvent list
    \<Rightarrow> ReduceError + WorkEpisode" where
  "replay decode e [] = Inr e"
| "replay decode e (event # events) =
     (case Reduce decode e event of Inl err \<Rightarrow> Inl err | Inr e' \<Rightarrow> replay decode e' events)"

lemma replay_append:
  "replay decode e (events @ [event]) =
     (case replay decode e events of Inl err \<Rightarrow> Inl err | Inr e' \<Rightarrow> Reduce decode e' event)"
  by (induction events arbitrary: e) (auto split: sum.splits)

lemma core_of_if: "core_of (if b then x else y) = (if b then core_of x else core_of y)"
  by simp

lemma core_of_steps:
  assumes "core_of e = core_of e'"
  shows "core_of (stamp event e) = core_of (stamp event e')"
    and "core_of (move_to t e) = core_of (move_to t e')"
    and "core_of (e\<lparr>ep_CompletedAt := c\<rparr>) = core_of (e'\<lparr>ep_CompletedAt := c\<rparr>)"
    and "core_of (e\<lparr>ep_Phase := p, ep_Status := s, ep_ProgressDueAt := d\<rparr>)
      = core_of (e'\<lparr>ep_Phase := p, ep_Status := s, ep_ProgressDueAt := d\<rparr>)"
  using assms by (auto simp: core_of_def stamp_def move_to_def)

lemma Reduce_core_eq:
  assumes "core_of e = core_of e'"
  shows "map_sum id core_of (Reduce decode e event) = map_sum id core_of (Reduce decode e' event)"
proof -
  from assms have c: "ep_State e = ep_State e'" "ep_EventSequence e = ep_EventSequence e'"
    by (auto simp: core_of_def)
  note moved = core_of_steps(2) [OF assms]
  show ?thesis
    unfolding Reduce_def c Let_def move_to_simps
    by (cases "DecodeTransition decode event")
      (simp_all only: option.case if_distrib [of "map_sum id core_of"] map_sum.simps id_apply
        core_of_steps(1) [OF assms] core_of_steps(1) [OF core_of_steps(3) [OF moved]]
        core_of_steps(1) [OF moved] core_of_steps(1) [OF core_of_steps(4) [OF assms]]
        if_distrib [of "stamp event"] core_of_if)
qed

lemma Reduce_core:
  assumes "core_of e = core_of e'" and "Reduce decode e event = Inr nxt"
  shows "\<exists>nxt'. Reduce decode e' event = Inr nxt' \<and> core_of nxt' = core_of nxt"
  using Reduce_core_eq [OF assms(1), of decode event] assms(2)
  by (cases "Reduce decode e' event") auto

lemma find_append_None: "find P xs = None \<Longrightarrow> find P (xs @ ys) = find P ys"
  by (induction xs) (auto split: if_splits)

definition events_of :: "EpisodeStore \<Rightarrow> string \<Rightarrow> WorkEpisodeEvent list" where
  "events_of st i = filter (\<lambda>e. evt_EpisodeID e = i) (es_events st)"

definition store_ok :: "EpisodeStore \<Rightarrow> bool" where
  "store_ok st \<longleftrightarrow>
     (\<forall>i e. map_of (es_episodes st) i = Some e \<longrightarrow>
        ep_ID e = i \<and> 0 \<le> ep_EventSequence e
        \<and> map evt_Sequence (events_of st i) = [1..ep_EventSequence e])
     \<and> distinct (map (\<lambda>e. (evt_EpisodeID e, evt_IdempotencyKey e)) (es_events st))"

text \<open>The stream since a base store explains every episode.\<close>

definition follows :: "(string \<Rightarrow> Transition option) \<Rightarrow> EpisodeStore \<Rightarrow> EpisodeStore \<Rightarrow> bool" where
  "follows decode base st \<longleftrightarrow>
     (\<forall>i e0. map_of (es_episodes base) i = Some e0 \<longrightarrow>
        (\<exists>new e e'. map_of (es_episodes st) i = Some e
           \<and> events_of st i = events_of base i @ new
           \<and> replay decode e0 new = Inr e' \<and> core_of e' = core_of e))"

lemma numbered_simps [simp]:
  "evt_EpisodeID (numbered_event current now event) = ep_ID current"
  "evt_Sequence (numbered_event current now event) = ep_EventSequence current + 1"
  "evt_IdempotencyKey (numbered_event current now event) = evt_IdempotencyKey event"
  "evt_Kind (numbered_event current now event) = evt_Kind event"
  by (simp_all add: numbered_event_def)

lemma trimmed_simps [simp]:
  "evt_IdempotencyKey (trimmed_event event) = trim_space (evt_IdempotencyKey event)"
  "evt_Kind (trimmed_event event) = trim_space (evt_Kind event)"
  by (simp_all add: trimmed_event_def)

lemma Reduce_sequence: "Reduce decode current event = Inr nxt \<Longrightarrow> ep_EventSequence nxt = evt_Sequence event"
  by (simp add: Reduce_frame)

lemma stored_sequence [simp]:
  "ep_EventSequence (stored_episode (with_progress current event e)) = ep_EventSequence e"
  by (simp add: stored_episode_def with_progress_def)

lemma append_store_ok:
  assumes "store_ok st" and "appendEpisodeEvent decode now i event0 st = Inr (event, st')"
  shows "store_ok st'"
  using assms(2)
proof (cases rule: append_cases)
  case (appended current nxt)
  from assms(1) appended(1) have cur: "ep_ID current = i" "0 \<le> ep_EventSequence current"
    "map evt_Sequence (events_of st i) = [1..ep_EventSequence current]"
    by (auto simp: store_ok_def)
  have evs: "events_of st' j = events_of st j @ (if j = i then [event] else [])" for j
    by (simp add: events_of_def appended(2,7) cur)
  have seq: "evt_Sequence event = ep_EventSequence current + 1" by (simp add: appended(2))
  have "map evt_Sequence (events_of st' i) = [1..ep_EventSequence nxt]"
    unfolding evs using cur(2,3) Reduce_sequence [OF appended(4)] seq
    by (simp add: upto_rec2)
  moreover have "ep_ID nxt = i" "0 \<le> ep_EventSequence nxt"
    using Reduce_ID [OF appended(4)] Reduce_sequence [OF appended(4)] seq cur(1,2) by simp_all
  ultimately have "\<forall>j e. map_of (es_episodes st') j = Some e \<longrightarrow> ep_ID e = j \<and> 0 \<le> ep_EventSequence e
      \<and> map evt_Sequence (events_of st' j) = [1..ep_EventSequence e]"
    using assms(1) by (simp add: store_ok_def appended(8) update_conv' evs)
  moreover have "(evt_EpisodeID event, evt_IdempotencyKey event) \<notin>
      (\<lambda>e. (evt_EpisodeID e, evt_IdempotencyKey e)) ` set (es_events st)"
    using appended(3) by (auto simp: appended(2))
  ultimately show ?thesis
    using assms(1) by (simp add: store_ok_def appended(7))
qed (use assms(1) in simp)

lemma append_follows:
  assumes "store_ok st" and "follows decode base st"
    and "appendEpisodeEvent decode now i event0 st = Inr (event, st')"
  shows "follows decode base st'"
  using assms(3)
proof (cases rule: append_cases)
  case (appended current nxt)
  from assms(1) appended(1) have cur: "ep_ID current = i" by (auto simp: store_ok_def)
  have evs: "events_of st' j = events_of st j @ (if j = i then [event] else [])" for j
    by (simp add: events_of_def appended(2,7) cur)
  show ?thesis
    unfolding follows_def
  proof (intro allI impI)
    fix j e0
    assume "map_of (es_episodes base) j = Some e0"
    with assms(2) obtain new e e' where
      e: "map_of (es_episodes st) j = Some e" "events_of st j = events_of base j @ new"
      "replay decode e0 new = Inr e'" "core_of e' = core_of e"
      unfolding follows_def by blast
    show "\<exists>new e e'. map_of (es_episodes st') j = Some e \<and> events_of st' j = events_of base j @ new
        \<and> replay decode e0 new = Inr e' \<and> core_of e' = core_of e"
    proof (cases "j = i")
      case True
      with e(1) appended(1) have "core_of current = core_of e'" using e(4) by simp
      from Reduce_core [OF this appended(4)] obtain nxt' where
        "Reduce decode e' event = Inr nxt'" "core_of nxt' = core_of nxt" by blast
      with e True have "replay decode e0 (new @ [event]) = Inr nxt'" by (simp add: replay_append)
      with True e \<open>core_of nxt' = core_of nxt\<close> show ?thesis
        by (intro exI [of _ "new @ [event]"] exI [of _ "stored_episode (with_progress current event nxt)"]
            exI [of _ nxt']) (simp add: evs appended(8) update_conv')
    next
      case False
      with e show ?thesis by (auto simp: evs appended(8) update_conv')
    qed
  qed
qed (use assms(2) in simp)

text \<open>Appending as a machine: what any caller may do to the stream.\<close>

fun append_step ::
    "(string \<Rightarrow> Transition option) \<Rightarrow> EpisodeStore \<Rightarrow> gotime \<times> string \<times> WorkEpisodeEvent
     \<Rightarrow> AppendError + EpisodeStore" where
  "append_step decode st (now, i, event) = map_sum id snd (appendEpisodeEvent decode now i event st)"

interpretation episode_stream: guarded_machine "append_step decode"
    "\<lambda>st. store_ok st \<and> follows decode base st"
  for decode :: "string \<Rightarrow> Transition option" and base :: EpisodeStore
proof
  fix st e st'
  assume "store_ok st \<and> follows decode base st" "append_step decode st e = Inr st'"
  then show "store_ok st' \<and> follows decode base st'"
    using append_store_ok append_follows
    by (cases e) (auto split: sum.splits simp: map_sum_def)
qed

text \<open>C10. The stream owns the lifecycle: after any sequence of appends, accepted or refused, replaying
  an episode's own events over the row it started from gives exactly the state, phase, deadline,
  completion, sequence and update time of its stored row, and its events are numbered
  consecutively up to the row's sequence.\<close>

theorem stream_determines_episode:
  assumes "store_ok base" and "map_of (es_episodes base) i = Some e0"
  shows "\<exists>new e e'.
    map_of (es_episodes (run_machine (append_step decode) base appends)) i = Some e
    \<and> events_of (run_machine (append_step decode) base appends) i = events_of base i @ new
    \<and> replay decode e0 new = Inr e' \<and> core_of e' = core_of e
    \<and> map evt_Sequence (events_of base i @ new) = [1..ep_EventSequence e]"
proof -
  have "follows decode base base" by (force simp: follows_def)
  with assms(1) have "store_ok (run_machine (append_step decode) base appends)
      \<and> follows decode base (run_machine (append_step decode) base appends)"
    by (intro episode_stream.run_inv) simp
  then have ok: "store_ok (run_machine (append_step decode) base appends)"
    and "follows decode base (run_machine (append_step decode) base appends)" by simp_all
  then obtain new e e' where
    e: "map_of (es_episodes (run_machine (append_step decode) base appends)) i = Some e"
      "events_of (run_machine (append_step decode) base appends) i = events_of base i @ new"
      "replay decode e0 new = Inr e'" "core_of e' = core_of e"
    using assms(2) unfolding follows_def by blast
  have "map evt_Sequence (events_of (run_machine (append_step decode) base appends) i)
      = [1..ep_EventSequence e]"
    using ok e(1) unfolding store_ok_def by blast
  then have "map evt_Sequence (events_of base i @ new) = [1..ep_EventSequence e]"
    by (simp only: e(2))
  with e show ?thesis by blast
qed

text \<open>Appending is idempotent in the idempotency key: once an event is recorded, appending any event
  with the same key and kind gives back the recorded one and changes nothing, and one of another
  kind is refused.\<close>

theorem append_idempotent:
  assumes "appendEpisodeEvent decode now i event0 st = Inr (event, st')"
    and "trim_space (evt_IdempotencyKey event1) = trim_space (evt_IdempotencyKey event0)"
    and "\<not> blank (evt_Kind event1)"
  shows "appendEpisodeEvent decode later i event1 st' =
    (if trim_space (evt_Kind event1) = trim_space (evt_Kind event0) then Inr (event, st')
     else Inl (KeyBelongsTo (trim_space (evt_Kind event0))))"
proof -
  have key: "trim_space (evt_IdempotencyKey event0) \<noteq> []"
    using assms(1) by (auto simp: appendEpisodeEvent_def Let_def split: if_splits)
  from assms(1) obtain current where
    "map_of (es_episodes st') i = Some current"
    "find (\<lambda>e. evt_EpisodeID e = ep_ID current
       \<and> evt_IdempotencyKey e = trim_space (evt_IdempotencyKey event0)) (es_events st') = Some event"
    "evt_Kind event = trim_space (evt_Kind event0)"
  proof (cases rule: append_cases)
    case (replayed current)
    with that show thesis by simp
  next
    case (appended current nxt)
    let ?row = "stored_episode (with_progress current event nxt)"
    have "find (\<lambda>e. evt_EpisodeID e = ep_ID current \<and>
        evt_IdempotencyKey e = trim_space (evt_IdempotencyKey event0)) (es_events st) = None"
      using appended(3) by (auto simp: find_None_iff)
    then have "find (\<lambda>e. evt_EpisodeID e = ep_ID ?row \<and>
        evt_IdempotencyKey e = trim_space (evt_IdempotencyKey event0)) (es_events st @ [event]) = Some event"
      using Reduce_ID [OF appended(4)] by (simp add: find_append_None appended(2))
    then show thesis
      using that [of ?row] appended by (simp add: update_conv')
  qed
  with assms(2,3) key show ?thesis
    by (simp add: appendEpisodeEvent_def Let_def blank_def)
qed

text \<open>An episode is never recorded as completed while a required goal of it is open.\<close>

theorem completion_needs_goals_closed:
  assumes "appendEpisodeEvent decode now i event0 st = Inr (event, st')"
    and "map_of (es_episodes st) i = Some e" and "ep_State e \<noteq> EpisodeCompleted"
    and "map_of (es_episodes st') i = Some e'" and "ep_State e' = EpisodeCompleted"
  shows "open_required_goals st' (ep_ID e') = []"
  using assms(1)
proof (cases rule: append_cases)
  case (appended current nxt)
  with assms Reduce_ID [OF appended(4)] show ?thesis
    by (auto simp: update_conv' open_required_goals_def)
qed (use assms in auto)

text \<open>A terminal episode is left only by a recorded reopening.\<close>

theorem terminal_left_only_by_reopening:
  assumes "appendEpisodeEvent decode now i event0 st = Inr (event, st')"
    and "map_of (es_episodes st) i = Some e" and "terminal (ep_State e)"
    and "map_of (es_episodes st') i = Some e'" and "ep_State e' \<noteq> ep_State e"
  shows "evt_Kind event = EventEpisodeReopened \<and> event \<in> set (es_events st')
    \<and> \<not> terminal (ep_State e') \<and> ep_CompletedAt e' = ZeroTime"
  using assms(1)
proof (cases rule: append_cases)
  case (appended current nxt)
  then have e': "e' = stored_episode (with_progress current event nxt)" and "current = e"
    using assms by (auto simp: update_conv')
  from appended(4) show ?thesis
    by (cases rule: Reduce_cases)
      (use assms(3,5) appended(7) e' \<open>current = e\<close> in
        \<open>auto simp: stored_episode_def with_progress_def split: if_splits\<close>)
qed (use assms in auto)

text \<open>C26. A superseded attempt cannot settle or revive shared work: when a newer run holds the episode's
  latest attempt, an older run's phase change leaves every episode as terminal, or as open, as it
  was.  The attempt table and the run are taken to agree on which episode's state is meant.\<close>

theorem late_attempt_cannot_settle:
  assumes "setWorkEpisodePhase encode decode now runID t key st = Inr st'"
    and "workEpisodeAttemptOwnership st runID = Some (state, latest)" and "latest \<noteq> runID"
    and "decode (encode t) = Some t" and "encode t \<noteq> []"
    and "map_of (es_episodes st) i = Some e" and "map_of (es_episodes st') i = Some e'"
    and "terminal state \<longleftrightarrow> terminal (run_episode_state st runID)"
  shows "terminal (ep_State e') \<longleftrightarrow> terminal (ep_State e)"
proof (cases "terminal (tr_State t)")
  case True
  with assms have "st' = st"
    by (auto simp: setWorkEpisodePhase_def split: if_splits)
  with assms show ?thesis by simp
next
  case False
  have kind: "trim_space EventPhaseChanged = EventPhaseChanged" by (simp add: trim_eval)
  from False assms(1-3) obtain event where a:
    "appendWorkEpisodeEvent decode now runID (host_event EventPhaseChanged key (encode t)) st = Inr (event, st')"
    and open': "\<not> terminal state"
    by (auto simp: setWorkEpisodePhase_def Let_def map_sum_def split: if_splits sum.splits)
  then obtain j where j: "appendEpisodeEvent decode now j (host_event EventPhaseChanged key (encode t)) st
      = Inr (event, st')" and run: "run_episode_state st runID =
        (case map_of (es_episodes st) j of None \<Rightarrow> [] | Some e \<Rightarrow> ep_State e)"
    by (auto simp: appendWorkEpisodeEvent_def run_episode_state_def split: option.splits if_splits)
  from j show ?thesis
  proof (cases rule: append_cases)
    case (appended current nxt)
    have "DecodeTransition decode event = Some t" "evt_Kind event = EventPhaseChanged"
      using assms(4,5) kind
      by (simp_all add: appended(2) DecodeTransition_def numbered_event_def trimmed_event_def host_event_def)
    with appended(4) have "ep_State nxt = tr_State t"
      by (cases rule: Reduce_cases) (auto simp: phase_event_def)
    moreover have "\<not> terminal (ep_State current)"
      using run appended(1) open' assms(8) by simp
    ultimately show ?thesis
      using appended(1,8) assms(6,7) False by (auto simp: update_conv' split: if_splits)
  qed (use assms in auto)
qed

section \<open>The normalized contract\<close>

lemma unique_strings_sets:
  assumes "distinct result" "\<forall>x \<in> set result. x \<noteq> [] \<and> trim_space x = x"
  shows "distinct (unique_strings result items limit)
    \<and> (\<forall>x \<in> set (unique_strings result items limit). x \<noteq> [] \<and> trim_space x = x)
    \<and> set (unique_strings result items limit) \<subseteq> set result \<union> trim_space ` set items"
  using assms
proof (induction items arbitrary: result)
  case (Cons item items)
  let ?x = "trim_space item"
  have skip: "?x = [] \<or> ?x \<in> set result \<Longrightarrow>
      unique_strings result (item # items) limit = unique_strings result items limit"
    by (auto simp: Let_def)
  have add: "?x \<noteq> [] \<Longrightarrow> ?x \<notin> set result \<Longrightarrow> unique_strings result (item # items) limit =
      (if Suc (length result) = limit then rev (?x # result)
       else unique_strings (?x # result) items limit)"
    by (simp add: Let_def)
  show ?case
  proof (cases "?x = [] \<or> ?x \<in> set result")
    case True
    from Cons.IH [OF Cons.prems] show ?thesis
      unfolding skip [OF True] by (elim conjE, intro conjI) auto
  next
    case False
    have prems: "distinct (?x # result)" "\<forall>y \<in> set (?x # result). y \<noteq> [] \<and> trim_space y = y"
      using False Cons.prems by simp_all
    from False have "?x \<noteq> []" "?x \<notin> set result" by simp_all
    note add = add [OF this]
    show ?thesis
    proof (cases "Suc (length result) = limit")
      case True
      with add have e: "unique_strings result (item # items) limit = rev (?x # result)" by metis
      from prems show ?thesis unfolding e by (auto simp only: set_rev distinct_rev) auto
    next
      case False
      with add have e: "unique_strings result (item # items) limit
        = unique_strings (?x # result) items limit" by metis
      from Cons.IH [OF prems] show ?thesis unfolding e by (elim conjE, intro conjI) auto
    qed
  qed
qed simp

lemma unique_strings_length:
  "length result < limit \<Longrightarrow> length (unique_strings result items limit) \<le> limit"
proof (induction items arbitrary: result)
  case (Cons item items)
  have skip: "length (unique_strings result items limit) \<le> limit" using Cons by simp
  have add: "Suc (length result) \<noteq> limit \<Longrightarrow>
      length (unique_strings (trim_space item # result) items limit) \<le> limit"
    using Cons.prems by (intro Cons.IH) simp
  from skip add Cons.prems show ?case by (simp add: Let_def)
qed simp

lemma normalizedUniqueStrings_spec:
  assumes "0 < limit"
  shows "distinct (normalizedUniqueStrings items limit)
    \<and> (\<forall>x \<in> set (normalizedUniqueStrings items limit). x \<noteq> [] \<and> trim_space x = x)
    \<and> length (normalizedUniqueStrings items limit) \<le> limit
    \<and> set (normalizedUniqueStrings items limit) \<subseteq> trim_space ` set items"
  using unique_strings_sets [of "[]" items limit] unique_strings_length [of "[]" limit items] assms
  by (simp add: normalizedUniqueStrings_def)

text \<open>Every episode that is created carries a closed contract: a known effort, authority and
  activity, at most nine required layers and twelve criteria without blanks or repeats, an
  objective of at most 500 bytes, and the run that asked for it as its first attempt.\<close>

theorem normalized_contract:
  assumes "normalizeWorkEpisode run = Inr e"
  shows "validEffort (ep_Effort e) \<and> validAuthority (ep_Authority e) \<and> validActivity (ep_Activity e)
    \<and> length (ep_RequiredCoverage e) \<le> 9 \<and> distinct (ep_RequiredCoverage e)
    \<and> length (ep_CompletionCriteria e) \<le> 12 \<and> distinct (ep_CompletionCriteria e)
    \<and> [] \<notin> set (ep_RequiredCoverage e @ ep_CompletionCriteria e)
    \<and> length (ep_Objective e) \<le> 500 \<and> ep_AgentRunID e = run_ID run \<and> ep_ID e \<noteq> []"
proof -
  obtain e0 where e0: "e0 = (case run_Episode run of None \<Rightarrow> defaultWorkEpisode run
      | Some c \<Rightarrow> override_episode (defaultWorkEpisode run) c)" by simp
  have "ep_ID e0 \<noteq> []"
    by (cases "run_Episode run")
      (simp_all add: e0 override_episode_def if_set_def defaultWorkEpisode_def Let_def)
  with assms show ?thesis
    using normalizedUniqueStrings_spec [of 9 "ep_RequiredCoverage e0"]
      normalizedUniqueStrings_spec [of 12 "ep_CompletionCriteria e0"]
      length_TruncateUTF8 [of "ep_Objective e0" 500]
    by (auto simp: normalizeWorkEpisode_def Let_def e0 [symmetric] split: if_splits)
qed

section \<open>Witnesses\<close>

definition ex_transition :: Transition where
  "ex_transition = emptyTransition\<lparr>tr_State := EpisodeCompleted, tr_Phase := ''done'',
     tr_Status := ''Done''\<rparr>"

definition ex_episode :: WorkEpisode where
  "ex_episode = zero_WorkEpisode\<lparr>ep_ID := ''e1'', ep_State := EpisodeWorking,
     ep_LatestAttemptID := ''a2''\<rparr>"

definition ex_store :: EpisodeStore where
  "ex_store = \<lparr>es_episodes = [(''e1'', ex_episode)], es_events = [], es_progress = [],
     es_goals = [], es_runs = map (\<lambda>i. (i, zero_AgentRun\<lparr>run_EpisodeID := ''e1''\<rparr>)) [''r1'', ''r2''],
     es_attempts = [zero_AttemptRow\<lparr>at_ID := ''a1'', at_EpisodeID := ''e1'', at_AgentRunID := ''r1''\<rparr>,
       zero_AttemptRow\<lparr>at_ID := ''a2'', at_EpisodeID := ''e1'', at_AgentRunID := ''r2''\<rparr>], es_outcomes = []\<rparr>"

definition ex_event :: WorkEpisodeEvent where
  "ex_event = host_event EventEpisodeCompleted ''k1'' ''t''"

definition ex_reopen :: WorkEpisodeEvent where
  "ex_reopen = host_event EventEpisodeReopened ''k2'' ''t''"

definition ex_after :: EpisodeStore where
  "ex_after = run_machine (append_step (\<lambda>_. Some ex_transition)) ex_store [(Time 5, ''e1'', ex_event)]"

definition ex_recorded :: WorkEpisodeEvent where
  "ex_recorded = hd (es_events ex_after)"

lemma ex_append:
  "appendEpisodeEvent (\<lambda>_. Some ex_transition) (Time 5) ''e1'' ex_event ex_store
     = Inr (ex_recorded, ex_after)"
proof -
  have "is_ok (appendEpisodeEvent (\<lambda>_. Some ex_transition) (Time 5) ''e1'' ex_event ex_store)"
    by code_simp
  then obtain ev st where a:
    "appendEpisodeEvent (\<lambda>_. Some ex_transition) (Time 5) ''e1'' ex_event ex_store = Inr (ev, st)"
    by (auto simp: is_ok_iff)
  then have "st = ex_after" by (simp add: ex_after_def)
  moreover from a have "ev = hd (es_events st)"
    by (cases rule: append_cases) (auto simp: ex_store_def)
  ultimately show ?thesis using a by (simp add: ex_recorded_def)
qed

lemma ex_store_ok: "store_ok ex_store"
  by (simp add: store_ok_def ex_store_def ex_episode_def events_of_def zero_defs)

lemma ex_row: "map_of (es_episodes ex_store) ''e1'' = Some ex_episode"
  by (simp add: ex_store_def)

lemma ex_after_row: "map_option ep_State (map_of (es_episodes ex_after) ''e1'') = Some EpisodeCompleted"
  by code_simp

theorem stream_determines_episode_witness:
  "\<exists>new e e'. map_of (es_episodes ex_after) ''e1'' = Some e
    \<and> replay (\<lambda>_. Some ex_transition) ex_episode new = Inr e' \<and> core_of e' = core_of e
    \<and> map evt_Sequence new = [1..ep_EventSequence e]"
  using stream_determines_episode [OF ex_store_ok ex_row, of "\<lambda>_. Some ex_transition"
      "[(Time 5, ''e1'', ex_event)]"]
  unfolding ex_after_def [symmetric] by (auto simp: events_of_def ex_store_def)

theorem append_idempotent_witness:
  "appendEpisodeEvent (\<lambda>_. Some ex_transition) (Time 9) ''e1'' ex_event ex_after
     = Inr (ex_recorded, ex_after)"
proof -
  have "\<not> blank (evt_Kind ex_event)" by code_simp
  from append_idempotent [OF ex_append refl this] show ?thesis by simp
qed

theorem completion_needs_goals_closed_witness: "open_required_goals ex_after ''e1'' = []"
proof -
  obtain e where e: "map_of (es_episodes ex_after) ''e1'' = Some e" "ep_State e = EpisodeCompleted"
    using ex_after_row by auto
  moreover have "ep_ID e = ''e1''"
    using append_store_ok [OF ex_store_ok ex_append] e(1) by (simp add: store_ok_def)
  moreover have "ep_State ex_episode \<noteq> EpisodeCompleted" by (simp add: ex_episode_def)
  ultimately show ?thesis
    using completion_needs_goals_closed [OF ex_append ex_row _ e] by simp
qed

definition ex_open :: Transition where
  "ex_open = ex_transition\<lparr>tr_State := EpisodePlanning\<rparr>"

definition ex_reopened :: EpisodeStore where
  "ex_reopened = run_machine (append_step (\<lambda>_. Some ex_open)) ex_after [(Time 7, ''e1'', ex_reopen)]"

theorem terminal_left_only_by_reopening_witness:
  "\<exists>event e. evt_Kind event = EventEpisodeReopened \<and> event \<in> set (es_events ex_reopened)
     \<and> map_of (es_episodes ex_reopened) ''e1'' = Some e \<and> ep_CompletedAt e = ZeroTime"
proof -
  have "is_ok (appendEpisodeEvent (\<lambda>_. Some ex_open) (Time 7) ''e1'' ex_reopen ex_after)"
    by code_simp
  then obtain ev st where a:
    "appendEpisodeEvent (\<lambda>_. Some ex_open) (Time 7) ''e1'' ex_reopen ex_after = Inr (ev, st)"
    by (auto simp: is_ok_iff)
  then have st: "st = ex_reopened" by (simp add: ex_reopened_def)
  obtain e where e: "map_of (es_episodes ex_after) ''e1'' = Some e" "ep_State e = EpisodeCompleted"
    using ex_after_row by auto
  have "map_option ep_State (map_of (es_episodes ex_reopened) ''e1'') = Some EpisodePlanning"
    by code_simp
  then obtain e' where e': "map_of (es_episodes ex_reopened) ''e1'' = Some e'"
    "ep_State e' = EpisodePlanning" by auto
  have "terminal (ep_State e)" "ep_State e' \<noteq> ep_State e" by (simp_all add: e e' terminal_def)
  from terminal_left_only_by_reopening [OF a e(1) this(1) _ this(2)] e' st show ?thesis by auto
qed

theorem late_attempt_cannot_settle_witness:
  "\<exists>st' e'. setWorkEpisodePhase (\<lambda>_. ''t'') (\<lambda>_. Some ex_open) (Time 5) ''r1'' ex_open ''k'' ex_store = Inr st'
     \<and> map_of (es_episodes st') ''e1'' = Some e' \<and> \<not> terminal (ep_State e')"
proof -
  let ?r = "setWorkEpisodePhase (\<lambda>_. ''t'') (\<lambda>_. Some ex_open) (Time 5) ''r1'' ex_open ''k'' ex_store"
  have "(case ?r of Inl _ \<Rightarrow> False | Inr st' \<Rightarrow> map_of (es_episodes st') ''e1'' \<noteq> None)" by code_simp
  then obtain st' e' where r: "?r = Inr st'" "map_of (es_episodes st') ''e1'' = Some e'"
    by (auto split: sum.splits)
  have o: "workEpisodeAttemptOwnership ex_store ''r1'' = Some (EpisodeWorking, ''r2'')"
    "run_episode_state ex_store ''r1'' = EpisodeWorking" by code_simp+
  have "\<not> terminal (ep_State ex_episode)" by (simp add: ex_episode_def terminal_def)
  with late_attempt_cannot_settle [OF r(1) o(1) _ _ _ ex_row r(2)] o(2) r show ?thesis by auto
qed

theorem normalized_contract_witness:
  "\<exists>e. normalizeWorkEpisode (zero_AgentRun\<lparr>run_ID := ''r1''\<rparr>) = Inr e \<and> ep_AgentRunID e = ''r1''
     \<and> validEffort (ep_Effort e)"
proof -
  have "is_ok (normalizeWorkEpisode (zero_AgentRun\<lparr>run_ID := ''r1''\<rparr>))" by code_simp
  then obtain e where e: "normalizeWorkEpisode (zero_AgentRun\<lparr>run_ID := ''r1''\<rparr>) = Inr e"
    by (auto simp: is_ok_iff)
  from normalized_contract [OF e] e show ?thesis by auto
qed

end
