(* ===== verification/PublicationStore.thy ===== *)
theory PublicationStore
  imports CoreModel
begin

text \<open>
  Draft pull request publications: \<open>internal/publicationrecord\<close> (the proof each state requires),
  \<open>internal/store/publicationstore/validation.go\<close> (claiming, saving and closing) and the
  transitions of \<open>internal/store/publicationfollowupstore\<close> (what the forge reported).

  Each operation is one transaction: it returns its result or error and the store it commits,
  which is the store it started from wherever the code rolls back.  Tables are maps by incident;
  rows the code updates in bulk are association lists.  \<open>julian_le\<close> is SQLite's comparison of
  two \<open>julianday\<close> values, whose resolution is the database's.
\<close>

section \<open>Tables\<close>

record PubStore =
  ps_pubs :: "string \<Rightarrow> Publication option"
  ps_followups :: "string \<Rightarrow> PublicationFollowup option"
  ps_incidents :: "string \<Rightarrow> Incident option"
  ps_inputs :: "(string \<times> SlackInput) list"
  ps_runs :: "AgentRun list"
  ps_events :: "PublicationLifecycleEvent list"

datatype PubError = ErrNotFound | ErrInProgress | ErrBindingChanged | ErrCoalesced | ErrAttemptLost
  | ErrWorkUnavailable | ErrPRTerminal | ErrCloseConflict | ErrConflict
  | ErrIdentityRequired | ErrReviewedTreeRequired | ErrProofRequired | ErrBadState string
  | ErrTargetIncomplete | ErrReceiptUnavailable | ErrIncomplete

text \<open>\<open>publicationrecord.Validate\<close>.\<close>

definition ValidatePublication :: "Publication \<Rightarrow> PubError option" where
  "ValidatePublication item =
     (if pub_IncidentID item = [] \<or> pub_Repository item = [] \<or> pub_BaseBranch item = []
      then Some ErrIdentityRequired
      else if pub_State item \<in> {PublicationReviewing, PublicationRetrying, PublicationFailed} then None
      else if pub_State item = PublicationPublishing
      then (if pub_ParentHead item = [] \<or> pub_CandidateTree item = [] then Some ErrReviewedTreeRequired
            else None)
      else if pub_State item \<in> {PublicationPublished, PublicationStale}
      then (if pub_ParentHead item = [] \<or> pub_CandidateTree item = [] then Some ErrReviewedTreeRequired
            else if pub_HeadBranch item = [] \<or> pub_CommitSHA item = [] \<or> pub_RemoteSHA item = []
              \<or> pub_PRNumber item < 1 \<or> pub_PRURL item = [] \<or> IsZero (pub_PublishedAt item)
            then Some ErrProofRequired else None)
      else Some (ErrBadState (pub_State item)))"

definition terminal_pr :: "PubStore \<Rightarrow> string \<Rightarrow> bool" where
  "terminal_pr st i \<longleftrightarrow> (case ps_followups st i of None \<Rightarrow> False | Some f \<Rightarrow> TerminalFollowup f)"

definition set_pub :: "string \<Rightarrow> Publication \<Rightarrow> PubStore \<Rightarrow> PubStore" where
  "set_pub i p st = st\<lparr>ps_pubs := (ps_pubs st)(i \<mapsto> p)\<rparr>"

text \<open>The update that bumps an incident's card, which must touch one row.\<close>

definition touch_incident :: "string \<Rightarrow> gotime \<Rightarrow> PubStore \<Rightarrow> PubStore option" where
  "touch_incident i now st =
     (case ps_incidents st i of
        None \<Rightarrow> None
      | Some inc \<Rightarrow> Some (st\<lparr>ps_incidents := (ps_incidents st)
          (i \<mapsto> inc\<lparr>inc_UpdatedAt := now, inc_CardVersion := inc_CardVersion inc + 1\<rparr>)\<rparr>))"

section \<open>Saving a record\<close>

text \<open>The state transitions the upsert of \<open>Save\<close> allows on the row of its own attempt.\<close>

definition save_allowed :: "Publication \<Rightarrow> Publication \<Rightarrow> bool" where
  "save_allowed old new \<longleftrightarrow>
     pub_AttemptInputID old = [] \<or> pub_State old = pub_State new
     \<or> (pub_FailureCode new = PublicationFailureSessionBinding
        \<and> pub_State old \<notin> {PublicationReviewing, PublicationPublishing, PublicationRetrying,
             PublicationPublished, PublicationStale})
     \<or> (pub_State old = PublicationReviewing
        \<and> pub_State new \<in> {PublicationPublishing, PublicationRetrying, PublicationFailed})
     \<or> (pub_State old = PublicationPublishing
        \<and> pub_State new \<in> {PublicationRetrying, PublicationFailed, PublicationPublished})
     \<or> (pub_State old = PublicationRetrying
        \<and> pub_State new \<in> {PublicationReviewing, PublicationFailed})"

definition saved_row :: "Publication \<Rightarrow> Publication \<Rightarrow> gotime \<Rightarrow> Publication" where
  "saved_row old item now =
     old\<lparr>pub_Repository := pub_Repository item, pub_BaseBranch := pub_BaseBranch item,
         pub_HeadBranch := pub_HeadBranch item, pub_ParentHead := pub_ParentHead item,
         pub_CandidateTree := pub_CandidateTree item, pub_CommitSHA := pub_CommitSHA item,
         pub_RemoteSHA := pub_RemoteSHA item, pub_PRNumber := pub_PRNumber item,
         pub_PRURL := pub_PRURL item, pub_State := pub_State item,
         pub_FailureCode := pub_FailureCode item, pub_LastError := pub_LastError item,
         pub_UpdatedAt := now, pub_PublishedAt := pub_PublishedAt item\<rparr>"

definition inserted_row :: "Publication \<Rightarrow> gotime \<Rightarrow> Publication" where
  "inserted_row item now =
     item\<lparr>pub_EpisodeID := [],
          pub_CreatedAt := (if IsZero (pub_CreatedAt item) then now else pub_CreatedAt item),
          pub_UpdatedAt := now\<rparr>"

definition Save :: "Publication \<Rightarrow> gotime \<Rightarrow> PubStore \<Rightarrow> PubError option \<times> PubStore" where
  "Save item now st =
     (case ValidatePublication item of
        Some e \<Rightarrow> (Some e, st)
      | None \<Rightarrow>
          let i = pub_IncidentID item;
              row = (case ps_pubs st i of
                None \<Rightarrow> Some (inserted_row item now)
              | Some old \<Rightarrow>
                  if pub_AttemptInputID old = pub_AttemptInputID item \<and> \<not> terminal_pr st i
                    \<and> save_allowed old item
                  then Some (saved_row old item now) else None)
          in case row of
            None \<Rightarrow> (Some ErrAttemptLost, st)
          | Some p \<Rightarrow>
              (case touch_incident i now (set_pub i p st) of
                 None \<Rightarrow> (Some ErrConflict, st)
               | Some st' \<Rightarrow> (None, st')))"

definition RecordFailure ::
    "string \<Rightarrow> string \<Rightarrow> string \<Rightarrow> string \<Rightarrow> gotime \<Rightarrow> PubStore \<Rightarrow> PubError option \<times> PubStore" where
  "RecordFailure i attempt state lastError now st =
     (if state \<noteq> PublicationRetrying \<and> state \<noteq> PublicationFailed then (Some (ErrBadState state), st)
      else case ps_pubs st i of
        None \<Rightarrow> (None, st)
      | Some record \<Rightarrow>
          if \<not> InProgress record then (None, st)
          else if pub_AttemptInputID record \<noteq> attempt then (Some ErrAttemptLost, st)
          else Save (record\<lparr>pub_State := state, pub_FailureCode := [], pub_LastError := lastError\<rparr>) now st)"

definition MarkStale :: "string \<Rightarrow> string \<Rightarrow> gotime \<Rightarrow> PubStore \<Rightarrow> (PubError + bool) \<times> PubStore" where
  "MarkStale i reason now st =
     (if i = [] \<or> reason = [] then (Inl ErrIdentityRequired, st)
      else case ps_pubs st i of
        None \<Rightarrow> (Inr False, st)
      | Some p \<Rightarrow>
          if pub_State p \<in> {PublicationPublished, PublicationFailed} \<and> 0 < pub_PRNumber p
            \<and> pub_PRURL p \<noteq> [] \<and> \<not> terminal_pr st i
          then (case touch_incident i now (set_pub i
                  (p\<lparr>pub_State := PublicationStale, pub_LastError := reason, pub_UpdatedAt := now\<rparr>) st) of
                  None \<Rightarrow> (Inl ErrConflict, st)
                | Some st' \<Rightarrow> (Inr True, st'))
          else (Inr False, st))"

definition BeginPublishing :: "Publication \<Rightarrow> gotime \<Rightarrow> PubStore \<Rightarrow> PubError option \<times> PubStore" where
  "BeginPublishing item now st =
     (if pub_State item \<noteq> PublicationPublishing then (Some (ErrBadState (pub_State item)), st)
      else case ValidatePublication item of
        Some e \<Rightarrow> (Some e, st)
      | None \<Rightarrow>
          let i = pub_IncidentID item; mine = (\<lambda>p. pub_AttemptInputID p = pub_AttemptInputID item) in
          (case ps_pubs st i of
             None \<Rightarrow> if terminal_pr st i then (Some ErrNotFound, st) else (Some ErrAttemptLost, st)
           | Some p \<Rightarrow>
               if mine p \<and> pub_State p = PublicationReviewing \<and> \<not> terminal_pr st i
               then (case touch_incident i now (set_pub i
                       (p\<lparr>pub_State := PublicationPublishing, pub_FailureCode := [], pub_LastError := [],
                          pub_UpdatedAt := now\<rparr>) st) of
                       None \<Rightarrow> (Some ErrConflict, st)
                     | Some st' \<Rightarrow> (None, st'))
               else if \<not> terminal_pr st i then (Some ErrAttemptLost, st)
               else
                 let changed = (mine p \<and> pub_State p \<noteq> PublicationPublished \<and> 0 < pub_PRNumber p
                        \<and> \<not> IsZero (pub_PublishedAt p));
                     p' = (if changed
                       then p\<lparr>pub_State := PublicationPublished, pub_FailureCode := [],
                              pub_LastError := [], pub_UpdatedAt := now\<rparr>
                       else p)
                 in if \<not> Published p' then (Some ErrReceiptUnavailable, st)
                    else if \<not> changed then (Some ErrPRTerminal, st)
                    else (case touch_incident i now (set_pub i p' st) of
                            None \<Rightarrow> (Some ErrConflict, st)
                          | Some st' \<Rightarrow> (Some ErrPRTerminal, st'))))"

section \<open>Closing the task\<close>

definition active_publication :: "PubStore \<Rightarrow> string \<Rightarrow> bool" where
  "active_publication st i \<longleftrightarrow> (case ps_pubs st i of None \<Rightarrow> False | Some p \<Rightarrow> InProgress p)"

definition BeginClose :: "string \<Rightarrow> gotime \<Rightarrow> PubStore \<Rightarrow> (PubError + string) \<times> PubStore" where
  "BeginClose i now st =
     (case ps_incidents st i of
        None \<Rightarrow> (Inl ErrNotFound, st)
      | Some inc \<Rightarrow>
          if inc_Status inc \<noteq> IncidentClosed \<and> inc_ActiveTurnID inc = []
            \<and> inc_Workflow inc \<noteq> WorkflowClosing \<and> \<not> active_publication st i
          then (Inr (inc_Workflow inc), st\<lparr>ps_incidents := (ps_incidents st)
                  (i \<mapsto> inc\<lparr>inc_Workflow := WorkflowClosing, inc_UpdatedAt := now,
                          inc_CardVersion := inc_CardVersion inc + 1\<rparr>)\<rparr>)
          else if active_publication st i then (Inl ErrCloseConflict, st)
          else (Inl ErrWorkUnavailable, st))"

definition RestoreClose :: "string \<Rightarrow> string \<Rightarrow> gotime \<Rightarrow> PubStore \<Rightarrow> PubError option \<times> PubStore" where
  "RestoreClose i previous now st =
     (let previous = (if previous = [] \<or> previous = WorkflowClosing \<or> previous = WorkflowClosed
                      then WorkflowParked else previous)
      in case ps_incidents st i of
        None \<Rightarrow> (Some ErrConflict, st)
      | Some inc \<Rightarrow>
          if inc_Status inc \<noteq> IncidentClosed \<and> inc_Workflow inc = WorkflowClosing
          then (None, st\<lparr>ps_incidents := (ps_incidents st)
                  (i \<mapsto> inc\<lparr>inc_Workflow := previous, inc_UpdatedAt := now,
                          inc_CardVersion := inc_CardVersion inc + 1\<rparr>)\<rparr>)
          else (Some ErrConflict, st))"

section \<open>Claiming a publication attempt\<close>

fun newest_run :: "AgentRun list \<Rightarrow> AgentRun option" where
  "newest_run [] = None"
| "newest_run (r # rs) =
     (case newest_run rs of
        None \<Rightarrow> Some r
      | Some s \<Rightarrow>
          if run_CreatedAt s < run_CreatedAt r
            \<or> run_CreatedAt s = run_CreatedAt r \<and> run_ID s \<le> run_ID r
          then Some r else Some s)"

definition incident_episode :: "PubStore \<Rightarrow> string \<Rightarrow> string" where
  "incident_episode st i =
     (case newest_run (filter (\<lambda>r. run_IncidentID r = i \<and> run_EpisodeID r \<noteq> []) (ps_runs st)) of
        None \<Rightarrow> [] | Some r \<Rightarrow> run_EpisodeID r)"

definition same_binding :: "Publication \<Rightarrow> Publication \<Rightarrow> bool" where
  "same_binding p q \<longleftrightarrow> pub_Repository p = pub_Repository q \<and> pub_BaseBranch p = pub_BaseBranch q"

text \<open>The row of a first claim, and of a later one.\<close>

definition new_claim :: "Publication \<Rightarrow> string \<Rightarrow> gotime \<Rightarrow> Publication" where
  "new_claim item episode now =
     item\<lparr>pub_EpisodeID := episode, pub_Generation := 1, pub_ParentHead := [], pub_CandidateTree := [],
          pub_CommitSHA := [], pub_State := PublicationReviewing, pub_FailureCode := [],
          pub_LastError := [], pub_CreatedAt := now, pub_UpdatedAt := now,
          pub_PublishedAt := ZeroTime\<rparr>"

definition reclaim :: "Publication \<Rightarrow> Publication \<Rightarrow> string \<Rightarrow> gotime \<Rightarrow> Publication" where
  "reclaim old item episode now =
     (let same = same_binding old item; keeps_pr = (same \<and> 0 < pub_PRNumber old) in
      old\<lparr>pub_EpisodeID := (if episode \<noteq> [] then episode else pub_EpisodeID old),
          pub_Generation := pub_Generation old + 1,
          pub_Repository := pub_Repository item, pub_BaseBranch := pub_BaseBranch item,
          pub_HeadBranch := (if same then pub_HeadBranch old else pub_HeadBranch item),
          pub_ParentHead := (if same then pub_ParentHead old else []),
          pub_CandidateTree := (if same then pub_CandidateTree old else []),
          pub_CommitSHA := (if same then pub_CommitSHA old else []),
          pub_RemoteSHA := (if same then pub_RemoteSHA old else pub_RemoteSHA item),
          pub_PRNumber := (if keeps_pr then pub_PRNumber old else pub_PRNumber item),
          pub_PRURL := (if keeps_pr then pub_PRURL old else pub_PRURL item),
          pub_PublishedAt := (if same then pub_PublishedAt old else ZeroTime),
          pub_State := PublicationReviewing, pub_AttemptInputID := pub_AttemptInputID item,
          pub_FailureCode := [], pub_LastError := [], pub_UpdatedAt := now\<rparr>)"

text \<open>The \<open>WHERE\<close> of the claim on an existing row.\<close>

definition claimable ::
    "(gotime \<Rightarrow> gotime \<Rightarrow> bool) \<Rightarrow> PubStore \<Rightarrow> string \<Rightarrow> int \<Rightarrow> Publication \<Rightarrow> Publication \<Rightarrow> bool" where
  "claimable julian_le st slackInputID expected old item \<longleftrightarrow>
     (\<not> InProgress old
      \<or> pub_State old = PublicationRetrying \<and> pub_AttemptInputID old = pub_AttemptInputID item)
     \<and> (pub_PRNumber old = 0 \<and> pub_RemoteSHA old = [] \<or> same_binding old item)
     \<and> (pub_PRNumber item = 0 \<or> pub_PRNumber old = 0
        \<or> pub_PRNumber old = pub_PRNumber item \<and> pub_PRURL old = pub_PRURL item
          \<and> pub_HeadBranch old = pub_HeadBranch item)
     \<and> (pub_AttemptInputID old = pub_AttemptInputID item
        \<or> \<not> list_ex (\<lambda>(k, input). k = slackInputID
             \<and> julian_le (inp_ReceivedAt input) (pub_UpdatedAt old)) (ps_inputs st))
     \<and> (expected < 0 \<or> pub_Generation old = expected)"

text \<open>Why a claim was refused, and the one refusal that also fails the record.\<close>

definition refuse_claim ::
    "PubStore \<Rightarrow> Publication \<Rightarrow> Publication \<Rightarrow> bool \<Rightarrow> string \<Rightarrow> int \<Rightarrow> gotime \<Rightarrow> PubError \<times> PubStore" where
  "refuse_claim st current item bound slackInputID expected now =
     (let i = pub_IncidentID item in
      if (HasPR current \<or> pub_RemoteSHA current \<noteq> []) \<and> \<not> same_binding current item
      then (if pub_State current = PublicationRetrying
              \<and> (pub_AttemptInputID current = [] \<or> pub_AttemptInputID current = pub_AttemptInputID item)
            then (let failed = set_pub i (current\<lparr>pub_State := PublicationFailed,
                    pub_LastError := ''The configured GitHub repository or base branch changed after this PR was created.'',
                    pub_UpdatedAt := now\<rparr>) st
                  in (ErrBindingChanged,
                      case touch_incident i now failed of None \<Rightarrow> failed | Some st' \<Rightarrow> st'))
            else (ErrBindingChanged, st))
      else if bound \<and> HasPR current
        \<and> (pub_PRNumber current \<noteq> pub_PRNumber item \<or> pub_PRURL current \<noteq> pub_PRURL item
            \<or> pub_HeadBranch current \<noteq> pub_HeadBranch item)
      then (ErrBindingChanged, st)
      else if 0 \<le> expected \<and> pub_Generation current \<noteq> expected then (ErrCoalesced, st)
      else if pub_AttemptInputID current \<noteq> pub_AttemptInputID item \<and> slackInputID \<noteq> []
        \<and> (case map_of (ps_inputs st) slackInputID of
             None \<Rightarrow> False | Some input \<Rightarrow> inp_ReceivedAt input \<le> pub_UpdatedAt current)
      then (ErrCoalesced, st)
      else (ErrInProgress, st))"

text \<open>The input that owns the attempt is bound to the incident; waiting duplicates are coalesced.\<close>

definition bind_input :: "string \<Rightarrow> string \<Rightarrow> PubStore \<Rightarrow> PubStore option" where
  "bind_input slackInputID i st =
     (if slackInputID = [] then Some st
      else case map_of (ps_inputs st) slackInputID of
        None \<Rightarrow> None
      | Some input \<Rightarrow>
          if inp_State input \<noteq> ''processing'' then None
          else
            let bound = AList.update slackInputID
                  (input\<lparr>inp_ActionID := ''responder_publish_pr'', inp_ActionValue := i\<rparr>) (ps_inputs st)
            in Some (st\<lparr>ps_inputs := map (\<lambda>(k, x).
                 (k, if k \<noteq> slackInputID \<and> inp_State x \<in> {''pending'', ''retry''}
                       \<and> inp_ActionID x = ''responder_publish_pr'' \<and> inp_ActionValue x = i
                     then x\<lparr>inp_State := ''done''\<rparr> else x)) bound\<rparr>))"

definition claim_item ::
    "string \<Rightarrow> string \<Rightarrow> string \<Rightarrow> string \<Rightarrow> PullRequestTarget option \<Rightarrow> Publication" where
  "claim_item attempt i repository baseBranch target =
     (let item = zero_Publication\<lparr>pub_IncidentID := i, pub_Repository := repository,
            pub_BaseBranch := baseBranch, pub_State := PublicationReviewing,
            pub_AttemptInputID := attempt, pub_Generation := 1\<rparr>
      in case target of
        None \<Rightarrow> item
      | Some t \<Rightarrow> item\<lparr>pub_HeadBranch := prt_HeadBranch t, pub_RemoteSHA := prt_HeadCommit t,
          pub_PRNumber := prt_Number t, pub_PRURL := prt_URL t\<rparr>)"

definition BeginReview ::
    "(gotime \<Rightarrow> gotime \<Rightarrow> bool) \<Rightarrow> string \<Rightarrow> string \<Rightarrow> string \<Rightarrow> string \<Rightarrow> string
     \<Rightarrow> PullRequestTarget option \<Rightarrow> int \<Rightarrow> gotime \<Rightarrow> PubStore \<Rightarrow> (PubError + Publication) \<times> PubStore" where
  "BeginReview julian_le attempt slackInputID i repository baseBranch target expected now st =
     (let item = claim_item attempt i repository baseBranch target in
      if (case target of None \<Rightarrow> False | Some t \<Rightarrow> \<not> ValidTarget t) then (Inl ErrTargetIncomplete, st)
      else if (case target of None \<Rightarrow> False
               | Some t \<Rightarrow> prt_Repository t \<noteq> repository \<or> prt_BaseBranch t \<noteq> baseBranch)
      then (Inl ErrBindingChanged, st)
      else case ValidatePublication item of
        Some e \<Rightarrow> (Inl e, st)
      | None \<Rightarrow>
          if \<not> (case ps_incidents st i of
                 None \<Rightarrow> False
               | Some inc \<Rightarrow> inc_Status inc \<noteq> IncidentClosed \<and> inc_Workflow inc \<noteq> WorkflowClosing)
             \<or> terminal_pr st i
          then (Inl (if terminal_pr st i then ErrPRTerminal else ErrWorkUnavailable), st)
          else
            let episode = incident_episode st i;
                row = (case ps_pubs st i of
                  None \<Rightarrow> Some (new_claim item episode now)
                | Some old \<Rightarrow>
                    if claimable julian_le st slackInputID expected old item
                    then Some (reclaim old item episode now) else None)
            in case row of
              None \<Rightarrow>
                (case refuse_claim st (the (ps_pubs st i)) item (target \<noteq> None) slackInputID expected now of
                   (e, st') \<Rightarrow> (Inl e, st'))
            | Some p \<Rightarrow>
                (case bind_input slackInputID i (set_pub i p st) of
                   None \<Rightarrow> (Inl ErrConflict, st)
                 | Some bound \<Rightarrow>
                     (case touch_incident i now bound of
                        None \<Rightarrow> (Inl ErrConflict, st)
                      | Some st' \<Rightarrow> (Inr p, st'))))"

section \<open>Follow-ups\<close>

definition EnsureFollowup :: "string \<Rightarrow> gotime \<Rightarrow> gotime \<Rightarrow> PubStore \<Rightarrow> PubError option \<times> PubStore" where
  "EnsureFollowup i nextCheckAt now st =
     (if i = [] \<or> IsZero nextCheckAt then (Some ErrIncomplete, st)
      else case ps_followups st i of
        Some f \<Rightarrow> (None, st\<lparr>ps_followups := (ps_followups st)
          (i \<mapsto> f\<lparr>fol_NextCheckAt := min (fol_NextCheckAt f) nextCheckAt, fol_UpdatedAt := now\<rparr>)\<rparr>)
      | None \<Rightarrow>
          if ps_pubs st i = None then (Some ErrConflict, st)
          else (None, st\<lparr>ps_followups := (ps_followups st)
            (i \<mapsto> zero_PublicationFollowup\<lparr>fol_IncidentID := i, fol_PRState := ''open'',
                     fol_ChecksState := ''unknown'', fol_NextCheckAt := nextCheckAt,
                     fol_CreatedAt := now, fol_UpdatedAt := now\<rparr>)\<rparr>))"

definition ResetFollowup :: "string \<Rightarrow> gotime \<Rightarrow> gotime \<Rightarrow> PubStore \<Rightarrow> PubError option \<times> PubStore" where
  "ResetFollowup i nextCheckAt now st =
     (if i = [] \<or> IsZero nextCheckAt then (Some ErrIncomplete, st)
      else
        let fresh = zero_PublicationFollowup\<lparr>fol_IncidentID := i, fol_PRState := ''open'',
              fol_ChecksState := ''unknown'', fol_NextCheckAt := nextCheckAt,
              fol_CreatedAt := now, fol_UpdatedAt := now\<rparr>
        in case ps_followups st i of
          Some f \<Rightarrow>
            if TerminalFollowup f then (None, st)
            else (None, st\<lparr>ps_followups := (ps_followups st)
              (i \<mapsto> fresh\<lparr>fol_CreatedAt := fol_CreatedAt f\<rparr>)\<rparr>)
        | None \<Rightarrow>
            if ps_pubs st i = None then (Some ErrConflict, st)
            else (None, st\<lparr>ps_followups := (ps_followups st)(i \<mapsto> fresh)\<rparr>))"

text \<open>The columns the compare-and-set of \<open>saveTransition\<close> matches.\<close>

definition cas_columns :: "PublicationFollowup \<Rightarrow>
    (gotime \<times> string \<times> string \<times> int \<times> int \<times> int) \<times> string \<times> string \<times> string \<times> string \<times> int \<times> gotime" where
  "cas_columns f =
     ((fol_UpdatedAt f, fol_PRState f, fol_ChecksState f, fol_ChecksTotal f, fol_ChecksPassed f,
       fol_ChecksFailed f), fol_ChecksURL f, fol_MergeSHA f, fol_LastError f, fol_LastEventKey f,
      fol_FailureCount f, fol_NextCheckAt f)"

definition shown_columns :: "PublicationFollowup \<Rightarrow>
    string \<times> string \<times> int \<times> int \<times> int \<times> string \<times> string \<times> string" where
  "shown_columns f =
     (fol_PRState f, fol_ChecksState f, fol_ChecksTotal f, fol_ChecksPassed f, fol_ChecksFailed f,
      fol_ChecksURL f, fol_MergeSHA f, fol_LastError f)"

text \<open>A merged or closed pull request settles the published record; its row must be there.\<close>

definition settle_publication :: "PublicationFollowup \<Rightarrow> gotime \<Rightarrow> PubStore \<Rightarrow> PubStore option" where
  "settle_publication item now st =
     (if \<not> TerminalFollowup item then Some st
      else case ps_pubs st (fol_IncidentID item) of
        None \<Rightarrow> None
      | Some p \<Rightarrow>
          if 0 < pub_PRNumber p \<and> \<not> IsZero (pub_PublishedAt p)
          then Some (set_pub (fol_IncidentID item) (p\<lparr>pub_State := PublicationPublished,
                 pub_FailureCode := [], pub_LastError := [], pub_UpdatedAt := now\<rparr>) st)
          else None)"

text \<open>
  The insert of the lifecycle event, ignored when its id is on file: the flag tells which.  The
  change-ledger row that a fresh event also inserts is in a table of another component.
\<close>

definition insert_event ::
    "PublicationLifecycleEvent option \<Rightarrow> gotime \<Rightarrow> PubStore \<Rightarrow> bool \<times> PubStore" where
  "insert_event event now st =
     (case event of
        None \<Rightarrow> (False, st)
      | Some e \<Rightarrow>
          if list_ex (\<lambda>x. ple_ID x = ple_ID e) (ps_events st) then (False, st)
          else (True, st\<lparr>ps_events := ps_events st @ [e\<lparr>ple_CreatedAt :=
                  (if IsZero (ple_CreatedAt e) then now else ple_CreatedAt e)\<rparr>]\<rparr>))"

definition saveTransition ::
    "PublicationFollowup option \<Rightarrow> PublicationFollowup \<Rightarrow> PublicationLifecycleEvent option \<Rightarrow> gotime
     \<Rightarrow> PubStore \<Rightarrow> (PubError + bool) \<times> PubStore" where
  "saveTransition expected item event now st =
     (let i = fol_IncidentID item in
      if i = [] \<or> fol_PRState item = [] \<or> fol_ChecksState item = [] \<or> IsZero (fol_NextCheckAt item)
      then (Inl ErrIncomplete, st)
      else if (case event of None \<Rightarrow> False
               | Some e \<Rightarrow> ple_ID e = [] \<or> ple_IncidentID e \<noteq> i \<or> ple_Kind e = []
                   \<or> ple_State e = [] \<or> ple_Summary e = [])
      then (Inl ErrIncomplete, st)
      else case ps_followups st i of
        None \<Rightarrow> (Inl ErrNotFound, st)
      | Some previous \<Rightarrow>
          if TerminalFollowup previous \<and> fol_PRState item \<noteq> fol_PRState previous then (Inr False, st)
          else
            let expected = (case expected of None \<Rightarrow> previous | Some e \<Rightarrow> e) in
            if cas_columns previous \<noteq> cas_columns expected
              \<or> TerminalFollowup previous \<and> fol_PRState previous \<noteq> fol_PRState item
            then (Inl ErrConflict, st)
            else
              (case settle_publication item now (st\<lparr>ps_followups := (ps_followups st)
                 (i \<mapsto> item\<lparr>fol_CreatedAt := fol_CreatedAt previous, fol_UpdatedAt := now\<rparr>)\<rparr>) of
                None \<Rightarrow> (Inl ErrConflict, st)
              | Some st2 \<Rightarrow>
                  let (inserted, st3) = insert_event event now st2 in
                  if shown_columns previous \<noteq> shown_columns item \<or> inserted
                  then (case touch_incident i now st3 of
                          None \<Rightarrow> (Inl ErrConflict, st)
                        | Some st4 \<Rightarrow> (Inr inserted, st4))
                  else (Inr inserted, st3)))"

end
