(* ===== verification/PublicationSafety.thy ===== *)
theory PublicationSafety
  imports PublicationStore GoBase
begin

text \<open>
  What the publication store guarantees over any sequence of its transactions: a task that is
  closing has no publication under way, a pull request the forge reported merged or closed
  settles its record for good, and an attempt writes only the record it holds.
\<close>

section \<open>The store as a machine\<close>

datatype PubOp =
    OpSave Publication gotime
  | OpRecordFailure string string string string gotime
  | OpMarkStale string string gotime
  | OpBeginPublishing Publication gotime
  | OpBeginClose string gotime
  | OpRestoreClose string string gotime
  | OpBeginReview string string string string string "PullRequestTarget option" int gotime
  | OpEnsure string gotime gotime
  | OpReset string gotime gotime
  | OpTransition "PublicationFollowup option" PublicationFollowup "PublicationLifecycleEvent option" gotime

text \<open>
  The callers of \<open>Save\<close> write a record in progress only after they claimed it: with the attempt
  \<open>BeginReview\<close> recorded, and never with the session-binding failure, which they save as failed.
\<close>

definition claimed_save :: "PubStore \<Rightarrow> Publication \<Rightarrow> bool" where
  "claimed_save st item \<longleftrightarrow> \<not> InProgress item
     \<or> ps_pubs st (pub_IncidentID item) \<noteq> None \<and> pub_AttemptInputID item \<noteq> []
       \<and> pub_FailureCode item \<noteq> PublicationFailureSessionBinding"

fun pub_exec :: "(gotime \<Rightarrow> gotime \<Rightarrow> bool) \<Rightarrow> PubStore \<Rightarrow> PubOp \<Rightarrow> PubStore" where
  "pub_exec le st (OpSave item now) = snd (Save item now st)"
| "pub_exec le st (OpRecordFailure i a s e now) = snd (RecordFailure i a s e now st)"
| "pub_exec le st (OpMarkStale i r now) = snd (MarkStale i r now st)"
| "pub_exec le st (OpBeginPublishing item now) = snd (BeginPublishing item now st)"
| "pub_exec le st (OpBeginClose i now) = snd (BeginClose i now st)"
| "pub_exec le st (OpRestoreClose i p now) = snd (RestoreClose i p now st)"
| "pub_exec le st (OpBeginReview a s i r b t g now) = snd (BeginReview le a s i r b t g now st)"
| "pub_exec le st (OpEnsure i n now) = snd (EnsureFollowup i n now st)"
| "pub_exec le st (OpReset i n now) = snd (ResetFollowup i n now st)"
| "pub_exec le st (OpTransition x f e now) = snd (saveTransition x f e now st)"

fun op_admitted :: "PubStore \<Rightarrow> PubOp \<Rightarrow> bool" where
  "op_admitted st (OpSave item now) = claimed_save st item"
| "op_admitted st op = True"

definition pub_step :: "(gotime \<Rightarrow> gotime \<Rightarrow> bool) \<Rightarrow> PubStore \<Rightarrow> PubOp \<Rightarrow> unit + PubStore" where
  "pub_step le st op = (if op_admitted st op then Inr (pub_exec le st op) else Inl ())"

definition closing :: "PubStore \<Rightarrow> string \<Rightarrow> bool" where
  "closing st i \<longleftrightarrow> (case ps_incidents st i of None \<Rightarrow> False
     | Some inc \<Rightarrow> inc_Status inc \<noteq> IncidentClosed \<and> inc_Workflow inc = WorkflowClosing)"

definition settled :: "PubStore \<Rightarrow> string \<Rightarrow> bool" where
  "settled st i \<longleftrightarrow> (case ps_pubs st i of None \<Rightarrow> False
     | Some p \<Rightarrow> pub_State p = PublicationPublished)"

text \<open>Rows are stored under their incident.\<close>

definition keyed :: "PubStore \<Rightarrow> bool" where
  "keyed st \<longleftrightarrow> (\<forall>i p. ps_pubs st i = Some p \<longrightarrow> pub_IncidentID p = i)"

definition pub_inv :: "PubStore \<Rightarrow> bool" where
  "pub_inv st \<longleftrightarrow> keyed st
     \<and> (\<forall>i. (closing st i \<longrightarrow> \<not> active_publication st i) \<and> (terminal_pr st i \<longrightarrow> settled st i))"

section \<open>What the shared steps change\<close>

lemma touch_incident_frame:
  assumes "touch_incident i now st = Some st'"
  shows "ps_pubs st' = ps_pubs st" "ps_followups st' = ps_followups st" "ps_inputs st' = ps_inputs st"
    "ps_events st' = ps_events st" "closing st' = closing st" "active_publication st' = active_publication st"
    "terminal_pr st' = terminal_pr st" "settled st' = settled st"
  using assms
  by (auto simp: touch_incident_def closing_def active_publication_def terminal_pr_def settled_def
      fun_eq_iff split: option.splits if_splits)

lemma bind_input_frame:
  assumes "bind_input s i st = Some st'"
  shows "ps_pubs st' = ps_pubs st" "ps_followups st' = ps_followups st"
    "ps_incidents st' = ps_incidents st" "ps_events st' = ps_events st"
  using assms by (auto simp: bind_input_def Let_def split: option.splits if_splits)

lemma bind_input_views:
  assumes "bind_input s i st = Some st'"
  shows "closing st' = closing st" "active_publication st' = active_publication st"
    "terminal_pr st' = terminal_pr st" "settled st' = settled st"
  using bind_input_frame [OF assms]
  by (auto simp: closing_def active_publication_def terminal_pr_def settled_def fun_eq_iff)

lemma set_pub_views [simp]:
  "closing (set_pub i p st) = closing st"
  "terminal_pr (set_pub i p st) = terminal_pr st"
  "active_publication (set_pub i p st) j = (if j = i then InProgress p else active_publication st j)"
  "settled (set_pub i p st) j = (if j = i then pub_State p = PublicationPublished else settled st j)"
  "ps_pubs (set_pub i p st) = (ps_pubs st)(i \<mapsto> p)"
  "ps_followups (set_pub i p st) = ps_followups st"
  "ps_incidents (set_pub i p st) = ps_incidents st"
  by (auto simp: set_pub_def closing_def terminal_pr_def active_publication_def settled_def fun_eq_iff)

text \<open>A row may be written when it keeps the incident out of progress, or was not closing.\<close>

lemma pub_inv_set_pub:
  assumes "pub_inv st" and "pub_IncidentID p = i"
    and "InProgress p \<Longrightarrow> active_publication st i \<or> \<not> closing st i"
    and "pub_State p \<noteq> PublicationPublished \<Longrightarrow> \<not> terminal_pr st i"
  shows "pub_inv (set_pub i p st)"
  using assms by (auto simp: pub_inv_def keyed_def)

lemma pub_inv_touch: "pub_inv st \<Longrightarrow> touch_incident i now st = Some st' \<Longrightarrow> pub_inv st'"
  using touch_incident_frame [of i now st st'] by (simp add: pub_inv_def keyed_def)

section \<open>Each operation keeps the invariant\<close>

lemma inserted_row_key:
  "pub_State (inserted_row item now) = pub_State item"
  "pub_IncidentID (inserted_row item now) = pub_IncidentID item"
  by (simp_all add: inserted_row_def)

lemma Save_outcome:
  obtains (unchanged) "snd (Save item now st) = st" "fst (Save item now st) \<noteq> None"
  | (written) p where
      "fst (Save item now st) = None" "ValidatePublication item = None" "pub_State p = pub_State item"
      "touch_incident (pub_IncidentID item) now (set_pub (pub_IncidentID item) p st)
         = Some (snd (Save item now st))"
      "ps_pubs st (pub_IncidentID item) = None \<and> pub_IncidentID p = pub_IncidentID item
       \<or> (\<exists>old. ps_pubs st (pub_IncidentID item) = Some old \<and> p = saved_row old item now
             \<and> pub_AttemptInputID old = pub_AttemptInputID item
             \<and> \<not> terminal_pr st (pub_IncidentID item) \<and> save_allowed old item)"
proof (cases "fst (Save item now st)")
  case None
  note h = this [unfolded Save_def Let_def]
  from h have v: "ValidatePublication item = None" by (simp split: option.splits)
  show thesis
  proof (cases "ps_pubs st (pub_IncidentID item)")
    case None
    with h v show thesis
      by (intro written [of "inserted_row item now"])
        (simp_all add: Save_def Let_def inserted_row_key split: option.splits)
  next
    case (Some old)
    with h v have ok: "pub_AttemptInputID old = pub_AttemptInputID item"
        "\<not> terminal_pr st (pub_IncidentID item)" "save_allowed old item"
      by (simp_all split: if_splits)
    with h v Some show thesis
      by (intro written [of "saved_row old item now"])
        (auto simp: Save_def Let_def saved_row_def split: option.splits)
  qed
next
  case (Some e)
  then have "snd (Save item now st) = st"
    by (auto simp: Save_def Let_def split: option.splits if_splits)
  with Some show thesis by (intro unchanged) auto
qed

lemma save_allowed_progress:
  "save_allowed old item \<Longrightarrow> InProgress item \<Longrightarrow> pub_AttemptInputID old \<noteq> []
   \<Longrightarrow> pub_FailureCode item \<noteq> PublicationFailureSessionBinding \<Longrightarrow> InProgress old"
  by (auto simp: save_allowed_def InProgress_def)

lemma active_publicationI:
  "ps_pubs st i = Some p \<Longrightarrow> InProgress p \<Longrightarrow> active_publication st i"
  by (simp add: active_publication_def)

lemma terminal_pr_settled: "pub_inv st \<Longrightarrow> terminal_pr st i \<Longrightarrow> settled st i"
  by (simp add: pub_inv_def)

lemma pub_inv_Save:
  assumes inv: "pub_inv st" and claimed: "claimed_save st item"
  shows "pub_inv (snd (Save item now st))"
proof (cases rule: Save_outcome [of item now st])
  case unchanged
  with inv show ?thesis by simp
next
  case (written p)
  let ?i = "pub_IncidentID item"
  have "pub_inv (set_pub ?i p st)"
  proof (rule pub_inv_set_pub [OF inv])
    show "pub_IncidentID p = ?i"
      using inv written(5) by (auto simp: pub_inv_def keyed_def saved_row_def)
  next
    assume "InProgress p"
    then have prog: "InProgress item" by (simp add: InProgress_def written(3))
    with claimed written(5) obtain old where old: "ps_pubs st ?i = Some old" "save_allowed old item"
        "pub_AttemptInputID old = pub_AttemptInputID item"
      by (auto simp: claimed_save_def)
    with claimed prog have "InProgress old"
      by (intro save_allowed_progress [of old item]) (auto simp: claimed_save_def)
    with old show "active_publication st ?i \<or> \<not> closing st ?i"
      by (auto intro: active_publicationI)
  next
    show "\<not> terminal_pr st ?i"
      using written(5) terminal_pr_settled [OF inv, of ?i] by (auto simp: settled_def)
  qed
  with written(4) show ?thesis by (auto dest: pub_inv_touch)
qed

lemma pub_inv_RecordFailure:
  assumes inv: "pub_inv st"
  shows "pub_inv (snd (RecordFailure i attempt state e now st))"
proof (cases "snd (RecordFailure i attempt state e now st) = st")
  case False
  then obtain r where r: "ps_pubs st i = Some r" "InProgress r"
    and run: "snd (RecordFailure i attempt state e now st)
      = snd (Save (r\<lparr>pub_State := state, pub_FailureCode := [], pub_LastError := e\<rparr>) now st)"
    by (auto simp: RecordFailure_def split: if_splits option.splits)
  show ?thesis
  proof (cases rule: Save_outcome [of "r\<lparr>pub_State := state, pub_FailureCode := [], pub_LastError := e\<rparr>" now st])
    case unchanged
    with inv run show ?thesis by simp
  next
    case (written p)
    have key: "pub_IncidentID r = i" using inv r(1) by (simp add: pub_inv_def keyed_def)
    have "pub_inv (set_pub i p st)"
    proof (rule pub_inv_set_pub [OF inv])
      show "pub_IncidentID p = i" using written(5) r key by (auto simp: saved_row_def)
    next
      show "\<not> terminal_pr st i" using written(5) r key by auto
    next
      show "active_publication st i \<or> \<not> closing st i" using r by (auto intro: active_publicationI)
    qed
    with written(4) run key show ?thesis by (auto dest: pub_inv_touch)
  qed
qed (use inv in simp)

lemma pub_inv_MarkStale:
  assumes inv: "pub_inv st"
  shows "pub_inv (snd (MarkStale i reason now st))"
proof (cases "snd (MarkStale i reason now st) = st")
  case False
  then obtain p where p: "ps_pubs st i = Some p" "\<not> terminal_pr st i"
    and t: "touch_incident i now (set_pub i
          (p\<lparr>pub_State := PublicationStale, pub_LastError := reason, pub_UpdatedAt := now\<rparr>) st)
      = Some (snd (MarkStale i reason now st))"
    by (auto simp: MarkStale_def split: if_splits option.splits)
  have "pub_inv (set_pub i
          (p\<lparr>pub_State := PublicationStale, pub_LastError := reason, pub_UpdatedAt := now\<rparr>) st)"
    using inv p by (intro pub_inv_set_pub) (auto simp: InProgress_def pub_inv_def keyed_def)
  with t show ?thesis by (auto dest: pub_inv_touch)
qed (use inv in simp)

lemma BeginPublishing_outcome:
  obtains (unchanged) "snd (BeginPublishing item now st) = st"
  | (written) p q where
      "ps_pubs st (pub_IncidentID item) = Some p" "pub_AttemptInputID p = pub_AttemptInputID item"
      "pub_IncidentID q = pub_IncidentID p"
      "pub_State p = PublicationReviewing \<and> \<not> terminal_pr st (pub_IncidentID item)
       \<or> pub_State q = PublicationPublished"
      "touch_incident (pub_IncidentID item) now (set_pub (pub_IncidentID item) q st)
         = Some (snd (BeginPublishing item now st))"
proof (cases "snd (BeginPublishing item now st) = st")
  case True
  then show thesis by (rule unchanged)
next
  case False
  let ?i = "pub_IncidentID item"
  note h = False [unfolded BeginPublishing_def Let_def]
  from h have s: "pub_State item = PublicationPublishing" and v: "ValidatePublication item = None"
    by (auto split: if_splits option.splits)
  from h s v obtain p where p: "ps_pubs st ?i = Some p"
    by (cases "ps_pubs st ?i") (auto split: if_splits)
  show thesis
  proof (cases "pub_AttemptInputID p = pub_AttemptInputID item
      \<and> pub_State p = PublicationReviewing \<and> \<not> terminal_pr st ?i")
    case True
    let ?q = "p\<lparr>pub_State := PublicationPublishing, pub_FailureCode := [], pub_LastError := [],
      pub_UpdatedAt := now\<rparr>"
    from h s v p True obtain st' where "touch_incident ?i now (set_pub ?i ?q st) = Some st'"
      by (auto split: option.splits)
    with s v p True show thesis
      by (intro written [of p ?q]) (simp_all add: BeginPublishing_def Let_def)
  next
    case other: False
    let ?q = "p\<lparr>pub_State := PublicationPublished, pub_FailureCode := [], pub_LastError := [],
      pub_UpdatedAt := now\<rparr>"
    let ?c = "pub_AttemptInputID p = pub_AttemptInputID item \<and> pub_State p \<noteq> PublicationPublished
      \<and> 0 < pub_PRNumber p \<and> \<not> IsZero (pub_PublishedAt p)"
    from h s v p other have t: "terminal_pr st ?i" by (simp split: if_splits)
    from h s v p other t have c: ?c by (simp only: option.case split: if_splits) auto
    from h s v p other t c obtain st' where st': "touch_incident ?i now (set_pub ?i ?q st) = Some st'"
      by (simp split: option.splits if_splits)
    from h s v p other t c have "Published ?q" by (simp split: if_splits)
    with st' s v p other t c show thesis
      by (intro written [of p ?q]) (simp_all add: BeginPublishing_def Let_def)
  qed
qed

lemma pub_inv_BeginPublishing:
  assumes inv: "pub_inv st"
  shows "pub_inv (snd (BeginPublishing item now st))"
proof (cases rule: BeginPublishing_outcome [of item now st])
  case (written p q)
  let ?i = "pub_IncidentID item"
  have "pub_inv (set_pub ?i q st)"
  proof (rule pub_inv_set_pub [OF inv])
    show "pub_IncidentID q = ?i" using inv written(1,3) by (simp add: pub_inv_def keyed_def)
  next
    assume "InProgress q"
    then have "pub_State p = PublicationReviewing" using written(4) by (auto simp: InProgress_def)
    with written(1) show "active_publication st ?i \<or> \<not> closing st ?i"
      by (auto simp: active_publication_def InProgress_def)
  next
    assume "pub_State q \<noteq> PublicationPublished"
    with written(4) show "\<not> terminal_pr st ?i" by simp
  qed
  with written(5) show ?thesis by (auto dest: pub_inv_touch)
qed (use inv in simp)

lemma pub_inv_incidents:
  "pub_inv st \<Longrightarrow> (\<And>j. closing (st\<lparr>ps_incidents := m\<rparr>) j \<Longrightarrow> closing st j \<or> \<not> active_publication st j)
   \<Longrightarrow> pub_inv (st\<lparr>ps_incidents := m\<rparr>)"
  by (auto simp: pub_inv_def keyed_def active_publication_def terminal_pr_def settled_def)

lemma pub_inv_BeginClose:
  assumes "pub_inv st" shows "pub_inv (snd (BeginClose i now st))"
  using assms
  by (auto simp: BeginClose_def closing_def split: option.splits if_splits intro!: pub_inv_incidents)

lemma pub_inv_RestoreClose:
  assumes "pub_inv st" shows "pub_inv (snd (RestoreClose i previous now st))"
  using assms
  by (auto simp: RestoreClose_def Let_def closing_def split: option.splits if_splits
      intro!: pub_inv_incidents)

lemma claim_item_fields [simp]:
  "pub_IncidentID (claim_item a i r b t) = i" "pub_Repository (claim_item a i r b t) = r"
  "pub_BaseBranch (claim_item a i r b t) = b" "pub_AttemptInputID (claim_item a i r b t) = a"
  "pub_State (claim_item a i r b t) = PublicationReviewing"
  by (auto simp: claim_item_def Let_def split: option.splits)

lemma refuse_claim_outcome:
  obtains (unchanged) "snd (refuse_claim st current item bound s expected now) = st"
  | (failed) q where
      "pub_IncidentID q = pub_IncidentID current" "pub_State q = PublicationFailed"
      "pub_AttemptInputID current = [] \<or> pub_AttemptInputID current = pub_AttemptInputID item"
      "(let f = set_pub (pub_IncidentID item) q st in
        snd (refuse_claim st current item bound s expected now) = f
        \<or> touch_incident (pub_IncidentID item) now f
           = Some (snd (refuse_claim st current item bound s expected now)))"
proof (cases "(HasPR current \<or> pub_RemoteSHA current \<noteq> []) \<and> \<not> same_binding current item
    \<and> pub_State current = PublicationRetrying
    \<and> (pub_AttemptInputID current = [] \<or> pub_AttemptInputID current = pub_AttemptInputID item)")
  case True
  show thesis
    by (rule failed [of "current\<lparr>pub_State := PublicationFailed,
                    pub_LastError := ''The configured GitHub repository or base branch changed after this PR was created.'',
                    pub_UpdatedAt := now\<rparr>"])
      (use True in \<open>simp_all add: refuse_claim_def Let_def split: option.splits\<close>)
next
  case False
  then have "snd (refuse_claim st current item bound s expected now) = st"
    unfolding refuse_claim_def Let_def by (simp del: de_Morgan_conj split: option.split) blast
  then show thesis by (rule unchanged)
qed

lemma BeginReview_outcome:
  obtains (refused) e where "BeginReview le a s i r b t g now st = (Inl e, st)"
  | (failed) e old where
      "BeginReview le a s i r b t g now st
         = (Inl e, snd (refuse_claim st old (claim_item a i r b t) (t \<noteq> None) s g now))"
      "ps_pubs st i = Some old" "\<not> terminal_pr st i"
      "\<not> claimable le st s g old (claim_item a i r b t)"
  | (claimed) p bound st' where
      "BeginReview le a s i r b t g now st = (Inr p, st')"
      "ValidatePublication (claim_item a i r b t) = None" "\<not> terminal_pr st i"
      "\<exists>inc. ps_incidents st i = Some inc \<and> inc_Status inc \<noteq> IncidentClosed
         \<and> inc_Workflow inc \<noteq> WorkflowClosing"
      "ps_pubs st i = None \<and> p = new_claim (claim_item a i r b t) (incident_episode st i) now
       \<or> (\<exists>old. ps_pubs st i = Some old \<and> claimable le st s g old (claim_item a i r b t)
            \<and> p = reclaim old (claim_item a i r b t) (incident_episode st i) now)"
      "bind_input s i (set_pub i p st) = Some bound" "touch_incident i now bound = Some st'"
proof (cases "fst (BeginReview le a s i r b t g now st)")
  case (Inr p)
  let ?item = "claim_item a i r b t"
  note h = Inr [unfolded BeginReview_def Let_def claim_item_fields]
  from h have v: "ValidatePublication ?item = None" by (simp split: if_splits option.splits)
  from h v have nt: "\<not> terminal_pr st i" by (simp split: if_splits)
  from h v nt obtain inc where inc: "ps_incidents st i = Some inc" "inc_Status inc \<noteq> IncidentClosed"
      "inc_Workflow inc \<noteq> WorkflowClosing" by (simp split: if_splits option.splits)
  from h v nt inc have tgt: "\<not> (case t of None \<Rightarrow> False | Some t \<Rightarrow> \<not> ValidTarget t)"
      "\<not> (case t of None \<Rightarrow> False | Some t \<Rightarrow> prt_Repository t \<noteq> r \<or> prt_BaseBranch t \<noteq> b)"
    by (simp_all only: split: if_splits) auto
  show thesis
  proof (cases "ps_pubs st i")
    case None
    from h v nt inc tgt None obtain bound st' where *:
        "bind_input s i (set_pub i p st) = Some bound" "touch_incident i now bound = Some st'"
        "p = new_claim ?item (incident_episode st i) now"
      by (simp split: option.splits)
    then have "BeginReview le a s i r b t g now st = (Inr p, st')"
      using v nt inc tgt None by (simp add: BeginReview_def Let_def)
    with * v nt inc None show thesis by (intro claimed) auto
  next
    case (Some old)
    from h v nt inc tgt Some have c: "claimable le st s g old ?item"
      by (simp split: if_splits prod.splits)
    from h v nt inc tgt Some c obtain bound st' where *:
        "bind_input s i (set_pub i p st) = Some bound" "touch_incident i now bound = Some st'"
        "p = reclaim old ?item (incident_episode st i) now"
      by (simp split: option.splits)
    then have "BeginReview le a s i r b t g now st = (Inr p, st')"
      using v nt inc tgt Some c by (simp add: BeginReview_def Let_def)
    with * v nt inc Some c show thesis by (intro claimed) auto
  qed
next
  case (Inl e)
  let ?item = "claim_item a i r b t"
  show thesis
  proof (cases "BeginReview le a s i r b t g now st = (Inl e, st)")
    case False
    note h = False [unfolded BeginReview_def Let_def claim_item_fields]
    note l = Inl [unfolded BeginReview_def Let_def claim_item_fields]
    from l h have v: "ValidatePublication ?item = None" by (simp split: if_splits option.splits)
    from l h v have nt: "\<not> terminal_pr st i" by (simp split: if_splits)
    from l h v nt have inc: "case ps_incidents st i of
                 None \<Rightarrow> False
               | Some inc \<Rightarrow> inc_Status inc \<noteq> IncidentClosed \<and> inc_Workflow inc \<noteq> WorkflowClosing"
      by (simp split: if_splits option.splits)
    from l h v nt inc have tgt: "\<not> (case t of None \<Rightarrow> False | Some t \<Rightarrow> \<not> ValidTarget t)"
      "\<not> (case t of None \<Rightarrow> False | Some t \<Rightarrow> prt_Repository t \<noteq> r \<or> prt_BaseBranch t \<noteq> b)"
      by (simp_all only: split: if_splits) auto
    obtain old where old: "ps_pubs st i = Some old"
      using l h v nt inc tgt by (cases "ps_pubs st i") (auto split: option.splits)
    have c: "\<not> claimable le st s g old ?item"
      using l h v nt inc tgt old by (auto split: option.splits)
    show thesis
      by (rule failed [of e old])
        (use l v nt inc tgt old c in \<open>simp_all add: BeginReview_def Let_def split: prod.splits\<close>)
  qed (rule refused)
qed

lemma new_or_reclaimed [simp]:
  "pub_IncidentID (new_claim item e now) = pub_IncidentID item"
  "pub_State (new_claim item e now) = PublicationReviewing"
  "pub_IncidentID (reclaim old item e now) = pub_IncidentID old"
  "pub_State (reclaim old item e now) = PublicationReviewing"
  by (simp_all add: new_claim_def reclaim_def Let_def)

lemma pub_inv_BeginReview:
  assumes inv: "pub_inv st"
  shows "pub_inv (snd (BeginReview le a s i r b t g now st))"
proof (cases rule: BeginReview_outcome [of le a s i r b t g now st])
  case refused
  with inv show ?thesis by simp
next
  case (failed e old)
  have key: "pub_IncidentID old = i" using inv failed(2) by (simp add: pub_inv_def keyed_def)
  show ?thesis
  proof (cases rule: refuse_claim_outcome [of st old "claim_item a i r b t" "t \<noteq> None" s g now])
    case unchanged
    with inv failed(1) show ?thesis by simp
  next
    case (failed q)
    have "pub_inv (set_pub i q st)"
      using failed(1,2) key \<open>\<not> terminal_pr st i\<close>
      by (intro pub_inv_set_pub [OF inv]) (auto simp: InProgress_def)
    with failed(4) \<open>BeginReview le a s i r b t g now st = _\<close> show ?thesis
      by (auto simp: Let_def dest: pub_inv_touch)
  qed
next
  case (claimed p bound st')
  have p: "pub_IncidentID p = i" "pub_State p = PublicationReviewing"
    using claimed(5) inv by (auto simp: pub_inv_def keyed_def)
  have "\<not> closing st i" using claimed(4) by (auto simp: closing_def)
  then have "pub_inv (set_pub i p st)"
    using p claimed(3) by (intro pub_inv_set_pub [OF inv]) auto
  then have "pub_inv bound"
    using bind_input_frame [OF claimed(6)] bind_input_views [OF claimed(6)]
    by (simp add: pub_inv_def keyed_def)
  with claimed(1,7) show ?thesis by (auto dest: pub_inv_touch)
qed

lemma pub_inv_followups:
  "pub_inv st \<Longrightarrow> (\<And>j. terminal_pr (st\<lparr>ps_followups := m\<rparr>) j \<Longrightarrow> terminal_pr st j)
   \<Longrightarrow> pub_inv (st\<lparr>ps_followups := m\<rparr>)"
  by (auto simp: pub_inv_def keyed_def active_publication_def closing_def settled_def)

lemma pub_inv_EnsureFollowup:
  "pub_inv st \<Longrightarrow> pub_inv (snd (EnsureFollowup i next now st))"
  by (auto simp: EnsureFollowup_def terminal_pr_def TerminalFollowup_def zero_defs
      split: option.splits if_splits intro!: pub_inv_followups)

lemma pub_inv_ResetFollowup:
  "pub_inv st \<Longrightarrow> pub_inv (snd (ResetFollowup i next now st))"
  by (auto simp: ResetFollowup_def Let_def terminal_pr_def TerminalFollowup_def zero_defs
      split: option.splits if_splits intro!: pub_inv_followups)

lemma insert_event_frame:
  assumes "insert_event event now st = (ins, st')"
  shows "ps_pubs st' = ps_pubs st" "ps_followups st' = ps_followups st" "ps_incidents st' = ps_incidents st"
  using assms by (auto simp: insert_event_def split: option.splits if_splits)

lemma settle_publication_frame:
  assumes "settle_publication item now st = Some st'"
  shows "ps_followups st' = ps_followups st" "ps_incidents st' = ps_incidents st"
    "\<not> TerminalFollowup item \<and> ps_pubs st' = ps_pubs st
       \<or> TerminalFollowup item \<and> (\<exists>p q. ps_pubs st (fol_IncidentID item) = Some p
          \<and> pub_IncidentID q = pub_IncidentID p \<and> pub_State q = PublicationPublished
          \<and> ps_pubs st' = (ps_pubs st)(fol_IncidentID item \<mapsto> q))"
  using assms
  by (auto simp: settle_publication_def split: option.splits if_splits
      intro!: exI [of _ "(the (ps_pubs st (fol_IncidentID item)))\<lparr>pub_State := PublicationPublished,
        pub_FailureCode := [], pub_LastError := [], pub_UpdatedAt := now\<rparr>"])

lemma saveTransition_outcome:
  obtains (refused) "snd (saveTransition x item event now st) = st"
  | (written) previous st2 r where
      "ps_followups st (fol_IncidentID item) = Some previous"
      "\<not> (TerminalFollowup previous \<and> fol_PRState item \<noteq> fol_PRState previous)"
      "fol_PRState r = fol_PRState item"
      "ps_followups st2 = (ps_followups st)(fol_IncidentID item \<mapsto> r)"
      "ps_incidents st2 = ps_incidents st"
      "\<not> TerminalFollowup item \<and> ps_pubs st2 = ps_pubs st
       \<or> TerminalFollowup item \<and> (\<exists>p q. ps_pubs st (fol_IncidentID item) = Some p
          \<and> pub_IncidentID q = pub_IncidentID p \<and> pub_State q = PublicationPublished
          \<and> ps_pubs st2 = (ps_pubs st)(fol_IncidentID item \<mapsto> q))"
      "snd (saveTransition x item event now st) = st2
       \<or> touch_incident (fol_IncidentID item) now st2 = Some (snd (saveTransition x item event now st))"
proof (cases "snd (saveTransition x item event now st) = st")
  case False
  let ?i = "fol_IncidentID item"
  note h = False [unfolded saveTransition_def Let_def]
  from h have g1: "\<not> (?i = [] \<or> fol_PRState item = [] \<or> fol_ChecksState item = []
      \<or> IsZero (fol_NextCheckAt item))" by (simp only: split: if_splits) auto
  note h = h [unfolded if_not_P [OF g1]]
  from h have g2: "\<not> (case event of None \<Rightarrow> False
               | Some e \<Rightarrow> ple_ID e = [] \<or> ple_IncidentID e \<noteq> ?i \<or> ple_Kind e = []
                   \<or> ple_State e = [] \<or> ple_Summary e = [])"
    by (simp only: split: if_splits) auto
  note h = h [unfolded if_not_P [OF g2]]
  from h obtain previous where prev: "ps_followups st ?i = Some previous"
    by (cases "ps_followups st ?i") auto
  note h = h [unfolded prev option.case]
  from h have t: "\<not> (TerminalFollowup previous \<and> fol_PRState item \<noteq> fol_PRState previous)"
    by (simp only: split: if_splits) auto
  note h = h [unfolded if_not_P [OF t]]
  let ?x = "case x of None \<Rightarrow> previous | Some e \<Rightarrow> e"
  from h have c: "\<not> (cas_columns previous \<noteq> cas_columns ?x
              \<or> TerminalFollowup previous \<and> fol_PRState previous \<noteq> fol_PRState item)"
    by (simp only: split: if_splits) auto
  note h = h [unfolded if_not_P [OF c]]
  let ?r = "item\<lparr>fol_CreatedAt := fol_CreatedAt previous, fol_UpdatedAt := now\<rparr>"
  let ?st1 = "st\<lparr>ps_followups := (ps_followups st)(?i \<mapsto> ?r)\<rparr>"
  from h obtain st2 where st2: "settle_publication item now ?st1 = Some st2"
    by (cases "settle_publication item now ?st1") auto
  note h = h [unfolded st2 option.case]
  obtain ins st3 where ev: "insert_event event now st2 = (ins, st3)" by force
  have run: "saveTransition x item event now st =
      (if shown_columns previous \<noteq> shown_columns item \<or> ins
       then (case touch_incident ?i now st3 of None \<Rightarrow> (Inl ErrConflict, st)
             | Some st4 \<Rightarrow> (Inr ins, st4))
       else (Inr ins, st3))"
    unfolding saveTransition_def Let_def if_not_P [OF g1] if_not_P [OF g2] prev option.case
      if_not_P [OF t] if_not_P [OF c] st2 ev prod.case ..
  from False run have
    "snd (saveTransition x item event now st) = st3
     \<or> touch_incident ?i now st3 = Some (snd (saveTransition x item event now st))"
    by (auto split: if_splits option.splits)
  with prev t insert_event_frame [OF ev] settle_publication_frame [OF st2] show thesis
    by (intro written [of previous ?r st3]) simp_all
qed (rule refused)

lemma terminal_pr_eq:
  "ps_followups st i = Some f \<Longrightarrow> terminal_pr st i = TerminalFollowup f"
  by (simp add: terminal_pr_def)

lemma TerminalFollowup_cong: "fol_PRState f = fol_PRState g \<Longrightarrow> TerminalFollowup f = TerminalFollowup g"
  by (simp add: TerminalFollowup_def)

lemma pub_inv_saveTransition:
  assumes inv: "pub_inv st"
  shows "pub_inv (snd (saveTransition x item event now st))"
proof (cases rule: saveTransition_outcome [of x item event now st])
  case (written previous st2 r)
  let ?i = "fol_IncidentID item"
  have t: "terminal_pr st2 j = (if j = ?i then TerminalFollowup item else terminal_pr st j)" for j
    using written(3,4) TerminalFollowup_cong [of r item] by (simp add: terminal_pr_def)
  have "pub_inv st2"
    using written(6)
  proof (elim disjE conjE exE)
    assume "\<not> TerminalFollowup item" "ps_pubs st2 = ps_pubs st"
    with inv t written(5) show ?thesis
      by (simp add: pub_inv_def keyed_def closing_def active_publication_def settled_def)
  next
    fix p q
    assume "ps_pubs st ?i = Some p" "pub_IncidentID q = pub_IncidentID p"
      "pub_State q = PublicationPublished" "ps_pubs st2 = (ps_pubs st)(?i \<mapsto> q)"
    with inv t written(5) show ?thesis
      by (simp add: pub_inv_def keyed_def closing_def active_publication_def settled_def InProgress_def)
  qed
  with written(7) show ?thesis by (auto dest: pub_inv_touch)
qed (use inv in simp)

lemma pub_step_inv: "pub_inv st \<Longrightarrow> pub_step le st op = Inr t \<Longrightarrow> pub_inv t"
  by (cases op) (auto simp: pub_step_def pub_inv_Save pub_inv_RecordFailure pub_inv_MarkStale
      pub_inv_BeginPublishing pub_inv_BeginClose pub_inv_RestoreClose pub_inv_BeginReview
      pub_inv_EnsureFollowup pub_inv_ResetFollowup pub_inv_saveTransition split: if_splits)

interpretation publication_store: guarded_machine "pub_step le" pub_inv
  by unfold_locales (rule pub_step_inv)

section \<open>Properties\<close>

text \<open>C16. 
  Closing a task and publishing its pull request exclude each other: after any sequence of
  transactions of the store, an incident whose session is being closed has no publication under
  way.  The two claims meet in one place (\<open>BeginClose\<close> and \<open>BeginReview\<close>), whichever comes first.
\<close>

theorem closing_excludes_publication:
  assumes "pub_inv st"
    and "ps_incidents (run_machine (pub_step le) st ops) i = Some inc"
    and "inc_Status inc \<noteq> IncidentClosed" and "inc_Workflow inc = WorkflowClosing"
    and "ps_pubs (run_machine (pub_step le) st ops) i = Some p"
  shows "\<not> InProgress p"
proof -
  from publication_store.run_inv [OF assms(1)]
  have "closing (run_machine (pub_step le) st ops) i \<longrightarrow>
      \<not> active_publication (run_machine (pub_step le) st ops) i"
    by (simp add: pub_inv_def)
  with assms(2-5) show ?thesis by (simp add: closing_def active_publication_def)
qed

text \<open>The followup of an incident whose pull request is terminal is never taken back.\<close>

definition terminal_as :: "PubStore \<Rightarrow> string \<Rightarrow> string \<Rightarrow> bool" where
  "terminal_as st i s \<longleftrightarrow>
     (case ps_followups st i of None \<Rightarrow> False | Some f \<Rightarrow> TerminalFollowup f \<and> fol_PRState f = s)"

lemma terminal_as_touch: "touch_incident i now st = Some st' \<Longrightarrow> terminal_as st' = terminal_as st"
  using touch_incident_frame(2) [of i now st st'] by (simp add: terminal_as_def fun_eq_iff)

lemma terminal_as_cong: "ps_followups st' = ps_followups st \<Longrightarrow> terminal_as st' = terminal_as st"
  by (simp add: terminal_as_def fun_eq_iff)

lemma followups_refuse:
  "ps_followups (snd (refuse_claim st current item bound s g now)) = ps_followups st"
  by (cases rule: refuse_claim_outcome [of st current item bound s g now])
    (auto simp: Let_def dest: touch_incident_frame(2))

lemma followups_publication_ops:
  "ps_followups (snd (Save item now st)) = ps_followups st"
  "ps_followups (snd (RecordFailure i attempt state e now st)) = ps_followups st"
  "ps_followups (snd (MarkStale i reason now st)) = ps_followups st"
  "ps_followups (snd (BeginPublishing item now st)) = ps_followups st"
  "ps_followups (snd (BeginClose i now st)) = ps_followups st"
  "ps_followups (snd (RestoreClose i previous now st)) = ps_followups st"
  "ps_followups (snd (BeginReview le a s i r b t g now st)) = ps_followups st"
proof -
  show save: "ps_followups (snd (Save item now st)) = ps_followups st" for item
    by (cases rule: Save_outcome [of item now st]) (auto dest: touch_incident_frame(2))
  show "ps_followups (snd (RecordFailure i attempt state e now st)) = ps_followups st"
    by (auto simp: RecordFailure_def save split: option.splits)
  show "ps_followups (snd (MarkStale i reason now st)) = ps_followups st"
    by (auto simp: MarkStale_def split: option.splits dest: touch_incident_frame(2))
  show "ps_followups (snd (BeginPublishing item now st)) = ps_followups st"
    by (cases rule: BeginPublishing_outcome [of item now st]) (auto dest: touch_incident_frame(2))
  show "ps_followups (snd (BeginClose i now st)) = ps_followups st"
    by (auto simp: BeginClose_def split: option.splits)
  show "ps_followups (snd (RestoreClose i previous now st)) = ps_followups st"
    by (auto simp: RestoreClose_def Let_def split: option.splits)
  show "ps_followups (snd (BeginReview le a s i r b t g now st)) = ps_followups st"
  proof (cases rule: BeginReview_outcome [of le a s i r b t g now st])
    case (claimed p bound st')
    then show ?thesis
      using touch_incident_frame(2) [OF claimed(7)] bind_input_frame(2) [OF claimed(6)] by simp
  qed (simp_all add: followups_refuse)
qed

lemma terminal_as_exec:
  assumes "terminal_as st i s"
  shows "terminal_as (pub_exec le st op) i s"
proof (cases op)
  case (OpEnsure j n now)
  with assms show ?thesis
    by (auto simp: EnsureFollowup_def terminal_as_def TerminalFollowup_def split: option.splits)
next
  case (OpReset j n now)
  with assms show ?thesis
    by (auto simp: ResetFollowup_def Let_def terminal_as_def split: option.splits)
next
  case (OpTransition x item e now)
  show ?thesis
  proof (cases rule: saveTransition_outcome [of x item e now st])
    case (written previous st2 r)
    have "terminal_as st2 i s"
      using assms written(1-4) TerminalFollowup_cong [of r previous]
      by (auto simp: terminal_as_def split: option.splits)
    with written(7) OpTransition show ?thesis by (auto simp: terminal_as_touch)
  qed (use assms OpTransition in simp)
qed (use assms in \<open>simp_all add: followups_publication_ops [THEN terminal_as_cong]\<close>)

lemma terminal_as_run:
  "terminal_as st i s \<Longrightarrow> terminal_as (run_machine (pub_step le) st ops) i s"
  by (induction ops arbitrary: st) (auto simp: pub_step_def terminal_as_exec split: sum.splits)

text \<open>C19. 
  A pull request the forge reported merged or closed settles its record for good: whatever the
  store is asked afterwards, the follow-up keeps that state and the record stays published, so no
  claim, late failure, stale mark or publish can take it back.
\<close>

theorem terminal_pull_request_is_settled:
  assumes "pub_inv st"
    and "ps_followups st i = Some f" and "TerminalFollowup f"
  shows "\<exists>p g. ps_pubs (run_machine (pub_step le) st ops) i = Some p
      \<and> pub_State p = PublicationPublished
      \<and> ps_followups (run_machine (pub_step le) st ops) i = Some g
      \<and> fol_PRState g = fol_PRState f"
proof -
  have "terminal_as st i (fol_PRState f)" using assms(2,3) by (simp add: terminal_as_def)
  from terminal_as_run [OF this, of le ops] obtain g
    where g: "ps_followups (run_machine (pub_step le) st ops) i = Some g" "TerminalFollowup g"
      "fol_PRState g = fol_PRState f" by (auto simp: terminal_as_def split: option.splits)
  then have "terminal_pr (run_machine (pub_step le) st ops) i" by (simp add: terminal_pr_def)
  with publication_store.run_inv [OF assms(1)] have "settled (run_machine (pub_step le) st ops) i"
    by (simp add: pub_inv_def)
  with g show ?thesis by (auto simp: settled_def split: option.splits)
qed

text \<open>
  An attempt writes only the record it holds: saving, recording a failure and starting to publish
  under another attempt's name leave the whole store alone, and the first and last say so.
\<close>

theorem other_attempt_changes_nothing:
  assumes "ps_pubs st (pub_IncidentID item) = Some p"
    and "pub_AttemptInputID item \<noteq> pub_AttemptInputID p"
  shows "snd (Save item now st) = st \<and> fst (Save item now st) \<noteq> None
    \<and> snd (BeginPublishing item now st) = st \<and> fst (BeginPublishing item now st) \<noteq> None
    \<and> snd (RecordFailure (pub_IncidentID item) (pub_AttemptInputID item) state e now st) = st
    \<and> (InProgress p \<and> state \<in> {PublicationRetrying, PublicationFailed} \<longrightarrow>
         fst (RecordFailure (pub_IncidentID item) (pub_AttemptInputID item) state e now st)
           = Some ErrAttemptLost)"
proof (intro conjI impI)
  show "snd (Save item now st) = st"
    by (cases rule: Save_outcome [of item now st]) (use assms in \<open>simp_all add: eq_commute\<close>)
  show "fst (Save item now st) \<noteq> None"
    by (cases rule: Save_outcome [of item now st]) (use assms in simp_all)
  show "snd (BeginPublishing item now st) = st"
    by (cases rule: BeginPublishing_outcome [of item now st]) (use assms in simp_all)
  show "fst (BeginPublishing item now st) \<noteq> None"
    using assms by (simp add: BeginPublishing_def Let_def split: option.split)
  show "snd (RecordFailure (pub_IncidentID item) (pub_AttemptInputID item) state e now st) = st"
    using assms by (auto simp: RecordFailure_def)
  show "fst (RecordFailure (pub_IncidentID item) (pub_AttemptInputID item) state e now st)
      = Some ErrAttemptLost"
    if "InProgress p \<and> state \<in> {PublicationRetrying, PublicationFailed}"
    using assms that by (auto simp: RecordFailure_def)
qed

text \<open>
  While an attempt is under way no other attempt can claim the record: the claim is refused and
  nothing changes, so one publication runs at a time.
\<close>

theorem one_attempt_at_a_time:
  assumes "ps_pubs st i = Some p" and "InProgress p"
    and "pub_AttemptInputID p \<noteq> []" and "attempt \<noteq> pub_AttemptInputID p"
  shows "\<exists>e. BeginReview le attempt s i r b t g now st = (Inl e, st)"
proof (cases rule: BeginReview_outcome [of le attempt s i r b t g now st])
  case (failed e old)
  then show ?thesis
    by (cases rule: refuse_claim_outcome [of st old "claim_item attempt i r b t" "t \<noteq> None" s g now])
      (use assms failed in auto)
next
  case (claimed p bound st')
  then show ?thesis using assms by (auto simp: claimable_def)
qed auto

text \<open>
  What a successful claim leaves behind: the attempt's own reviewing record, one generation
  further, with the pull request and the proof of the old one kept exactly when the repository and
  base branch did not change; a record that has a pull request is never rebound.
\<close>

theorem BeginReview_claims:
  assumes "BeginReview le attempt s i r b t g now st = (Inr p, st')"
  shows "ps_pubs st' = (ps_pubs st)(i \<mapsto> p) \<and> ps_followups st' = ps_followups st
    \<and> pub_State p = PublicationReviewing \<and> pub_AttemptInputID p = attempt
    \<and> pub_Repository p = r \<and> pub_BaseBranch p = b \<and> pub_FailureCode p = [] \<and> pub_LastError p = []
    \<and> pub_Generation p = (case ps_pubs st i of None \<Rightarrow> 1 | Some old \<Rightarrow> pub_Generation old + 1)
    \<and> (\<forall>old. ps_pubs st i = Some old \<longrightarrow>
         (if pub_Repository old = r \<and> pub_BaseBranch old = b
          then pub_ParentHead p = pub_ParentHead old \<and> pub_CandidateTree p = pub_CandidateTree old
            \<and> pub_CommitSHA p = pub_CommitSHA old \<and> pub_RemoteSHA p = pub_RemoteSHA old
            \<and> pub_HeadBranch p = pub_HeadBranch old \<and> pub_PublishedAt p = pub_PublishedAt old
            \<and> (HasPR old \<longrightarrow> pub_PRNumber p = pub_PRNumber old \<and> pub_PRURL p = pub_PRURL old)
          else \<not> HasPR old \<and> pub_ParentHead p = [] \<and> pub_CandidateTree p = []
            \<and> pub_CommitSHA p = [] \<and> pub_PublishedAt p = ZeroTime))"
proof (cases rule: BeginReview_outcome [of le attempt s i r b t g now st])
  case (claimed q bound st'')
  with assms have q: "q = p" "st'' = st'" by simp_all
  have frame: "ps_pubs st' = (ps_pubs st)(i \<mapsto> p) \<and> ps_followups st' = ps_followups st"
    using touch_incident_frame(1,2) [OF claimed(7)] bind_input_frame(1,2) [OF claimed(6)] q by simp
  from claimed(5) show ?thesis
  proof (elim disjE conjE exE)
    assume "ps_pubs st i = None" "q = new_claim (claim_item attempt i r b t) (incident_episode st i) now"
    then show ?thesis using frame q by (simp add: new_claim_def)
  next
    fix old
    assume old: "ps_pubs st i = Some old" "claimable le st s g old (claim_item attempt i r b t)"
      and p: "q = reclaim old (claim_item attempt i r b t) (incident_episode st i) now"
    have bound: "pub_Repository old = r \<and> pub_BaseBranch old = b \<or> \<not> HasPR old"
      using old(2) by (auto simp: claimable_def same_binding_def HasPR_def)
    show ?thesis
      by (cases "pub_Repository old = r"; cases "pub_BaseBranch old = b")
        (use bound old(1) p q frame in \<open>simp_all add: reclaim_def Let_def same_binding_def HasPR_def\<close>)
  qed
qed (use assms in auto)

text \<open>
  A record that failed before its first publication but carries an adopted pull request can be
  marked stale, although a stale record must carry a published receipt: the row then fails its own
  validation, and no report that the pull request was merged or closed can be stored.
\<close>

theorem stale_without_receipt:
  assumes "ps_pubs st i = Some p" and "pub_State p = PublicationFailed" and "0 < pub_PRNumber p"
    and "pub_PRURL p \<noteq> []" and "IsZero (pub_PublishedAt p)"
    and "\<not> terminal_pr st i" and "ps_incidents st i \<noteq> None" and "i \<noteq> []" and "reason \<noteq> []"
  shows "\<exists>st' q. MarkStale i reason now st = (Inr True, st') \<and> ps_pubs st' i = Some q
    \<and> pub_State q = PublicationStale \<and> ValidatePublication q \<noteq> None
    \<and> (\<forall>x item event later. fol_IncidentID item = i \<and> TerminalFollowup item \<longrightarrow>
         (\<exists>e. saveTransition x item event later st' = (Inl e, st')))"
proof -
  let ?q = "p\<lparr>pub_State := PublicationStale, pub_LastError := reason, pub_UpdatedAt := now\<rparr>"
  from assms(7) obtain st' where t: "touch_incident i now (set_pub i ?q st) = Some st'"
    by (auto simp: touch_incident_def)
  have mark: "MarkStale i reason now st = (Inr True, st')"
    using assms t by (simp add: MarkStale_def)
  have q: "ps_pubs st' i = Some ?q" and nt: "\<not> terminal_pr st' i"
    using touch_incident_frame [OF t] assms(6) by simp_all
  have invalid: "ValidatePublication ?q \<noteq> None"
    using assms(5) by (simp add: ValidatePublication_def)
  have blocked: "\<exists>e. saveTransition x item event later st' = (Inl e, st')"
    if item: "fol_IncidentID item = i" "TerminalFollowup item" for x item event later
  proof (cases "ps_followups st' i")
    case (Some previous)
    with nt have "\<not> TerminalFollowup previous" by (simp add: terminal_pr_def)
    moreover have "settle_publication item later (st'\<lparr>ps_followups := m\<rparr>) = None" for m
      using item q assms(5) by (simp add: settle_publication_def)
    ultimately show ?thesis using Some item by (simp add: saveTransition_def Let_def)
  qed (use item in \<open>simp add: saveTransition_def Let_def\<close>)
  with mark q invalid show ?thesis by auto
qed

text \<open>
  Two workers that read the same follow-up cannot both store what they saw: once one transition is
  stored, one based on the same reading is refused and changes nothing.
\<close>

theorem stale_observer_refused:
  assumes "saveTransition (Some seen) item event now st = (Inr fresh, st')"
    and "ps_followups st (fol_IncidentID item) = Some previous" and "\<not> TerminalFollowup previous"
    and "now \<noteq> fol_UpdatedAt seen" and "fol_IncidentID other = fol_IncidentID item"
  shows "snd (saveTransition (Some seen) other event' later st') = st'
    \<and> fst (saveTransition (Some seen) other event' later st') \<noteq> Inr True"
proof -
  let ?i = "fol_IncidentID item"
  let ?r = "item\<lparr>fol_CreatedAt := fol_CreatedAt previous, fol_UpdatedAt := now\<rparr>"
  note h = assms(1) [unfolded saveTransition_def Let_def]
  have g: "\<not> (TerminalFollowup previous \<and> P)" for P using assms(3) by simp
  from h obtain st2 where st2: "settle_publication item now
      (st\<lparr>ps_followups := (ps_followups st)(?i \<mapsto> ?r)\<rparr>) = Some st2"
    and run: "(let (ins, st3) = insert_event event now st2 in
       if shown_columns previous \<noteq> shown_columns item \<or> ins
       then (case touch_incident ?i now st3 of None \<Rightarrow> (Inl ErrConflict, st)
             | Some st4 \<Rightarrow> (Inr ins, st4)) else (Inr ins, st3)) = (Inr fresh, st')"
    by (simp add: assms(2,3) split: if_splits option.splits)
  obtain ins st3 where ev: "insert_event event now st2 = (ins, st3)" by force
  from run ev have "ps_followups st' = ps_followups st3"
    by (auto split: if_splits option.splits dest: touch_incident_frame(2))
  then have row: "ps_followups st' (fol_IncidentID other) = Some ?r"
    using insert_event_frame(2) [OF ev] settle_publication_frame(1) [OF st2] assms(5) by simp
  have "cas_columns ?r \<noteq> cas_columns seen"
    using assms(4) by (simp add: cas_columns_def)
  then show ?thesis
    by (simp add: saveTransition_def Let_def row)
qed

section \<open>Witnesses\<close>

definition pw_store :: PubStore where
  "pw_store = \<lparr>ps_pubs = (\<lambda>_. None), ps_followups = (\<lambda>_. None),
     ps_incidents = [''i'' \<mapsto> zero_Incident\<lparr>inc_ID := ''i'', inc_Workflow := WorkflowParked\<rparr>],
     ps_inputs = [], ps_runs = [], ps_events = []\<rparr>"

definition pw_target :: PullRequestTarget where
  "pw_target = \<lparr>prt_Repository = ''r'', prt_Number = 7, prt_URL = ''u'', prt_BaseBranch = ''main'',
     prt_HeadBranch = ''h'', prt_HeadCommit = ''c''\<rparr>"

lemma pw_store_inv: "pub_inv pw_store"
  by (simp add: pw_store_def pub_inv_def keyed_def closing_def active_publication_def terminal_pr_def
      zero_defs)

text \<open>Adopt a pull request, fail, then close the task.\<close>

definition pw_failed :: PubStore where
  "pw_failed = run_machine (pub_step (\<le>)) pw_store
     [OpBeginReview ''a'' [] ''i'' ''r'' ''main'' (Some pw_target) (-1) (Time 1),
      OpRecordFailure ''i'' ''a'' PublicationFailed ''no diff'' (Time 2)]"

definition pw_ops :: "PubOp list" where
  "pw_ops = [OpBeginReview ''a'' [] ''i'' ''r'' ''main'' (Some pw_target) (-1) (Time 1),
      OpRecordFailure ''i'' ''a'' PublicationFailed ''no diff'' (Time 2), OpBeginClose ''i'' (Time 3)]"

lemma pw_closed:
  "map_option (\<lambda>x. (inc_Status x, inc_Workflow x)) (ps_incidents (run_machine (pub_step (\<le>)) pw_store pw_ops) ''i'')
     = Some ([], WorkflowClosing)"
  "map_option pub_State (ps_pubs (run_machine (pub_step (\<le>)) pw_store pw_ops) ''i'') = Some PublicationFailed"
  by code_simp+

theorem closing_excludes_publication_witness:
  "\<exists>p. ps_pubs (run_machine (pub_step (\<le>)) pw_store pw_ops) ''i'' = Some p \<and> \<not> InProgress p"
proof -
  obtain inc where i: "ps_incidents (run_machine (pub_step (\<le>)) pw_store pw_ops) ''i'' = Some inc"
      "inc_Status inc = []" "inc_Workflow inc = WorkflowClosing" using pw_closed(1) by auto
  obtain p where "ps_pubs (run_machine (pub_step (\<le>)) pw_store pw_ops) ''i'' = Some p"
    using pw_closed(2) by auto
  with closing_excludes_publication [OF pw_store_inv i(1) _ i(3) this] i(2) show ?thesis by simp
qed

lemma pw_failed_facts:
  "map_option (\<lambda>p. (pub_State p, pub_PRNumber p, pub_PRURL p, pub_PublishedAt p, pub_AttemptInputID p))
     (ps_pubs pw_failed ''i'') = Some (PublicationFailed, 7, ''u'', ZeroTime, ''a'')"
  "ps_followups pw_failed ''i'' = None"
  "map_option inc_Workflow (ps_incidents pw_failed ''i'') = Some WorkflowParked"
  by code_simp+

theorem stale_without_receipt_witness:
  "\<exists>st' q. MarkStale ''i'' ''moved'' (Time 3) pw_failed = (Inr True, st') \<and> ps_pubs st' ''i'' = Some q
    \<and> ValidatePublication q \<noteq> None"
proof -
  obtain p where p: "ps_pubs pw_failed ''i'' = Some p" "pub_State p = PublicationFailed"
      "0 < pub_PRNumber p" "pub_PRURL p \<noteq> []" "IsZero (pub_PublishedAt p)"
    using pw_failed_facts(1) by (auto simp: IsZero_def ZeroTime_def)
  from stale_without_receipt [OF p] pw_failed_facts(2,3) show ?thesis
    by (fastforce simp: terminal_pr_def)
qed

theorem other_attempt_changes_nothing_witness:
  "\<exists>p. ps_pubs pw_failed ''i'' = Some p
     \<and> snd (Save (p\<lparr>pub_AttemptInputID := ''b''\<rparr>) (Time 4) pw_failed) = pw_failed"
proof -
  obtain p where p: "ps_pubs pw_failed ''i'' = Some p" "pub_AttemptInputID p = ''a''"
    using pw_failed_facts(1) by auto
  moreover have "pub_inv pw_failed"
    unfolding pw_failed_def by (rule publication_store.run_inv [OF pw_store_inv])
  then have "pub_IncidentID p = ''i''" using p(1) by (simp add: pub_inv_def keyed_def)
  ultimately show ?thesis
    using other_attempt_changes_nothing [of pw_failed "p\<lparr>pub_AttemptInputID := ''b''\<rparr>" p] by simp
qed

definition pw_reviewing :: PubStore where
  "pw_reviewing = snd (BeginReview (\<le>) ''a'' [] ''i'' ''r'' ''main'' None (-1) (Time 1) pw_store)"

lemma pw_claimed:
  "is_ok (fst (BeginReview (\<le>) ''a'' [] ''i'' ''r'' ''main'' None (-1) (Time 1) pw_store))"
  "map_option (\<lambda>p. (pub_State p, pub_AttemptInputID p)) (ps_pubs pw_reviewing ''i'')
     = Some (PublicationReviewing, ''a'')"
  by code_simp+

theorem one_attempt_at_a_time_witness:
  "\<exists>e. BeginReview (\<le>) ''b'' [] ''i'' ''r'' ''main'' None (-1) (Time 2) pw_reviewing = (Inl e, pw_reviewing)"
proof -
  obtain p where p: "ps_pubs pw_reviewing ''i'' = Some p" "pub_State p = PublicationReviewing"
      "pub_AttemptInputID p = ''a''" using pw_claimed(2) by auto
  then have "InProgress p" by (simp add: InProgress_def)
  from one_attempt_at_a_time [OF p(1) this] p(3) show ?thesis by simp
qed

theorem BeginReview_claims_witness:
  "\<exists>p. ps_pubs pw_reviewing ''i'' = Some p \<and> pub_Generation p = 1"
proof -
  obtain p where "BeginReview (\<le>) ''a'' [] ''i'' ''r'' ''main'' None (-1) (Time 1) pw_store = (Inr p, pw_reviewing)"
    using pw_claimed(1) unfolding pw_reviewing_def is_ok_iff by (metis prod.collapse)
  from BeginReview_claims [OF this] show ?thesis by (simp add: pw_store_def)
qed

definition pw_published :: Publication where
  "pw_published = zero_Publication\<lparr>pub_IncidentID := ''i'', pub_Repository := ''r'', pub_BaseBranch := ''main'',
     pub_State := PublicationPublished, pub_PRNumber := 7, pub_PRURL := ''u'', pub_PublishedAt := Time 1\<rparr>"

definition pw_followup :: PublicationFollowup where
  "pw_followup = zero_PublicationFollowup\<lparr>fol_IncidentID := ''i'', fol_PRState := ''open'',
     fol_ChecksState := ''unknown'', fol_NextCheckAt := Time 9\<rparr>"

definition pw_open :: PubStore where
  "pw_open = pw_store\<lparr>ps_pubs := [''i'' \<mapsto> pw_published], ps_followups := [''i'' \<mapsto> pw_followup]\<rparr>"

definition pw_merge :: PublicationFollowup where
  "pw_merge = pw_followup\<lparr>fol_PRState := ''merged''\<rparr>"

definition pw_merged :: PubStore where
  "pw_merged = snd (saveTransition (Some pw_followup) pw_merge None (Time 3) pw_open)"

lemma pw_open_inv: "pub_inv pw_open"
  by (simp add: pw_open_def pw_store_def pw_published_def pw_followup_def pub_inv_def keyed_def closing_def
      active_publication_def terminal_pr_def TerminalFollowup_def InProgress_def zero_defs)

lemma pw_merged_facts:
  "fst (saveTransition (Some pw_followup) pw_merge None (Time 3) pw_open) = Inr False"
  "map_option fol_PRState (ps_followups pw_merged ''i'') = Some ''merged''"
  by code_simp+

theorem terminal_pull_request_is_settled_witness:
  "\<exists>p. ps_pubs (run_machine (pub_step (\<le>)) pw_merged
        [OpBeginReview ''b'' [] ''i'' ''r'' ''main'' None (-1) (Time 4), OpMarkStale ''i'' ''moved'' (Time 5)]) ''i''
      = Some p \<and> pub_State p = PublicationPublished"
proof -
  have inv: "pub_inv pw_merged" unfolding pw_merged_def by (rule pub_inv_saveTransition [OF pw_open_inv])
  obtain f where f: "ps_followups pw_merged ''i'' = Some f" "TerminalFollowup f"
    using pw_merged_facts(2) by (auto simp: TerminalFollowup_def)
  from terminal_pull_request_is_settled [OF inv f, of "(\<le>)"
      "[OpBeginReview ''b'' [] ''i'' ''r'' ''main'' None (-1) (Time 4), OpMarkStale ''i'' ''moved'' (Time 5)]"]
  show ?thesis by blast
qed

theorem stale_observer_refused_witness:
  "snd (saveTransition (Some pw_followup) pw_followup None (Time 4) pw_merged) = pw_merged"
proof -
  have run: "saveTransition (Some pw_followup) pw_merge None (Time 3) pw_open = (Inr False, pw_merged)"
    using pw_merged_facts(1) unfolding pw_merged_def by (metis prod.collapse)
  have row: "ps_followups pw_open (fol_IncidentID pw_merge) = Some pw_followup"
    "\<not> TerminalFollowup pw_followup" "Time 3 \<noteq> fol_UpdatedAt pw_followup"
    "fol_IncidentID pw_followup = fol_IncidentID pw_merge"
    by (code_simp)+
  from stale_observer_refused [OF run row] show ?thesis by simp
qed

end
