(* ===== verification/Contract.thy ===== *)
theory Contract
  imports CoreModel GoRunes
begin

text \<open>
  The investigation contract, \<open>internal/investigationcontract/contract.go\<close>: which claims an
  episode has to establish, which conclusion it may reach, and how a claim id the model wrote is
  bound to a required claim.  The prompt prose and the JSON rendering are not modelled.
\<close>

section \<open>The contract\<close>

record FreshnessRequirement =
  fr_Class :: string
  fr_MaxAge :: int

record ClaimRequirement =
  req_ID :: string
  req_Layer :: string
  req_Question :: string
  req_Proposition :: string
  req_Required :: bool
  req_Freshness :: FreshnessRequirement
  req_Dimensions :: "string list"

record CompletionRule =
  rule_AllowedStatuses :: "string list"
  rule_ConclusionKind :: string
  rule_AllowedVerdicts :: "string list"
  rule_RequireVerdict :: bool
  rule_RequireDiagnosis :: bool
  rule_AllowUnknownSLO :: bool

record InvestigationContract =
  ctr_Version :: string
  ctr_Effort :: string
  ctr_Authority :: string
  ctr_Objective :: string
  ctr_Claims :: "ClaimRequirement list"
  ctr_CompletionCriteria :: "string list"
  ctr_Completion :: CompletionRule
  ctr_ResultOperations :: "string list"

definition ContractVersion :: string where
  "ContractVersion = ''2026-08-10.1''"

text \<open>An entry of the table, not yet marked required.\<close>

definition layer_claim ::
    "string \<Rightarrow> string \<Rightarrow> string \<Rightarrow> string \<Rightarrow> string \<Rightarrow> int \<Rightarrow> string list \<Rightarrow> ClaimRequirement" where
  "layer_claim i layer question proposition cls age dims =
     \<lparr>req_ID = i, req_Layer = layer, req_Question = question, req_Proposition = proposition,
      req_Required = False, req_Freshness = \<lparr>fr_Class = cls, fr_MaxAge = age\<rparr>,
      req_Dimensions = dims\<rparr>"

definition layerClaims :: "string \<Rightarrow> ClaimRequirement option" where
  "layerClaims = [
    ''task'' \<mapsto>
      layer_claim ''task.requested_outcome'' ''task''
        ''What requested task result is complete, and what concrete step remains?''
        ''The requested task outcome is complete within the stated boundary.''
        ''current_revision'' (0) [''artifact'', ''revision''],
    ''hardware'' \<mapsto>
      layer_claim ''hardware.current_condition'' ''hardware''
        ''Are physical components or storage paths unhealthy or saturated?''
        ''Physical components and storage paths are healthy and not saturated.''
        ''live'' (15 * minute) [''physical_target'', ''component''],
    ''change'' \<mapsto>
      layer_claim ''change.recent'' ''change''
        ''What recent deployed or configured changes could affect the current result?''
        ''The observed state is consistent with the intended current revision and recent rollout.''
        ''current_revision'' (0) [''repository'', ''environment'', ''revision''],
    ''host'' \<mapsto>
      layer_claim ''host.current_state'' ''host''
        ''Are expected hosts present, responsive, and free of material failure or pressure?''
        ''Expected hosts are present, responsive, and free of material failure or pressure.''
        ''live'' (15 * minute) [''host'', ''environment''],
    ''runtime'' \<mapsto>
      layer_claim ''runtime.current_state'' ''runtime''
        ''Are required runtimes healthy and reporting current state?''
        ''Required runtimes are healthy and reporting current state.''
        ''live'' (15 * minute) [''runtime'', ''host''],
    ''scheduler'' \<mapsto>
      layer_claim ''scheduler.desired_state'' ''scheduler''
        ''Does observed scheduler state satisfy declared desired state?''
        ''Observed scheduler state satisfies the declared desired state.''
        ''live'' (10 * minute) [''scheduler'', ''node'', ''environment''],
    ''workload'' \<mapsto>
      layer_claim ''workload.desired_state'' ''workload''
        ''Are required workloads running at desired capacity without current failures?''
        ''Required workloads run at desired capacity without current failures.''
        ''live'' (10 * minute) [''service'', ''workload'', ''environment''],
    ''dependency'' \<mapsto>
      layer_claim ''dependency.current_health'' ''dependency''
        ''Are critical dependencies available and behaving within their operational bounds?''
        ''Critical dependencies are available and behaving within their operational bounds.''
        ''live'' (10 * minute) [''dependency'', ''service'', ''environment''],
    ''application'' \<mapsto>
      layer_claim ''application.functional_behavior'' ''application''
        ''Do representative user paths work without a current error or timeout spike?''
        ''Representative user paths work without a current error or timeout spike.''
        ''live'' (10 * minute) [''service'', ''endpoint'', ''environment'', ''window''],
    ''slo'' \<mapsto>
      layer_claim ''impact.current'' ''slo''
        ''What current service indicator, alert, or user-impact evidence changes the decision?''
        ''Current service indicators and user-impact evidence show no material degradation.''
        ''live'' (10 * minute) [''service'', ''indicator'', ''environment'', ''window'']]"

definition ValidCoverageLayer :: "string \<Rightarrow> bool" where
  "ValidCoverageLayer value = (layerClaims (trim_space value) \<noteq> None)"

section \<open>What the objective asks for\<close>

definition containsAny :: "string \<Rightarrow> string list \<Rightarrow> bool" where
  "containsAny value terms = list_ex (contains value) terms"

text \<open>Lower case, with every run of white space made one space.\<close>

definition folded_words :: "string \<Rightarrow> string" where
  "folded_words text = to_lower (join (Fields text) '' '')"

text \<open>
  \<open>\b(\<dots>)\b\<close> in a pattern whose alternatives are words matches exactly when one of them is a
  whole run of ASCII word characters.
\<close>

definition word_char :: "char \<Rightarrow> bool" where
  "word_char c \<longleftrightarrow> (let n = byte c in 48 \<le> n \<and> n \<le> 57 \<or> 65 \<le> n \<and> n \<le> 90 \<or> 97 \<le> n \<and> n \<le> 122 \<or> n = 95)"

fun word_runs :: "string \<Rightarrow> string \<Rightarrow> string list" where
  "word_runs cur [] = [rev cur]"
| "word_runs cur (c # cs) = (if word_char c then word_runs (c # cur) cs else rev cur # word_runs [] cs)"

definition authoring_verbs :: "string list" where
  "authoring_verbs =
    [''create'', ''creates'', ''created'', ''creating'', ''authors'', ''authored'', ''authoring'',
     ''author'', ''write'', ''writes'', ''writing'', ''rewrite'', ''rewrites'', ''rewriting'',
     ''drafts'', ''drafted'', ''drafting'', ''draft'', ''revise'', ''revises'', ''revising'',
     ''extends'', ''extended'', ''extending'', ''extend'', ''edits'', ''edited'', ''editing'',
     ''edit'', ''ships'', ''shipped'', ''shipping'', ''ship'', ''reusable'']"

definition ReusableArtifactAuthoring :: "string \<Rightarrow> bool" where
  "ReusableArtifactAuthoring text =
     (let text = folded_words text in
      containsAny text [''runbook'', ''playbook'', ''workflow'']
      \<and> list_ex (\<lambda>w. w \<in> set authoring_verbs) (word_runs [] text))"

definition focusedChangeReviewObjective :: "string \<Rightarrow> bool" where
  "focusedChangeReviewObjective objective =
     containsAny (folded_words objective)
       [''terraform plan'', ''terraform run'', ''review this plan'', ''review the plan'',
        ''plan notification'', ''run notification'', ''pull request'', ''review this pr'', ''review the pr'',
        ''review this diff'', ''review the diff'', ''ci run'', ''cd run'', ''build run'']"

text \<open>The two rules below see the folded objective, which folds to itself again in the code.\<close>

definition focusedOperationalHealthObjective :: "string \<Rightarrow> bool" where
  "focusedOperationalHealthObjective objective =
     (let objective = folded_words objective in
      \<not> (focusedChangeReviewObjective objective \<or> ReusableArtifactAuthoring objective)
      \<and> containsAny objective
          ['' healthy'', ''health '', ''health?'', ''health of'', ''recovered'', ''recovery'',
           ''degraded'', ''unhealthy'', ''still broken'', ''still failing''])"

definition episodeConclusionKind :: "WorkEpisode \<Rightarrow> string" where
  "episodeConclusionKind episode =
     (if ep_Effort episode \<in> {EffortOperationalAssessment, EffortIncidentInvestigation}
      then ''operational_health''
      else if ep_Effort episode = EffortEngineeringTask then ''engineering_result''
      else if ep_Effort episode = EffortFocusedCheck then
        (if focusedOperationalHealthObjective (ep_Objective episode) then ''operational_health''
         else if ''change'' \<in> set (ep_RequiredCoverage episode)
           \<and> focusedChangeReviewObjective (ep_Objective episode) then ''change_review''
         else ''factual_assessment'')
      else ''direct_answer'')"

section \<open>Compilation\<close>

text \<open>A layer the table does not know gets a claim of its own.\<close>

definition default_claim :: "string \<Rightarrow> ClaimRequirement" where
  "default_claim layer =
     layer_claim (layer @ ''.current'') layer
       (''What current evidence establishes the '' @ layer @ '' claim?'')
       (''The current '' @ layer @ '' state is healthy within the requested scope.'')
       ''claim_appropriate'' 0 []"

definition compiled_claim :: "string \<Rightarrow> string \<Rightarrow> ClaimRequirement" where
  "compiled_claim conclusionKind layer =
     (let claim = (case layerClaims layer of None \<Rightarrow> default_claim layer | Some c \<Rightarrow> c);
          claim = (if conclusionKind = ''change_review'' \<and> layer = ''change''
            then claim\<lparr>
              req_Question := ''What is the exact lifecycle state, material diff, risk, and verification boundary of this change?'',
              req_Proposition := ''The exact change lifecycle state, material diff, risk, and verification boundary are established.''\<rparr>
            else claim)
      in claim\<lparr>req_Required := True\<rparr>)"

definition allowed_verdicts :: "string \<Rightarrow> string list" where
  "allowed_verdicts kind =
     (if kind = ''operational_health'' then [''healthy'', ''degraded'', ''unhealthy'']
      else if kind = ''change_review''
      then [''in_progress'', ''needs_review'', ''succeeded'', ''failed'', ''inconclusive'']
      else if kind = ''engineering_result'' then [''completed'', ''no_change'', ''partial'']
      else if kind = ''factual_assessment'' then [''confirmed'', ''not_confirmed'', ''inconclusive'']
      else [])"

definition result_operations :: "string list" where
  "result_operations =
     [''record_evidence'', ''record_coverage'', ''record_finding'', ''report_progress'',
      ''plan_goal'', ''update_goal'',
      ''request_operator_input'', ''wait_external'', ''record_feedback'', ''request_record'',
      ''request_approval'',
      ''offer_task'', ''attach_visual'', ''update_memory'', ''offer_memory'', ''offer_preference'',
      ''offer_rule'', ''offer_schedule'', ''record_alert_assessment'',
      ''record_repository_contents'', ''offer_grant_promotion'',
      ''offer_runbook_draft'', ''offer_kb_card'', ''offer_assignment'', ''complete_episode'']"

definition Compile :: "WorkEpisode \<Rightarrow> InvestigationContract" where
  "Compile episode =
     (let kind = episodeConclusionKind episode;
          deep = ep_Effort episode \<in> {EffortOperationalAssessment, EffortIncidentInvestigation}
      in \<lparr>ctr_Version = ContractVersion, ctr_Effort = ep_Effort episode,
          ctr_Authority = ep_Authority episode, ctr_Objective = trim_space (ep_Objective episode),
          ctr_Claims = map (compiled_claim kind) (ep_RequiredCoverage episode),
          ctr_CompletionCriteria = ep_CompletionCriteria episode,
          ctr_Completion =
            \<lparr>rule_AllowedStatuses = [''decision_ready'', ''blocked''],
             rule_ConclusionKind = kind,
             rule_AllowedVerdicts = allowed_verdicts kind,
             rule_RequireVerdict = (kind = ''operational_health''
               \<and> ep_Effort episode = EffortOperationalAssessment),
             rule_RequireDiagnosis = deep,
             rule_AllowUnknownSLO = (kind = ''operational_health'')\<rparr>,
          ctr_ResultOperations = result_operations\<rparr>)"

section \<open>Binding a claim id\<close>

definition RequiredLayers :: "InvestigationContract \<Rightarrow> string list" where
  "RequiredLayers contract = map req_Layer (filter req_Required (ctr_Claims contract))"

definition RequiredClaimIDs :: "InvestigationContract \<Rightarrow> string list" where
  "RequiredClaimIDs contract = map req_ID (filter req_Required (ctr_Claims contract))"

definition claimNamespace :: "string \<Rightarrow> string" where
  "claimNamespace value = takeWhile (\<lambda>c. c \<noteq> CHR ''.'') value"

text \<open>The second loop: the one required claim of the candidate's namespace.\<close>

fun resolve_namespace :: "string \<Rightarrow> string \<Rightarrow> ClaimRequirement list \<Rightarrow> string option" where
  "resolve_namespace candidate matched [] = (if matched = [] then None else Some matched)"
| "resolve_namespace candidate matched (r # rs) =
     (if \<not> req_Required r then resolve_namespace candidate matched rs
      else if claimNamespace candidate \<noteq> to_lower (req_Layer r)
        \<and> claimNamespace candidate \<noteq> claimNamespace (to_lower (req_ID r))
      then resolve_namespace candidate matched rs
      else if matched \<noteq> [] \<and> matched \<noteq> req_ID r then None
      else resolve_namespace candidate (req_ID r) rs)"

definition ResolveClaimID :: "InvestigationContract \<Rightarrow> string \<Rightarrow> string option" where
  "ResolveClaimID contract candidate =
     (let candidate = to_lower (trim_space candidate) in
      if candidate = [] then None
      else case find (\<lambda>r. req_Required r \<and> to_lower (req_ID r) = candidate) (ctr_Claims contract) of
        Some r \<Rightarrow> Some (req_ID r)
      | None \<Rightarrow> resolve_namespace candidate [] (ctr_Claims contract))"

definition ClaimIDsAnswer :: "InvestigationContract \<Rightarrow> string list \<Rightarrow> string \<Rightarrow> bool" where
  "ClaimIDsAnswer contract ids requirementID =
     list_ex (\<lambda>i. ResolveClaimID contract i = Some requirementID) ids"

definition claimRequired :: "InvestigationContract \<Rightarrow> string \<Rightarrow> bool" where
  "claimRequired contract claimID = (ResolveClaimID contract claimID \<noteq> None)"

section \<open>A claim id names one claim\<close>

text \<open>The id of the claim a layer compiles to, and the layers whose claim owns a namespace.\<close>

definition claim_id_of :: "string \<Rightarrow> string" where
  "claim_id_of layer = (case layerClaims layer of None \<Rightarrow> layer @ ''.current'' | Some c \<Rightarrow> req_ID c)"

definition owns_namespace :: "string \<Rightarrow> string \<Rightarrow> bool" where
  "owns_namespace ns layer \<longleftrightarrow> ns = layer \<or> ns = claimNamespace (claim_id_of layer)"

text \<open>The layers of the table, and the facts about their names the binding rests on.\<close>

definition known_layers :: "string list" where
  "known_layers = [''task'', ''hardware'', ''change'', ''host'', ''runtime'', ''scheduler'', ''workload'',
     ''dependency'', ''application'', ''slo'']"

lemma known_layer: "layerClaims layer \<noteq> None \<longleftrightarrow> layer \<in> set known_layers"
  by (simp add: layerClaims_def known_layers_def)

lemma compiled_claim_fields [simp]:
  "req_ID (compiled_claim kind layer) = claim_id_of layer"
  "req_Required (compiled_claim kind layer)"
  by (auto simp: compiled_claim_def claim_id_of_def default_claim_def layer_claim_def Let_def split: option.splits)

lemma layerClaims_layer: "layerClaims layer = Some c \<Longrightarrow> req_Layer c = layer"
  by (auto simp: layerClaims_def layer_claim_def split: if_splits)

lemma compiled_claim_layer [simp]: "req_Layer (compiled_claim kind layer) = layer"
  by (auto simp: compiled_claim_def default_claim_def layer_claim_def Let_def
      dest: layerClaims_layer split: option.splits)

lemma known_layers_folded:
  "list_all (\<lambda>l. to_lower l = l \<and> to_lower (claim_id_of l) = claim_id_of l \<and> claim_id_of l \<noteq> []
      \<and> l \<noteq> [] \<and> claimNamespace (claim_id_of l) \<noteq> []) known_layers"
  by code_simp

lemma known_layers_disjoint:
  "list_all (\<lambda>l. list_all (\<lambda>m. l = m \<or> (l \<noteq> m \<and> l \<noteq> claimNamespace (claim_id_of m)
      \<and> claimNamespace (claim_id_of l) \<noteq> claimNamespace (claim_id_of m))) known_layers) known_layers"
  by code_simp

lemma known_folded:
  assumes "layerClaims l \<noteq> None"
  shows "to_lower l = l" "to_lower (claim_id_of l) = claim_id_of l" "claim_id_of l \<noteq> []" "l \<noteq> []"
    "claimNamespace (claim_id_of l) \<noteq> []"
  using bspec [OF known_layers_folded [unfolded list_all_iff] assms [unfolded known_layer]] by simp_all

lemma owner_unique:
  assumes l: "layerClaims l \<noteq> None" and m: "layerClaims m \<noteq> None"
    and o: "owns_namespace ns l" "owns_namespace ns m"
  shows "l = m"
proof -
  note d = known_layers_disjoint [unfolded list_all_iff]
  note l' = l [unfolded known_layer] and m' = m [unfolded known_layer]
  from bspec [OF bspec [OF d l'] m'] bspec [OF bspec [OF d m'] l'] o show ?thesis
    unfolding owns_namespace_def by metis
qed

lemma resolve_namespace_known:
  assumes "\<forall>l \<in> set ls. layerClaims l \<noteq> None"
    and "matched = [] \<or> (\<exists>l. layerClaims l \<noteq> None \<and> owns_namespace (claimNamespace c) l \<and> matched = claim_id_of l)"
  shows "resolve_namespace c matched (map (compiled_claim kind) ls) =
    (if matched \<noteq> [] then Some matched
     else map_option claim_id_of (find (owns_namespace (claimNamespace c)) ls))"
  using assms
proof (induction ls arbitrary: matched)
  case (Cons l ls)
  have k: "layerClaims l \<noteq> None" and ks: "\<forall>l \<in> set ls. layerClaims l \<noteq> None" using Cons.prems(1) by auto
  note f = known_folded [OF k]
  show ?case
  proof (cases "owns_namespace (claimNamespace c) l")
    case False
    have "resolve_namespace c matched (map (compiled_claim kind) (l # ls))
        = resolve_namespace c matched (map (compiled_claim kind) ls)"
      using False f by (simp add: owns_namespace_def)
    with False Cons.IH [OF ks Cons.prems(2)] show ?thesis by simp
  next
    case True
    have m: "matched = [] \<or> matched = claim_id_of l"
      using Cons.prems(2) owner_unique [OF _ k _ True] by auto
    have "resolve_namespace c (claim_id_of l) (map (compiled_claim kind) ls) = Some (claim_id_of l)"
      using Cons.IH [OF ks, of "claim_id_of l"] True k f by auto
    moreover have "resolve_namespace c matched (map (compiled_claim kind) (l # ls))
        = resolve_namespace c (claim_id_of l) (map (compiled_claim kind) ls)"
      using True m f by (auto simp: owns_namespace_def)
    ultimately show ?thesis using m True f by auto
  qed
qed simp

lemma find_SomeD: "find P xs = Some x \<Longrightarrow> P x \<and> x \<in> set xs"
  by (induction xs) (auto split: if_splits)

text \<open>
  In a contract compiled from layers of the table, a claim id is bound by its namespace alone: the
  id the model wrote names the one required claim that owns the part before its first dot, whatever
  follows it and however it is spelled, and an id in no required namespace is refused.  No id is
  ever ambiguous.
\<close>

theorem ResolveClaimID_by_namespace:
  assumes "\<forall>l \<in> set (ep_RequiredCoverage episode). layerClaims l \<noteq> None"
  shows "ResolveClaimID (Compile episode) candidate =
    map_option claim_id_of (find (owns_namespace (claimNamespace (to_lower (trim_space candidate))))
      (ep_RequiredCoverage episode))"
proof -
  let ?ls = "ep_RequiredCoverage episode" let ?c = "to_lower (trim_space candidate)"
  let ?kind = "episodeConclusionKind episode" let ?own = "owns_namespace (claimNamespace ?c)"
  have claims: "ctr_Claims (Compile episode) = map (compiled_claim ?kind) ?ls"
    by (simp add: Compile_def Let_def)
  show ?thesis
  proof (cases "?c = []")
    case True
    have "\<not> ?own l" if "l \<in> set ?ls" for l
      using True that assms known_folded(4,5) [of l] by (auto simp: owns_namespace_def claimNamespace_def)
    then have "find ?own ?ls = None" by (simp add: find_None_iff)
    with True show ?thesis by (simp add: ResolveClaimID_def)
  next
    case False
    show ?thesis
    proof (cases "find (\<lambda>r. req_Required r \<and> to_lower (req_ID r) = ?c) (ctr_Claims (Compile episode))")
      case None
      with False assms show ?thesis
        by (simp add: ResolveClaimID_def claims resolve_namespace_known)
    next
      case (Some r)
      from find_SomeD [OF this] obtain l
        where l: "l \<in> set ?ls" "r = compiled_claim ?kind l" "to_lower (claim_id_of l) = ?c"
        unfolding claims by auto
      with assms have k: "layerClaims l \<noteq> None" by auto
      have own: "?own l" using l(3) known_folded(2) [OF k] by (simp add: owns_namespace_def)
      then obtain m where m: "find ?own ?ls = Some m" using l(1) by (cases "find ?own ?ls") (auto simp: find_None_iff)
      then have "m \<in> set ?ls" "?own m" by (auto dest: find_SomeD)
      with owner_unique [OF k _ own, of m] assms have "m = l" by blast
      with Some False m l(2) show ?thesis by (simp add: ResolveClaimID_def)
    qed
  qed
qed

definition ex_health :: WorkEpisode where
  "ex_health = zero_WorkEpisode\<lparr>ep_Effort := EffortFocusedCheck,
     ep_Objective := ''Is the checkout service healthy?'', ep_RequiredCoverage := [''task'', ''slo'']\<rparr>"

theorem ResolveClaimID_by_namespace_witness:
  "ResolveClaimID (Compile ex_health) '' Task.completion '' = Some ''task.requested_outcome''"
proof -
  have "\<forall>l \<in> set (ep_RequiredCoverage ex_health). layerClaims l \<noteq> None"
    by (simp add: ex_health_def layerClaims_def)
  note ResolveClaimID_by_namespace [OF this, of "'' Task.completion ''"]
  moreover have "map_option claim_id_of (find (owns_namespace (claimNamespace
      (to_lower (trim_space '' Task.completion '')))) (ep_RequiredCoverage ex_health))
    = Some ''task.requested_outcome''" by code_simp
  ultimately show ?thesis by (rule trans)
qed

end
