(* ===== verification/Ledger.thy ===== *)
theory Ledger
  imports Contract GoTime
begin

text \<open>
  The evidence ledger, \<open>internal/investigation/ledger.go\<close>: what the recorded evidence and coverage
  establish about each claim of the contract, and the correction a completion gets when a required
  claim is still open.
\<close>

abbreviation ClaimSupported :: string where "ClaimSupported \<equiv> ''supported''"
abbreviation ClaimContradicted :: string where "ClaimContradicted \<equiv> ''contradicted''"
abbreviation ClaimMixed :: string where "ClaimMixed \<equiv> ''mixed''"
abbreviation ClaimUnknown :: string where "ClaimUnknown \<equiv> ''unknown''"
abbreviation ClaimNotApplicable :: string where "ClaimNotApplicable \<equiv> ''not_applicable''"

record ClaimView =
  view_Requirement :: ClaimRequirement
  view_State :: string
  view_Confidence :: string
  view_Evidence :: "Evidence list"
  view_Contradictions :: "Evidence list"
  view_StaleEvidence :: "Evidence list"
  view_Superseded :: "Evidence list"
  view_SupersededBy :: "(string \<times> string) list"
  view_SupersessionRefusals :: "string list"
  view_MissingDimensions :: "string list"
  view_Stale :: bool
  view_Resolved :: bool
  view_CoverageStatus :: string
  view_Detail :: string

record Ledger =
  led_Contract :: InvestigationContract
  led_Claims :: "(string \<times> ClaimView) list"

section \<open>Observation times and freshness\<close>

definition observationTime :: "gotime \<Rightarrow> gotime \<Rightarrow> gotime" where
  "observationTime observedAt createdAt = (if IsZero observedAt then createdAt else observedAt)"

abbreviation ev_at :: "Evidence \<Rightarrow> gotime" where
  "ev_at item \<equiv> observationTime (ev_ObservedAt item) (ev_CreatedAt item)"

text \<open>A Go map read: the zero string for a missing key.\<close>

definition dimension_value :: "Evidence \<Rightarrow> string \<Rightarrow> string" where
  "dimension_value item k = (case map_of (ev_Dimensions item) k of None \<Rightarrow> [] | Some v \<Rightarrow> v)"

definition evidenceObservationKey :: "Evidence \<Rightarrow> string" where
  "evidenceObservationKey item =
     join [trim_space (ev_ClaimID item), trim_space (ev_Target item), trim_space (ev_SourceType item),
           trim_space (ev_SourceID item), trim_space (ev_SourceName item),
           concat (map (\<lambda>k. ''|'' @ k @ ''='' @ dimension_value item k) (sort (map fst (ev_Dimensions item))))]
       [CHR 0x00]"

definition latestEvidenceObservationTimes :: "Evidence list \<Rightarrow> string \<Rightarrow> gotime option" where
  "latestEvidenceObservationTimes items =
     foldl (\<lambda>latest item.
        let key = evidenceObservationKey item; observed = ev_at item in
        case latest key of
          None \<Rightarrow> latest(key \<mapsto> observed)
        | Some current \<Rightarrow> if current < observed then latest(key \<mapsto> observed) else latest)
       (\<lambda>_. None) items"

text \<open>The newest coverage row of each layer.\<close>

definition newest_coverage :: "Coverage list \<Rightarrow> string \<Rightarrow> Coverage option" where
  "newest_coverage coverage =
     foldl (\<lambda>by_layer item.
        case by_layer (cov_Layer item) of
          None \<Rightarrow> by_layer(cov_Layer item \<mapsto> item)
        | Some current \<Rightarrow>
            if observationTime (cov_ObservedAt current) (cov_CreatedAt current)
                < observationTime (cov_ObservedAt item) (cov_CreatedAt item)
            then by_layer(cov_Layer item \<mapsto> item) else by_layer)
       (\<lambda>_. None) coverage"

text \<open>A record is stale when its own source has a newer one, or contract or record say it expired.\<close>

definition stale_evidence ::
    "Evidence list \<Rightarrow> FreshnessRequirement \<Rightarrow> gotime \<Rightarrow> gotime \<Rightarrow> Evidence \<Rightarrow> bool" where
  "stale_evidence evidence freshness now freshnessNow item \<longleftrightarrow>
     ev_at item < (case latestEvidenceObservationTimes evidence (evidenceObservationKey item) of
                     None \<Rightarrow> ZeroTime | Some t \<Rightarrow> t)
     \<or> 0 < fr_MaxAge freshness
       \<and> (IsZero (ev_ObservedAt item) \<or> fr_MaxAge freshness < time_sub freshnessNow (ev_ObservedAt item))
     \<or> \<not> IsZero (ev_ValidUntil item) \<and> ev_ValidUntil item < now"

definition contradicts :: "Evidence \<Rightarrow> bool" where
  "contradicts item \<longleftrightarrow>
     (let relation = to_lower (trim_space (ev_Relation item)) in
      relation = ''contradicts'' \<or> relation = ''contradiction'')"

section \<open>Supersession\<close>

definition MaxSupersededRecords :: nat where
  "MaxSupersededRecords = 10"

definition ev_id :: "Evidence \<Rightarrow> string" where
  "ev_id item = trim_space (ev_ID item)"

definition observed_times :: "Evidence list \<Rightarrow> string \<Rightarrow> gotime option" where
  "observed_times items =
     foldl (\<lambda>m item. if ev_id item = [] then m else m(ev_id item \<mapsto> ev_at item)) (\<lambda>_. None) items"

text \<open>The retirements the records declare: who, when, and the id it names.\<close>

definition declared_retirements :: "Evidence list \<Rightarrow> (string \<times> gotime \<times> string) list" where
  "declared_retirements items =
     concat (map (\<lambda>item. map (\<lambda>target. (ev_id item, ev_at item, target))
        (filter (\<lambda>target. \<not> (target = [] \<or> target = ev_id item \<or> ev_id item = []))
          (map trim_space (take MaxSupersededRecords (ev_Supersedes item))))) items)"

definition retirement_refusal :: "(string \<Rightarrow> gotime option) \<Rightarrow> string \<times> gotime \<times> string \<Rightarrow> string option" where
  "retirement_refusal observed d =
     (case d of (i, at, target) \<Rightarrow>
        (case observed target of
           None \<Rightarrow> Some (i @ '' supersedes '' @ target @ '', which is not a record on this claim; supersedes names the exact '' @
             ''evidence id of a statement quoted above, bound to this same claim_id'')
         | Some earlier \<Rightarrow>
             if IsZero at \<or> IsZero earlier \<or> \<not> earlier < at
             then Some (i @ '' supersedes '' @ target @
               '', so its observed_at must be strictly later than the record it retires'')
             else None))"

definition supersessions :: "Evidence list \<Rightarrow> (string \<times> string) list \<times> string list" where
  "supersessions items =
     (let observed = observed_times items; declared = declared_retirements items in
      (foldl (\<lambda>retired (i, at, target). AList.update target i retired) []
         (filter (\<lambda>d. retirement_refusal observed d = None) declared),
       sort (map the (filter (\<lambda>r. r \<noteq> None) (map (retirement_refusal observed) declared)))))"

definition retired_by :: "(string \<times> string) list \<Rightarrow> Evidence \<Rightarrow> bool" where
  "retired_by retired item \<longleftrightarrow> map_of retired (ev_id item) \<noteq> None"

text \<open>\<open>retireInto\<close>: the records that stay, and the ones that move.\<close>

definition retireInto ::
    "Evidence list \<Rightarrow> Evidence list \<Rightarrow> (string \<times> string) list \<Rightarrow> Evidence list \<times> Evidence list" where
  "retireInto gone items retired =
     (gone @ filter (retired_by retired) items, filter (\<lambda>item. \<not> retired_by retired item) items)"

section \<open>What a claim's records establish\<close>

definition dimensionPresent :: "Evidence list \<Rightarrow> string \<Rightarrow> bool" where
  "dimensionPresent items dimension = list_ex (\<lambda>item. \<not> blank (dimension_value item dimension)) items"

fun weakest_from :: "string \<Rightarrow> Evidence list \<Rightarrow> string" where
  "weakest_from result [] = result"
| "weakest_from result (item # items) =
     (let c = to_lower (trim_space (ev_Confidence item)) in
      if c = ''low'' then ''low''
      else weakest_from (if c = ''medium'' \<or> c = [] then ''medium'' else result) items)"

definition weakestConfidence :: "Evidence list \<Rightarrow> string" where
  "weakestConfidence items = (if items = [] then [] else weakest_from ''high'' items)"

definition unknownCoverageAnswersClaim :: "CompletionRule \<Rightarrow> ClaimRequirement \<Rightarrow> string \<Rightarrow> bool" where
  "unknownCoverageAnswersClaim completion requirement status \<longleftrightarrow>
     status = ''unknown''
     \<and> (rule_AllowUnknownSLO completion \<and> req_Layer requirement = ''slo'' \<and> req_Required requirement
        \<or> rule_ConclusionKind completion \<in> {''change_review'', ''factual_assessment''})"

definition unknownLayersAnswered :: "InvestigationContract \<Rightarrow> string list \<Rightarrow> bool" where
  "unknownLayersAnswered contract unknown =
     list_all (\<lambda>layer. list_all (\<lambda>requirement. req_Layer requirement = layer \<longrightarrow>
         unknownCoverageAnswersClaim (ctr_Completion contract) requirement ''unknown'')
       (ctr_Claims contract)) unknown"

definition newest_support :: "Evidence list \<Rightarrow> gotime" where
  "newest_support items = foldl (\<lambda>newest item. if newest < ev_at item then ev_at item else newest) ZeroTime items"

definition contradictionsPredateSupport :: "ClaimView \<Rightarrow> bool" where
  "contradictionsPredateSupport view \<longleftrightarrow>
     view_Evidence view \<noteq> [] \<and> view_Contradictions view \<noteq> []
     \<and> \<not> IsZero (newest_support (view_Evidence view))
     \<and> list_all (\<lambda>item. \<not> IsZero (ev_at item) \<and> ev_at item < newest_support (view_Evidence view))
         (view_Contradictions view)"

definition materialHealthEffectPresent :: "ClaimView \<Rightarrow> string \<Rightarrow> bool" where
  "materialHealthEffectPresent view status \<longleftrightarrow>
     (status = ''degraded'' \<or> status = ''unhealthy'')
     \<and> list_ex (\<lambda>item. let effect = to_lower (trim_space (ev_HealthEffect item)) in
           status = ''unhealthy'' \<and> effect = ''unhealthy''
           \<or> status = ''degraded'' \<and> (effect = ''degraded'' \<or> effect = ''unhealthy''))
         (view_Evidence view @ view_Contradictions view)"

definition claimResolution :: "ClaimView \<Rightarrow> Coverage option \<Rightarrow> CompletionRule \<Rightarrow> bool" where
  "claimResolution view coverage completion =
     (case coverage of
        None \<Rightarrow> False
      | Some row \<Rightarrow>
          if blank (cov_Detail row) then False
          else
            let answered = unknownCoverageAnswersClaim completion (view_Requirement view) (cov_Status row);
                state = view_State view
            in if state = ClaimSupported then cov_Status row = ''healthy'' \<or> answered
               else if state = ClaimMixed then
                 (if contradictionsPredateSupport view then cov_Status row = ''healthy'' \<or> answered
                  else materialHealthEffectPresent view (cov_Status row))
               else if state = ClaimContradicted then materialHealthEffectPresent view (cov_Status row)
               else if state = ClaimUnknown then answered
               else if state = ClaimNotApplicable then cov_Status row = ''not_applicable''
               else False)"

text \<open>The records bound to a requirement: by their claim id, or by the layer's coverage row.\<close>

definition bound_evidence ::
    "InvestigationContract \<Rightarrow> ClaimRequirement \<Rightarrow> Coverage option \<Rightarrow> Evidence list \<Rightarrow> Evidence list" where
  "bound_evidence contract requirement row evidence =
     filter (\<lambda>item. ResolveClaimID contract (ev_ClaimID item) = Some (req_ID requirement)
        \<or> (case row of None \<Rightarrow> False
           | Some c \<Rightarrow> ev_ClaimID item \<noteq> [] \<and> ev_ClaimID item \<in> set (cov_ClaimIDs c))) evidence"

definition claim_state :: "Coverage option \<Rightarrow> Evidence list \<Rightarrow> Evidence list \<Rightarrow> string" where
  "claim_state row supports against =
     (if (case row of None \<Rightarrow> False | Some c \<Rightarrow> cov_Status c = ''not_applicable'') then ClaimNotApplicable
      else if supports \<noteq> [] \<and> against \<noteq> [] then ClaimMixed
      else if against \<noteq> [] then ClaimContradicted
      else if supports \<noteq> [] then ClaimSupported
      else ClaimUnknown)"

definition claim_view ::
    "InvestigationContract \<Rightarrow> Evidence list \<Rightarrow> Coverage option \<Rightarrow> gotime \<Rightarrow> gotime \<Rightarrow> ClaimRequirement \<Rightarrow> ClaimView" where
  "claim_view contract evidence row now freshnessNow requirement =
     (let bound = bound_evidence contract requirement row evidence;
          stale = stale_evidence evidence (req_Freshness requirement) now freshnessNow;
          fresh = filter (\<lambda>item. \<not> stale item) bound;
          supports = filter (\<lambda>item. \<not> contradicts item) fresh;
          against = filter contradicts fresh;
          (retired, refusals) = supersessions (supports @ against);
          (gone, supports) = retireInto [] supports retired;
          (gone, against) = retireInto gone against retired;
          view = \<lparr>view_Requirement = requirement, view_State = claim_state row supports against,
            view_Confidence = weakestConfidence (supports @ against),
            view_Evidence = supports, view_Contradictions = against,
            view_StaleEvidence = filter stale bound, view_Superseded = gone,
            view_SupersededBy = retired, view_SupersessionRefusals = refusals,
            view_MissingDimensions = filter (\<lambda>d. \<not> dimensionPresent supports d \<and> \<not> dimensionPresent against d)
              (req_Dimensions requirement),
            view_Stale = (filter stale bound \<noteq> [] \<and> supports = [] \<and> against = []),
            view_Resolved = False,
            view_CoverageStatus = (case row of None \<Rightarrow> [] | Some c \<Rightarrow> cov_Status c),
            view_Detail = (case row of None \<Rightarrow> [] | Some c \<Rightarrow> cov_Detail c)\<rparr>
      in view\<lparr>view_Resolved := claimResolution view row (ctr_Completion contract)\<rparr>)"

definition freshness_clock :: "gotime \<Rightarrow> gotime \<Rightarrow> gotime" where
  "freshness_clock now chainStartedAt =
     (if \<not> IsZero chainStartedAt \<and> chainStartedAt < now then chainStartedAt else now)"

definition BuildLedgerForChain ::
    "InvestigationContract \<Rightarrow> Evidence list \<Rightarrow> Coverage list \<Rightarrow> gotime \<Rightarrow> gotime \<Rightarrow> Ledger" where
  "BuildLedgerForChain contract evidence coverage now chainStartedAt =
     \<lparr>led_Contract = contract,
      led_Claims = foldl (\<lambda>claims requirement. AList.update (req_ID requirement)
          (claim_view contract evidence (newest_coverage coverage (req_Layer requirement)) now
             (freshness_clock now chainStartedAt) requirement) claims) [] (ctr_Claims contract)\<rparr>"

definition BuildLedger ::
    "InvestigationContract \<Rightarrow> Evidence list \<Rightarrow> Coverage list \<Rightarrow> gotime \<Rightarrow> Ledger" where
  "BuildLedger contract evidence coverage now = BuildLedgerForChain contract evidence coverage now ZeroTime"

section \<open>Quoting a conflict\<close>

abbreviation newline :: string where "newline \<equiv> [CHR 0x0A]"

text \<open>\<open>[]rune(s)\<close>: a malformed byte becomes U+FFFD.\<close>

function runes :: "string \<Rightarrow> nat list" where
  "runes s =
     (if s = [] then []
      else if rune_width s = 0 then 65533 # runes (drop 1 s)
      else rune_value (take (rune_width s) s) # runes (drop (rune_width s) s))"
  by pat_completeness auto
termination
  by (relation "measure length") auto

declare runes.simps [simp del]

definition statementLine :: "Evidence \<Rightarrow> string" where
  "statementLine item =
     (let observation = trim_space (ev_Observation item);
          observation = (if 600 < length (runes observation)
            then concat (map encode_rune (take 597 (runes observation))) @ ''...'' else observation);
          facts = (if ev_id item \<noteq> [] then [ev_id item] else [])
            @ (if blank (ev_SourceName item) then [] else [trim_space (ev_SourceName item)])
            @ (if IsZero (ev_at item) then [] else [''observed '' @ format_rfc3339 (ev_at item)]);
          dimensions = sort (map (\<lambda>(k, v). k @ ''='' @ v) (ev_Dimensions item))
      in if observation = [] \<and> dimensions = [] \<and> facts = [] then []
         else
           let observation = (if observation = [] then join dimensions '' '' else observation) in
           if facts = [] then observation
           else trim_space (observation @ '' '') @ '' ['' @ join facts '' | '' @ '']'')"

definition maximumQuotedConflicts :: nat where
  "maximumQuotedConflicts = 6"

definition quotedStatements :: "Evidence list \<Rightarrow> nat \<Rightarrow> string list" where
  "quotedStatements evidence limit =
     take limit (filter (\<lambda>line. line \<noteq> []) (map statementLine evidence))"

definition conflictResolutions :: string where
  "conflictResolutions =
     ''Resolve each one exactly one of three ways: retract the losing statement, '' @
     ''supersede it with a record_evidence carrying supersedes:[\"<the id it retires>\"] '' @
     ''and an observed_at after that record, or reconcile both with new evidence naming'' @
     '' both evidence ids. Naming the retired record in the observation prose does '' @
     ''nothing; only the supersedes field retires it. Do not rephrase the claim: a '' @
     ''reworded claim collides with the next recorded statement instead.''"

definition coverageResolutions :: string where
  "coverageResolutions =
     ''Emit record_coverage for the named layer with the status its recorded evidence '' @
     ''establishes, or return completion.status blocked naming the exact gap. Do not '' @
     ''retract, supersede or re-record the evidence: nothing the host holds disagrees '' @
     ''with it.''"

definition unresolvedClaimDetail :: "ClaimView \<Rightarrow> string" where
  "unresolvedClaimDetail view =
     (let layer = req_Layer (view_Requirement view);
          state = (if blank (view_CoverageStatus view) then ''no coverage row is recorded for layer '' @ layer
            else if blank (view_Detail view)
            then ''coverage for layer '' @ layer @ '' records no detail, so it establishes nothing''
            else ''coverage for layer '' @ layer @ '' records status \"'' @ view_CoverageStatus view @
              ''\", which does not establish this claim'')
      in join ([req_ID (view_Requirement view), ''    '' @ state]
           @ (if view_Contradictions view = []
              then [''    nothing recorded against this claim contradicts it''] else [])) newline)"

text \<open>Nothing when no conflicting record can be quoted.\<close>

definition contradictionDetail :: "ClaimView \<Rightarrow> string option" where
  "contradictionDetail view =
     (let support = quotedStatements (view_Evidence view) maximumQuotedConflicts;
          against = quotedStatements (view_Contradictions view) maximumQuotedConflicts;
          extra = length (view_Contradictions view) - length against;
          statements =
            (if support \<noteq> [] then map (\<lambda>line. ''    asserted: '' @ line) support
             else if view_Contradictions view \<noteq> []
             then [''    no supporting statement is recorded for this claim; record one bound to '' @
                   ''this exact claim_id, or retract the claim'']
             else [])
            @ map (\<lambda>line. ''    contradicted by: '' @ line) against
            @ (if 0 < extra
               then [''    and '' @ itoa (int extra) @ '' further conflicting statement(s) on this claim''] else [])
            @ concat (map (\<lambda>item. if statementLine item = [] then []
                  else [''    superseded by '' @
                        (case map_of (view_SupersededBy view) (ev_id item) of None \<Rightarrow> [] | Some i \<Rightarrow> i) @
                        '', already retired: '' @ statementLine item])
                (take maximumQuotedConflicts (view_Superseded view)))
            @ map (\<lambda>refusal. ''    not retired: '' @ refusal) (view_SupersessionRefusals view)
      in if against = [] then None
         else Some (req_ID (view_Requirement view) @ newline @ join statements newline))"

section \<open>The correction\<close>

text \<open>A required claim that is still open: missing evidence, in conflict, or not covered.\<close>

datatype OpenClaim = Missing string | Conflicted string | Unestablished string

definition conflict_or_unestablished :: "ClaimView \<Rightarrow> OpenClaim" where
  "conflict_or_unestablished view =
     (case contradictionDetail view of Some d \<Rightarrow> Conflicted d
      | None \<Rightarrow> Unestablished (unresolvedClaimDetail view))"

definition open_claim :: "CompletionRule \<Rightarrow> ClaimRequirement \<Rightarrow> ClaimView \<Rightarrow> OpenClaim option" where
  "open_claim completion requirement view =
     (let i = req_ID requirement; state = view_State view; missing = view_MissingDimensions view in
      if state = ClaimSupported then
        (if view_Stale view \<or> missing \<noteq> []
         then Some (Missing (i @ '' ('' @ (if view_Stale view then ''stale'' else []) @
           (if missing = [] then []
            else (if view_Stale view then ''; '' else []) @
              ''no evidence carries the dimensions keys: '' @ join missing '', '') @ '')''))
         else if \<not> view_Resolved view then Some (Unestablished (unresolvedClaimDetail view)) else None)
      else if state = ClaimNotApplicable then
        (if req_Layer requirement \<noteq> ''slo'' \<or> \<not> rule_AllowUnknownSLO completion then Some (Missing i) else None)
      else if state = ClaimUnknown then
        (if \<not> view_Resolved view then Some (Missing (i @ (if view_Stale view then '' (stale)'' else []))) else None)
      else if state = ClaimContradicted \<or> state = ClaimMixed then
        (if \<not> view_Resolved view then Some (conflict_or_unestablished view) else None)
      else None)"

definition negativeVerdictIsDecisive :: "Ledger \<Rightarrow> string \<Rightarrow> bool" where
  "negativeVerdictIsDecisive ledger verdict =
     (let kind = rule_ConclusionKind (ctr_Completion (led_Contract ledger)); views = map snd (led_Claims ledger) in
      if kind = ''change_review'' \<and> verdict = ''failed'' then
        list_ex (\<lambda>view. req_Required (view_Requirement view) \<and> req_Layer (view_Requirement view) = ''change''
           \<and> view_CoverageStatus view = ''unhealthy''
           \<and> (view_Evidence view \<noteq> [] \<or> view_Contradictions view \<noteq> [])) views
      else if kind \<noteq> ''operational_health'' \<or> verdict \<noteq> ''degraded'' \<and> verdict \<noteq> ''unhealthy'' then False
      else list_ex (\<lambda>view. req_Required (view_Requirement view) \<and> view_Resolved view
           \<and> (verdict = ''unhealthy'' \<and> view_CoverageStatus view = ''unhealthy''
              \<or> verdict = ''degraded''
                \<and> (view_CoverageStatus view = ''degraded'' \<or> view_CoverageStatus view = ''unhealthy''))) views)"

definition open_claims :: "Ledger \<Rightarrow> OpenClaim list" where
  "open_claims ledger =
     (let contract = led_Contract ledger in
      concat (map (\<lambda>requirement.
        case map_of (led_Claims ledger) (req_ID requirement) of
          None \<Rightarrow> []
        | Some view \<Rightarrow> (case open_claim (ctr_Completion contract) requirement view of None \<Rightarrow> [] | Some c \<Rightarrow> [c]))
        (filter req_Required (ctr_Claims contract))))"

definition CompletionCorrectionFor :: "Ledger \<Rightarrow> string \<Rightarrow> string \<Rightarrow> string" where
  "CompletionCorrectionFor ledger status verdict =
     (if status = ''blocked'' then []
      else
        let opened = open_claims ledger;
            contradicted = concat (map (\<lambda>c. case c of Conflicted d \<Rightarrow> [d] | _ \<Rightarrow> []) opened);
            unresolved = concat (map (\<lambda>c. case c of Unestablished d \<Rightarrow> [d] | _ \<Rightarrow> []) opened);
            missing = concat (map (\<lambda>c. case c of Missing d \<Rightarrow> [d] | _ \<Rightarrow> []) opened)
        in if opened = [] \<or> negativeVerdictIsDecisive ledger verdict then []
           else if contradicted \<noteq> [] then
             ''required claims still contain unresolved contradictions. '' @ conflictResolutions @ newline @ newline
               @ join (sort contradicted) newline
           else if unresolved \<noteq> [] then
             ''required claims are not established by their coverage. '' @ coverageResolutions @ newline @ newline
               @ join (sort unresolved) newline
           else ''required claims do not have fresh supporting evidence: '' @ join (sort missing) '', '')"

definition Assessments :: "Ledger \<Rightarrow> string \<Rightarrow> gotime \<Rightarrow> ClaimAssessment list" where
  "Assessments ledger episodeID now =
     concat (map (\<lambda>requirement.
        case map_of (led_Claims ledger) (req_ID requirement) of
          None \<Rightarrow> []
        | Some view \<Rightarrow>
            [\<lparr>asm_ID = ''claim_'' @ episodeID @ ''_'' @ replace_byte CHR ''.'' CHR ''_'' (req_ID requirement),
              asm_EpisodeID = episodeID, asm_ClaimID = req_ID requirement, asm_Status = view_State view,
              asm_Confidence = view_Confidence view,
              asm_EvidenceIDs = map ev_ID (view_Evidence view),
              asm_ContradictionIDs = map ev_ID (view_Contradictions view),
              asm_Detail = view_Detail view, asm_UpdatedAt = now\<rparr>])
        (ctr_Claims (led_Contract ledger)))"

datatype EvidenceError = NoClaimID | NoSource | NoObservation | BadRelation string | BadHealthEffect string

definition ValidateEvidence :: "Evidence \<Rightarrow> EvidenceError option" where
  "ValidateEvidence item =
     (if blank (ev_ClaimID item) then Some NoClaimID
      else if blank (ev_SourceType item) \<or> blank (ev_SourceName item) then Some NoSource
      else if blank (ev_Observation item) \<and> ev_Dimensions item = [] then Some NoObservation
      else if to_lower (trim_space (ev_Relation item)) \<notin> {[], ''supports'', ''contradicts''}
      then Some (BadRelation (ev_Relation item))
      else if to_lower (trim_space (ev_HealthEffect item))
        \<notin> {[], ''none'', ''risk'', ''degraded'', ''unhealthy'', ''unknown''}
      then Some (BadHealthEffect (ev_HealthEffect item))
      else None)"

end
