(* ===== verification/LedgerSafety.thy ===== *)
theory LedgerSafety
  imports Ledger "HOL-Library.Multiset"
begin

text \<open>
  What the evidence ledger guarantees: records are kept, superseding cannot erase a claim, a
  correction chain does not age its own evidence, and an accepted verdict rests on what was recorded.
\<close>

section \<open>Supersession keeps the newest word\<close>

lemma foldl_update_None:
  "map_of (foldl (\<lambda>m (i, at, t). AList.update t i m) m0 ds) k = None
    \<longleftrightarrow> map_of m0 k = None \<and> (\<forall>(i, at, t) \<in> set ds. t \<noteq> k)"
proof (induction ds arbitrary: m0)
  case (Cons d ds)
  obtain i at t where d: "d = (i, at, t)" by (cases d)
  show ?case by (simp add: Cons.IH d update_conv')
qed simp

lemma observed_times_distinct:
  assumes "distinct (map ev_id (filter (\<lambda>x. ev_id x \<noteq> []) items))" and "item \<in> set items" and "ev_id item \<noteq> []"
  shows "observed_times items (ev_id item) = Some (ev_at item)"
proof -
  have other: "foldl (\<lambda>m x. if ev_id x = [] then m else m(ev_id x \<mapsto> ev_at x)) m xs k = m k"
    if "\<forall>x \<in> set xs. ev_id x \<noteq> k \<or> ev_id x = []" for m k and xs :: "Evidence list"
    using that by (induction xs arbitrary: m) auto
  have "foldl (\<lambda>m x. if ev_id x = [] then m else m(ev_id x \<mapsto> ev_at x)) m items (ev_id item) = Some (ev_at item)"
    for m using assms
  proof (induction items arbitrary: m)
    case (Cons x xs)
    show ?case
    proof (cases "item \<in> set xs")
      case True
      with Cons show ?thesis by (simp split: if_splits)
    next
      case False
      with Cons.prems have x: "x = item" by simp
      have "\<forall>y \<in> set xs. ev_id y \<noteq> ev_id item \<or> ev_id y = []"
        using Cons.prems(1,3) by (auto simp: x image_iff)
      with Cons.prems(3) show ?thesis by (simp add: x other)
    qed
  qed simp
  then show ?thesis by (simp add: observed_times_def)
qed

lemma retired_earlier:
  assumes d: "distinct (map ev_id (filter (\<lambda>x. ev_id x \<noteq> []) items))" and i: "item \<in> set items"
    and r: "retired_by (fst (supersessions items)) item"
  shows "\<exists>later \<in> set items. ev_at item < ev_at later \<and> ev_id later \<noteq> []
    \<and> ev_id item \<in> set (map trim_space (take MaxSupersededRecords (ev_Supersedes later)))"
proof -
  from r obtain who at where w: "(who, at, ev_id item) \<in> set (declared_retirements items)"
    and ok: "retirement_refusal (observed_times items) (who, at, ev_id item) = None"
    unfolding retired_by_def supersessions_def Let_def fst_conv foldl_update_None by auto
  from w obtain later where l: "later \<in> set items" "at = ev_at later" "ev_id item \<noteq> []" "ev_id later \<noteq> []"
      "ev_id item \<in> set (map trim_space (take MaxSupersededRecords (ev_Supersedes later)))"
    by (auto simp: declared_retirements_def)
  from ok observed_times_distinct [OF d i l(3)] l(2) have "ev_at item < ev_at later"
    by (simp add: retirement_refusal_def split: if_splits)
  with l show ?thesis by blast
qed

lemma newest_not_retired:
  assumes d: "distinct (map ev_id (filter (\<lambda>x. ev_id x \<noteq> []) items))" and "items \<noteq> []"
  shows "\<exists>item \<in> set items. \<not> retired_by (fst (supersessions items)) item"
proof -
  let ?m = "Max (ev_at ` set items)"
  have "?m \<in> ev_at ` set items" using assms(2) by (intro Max_in) auto
  then obtain item where i: "item \<in> set items" "ev_at item = ?m" by auto
  have "\<not> ev_at item < ev_at later" if "later \<in> set items" for later
    using that i(2) by (simp add: not_less)
  with retired_earlier [OF d i(1)] i(1) show ?thesis by blast
qed

section \<open>The view of a claim\<close>

definition fresh_bound ::
    "InvestigationContract \<Rightarrow> Evidence list \<Rightarrow> Coverage option \<Rightarrow> gotime \<Rightarrow> gotime \<Rightarrow> ClaimRequirement \<Rightarrow> Evidence list" where
  "fresh_bound contract evidence row now clock requirement =
     filter (\<lambda>item. \<not> stale_evidence evidence (req_Freshness requirement) now clock item)
       (bound_evidence contract requirement row evidence)"

definition in_play :: "Evidence list \<Rightarrow> Evidence list" where
  "in_play fresh = filter (\<lambda>x. \<not> contradicts x) fresh @ filter contradicts fresh"

abbreviation retired_of :: "Evidence list \<Rightarrow> (string \<times> string) list" where
  "retired_of fresh \<equiv> fst (supersessions (in_play fresh))"

definition unresolved_view ::
    "Evidence list \<Rightarrow> Evidence list \<Rightarrow> Coverage option \<Rightarrow> ClaimRequirement \<Rightarrow> ClaimView" where
  "unresolved_view fresh stale row requirement =
     (let retired = supersessions (in_play fresh);
          supports = filter (\<lambda>x. \<not> contradicts x \<and> \<not> retired_by (fst retired) x) fresh;
          against = filter (\<lambda>x. contradicts x \<and> \<not> retired_by (fst retired) x) fresh
      in \<lparr>view_Requirement = requirement, view_State = claim_state row supports against,
            view_Confidence = weakestConfidence (supports @ against),
            view_Evidence = supports, view_Contradictions = against,
            view_StaleEvidence = stale, view_Superseded = filter (retired_by (fst retired)) (in_play fresh),
            view_SupersededBy = fst retired, view_SupersessionRefusals = snd retired,
            view_MissingDimensions = filter (\<lambda>d. \<not> dimensionPresent supports d \<and> \<not> dimensionPresent against d)
              (req_Dimensions requirement),
            view_Stale = (stale \<noteq> [] \<and> supports = [] \<and> against = []),
            view_Resolved = False,
            view_CoverageStatus = (case row of None \<Rightarrow> [] | Some c \<Rightarrow> cov_Status c),
            view_Detail = (case row of None \<Rightarrow> [] | Some c \<Rightarrow> cov_Detail c)\<rparr>)"

lemma claim_view_eq:
  "claim_view contract evidence row now clock requirement =
     (let view = unresolved_view (fresh_bound contract evidence row now clock requirement)
        (filter (stale_evidence evidence (req_Freshness requirement) now clock)
          (bound_evidence contract requirement row evidence)) row requirement
      in view\<lparr>view_Resolved := claimResolution view row (ctr_Completion contract)\<rparr>)"
  unfolding claim_view_def unresolved_view_def fresh_bound_def in_play_def retireInto_def Let_def split_def
    fst_conv snd_conv append_Nil filter_filter filter_append
  by (simp only: conj_assoc)

lemma claimResolution_update:
  "claimResolution (view\<lparr>view_Resolved := b\<rparr>) row completion = claimResolution view row completion"
  by (cases view) (simp only: claimResolution_def contradictionsPredateSupport_def
      materialHealthEffectPresent_def ClaimView.update_convs ClaimView.select_convs)

lemma claim_view_fields:
  fixes contract evidence row now clock requirement
  defines "fresh \<equiv> fresh_bound contract evidence row now clock requirement"
    and "view \<equiv> claim_view contract evidence row now clock requirement"
  shows "view_Evidence view = filter (\<lambda>x. \<not> contradicts x \<and> \<not> retired_by (retired_of fresh) x) fresh"
    and "view_Contradictions view = filter (\<lambda>x. contradicts x \<and> \<not> retired_by (retired_of fresh) x) fresh"
    and "view_Superseded view = filter (retired_by (retired_of fresh)) (in_play fresh)"
    and "view_StaleEvidence view = filter (stale_evidence evidence (req_Freshness requirement) now clock)
        (bound_evidence contract requirement row evidence)"
    and "view_Requirement view = requirement"
    and "view_State view = claim_state row (view_Evidence view) (view_Contradictions view)"
    and "view_MissingDimensions view = filter (\<lambda>d. \<not> dimensionPresent (view_Evidence view) d
        \<and> \<not> dimensionPresent (view_Contradictions view) d) (req_Dimensions requirement)"
    and "view_Stale view \<longleftrightarrow> view_StaleEvidence view \<noteq> [] \<and> view_Evidence view = [] \<and> view_Contradictions view = []"
    and "view_CoverageStatus view = (case row of None \<Rightarrow> [] | Some c \<Rightarrow> cov_Status c)"
    and "view_Resolved view = claimResolution view row (ctr_Completion contract)"
  unfolding view_def claim_view_eq Let_def claimResolution_update
  by (simp_all add: unresolved_view_def fresh_def Let_def)

lemma mset_in_play: "mset (in_play fresh) = mset fresh"
  by (simp add: in_play_def add.commute flip: multiset_partition)


text \<open>
  No record bound to a claim is lost: it supports the claim, contradicts it, was superseded or is
  stale, and is exactly one of these.
\<close>

theorem claim_records_partition:
  "mset (view_Evidence (claim_view contract evidence row now clock requirement))
     + mset (view_Contradictions (claim_view contract evidence row now clock requirement))
     + mset (view_Superseded (claim_view contract evidence row now clock requirement))
     + mset (view_StaleEvidence (claim_view contract evidence row now clock requirement))
   = mset (bound_evidence contract requirement row evidence)"
proof -
  let ?fresh = "fresh_bound contract evidence row now clock requirement"
  let ?r = "retired_by (retired_of ?fresh)"
  let ?s = "stale_evidence evidence (req_Freshness requirement) now clock"
  let ?live = "filter_mset (\<lambda>x. \<not> ?r x) (mset ?fresh)"
  have "mset (filter (\<lambda>x. \<not> contradicts x \<and> \<not> ?r x) ?fresh) = filter_mset (\<lambda>x. \<not> contradicts x) ?live"
    "mset (filter (\<lambda>x. contradicts x \<and> \<not> ?r x) ?fresh) = filter_mset contradicts ?live"
    by (simp_all add: filter_filter_mset conj_commute)
  moreover have "filter_mset (\<lambda>x. \<not> contradicts x) ?live + filter_mset contradicts ?live = ?live"
    by (metis add.commute multiset_partition)
  moreover have "?live + filter_mset ?r (mset ?fresh) = mset ?fresh"
    by (metis add.commute multiset_partition)
  moreover have "mset ?fresh + mset (filter ?s (bound_evidence contract requirement row evidence))
      = mset (bound_evidence contract requirement row evidence)"
    by (simp add: fresh_bound_def)
  ultimately show ?thesis unfolding claim_view_fields by (simp add: mset_in_play)
qed



section \<open>The clock of a correction chain\<close>

lemma claim_view_cong:
  assumes "\<And>x. x \<in> set evidence \<Longrightarrow> stale_evidence evidence (req_Freshness requirement) now clock x
      = stale_evidence evidence (req_Freshness requirement) now' clock x"
  shows "claim_view contract evidence row now clock requirement = claim_view contract evidence row now' clock requirement"
proof -
  have "set (bound_evidence contract requirement row evidence) \<subseteq> set evidence"
    by (auto simp: bound_evidence_def)
  with assms have "filter (stale_evidence evidence (req_Freshness requirement) now clock)
        (bound_evidence contract requirement row evidence)
      = filter (stale_evidence evidence (req_Freshness requirement) now' clock)
        (bound_evidence contract requirement row evidence)"
    "fresh_bound contract evidence row now clock requirement = fresh_bound contract evidence row now' clock requirement"
    by (auto simp: fresh_bound_def intro!: filter_cong)
  then show ?thesis unfolding claim_view_eq by simp
qed

text \<open>
  The rounds of one correction chain share the chain's clock: however much later a round runs, the
  ledger it is judged by is the one of any other round, unless a record's own shelf life ended.
\<close>

theorem chain_freshness_stable:
  assumes "\<not> IsZero chain" and "chain < now" and "chain < later"
    and "\<forall>item \<in> set evidence. IsZero (ev_ValidUntil item)
        \<or> now \<le> ev_ValidUntil item \<and> later \<le> ev_ValidUntil item"
  shows "BuildLedgerForChain contract evidence coverage now chain
       = BuildLedgerForChain contract evidence coverage later chain"
proof -
  have clock: "freshness_clock now chain = chain" "freshness_clock later chain = chain"
    using assms(1-3) by (simp_all add: freshness_clock_def)
  have "claim_view contract evidence row now chain requirement = claim_view contract evidence row later chain requirement"
    for row requirement
    by (rule claim_view_cong) (use assms(4) in \<open>auto simp: stale_evidence_def\<close>)
  then show ?thesis by (simp add: BuildLedgerForChain_def clock)
qed

section \<open>What an accepted completion rests on\<close>











text \<open>
  Recording evidence can still narrow a completion's exits: where an unknown coverage row answers a
  claim, no record at all closes it, and one fresh supporting record without the contract's
  dimension keys opens it again.
\<close>

theorem dimensionless_evidence_reopens:
  assumes kind: "rule_ConclusionKind (ctr_Completion contract) \<in> {''change_review'', ''factual_assessment''}"
    and row: "cov_Status row = ''unknown''" "\<not> blank (cov_Detail row)"
    and item: "ResolveClaimID contract (ev_ClaimID item) = Some (req_ID requirement)"
      "\<not> stale_evidence [item] (req_Freshness requirement) now clock item" "\<not> contradicts item"
    and d: "d \<in> set (req_Dimensions requirement)" "blank (dimension_value item d)"
  shows "open_claim (ctr_Completion contract) requirement
      (claim_view contract [] (Some row) now clock requirement) = None
    \<and> open_claim (ctr_Completion contract) requirement
      (claim_view contract [item] (Some row) now clock requirement) \<noteq> None"
proof
  let ?v = "claim_view contract [] (Some row) now clock requirement"
  have e: "fresh_bound contract [] (Some row) now clock requirement = []"
    by (simp add: fresh_bound_def bound_evidence_def)
  have "view_State ?v = ClaimUnknown"
    unfolding claim_view_fields(6) using row(1) by (simp add: claim_view_fields(1,2) e claim_state_def)
  moreover have "view_Resolved ?v"
    unfolding claim_view_fields(10) using row kind calculation
    by (simp add: claimResolution_def unknownCoverageAnswersClaim_def Let_def)
  ultimately show "open_claim (ctr_Completion contract) requirement ?v = None"
    by (simp add: open_claim_def Let_def)
next
  let ?v = "claim_view contract [item] (Some row) now clock requirement"
  have f: "fresh_bound contract [item] (Some row) now clock requirement = [item]"
    using item by (simp add: fresh_bound_def bound_evidence_def)
  have play: "in_play [item] = [item]" using item(3) by (simp add: in_play_def)
  have "\<not> retired_by (retired_of [item]) item"
    using newest_not_retired [of "[item]"] by (simp add: play)
  then have ev: "view_Evidence ?v = [item]" "view_Contradictions ?v = []"
    unfolding claim_view_fields f using item(3) by simp_all
  have "view_State ?v = ClaimSupported"
    unfolding claim_view_fields(6) using row(1) by (simp add: ev claim_state_def)
  moreover have "d \<in> set (view_MissingDimensions ?v)"
    unfolding claim_view_fields(7) using d by (simp add: ev dimensionPresent_def)
  then have "view_MissingDimensions ?v \<noteq> []" by auto
  ultimately show "open_claim (ctr_Completion contract) requirement ?v \<noteq> None"
    by (simp add: open_claim_def Let_def)
qed

section \<open>Witnesses\<close>

text \<open>A contract with one claim, about the hosts.\<close>

definition ex_host :: ClaimRequirement where
  "ex_host = (layer_claim ''host.current_state'' ''host'' ''q'' ''p'' ''live'' (15 * minute) [''host'', ''environment''])
     \<lparr>req_Required := True\<rparr>"

definition ex_contract :: InvestigationContract where
  "ex_contract = \<lparr>ctr_Version = ContractVersion, ctr_Effort = EffortFocusedCheck, ctr_Authority = AuthorityReadOnly,
     ctr_Objective = ''Which hosts run the job?'', ctr_Claims = [ex_host], ctr_CompletionCriteria = [],
     ctr_Completion = \<lparr>rule_AllowedStatuses = [''decision_ready'', ''blocked''],
       rule_ConclusionKind = ''factual_assessment'', rule_AllowedVerdicts = allowed_verdicts ''factual_assessment'',
       rule_RequireVerdict = False, rule_RequireDiagnosis = False, rule_AllowUnknownSLO = False\<rparr>,
     ctr_ResultOperations = []\<rparr>"

definition ex_clock :: gotime where
  "ex_clock = Time (10 * hour)"

definition ex_reading :: Evidence where
  "ex_reading = zero_Evidence\<lparr>ev_ID := ''a'', ev_ClaimID := ''host.current_state'', ev_Relation := ''supports'',
     ev_ObservedAt := ex_clock, ev_Dimensions := [(''host'', ''n1''), (''environment'', ''va1'')]\<rparr>"


definition ex_row :: Coverage where
  "ex_row = zero_Coverage\<lparr>cov_Layer := ''host'', cov_Status := ''healthy'', cov_Detail := ''both seen''\<rparr>"




theorem chain_freshness_stable_witness:
  "BuildLedgerForChain ex_contract [ex_reading] [ex_row] (time_add ex_clock minute) ex_clock
   = BuildLedgerForChain ex_contract [ex_reading] [ex_row] (time_add ex_clock (3 * hour)) ex_clock"
  by (rule chain_freshness_stable)
    (simp_all add: ex_clock_def ex_reading_def zero_defs duration_units)






definition ex_bare :: Evidence where
  "ex_bare = ex_reading\<lparr>ev_Dimensions := []\<rparr>"

definition ex_unknown :: Coverage where
  "ex_unknown = ex_row\<lparr>cov_Status := ''unknown''\<rparr>"

lemma ex_bare_facts:
  "rule_ConclusionKind (ctr_Completion ex_contract) = ''factual_assessment''"
  "ResolveClaimID ex_contract (ev_ClaimID ex_bare) = Some (req_ID ex_host)"
  "\<not> stale_evidence [ex_bare] (req_Freshness ex_host) ex_clock ex_clock ex_bare" "\<not> contradicts ex_bare"
  "''host'' \<in> set (req_Dimensions ex_host)" "blank (dimension_value ex_bare ''host'')"
  "cov_Status ex_unknown = ''unknown''" "\<not> blank (cov_Detail ex_unknown)"
  by code_simp+

theorem dimensionless_evidence_reopens_witness:
  "open_claim (ctr_Completion ex_contract) ex_host
      (claim_view ex_contract [ex_bare] (Some ex_unknown) ex_clock ex_clock ex_host) \<noteq> None"
proof -
  have "rule_ConclusionKind (ctr_Completion ex_contract) \<in> {''change_review'', ''factual_assessment''}"
    by (simp add: ex_bare_facts(1))
  from dimensionless_evidence_reopens [OF this ex_bare_facts(7,8,2,3,4,5,6)] show ?thesis by (rule conjunct2)
qed

end
