(* ===== verification/CompletionPolicy.thy ===== *)
theory CompletionPolicy
  imports Ledger
begin

text \<open>
  \<open>internal/completionpolicy/policy.go\<close>: host-authored invariants of a completion that sit above one
  investigation contract: what a scheduled result may expose, when an artifact counts as published,
  and the measurements a healthy platform verdict needs.
\<close>

section \<open>Comparing text without case\<close>

text \<open>
  \<open>strings.EqualFold\<close>: equal up to the orbits of \<open>unicode.SimpleFold\<close>.  A rune folds to its lower case;
  the entries are the orbits in which two lower-case runes share an upper case, and the dotted I,
  which folds to itself.
\<close>

definition fold_rune :: "nat \<Rightarrow> nat" where
  "fold_rune r =
     (if r = 304 then 304
      else case map_of [(383, 115), (181, 956), (962, 963), (7835, 7777), (837, 953), (8126, 953),
          (976, 946), (1013, 949), (977, 952), (1008, 954), (982, 960), (1009, 961), (981, 966),
          (7296, 1074), (7297, 1076), (7298, 1086), (7299, 1089), (7300, 1090), (7301, 1090),
          (7302, 1098), (7303, 1123), (7304, 42571)] r of
        Some c \<Rightarrow> c | None \<Rightarrow> rune_lower r)"

definition EqualFold :: "string \<Rightarrow> string \<Rightarrow> bool" where
  "EqualFold s t = (map fold_rune (runes s) = map fold_rune (runes t))"

section \<open>Scheduled results\<close>

definition PublishedArtifactCriterion :: string where
  "PublishedArtifactCriterion = ''artifact_outcome:published_and_adopted''"

definition ScheduledOutcomeOnlyCriterion :: string where
  "ScheduledOutcomeOnlyCriterion = ''scheduled_result:outcome_only''"

definition reference_cutset :: "char set" where
  "reference_cutset = set ''`'' \<union> {CHR 0x27, CHR 0x22} \<union> set ''()[]{}<>,.;:''"

definition trim_set :: "char set \<Rightarrow> string \<Rightarrow> string" where
  "trim_set cutset s = rev (dropWhile (\<lambda>c. c \<in> cutset) (rev (dropWhile (\<lambda>c. c \<in> cutset) s)))"

definition referencePart :: "string \<Rightarrow> bool" where
  "referencePart value = list_all (\<lambda>c. word_char c \<or> c \<in> set ''._/-'') value"

definition containsDigit :: "string \<Rightarrow> bool" where
  "containsDigit value = list_ex (\<lambda>c. 48 \<le> byte c \<and> byte c \<le> 57) value"

text \<open>The two sides of the first \<open>@\<close>, \<open>strings.Cut\<close>.\<close>

definition cut_at :: "string \<Rightarrow> (string \<times> string) option" where
  "cut_at s = (if CHR ''@'' \<in> set s
     then Some (takeWhile (\<lambda>c. c \<noteq> CHR ''@'') s, tl (dropWhile (\<lambda>c. c \<noteq> CHR ''@'') s)) else None)"

definition versionedReferences :: "string \<Rightarrow> (string \<times> string) list" where
  "versionedReferences text =
     concat (map (\<lambda>field.
        case cut_at (trim_set reference_cutset field) of
          None \<Rightarrow> []
        | Some (base, version) \<Rightarrow>
            if base = [] \<or> version = [] \<or> CHR ''@'' \<in> set version \<or> \<not> containsDigit version
              \<or> \<not> referencePart base \<or> \<not> referencePart version
            then [] else [(base, base @ ''@'' @ version)]) (Fields text))"

definition versionedReferenceBases :: "string \<Rightarrow> string set" where
  "versionedReferenceBases text = set (map (\<lambda>(base, full). to_lower base) (versionedReferences text))"

text \<open>The private reference a successful scheduled result exposes, if any.\<close>

definition ScheduledResultCorrection ::
    "string list \<Rightarrow> string \<Rightarrow> string \<Rightarrow> string \<Rightarrow> string \<Rightarrow> bool \<Rightarrow> string option" where
  "ScheduledResultCorrection criteria trigger action message completionStatus pendingApproval =
     (if ScheduledOutcomeOnlyCriterion \<notin> set criteria \<or> action \<noteq> ''reply''
        \<or> completionStatus \<noteq> ''decision_ready'' \<or> pendingApproval
      then None
      else map_option snd (find (\<lambda>(base, full). to_lower base \<in> versionedReferenceBases trigger)
             (versionedReferences message)))"

section \<open>Published artifacts\<close>

definition published_receipt :: "Evidence \<Rightarrow> bool" where
  "published_receipt item \<longleftrightarrow>
     ev_ClaimID item = ''task.requested_outcome'' \<and> ev_Relation item = ''supports''
     \<and> (let artifact = trim_space (dimension_value item ''artifact'') in
        ev_SourceType item = ''emisar'' \<and> \<not> blank (ev_SourceID item) \<and> artifact \<noteq> []
        \<and> \<not> blank (dimension_value item ''revision'')
        \<and> EqualFold (trim_space (ev_Target item)) artifact
        \<and> EqualFold (trim_space (dimension_value item ''artifact_state'')) ''published''
        \<and> EqualFold (trim_space (dimension_value item ''adoption_state'')) ''active'')"

text \<open>True when the completion must be corrected.\<close>

definition PublishedArtifactCorrection :: "string list \<Rightarrow> Evidence list \<Rightarrow> string \<Rightarrow> bool" where
  "PublishedArtifactCorrection criteria evidence completionStatus \<longleftrightarrow>
     \<not> (completionStatus \<noteq> ''decision_ready'' \<or> PublishedArtifactCriterion \<notin> set criteria)
     \<and> \<not> list_ex published_receipt evidence"

section \<open>Comparable measurements\<close>

type_synonym comparisonSignature = "string \<times> string \<times> string \<times> string"

text \<open>A reading the rule trusts: supporting the functional claim, from a trusted source, and recent.\<close>

definition trusted_reading :: "gotime \<Rightarrow> Evidence \<Rightarrow> bool" where
  "trusted_reading now item \<longleftrightarrow>
     ev_ClaimID item = ''application.functional_behavior'' \<and> ev_Relation item = ''supports''
     \<and> (ev_SourceType item = ''emisar'' \<or> ev_SourceType item = ''monitoring'')
     \<and> \<not> (IsZero (ev_ObservedAt item) \<or> time_add now (5 * minute) < ev_ObservedAt item
          \<or> 30 * minute < time_sub now (ev_ObservedAt item))"

definition folded_dimension :: "Evidence \<Rightarrow> string \<Rightarrow> string" where
  "folded_dimension item k = to_lower (trim_space (dimension_value item k))"

definition functional_probe :: "Evidence \<Rightarrow> bool" where
  "functional_probe item \<longleftrightarrow> folded_dimension item ''measurement_kind'' = ''functional_probe''
     \<and> \<not> blank (dimension_value item ''endpoint'')"

definition signature_of :: "Evidence \<Rightarrow> comparisonSignature" where
  "signature_of item = (folded_dimension item ''window'', folded_dimension item ''comparison_window'',
     folded_dimension item ''population'', folded_dimension item ''denominator'')"

text \<open>The trend a trusted reading records: its scope and kind.\<close>

definition trend_key :: "Evidence \<Rightarrow> (string \<times> string) option" where
  "trend_key item =
     (let scope = folded_dimension item ''measurement_scope''; kind = folded_dimension item ''measurement_kind'' in
      if functional_probe item then None
      else if scope \<notin> {''broad'', ''service''} \<or> blank (dimension_value item ''window'')
        \<or> blank (dimension_value item ''comparison_window'') \<or> blank (dimension_value item ''population'')
        \<or> blank (dimension_value item ''denominator'')
      then None
      else if kind = ''error_rate'' \<or> kind = ''timeout_rate'' then Some (scope, kind) else None)"

definition recorded_trends :: "gotime \<Rightarrow> Evidence list \<Rightarrow> string \<times> string \<Rightarrow> comparisonSignature option" where
  "recorded_trends now evidence =
     foldl (\<lambda>trends item. case trend_key item of None \<Rightarrow> trends | Some k \<Rightarrow> trends(k \<mapsto> signature_of item))
       (\<lambda>_. None) (filter (trusted_reading now) evidence)"

datatype TrendCorrection = NoTrendCorrection | MissingTrends "string list" | IncomparableTrends string

definition trend_keys :: "(string \<times> string) list" where
  "trend_keys = [(''broad'', ''error_rate''), (''broad'', ''timeout_rate''),
     (''service'', ''error_rate''), (''service'', ''timeout_rate'')]"

definition HealthyOperationalTrendCorrection :: "string \<Rightarrow> Evidence list \<Rightarrow> string \<Rightarrow> gotime \<Rightarrow> TrendCorrection" where
  "HealthyOperationalTrendCorrection effort evidence verdict now =
     (if effort \<noteq> EffortOperationalAssessment \<or> verdict \<noteq> ''healthy'' then NoTrendCorrection
      else
        let functional = list_ex functional_probe (filter (trusted_reading now) evidence);
            trends = recorded_trends now evidence;
            missing = (if functional then [] else [''a typed functional_probe''])
              @ map (\<lambda>(scope, kind). scope @ '' '' @ kind) (filter (\<lambda>k. trends k = None) trend_keys)
        in if missing \<noteq> [] then MissingTrends missing
           else case find (\<lambda>scope. trends (scope, ''error_rate'') \<noteq> trends (scope, ''timeout_rate''))
               [''broad'', ''service''] of
             Some scope \<Rightarrow> IncomparableTrends scope
           | None \<Rightarrow> NoTrendCorrection)"

definition CurrentCoverage :: "Coverage list \<Rightarrow> gotime \<Rightarrow> Coverage list" where
  "CurrentCoverage coverage now =
     map (\<lambda>item. if IsZero (cov_ObservedAt item) \<and> IsZero (cov_CreatedAt item)
                 then item\<lparr>cov_CreatedAt := now\<rparr> else item) coverage"

datatype CandidateCorrection = NotPublished | TrendProblem TrendCorrection

definition CurrentCandidateCorrection ::
    "string list \<Rightarrow> string \<Rightarrow> Evidence list \<Rightarrow> string \<Rightarrow> string \<Rightarrow> gotime \<Rightarrow> CandidateCorrection option" where
  "CurrentCandidateCorrection criteria effort evidence completionStatus completionVerdict now =
     (if PublishedArtifactCorrection criteria evidence completionStatus then Some NotPublished
      else case HealthyOperationalTrendCorrection effort evidence completionVerdict now of
        NoTrendCorrection \<Rightarrow> None
      | c \<Rightarrow> Some (TrendProblem c))"

section \<open>What a healthy verdict measured\<close>

lemma recorded_trends_source:
  assumes "recorded_trends now evidence k = Some s"
  shows "\<exists>item \<in> set evidence. trusted_reading now item \<and> trend_key item = Some k \<and> signature_of item = s"
proof -
  have "foldl (\<lambda>trends item. case trend_key item of None \<Rightarrow> trends | Some k \<Rightarrow> trends(k \<mapsto> signature_of item)) t xs k
      = Some s \<Longrightarrow> t k = Some s \<or> (\<exists>item \<in> set xs. trend_key item = Some k \<and> signature_of item = s)"
    for t xs
  proof (induction xs arbitrary: t)
    case (Cons x xs)
    from Cons.IH [OF Cons.prems [unfolded foldl_Cons]] show ?case
      by (auto split: option.splits if_splits)
  qed simp
  from this [of "\<lambda>_. None" "filter (trusted_reading now) evidence"] assms show ?thesis
    by (auto simp: recorded_trends_def)
qed

text \<open>
  A healthy platform verdict the policy lets through was measured: a trusted functional probe, and
  for the whole platform and for the service an error rate and a timeout rate over one window,
  comparison window, population and denominator, all read in the last half hour.
\<close>

theorem healthy_verdict_is_measured:
  assumes "HealthyOperationalTrendCorrection EffortOperationalAssessment evidence ''healthy'' now = NoTrendCorrection"
  shows "(\<exists>probe \<in> set evidence. trusted_reading now probe \<and> functional_probe probe)
    \<and> (\<forall>scope \<in> {''broad'', ''service''}. \<exists>e \<in> set evidence. \<exists>t \<in> set evidence.
         trusted_reading now e \<and> trend_key e = Some (scope, ''error_rate'')
         \<and> trusted_reading now t \<and> trend_key t = Some (scope, ''timeout_rate'')
         \<and> signature_of e = signature_of t)"
proof -
  let ?t = "recorded_trends now evidence"
  let ?f = "list_ex functional_probe (filter (trusted_reading now) evidence)"
  let ?missing = "(if ?f then [] else [''a typed functional_probe''])
      @ map (\<lambda>(scope, kind). scope @ '' '' @ kind) (filter (\<lambda>k. ?t k = None) trend_keys)"
  let ?odd = "find (\<lambda>scope. ?t (scope, ''error_rate'') \<noteq> ?t (scope, ''timeout_rate'')) [''broad'', ''service'']"
  note h = assms [unfolded HealthyOperationalTrendCorrection_def Let_def]
  have m: "?missing = []" using h by (rule_tac ccontr) simp
  have "?odd = None" using h m by (cases ?odd) simp_all
  then have same: "?t (scope, ''error_rate'') = ?t (scope, ''timeout_rate'')"
    if "scope \<in> {''broad'', ''service''}" for scope
    using that unfolding find_None_iff by auto
  from m have f: ?f by (cases ?f) simp_all
  from m have n: "filter (\<lambda>k. ?t k = None) trend_keys = []" by simp
  have "\<exists>e \<in> set evidence. \<exists>t \<in> set evidence.
         trusted_reading now e \<and> trend_key e = Some (scope, ''error_rate'')
         \<and> trusted_reading now t \<and> trend_key t = Some (scope, ''timeout_rate'')
         \<and> signature_of e = signature_of t"
    if scope: "scope \<in> {''broad'', ''service''}" for scope
  proof -
    have "?t (scope, ''error_rate'') \<noteq> None"
      using n scope by (auto simp: trend_keys_def split: if_splits)
    then obtain s where s: "?t (scope, ''error_rate'') = Some s" by blast
    with same [OF scope] have t: "?t (scope, ''timeout_rate'') = Some s" by simp
    from recorded_trends_source [OF s] obtain e where e: "e \<in> set evidence" "trusted_reading now e"
      "trend_key e = Some (scope, ''error_rate'')" "signature_of e = s" by blast
    from recorded_trends_source [OF t] obtain r where r: "r \<in> set evidence" "trusted_reading now r"
      "trend_key r = Some (scope, ''timeout_rate'')" "signature_of r = s" by blast
    show ?thesis
      by (rule bexI [OF _ e(1)], rule bexI [OF _ r(1)]) (simp add: e r)
  qed
  moreover have "\<exists>probe \<in> set evidence. trusted_reading now probe \<and> functional_probe probe"
    using f by (auto simp: list_ex_iff)
  ultimately show ?thesis by blast
qed

text \<open>Five readings of the last minute.\<close>

definition ex_now :: gotime where
  "ex_now = Time (10 * hour)"

definition ex_measure :: "string \<Rightarrow> string \<Rightarrow> Evidence" where
  "ex_measure scope kind = zero_Evidence\<lparr>ev_ClaimID := ''application.functional_behavior'',
     ev_Relation := ''supports'', ev_SourceType := ''monitoring'', ev_ObservedAt := ex_now,
     ev_Dimensions := [(''service'', ''pay''), (''environment'', ''prod''), (''measurement_kind'', kind), (''measurement_scope'', scope), (''endpoint'', ''/pay''),
       (''window'', ''5m''), (''comparison_window'', ''1d''), (''population'', ''all''), (''denominator'', ''req'')]\<rparr>"

definition ex_measured :: "Evidence list" where
  "ex_measured = [ex_measure [] ''functional_probe'', ex_measure ''broad'' ''error_rate'',
     ex_measure ''Broad'' ''timeout_rate'', ex_measure ''service'' ''error_rate'', ex_measure ''service'' ''timeout_rate'']"

lemma ex_measured_accepted:
  "HealthyOperationalTrendCorrection EffortOperationalAssessment ex_measured ''healthy'' ex_now = NoTrendCorrection"
  by code_simp

theorem healthy_verdict_is_measured_witness:
  "\<exists>e \<in> set ex_measured. trend_key e = Some (''service'', ''timeout_rate'')"
  using healthy_verdict_is_measured [OF ex_measured_accepted] by blast

end
