(* ===== verification/Completion.thy ===== *)
theory Completion
  imports CompletionPolicy
begin

text \<open>
  Completion validation and correction, \<open>internal/investigation/completion.go\<close> and \<open>open_goals.go\<close>.
  A correction's prose is a constructor with the values the code puts in it.
\<close>

section \<open>The completion a turn claims\<close>

record CapabilityGap =
  gap_Capability :: string
  gap_Status :: string
  gap_PackID :: string
  gap_PackRef :: string
  gap_EvidenceRefs :: "string list"
  gap_Recommendation :: string

record RecheckDirective =
  rec_Key :: string
  rec_Reason :: string
  rec_AfterSeconds :: int
  rec_AdditionalAttempts :: int

record CompletionAssessment =
  cmp_Status :: string
  cmp_Verdict :: string
  cmp_Summary :: string
  cmp_MaterialGaps :: "string list"
  cmp_BlockerKind :: string
  cmp_Blocker :: string
  cmp_Attempts :: "string list"
  cmp_NextAction :: string
  cmp_Recheck :: "RecheckDirective option"
  cmp_CapabilityGaps :: "CapabilityGap list"

datatype GapError = GapCapability | GapNoEvidence | GapEvidenceSize | GapRecommendation | GapPackSize
  | GapNoPackID | GapPackNamed | GapStatus string

datatype CompletionError = ManyGaps | ManyAttempts | ManyCapabilityGaps | GapTooLong | BadGap nat GapError
  | FieldBounds | BlockerProse | NoSummary | GapsReverseVerdict | ReadyWithBlocker | ReadyWithRecheck
  | BlockedVerdict | BlockedIncomplete | BlockerKindUnknown string | CapabilityGapsRequired
  | MissingWorkflow | RecheckNotTransient | RecheckKey | RecheckReason | RecheckDelay | RecheckAttempts
  | StatusUnsupported string | VerdictUnsupported string

section \<open>Normal form\<close>

text \<open>The two loops that trim, drop and deduplicate, for a limit on the number kept.\<close>

definition bounded_unique :: "nat \<Rightarrow> string list \<Rightarrow> string list" where
  "bounded_unique limit values =
     take limit (first_occurrences [] (filter (\<lambda>v. v \<noteq> [] \<and> length v \<le> 500) (map trim_space values)))"

definition normalizedCompletionGaps :: "string list \<Rightarrow> string list" where
  "normalizedCompletionGaps values = bounded_unique 20 values"

definition normalizedCompletionAttempts :: "string list \<Rightarrow> string list" where
  "normalizedCompletionAttempts values = bounded_unique 12 values"

definition normalized_gap :: "CapabilityGap \<Rightarrow> CapabilityGap" where
  "normalized_gap gap =
     \<lparr>gap_Capability = trim_space (gap_Capability gap), gap_Status = trim_space (gap_Status gap),
      gap_PackID = trim_space (gap_PackID gap), gap_PackRef = trim_space (gap_PackRef gap),
      gap_EvidenceRefs = normalizedCompletionAttempts (gap_EvidenceRefs gap),
      gap_Recommendation = trim_space (gap_Recommendation gap)\<rparr>"

definition normalizeCompletionAssessment :: "CompletionAssessment \<Rightarrow> CompletionAssessment" where
  "normalizeCompletionAssessment c =
     \<lparr>cmp_Status = trim_space (cmp_Status c), cmp_Verdict = trim_space (cmp_Verdict c),
      cmp_Summary = trim_space (cmp_Summary c),
      cmp_MaterialGaps = normalizedCompletionGaps (cmp_MaterialGaps c),
      cmp_BlockerKind = trim_space (cmp_BlockerKind c), cmp_Blocker = trim_space (cmp_Blocker c),
      cmp_Attempts = normalizedCompletionAttempts (cmp_Attempts c),
      cmp_NextAction = trim_space (cmp_NextAction c),
      cmp_Recheck = map_option (\<lambda>r. r\<lparr>rec_Key := trim_space (rec_Key r), rec_Reason := trim_space (rec_Reason r)\<rparr>)
        (cmp_Recheck c),
      cmp_CapabilityGaps = map normalized_gap (cmp_CapabilityGaps c)\<rparr>"

section \<open>Bounds\<close>

definition validateCapabilityGap :: "CapabilityGap \<Rightarrow> GapError option" where
  "validateCapabilityGap gap =
     (if gap_Capability gap = [] \<or> 240 < length (gap_Capability gap) then Some GapCapability
      else if gap_EvidenceRefs gap = [] \<or> 8 < length (gap_EvidenceRefs gap) then Some GapNoEvidence
      else if list_ex (\<lambda>ref. 240 < length ref) (gap_EvidenceRefs gap) then Some GapEvidenceSize
      else if gap_Recommendation gap = [] \<or> 500 < length (gap_Recommendation gap) then Some GapRecommendation
      else if 120 < length (gap_PackID gap) \<or> 300 < length (gap_PackRef gap) then Some GapPackSize
      else if gap_Status gap \<in> {''not_installed'', ''not_trusted'', ''not_advertised'', ''incompatible''}
      then (if gap_PackID gap = [] then Some GapNoPackID else None)
      else if gap_Status gap = ''not_found''
      then (if gap_PackID gap \<noteq> [] \<or> gap_PackRef gap \<noteq> [] then Some GapPackNamed else None)
      else Some (GapStatus (gap_Status gap)))"

text \<open>The first bad gap, counted from one.\<close>

fun first_bad_gap :: "nat \<Rightarrow> CapabilityGap list \<Rightarrow> (nat \<times> GapError) option" where
  "first_bad_gap n [] = None"
| "first_bad_gap n (gap # gaps) =
     (case validateCapabilityGap gap of Some e \<Rightarrow> Some (n, e) | None \<Rightarrow> first_bad_gap (n + 1) gaps)"

definition boundCompletionAssessment ::
    "CompletionAssessment \<Rightarrow> CompletionError option \<times> CompletionAssessment" where
  "boundCompletionAssessment c =
     (if 20 < length (cmp_MaterialGaps c) then (Some ManyGaps, c)
      else if 12 < length (cmp_Attempts c) then (Some ManyAttempts, c)
      else if 8 < length (cmp_CapabilityGaps c) then (Some ManyCapabilityGaps, c)
      else if list_ex (\<lambda>gap. 500 < length (trim_space gap)) (cmp_MaterialGaps c) then (Some GapTooLong, c)
      else
        let c = c\<lparr>cmp_MaterialGaps := normalizedCompletionGaps (cmp_MaterialGaps c),
                  cmp_Attempts := normalizedCompletionAttempts (cmp_Attempts c)\<rparr>
        in case first_bad_gap 1 (cmp_CapabilityGaps c) of
          Some (n, e) \<Rightarrow> (Some (BadGap n e), c)
        | None \<Rightarrow>
            if 32 < length (cmp_Status c) \<or> 32 < length (cmp_Verdict c) \<or> 1000 < length (cmp_Summary c)
              \<or> 64 < length (cmp_BlockerKind c) \<or> 1000 < length (cmp_Blocker c) \<or> 1000 < length (cmp_NextAction c)
            then (Some FieldBounds, c)
            else if cmp_Blocker c \<noteq> [] then (Some BlockerProse, c)
            else (None, c))"

section \<open>A decision-ready completion\<close>

definition gapsCannotReverseVerdict :: "CompletionAssessment \<Rightarrow> bool" where
  "gapsCannotReverseVerdict c \<longleftrightarrow>
     cmp_Verdict c \<in> {''degraded'', ''unhealthy'', ''in_progress'', ''needs_review'', ''inconclusive'',
       ''not_confirmed'', ''partial''}
     \<or> cmp_Verdict c = ''failed'' \<and> \<not> blank (cmp_NextAction c)"

definition validateDecisionReadyCompletion :: "CompletionAssessment \<Rightarrow> CompletionError option" where
  "validateDecisionReadyCompletion c =
     (if cmp_Summary c = [] then Some NoSummary
      else if cmp_MaterialGaps c \<noteq> [] \<and> \<not> gapsCannotReverseVerdict c then Some GapsReverseVerdict
      else if cmp_BlockerKind c \<noteq> [] \<or> cmp_Attempts c \<noteq> [] then Some ReadyWithBlocker
      else if cmp_Recheck c \<noteq> None then Some ReadyWithRecheck
      else None)"

section \<open>A blocked completion\<close>

definition validCompletionBlockerKind :: "string \<Rightarrow> bool" where
  "validCompletionBlockerKind value \<longleftrightarrow>
     value \<in> {''source_unavailable'', ''access_denied'', ''operator_input_required'', ''authority_boundary'',
       ''tool_failure'', ''capability_unavailable''}"

text \<open>\<open>^[A-Za-z0-9][A-Za-z0-9:._/@-]{0,159}$\<close>.\<close>

definition alnum :: "char \<Rightarrow> bool" where
  "alnum c \<longleftrightarrow> word_char c \<and> c \<noteq> CHR ''_''"

definition transientRecheckKey :: "string \<Rightarrow> bool" where
  "transientRecheckKey key =
     (case key of [] \<Rightarrow> False
      | c # cs \<Rightarrow> alnum c \<and> length cs \<le> 159 \<and> list_all (\<lambda>d. alnum d \<or> d \<in> set '':._/@-'') cs)"

text \<open>
  The pattern of a blocker whose content is a workflow lookup that missed: a word for the artifact and
  a word for the miss, each between word boundaries, in either order, with at most 80 runes and no
  full stop between them.  A letter of the pattern matches its simple case folding.
\<close>

definition rune_matches :: "char \<Rightarrow> nat \<Rightarrow> bool" where
  "rune_matches c r \<longleftrightarrow> (r < 128 \<and> rune_lower r = byte c) \<or> (c = CHR ''k'' \<and> r = 8490) \<or> (c = CHR ''s'' \<and> r = 383)"

definition word_rune :: "nat \<Rightarrow> bool" where
  "word_rune r \<longleftrightarrow> 48 \<le> r \<and> r \<le> 57 \<or> 65 \<le> r \<and> r \<le> 90 \<or> 97 \<le> r \<and> r \<le> 122 \<or> r = 95"

definition word_boundary :: "nat list \<Rightarrow> nat \<Rightarrow> bool" where
  "word_boundary rs i \<longleftrightarrow>
     (0 < i \<and> i \<le> length rs \<and> word_rune (rs ! (i - 1))) \<noteq> (i < length rs \<and> word_rune (rs ! i))"

definition word_at :: "string \<Rightarrow> nat list \<Rightarrow> nat \<Rightarrow> bool" where
  "word_at w rs i \<longleftrightarrow>
     i + length w \<le> length rs \<and> list_all2 rune_matches w (take (length w) (drop i rs))
     \<and> word_boundary rs i \<and> word_boundary rs (i + length w)"

definition artifact_words :: "string list" where
  "artifact_words = [''runbook'', ''playbook'', ''workflow'', ''saved query'', ''dashboard'']"

definition missing_words :: "string list" where
  "missing_words = [''notfound'', ''not found'', ''missing'', ''unavailable'', ''does not exist'',
     ''no longer exists'', ''could not be found'']"

definition near_words :: "string list \<Rightarrow> string list \<Rightarrow> nat list \<Rightarrow> bool" where
  "near_words us vs rs =
     list_ex (\<lambda>i. list_ex (\<lambda>u. word_at u rs i
        \<and> list_ex (\<lambda>gap. 46 \<notin> set (take gap (drop (i + length u) rs))
              \<and> list_ex (\<lambda>v. word_at v rs (i + length u + gap)) vs) [0..<81]) us) [0..<length rs]"

definition missingWorkflowBlocker :: "string \<Rightarrow> bool" where
  "missingWorkflowBlocker gap =
     (near_words artifact_words missing_words (runes gap) \<or> near_words missing_words artifact_words (runes gap))"

definition refuseMissingWorkflowAsBlocker :: "CompletionAssessment \<Rightarrow> bool" where
  "refuseMissingWorkflowAsBlocker c \<longleftrightarrow>
     cmp_MaterialGaps c \<noteq> [] \<and> list_all missingWorkflowBlocker (cmp_MaterialGaps c)"

definition validate_recheck :: "string \<Rightarrow> RecheckDirective \<Rightarrow> CompletionError option" where
  "validate_recheck kind r =
     (if kind \<noteq> ''source_unavailable'' \<and> kind \<noteq> ''tool_failure'' then Some RecheckNotTransient
      else if \<not> transientRecheckKey (rec_Key r) then Some RecheckKey
      else if rec_Reason r = [] \<or> 500 < length (rec_Reason r) then Some RecheckReason
      else if rec_AfterSeconds r < 30 \<or> 1800 < rec_AfterSeconds r then Some RecheckDelay
      else if rec_AdditionalAttempts r < 1 \<or> 4 < rec_AdditionalAttempts r then Some RecheckAttempts
      else None)"

definition validateBlockedCompletion :: "CompletionAssessment \<Rightarrow> CompletionError option" where
  "validateBlockedCompletion c =
     (if cmp_Verdict c \<noteq> [] then Some BlockedVerdict
      else if cmp_Summary c = [] \<or> cmp_MaterialGaps c = [] \<or> cmp_BlockerKind c = [] \<or> cmp_Attempts c = []
        \<or> cmp_NextAction c = [] then Some BlockedIncomplete
      else if \<not> validCompletionBlockerKind (cmp_BlockerKind c) then Some (BlockerKindUnknown (cmp_BlockerKind c))
      else if cmp_BlockerKind c = ''capability_unavailable'' \<and> cmp_CapabilityGaps c = []
      then Some CapabilityGapsRequired
      else if refuseMissingWorkflowAsBlocker c then Some MissingWorkflow
      else case cmp_Recheck c of None \<Rightarrow> None | Some r \<Rightarrow> validate_recheck (cmp_BlockerKind c) r)"

definition validCompletionVerdict :: "string \<Rightarrow> bool" where
  "validCompletionVerdict value \<longleftrightarrow>
     value \<in> {''healthy'', ''degraded'', ''unhealthy'', ''in_progress'', ''needs_review'', ''succeeded'', ''failed'',
       ''inconclusive'', ''confirmed'', ''not_confirmed'', ''completed'', ''no_change'', ''partial''}"

text \<open>The completion is normalised in place; the first component is the error.\<close>

definition ValidateCompletion :: "CompletionAssessment \<Rightarrow> CompletionError option \<times> CompletionAssessment" where
  "ValidateCompletion completion =
     (case boundCompletionAssessment (normalizeCompletionAssessment completion) of
        (Some e, c) \<Rightarrow> (Some e, c)
      | (None, c) \<Rightarrow>
          let shape = (if cmp_Status c = ''decision_ready'' then validateDecisionReadyCompletion c
            else if cmp_Status c = ''blocked'' then validateBlockedCompletion c
            else Some (StatusUnsupported (cmp_Status c)))
          in case shape of
            Some e \<Rightarrow> (Some e, c)
          | None \<Rightarrow>
              if cmp_Verdict c \<noteq> [] \<and> \<not> validCompletionVerdict (cmp_Verdict c)
              then (Some (VerdictUnsupported (cmp_Verdict c)), c)
              else (None, c))"

section \<open>Evidence of a capability gap\<close>

definition containsFold :: "string \<Rightarrow> string \<Rightarrow> bool" where
  "containsFold value fragment = contains (to_lower value) (to_lower fragment)"

datatype GapEvidenceError = GapSource nat string | GapUnknownEvidence nat string | GapPackUnseen nat string

definition gap_text :: "Evidence \<Rightarrow> string" where
  "gap_text item = join [ev_Claim item, ev_Observation item, ev_SourceName item, ev_Target item, ev_ID item,
     ev_SourceID item] '' ''"

text \<open>The records a reference names, and the check of one reference: an error, or whether the pack was seen.\<close>

definition referenced :: "string \<Rightarrow> Evidence list \<Rightarrow> Evidence list" where
  "referenced ref evidence =
     filter (\<lambda>item. ref = ev_ID item \<or> ref = ev_SourceID item \<or> ref = ev_SourceName item) evidence"

definition check_reference ::
    "nat \<Rightarrow> CapabilityGap \<Rightarrow> Evidence list \<Rightarrow> string \<Rightarrow> GapEvidenceError + bool" where
  "check_reference n gap evidence ref =
     (let items = referenced ref evidence in
      if list_ex (\<lambda>item. ev_SourceType item \<noteq> ''emisar'' \<and> ev_SourceType item \<noteq> ''repository'') items
      then Inl (GapSource n ref)
      else if items = [] then Inl (GapUnknownEvidence n ref)
      else Inr (gap_PackID gap \<noteq> [] \<and> list_ex (\<lambda>item. containsFold (gap_text item) (gap_PackID gap)) items))"

fun check_references ::
    "nat \<Rightarrow> CapabilityGap \<Rightarrow> Evidence list \<Rightarrow> bool \<Rightarrow> string list \<Rightarrow> GapEvidenceError + bool" where
  "check_references n gap evidence seen [] = Inr seen"
| "check_references n gap evidence seen (ref # refs) =
     and_then (check_reference n gap evidence ref) (\<lambda>s. check_references n gap evidence (seen \<or> s) refs)"

fun check_gaps :: "nat \<Rightarrow> Evidence list \<Rightarrow> CapabilityGap list \<Rightarrow> GapEvidenceError option" where
  "check_gaps n evidence [] = None"
| "check_gaps n evidence (gap # gaps) =
     (case check_references n gap evidence (gap_PackID gap = []) (gap_EvidenceRefs gap) of
        Inl e \<Rightarrow> Some e
      | Inr seen \<Rightarrow> if seen then check_gaps (n + 1) evidence gaps else Some (GapPackUnseen n (gap_PackID gap)))"

definition ValidateCapabilityGapEvidence ::
    "CompletionAssessment option \<Rightarrow> Evidence list \<Rightarrow> GapEvidenceError option" where
  "ValidateCapabilityGapEvidence completion evidence =
     (case completion of None \<Rightarrow> None | Some c \<Rightarrow> check_gaps 1 evidence (cmp_CapabilityGaps c))"

section \<open>The correction of a completion\<close>

datatype Correction = NoCorrection
  | CompletionRequired | StatusNotFinal | NoDecisionSummary | VerdictRequired "string list"
  | NoVerdictVocabulary string | VerdictMismatch string string "string list"
  | UnexplainedUnknown string | CoverageMissing "string list" | UnknownCoverage
  | BlockedNoGaps | BlockedKind | BlockedNoAttempts | BlockedNoNextAction
  | NotHealthVerdict | UnhealthyNeeded | DegradedNeeded | ProblemUnverified | HealthyOverUnknown
  | HealthyWithoutFunction | ChangeNotAssessed | SucceededUnproven | FailedUnproven | InProgressTerminal
  | NoTypedEvidence "string list" | CoverageClaimMissing string
  | ArtifactNotPublished | TrendsMissing TrendCorrection | LedgerOpen string

text \<open>A later row of a layer replaces an earlier one.\<close>

definition last_rows :: "Coverage list \<Rightarrow> string \<Rightarrow> Coverage option" where
  "last_rows coverage = foldl (\<lambda>m item. m(cov_Layer item \<mapsto> item)) (\<lambda>_. None) coverage"

fun assess_layers ::
    "(string \<Rightarrow> Coverage option) \<Rightarrow> string list \<Rightarrow> string list \<Rightarrow> string list \<Rightarrow> Correction + string list \<times> string list" where
  "assess_layers covered missing unknown [] = Inr (missing, unknown)"
| "assess_layers covered missing unknown (layer # layers) =
     (case covered layer of
        None \<Rightarrow> assess_layers covered (missing @ [layer]) unknown layers
      | Some item \<Rightarrow>
          if cov_Status item = ''unknown'' then
            (if blank (cov_Detail item) then Inl (UnexplainedUnknown layer)
             else assess_layers covered missing (unknown @ [layer]) layers)
          else assess_layers covered missing unknown layers)"

definition episodeCoverageState :: "WorkEpisode \<Rightarrow> Coverage list \<Rightarrow> Correction + string list" where
  "episodeCoverageState episode coverage =
     (case assess_layers (last_rows coverage) [] [] (ep_RequiredCoverage episode) of
        Inl e \<Rightarrow> Inl e
      | Inr (missing, unknown) \<Rightarrow> if missing \<noteq> [] then Inl (CoverageMissing missing) else Inr unknown)"

definition unknownCoverageCorrection ::
    "InvestigationContract \<Rightarrow> CompletionAssessment \<Rightarrow> (string \<Rightarrow> Coverage option) \<Rightarrow> string list \<Rightarrow> Correction" where
  "unknownCoverageCorrection contract c covered unknown =
     (if cmp_Status c \<noteq> ''decision_ready'' \<or> cmp_MaterialGaps c = [] \<and> unknown = [] then NoCorrection
      else
        let kind = rule_ConclusionKind (ctr_Completion contract); verdict = cmp_Verdict c;
            boundedTerminalFailure = (kind = ''change_review'' \<and> verdict = ''failed''
              \<and> (case covered ''change'' of None \<Rightarrow> False | Some row \<Rightarrow> cov_Status row = ''unhealthy'')
              \<and> \<not> blank (cmp_NextAction c));
            unknownAllowed = (kind = ''operational_health''
              \<or> unknownLayersAnswered contract unknown
                \<and> (kind = ''change_review''
                     \<and> (verdict \<in> {''in_progress'', ''needs_review'', ''inconclusive''} \<or> boundedTerminalFailure)
                   \<or> kind = ''factual_assessment'' \<and> verdict \<in> {[], ''not_confirmed'', ''inconclusive''}))
        in if \<not> unknownAllowed \<or> cmp_MaterialGaps c \<noteq> [] \<and> \<not> gapsCannotReverseVerdict c
           then UnknownCoverage else NoCorrection)"

definition changeReviewVerdictCorrection :: "CompletionAssessment \<Rightarrow> (string \<Rightarrow> Coverage option) \<Rightarrow> Correction" where
  "changeReviewVerdictCorrection c covered =
     (case covered ''change'' of
        None \<Rightarrow> ChangeNotAssessed
      | Some change \<Rightarrow>
          if cmp_Verdict c = ''succeeded'' then (if cov_Status change \<noteq> ''healthy'' then SucceededUnproven else NoCorrection)
          else if cmp_Verdict c = ''failed'' then (if cov_Status change \<noteq> ''unhealthy'' then FailedUnproven else NoCorrection)
          else if cmp_Verdict c = ''in_progress''
          then (if cov_Status change \<noteq> ''unknown'' then InProgressTerminal else NoCorrection)
          else NoCorrection)"

definition blockedCompletionCorrection :: "CompletionAssessment \<Rightarrow> Correction" where
  "blockedCompletionCorrection c =
     (if cmp_MaterialGaps c = [] then BlockedNoGaps
      else if \<not> validCompletionBlockerKind (cmp_BlockerKind c) then BlockedKind
      else if cmp_Attempts c = [] then BlockedNoAttempts
      else if blank (cmp_NextAction c) then BlockedNoNextAction
      else NoCorrection)"

text \<open>The statuses of the covered rows: the code ranges over the map of the last row of each layer.\<close>

definition covered_status :: "Coverage list \<Rightarrow> string \<Rightarrow> bool" where
  "covered_status coverage status =
     list_ex (\<lambda>item. last_rows coverage (cov_Layer item) = Some item \<and> cov_Status item = status) coverage"

definition operationalHealthVerdictCorrection :: "string \<Rightarrow> Coverage list \<Rightarrow> string list \<Rightarrow> Correction" where
  "operationalHealthVerdictCorrection verdict coverage unknown =
     (let hasDegraded = covered_status coverage ''degraded''; hasUnhealthy = covered_status coverage ''unhealthy'' in
      if hasUnhealthy \<and> verdict \<noteq> ''unhealthy'' then UnhealthyNeeded
      else if \<not> hasUnhealthy \<and> hasDegraded \<and> verdict \<noteq> ''degraded'' then DegradedNeeded
      else if \<not> hasUnhealthy \<and> \<not> hasDegraded \<and> verdict \<noteq> ''healthy'' then ProblemUnverified
      else if verdict \<noteq> ''healthy'' then NoCorrection
      else if list_ex (\<lambda>layer. layer \<noteq> ''slo'') unknown then HealthyOverUnknown
      else case last_rows coverage ''application'' of
        None \<Rightarrow> HealthyWithoutFunction
      | Some row \<Rightarrow> if cov_Status row \<noteq> ''healthy'' then HealthyWithoutFunction else NoCorrection)"

definition validOperationalHealthVerdict :: "string \<Rightarrow> bool" where
  "validOperationalHealthVerdict value \<longleftrightarrow> value \<in> {''healthy'', ''degraded'', ''unhealthy''}"

text \<open>The checks of status, summary and verdict vocabulary.\<close>

definition vocabulary_correction :: "CompletionRule \<Rightarrow> CompletionAssessment \<Rightarrow> Correction" where
  "vocabulary_correction rule c =
     (if cmp_Status c \<noteq> ''decision_ready'' \<and> cmp_Status c \<noteq> ''blocked'' then StatusNotFinal
      else if blank (cmp_Summary c) then NoDecisionSummary
      else if cmp_Status c \<noteq> ''decision_ready'' then NoCorrection
      else if rule_RequireVerdict rule \<and> blank (cmp_Verdict c) then VerdictRequired (rule_AllowedVerdicts rule)
      else if cmp_Verdict c \<noteq> [] \<and> rule_AllowedVerdicts rule = [] then NoVerdictVocabulary (rule_ConclusionKind rule)
      else if cmp_Verdict c \<noteq> [] \<and> cmp_Verdict c \<notin> set (rule_AllowedVerdicts rule)
      then VerdictMismatch (cmp_Verdict c) (rule_ConclusionKind rule) (rule_AllowedVerdicts rule)
      else NoCorrection)"

text \<open>The checks of a decision-ready completion that follow those of its coverage.\<close>

definition verdict_correction ::
    "WorkEpisode \<Rightarrow> Coverage list \<Rightarrow> CompletionAssessment \<Rightarrow> string list \<Rightarrow> Correction" where
  "verdict_correction episode coverage c unknown =
     (let health = (if ep_Effort episode \<noteq> EffortOperationalAssessment then NoCorrection
        else if \<not> validOperationalHealthVerdict (cmp_Verdict c) then NotHealthVerdict
        else operationalHealthVerdictCorrection (cmp_Verdict c) coverage unknown)
      in if health \<noteq> NoCorrection then health
         else if rule_ConclusionKind (ctr_Completion (Compile episode)) = ''change_review''
         then changeReviewVerdictCorrection c (last_rows coverage)
         else NoCorrection)"

definition CompletionCorrection ::
    "WorkEpisode \<Rightarrow> string \<Rightarrow> Coverage list \<Rightarrow> CompletionAssessment option \<Rightarrow> Correction" where
  "CompletionCorrection episode action coverage completion =
     (if action \<noteq> ''reply'' then NoCorrection
      else
        let contract = Compile episode; rule = ctr_Completion contract;
            requireCompletion = (rule_RequireVerdict rule
              \<or> ep_Effort episode \<in> {EffortOperationalAssessment, EffortIncidentInvestigation})
        in case completion of
          None \<Rightarrow> if requireCompletion then CompletionRequired else NoCorrection
        | Some c \<Rightarrow>
            if vocabulary_correction rule c \<noteq> NoCorrection then vocabulary_correction rule c
            else case episodeCoverageState episode coverage of
              Inl e \<Rightarrow> e
            | Inr unknown \<Rightarrow>
                if unknownCoverageCorrection contract c (last_rows coverage) unknown \<noteq> NoCorrection
                then unknownCoverageCorrection contract c (last_rows coverage) unknown
                else if cmp_Status c \<noteq> ''decision_ready'' then blockedCompletionCorrection c
                else verdict_correction episode coverage c unknown)"

section \<open>The correction of a completion's claims\<close>

definition ClaimShapeCorrectionForContract ::
    "InvestigationContract \<Rightarrow> Evidence list \<Rightarrow> Coverage list \<Rightarrow> bool \<Rightarrow> Correction" where
  "ClaimShapeCorrectionForContract contract evidence coverage strict =
     (let typed = list_ex (\<lambda>item. claimRequired contract (ev_ClaimID item)) evidence in
      if strict \<and> ctr_Claims contract \<noteq> [] \<and> \<not> typed then NoTypedEvidence (RequiredClaimIDs contract)
      else if \<not> typed then NoCorrection
      else case find (\<lambda>r. req_Required r \<and> \<not> list_ex (\<lambda>item. cov_Layer item = req_Layer r
               \<and> ClaimIDsAnswer contract (cov_ClaimIDs item) (req_ID r)) coverage) (ctr_Claims contract) of
        Some r \<Rightarrow> CoverageClaimMissing (req_ID r)
      | None \<Rightarrow> NoCorrection)"

definition ClaimShapeCorrection :: "WorkEpisode \<Rightarrow> Evidence list \<Rightarrow> Coverage list \<Rightarrow> bool \<Rightarrow> Correction" where
  "ClaimShapeCorrection episode evidence coverage strict =
     ClaimShapeCorrectionForContract (Compile episode) evidence coverage strict"

definition ClaimCorrection ::
    "WorkEpisode \<Rightarrow> string \<Rightarrow> Evidence list \<Rightarrow> Coverage list \<Rightarrow> CompletionAssessment option
     \<Rightarrow> gotime \<Rightarrow> gotime \<Rightarrow> bool \<Rightarrow> Correction" where
  "ClaimCorrection episode action evidence coverage completion now chainStartedAt strict =
     (case completion of
        None \<Rightarrow> NoCorrection
      | Some c \<Rightarrow>
          if action \<noteq> ''reply'' \<or> cmp_Status c = ''blocked'' then NoCorrection
          else
            let contract = Compile episode;
                typed = list_ex (\<lambda>item. claimRequired contract (ev_ClaimID item)) evidence;
                shape = ClaimShapeCorrection episode evidence coverage strict;
                trend = HealthyOperationalTrendCorrection (ep_Effort episode) evidence (cmp_Verdict c) now;
                claims = CompletionCorrectionFor (BuildLedgerForChain contract evidence coverage now chainStartedAt)
                  (cmp_Status c) (cmp_Verdict c)
            in if \<not> typed \<and> (\<not> strict \<or> ctr_Claims contract = []) then NoCorrection
               else if shape \<noteq> NoCorrection then shape
               else if PublishedArtifactCorrection (ep_CompletionCriteria episode) evidence (cmp_Status c)
               then ArtifactNotPublished
               else if trend \<noteq> NoTrendCorrection then TrendsMissing trend
               else if claims \<noteq> [] then LedgerOpen claims
               else NoCorrection)"

section \<open>Guidance and style\<close>

text \<open>The recommendations that are not already in the target text, with their gap's status.\<close>

definition fresh_recommendations :: "string \<Rightarrow> CapabilityGap list \<Rightarrow> (string \<times> string) list" where
  "fresh_recommendations target gaps =
     filter (\<lambda>(status, text). \<not> containsFold target text)
       (map (\<lambda>gap. (gap_Status gap,
          if gap_PackID gap \<noteq> [] \<and> \<not> containsFold (gap_Recommendation gap) (gap_PackID gap)
          then ''`'' @ gap_PackID gap @ ''`: '' @ gap_Recommendation gap else gap_Recommendation gap)) gaps)"

definition guidance_text :: "(string \<times> string) list \<Rightarrow> string" where
  "guidance_text recommendations =
     (if 1 < length recommendations
      then ''**Capability gaps**'' @ newline @ ''- '' @ join (map snd recommendations) (newline @ ''- '')
      else (if list_all (\<lambda>(status, text). status = ''not_found'') recommendations
            then ''**Capability gap:** '' else ''**Capability to add:** '') @ concat (map snd recommendations))"

text \<open>The target is the last follow-up, or the message when there is none.\<close>

definition AppendCapabilityGuidance ::
    "string \<Rightarrow> string list \<Rightarrow> CompletionAssessment option \<Rightarrow> string \<times> string list" where
  "AppendCapabilityGuidance message followups completion =
     (case completion of
        None \<Rightarrow> (message, followups)
      | Some c \<Rightarrow>
          let target = (if followups = [] then message else last followups);
              fresh = fresh_recommendations target (cmp_CapabilityGaps c);
              extended = trim_space target @ newline @ newline @ guidance_text fresh
          in if fresh = [] then (message, followups)
             else if followups = [] then (extended, followups)
             else (message, butlast followups @ [extended]))"

text \<open>\<open>strings.NewReplacer\<close> of the three marks by nothing.\<close>

fun strip_marks :: "string \<Rightarrow> string" where
  "strip_marks (c # d # cs) =
     (if c = CHR ''*'' \<and> d = CHR ''*'' \<or> c = CHR ''_'' \<and> d = CHR ''_'' then strip_marks cs
      else if c = CHR 0x60 then strip_marks (d # cs) else c # strip_marks (d # cs))"
| "strip_marks [c] = (if c = CHR 0x60 then [] else [c])"
| "strip_marks [] = []"

definition em_dash :: string where
  "em_dash = [CHR 0xE2, CHR 0x80, CHR 0x94]"

text \<open>The health label a reply outside health work opens with.\<close>

definition ConclusionLanguageCorrection :: "WorkEpisode \<Rightarrow> string \<Rightarrow> string \<Rightarrow> string option" where
  "ConclusionLanguageCorrection episode action message =
     (if action \<noteq> ''reply'' \<or> rule_ConclusionKind (ctr_Completion (Compile episode)) = ''operational_health''
      then None
      else
        let opening = takeWhile (\<lambda>c. c \<noteq> CHR 0x0A) (to_lower (trim_space message));
            opening = dropWhile (\<lambda>c. c \<in> set ''*_> '') (strip_marks opening)
        in find (\<lambda>label. opening = label \<or> has_prefix opening (label @ '':'') \<or> has_prefix opening (label @ '' -'')
             \<or> has_prefix opening (label @ '' --'') \<or> has_prefix opening (label @ '' '' @ em_dash))
           [''healthy'', ''degraded'', ''unhealthy''])"

section \<open>Goals a completion would leave open\<close>

text \<open>The goal operations of a result, as far as this check reads them.\<close>

record GoalStateOp =
  gso_GoalID :: string
  gso_State :: string

record PlannedGoal =
  plg_ID :: string
  plg_Required :: bool
  plg_RequestedOutcome :: string

record ResultOperation =
  op_Type :: string
  op_GoalState :: "GoalStateOp option"
  op_Goal :: "PlannedGoal option"

definition closed_goal :: "string \<Rightarrow> bool" where
  "closed_goal state \<longleftrightarrow> state \<in> {GoalCompleted, GoalExcluded, GoalCancelled}"

definition closedByResult :: "ResultOperation list \<Rightarrow> string set" where
  "closedByResult operations =
     set (concat (map (\<lambda>op. case op_GoalState op of
        Some g \<Rightarrow> if op_Type op = ''update_goal'' \<and> closed_goal (gso_State g) then [trim_space (gso_GoalID g)] else []
      | None \<Rightarrow> []) operations))"

definition plannedByResult :: "ResultOperation list \<Rightarrow> EpisodeGoal list" where
  "plannedByResult operations =
     concat (map (\<lambda>op. if op_Type op = ''update_goal'' \<and> op_GoalState op \<noteq> None then []
        else case op_Goal op of
          Some g \<Rightarrow> if op_Type op = ''plan_goal'' \<and> plg_Required g
            then [zero_EpisodeGoal\<lparr>goal_ID := trim_space (plg_ID g), goal_Required := True,
                    goal_State := GoalPlanned, goal_RequestedOutcome := plg_RequestedOutcome g\<rparr>]
            else []
        | None \<Rightarrow> []) operations)"

fun first_by_id :: "string list \<Rightarrow> EpisodeGoal list \<Rightarrow> EpisodeGoal list" where
  "first_by_id seen [] = []"
| "first_by_id seen (g # gs) =
     (if goal_ID g \<in> set seen then first_by_id seen gs else g # first_by_id (goal_ID g # seen) gs)"

definition goals_left_open :: "EpisodeGoal list \<Rightarrow> ResultOperation list \<Rightarrow> EpisodeGoal list" where
  "goals_left_open goals operations =
     filter (\<lambda>g. \<not> closed_goal (goal_State g))
       (first_by_id [] (filter (\<lambda>g. goal_Required g \<and> goal_ID g \<notin> closedByResult operations)
          (goals @ plannedByResult operations)))"

definition OpenRequiredGoalCorrection ::
    "EpisodeGoal list \<Rightarrow> ResultOperation list \<Rightarrow> CompletionAssessment option \<Rightarrow> string" where
  "OpenRequiredGoalCorrection goals operations completion =
     (case completion of
        None \<Rightarrow> []
      | Some c \<Rightarrow>
          let opened = goals_left_open goals operations in
          if cmp_Status c = ''blocked'' \<or> opened = [] then []
          else ''the completion leaves required goal(s) open: '' @
            join (map (\<lambda>g. goal_ID g @ '' ('' @ trim_space (goal_RequestedOutcome g) @ '', '' @ goal_State g @ '')'') opened) ''; '' @
            ''. Before completing the episode, emit update_goal for each with state completed '' @
            ''(citing the evidence that satisfied it), excluded (with the reason it no longer applies), '' @
            ''or cancelled; if it cannot be closed, return completion.status blocked naming it as the blocker.'')"

end
