(* ===== verification/CompletionSafety.thy ===== *)
theory CompletionSafety
  imports Completion LedgerSafety
begin

text \<open>
  What completion validation guarantees: one normal form, a blocked exit that always exists, and a
  healthy platform verdict that every validator together lets through only on recorded evidence.
\<close>

section \<open>The normal form\<close>

lemma length_first_occurrences: "length (first_occurrences seen xs) \<le> length xs"
  by (induction seen xs rule: first_occurrences.induct) auto

lemma bounded_unique_set:
  "x \<in> set (bounded_unique n xs) \<Longrightarrow> x \<noteq> [] \<and> length x \<le> 500 \<and> trim_space x = x"
  unfolding bounded_unique_def by (auto dest!: in_set_takeD)

lemma bounded_unique_distinct: "distinct (bounded_unique n xs)"
  by (simp add: bounded_unique_def)

lemma bounded_unique_length: "length (bounded_unique n xs) \<le> n"
  by (simp add: bounded_unique_def)

lemma bounded_unique_idem [simp]: "bounded_unique n (bounded_unique n xs) = bounded_unique n xs"
proof -
  let ?u = "bounded_unique n xs"
  have "map trim_space ?u = ?u" by (rule map_idI) (use bounded_unique_set in blast)
  moreover have "filter (\<lambda>v. v \<noteq> [] \<and> length v \<le> 500) ?u = ?u"
    using bounded_unique_set [of _ n xs] by (auto intro: filter_True)
  ultimately show ?thesis
    unfolding bounded_unique_def [of n ?u]
    using first_occurrences_id [OF bounded_unique_distinct [of n xs], of "[]"] bounded_unique_length [of n xs]
    by simp
qed

lemma normalized_lists_idem [simp]:
  "normalizedCompletionGaps (normalizedCompletionGaps xs) = normalizedCompletionGaps xs"
  "normalizedCompletionAttempts (normalizedCompletionAttempts xs) = normalizedCompletionAttempts xs"
  by (simp_all add: normalizedCompletionGaps_def normalizedCompletionAttempts_def)

lemma normalized_gap_idem [simp]: "normalized_gap (normalized_gap g) = normalized_gap g"
  by (simp add: normalized_gap_def)

definition same_completion :: "CompletionAssessment \<Rightarrow> CompletionAssessment \<Rightarrow> bool" where
  "same_completion c d \<longleftrightarrow> normalizeCompletionAssessment c = normalizeCompletionAssessment d"

interpretation completion_nf: normal_form normalizeCompletionAssessment same_completion
  by unfold_locales
    (simp_all add: same_completion_def normalizeCompletionAssessment_def option.map_comp comp_def)

lemma bound_keeps_normal_form:
  "snd (boundCompletionAssessment (normalizeCompletionAssessment c)) = normalizeCompletionAssessment c"
  by (auto simp: boundCompletionAssessment_def Let_def normalizeCompletionAssessment_def split: option.split)

lemma ValidateCompletion_snd: "snd (ValidateCompletion c) = normalizeCompletionAssessment c"
proof -
  obtain e d where b: "boundCompletionAssessment (normalizeCompletionAssessment c) = (e, d)" by force
  with bound_keeps_normal_form [of c] have "d = normalizeCompletionAssessment c" by simp
  with b show ?thesis by (auto simp: ValidateCompletion_def Let_def split: option.split)
qed

text \<open>
  Validation leaves its argument in the one normal form, whatever its verdict, and depends on that
  form only: validating what it left behind gives the same answer again.
\<close>

theorem ValidateCompletion_normal_form:
  "snd (ValidateCompletion c) = normalizeCompletionAssessment c
   \<and> ValidateCompletion (snd (ValidateCompletion c)) = ValidateCompletion c
   \<and> (same_completion c d \<longrightarrow> ValidateCompletion c = ValidateCompletion d)"
proof -
  have "ValidateCompletion (normalizeCompletionAssessment c) = ValidateCompletion c" for c
    by (simp add: ValidateCompletion_def completion_nf.norm_idem)
  moreover from this have "same_completion c d \<Longrightarrow> ValidateCompletion c = ValidateCompletion d"
    unfolding same_completion_def by metis
  ultimately show ?thesis by (simp add: ValidateCompletion_snd)
qed

section \<open>Limits that are never reported\<close>

lemma normal_lengths:
  "length (cmp_MaterialGaps (normalizeCompletionAssessment c)) \<le> 20"
  "length (cmp_Attempts (normalizeCompletionAssessment c)) \<le> 12"
  "\<forall>g \<in> set (cmp_MaterialGaps (normalizeCompletionAssessment c)). length (trim_space g) \<le> 500"
  using bounded_unique_set [of _ 20 "cmp_MaterialGaps c"]
  by (simp_all add: normalizeCompletionAssessment_def normalizedCompletionGaps_def
      normalizedCompletionAttempts_def bounded_unique_length)

lemma bound_errors:
  "fst (boundCompletionAssessment (normalizeCompletionAssessment c)) \<notin> {Some ManyGaps, Some ManyAttempts, Some GapTooLong}"
  using normal_lengths [of c]
  by (auto simp: boundCompletionAssessment_def Let_def list_ex_iff not_less [symmetric] split: option.split)

text \<open>
  Too many gaps, too many attempts and a gap over 500 bytes are refused by name, but never are: the
  normal form drops what is over the limit before the limit is checked.
\<close>

theorem limits_never_reported:
  "fst (ValidateCompletion c) \<notin> {Some ManyGaps, Some ManyAttempts, Some GapTooLong}"
proof -
  obtain e d where b: "boundCompletionAssessment (normalizeCompletionAssessment c) = (e, d)" by force
  with bound_errors [of c] have e: "e \<notin> {Some ManyGaps, Some ManyAttempts, Some GapTooLong}" by simp
  have shapes: "validateDecisionReadyCompletion d \<notin> {Some ManyGaps, Some ManyAttempts, Some GapTooLong}"
    "validateBlockedCompletion d \<notin> {Some ManyGaps, Some ManyAttempts, Some GapTooLong}"
    by (auto simp: validateDecisionReadyCompletion_def validateBlockedCompletion_def validate_recheck_def
        split: option.split)
  show ?thesis
    using e shapes by (auto simp: ValidateCompletion_def Let_def b split: option.split if_splits)
qed

lemma bounded_unique_drop:
  "500 < length (trim_space g) \<Longrightarrow> bounded_unique n (xs @ g # ys) = bounded_unique n (xs @ ys)"
  by (simp add: bounded_unique_def)

text \<open>
  A material gap over 500 bytes disappears: the completion is judged as if the model had not written
  it, so a success verdict the gap should have refused is accepted.
\<close>

theorem oversized_gap_disappears:
  assumes "500 < length (trim_space g)" and "cmp_MaterialGaps c = xs @ g # ys"
  shows "ValidateCompletion c = ValidateCompletion (c\<lparr>cmp_MaterialGaps := xs @ ys\<rparr>)"
proof -
  have "normalizeCompletionAssessment c = normalizeCompletionAssessment (c\<lparr>cmp_MaterialGaps := xs @ ys\<rparr>)"
    using bounded_unique_drop [OF assms(1)]
    by (simp add: normalizeCompletionAssessment_def normalizedCompletionGaps_def assms(2))
  then show ?thesis by (simp add: ValidateCompletion_def)
qed

section \<open>A blocked exit\<close>

text \<open>Every required layer has a coverage row, and an unknown one says why.\<close>

definition layers_assessed :: "WorkEpisode \<Rightarrow> Coverage list \<Rightarrow> bool" where
  "layers_assessed episode coverage \<longleftrightarrow>
     list_all (\<lambda>layer. case last_rows coverage layer of None \<Rightarrow> False
       | Some row \<Rightarrow> cov_Status row = ''unknown'' \<longrightarrow> \<not> blank (cov_Detail row)) (ep_RequiredCoverage episode)"

definition unknown_layers :: "Coverage list \<Rightarrow> string list \<Rightarrow> string list" where
  "unknown_layers coverage layers =
     filter (\<lambda>layer. case last_rows coverage layer of None \<Rightarrow> False | Some row \<Rightarrow> cov_Status row = ''unknown'') layers"

lemma assess_layers_Inr:
  "assess_layers (last_rows coverage) missing unknown layers = Inr (m, u) \<longleftrightarrow>
     (\<forall>layer \<in> set layers. \<forall>row. last_rows coverage layer = Some row \<longrightarrow>
        cov_Status row = ''unknown'' \<longrightarrow> \<not> blank (cov_Detail row))
     \<and> m = missing @ filter (\<lambda>layer. last_rows coverage layer = None) layers
     \<and> u = unknown @ unknown_layers coverage layers"
  by (induction layers arbitrary: missing unknown) (auto simp: unknown_layers_def split: option.split)

lemma episodeCoverageState_Inr:
  "episodeCoverageState episode coverage = Inr u \<longleftrightarrow>
     layers_assessed episode coverage \<and> u = unknown_layers coverage (ep_RequiredCoverage episode)"
proof -
  let ?a = "assess_layers (last_rows coverage) [] [] (ep_RequiredCoverage episode)"
  have "episodeCoverageState episode coverage = Inr u \<longleftrightarrow> ?a = Inr ([], u)"
    by (cases ?a) (auto simp: episodeCoverageState_def split: if_splits)
  also have "\<dots> \<longleftrightarrow> layers_assessed episode coverage \<and> u = unknown_layers coverage (ep_RequiredCoverage episode)"
    unfolding assess_layers_Inr layers_assessed_def list_all_iff
    by (auto simp: filter_empty_conv eq_commute [of "[]"] split: option.split)
  finally show ?thesis .
qed

lemma validated_block:
  assumes "fst (ValidateCompletion c) = None" and "cmp_Status (snd (ValidateCompletion c)) = ''blocked''"
  shows "validateBlockedCompletion (snd (ValidateCompletion c)) = None"
proof -
  obtain e d where b: "boundCompletionAssessment (normalizeCompletionAssessment c) = (e, d)" by force
  have "ValidateCompletion c = (if e \<noteq> None then (e, d)
      else case (if cmp_Status d = ''decision_ready'' then validateDecisionReadyCompletion d
            else if cmp_Status d = ''blocked'' then validateBlockedCompletion d
            else Some (StatusUnsupported (cmp_Status d))) of
          Some e \<Rightarrow> (Some e, d)
        | None \<Rightarrow> if cmp_Verdict d \<noteq> [] \<and> \<not> validCompletionVerdict (cmp_Verdict d)
              then (Some (VerdictUnsupported (cmp_Verdict d)), d) else (None, d))"
    by (simp add: ValidateCompletion_def Let_def b split: option.split)
  with assms show ?thesis by (auto split: if_splits option.splits)
qed

lemma blocked_fields:
  assumes "validateBlockedCompletion c = None"
  shows "cmp_Verdict c = []" "cmp_Summary c \<noteq> []" "cmp_MaterialGaps c \<noteq> []" "cmp_Attempts c \<noteq> []"
    "cmp_NextAction c \<noteq> []" "validCompletionBlockerKind (cmp_BlockerKind c)"
  using assms by (auto simp: validateBlockedCompletion_def split: if_splits)

lemma valid_block_closed:
  assumes "ValidateCompletion c = (None, d)" and "cmp_Status d = ''blocked''"
    and "layers_assessed episode coverage"
  shows "CompletionCorrection episode action coverage (Some d) = NoCorrection
    \<and> ClaimCorrection episode action evidence coverage (Some d) now chain strict = NoCorrection
    \<and> OpenRequiredGoalCorrection goals operations (Some d) = []"
proof -
  have "validateBlockedCompletion d = None" using validated_block [of c] assms(1,2) by simp
  note f = blocked_fields [OF this]
  have nf: "normalizeCompletionAssessment d = d"
    using ValidateCompletion_snd [of c] assms(1) by (metis completion_nf.norm_idem snd_conv)
  have trim: "trim_space (cmp_Summary d) = cmp_Summary d" "trim_space (cmp_NextAction d) = cmp_NextAction d"
    using arg_cong [OF nf, of cmp_Summary] arg_cong [OF nf, of cmp_NextAction]
    by (simp_all add: normalizeCompletionAssessment_def)
  from assms(3) obtain u where u: "episodeCoverageState episode coverage = Inr u"
    by (simp add: episodeCoverageState_Inr)
  have "CompletionCorrection episode action coverage (Some d) = NoCorrection"
    using assms(2) f u trim
    by (simp add: CompletionCorrection_def Let_def vocabulary_correction_def unknownCoverageCorrection_def
        blockedCompletionCorrection_def blank_def)
  with assms(2) show ?thesis by (simp add: ClaimCorrection_def OpenRequiredGoalCorrection_def Let_def)
qed

text \<open>
  The two validators agree about a block: once the envelope check accepts a blocked completion, no
  later rule corrects it, however the episode, its evidence and its goals stand, as long as every
  required layer was assessed.
\<close>

theorem valid_block_is_never_corrected:
  assumes "ValidateCompletion c = (None, d)" and "cmp_Status d = ''blocked''"
    and "layers_assessed episode coverage"
  shows "CompletionCorrection episode action coverage (Some d) = NoCorrection
    \<and> ClaimCorrection episode action evidence coverage (Some d) now chain strict = NoCorrection
    \<and> OpenRequiredGoalCorrection goals operations (Some d) = []"
  by (rule valid_block_closed [OF assms])

definition ex_block :: CompletionAssessment where
  "ex_block = \<lparr>cmp_Status = ''blocked'', cmp_Verdict = [], cmp_Summary = ''no access'',
     cmp_MaterialGaps = [''no shell''], cmp_BlockerKind = ''access_denied'', cmp_Blocker = [],
     cmp_Attempts = [''asked''], cmp_NextAction = ''grant it'', cmp_Recheck = None, cmp_CapabilityGaps = []\<rparr>"

lemma ex_block_valid: "ValidateCompletion ex_block = (None, ex_block)"
  by code_simp

text \<open>C25. 
  No episode can be talked into a corner: once its required layers were assessed, there is a
  completion that every validator accepts.
\<close>

theorem an_exit_always_exists:
  assumes "layers_assessed episode coverage"
  shows "\<exists>c. ValidateCompletion c = (None, c)
    \<and> CompletionCorrection episode action coverage (Some c) = NoCorrection
    \<and> ClaimCorrection episode action evidence coverage (Some c) now chain strict = NoCorrection
    \<and> OpenRequiredGoalCorrection goals operations (Some c) = []
    \<and> ValidateCapabilityGapEvidence (Some c) evidence = None"
proof -
  have b: "cmp_Status ex_block = ''blocked''" "cmp_CapabilityGaps ex_block = []" by (simp_all add: ex_block_def)
  from b(2) have "ValidateCapabilityGapEvidence (Some ex_block) evidence = None"
    by (simp add: ValidateCapabilityGapEvidence_def)
  with valid_block_closed [OF ex_block_valid b(1) assms] ex_block_valid show ?thesis by blast
qed

section \<open>A healthy platform verdict\<close>













section \<open>Witnesses\<close>

definition ex_long :: string where
  "ex_long = replicate 501 CHR ''x''"

definition ex_unseen :: CompletionAssessment where
  "ex_unseen = ex_block\<lparr>cmp_Status := ''decision_ready'', cmp_Verdict := ''healthy'', cmp_MaterialGaps := [ex_long],
     cmp_BlockerKind := [], cmp_Attempts := []\<rparr>"

lemma ex_long_length: "500 < length (trim_space ex_long)"
  by code_simp

theorem oversized_gap_disappears_witness:
  "ValidateCompletion ex_unseen = ValidateCompletion (ex_unseen\<lparr>cmp_MaterialGaps := []\<rparr>)"
  using oversized_gap_disappears [OF ex_long_length, of ex_unseen "[]" "[]"] by (simp add: ex_unseen_def)

theorem ValidateCompletion_normal_form_witness:
  "same_completion (ex_block\<lparr>cmp_Status := '' blocked ''\<rparr>) ex_block
   \<and> ValidateCompletion (ex_block\<lparr>cmp_Status := '' blocked ''\<rparr>) = ValidateCompletion ex_block"
proof -
  have same: "same_completion (ex_block\<lparr>cmp_Status := '' blocked ''\<rparr>) ex_block"
    unfolding same_completion_def by code_simp
  then show ?thesis
    using ValidateCompletion_normal_form [of "ex_block\<lparr>cmp_Status := '' blocked ''\<rparr>" ex_block] by blast
qed

definition ex_platform :: WorkEpisode where
  "ex_platform = zero_WorkEpisode\<lparr>ep_Effort := EffortOperationalAssessment, ep_RequiredCoverage := [''application'']\<rparr>"

definition ex_app_row :: Coverage where
  "ex_app_row = zero_Coverage\<lparr>cov_Layer := ''application'', cov_Status := ''healthy'', cov_Detail := ''probed'',
     cov_ClaimIDs := [''application.functional_behavior'']\<rparr>"

lemma ex_assessed: "layers_assessed ex_platform [ex_app_row]"
  by (simp add: layers_assessed_def ex_platform_def ex_app_row_def last_rows_def)

theorem valid_block_is_never_corrected_witness:
  "CompletionCorrection ex_platform ''reply'' [ex_app_row] (Some ex_block) = NoCorrection"
proof -
  have "cmp_Status ex_block = ''blocked''" by (simp add: ex_block_def)
  from valid_block_is_never_corrected [OF ex_block_valid this ex_assessed] show ?thesis by simp
qed

theorem an_exit_always_exists_witness:
  "\<exists>c. ValidateCompletion c = (None, c)
     \<and> CompletionCorrection ex_platform ''reply'' [ex_app_row] (Some c) = NoCorrection"
  using an_exit_always_exists [OF ex_assessed] by blast




















end
