(* ===== verification/RunTables.thy ===== *)
theory RunTables
  imports EpisodeStore
begin

text \<open>
  The tables the agent-run transactions of \<open>internal/store\<close> read and write, and the statements
  they share: the guarded update of one run, the update of an episode attempt, and the insertion
  of a terminal Slack delivery.

  A transaction is a function from the tables to an error or to the new tables; an error leaves
  the tables alone, as the deferred rollback does.  One transaction reads the clock once.  Rows
  are kept in insertion order, which is SQLite's rowid order; a NULL time is the zero time, and a
  NULL incident the empty identity.  \<open>SqlFns\<close> holds what is not code of the repository: the JSON
  and \<open>julianday\<close> functions of SQLite, the digest of an event key, and the JSON form of a
  transition.
\<close>

section \<open>Tables\<close>

record SqlFns =
  fn_encode :: "Transition \<Rightarrow> string"
  fn_decode :: "string \<Rightarrow> Transition option"
  fn_hash :: "string list \<Rightarrow> string"
  fn_julian :: "gotime \<Rightarrow> int"
  fn_corrections :: "string \<Rightarrow> int"
  fn_disarm :: "string \<Rightarrow> string"
  fn_arm :: "string \<Rightarrow> string"
  fn_status_set :: "string \<Rightarrow> bool"
  fn_approval_thread :: "string \<Rightarrow> string option"
  fn_clear_status :: "string \<Rightarrow> string"

abbreviation AttemptPending :: string where "AttemptPending \<equiv> ''pending''"
abbreviation AttemptLeased :: string where "AttemptLeased \<equiv> ''leased''"
abbreviation AttemptRunning :: string where "AttemptRunning \<equiv> ''running''"
abbreviation AttemptSucceeded :: string where "AttemptSucceeded \<equiv> ''succeeded''"
abbreviation AttemptFailed :: string where "AttemptFailed \<equiv> ''failed''"
abbreviation AttemptCancelled :: string where "AttemptCancelled \<equiv> ''cancelled''"

record InputRow = SlackInput +
  in_LastError :: string
  in_UpdatedAt :: gotime

record SlackDelivery =
  dl_ID :: string
  dl_IncidentID :: string
  dl_EpisodeID :: string
  dl_AgentRunID :: string
  dl_AgentRunKey :: string
  dl_SourceInputID :: string
  dl_ExpectedEpisodeRevision :: int
  dl_ExpectedDestinationRevision :: int
  dl_Operation :: string
  dl_Kind :: string
  dl_ChannelID :: string
  dl_ThreadTS :: string
  dl_MessageTS :: string
  dl_Body :: string
  dl_Status :: string
  dl_Steps :: "string list"
  dl_CoalesceKey :: string
  dl_CardVersion :: int
  dl_ResponseRoot :: bool
  dl_State :: string
  dl_Attempts :: int
  dl_NextAttemptAt :: gotime
  dl_LastError :: string
  dl_CreatedAt :: gotime

definition zero_SlackDelivery :: SlackDelivery where
  "zero_SlackDelivery = \<lparr>dl_ID = [], dl_IncidentID = [], dl_EpisodeID = [], dl_AgentRunID = [],
     dl_AgentRunKey = [], dl_SourceInputID = [], dl_ExpectedEpisodeRevision = 0,
     dl_ExpectedDestinationRevision = 0, dl_Operation = [], dl_Kind = [], dl_ChannelID = [],
     dl_ThreadTS = [], dl_MessageTS = [], dl_Body = [], dl_Status = [], dl_Steps = [],
     dl_CoalesceKey = [], dl_CardVersion = 0, dl_ResponseRoot = False, dl_State = [],
     dl_Attempts = 0, dl_NextAttemptAt = ZeroTime, dl_LastError = [], dl_CreatedAt = ZeroTime\<rparr>"

record DeliveryRow = SlackDelivery +
  dl_SequenceKey :: string
  dl_SequenceIndex :: int
  dl_UpdatedAt :: gotime

text \<open>The columns that \<open>channel_memories\<close> and \<open>conversation_sessions\<close> share.\<close>

record SessionRow =
  ss_SessionID :: string
  ss_Revision :: int
  ss_CoopEventSequence :: int
  ss_Generation :: int
  ss_TurnCount :: int
  ss_StartedAt :: gotime
  ss_RotatedAt :: gotime
  ss_UpdatedAt :: gotime

record CleanupRow =
  cl_IncidentID :: string
  cl_Reason :: string
  cl_AllowUnmerged :: bool
  cl_State :: string
  cl_EligibleAt :: gotime
  cl_NextAttemptAt :: gotime
  cl_CreatedAt :: gotime
  cl_UpdatedAt :: gotime

record CancellationRow =
  cx_ReplayID :: string
  cx_RunID :: string
  cx_SessionID :: string
  cx_TurnID :: string
  cx_State :: string
  cx_NextAttemptAt :: gotime
  cx_CreatedAt :: gotime
  cx_UpdatedAt :: gotime

record RunStore =
  rs_ep :: EpisodeStore
  rs_incidents :: "(string \<times> Incident) list"
  rs_inputs :: "(string \<times> InputRow) list"
  rs_participation :: "(string \<times> string) list"
  rs_deliveries :: "DeliveryRow list"
  rs_memories :: "(string \<times> SessionRow) list"
  rs_conversations :: "(string \<times> SessionRow) list"
  rs_cleanup :: "(string \<times> CleanupRow) list"
  rs_status :: "((string \<times> string) \<times> int \<times> gotime) list"
  rs_commitments :: "(string \<times> string) list"
  rs_cancellations :: "(string \<times> CancellationRow) list"

datatype RunError = RunConflict | RunNotFound | RunRefused string | RunEpisode AppendError
  | RunConstraint

section \<open>Rows of runs and attempts\<close>

abbreviation run_row :: "RunStore \<Rightarrow> string \<Rightarrow> AgentRun option" where
  "run_row st rid \<equiv> map_of (es_runs (rs_ep st)) rid"

abbreviation episode_row :: "RunStore \<Rightarrow> string \<Rightarrow> WorkEpisode option" where
  "episode_row st rid \<equiv> map_of (es_episodes (rs_ep st)) rid"

abbreviation attempts :: "RunStore \<Rightarrow> AttemptRow list" where
  "attempts st \<equiv> es_attempts (rs_ep st)"

definition with_runs :: "(string \<times> AgentRun) list \<Rightarrow> RunStore \<Rightarrow> RunStore" where
  "with_runs runs st = st\<lparr>rs_ep := (rs_ep st)\<lparr>es_runs := runs\<rparr>\<rparr>"

definition with_attempts :: "AttemptRow list \<Rightarrow> RunStore \<Rightarrow> RunStore" where
  "with_attempts rows st = st\<lparr>rs_ep := (rs_ep st)\<lparr>es_attempts := rows\<rparr>\<rparr>"

lemma with_simps [simp]:
  "es_runs (rs_ep (with_runs runs st)) = runs" "es_runs (rs_ep (with_attempts rows st)) = es_runs (rs_ep st)"
  "attempts (with_runs runs st) = attempts st" "attempts (with_attempts rows st) = rows"
  "es_episodes (rs_ep (with_runs runs st)) = es_episodes (rs_ep st)"
  "es_episodes (rs_ep (with_attempts rows st)) = es_episodes (rs_ep st)"
  "es_events (rs_ep (with_runs runs st)) = es_events (rs_ep st)"
  "es_events (rs_ep (with_attempts rows st)) = es_events (rs_ep st)"
  by (simp_all add: with_runs_def with_attempts_def)

definition active_states :: "string list" where
  "active_states = [AgentRunPreparing, AgentRunRunning, AgentRunApplying, AgentRunFinalizing]"

definition live_states :: "string list" where
  "live_states = AgentRunPending # active_states"

text \<open>\<open>UPDATE agent_runs SET \<dots> WHERE id = ? AND \<dots>\<close> with \<open>ExpectOne\<close>: a miss is a conflict, and a new
  idempotency key that another run holds violates its uniqueness.\<close>

definition update_run ::
    "string \<Rightarrow> (AgentRun \<Rightarrow> bool) \<Rightarrow> (AgentRun \<Rightarrow> AgentRun) \<Rightarrow> RunStore \<Rightarrow> RunError + RunStore" where
  "update_run rid guard f st =
     (case run_row st rid of
        None \<Rightarrow> Inl RunConflict
      | Some r \<Rightarrow>
          if \<not> guard r then Inl RunConflict
          else if run_IdempotencyKey (f r) \<noteq> run_IdempotencyKey r
            \<and> list_ex (\<lambda>(i, r'). i \<noteq> rid \<and> run_IdempotencyKey r' = run_IdempotencyKey (f r))
                (es_runs (rs_ep st))
          then Inl RunConstraint
          else Inr (with_runs (AList.map_entry rid f (es_runs (rs_ep st))) st))"

definition in_state :: "string list \<Rightarrow> AgentRun \<Rightarrow> bool" where
  "in_state states r \<longleftrightarrow> run_State r \<in> set states"

text \<open>A statement whose affected rows the code does not look at.\<close>

definition ignore_miss :: "RunStore \<Rightarrow> RunError + RunStore \<Rightarrow> RunError + RunStore" where
  "ignore_miss st result = (if result = Inl RunConflict then Inr st else result)"

text \<open>\<open>setEpisodeAttemptStateTx\<close>.\<close>

definition moved_attempt :: "gotime \<Rightarrow> string \<Rightarrow> string \<Rightarrow> bool \<Rightarrow> AttemptRow \<Rightarrow> AttemptRow" where
  "moved_attempt now to failure lease a =
     a\<lparr>at_State := to, at_FailureClass := BoundedError failure,
       at_FailureGeneration := at_FailureGeneration a + (if to = AttemptFailed then 1 else 0),
       at_LeaseOwner := (if lease then ''agent-run-worker'' else []),
       at_FencingToken := at_FencingToken a + (if lease then 1 else 0),
       at_LeaseExpiresAt := (if lease then time_add now (10 * minute) else ZeroTime),
       at_StartedAt := (if IsZero (at_StartedAt a) \<and> to = AttemptRunning then now else at_StartedAt a),
       at_CompletedAt := (if to = AttemptSucceeded \<or> to = AttemptFailed \<or> to = AttemptCancelled
                          then now else ZeroTime),
       at_UpdatedAt := now\<rparr>"

definition update_attempt ::
    "string \<Rightarrow> (AttemptRow \<Rightarrow> AttemptRow) \<Rightarrow> RunStore \<Rightarrow> RunStore" where
  "update_attempt rid f st =
     with_attempts (map (\<lambda>a. if at_AgentRunID a = rid then f a else a) (attempts st)) st"

definition setEpisodeAttemptState ::
    "gotime \<Rightarrow> string \<Rightarrow> string \<Rightarrow> string \<Rightarrow> bool \<Rightarrow> RunStore \<Rightarrow> RunError + RunStore" where
  "setEpisodeAttemptState now rid to failure lease st =
     (if to = [] then Inl (RunRefused ''attempt state is required'')
      else if length (filter (\<lambda>a. at_AgentRunID a = rid) (attempts st)) \<noteq> 1 then Inl RunConflict
      else Inr (update_attempt rid (moved_attempt now to failure lease) st))"

text \<open>\<open>setWorkEpisodePhaseTx\<close> over these tables.\<close>

definition phase_to :: "string \<Rightarrow> string \<Rightarrow> string \<Rightarrow> string \<Rightarrow> gotime \<Rightarrow> Transition" where
  "phase_to to phase status nextAction due =
     emptyTransition\<lparr>tr_State := to, tr_Phase := phase, tr_Status := status,
       tr_NextAction := nextAction, tr_ProgressDue := due\<rparr>"

definition set_phase ::
    "SqlFns \<Rightarrow> gotime \<Rightarrow> string \<Rightarrow> Transition \<Rightarrow> string \<Rightarrow> RunStore \<Rightarrow> RunError + RunStore" where
  "set_phase F now rid t key st =
     map_sum RunEpisode (\<lambda>ep. st\<lparr>rs_ep := ep\<rparr>)
       (setWorkEpisodePhase (fn_encode F) (fn_decode F) now rid t key (rs_ep st))"

definition episodeEventKey :: "SqlFns \<Rightarrow> string \<Rightarrow> string list \<Rightarrow> string" where
  "episodeEventKey F kind parts = kind @ '':'' @ fn_hash F parts"

section \<open>Deliveries\<close>

text \<open>\<open>strconv.Atoi\<close>: an optional sign and decimal digits.\<close>

definition digit_value :: "char \<Rightarrow> int option" where
  "digit_value c = (if 48 \<le> byte c \<and> byte c \<le> 57 then Some (int (byte c) - 48) else None)"

fun digits_value :: "int \<Rightarrow> string \<Rightarrow> int option" where
  "digits_value acc [] = Some acc"
| "digits_value acc (c # s) =
     (case digit_value c of None \<Rightarrow> None | Some d \<Rightarrow> digits_value (10 * acc + d) s)"

definition Atoi :: "string \<Rightarrow> int option" where
  "Atoi s =
     (let body = (if s \<noteq> [] \<and> (hd s = CHR ''+'' \<or> hd s = CHR ''-'') then tl s else s)
      in if body = [] then None
         else map_option (\<lambda>n. if hd s = CHR ''-'' then - n else n) (digits_value 0 body))"

text \<open>\<open>strings.LastIndex\<close>.\<close>

fun last_index :: "string \<Rightarrow> string \<Rightarrow> nat option" where
  "last_index [] p = (if p = [] then Some 0 else None)"
| "last_index (c # s) p =
     (case last_index s p of
        Some i \<Rightarrow> Some (Suc i)
      | None \<Rightarrow> if has_prefix (c # s) p then Some 0 else None)"

definition TrimSuffix :: "string \<Rightarrow> string \<Rightarrow> string" where
  "TrimSuffix s p =
     (if length p \<le> length s \<and> drop (length s - length p) s = p
      then take (length s - length p) s else s)"

text \<open>A numbered ending: the text before the last mark, and the number of the given width after it.\<close>

definition numbered_ending :: "string \<Rightarrow> string \<Rightarrow> nat \<Rightarrow> (string \<times> int) option" where
  "numbered_ending s mark width =
     (case last_index s mark of
        None \<Rightarrow> None
      | Some at \<Rightarrow>
          if 0 < at \<and> length (drop (at + length mark) s) = width
          then map_option (Pair (take at s)) (Atoi (drop (at + length mark) s))
          else None)"

definition slackDeliverySequence :: "string \<Rightarrow> string \<times> int" where
  "slackDeliverySequence id0 =
     (let s = TrimSuffix id0 ''_upload_failed'';
          plain = (case numbered_ending s ''_part_'' 3 of
            Some (key, part) \<Rightarrow> if 0 < part then (key, part) else ([], 0)
          | None \<Rightarrow> ([], 0))
      in case numbered_ending s ''_visual_'' 2 of
           Some (key, visual) \<Rightarrow>
             if 0 < visual
             then (case numbered_ending key ''_part_'' 3 of
                Some (parent, part) \<Rightarrow> (parent, part * 1000 + visual)
              | None \<Rightarrow> (key, visual))
             else plain
         | None \<Rightarrow> plain)"

definition delivery_complete :: "SlackDelivery \<Rightarrow> bool" where
  "delivery_complete d \<longleftrightarrow>
     dl_ID d \<noteq> [] \<and> dl_ChannelID d \<noteq> []
     \<and> (dl_Operation d = ''status'' \<or> dl_Operation d = ''reaction'' \<or> dl_Body d \<noteq> [])
     \<and> (dl_Operation d = ''reaction'' \<longrightarrow> dl_MessageTS d \<noteq> [] \<and> dl_Status d \<noteq> [])"

definition delivery_row :: "gotime \<Rightarrow> SlackDelivery \<Rightarrow> DeliveryRow" where
  "delivery_row now d =
     (case slackDeliverySequence (dl_ID d) of
        (key, index) \<Rightarrow>
          SlackDelivery.extend
            (d\<lparr>dl_Steps := [], dl_State := ''pending'', dl_Attempts := 0, dl_NextAttemptAt := now,
               dl_LastError := [], dl_CreatedAt := now\<rparr>)
            \<lparr>dl_SequenceKey = key, dl_SequenceIndex = index, dl_UpdatedAt = now\<rparr>)"

definition insertTerminalSlackDelivery ::
    "gotime \<Rightarrow> SlackDelivery \<Rightarrow> RunStore \<Rightarrow> RunError + RunStore" where
  "insertTerminalSlackDelivery now d0 st =
     (if \<not> delivery_complete d0
      then Inl (RunRefused ''terminal Slack delivery identity, destination, and body are required'')
      else
        let d = d0\<lparr>dl_Operation := if_set (dl_Operation d0) ''post'', dl_Kind := if_set (dl_Kind d0) ''notice''\<rparr>;
            bound = (if dl_EpisodeID d = [] then Some d
              else map_option (\<lambda>e.
                (let d = d\<lparr>dl_ExpectedDestinationRevision := ep_DestinationRevision e,
                           dl_ExpectedEpisodeRevision := ep_EventSequence e\<rparr>
                 in if dst_ChannelID (ep_Destination e) \<noteq> [] \<and> dl_Operation d \<noteq> ''reaction''
                    then d\<lparr>dl_ChannelID := dst_ChannelID (ep_Destination e),
                           dl_ThreadTS := dst_ThreadTS (ep_Destination e)\<rparr>
                    else d)) (episode_row st (dl_EpisodeID d)))
        in case bound of
             None \<Rightarrow> Inl RunNotFound
           | Some d \<Rightarrow>
               let d = (if dl_AgentRunID d \<noteq> [] \<and> dl_AgentRunKey d = []
                        then (case run_row st (dl_AgentRunID d) of
                                None \<Rightarrow> d | Some r \<Rightarrow> d\<lparr>dl_AgentRunKey := run_IdempotencyKey r\<rparr>)
                        else d)
               in if list_ex (\<lambda>row. dl_ID row = dl_ID d) (rs_deliveries st)
                    \<or> dl_Operation d \<notin> {''post'', ''update'', ''status'', ''file'', ''reaction'', ''delete''}
                  then Inr st
                  else if dl_IncidentID d \<noteq> [] \<and> map_of (rs_incidents st) (dl_IncidentID d) = None
                  then Inl RunConstraint
                  else Inr (st\<lparr>rs_deliveries := rs_deliveries st @ [delivery_row now d]\<rparr>))"

text \<open>The next generation of a conversation's status, and the row it leaves.\<close>

definition next_generation :: "string \<times> string \<Rightarrow> RunStore \<Rightarrow> int" where
  "next_generation key st =
     (case map_of (rs_status st) key of None \<Rightarrow> 1 | Some (g, _) \<Rightarrow> g + 1)"

definition advance_status :: "gotime \<Rightarrow> string \<times> string \<Rightarrow> RunStore \<Rightarrow> RunStore" where
  "advance_status now key st =
     st\<lparr>rs_status := AList.update key (next_generation key st, now) (rs_status st)\<rparr>"

definition update_deliveries ::
    "(DeliveryRow \<Rightarrow> bool) \<Rightarrow> (DeliveryRow \<Rightarrow> DeliveryRow) \<Rightarrow> RunStore \<Rightarrow> RunStore" where
  "update_deliveries P f st =
     st\<lparr>rs_deliveries := map (\<lambda>d. if P d then f d else d) (rs_deliveries st)\<rparr>"

definition superseded_delivery :: "gotime \<Rightarrow> string \<Rightarrow> DeliveryRow \<Rightarrow> DeliveryRow" where
  "superseded_delivery now why d =
     d\<lparr>dl_State := ''superseded'', dl_LastError := why, dl_UpdatedAt := now\<rparr>"

section \<open>Frames\<close>

text \<open>What the statements that do not touch a run or an attempt leave alone.\<close>

definition same_runs :: "RunStore \<Rightarrow> RunStore \<Rightarrow> bool" where
  "same_runs st st' \<longleftrightarrow>
     es_runs (rs_ep st') = es_runs (rs_ep st) \<and> attempts st' = attempts st"

lemma same_runs_refl [simp]: "same_runs st st"
  by (simp add: same_runs_def)

lemma same_runs_trans: "same_runs a b \<Longrightarrow> same_runs b c \<Longrightarrow> same_runs a c"
  by (simp add: same_runs_def)

lemma same_runs_fields [simp]:
  "same_runs st (st\<lparr>rs_incidents := i\<rparr>)" "same_runs st (st\<lparr>rs_deliveries := d\<rparr>)"
  "same_runs st (st\<lparr>rs_memories := m\<rparr>)" "same_runs st (st\<lparr>rs_conversations := m\<rparr>)"
  "same_runs st (st\<lparr>rs_cleanup := c\<rparr>)" "same_runs st (st\<lparr>rs_status := g\<rparr>)"
  "same_runs st (st\<lparr>rs_inputs := n\<rparr>)" "same_runs st (st\<lparr>rs_commitments := k\<rparr>)"
  "same_runs st (st\<lparr>rs_cancellations := x\<rparr>)" "same_runs st (advance_status now key st)"
  "same_runs st (update_deliveries P f st)"
  by (simp_all add: same_runs_def advance_status_def update_deliveries_def)

lemma append_same_runs:
  "appendWorkEpisodeEvent decode now rid event ep = Inr (e, ep') \<Longrightarrow>
   es_runs ep' = es_runs ep \<and> es_attempts ep' = es_attempts ep"
  unfolding appendWorkEpisodeEvent_def
  by (auto split: option.splits if_splits elim: append_cases)

lemma phase_same_runs_ep:
  "setWorkEpisodePhase encode decode now rid t key ep = Inr ep' \<Longrightarrow>
   es_runs ep' = es_runs ep \<and> es_attempts ep' = es_attempts ep"
  unfolding setWorkEpisodePhase_def Let_def
  by (auto simp: map_sum_def split: if_splits option.splits sum.splits dest!: append_same_runs)

lemma set_phase_same_runs: "set_phase F now rid t key st = Inr st' \<Longrightarrow> same_runs st st'"
  unfolding set_phase_def
  by (cases "setWorkEpisodePhase (fn_encode F) (fn_decode F) now rid t key (rs_ep st)")
    (auto simp: same_runs_def dest: phase_same_runs_ep)

lemma insert_same_runs: "insertTerminalSlackDelivery now d st = Inr st' \<Longrightarrow> same_runs st st'"
  unfolding insertTerminalSlackDelivery_def Let_def
  by (auto split: if_splits option.splits simp: same_runs_def)

lemma update_run_cases:
  assumes "update_run rid guard f st = Inr st'"
  obtains r where "run_row st rid = Some r" "guard r"
    "st' = with_runs (AList.map_entry rid f (es_runs (rs_ep st))) st"
  using assms unfolding update_run_def by (auto split: option.splits if_splits)

lemma set_attempt_cases:
  assumes "setEpisodeAttemptState now rid to failure lease st = Inr st'"
  shows "st' = update_attempt rid (moved_attempt now to failure lease) st"
  using assms unfolding setEpisodeAttemptState_def by (auto split: if_splits)

end
