(* ===== verification/AgentRunStore.thy ===== *)
theory AgentRunStore
  imports RunTables
begin

text \<open>
  The life of an agent run, \<open>internal/store/agent_run.go\<close> with \<open>rate_limit.go\<close>,
  \<open>agentpreparationstore\<close>, \<open>attemptstore\<close>, \<open>lifecyclecheck\<close> and the restart recovery of
  \<open>store.go\<close>: admission, leasing, the session binding of a lease, submission, the ways back to
  the queue, the result lane and the terminal transitions.  Every function is one transaction.

  Identities the code draws at random (\<open>core.NewID\<close>) are arguments.
\<close>

section \<open>Leasing\<close>

definition terminal_episode :: "RunStore \<Rightarrow> AgentRun \<Rightarrow> bool" where
  "terminal_episode st r \<longleftrightarrow>
     (case episode_row st (run_EpisodeID r) of None \<Rightarrow> False | Some e \<Rightarrow> terminal (ep_State e))"

definition or_now :: "gotime \<Rightarrow> gotime \<Rightarrow> gotime" where
  "or_now t now = (if IsZero t then now else t)"

definition stale_detail :: string where
  "stale_detail = ''episode already reached a terminal state''"

definition fenced_attempt :: "gotime \<Rightarrow> AttemptRow \<Rightarrow> AttemptRow" where
  "fenced_attempt now a =
     a\<lparr>at_State := AttemptCancelled, at_FailureClass := ''episode_terminal'', at_LeaseOwner := [],
       at_LeaseExpiresAt := ZeroTime, at_FencingToken := at_FencingToken a + 1,
       at_CompletedAt := or_now (at_CompletedAt a) now, at_UpdatedAt := now\<rparr>"

definition cancelled_under_episode :: "gotime \<Rightarrow> AgentRun \<Rightarrow> AgentRun" where
  "cancelled_under_episode now r =
     r\<lparr>run_State := AgentRunCancelled, run_TerminalState := AgentRunCancelled,
       run_LastError := stale_detail, run_CompletedAt := or_now (run_CompletedAt r) now,
       run_UpdatedAt := now\<rparr>"

definition queued_under_terminal :: "RunStore \<Rightarrow> AgentRun \<Rightarrow> bool" where
  "queued_under_terminal st r \<longleftrightarrow>
     in_state [AgentRunPending, AgentRunPreparing] r \<and> terminal_episode st r"

text \<open>Where a cancelled run's pending Slack status is cleared, when it has one.\<close>

definition status_clear_target :: "SqlFns \<Rightarrow> RunStore \<Rightarrow> AgentRun \<Rightarrow> (string \<times> string) option" where
  "status_clear_target F st r =
     (if run_SourceKind r = ''watch'' \<and> run_State r = AgentRunCancelled
         \<and> run_LastError r = stale_detail \<and> fn_status_set F (run_Context r)
      then (case map_of (rs_inputs st) (run_SourceID r) of
          None \<Rightarrow> None
        | Some input \<Rightarrow>
            let thread = (case fn_approval_thread F (run_Context r) of
                  Some t \<Rightarrow> t
                | None \<Rightarrow> if_set (inp_ThreadTS input) (inp_MessageTS input))
            in if inp_ChannelID input \<noteq> [] \<and> thread \<noteq> [] then Some (inp_ChannelID input, thread) else None)
      else None)"

definition status_clear_row :: "gotime \<Rightarrow> string \<times> string \<Rightarrow> int \<Rightarrow> AgentRun \<Rightarrow> DeliveryRow" where
  "status_clear_row now key generation r =
     SlackDelivery.extend
       (zero_SlackDelivery\<lparr>dl_ID := ''terminal_status_clear_'' @ run_ID r,
          dl_EpisodeID := run_EpisodeID r, dl_Operation := ''status'', dl_Kind := ''status'',
          dl_ChannelID := fst key, dl_ThreadTS := snd key,
          dl_CoalesceKey := ''status:'' @ fst key @ '':'' @ snd key, dl_CardVersion := generation,
          dl_State := ''pending'', dl_NextAttemptAt := now, dl_CreatedAt := now\<rparr>)
       \<lparr>dl_SequenceKey = [], dl_SequenceIndex = 0, dl_UpdatedAt = now\<rparr>"

definition clear_status :: "SqlFns \<Rightarrow> gotime \<Rightarrow> (string \<times> string) \<times> AgentRun \<Rightarrow> RunStore \<Rightarrow> RunStore" where
  "clear_status F now item st =
     (case item of (key, r) \<Rightarrow>
        let generation = next_generation key st;
            st = advance_status now key st;
            st = (if list_ex (\<lambda>d. dl_ID d = ''terminal_status_clear_'' @ run_ID r) (rs_deliveries st)
                  then st
                  else st\<lparr>rs_deliveries := rs_deliveries st @ [status_clear_row now key generation r]\<rparr>)
        in with_runs (AList.map_entry (run_ID r) (\<lambda>r. r\<lparr>run_Context := fn_clear_status F (run_Context r),
             run_UpdatedAt := now\<rparr>) (es_runs (rs_ep st))) st)"

definition queueTerminalStatusClears :: "SqlFns \<Rightarrow> gotime \<Rightarrow> RunStore \<Rightarrow> RunStore" where
  "queueTerminalStatusClears F now st =
     foldl (\<lambda>st item. clear_status F now item st) st
       (List.map_filter (\<lambda>(i, r). map_option (\<lambda>key. (key, r)) (status_clear_target F st r))
         (es_runs (rs_ep st)))"

definition CancelQueuedUnderTerminalEpisodes :: "SqlFns \<Rightarrow> gotime \<Rightarrow> RunStore \<Rightarrow> RunStore" where
  "CancelQueuedUnderTerminalEpisodes F now st =
     (let queued = (\<lambda>rid. case run_row st rid of None \<Rightarrow> False | Some r \<Rightarrow> queued_under_terminal st r);
          st = with_attempts (map (\<lambda>a. if queued (at_AgentRunID a) then fenced_attempt now a else a)
                 (attempts st)) st;
          st = with_runs (map (\<lambda>(i, r). (i, if queued_under_terminal st r
                 then cancelled_under_episode now r else r)) (es_runs (rs_ep st))) st
      in queueTerminalStatusClears F now st)"

text \<open>The candidate query of \<open>LeaseAgentRun\<close>.\<close>

definition shadow_source :: "RunStore \<Rightarrow> AgentRun \<Rightarrow> bool" where
  "shadow_source st r \<longleftrightarrow>
     (case map_of (rs_inputs st) (run_SourceID r) of
        None \<Rightarrow> False
      | Some input \<Rightarrow> map_of (rs_participation st) (inp_ChannelID input) = Some ''shadow'')"

definition shadow_run :: "RunStore \<Rightarrow> AgentRun \<Rightarrow> bool" where
  "shadow_run st r \<longleftrightarrow> run_SourceKind r = ''watch'' \<and> shadow_source st r"

definition BranchMarker :: string where
  "BranchMarker = ''#branch:''"

definition incident_admits :: "RunStore \<Rightarrow> AgentRun \<Rightarrow> bool" where
  "incident_admits st r \<longleftrightarrow> run_IncidentID r = [] \<or>
     (case map_of (rs_incidents st) (run_IncidentID r) of
        None \<Rightarrow> False
      | Some i \<Rightarrow> inc_CoopSessionID i \<noteq> []
          \<and> (inc_ActiveTurnID i = [] \<or> contains (run_ConversationKey r) BranchMarker)
          \<and> inc_Workflow i \<notin> {''closed'', ''blocked''})"

definition cycling :: "SqlFns \<Rightarrow> AgentRun \<Rightarrow> bool" where
  "cycling F r \<longleftrightarrow> 3 \<le> run_Failures r \<or> 3 \<le> fn_corrections F (run_Context r)"

text \<open>An hour is \<open>1.0/24.0\<close> of a Julian day, which \<open>fn_julian\<close> counts in milliseconds.\<close>

definition older_than_hour :: "SqlFns \<Rightarrow> gotime \<Rightarrow> AgentRun \<Rightarrow> bool" where
  "older_than_hour F now r \<longleftrightarrow> fn_julian F (run_CreatedAt r) < fn_julian F now - 3600000"

definition blocks :: "SqlFns \<Rightarrow> gotime \<Rightarrow> AgentRun \<Rightarrow> AgentRun \<Rightarrow> bool" where
  "blocks F now r other \<longleftrightarrow>
     run_ConversationKey other = run_ConversationKey r \<and> run_ID other \<noteq> run_ID r
     \<and> in_state active_states other \<and> \<not> (cycling F other \<and> older_than_hour F now other)"

definition due :: "SqlFns \<Rightarrow> gotime \<Rightarrow> AgentRun \<Rightarrow> bool" where
  "due F now r \<longleftrightarrow> fn_julian F (run_NextAttemptAt r) \<le> fn_julian F now"

definition open_episode :: "RunStore \<Rightarrow> AgentRun \<Rightarrow> bool" where
  "open_episode st r \<longleftrightarrow>
     (case episode_row st (run_EpisodeID r) of None \<Rightarrow> False | Some e \<Rightarrow> \<not> terminal (ep_State e))"

definition all_runs :: "RunStore \<Rightarrow> AgentRun list" where
  "all_runs st = map snd (es_runs (rs_ep st))"

definition leasable :: "SqlFns \<Rightarrow> gotime \<Rightarrow> RunStore \<Rightarrow> AgentRun \<Rightarrow> bool" where
  "leasable F now st r \<longleftrightarrow>
     run_State r = AgentRunPending \<and> due F now r \<and> open_episode st r \<and> incident_admits st r
     \<and> (\<not> shadow_run st r \<or> \<not> list_ex (\<lambda>a. run_ID a \<noteq> run_ID r \<and> run_SourceKind a = ''watch''
          \<and> in_state active_states a \<and> shadow_source st a) (all_runs st))
     \<and> \<not> list_ex (blocks F now r) (all_runs st)"

definition lease_rank :: "RunStore \<Rightarrow> AgentRun \<Rightarrow> nat" where
  "lease_rank st r =
     (if run_Mode r \<noteq> AgentRunTriage then 0
      else if shadow_run st r then 4
      else case map_of (rs_inputs st) (run_SourceID r) of
          None \<Rightarrow> 2
        | Some input \<Rightarrow>
            if inp_Kind input \<in> {''mention'', ''message'', ''direct'', ''shortcut'', ''action''} then 1
            else if inp_Kind input = ''bot_message'' then 3 else 2)"

text \<open>\<open>ORDER BY rank, created_at, id LIMIT 1\<close>.\<close>

definition lease_before :: "RunStore \<Rightarrow> AgentRun \<Rightarrow> AgentRun \<Rightarrow> bool" where
  "lease_before st a b \<longleftrightarrow>
     lease_rank st a < lease_rank st b
     \<or> lease_rank st a = lease_rank st b
       \<and> (run_CreatedAt a < run_CreatedAt b
          \<or> run_CreatedAt a = run_CreatedAt b \<and> run_ID a < run_ID b)"

definition lease_candidate :: "SqlFns \<Rightarrow> gotime \<Rightarrow> RunStore \<Rightarrow> AgentRun option" where
  "lease_candidate F now st = first_by (lease_before st) (filter (leasable F now st) (all_runs st))"

definition moved_run :: "gotime \<Rightarrow> string \<Rightarrow> AgentRun \<Rightarrow> AgentRun" where
  "moved_run now to r = r\<lparr>run_State := to, run_UpdatedAt := now\<rparr>"

text \<open>Without a candidate the cancellations of the same transaction are still committed.\<close>

definition LeaseAgentRun ::
    "SqlFns \<Rightarrow> gotime \<Rightarrow> RunStore \<Rightarrow> RunError + AgentRun option \<times> RunStore" where
  "LeaseAgentRun F now st0 =
     (let st = CancelQueuedUnderTerminalEpisodes F now st0 in
      case lease_candidate F now st of
        None \<Rightarrow> Inr (None, st)
      | Some r \<Rightarrow>
          and_then (update_run (run_ID r) (in_state [AgentRunPending]) (moved_run now AgentRunPreparing) st)
            (\<lambda>st. and_then (setEpisodeAttemptState now (run_ID r) AttemptLeased [] True st)
            (\<lambda>st. and_then (set_phase F now (run_ID r)
                (phase_to EpisodePlanning ''planning'' ''Planning the work''
                  ''Establish the evidence plan'' ZeroTime)
                (episodeEventKey F ''agent-run-lease'' [run_ID r, run_IdempotencyKey r]) st)
            (\<lambda>st. Inr (Some (r\<lparr>run_State := AgentRunPreparing\<rparr>), st)))))"

text \<open>The finalization lane.\<close>

definition finalization_before :: "AgentRun \<Rightarrow> AgentRun \<Rightarrow> bool" where
  "finalization_before a b \<longleftrightarrow>
     run_UpdatedAt a < run_UpdatedAt b \<or> run_UpdatedAt a = run_UpdatedAt b \<and> run_ID a < run_ID b"

definition newer_owner :: string where
  "newer_owner = ''newer episode attempt owns finalization''"

definition superseded_run :: "gotime \<Rightarrow> string \<Rightarrow> AgentRun \<Rightarrow> AgentRun" where
  "superseded_run now why r =
     r\<lparr>run_State := AgentRunSuperseded, run_CompletedAt := now, run_LastError := why,
       run_UpdatedAt := now\<rparr>"

definition LeaseAgentRunFinalization ::
    "SqlFns \<Rightarrow> gotime \<Rightarrow> RunStore \<Rightarrow> RunError + AgentRun option \<times> RunStore" where
  "LeaseAgentRunFinalization F now st =
     (case first_by finalization_before
         (filter (\<lambda>r. in_state [AgentRunApplying] r \<and> due F now r) (all_runs st)) of
        None \<Rightarrow> Inl RunNotFound
      | Some r \<Rightarrow>
          let finalize = and_then
                (update_run (run_ID r) (in_state [AgentRunApplying]) (moved_run now AgentRunFinalizing) st)
                (\<lambda>st. Inr (Some (r\<lparr>run_State := AgentRunFinalizing\<rparr>), st))
          in if run_EpisodeID r \<noteq> [] \<and> run_TerminalState r \<noteq> AgentRunCompleted
             then case episode_row st (run_EpisodeID r) of
                 None \<Rightarrow> Inl RunNotFound
               | Some e \<Rightarrow>
                   if ep_LatestAttemptID e \<noteq> run_AttemptID r
                   then and_then (update_run (run_ID r) (in_state [AgentRunApplying])
                            (superseded_run now newer_owner) st)
                          (\<lambda>st. and_then (setEpisodeAttemptState now (run_ID r) AttemptCancelled
                              newer_owner False st) (\<lambda>st. Inr (None, st)))
                   else finalize
             else finalize)"

definition BeginAgentRunFinalization ::
    "gotime \<Rightarrow> string \<Rightarrow> RunStore \<Rightarrow> RunError + AgentRun \<times> RunStore" where
  "BeginAgentRunFinalization now rid st =
     (case run_row st rid of
        None \<Rightarrow> Inl RunNotFound
      | Some r \<Rightarrow>
          if run_State r = AgentRunFinalizing then Inr (r, st)
          else and_then (update_run rid (in_state [AgentRunApplying]) (moved_run now AgentRunFinalizing) st)
                 (\<lambda>st. Inr (r\<lparr>run_State := AgentRunFinalizing\<rparr>, st)))"

section \<open>What a lease binds\<close>

definition context_limit :: nat where
  "context_limit = 256 * 1024"

definition bound_run :: "gotime \<Rightarrow> string \<Rightarrow> int \<Rightarrow> string \<Rightarrow> int \<Rightarrow> string \<Rightarrow> AgentRun \<Rightarrow> AgentRun" where
  "bound_run now session generation repository events contextJSON r =
     r\<lparr>run_ExpectedRevision :=
         (if run_SessionID r = session \<and> run_SessionGeneration r = generation
          then run_ExpectedRevision r else 0),
       run_SessionID := session, run_SessionGeneration := generation, run_Repository := repository,
       run_CoopEventSequence := events, run_Context := contextJSON, run_UpdatedAt := now\<rparr>"

definition BindAgentRunSession ::
    "gotime \<Rightarrow> string \<Rightarrow> string \<Rightarrow> int \<Rightarrow> string \<Rightarrow> int \<Rightarrow> string \<Rightarrow> RunStore \<Rightarrow> RunError + RunStore" where
  "BindAgentRunSession now rid session generation repository events contextJSON st =
     (if session = [] \<or> contextJSON = [] \<or> context_limit < length contextJSON
      then Inl (RunRefused ''agent run session binding is incomplete'')
      else update_run rid (in_state [AgentRunPreparing, AgentRunFinalizing])
             (bound_run now session generation repository events contextJSON) st)"

definition holds_session :: "(string \<times> SessionRow) list \<Rightarrow> string \<Rightarrow> string \<Rightarrow> int \<Rightarrow> bool" where
  "holds_session rows channel session generation \<longleftrightarrow>
     (case map_of rows channel of None \<Rightarrow> False
      | Some row \<Rightarrow> ss_SessionID row = session \<and> ss_Generation row = generation)"

definition BindTriageAgentRunSession ::
    "gotime \<Rightarrow> string \<Rightarrow> string \<Rightarrow> string \<Rightarrow> int \<Rightarrow> bool \<Rightarrow> string \<Rightarrow> int \<Rightarrow> string \<Rightarrow> RunStore
     \<Rightarrow> RunError + RunStore" where
  "BindTriageAgentRunSession now rid channel session generation conversation repository events
       contextJSON st =
     (if channel = [] \<or> session = [] \<or> generation < 1 \<or> contextJSON = []
         \<or> context_limit < length contextJSON
      then Inl (RunRefused ''triage agent run session binding is incomplete'')
      else update_run rid
             (\<lambda>r. in_state [AgentRunPreparing, AgentRunFinalizing] r
                \<and> holds_session (if conversation then rs_conversations st else rs_memories st)
                    channel session generation
                \<and> map_of (rs_cleanup st) session = None)
             (bound_run now session generation repository events contextJSON) st)"

definition SetAgentRunContext :: "gotime \<Rightarrow> string \<Rightarrow> string \<Rightarrow> RunStore \<Rightarrow> RunError + RunStore" where
  "SetAgentRunContext now rid contextJSON st =
     (if contextJSON = [] \<or> context_limit < length contextJSON
      then Inl (RunRefused ''agent run context must be between 1 byte and 256 KiB'')
      else update_run rid (\<lambda>r. run_State r \<noteq> AgentRunSuperseded)
             (\<lambda>r. r\<lparr>run_Context := contextJSON, run_UpdatedAt := now\<rparr>) st)"

definition ReleaseAgentRunRevision ::
    "gotime \<Rightarrow> string \<Rightarrow> string \<Rightarrow> RunStore \<Rightarrow> RunError + RunStore" where
  "ReleaseAgentRunRevision now random rid st =
     ignore_miss st (update_run rid (in_state [AgentRunPreparing])
       (\<lambda>r. r\<lparr>run_ExpectedRevision := 0, run_CoopTurnID := [],
              run_IdempotencyKey := ''responder:run:'' @ rid @ '':revision:'' @ random,
              run_UpdatedAt := now\<rparr>) st)"

definition FreezeAgentRunRevision ::
    "gotime \<Rightarrow> string \<Rightarrow> int \<Rightarrow> RunStore \<Rightarrow> RunError + int \<times> RunStore" where
  "FreezeAgentRunRevision now rid revision st =
     (if revision \<le> 0 then Inl (RunRefused ''positive Coop revision is required'')
      else case run_row st rid of
          None \<Rightarrow> Inl RunNotFound
        | Some r \<Rightarrow>
            if run_ExpectedRevision r = 0
            then and_then (update_run rid
                   (\<lambda>r. in_state [AgentRunPreparing] r \<and> run_ExpectedRevision r = 0)
                   (\<lambda>r. r\<lparr>run_ExpectedRevision := revision, run_UpdatedAt := now\<rparr>) st)
                   (\<lambda>st. Inr (revision, st))
            else Inr (run_ExpectedRevision r, st))"

definition AdvanceAgentRunGeneration ::
    "gotime \<Rightarrow> string \<Rightarrow> int \<Rightarrow> RunStore \<Rightarrow> RunError + RunStore" where
  "AdvanceAgentRunGeneration now rid generation st =
     (if rid = [] \<or> generation < 1
      then Inl (RunRefused ''agent run session generation is incomplete'')
      else update_run rid
             (\<lambda>r. in_state [AgentRunPreparing] r \<and> run_SessionGeneration r < generation)
             (\<lambda>r. r\<lparr>run_SessionID := [], run_SessionGeneration := generation, run_UpdatedAt := now\<rparr>) st)"

section \<open>Submission\<close>

text \<open>\<open>preparationstore.RetireTx\<close>: the blocker notice of a preparation is recalled.\<close>

definition last_position :: "(DeliveryRow \<Rightarrow> bool) \<Rightarrow> DeliveryRow list \<Rightarrow> nat option" where
  "last_position P rows =
     (case filter (\<lambda>i. P (rows ! i)) (rev [0..<length rows]) of [] \<Rightarrow> None | i # _ \<Rightarrow> Some i)"

definition preparation_notice :: "string \<Rightarrow> DeliveryRow \<Rightarrow> bool" where
  "preparation_notice key d \<longleftrightarrow>
     dl_CoalesceKey d = key \<and> dl_Operation d \<in> {''post'', ''update''}"

definition retirement :: "string \<Rightarrow> DeliveryRow \<Rightarrow> bool" where
  "retirement key d \<longleftrightarrow> dl_CoalesceKey d = key \<and> dl_Operation d = ''delete''"

definition retirement_row :: "gotime \<Rightarrow> string \<Rightarrow> string \<Rightarrow> DeliveryRow \<Rightarrow> DeliveryRow" where
  "retirement_row now key rowID blocker =
     SlackDelivery.extend
       (zero_SlackDelivery\<lparr>dl_ID := rowID, dl_EpisodeID := dl_EpisodeID blocker,
          dl_AgentRunID := dl_AgentRunID blocker, dl_AgentRunKey := dl_AgentRunKey blocker,
          dl_SourceInputID := dl_SourceInputID blocker, dl_Operation := ''delete'',
          dl_Kind := ''notice_retirement'', dl_ChannelID := dl_ChannelID blocker,
          dl_CoalesceKey := key, dl_State := ''pending'', dl_NextAttemptAt := now,
          dl_CreatedAt := now\<rparr>)
       \<lparr>dl_SequenceKey = [], dl_SequenceIndex = 0, dl_UpdatedAt = now\<rparr>"

definition retire_preparation :: "gotime \<Rightarrow> string \<Rightarrow> RunStore \<Rightarrow> RunStore" where
  "retire_preparation now key st =
     (if key = [] then st
      else
        let rows = rs_deliveries st;
            settled = (case last_position (\<lambda>d. retirement key d \<and> dl_State d = ''sent'') rows of
                None \<Rightarrow> 0 | Some i \<Rightarrow> Suc i)
        in case last_position (\<lambda>d. preparation_notice key d
               \<and> dl_State d \<in> {''pending'', ''retry'', ''sending'', ''uncertain'', ''sent''}) rows of
             None \<Rightarrow> st
           | Some at \<Rightarrow>
               if at < settled then st
               else if list_ex (\<lambda>d. retirement key d \<and> dl_State d \<in> {''pending'', ''retry'', ''sending''})
                   (drop (Suc at) rows)
               then st
               else
                 let rowID = key @ ''retire_''
                       @ pad 3 (int (length (filter (retirement key) rows)) + 1)
                 in if list_ex (\<lambda>d. dl_ID d = rowID) rows then st
                    else update_deliveries
                      (\<lambda>d. preparation_notice key d \<and> dl_ID d \<noteq> rowID
                         \<and> dl_State d \<in> {''pending'', ''retry''})
                      (superseded_delivery now ''preparation recovered before delivery'')
                      (st\<lparr>rs_deliveries := rows @ [retirement_row now key rowID (rows ! at)]\<rparr>))"

definition submitted_run ::
    "SqlFns \<Rightarrow> gotime \<Rightarrow> string \<Rightarrow> int \<Rightarrow> AgentRun \<Rightarrow> AgentRun" where
  "submitted_run F now turn events r =
     r\<lparr>run_State := AgentRunRunning, run_CoopTurnID := turn, run_CoopEventSequence := events,
       run_LastError := [], run_Context := fn_disarm F (run_Context r),
       run_StartedAt := or_now (run_StartedAt r) now, run_UpdatedAt := now\<rparr>"

definition update_incident :: "string \<Rightarrow> (Incident \<Rightarrow> bool) \<Rightarrow> (Incident \<Rightarrow> Incident) \<Rightarrow> RunStore \<Rightarrow> RunStore" where
  "update_incident iid guard f st =
     st\<lparr>rs_incidents := map (\<lambda>(i, row). (i, if i = iid \<and> guard row then f row else row)) (rs_incidents st)\<rparr>"

definition expect_incident ::
    "string \<Rightarrow> (Incident \<Rightarrow> bool) \<Rightarrow> (Incident \<Rightarrow> Incident) \<Rightarrow> RunStore \<Rightarrow> RunError + RunStore" where
  "expect_incident iid guard f st =
     (case map_of (rs_incidents st) iid of
        None \<Rightarrow> Inl RunConflict
      | Some row \<Rightarrow> if guard row then Inr (update_incident iid guard f st) else Inl RunConflict)"

definition update_sessions ::
    "(string \<Rightarrow> SessionRow \<Rightarrow> bool) \<Rightarrow> (SessionRow \<Rightarrow> SessionRow) \<Rightarrow> (string \<times> SessionRow) list
     \<Rightarrow> (string \<times> SessionRow) list" where
  "update_sessions P f = map (\<lambda>(c, row). (c, if P c row then f row else row))"

definition advanced_session :: "gotime \<Rightarrow> int \<Rightarrow> int \<Rightarrow> SessionRow \<Rightarrow> SessionRow" where
  "advanced_session now revision events row =
     row\<lparr>ss_Revision := revision, ss_CoopEventSequence := events, ss_UpdatedAt := now\<rparr>"

definition started_phase :: "string \<Rightarrow> Transition" where
  "started_phase nextAction =
     phase_to EpisodeWorking ''investigating'' ''Investigating'' nextAction ZeroTime"

definition submission ::
    "SqlFns \<Rightarrow> gotime \<Rightarrow> string \<Rightarrow> string \<Rightarrow> int \<Rightarrow> RunStore \<Rightarrow> RunError + RunStore" where
  "submission F now rid turn events st =
     and_then (update_run rid (in_state [AgentRunPreparing]) (submitted_run F now turn events) st)
       (\<lambda>st. setEpisodeAttemptState now rid AttemptRunning [] False st)"

definition markAgentRunSubmitted ::
    "SqlFns \<Rightarrow> gotime \<Rightarrow> string \<Rightarrow> string \<Rightarrow> int \<Rightarrow> int \<Rightarrow> string \<Rightarrow> RunStore \<Rightarrow> RunError + RunStore" where
  "markAgentRunSubmitted F now rid turn revision events preparation st =
     (if turn = [] then Inl (RunRefused ''submitted agent run requires a Coop turn ID'')
      else case run_row st rid of
          None \<Rightarrow> Inl RunNotFound
        | Some r \<Rightarrow>
            if run_SessionID r = [] then Inl (RunRefused ''submitted agent run requires a bound Coop session'')
            else and_then (submission F now rid turn events st) (\<lambda>st.
              let st = (if run_IncidentID r \<noteq> []
                    then update_incident (run_IncidentID r) (\<lambda>_. True)
                      (\<lambda>i. i\<lparr>inc_ActiveTurnID := turn, inc_CoopRevision := revision,
                             inc_Workflow := ''investigating'', inc_UpdatedAt := now,
                             inc_CardVersion := inc_CardVersion i + 1, inc_LastError := []\<rparr>) st
                    else if run_ChannelID r \<noteq> []
                    then st\<lparr>rs_memories := update_sessions (\<lambda>c _. c = run_ChannelID r)
                           (advanced_session now revision events) (rs_memories st)\<rparr>
                    else st)
              in and_then (set_phase F now rid (started_phase ''Complete the evidence plan'')
                   (''agent-turn:'' @ turn @ '':started'') st)
                   (\<lambda>st. Inr (retire_preparation now preparation st))))"

definition MarkTriageAgentRunSubmitted ::
    "SqlFns \<Rightarrow> gotime \<Rightarrow> string \<Rightarrow> string \<Rightarrow> int \<Rightarrow> int \<Rightarrow> string \<Rightarrow> string \<Rightarrow> RunStore
     \<Rightarrow> RunError + RunStore" where
  "MarkTriageAgentRunSubmitted F now rid turn revision events lane preparation st =
     (if lane \<noteq> ''conversation''
      then markAgentRunSubmitted F now rid turn revision events preparation st
      else if turn = [] then Inl (RunRefused ''submitted agent run requires a Coop turn ID'')
      else case run_row st rid of
          None \<Rightarrow> Inl RunNotFound
        | Some r \<Rightarrow>
            and_then (submission F now rid turn events st) (\<lambda>st.
              let mine = (\<lambda>c row. c = run_ChannelID r \<and> ss_SessionID row = run_SessionID r) in
              if \<not> list_ex (\<lambda>(c, row). mine c row) (rs_conversations st) then Inl RunConflict
              else and_then (set_phase F now rid (started_phase ''Complete the requested work'')
                   (''agent-turn:'' @ turn @ '':started'')
                   (st\<lparr>rs_conversations := update_sessions mine
                        (advanced_session now revision events) (rs_conversations st)\<rparr>))
                   (\<lambda>st. Inr (retire_preparation now preparation st))))"

section \<open>Back to the queue\<close>

definition json_valid_context :: "(string \<Rightarrow> bool) \<Rightarrow> string \<Rightarrow> bool" where
  "json_valid_context valid c \<longleftrightarrow> c \<noteq> [] \<and> length c \<le> context_limit \<and> valid c"

text \<open>\<open>agentpreparationstore.Defer\<close>; \<open>json.Valid\<close> is the argument \<open>valid\<close>.\<close>

definition deferAgentRun ::
    "SqlFns \<Rightarrow> (string \<Rightarrow> bool) \<Rightarrow> gotime \<Rightarrow> string \<Rightarrow> string option \<Rightarrow> string \<Rightarrow> gotime \<Rightarrow> bool
     \<Rightarrow> RunStore \<Rightarrow> RunError + RunStore" where
  "deferAgentRun F valid now rid contextJSON detail next workspace st =
     (if (case contextJSON of None \<Rightarrow> False | Some c \<Rightarrow> \<not> json_valid_context valid c)
      then Inl (RunRefused ''triage run context must be valid JSON between 1 byte and 256 KiB'')
      else and_then (update_run rid (in_state [AgentRunPreparing])
          (\<lambda>r. r\<lparr>run_State := AgentRunPending,
                 run_Context := (case contextJSON of None \<Rightarrow> run_Context r | Some c \<Rightarrow> c),
                 run_LastError := BoundedError detail, run_NextAttemptAt := next,
                 run_UpdatedAt := now\<rparr>) st)
        (\<lambda>st. and_then (setEpisodeAttemptState now rid AttemptPending detail False st)
        (\<lambda>st. if workspace
           then set_phase F now rid
             (phase_to EpisodeRetrying ''preparing_workspace'' (BoundedError detail)
                ''Responder will retry this investigation branch automatically'' next)
             (''agent-run:'' @ rid @ '':deferred:preparing_workspace'') st
           else set_phase F now rid
             (phase_to EpisodeAcknowledged ''queued'' (BoundedError detail)
                ''Resume when the dependency is ready'' ZeroTime)
             (''agent-run:'' @ rid @ '':deferred'') st)))"

text \<open>\<open>agentpreparationstore.Recover\<close>: every abandoned preparation goes back to the queue.\<close>

definition recovery_detail :: string where
  "recovery_detail = ''Workspace preparation was interrupted; retrying''"

definition abandoned :: "SqlFns \<Rightarrow> gotime \<Rightarrow> AgentRun \<Rightarrow> bool" where
  "abandoned F staleBefore r \<longleftrightarrow>
     in_state [AgentRunPreparing] r \<and> run_CoopTurnID r = []
     \<and> fn_julian F (run_UpdatedAt r) \<le> fn_julian F staleBefore"

definition recover_one :: "SqlFns \<Rightarrow> gotime \<Rightarrow> gotime \<Rightarrow> string \<Rightarrow> RunError + int \<times> RunStore
    \<Rightarrow> RunError + int \<times> RunStore" where
  "recover_one F now staleBefore rid result =
     and_then result (\<lambda>(n, st).
       case update_run rid (abandoned F staleBefore)
           (\<lambda>r. r\<lparr>run_State := AgentRunPending, run_NextAttemptAt := now,
                  run_LastError := if_set (run_LastError r) recovery_detail, run_UpdatedAt := now\<rparr>) st of
         Inl RunConflict \<Rightarrow> Inr (n, st)
       | Inl e \<Rightarrow> Inl e
       | Inr st \<Rightarrow>
           and_then (setEpisodeAttemptState now rid AttemptPending recovery_detail False st)
             (\<lambda>st. Inr (n + 1, st)))"

definition RecoverStaleAgentRunPreparations ::
    "SqlFns \<Rightarrow> gotime \<Rightarrow> gotime \<Rightarrow> RunStore \<Rightarrow> RunError + int \<times> RunStore" where
  "RecoverStaleAgentRunPreparations F now staleBefore st =
     fold (recover_one F now staleBefore)
       (map run_ID (filter (abandoned F staleBefore) (all_runs st))) (Inr (0, st))"

definition retry_key :: "string \<Rightarrow> string \<Rightarrow> string" where
  "retry_key rid fresh = ''responder:run:'' @ rid @ '':'' @ fresh"

text \<open>The low-noise failure marker on the source message.\<close>

definition failureMarkerDeliveryID :: "SqlFns \<Rightarrow> string \<Rightarrow> string \<Rightarrow> string \<Rightarrow> string" where
  "failureMarkerDeliveryID F action rid key =
     ''delivery_'' @ action @ ''_'' @ rid @ ''_'' @ take 16 (fn_hash F [key])"

definition responderFailureReaction :: string where
  "responderFailureReaction = ''warning''"

definition setFailureMarker ::
    "SqlFns \<Rightarrow> gotime \<Rightarrow> AgentRun \<Rightarrow> string \<Rightarrow> bool \<Rightarrow> RunStore \<Rightarrow> RunError + RunStore" where
  "setFailureMarker F now r action bindSource st =
     (case map_of (rs_inputs st) (run_SourceID r) of
        None \<Rightarrow> Inr st
      | Some input \<Rightarrow>
          if inp_ChannelID input = [] \<or> inp_MessageTS input = [] then Inr st
          else if has_prefix (inp_EnvelopeID input) ''replay-private:'' then Inr st
          else
            let key = ''reaction:'' @ inp_ChannelID input @ '':'' @ inp_MessageTS input @ '':''
                  @ responderFailureReaction;
                st = update_deliveries
                  (\<lambda>d. dl_CoalesceKey d = key \<and> dl_State d \<in> {''pending'', ''retry''})
                  (superseded_delivery now ''newer reaction intent'') st
            in insertTerminalSlackDelivery now
                 (zero_SlackDelivery\<lparr>dl_ID := failureMarkerDeliveryID F action (run_ID r) (run_IdempotencyKey r),
                    dl_IncidentID := run_IncidentID r, dl_EpisodeID := run_EpisodeID r,
                    dl_AgentRunID := run_ID r, dl_AgentRunKey := run_IdempotencyKey r,
                    dl_SourceInputID := (if bindSource then run_SourceID r else []),
                    dl_Operation := ''reaction'', dl_Kind := action,
                    dl_ChannelID := inp_ChannelID input, dl_MessageTS := inp_MessageTS input,
                    dl_Status := responderFailureReaction, dl_CoalesceKey := key\<rparr>) st)"

text \<open>\<open>Format(time.RFC3339Nano)\<close>, which drops the trailing zeros of the fraction.\<close>

definition rfc3339_nano :: "gotime \<Rightarrow> string" where
  "rfc3339_nano t =
     (let fraction = rev (dropWhile (\<lambda>c. c = CHR ''0'') (rev (pad 9 (nanos t mod second))))
      in date_text t @ ''T'' @ clock_text t @ (if fraction = [] then [] else CHR ''.'' # fraction)
           @ ''Z'')"

definition bool_text :: "bool \<Rightarrow> string" where
  "bool_text b = (if b then ''true'' else ''false'')"

definition RetryAgentRun ::
    "SqlFns \<Rightarrow> gotime \<Rightarrow> string \<Rightarrow> string \<Rightarrow> string \<Rightarrow> gotime \<Rightarrow> bool \<Rightarrow> RunStore
     \<Rightarrow> RunError + RunStore" where
  "RetryAgentRun F now fresh rid detail next terminally st =
     and_then (update_run rid (in_state [AgentRunPreparing, AgentRunFinalizing])
         (\<lambda>r. r\<lparr>run_State := (if terminally then AgentRunFailed else AgentRunPending),
                run_Failures := run_Failures r + 1, run_LastError := BoundedError detail,
                run_IdempotencyKey := retry_key rid fresh, run_CoopTurnID := [],
                run_NextAttemptAt := next,
                run_CompletedAt := (if terminally then now else ZeroTime), run_UpdatedAt := now\<rparr>) st)
       (\<lambda>st. and_then (setEpisodeAttemptState now rid
                (if terminally then AttemptFailed else AttemptPending) detail False st)
       (\<lambda>st. and_then (set_phase F now rid
                (if terminally
                 then phase_to EpisodeFailed ''failed'' (BoundedError detail)
                        ''Review the blocker or retry'' ZeroTime
                 else phase_to EpisodeAcknowledged ''retrying'' (BoundedError detail)
                        ''Retry the work from preserved context'' ZeroTime)
                (''agent-run:'' @ rid @ '':retry:'' @ rfc3339_nano next @ '':'' @ bool_text terminally) st)
       (\<lambda>st. if \<not> terminally then Inr st
         else case run_row st rid of
             None \<Rightarrow> Inl RunNotFound
           | Some r \<Rightarrow>
               (case episode_row st (run_EpisodeID r) of
                  None \<Rightarrow> Inl RunNotFound
                | Some e \<Rightarrow>
                    if ep_LatestAttemptID e = run_AttemptID r
                    then setFailureMarker F now r ''failure_marker_add'' True st
                    else Inr st))))"

text \<open>\<open>RetryAgentRunIfOwned\<close>: whether the retry was recorded, and the error when the run is still
  in a state the retry owns.\<close>

definition RetryAgentRunIfOwned ::
    "SqlFns \<Rightarrow> gotime \<Rightarrow> string \<Rightarrow> string \<Rightarrow> string \<Rightarrow> gotime \<Rightarrow> bool \<Rightarrow> RunStore
     \<Rightarrow> bool \<times> RunError option \<times> RunStore" where
  "RetryAgentRunIfOwned F now fresh rid detail next terminally st =
     (case RetryAgentRun F now fresh rid detail next terminally st of
        Inr st' \<Rightarrow> (True, None, st')
      | Inl e \<Rightarrow>
          if e \<noteq> RunConflict then (False, Some e, st)
          else case run_row st rid of
              None \<Rightarrow> (False, None, st)
            | Some current \<Rightarrow>
                if in_state [AgentRunPreparing, AgentRunFinalizing] current
                then (False, Some e, st) else (False, None, st))"

definition HoldOffAgentRunPoll ::
    "gotime \<Rightarrow> string \<Rightarrow> string \<Rightarrow> gotime \<Rightarrow> RunStore \<Rightarrow> RunError + RunStore" where
  "HoldOffAgentRunPoll now rid detail next st =
     ignore_miss st (update_run rid (in_state [AgentRunRunning])
       (\<lambda>r. r\<lparr>run_LastError := BoundedError detail, run_NextAttemptAt := next, run_UpdatedAt := now\<rparr>) st)"

definition AdvanceAgentRunEvents ::
    "gotime \<Rightarrow> string \<Rightarrow> int \<Rightarrow> RunStore \<Rightarrow> RunError + RunStore" where
  "AdvanceAgentRunEvents now rid sequence st =
     update_run rid (in_state [AgentRunRunning])
       (\<lambda>r. r\<lparr>run_CoopEventSequence := max (run_CoopEventSequence r) sequence, run_UpdatedAt := now\<rparr>) st"

definition reset_cursor :: "gotime \<Rightarrow> SessionRow \<Rightarrow> SessionRow" where
  "reset_cursor now row = row\<lparr>ss_CoopEventSequence := 0, ss_UpdatedAt := now\<rparr>"

definition RepairAgentRunEventCursor ::
    "gotime \<Rightarrow> string \<Rightarrow> string \<Rightarrow> bool \<Rightarrow> RunStore \<Rightarrow> RunError + RunStore" where
  "RepairAgentRunEventCursor now rid session conversation st =
     (if rid = [] \<or> session = []
      then Inl (RunRefused ''agent run event cursor repair identity is incomplete'')
      else case run_row st rid of
          None \<Rightarrow> Inl RunConflict
        | Some r \<Rightarrow>
            and_then (update_run rid (\<lambda>r. in_state [AgentRunRunning] r \<and> run_SessionID r = session)
                (\<lambda>r. r\<lparr>run_CoopEventSequence := 0, run_UpdatedAt := now\<rparr>) st)
              (\<lambda>st.
                let mine = (\<lambda>c row. c = run_ChannelID r \<and> ss_SessionID row = session) in
                if run_IncidentID r \<noteq> []
                then Inr (update_incident (run_IncidentID r) (\<lambda>i. inc_CoopSessionID i = session)
                       (\<lambda>i. i\<lparr>inc_CoopEventSequence := 0, inc_UpdatedAt := now\<rparr>) st)
                else let st = st\<lparr>rs_memories := update_sessions mine (reset_cursor now) (rs_memories st)\<rparr>
                     in Inr (if conversation
                          then st\<lparr>rs_conversations := update_sessions mine (reset_cursor now)
                                  (rs_conversations st)\<rparr>
                          else st)))"

text \<open>What a requeue drops: the binding to the attempt that failed (\<open>requeueRunColumns\<close>).\<close>

definition unbound_run :: "AgentRun \<Rightarrow> AgentRun" where
  "unbound_run r =
     r\<lparr>run_ExpectedRevision := 0, run_CoopTurnID := [], run_Result := [], run_TerminalState := [],
       run_CompletedAt := ZeroTime\<rparr>"

definition requeued_run ::
    "gotime \<Rightarrow> string \<Rightarrow> int \<Rightarrow> string \<Rightarrow> gotime \<Rightarrow> bool \<Rightarrow> AgentRun \<Rightarrow> AgentRun" where
  "requeued_run now key events lastError next spends r =
     (unbound_run r)\<lparr>run_State := AgentRunPending, run_IdempotencyKey := key,
       run_Failures := run_Failures r + (if spends then 1 else 0),
       run_CoopEventSequence := max (run_CoopEventSequence r) events, run_LastError := lastError,
       run_NextAttemptAt := next, run_UpdatedAt := now\<rparr>"

definition released_incident :: "gotime \<Rightarrow> int \<Rightarrow> Incident \<Rightarrow> Incident" where
  "released_incident now events i =
     i\<lparr>inc_ActiveTurnID := [], inc_Workflow := ''parked'', inc_LastError := [],
       inc_CoopEventSequence := max (inc_CoopEventSequence i) events, inc_UpdatedAt := now,
       inc_CardVersion := inc_CardVersion i + 1\<rparr>"

definition release_turn :: "gotime \<Rightarrow> AgentRun \<Rightarrow> int \<Rightarrow> RunStore \<Rightarrow> RunError + RunStore" where
  "release_turn now r events st =
     (if run_IncidentID r = [] then Inr st
      else expect_incident (run_IncidentID r) (\<lambda>i. inc_ActiveTurnID i = run_CoopTurnID r)
             (released_incident now events) st)"

definition CorrectionTextLimit :: int where
  "CorrectionTextLimit = 4000"

definition requeue_history :: "gotime \<Rightarrow> string \<Rightarrow> RunStore \<Rightarrow> RunError + RunStore" where
  "requeue_history now rid st =
     and_then (update_run rid (\<lambda>_. True) (superseded_run now newer_owner) st)
       (\<lambda>st. setEpisodeAttemptState now rid AttemptCancelled newer_owner False st)"

definition RequeueAgentRun ::
    "SqlFns \<Rightarrow> gotime \<Rightarrow> string \<Rightarrow> string \<Rightarrow> string \<Rightarrow> int \<Rightarrow> gotime \<Rightarrow> bool \<Rightarrow> RunStore
     \<Rightarrow> RunError + RunStore" where
  "RequeueAgentRun F now fresh rid detail events next spends st =
     (case run_row st rid of
        None \<Rightarrow> Inl RunConflict
      | Some r \<Rightarrow>
          and_then (update_run rid (in_state [AgentRunRunning, AgentRunFinalizing])
              (requeued_run now (retry_key rid fresh) events (BoundedText detail CorrectionTextLimit)
                 next spends) st)
            (\<lambda>st. and_then (setEpisodeAttemptState now rid AttemptPending detail False st)
            (\<lambda>st. and_then (release_turn now r events
                (update_attempt rid (\<lambda>a. a\<lparr>at_ContextManifestID := []\<rparr>) st))
            (\<lambda>st. case set_phase F now rid
                 (phase_to EpisodeAcknowledged ''continuing'' (BoundedError detail)
                    ''Continue unfinished work'' ZeroTime)
                 (''agent-run:'' @ rid @ '':'' @ fresh) st of
               Inr st \<Rightarrow> Inr st
             | Inl e \<Rightarrow>
                 if e = RunEpisode AttemptSuperseded then requeue_history now rid st else Inl e))))"

definition RequeueFailedAgentRun ::
    "SqlFns \<Rightarrow> gotime \<Rightarrow> string \<Rightarrow> string \<Rightarrow> string \<Rightarrow> RunStore \<Rightarrow> RunError + RunStore" where
  "RequeueFailedAgentRun F now fresh rid detail st =
     (case run_row st rid of
        None \<Rightarrow> Inl RunNotFound
      | Some r \<Rightarrow>
          if run_State r \<noteq> AgentRunFailed
          then Inl (RunRefused ''only a failed run can be retried'')
          else case episode_row st (run_EpisodeID r) of
              None \<Rightarrow> Inl (RunRefused ''this run has no episode record to reopen, so there is nothing to retry into'')
            | Some e \<Rightarrow>
                if run_AttemptID r \<noteq> ep_LatestAttemptID e
                then Inl (RunRefused ''a newer attempt has run for this episode since'')
                else if ep_State e = EpisodeCompleted
                then Inl (RunRefused ''the episode completed on a later attempt; there is nothing left to retry'')
                else
                  and_then (update_run rid (in_state [AgentRunFailed])
                      (\<lambda>r. (unbound_run r)\<lparr>run_State := AgentRunPending,
                         run_IdempotencyKey := retry_key rid fresh, run_LastError := BoundedError detail,
                         run_NextAttemptAt := now, run_UpdatedAt := now\<rparr>) st)
                    (\<lambda>st. and_then (setEpisodeAttemptState now rid AttemptPending detail False st)
                    (\<lambda>st. and_then (set_phase F now rid
                        (phase_to EpisodeAcknowledged ''retrying'' (BoundedError detail)
                           ''Retry the work from preserved context'' ZeroTime)
                        (''agent-run:'' @ rid @ '':'' @ fresh) st)
                    (\<lambda>st. setFailureMarker F now
                        (zero_AgentRun\<lparr>run_ID := rid, run_EpisodeID := run_EpisodeID r,
                           run_IncidentID := run_IncidentID r, run_SourceID := run_SourceID r,
                           run_IdempotencyKey := retry_key rid fresh\<rparr>)
                        ''failure_marker_remove'' False st))))"

definition unix_epoch :: gotime where
  "unix_epoch = Time (days_before_year 1970 * day)"

definition DeferRunningAgentRun ::
    "SqlFns \<Rightarrow> gotime \<Rightarrow> string \<Rightarrow> string \<Rightarrow> int \<Rightarrow> gotime \<Rightarrow> RunStore \<Rightarrow> RunError + RunStore" where
  "DeferRunningAgentRun F now rid detail events next st =
     (case run_row st rid of
        None \<Rightarrow> Inl RunConflict
      | Some r \<Rightarrow>
          and_then (update_run rid (in_state [AgentRunRunning])
              (requeued_run now (retry_key rid (''dependency:'' @ itoa (nanos now - nanos unix_epoch)))
                 events (BoundedError detail) next False) st)
            (\<lambda>st. and_then (setEpisodeAttemptState now rid AttemptPending detail False st)
            (\<lambda>st. and_then (release_turn now r events st)
            (\<lambda>st. set_phase F now rid
               (phase_to EpisodeAcknowledged ''waiting'' (BoundedError detail)
                  ''Waiting for execution runtime'' ZeroTime)
               (''agent-run:'' @ rid @ '':dependency:'' @ itoa events) st))))"

definition EscalateAgentRun ::
    "SqlFns \<Rightarrow> gotime \<Rightarrow> string \<Rightarrow> string \<Rightarrow> string \<Rightarrow> gotime \<Rightarrow> RunStore \<Rightarrow> RunError + RunStore" where
  "EscalateAgentRun F now rid detail contextJSON next st =
     and_then (update_run rid (in_state [AgentRunRunning])
         (\<lambda>r. (unbound_run r)\<lparr>run_State := AgentRunPending,
            run_IdempotencyKey := retry_key rid ''investigation'', run_SessionID := [],
            run_SessionGeneration := 0, run_CoopEventSequence := 0, run_Context := contextJSON,
            run_LastError := BoundedError detail, run_NextAttemptAt := next, run_UpdatedAt := now\<rparr>) st)
       (\<lambda>st. and_then (setEpisodeAttemptState now rid AttemptPending detail False st)
       (\<lambda>st. set_phase F now rid
          (phase_to EpisodePlanning ''expanding_scope'' (BoundedError detail)
             ''Continue in the full investigation lane'' ZeroTime)
          (''agent-run:'' @ rid @ '':escalated'') st))"

definition RequeueRateLimitedFinalization ::
    "gotime \<Rightarrow> string \<Rightarrow> string \<Rightarrow> gotime \<Rightarrow> RunStore \<Rightarrow> RunError + RunStore" where
  "RequeueRateLimitedFinalization now rid detail next st =
     update_run rid (in_state [AgentRunApplying, AgentRunFinalizing])
       (\<lambda>r. r\<lparr>run_State := AgentRunApplying, run_LastError := BoundedError detail,
              run_NextAttemptAt := next, run_UpdatedAt := now\<rparr>) st"

definition RequeueRateLimitedAgentRun ::
    "SqlFns \<Rightarrow> gotime \<Rightarrow> string \<Rightarrow> string \<Rightarrow> string \<Rightarrow> gotime \<Rightarrow> bool \<Rightarrow> RunStore
     \<Rightarrow> RunError + RunStore" where
  "RequeueRateLimitedAgentRun F now fresh rid detail next degraded st =
     and_then (update_run rid (in_state [AgentRunPreparing, AgentRunRunning, AgentRunFinalizing])
         (\<lambda>r. r\<lparr>run_State := AgentRunPending, run_CoopTurnID := [],
                run_IdempotencyKey := retry_key rid fresh, run_LastError := BoundedError detail,
                run_NextAttemptAt := next,
                run_Context := (if degraded then fn_arm F (run_Context r) else run_Context r),
                run_UpdatedAt := now\<rparr>) st)
       (\<lambda>st. and_then (setEpisodeAttemptState now rid AttemptPending detail False st)
       (\<lambda>st. set_phase F now rid
          (phase_to EpisodeAcknowledged ''waiting''
             ''The AI provider is rate-limiting requests; the work is queued.''
             ''Resume when the provider limit window recovers'' ZeroTime)
          (''agent-run:'' @ rid @ '':rate-limited:'' @ format_rfc3339 next) st))"

text \<open>The agent-run part of \<open>Store.RecoverInterrupted\<close>, run once when the process starts.\<close>

definition lost_session :: "RunStore \<Rightarrow> AgentRun \<Rightarrow> bool" where
  "lost_session st r \<longleftrightarrow>
     run_IncidentID r \<noteq> [] \<and> run_SessionID r = []
     \<and> \<not> contains (run_ConversationKey r) BranchMarker \<and> in_state active_states r
     \<and> (case map_of (rs_incidents st) (run_IncidentID r) of
          None \<Rightarrow> False | Some i \<Rightarrow> inc_CoopSessionID i \<noteq> [])"

definition restarted_run :: "RunStore \<Rightarrow> gotime \<Rightarrow> AgentRun \<Rightarrow> AgentRun" where
  "restarted_run st now r =
     (let r = (if lost_session st r
            then r\<lparr>run_SessionID := inc_CoopSessionID (the (map_of (rs_incidents st) (run_IncidentID r))),
                   run_UpdatedAt := now\<rparr>
            else r)
      in if run_State r = AgentRunPreparing
         then r\<lparr>run_State := AgentRunPending, run_NextAttemptAt := run_UpdatedAt r\<rparr>
         else if run_State r = AgentRunFinalizing
         then r\<lparr>run_State := AgentRunApplying, run_NextAttemptAt := run_UpdatedAt r\<rparr>
         else r)"

definition RecoverInterrupted :: "gotime \<Rightarrow> RunStore \<Rightarrow> RunStore" where
  "RecoverInterrupted now st =
     (let st = with_runs (map (\<lambda>(i, r). (i, restarted_run st now r)) (es_runs (rs_ep st))) st;
          st = update_deliveries (\<lambda>d. dl_State d = ''sending'')
            (\<lambda>d. d\<lparr>dl_State := (if dl_Operation d = ''post'' then ''uncertain'' else ''retry''),
                   dl_LastError := ''process stopped during Slack delivery'',
                   dl_NextAttemptAt := dl_UpdatedAt d\<rparr>) st
      in st\<lparr>rs_inputs := map (\<lambda>(i, input). (i, if inp_State input = ''processing''
             then input\<lparr>inp_State := ''retry''\<rparr> else input)) (rs_inputs st)\<rparr>)"

definition NudgeLatestAgentRun ::
    "gotime \<Rightarrow> string \<Rightarrow> string \<Rightarrow> RunStore \<Rightarrow> RunError + bool \<times> RunStore" where
  "NudgeLatestAgentRun now channel thread st =
     (case first_by (\<lambda>a b. run_CreatedAt b < run_CreatedAt a
             \<or> run_CreatedAt a = run_CreatedAt b \<and> run_ID b < run_ID a)
         (filter (\<lambda>r. run_SourceKind r = ''watch'' \<and> run_ChannelID r = channel
             \<and> run_ThreadTS r = thread \<and> in_state live_states r) (all_runs st)) of
        None \<Rightarrow> Inr (False, st)
      | Some r \<Rightarrow>
          if run_State r = AgentRunPending
          then and_then (ignore_miss st (update_run (run_ID r) (in_state [AgentRunPending])
                 (\<lambda>r. r\<lparr>run_NextAttemptAt := now, run_UpdatedAt := now\<rparr>) st))
                 (\<lambda>st. Inr (True, st))
          else Inr (True, st))"

section \<open>The result lane\<close>

definition terminalResultError :: "string \<Rightarrow> string \<Rightarrow> string" where
  "terminalResultError terminalState detail =
     (if terminalState = AgentRunCompleted then [] else BoundedError detail)"

definition result_limit :: nat where
  "result_limit = 1024 * 1024"

text \<open>Staging is idempotent: a run already past its turn is left as it is.\<close>

definition StageAgentRunResult ::
    "SqlFns \<Rightarrow> gotime \<Rightarrow> string \<Rightarrow> string \<Rightarrow> string \<Rightarrow> string \<Rightarrow> int \<Rightarrow> RunStore
     \<Rightarrow> RunError + RunStore" where
  "StageAgentRunResult F now rid terminalState result detail events st =
     (if terminalState \<notin> {AgentRunCompleted, AgentRunFailed, AgentRunCancelled}
      then Inl (RunRefused ''unsupported agent run terminal state'')
      else if result_limit < length result then Inl (RunRefused ''agent run result exceeds 1 MiB'')
      else case update_run rid (in_state [AgentRunRunning])
             (\<lambda>r. r\<lparr>run_State := AgentRunApplying, run_TerminalState := terminalState,
                    run_Result := result, run_CoopEventSequence := max (run_CoopEventSequence r) events,
                    run_LastError := terminalResultError terminalState detail,
                    run_UpdatedAt := now\<rparr>) st of
          Inl e \<Rightarrow>
            (case run_row st rid of
               Some r \<Rightarrow>
                 if in_state [AgentRunApplying, AgentRunFinalizing, AgentRunCompleted, AgentRunFailed,
                      AgentRunCancelled] r
                 then Inr st else Inl e
             | None \<Rightarrow> Inl e)
        | Inr st \<Rightarrow>
            set_phase F now rid
              (phase_to EpisodeVerifying ''finalizing'' ''Preparing the result''
                 ''Validate and deliver the result'' ZeroTime)
              (''agent-turn:'' @ rid @ '':terminal:'' @ terminalState @ '':'' @ itoa events) st)"

definition agentRunOwnsEpisodeCompletion :: "string \<Rightarrow> bool" where
  "agentRunOwnsEpisodeCompletion s \<longleftrightarrow>
     s \<in> {EpisodeAccepted, EpisodeAcknowledged, EpisodePlanning, EpisodeWorking, EpisodeRetrying,
          EpisodeVerifying}"

definition finished_run :: "gotime \<Rightarrow> string \<Rightarrow> string \<Rightarrow> AgentRun \<Rightarrow> AgentRun" where
  "finished_run now final detail r =
     r\<lparr>run_State := final, run_TerminalState := final, run_CompletedAt := now,
       run_Failures := run_Failures r + (if final = AgentRunFailed then 1 else 0),
       run_LastError := (if final = AgentRunCompleted then [] else BoundedError detail),
       run_UpdatedAt := now\<rparr>"

definition finished_attempt :: "string \<Rightarrow> string" where
  "finished_attempt final =
     (if final = AgentRunFailed then AttemptFailed
      else if final = AgentRunCancelled then AttemptCancelled else AttemptSucceeded)"

text \<open>Runs admitted after a run: the greater rowids.\<close>

definition later_runs :: "RunStore \<Rightarrow> string \<Rightarrow> AgentRun list" where
  "later_runs st rid = tl (dropWhile (\<lambda>r. run_ID r \<noteq> rid) (all_runs st))"

definition park_incident :: "gotime \<Rightarrow> AgentRun \<Rightarrow> string \<Rightarrow> RunStore \<Rightarrow> RunStore" where
  "park_incident now r lastError st =
     (if run_IncidentID r = [] then st
      else update_incident (run_IncidentID r)
        (\<lambda>i. inc_ActiveTurnID i = run_CoopTurnID r
           \<and> (run_CoopTurnID r \<noteq> []
              \<or> \<not> list_ex (\<lambda>newer. run_IncidentID newer = run_IncidentID r) (later_runs st (run_ID r))))
        (\<lambda>i. i\<lparr>inc_ActiveTurnID := [], inc_Workflow := ''parked'', inc_LastError := lastError,
               inc_UpdatedAt := now, inc_CardVersion := inc_CardVersion i + 1\<rparr>) st)"

definition finished_phase :: "string \<Rightarrow> Transition" where
  "finished_phase final =
     (if final = AgentRunFailed
      then phase_to EpisodeFailed ''finished'' ''Needs operator attention''
             ''Review the blocker or retry'' ZeroTime
      else if final = AgentRunCancelled
      then phase_to EpisodeCancelled ''finished'' ''Cancelled'' [] ZeroTime
      else phase_to EpisodeCompleted ''finished'' ''Completed'' [] ZeroTime)"

definition finished_key :: "string \<Rightarrow> string \<Rightarrow> string" where
  "finished_key rid final = ''agent-run:'' @ rid @ '':finished:'' @ final"

definition failure_delivery :: "AgentRun \<Rightarrow> SlackDelivery \<Rightarrow> SlackDelivery" where
  "failure_delivery r d =
     d\<lparr>dl_AgentRunID := run_ID r,
       dl_SourceInputID := (if dl_SourceInputID d = [] \<and> run_SourceKind r = ''watch''
                            then run_SourceID r else dl_SourceInputID d),
       dl_EpisodeID := (if dl_EpisodeID d = [] then run_EpisodeID r else dl_EpisodeID d)\<rparr>"

definition finishAgentRun ::
    "SqlFns \<Rightarrow> gotime \<Rightarrow> AgentRun \<Rightarrow> string \<Rightarrow> string \<Rightarrow> SlackDelivery option \<Rightarrow> RunStore
     \<Rightarrow> RunError + RunStore" where
  "finishAgentRun F now r final detail delivery st =
     and_then (update_run (run_ID r) (in_state [run_State r]) (finished_run now final detail) st)
       (\<lambda>st. and_then (setEpisodeAttemptState now (run_ID r) (finished_attempt final) detail False st)
       (\<lambda>st.
         let st = park_incident now r (if final = AgentRunFailed then BoundedError detail else []) st in
         case map_option (episode_row st) (map_option run_EpisodeID (run_row st (run_ID r))) of
           Some (Some e) \<Rightarrow>
             and_then (if agentRunOwnsEpisodeCompletion (ep_State e)
                then set_phase F now (run_ID r) (finished_phase final) (finished_key (run_ID r) final) st
                else Inr st)
             (\<lambda>st. case delivery of
                  None \<Rightarrow> Inr st
                | Some d \<Rightarrow>
                    if final = AgentRunFailed
                    then insertTerminalSlackDelivery now (failure_delivery r d) st
                    else Inr st)
         | _ \<Rightarrow> Inl RunNotFound))"

text \<open>\<open>slackinputstore.Admit\<close> of a follow-up, without deduplication by content.\<close>

definition admit_input :: "gotime \<Rightarrow> string \<Rightarrow> string \<Rightarrow> SlackInput \<Rightarrow> RunStore \<Rightarrow> RunStore" where
  "admit_input now fresh to input0 st =
     (let input = input0\<lparr>inp_ID := if_set (inp_ID input0) fresh, inp_State := to, inp_Attempts := 0,
            inp_ReceivedAt := or_now (inp_ReceivedAt input0) now\<rparr>
      in if list_ex (\<lambda>(i, row). i = inp_ID input \<or> inp_EnvelopeID row = inp_EnvelopeID input
            \<or> inp_EventID input \<noteq> [] \<and> inp_EventID row = inp_EventID input) (rs_inputs st)
         then st
         else st\<lparr>rs_inputs := rs_inputs st @ [(inp_ID input,
                SlackInput.extend input \<lparr>in_LastError = [], in_UpdatedAt = now\<rparr>)]\<rparr>)"

definition FinishAgentRun ::
    "SqlFns \<Rightarrow> gotime \<Rightarrow> string \<Rightarrow> string \<Rightarrow> SlackInput list \<Rightarrow> RunStore \<Rightarrow> RunError + RunStore" where
  "FinishAgentRun F now fresh rid followup st =
     (if 1 < length followup then Inl (RunRefused ''finish agent run accepts at most one follow-up'')
      else case run_row st rid of
          None \<Rightarrow> Inl RunNotFound
        | Some r \<Rightarrow>
            if run_State r \<noteq> AgentRunFinalizing then Inl RunNotFound
            else if run_TerminalState r \<notin> {AgentRunCompleted, AgentRunFailed, AgentRunCancelled}
            then Inl (RunRefused ''agent run has invalid terminal state'')
            else and_then (finishAgentRun F now r (run_TerminalState r) (run_LastError r) None st)
              (\<lambda>st. Inr (case followup of
                   [input] \<Rightarrow> admit_input now fresh ''pending'' input st
                 | _ \<Rightarrow> st)))"

record AgentRunFailureEffects =
  fx_StatusChannelID :: string
  fx_StatusThreadTS :: string
  fx_SessionChannelID :: string
  fx_SessionID :: string
  fx_SessionGeneration :: int
  fx_ConversationSession :: bool

definition status_owned :: "RunStore \<Rightarrow> AgentRun \<Rightarrow> AgentRunFailureEffects \<Rightarrow> bool" where
  "status_owned st r fx \<longleftrightarrow>
     \<not> list_ex (\<lambda>newer. run_ID newer \<noteq> run_ID r \<and> in_state live_states newer
         \<and> (run_IncidentID r \<noteq> [] \<and> run_IncidentID newer = run_IncidentID r
            \<or> run_ChannelID newer = fx_StatusChannelID fx \<and> run_ThreadTS newer = fx_StatusThreadTS fx
            \<or> (case map_of (rs_inputs st) (run_SourceID newer) of
                 None \<Rightarrow> False
               | Some input \<Rightarrow> inp_ChannelID input = fx_StatusChannelID fx
                   \<and> if_set (inp_ThreadTS input) (inp_MessageTS input) = fx_StatusThreadTS fx)))
       (all_runs st)"

definition clear_failed_status ::
    "gotime \<Rightarrow> AgentRun \<Rightarrow> AgentRunFailureEffects \<Rightarrow> RunStore \<Rightarrow> RunError + RunStore" where
  "clear_failed_status now r fx st =
     (let key = (fx_StatusChannelID fx, fx_StatusThreadTS fx) in
      if fst key = [] \<or> snd key = [] \<or> \<not> status_owned st r fx then Inr st
      else insertTerminalSlackDelivery now
        (zero_SlackDelivery\<lparr>dl_ID := ''delivery_status_clear_failure_'' @ run_ID r,
           dl_IncidentID := run_IncidentID r, dl_EpisodeID := run_EpisodeID r,
           dl_AgentRunID := run_ID r, dl_Operation := ''status'', dl_Kind := ''status'',
           dl_ChannelID := fst key, dl_ThreadTS := snd key,
           dl_CoalesceKey := ''status:'' @ fst key @ '':'' @ snd key,
           dl_CardVersion := next_generation key st\<rparr>)
        (advance_status now key st))"

definition rotated_session :: "gotime \<Rightarrow> SessionRow \<Rightarrow> SessionRow" where
  "rotated_session now row =
     row\<lparr>ss_SessionID := [], ss_Revision := 0, ss_CoopEventSequence := 0, ss_TurnCount := 0,
         ss_Generation := ss_Generation row + 1, ss_StartedAt := ZeroTime,
         ss_RotatedAt := ss_UpdatedAt row, ss_UpdatedAt := now\<rparr>"

definition queue_cleanup :: "gotime \<Rightarrow> string \<Rightarrow> string \<Rightarrow> RunStore \<Rightarrow> RunStore" where
  "queue_cleanup now session reason st =
     st\<lparr>rs_cleanup :=
       (case map_of (rs_cleanup st) session of
          None \<Rightarrow> rs_cleanup st @ [(session, \<lparr>cl_IncidentID = [], cl_Reason = reason,
            cl_AllowUnmerged = False, cl_State = ''pending'', cl_EligibleAt = now,
            cl_NextAttemptAt = now, cl_CreatedAt = now, cl_UpdatedAt = now\<rparr>)]
        | Some row \<Rightarrow>
            if cl_State row = ''done'' then rs_cleanup st
            else AList.update session (row\<lparr>cl_EligibleAt := min (cl_EligibleAt row) now,
              cl_NextAttemptAt := min (cl_NextAttemptAt row) now, cl_UpdatedAt := now\<rparr>) (rs_cleanup st))\<rparr>"

definition retire_session ::
    "gotime \<Rightarrow> AgentRun \<Rightarrow> AgentRunFailureEffects \<Rightarrow> RunStore \<Rightarrow> RunStore" where
  "retire_session now r fx st =
     (let rows = (if fx_ConversationSession fx then rs_conversations st else rs_memories st);
          held = holds_session rows (fx_SessionChannelID fx) (fx_SessionID fx) (fx_SessionGeneration fx);
          rotated = update_sessions (\<lambda>c row. c = fx_SessionChannelID fx
              \<and> ss_SessionID row = fx_SessionID fx \<and> ss_Generation row = fx_SessionGeneration fx)
            (rotated_session now) rows
      in if fx_SessionID fx = [] \<or> fx_SessionChannelID fx = []
            \<or> list_ex (\<lambda>other. run_ID other \<noteq> run_ID r \<and> run_SessionID other = fx_SessionID fx
                \<and> in_state live_states other) (all_runs st)
            \<or> \<not> held
         then st
         else queue_cleanup now (fx_SessionID fx) ''failed Slack channel triage session''
           (if fx_ConversationSession fx then st\<lparr>rs_conversations := rotated\<rparr>
            else st\<lparr>rs_memories := rotated\<rparr>))"

definition applyAgentRunFailureEffects ::
    "gotime \<Rightarrow> AgentRun \<Rightarrow> AgentRunFailureEffects \<Rightarrow> RunStore \<Rightarrow> RunError + RunStore" where
  "applyAgentRunFailureEffects now r fx st =
     and_then (clear_failed_status now r fx st) (\<lambda>st. Inr (retire_session now r fx st))"

definition SupersedeAgentRun ::
    "SqlFns \<Rightarrow> gotime \<Rightarrow> string \<Rightarrow> string \<Rightarrow> RunStore \<Rightarrow> RunError + RunStore" where
  "SupersedeAgentRun F now rid detail st =
     and_then (update_run rid (in_state [AgentRunPreparing, AgentRunFinalizing])
         (superseded_run now (BoundedError detail)) st)
       (\<lambda>st. and_then (setEpisodeAttemptState now rid AttemptCancelled detail False st)
       (\<lambda>st. set_phase F now rid
          (phase_to EpisodeSuperseded ''finished'' (BoundedError detail) [] ZeroTime)
          (''agent-run:'' @ rid @ '':superseded'') st))"

text \<open>Whether the accepted result of this very execution already reached its reader.  In \<open>LIKE\<close> an
  underscore stands for any character, and ASCII letters compare without case.\<close>

definition like_prefix :: "string \<Rightarrow> string \<Rightarrow> bool" where
  "like_prefix pattern s \<longleftrightarrow>
     length pattern \<le> length s
     \<and> list_all (\<lambda>(p, c). p = CHR ''_'' \<or> lower_byte p = lower_byte c) (zip pattern s)"

definition marker_prefixes :: "string list" where
  "marker_prefixes = [''watch_failure_'', ''out_run_finalization_failure_'']"

definition response_staged :: "RunStore \<Rightarrow> AgentRun \<Rightarrow> SlackDelivery option \<Rightarrow> bool" where
  "response_staged st r delivery \<longleftrightarrow>
     list_ex (\<lambda>d. dl_State d \<in> {''pending'', ''sending'', ''retry'', ''uncertain'', ''sent''}
         \<and> dl_ResponseRoot d \<and> \<not> list_ex (\<lambda>p. like_prefix p (dl_ID d)) marker_prefixes
         \<and> dl_AgentRunID d = run_ID r \<and> dl_AgentRunKey d = run_IdempotencyKey r
         \<and> (case delivery of None \<Rightarrow> True | Some own \<Rightarrow> dl_ID own = [] \<or> dl_ID d \<noteq> dl_ID own))
       (rs_deliveries st)
     \<or> (case map_of (rs_incidents st) (run_IncidentID r) of
          None \<Rightarrow> False
        | Some i \<Rightarrow> inc_LatestUpdateRunID i = run_ID r
            \<and> inc_LatestUpdateRunKey i = run_IdempotencyKey r \<and> inc_LatestUpdate i \<noteq> [])"

definition failure_outcome :: "RunStore \<Rightarrow> AgentRun \<Rightarrow> SlackDelivery option \<Rightarrow> string" where
  "failure_outcome st r delivery =
     (if run_State r = AgentRunFinalizing \<and> run_TerminalState r = AgentRunCompleted
        \<and> response_staged st r delivery
      then AgentRunCompleted else AgentRunFailed)"

definition report_failure ::
    "SqlFns \<Rightarrow> gotime \<Rightarrow> AgentRun \<Rightarrow> string \<Rightarrow> AgentRunFailureEffects \<Rightarrow> RunStore
     \<Rightarrow> RunError + string \<times> bool \<times> RunStore" where
  "report_failure F now r final fx st =
     (if final = AgentRunFailed
      then and_then (applyAgentRunFailureEffects now r fx st)
        (\<lambda>st. and_then (setFailureMarker F now r ''failure_marker_add'' True st)
        (\<lambda>st. Inr (final, True, st)))
      else Inr (final, True, st))"

definition FinishAgentRunFailure ::
    "SqlFns \<Rightarrow> gotime \<Rightarrow> string \<Rightarrow> string \<Rightarrow> SlackDelivery option \<Rightarrow> AgentRunFailureEffects
     \<Rightarrow> RunStore \<Rightarrow> RunError + string \<times> bool \<times> RunStore" where
  "FinishAgentRunFailure F now rid detail delivery fx st =
     (case run_row st rid of
        None \<Rightarrow> Inr ([], False, st)
      | Some r \<Rightarrow>
          if \<not> in_state [AgentRunPreparing, AgentRunFinalizing] r then Inr ([], False, st)
          else if run_EpisodeID r \<noteq> [] \<and> episode_row st (run_EpisodeID r) = None then Inl RunNotFound
          else if run_EpisodeID r \<noteq> []
            \<and> map_option ep_LatestAttemptID (episode_row st (run_EpisodeID r)) \<noteq> Some (run_AttemptID r)
          then and_then (SupersedeAgentRun F now rid ''superseded by a newer episode attempt'' st)
                 (\<lambda>st. Inr ([], False, st))
          else
            let final = failure_outcome st r delivery in
            and_then (finishAgentRun F now r final detail
                (if final = AgentRunCompleted then None else delivery) st)
              (report_failure F now r final fx))"

definition RetryAgentRunFinalization ::
    "gotime \<Rightarrow> string \<Rightarrow> string \<Rightarrow> gotime \<Rightarrow> RunStore \<Rightarrow> RunError + RunStore" where
  "RetryAgentRunFinalization now rid detail next st =
     update_run rid (in_state [AgentRunFinalizing])
       (\<lambda>r. r\<lparr>run_State := AgentRunApplying, run_Failures := run_Failures r + 1,
              run_NextAttemptAt := next, run_LastError := BoundedError detail, run_UpdatedAt := now\<rparr>) st"

section \<open>Admission\<close>

definition fromAgentState :: "string \<Rightarrow> string" where
  "fromAgentState s =
     (if s = AgentRunPending then AttemptPending
      else if s = AgentRunPreparing then AttemptLeased
      else if s \<in> {AgentRunRunning, AgentRunApplying, AgentRunFinalizing} then AttemptRunning
      else if s = AgentRunCompleted then AttemptSucceeded
      else if s \<in> {AgentRunCancelled, AgentRunSuperseded} then AttemptCancelled
      else AttemptFailed)"

definition attempt_for :: "string \<Rightarrow> int \<Rightarrow> string \<Rightarrow> AgentRun \<Rightarrow> gotime \<Rightarrow> AttemptRow" where
  "attempt_for attemptID number episodeID r now =
     \<lparr>at_ID = attemptID, at_EpisodeID = episodeID, at_AgentRunID = run_ID r, at_Number = number,
      at_State = fromAgentState (run_State r), at_FailureClass = [],
      at_FailureGeneration = run_Failures r, at_LeaseOwner = [], at_FencingToken = 0,
      at_LeaseExpiresAt = ZeroTime, at_ContextManifestID = [], at_StartedAt = run_StartedAt r,
      at_CompletedAt = run_CompletedAt r, at_CreatedAt = run_CreatedAt r, at_UpdatedAt = now\<rparr>"

definition linked_run :: "gotime \<Rightarrow> string \<Rightarrow> string \<Rightarrow> int \<Rightarrow> AgentRun \<Rightarrow> AgentRun" where
  "linked_run now episodeID attemptID number r =
     r\<lparr>run_EpisodeID := episodeID, run_AttemptID := attemptID, run_AttemptNumber := number,
       run_UpdatedAt := now\<rparr>"

definition next_number :: "RunStore \<Rightarrow> string \<Rightarrow> int" where
  "next_number st episodeID =
     Max (insert 0 (at_Number ` set (filter (\<lambda>a. at_EpisodeID a = episodeID) (attempts st)))) + 1"

definition update_episode :: "string \<Rightarrow> (WorkEpisode \<Rightarrow> WorkEpisode) \<Rightarrow> RunStore \<Rightarrow> RunStore" where
  "update_episode eid f st =
     st\<lparr>rs_ep := (rs_ep st)\<lparr>es_episodes := AList.map_entry eid f (es_episodes (rs_ep st))\<rparr>\<rparr>"

text \<open>\<open>attemptstore.Ensure\<close>, with the foreign key that binds an attempt to its run's episode and the
  trigger that binds an episode's latest attempt to the episode.\<close>

definition Ensure :: "gotime \<Rightarrow> string \<Rightarrow> AgentRun \<Rightarrow> RunStore \<Rightarrow> RunError + RunStore" where
  "Ensure now episodeID r st =
     (case find (\<lambda>a. at_AgentRunID a = run_ID r) (attempts st) of
        Some a \<Rightarrow>
          if at_EpisodeID a \<noteq> episodeID then Inl RunConstraint
          else ignore_miss st (update_run (run_ID r) (\<lambda>_. True)
                 (linked_run now episodeID (at_ID a) (at_Number a)) st)
      | None \<Rightarrow>
          let number = next_number st episodeID;
              attemptID = (if trim_space (run_AttemptID r) = [] then ''attempt_'' @ run_ID r
                           else trim_space (run_AttemptID r))
          in if list_ex (\<lambda>a. at_ID a = attemptID) (attempts st)
               \<or> episode_row st episodeID = None
               \<or> map_option run_EpisodeID (run_row st (run_ID r)) \<noteq> Some episodeID
             then Inl RunConstraint
             else let st = with_attempts (attempts st @ [attempt_for attemptID number episodeID r now]) st
                  in and_then (ignore_miss st (update_run (run_ID r) (\<lambda>_. True)
                      (linked_run now episodeID attemptID number) st))
                    (\<lambda>st. Inr (update_episode episodeID
                      (\<lambda>e. e\<lparr>ep_LatestAttemptID := attemptID, ep_UpdatedAt := now\<rparr>) st)))"

definition accepted_row :: "gotime \<Rightarrow> string \<Rightarrow> WorkEpisode \<Rightarrow> WorkEpisode" where
  "accepted_row now rid e =
     e\<lparr>ep_AgentRunID := rid, ep_State := EpisodeAccepted, ep_Phase := ''accepted'',
       ep_Status := ''Accepted'', ep_NextAction := ''Plan the work'', ep_EventSequence := 0,
       ep_Revision := 0, ep_ProgressSequence := 0, ep_LastProgressAt := ZeroTime,
       ep_LastActivityAt := ZeroTime, ep_ProgressDueAt := ZeroTime, ep_CreatedAt := now,
       ep_UpdatedAt := now, ep_CompletedAt := ZeroTime\<rparr>"

definition first_event :: "gotime \<Rightarrow> string \<Rightarrow> WorkEpisodeEvent" where
  "first_event now eid =
     \<lparr>evt_ID = ''episode_event_'' @ eid @ ''_000001'', evt_EpisodeID = eid, evt_Sequence = 1,
      evt_Kind = ''episode_created'', evt_Actor = ''host'', evt_IdempotencyKey = ''created:'' @ eid,
      evt_Payload = ''{'' @ [CHR 0x22] @ ''phase'' @ [CHR 0x22] @ '':'' @ [CHR 0x22] @ ''accepted''
        @ [CHR 0x22] @ '','' @ [CHR 0x22] @ ''summary'' @ [CHR 0x22] @ '':'' @ [CHR 0x22]
        @ ''Accepted'' @ [CHR 0x22] @ ''}'', evt_CreatedAt = now\<rparr>"

definition first_progress :: "gotime \<Rightarrow> string \<Rightarrow> ProgressRow" where
  "first_progress now eid =
     \<lparr>pg_ID = ''episode_progress_'' @ eid @ ''_000001'', pg_EpisodeID = eid, pg_Sequence = 1,
      pg_Phase = ''accepted'', pg_Summary = ''Accepted'', pg_CreatedAt = now\<rparr>"

definition start_stream :: "gotime \<Rightarrow> string \<Rightarrow> RunStore \<Rightarrow> RunError + RunStore" where
  "start_stream now eid st =
     (let ep = rs_ep st in
      if list_ex (\<lambda>p. pg_ID p = pg_ID (first_progress now eid)
           \<or> pg_EpisodeID p = eid \<and> pg_Sequence p = 1) (es_progress ep)
        \<or> list_ex (\<lambda>e. evt_ID e = evt_ID (first_event now eid)
           \<or> evt_EpisodeID e = eid \<and> (evt_Sequence e = 1 \<or> evt_IdempotencyKey e = ''created:'' @ eid))
           (es_events ep)
      then Inl RunConstraint
      else Inr (update_episode eid (\<lambda>e. e\<lparr>ep_EventSequence := 1, ep_Revision := 1,
               ep_ProgressSequence := 1, ep_LastProgressAt := now, ep_UpdatedAt := now\<rparr>)
             (st\<lparr>rs_ep := ep\<lparr>es_progress := es_progress ep @ [first_progress now eid],
                            es_events := es_events ep @ [first_event now eid]\<rparr>\<rparr>)))"

text \<open>The trigger on the insertion refuses a latest attempt of another episode before the
  conflict clause is considered.\<close>

definition ensureWorkEpisode :: "gotime \<Rightarrow> AgentRun \<Rightarrow> RunStore \<Rightarrow> RunError + RunStore" where
  "ensureWorkEpisode now r st =
     (case normalizeWorkEpisode r of
        Inl e \<Rightarrow> Inl (RunRefused e)
      | Inr e \<Rightarrow>
          if ep_LatestAttemptID e \<noteq> []
            \<and> list_ex (\<lambda>a. at_ID a = ep_LatestAttemptID e \<and> at_EpisodeID a \<noteq> ep_ID e) (attempts st)
          then Inl RunConstraint
          else if list_ex (\<lambda>(i, old). i = ep_ID e \<or> ep_AgentRunID old = run_ID r)
              (es_episodes (rs_ep st))
          then Ensure now (ep_ID e) r st
          else if run_row st (run_ID r) = None then Inl RunConstraint
          else and_then (Ensure now (ep_ID e) r
                 (st\<lparr>rs_ep := (rs_ep st)\<lparr>es_episodes := es_episodes (rs_ep st)
                        @ [(ep_ID e, accepted_row now (run_ID r) e)]\<rparr>\<rparr>))
                 (start_stream now (ep_ID e)))"

definition ensureCommitment :: "AgentRun \<Rightarrow> RunStore \<Rightarrow> RunStore" where
  "ensureCommitment r st =
     (if trim_space (run_EpisodeID r) = [] then st
      else
        let title = trim_space (run_CommitmentTitle r);
            title = (if title \<noteq> [] then title
              else if run_Mode r = AgentRunIncident then ''Investigate incident''
              else if run_Mode r = AgentRunEngineeringTask then ''Complete engineering task''
              else ''Answer Slack request'')
        in if map_of (rs_commitments st) (run_EpisodeID r) \<noteq> None then st
           else st\<lparr>rs_commitments := rs_commitments st @ [(run_EpisodeID r, TruncateUTF8 title 240)]\<rparr>)"

text \<open>\<open>taskcardstore.ProjectResumedTx\<close>.\<close>

definition ProjectResumed :: "gotime \<Rightarrow> AgentRun \<Rightarrow> RunStore \<Rightarrow> RunError + RunStore" where
  "ProjectResumed now r st =
     (if run_Mode r \<noteq> AgentRunEngineeringTask \<or> run_IncidentID r = [] then Inr st
      else expect_incident (run_IncidentID r) (\<lambda>i. inc_WorkKind i = ''engineering_task'')
        (\<lambda>i. i\<lparr>inc_Workflow := ''investigating'', inc_LastError := [], inc_UpdatedAt := now,
               inc_CardVersion := inc_CardVersion i
                 + (if inc_Workflow i \<noteq> ''investigating'' \<or> inc_LastError i \<noteq> [] then 1 else 0)\<rparr>) st)"

definition completed_request :: "gotime \<Rightarrow> string \<Rightarrow> AgentRun \<Rightarrow> AgentRun" where
  "completed_request now fresh r =
     (let r = r\<lparr>run_ConversationKey := if_set (run_ConversationKey r) (''incident:'' @ run_IncidentID r),
                run_ID := if_set (run_ID r) fresh\<rparr>
      in r\<lparr>run_AttemptID := if_set (run_AttemptID r) (''attempt_'' @ run_ID r),
           run_IdempotencyKey := if_set (run_IdempotencyKey r) (''responder:run:'' @ run_ID r),
           run_State := if_set (run_State r) AgentRunPending,
           run_Context := if_set (run_Context r) ''{}'',
           run_CreatedAt := or_now (run_CreatedAt r) now,
           run_NextAttemptAt := or_now (run_NextAttemptAt r) now\<rparr>)"

definition run_by_source :: "RunStore \<Rightarrow> string \<Rightarrow> string \<Rightarrow> AgentRun option" where
  "run_by_source st kind source =
     find (\<lambda>r. run_SourceKind r = kind \<and> run_SourceID r = source) (all_runs st)"

definition insertable_run :: "RunStore \<Rightarrow> AgentRun \<Rightarrow> bool" where
  "insertable_run st r \<longleftrightarrow>
     run_Mode r \<in> {AgentRunTriage, AgentRunIncident, AgentRunEngineeringTask}
     \<and> \<not> list_ex (\<lambda>old. run_ID old = run_ID r \<or> run_IdempotencyKey old = run_IdempotencyKey r
         \<or> run_SourceKind old = run_SourceKind r \<and> run_SourceID old = run_SourceID r) (all_runs st)"

definition inserted_run :: "gotime \<Rightarrow> AgentRun \<Rightarrow> AgentRun" where
  "inserted_run now r =
     r\<lparr>run_LastError := BoundedError (run_LastError r), run_UpdatedAt := now,
       run_CommitmentTitle := [], run_Episode := None\<rparr>"

definition stale_replay :: "RunStore \<Rightarrow> AgentRun \<Rightarrow> RunError option" where
  "stale_replay st r =
     (if run_SourceKind r = ''watch'' \<and> has_prefix (run_SourceID r) ''slack_replay_''
      then case map_of (rs_inputs st) (run_SourceID r) of
          None \<Rightarrow> Some RunNotFound
        | Some input \<Rightarrow>
            if (has_prefix (inp_EnvelopeID input) ''replay-private:''
                \<or> has_prefix (inp_EnvelopeID input) ''replay-public:'') \<and> inp_State input \<noteq> ''processing''
            then Some RunConflict else None
      else None)"

definition latest_owner :: "RunStore \<Rightarrow> WorkEpisode \<Rightarrow> AgentRun option" where
  "latest_owner st e =
     (case find (\<lambda>a. at_ID a = ep_LatestAttemptID e) (attempts st) of
        None \<Rightarrow> None | Some a \<Rightarrow> run_row st (at_AgentRunID a))"

definition admission_refused :: "RunStore \<Rightarrow> string \<Rightarrow> AgentRun \<Rightarrow> RunError option" where
  "admission_refused st resume r =
     (if resume \<noteq> []
      then case episode_row st resume of
          None \<Rightarrow> Some RunNotFound
        | Some e \<Rightarrow>
            if terminal (ep_State e) then Some (RunRefused ''cannot resume terminal episode'')
            else (case latest_owner st e of
                None \<Rightarrow> None
              | Some owner \<Rightarrow>
                  if run_State owner = AgentRunFinalizing then Some RunConflict else None)
      else if run_IncidentID r \<noteq> []
        \<and> list_ex (\<lambda>other. run_IncidentID other = run_IncidentID r
            \<and> run_State other = AgentRunFinalizing) (all_runs st)
      then Some RunConflict else None)"

definition resuming_key :: "SqlFns \<Rightarrow> string \<Rightarrow> string" where
  "resuming_key F resume =
     episodeEventKey F ''phase'' [resume, EpisodeRetrying, ''resuming'', ''Resuming work'',
       ''Run the next attempt'', rfc3339_nano ZeroTime]"

text \<open>\<open>INSERT OR IGNORE\<close>: a duplicate leaves the table alone, an unknown incident is an error.\<close>

definition insert_run :: "gotime \<Rightarrow> AgentRun \<Rightarrow> RunStore \<Rightarrow> RunError + RunStore" where
  "insert_run now r st =
     (if \<not> insertable_run st r then Inr st
      else if run_IncidentID r \<noteq> [] \<and> map_of (rs_incidents st) (run_IncidentID r) = None
      then Inl RunConstraint
      else Inr (with_runs (es_runs (rs_ep st) @ [(run_ID r, inserted_run now r)]) st))"

text \<open>What admission does once the source identity owns a row: \<open>created\<close> says whether this call
  inserted it.\<close>

definition bound_request :: "AgentRun \<Rightarrow> bool \<Rightarrow> AgentRun \<Rightarrow> AgentRun" where
  "bound_request r created stored =
     stored\<lparr>run_CommitmentTitle := run_CommitmentTitle r,
       run_Episode := (if created then run_Episode r
         else Some (zero_WorkEpisode\<lparr>ep_ID := run_EpisodeID stored\<rparr>))\<rparr>"

definition project_resumed ::
    "SqlFns \<Rightarrow> gotime \<Rightarrow> string \<Rightarrow> AgentRun \<Rightarrow> RunStore \<Rightarrow> RunError + RunStore" where
  "project_resumed F now resume stored st =
     and_then (set_phase F now (run_ID stored)
         (phase_to EpisodeRetrying ''resuming'' ''Resuming work'' ''Run the next attempt'' ZeroTime)
         (resuming_key F resume) st)
       (ProjectResumed now stored)"

definition bind_episode ::
    "SqlFns \<Rightarrow> gotime \<Rightarrow> string \<Rightarrow> AgentRun \<Rightarrow> bool \<Rightarrow> RunStore
     \<Rightarrow> RunError + AgentRun \<times> bool \<times> RunStore" where
  "bind_episode F now resume r created st =
     (case run_by_source st (run_SourceKind r) (run_SourceID r) of
        None \<Rightarrow> Inl RunNotFound
      | Some stored \<Rightarrow>
          if resume \<noteq> [] \<and> run_EpisodeID stored \<noteq> resume then Inl RunConflict
          else and_then (ensureWorkEpisode now (bound_request r created stored) st) (\<lambda>st.
            case run_by_source st (run_SourceKind r) (run_SourceID r) of
              None \<Rightarrow> Inl RunNotFound
            | Some stored \<Rightarrow>
                and_then (if resume \<noteq> [] \<and> created then project_resumed F now resume stored st else Inr st)
                (\<lambda>st. let stored = stored\<lparr>run_CommitmentTitle := run_CommitmentTitle r\<rparr>
                      in Inr (stored, created, ensureCommitment stored st))))"

definition queueAgentRun ::
    "SqlFns \<Rightarrow> gotime \<Rightarrow> string \<Rightarrow> AgentRun \<Rightarrow> string \<Rightarrow> RunStore
     \<Rightarrow> RunError + AgentRun \<times> bool \<times> RunStore" where
  "queueAgentRun F now fresh r0 resume st =
     (if run_Mode r0 = [] \<or> run_SourceKind r0 = [] \<or> run_SourceID r0 = []
      then Inl (RunRefused ''agent run identity is incomplete'')
      else if run_ConversationKey r0 = [] \<and> run_IncidentID r0 = []
      then Inl (RunRefused ''agent run conversation is required'')
      else
        let r = completed_request now fresh r0 in
        if run_State r \<noteq> AgentRunPending \<and> run_State r \<noteq> AgentRunRunning
        then Inl (RunRefused ''cannot queue agent run in this state'')
        else if context_limit < length (run_Context r)
        then Inl (RunRefused ''agent run context exceeds 256 KiB'')
        else and_then (map_sum RunRefused (\<lambda>x. x) (normalizeWorkEpisode r)) (\<lambda>e.
          let r = r\<lparr>run_EpisodeID := ep_ID e\<rparr> in
          case stale_replay st r of Some err \<Rightarrow> Inl err | None \<Rightarrow>
          case admission_refused st resume r of Some err \<Rightarrow> Inl err | None \<Rightarrow>
            and_then (insert_run now r st) (bind_episode F now resume r (insertable_run st r))))"

definition QueueAgentRun ::
    "SqlFns \<Rightarrow> gotime \<Rightarrow> string \<Rightarrow> AgentRun \<Rightarrow> RunStore \<Rightarrow> RunError + AgentRun \<times> bool \<times> RunStore" where
  "QueueAgentRun F now fresh r st = queueAgentRun F now fresh r [] st"

definition QueueEpisodeAttempt ::
    "SqlFns \<Rightarrow> gotime \<Rightarrow> string \<Rightarrow> string \<Rightarrow> AgentRun \<Rightarrow> RunStore
     \<Rightarrow> RunError + AgentRun \<times> bool \<times> RunStore" where
  "QueueEpisodeAttempt F now fresh episodeID r st =
     (case episode_row st episodeID of
        None \<Rightarrow> Inl RunNotFound
      | Some e \<Rightarrow>
          (case BindAttempt e r of
             Inl err \<Rightarrow> Inl (RunRefused err)
           | Inr r \<Rightarrow> queueAgentRun F now fresh r (ep_ID e) st))"

section \<open>Cancelling a replay\<close>

definition is_replay :: "InputRow \<Rightarrow> bool" where
  "is_replay input \<longleftrightarrow> has_prefix (inp_EnvelopeID input) ''replay-private:''
     \<or> has_prefix (inp_EnvelopeID input) ''replay-public:''"

definition settle_input :: "gotime \<Rightarrow> string \<Rightarrow> string \<Rightarrow> string list \<Rightarrow> RunStore \<Rightarrow> RunStore" where
  "settle_input now replayID detail states st =
     st\<lparr>rs_inputs := map (\<lambda>(i, input). (i,
          if i = replayID \<and> inp_State input \<in> set states
          then input\<lparr>inp_State := ''done'', in_LastError := BoundedError detail, in_UpdatedAt := now\<rparr>
          else input)) (rs_inputs st)\<rparr>"

definition request_cancellation :: "gotime \<Rightarrow> string \<Rightarrow> AgentRun \<Rightarrow> RunStore \<Rightarrow> RunStore" where
  "request_cancellation now replayID r st =
     (if run_SessionID r = [] then st
      else st\<lparr>rs_cancellations :=
        (case map_of (rs_cancellations st) (run_IdempotencyKey r) of
           None \<Rightarrow> rs_cancellations st @ [(run_IdempotencyKey r, \<lparr>cx_ReplayID = replayID,
             cx_RunID = run_ID r, cx_SessionID = run_SessionID r, cx_TurnID = run_CoopTurnID r,
             cx_State = ''pending'', cx_NextAttemptAt = now, cx_CreatedAt = now, cx_UpdatedAt = now\<rparr>)]
         | Some row \<Rightarrow>
             if cx_State row \<noteq> ''pending'' then rs_cancellations st
             else AList.update (run_IdempotencyKey r)
               (row\<lparr>cx_TurnID := if_set (run_CoopTurnID r) (cx_TurnID row),
                    cx_NextAttemptAt := min (cx_NextAttemptAt row) now, cx_UpdatedAt := now\<rparr>)
               (rs_cancellations st))\<rparr>)"

definition own_delivery :: "AgentRun \<Rightarrow> DeliveryRow \<Rightarrow> bool" where
  "own_delivery r d \<longleftrightarrow> dl_AgentRunID d = run_ID r \<and> dl_AgentRunKey d = run_IdempotencyKey r"

definition in_flight :: "DeliveryRow \<Rightarrow> bool" where
  "in_flight d \<longleftrightarrow> dl_State d \<in> {''sending'', ''uncertain''}"

definition deliveryUncertain :: string where
  "deliveryUncertain =
     ''replay cancellation raced an in-flight Slack write; delivery outcome requires reconciliation''"

definition withdraw_deliveries :: "gotime \<Rightarrow> AgentRun \<Rightarrow> string \<Rightarrow> RunStore \<Rightarrow> RunStore" where
  "withdraw_deliveries now r detail st =
     update_deliveries
       (\<lambda>d. own_delivery r d \<and> dl_State d \<in> {''pending'', ''sending'', ''retry'', ''uncertain''})
       (\<lambda>d. d\<lparr>dl_State := (if in_flight d then ''uncertain'' else ''superseded''),
              dl_LastError := (if in_flight d then deliveryUncertain else BoundedError detail),
              dl_UpdatedAt := now\<rparr>) st"

definition terminal_states :: "string list" where
  "terminal_states = [AgentRunCompleted, AgentRunFailed, AgentRunCancelled, AgentRunSuperseded]"

text \<open>The run, whether this call cancelled it, and whether a Slack write of it was in flight.\<close>

definition CancelSlackReplay ::
    "SqlFns \<Rightarrow> gotime \<Rightarrow> string \<Rightarrow> string \<Rightarrow> string \<Rightarrow> RunStore
     \<Rightarrow> RunError + (AgentRun option \<times> bool \<times> bool) \<times> RunStore" where
  "CancelSlackReplay F now replayID expectedKey detail st =
     (case map_of (rs_inputs st) replayID of
        None \<Rightarrow> Inl RunNotFound
      | Some input \<Rightarrow>
          if \<not> is_replay input then Inl (RunRefused ''Slack input is not a replay'')
          else case run_by_source st ''watch'' replayID of
              None \<Rightarrow> Inr ((None, inp_State input \<in> {''pending'', ''retry'', ''processing''}, False),
                settle_input now replayID detail [''pending'', ''retry'', ''processing''] st)
            | Some r \<Rightarrow>
                if expectedKey \<noteq> [] \<and> run_IdempotencyKey r \<noteq> expectedKey then Inl RunConflict
                else
                  let racing = list_ex (\<lambda>d. own_delivery r d \<and> in_flight d) (rs_deliveries st);
                      st = withdraw_deliveries now r detail (request_cancellation now replayID r st);
                      settled = settle_input now replayID detail
                        [''pending'', ''retry'', ''processing'', ''done''];
                      cancelled = Some (r\<lparr>run_State := AgentRunCancelled\<rparr>)
                  in if in_state terminal_states r then Inr ((Some r, False, racing), st)
                     else if run_EpisodeID r \<noteq> [] \<and> episode_row st (run_EpisodeID r) = None
                     then Inl RunNotFound
                     else if run_EpisodeID r \<noteq> []
                       \<and> map_option ep_LatestAttemptID (episode_row st (run_EpisodeID r)) \<noteq> Some (run_AttemptID r)
                     then and_then (update_run (run_ID r) (in_state [run_State r])
                            (\<lambda>r. r\<lparr>run_State := AgentRunCancelled, run_TerminalState := AgentRunCancelled,
                               run_CompletedAt := now, run_LastError := BoundedError detail,
                               run_UpdatedAt := now\<rparr>) st)
                          (\<lambda>st. and_then (setEpisodeAttemptState now (run_ID r) AttemptCancelled detail False st)
                          (\<lambda>st. Inr ((cancelled, True, racing), settled st)))
                     else and_then (finishAgentRun F now r AgentRunCancelled detail None st)
                          (\<lambda>st. Inr ((cancelled, True, racing), settled st)))"

section \<open>What a worker asks before it publishes\<close>

text \<open>\<open>newer_than\<close> is the admission order of the queries: creation, then identity.\<close>

definition newer_than :: "SqlFns \<Rightarrow> AgentRun \<Rightarrow> AgentRun \<Rightarrow> bool" where
  "newer_than F r candidate \<longleftrightarrow>
     fn_julian F (run_CreatedAt r) < fn_julian F (run_CreatedAt candidate)
     \<or> fn_julian F (run_CreatedAt r) = fn_julian F (run_CreatedAt candidate)
       \<and> run_ID r < run_ID candidate"

definition HasNewerPendingAgentRun :: "SqlFns \<Rightarrow> AgentRun \<Rightarrow> RunStore \<Rightarrow> bool" where
  "HasNewerPendingAgentRun F r st \<longleftrightarrow>
     list_ex (\<lambda>c. run_ConversationKey c = run_ConversationKey r \<and> run_ID c \<noteq> run_ID r
        \<and> in_state [AgentRunPending, AgentRunPreparing] c \<and> newer_than F r c) (all_runs st)"

definition retired_states :: "string list" where
  "retired_states = [AgentRunSuperseded, AgentRunCancelled, AgentRunFailed]"

definition HasNewerAgentRun :: "SqlFns \<Rightarrow> AgentRun \<Rightarrow> RunStore \<Rightarrow> bool" where
  "HasNewerAgentRun F r st \<longleftrightarrow>
     list_ex (\<lambda>c. run_ConversationKey c = run_ConversationKey r \<and> run_ID c \<noteq> run_ID r
        \<and> \<not> in_state retired_states c \<and> newer_than F r c) (all_runs st)"

definition HasNewerOperationalAgentRun ::
    "SqlFns \<Rightarrow> AgentRun \<Rightarrow> int \<Rightarrow> bool \<Rightarrow> RunStore \<Rightarrow> bool" where
  "HasNewerOperationalAgentRun F r within pendingOnly st \<longleftrightarrow>
     0 < within
     \<and> list_ex (\<lambda>c. run_ID c \<noteq> run_ID r \<and> run_Mode c = AgentRunTriage \<and> run_SourceKind c = ''watch''
        \<and> run_ChannelID c = run_ChannelID r \<and> run_UserID c = run_UserID r
        \<and> map_option inp_Kind (map_of (rs_inputs st) (run_SourceID c)) = Some ''bot_message''
        \<and> (if pendingOnly then in_state [AgentRunPending, AgentRunPreparing] c
           else \<not> in_state retired_states c)
        \<and> newer_than F r c
        \<and> fn_julian F (run_CreatedAt c) \<le> fn_julian F (time_add (run_CreatedAt r) within))
       (all_runs st)"

section \<open>The envelope of a run\<close>

text \<open>
  A context envelope is a JSON object of which this layer knows four keys; \<open>EnvelopeFns\<close> are
  \<open>json.Unmarshal\<close> and \<open>json.Marshal\<close> at the three types the code uses them at.
\<close>

record EnvelopeFns =
  env_fields :: "string \<Rightarrow> (string \<times> string) list option"
  env_of_fields :: "(string \<times> string) list \<Rightarrow> string"
  env_counts :: "string \<Rightarrow> (string \<times> int) list option"
  env_of_counts :: "(string \<times> int) list \<Rightarrow> string"
  env_int :: "string \<Rightarrow> int option"
  env_of_int :: "int \<Rightarrow> string"

definition correctionClassesKey :: string where "correctionClassesKey = ''correction_classes''"
definition targetFloorKey :: string where "targetFloorKey = ''min_target_index''"
definition refusedTargetFloorKey :: string where "refusedTargetFloorKey = ''refused_target_floor''"

definition mutateAgentRunContext ::
    "EnvelopeFns \<Rightarrow> gotime \<Rightarrow> string \<Rightarrow> ((string \<times> string) list \<Rightarrow> (string \<times> string) list)
     \<Rightarrow> RunStore \<Rightarrow> RunError + RunStore" where
  "mutateAgentRunContext J now rid mutate st =
     (case run_row st rid of
        None \<Rightarrow> Inl RunNotFound
      | Some r \<Rightarrow>
          if run_State r = AgentRunSuperseded then Inl RunNotFound
          else case (if run_Context r = [] then Some [] else env_fields J (run_Context r)) of
              None \<Rightarrow> Inl (RunRefused ''decode agent run context'')
            | Some entries \<Rightarrow>
                let encoded = env_of_fields J (mutate entries) in
                if context_limit < length encoded
                then Inl (RunRefused ''agent run context must be between 1 byte and 256 KiB'')
                else update_run rid (\<lambda>r. run_State r \<noteq> AgentRunSuperseded)
                       (\<lambda>r. r\<lparr>run_Context := encoded, run_UpdatedAt := now\<rparr>) st)"

definition class_counts :: "EnvelopeFns \<Rightarrow> (string \<times> string) list \<Rightarrow> (string \<times> int) list" where
  "class_counts J entries =
     (case map_of entries correctionClassesKey of
        None \<Rightarrow> []
      | Some raw \<Rightarrow> (case env_counts J raw of None \<Rightarrow> [] | Some counts \<Rightarrow> counts))"

definition count_of :: "(string \<times> int) list \<Rightarrow> string \<Rightarrow> int" where
  "count_of counts class = (case map_of counts class of None \<Rightarrow> 0 | Some n \<Rightarrow> n)"

definition note_class :: "EnvelopeFns \<Rightarrow> string \<Rightarrow> (string \<times> string) list \<Rightarrow> (string \<times> string) list" where
  "note_class J class entries =
     (let counts = class_counts J entries in
      AList.update correctionClassesKey
        (env_of_counts J (AList.update class (count_of counts class + 1) counts)) entries)"

definition run_fields :: "EnvelopeFns \<Rightarrow> RunStore \<Rightarrow> string \<Rightarrow> (string \<times> string) list" where
  "run_fields J st rid =
     (case run_row st rid of
        None \<Rightarrow> []
      | Some r \<Rightarrow> (case (if run_Context r = [] then Some [] else env_fields J (run_Context r)) of
          None \<Rightarrow> [] | Some entries \<Rightarrow> entries))"

definition NoteAgentRunCorrectionClass ::
    "EnvelopeFns \<Rightarrow> gotime \<Rightarrow> string \<Rightarrow> string \<Rightarrow> RunStore \<Rightarrow> RunError + int \<times> RunStore" where
  "NoteAgentRunCorrectionClass J now rid class st =
     (if blank rid \<or> blank class
      then Inl (RunRefused ''agent run correction class identity is required'')
      else map_sum (\<lambda>e. e)
        (Pair (count_of (class_counts J (run_fields J st rid)) class + 1))
        (mutateAgentRunContext J now rid (note_class J class) st))"

definition clear_class :: "EnvelopeFns \<Rightarrow> string \<Rightarrow> (string \<times> string) list \<Rightarrow> (string \<times> string) list" where
  "clear_class J class entries =
     (case map_of entries correctionClassesKey of
        None \<Rightarrow> entries
      | Some raw \<Rightarrow>
          (case env_counts J raw of
             None \<Rightarrow> AList.delete correctionClassesKey entries
           | Some counts \<Rightarrow>
               if map_of counts class = None then entries
               else AList.update correctionClassesKey
                 (env_of_counts J (AList.delete class counts)) entries))"

definition ClearAgentRunCorrectionClass ::
    "EnvelopeFns \<Rightarrow> gotime \<Rightarrow> string \<Rightarrow> string \<Rightarrow> RunStore \<Rightarrow> RunError + RunStore" where
  "ClearAgentRunCorrectionClass J now rid class st =
     (if blank rid \<or> blank class
      then Inl (RunRefused ''agent run correction class identity is required'')
      else mutateAgentRunContext J now rid (clear_class J class) st)"

definition raise_floor ::
    "EnvelopeFns \<Rightarrow> int \<Rightarrow> int \<Rightarrow> (string \<times> string) list \<Rightarrow> (string \<times> string) list" where
  "raise_floor J floor refused entries =
     (let remembered = (case map_of entries refusedTargetFloorKey of
            None \<Rightarrow> 0 | Some raw \<Rightarrow> (case env_int J raw of None \<Rightarrow> 0 | Some n \<Rightarrow> n));
          lowest = (if 0 < remembered \<and> remembered < refused then remembered else refused);
          entries = (if 0 < refused then AList.update refusedTargetFloorKey (env_of_int J lowest) entries
                    else entries)
      in if floor = 0 then AList.delete targetFloorKey entries
         else AList.update targetFloorKey (env_of_int J floor) entries)"

definition SetAgentRunTargetFloor ::
    "EnvelopeFns \<Rightarrow> gotime \<Rightarrow> string \<Rightarrow> int \<Rightarrow> int \<Rightarrow> RunStore \<Rightarrow> RunError + RunStore" where
  "SetAgentRunTargetFloor J now rid floor refused st =
     (if blank rid then Inl (RunRefused ''agent run target floor identity is required'')
      else if floor < 0 \<or> refused < 0
      then Inl (RunRefused ''agent run target floor must not be negative'')
      else mutateAgentRunContext J now rid (raise_floor J floor refused) st)"

end
