(* ===== verification/AgentRunSafety.thy ===== *)
theory AgentRunSafety
  imports AgentRunStore
begin

text \<open>
  The agent-run transactions as one machine, and what every sequence of them keeps: rows are
  typed, an episode attempt mirrors its run, and a run moves along the edges of its lifecycle only.
\<close>

section \<open>The lifecycle\<close>

inductive run_edge :: "string \<Rightarrow> string \<Rightarrow> bool" where
  leased: "run_edge AgentRunPending AgentRunPreparing"
| submitted: "run_edge AgentRunPreparing AgentRunRunning"
| staged: "run_edge AgentRunRunning AgentRunApplying"
| finalized: "run_edge AgentRunApplying AgentRunFinalizing"
| unfinalized: "run_edge AgentRunFinalizing AgentRunApplying"
| requeued: "s \<in> {AgentRunPreparing, AgentRunRunning, AgentRunFinalizing} \<Longrightarrow> run_edge s AgentRunPending"
| completed: "run_edge AgentRunFinalizing AgentRunCompleted"
| failed: "s \<in> {AgentRunPreparing, AgentRunFinalizing} \<Longrightarrow> run_edge s AgentRunFailed"
| cancelled: "s \<in> set live_states \<Longrightarrow> run_edge s AgentRunCancelled"
| replaced: "s \<in> set active_states \<Longrightarrow> run_edge s AgentRunSuperseded"

lemmas state_sets = live_states_def active_states_def terminal_states_def

lemma edge_from_final:
  assumes "run_edge s s'" and "s \<in> set terminal_states"
  shows False
  using assms by (cases rule: run_edge.cases) (auto simp: state_sets)

section \<open>Typed rows\<close>

definition outcomes :: "string list" where
  "outcomes = [AgentRunCompleted, AgentRunFailed, AgentRunCancelled]"

definition run_ok :: "AgentRun \<Rightarrow> bool" where
  "run_ok r \<longleftrightarrow> run_State r \<in> set live_states \<union> set terminal_states
     \<and> (run_State r \<in> {AgentRunApplying, AgentRunFinalizing} \<longrightarrow> run_TerminalState r \<in> set outcomes)"

definition mirrors :: "AttemptRow \<Rightarrow> AgentRun \<Rightarrow> bool" where
  "mirrors a r \<longleftrightarrow> at_State a = fromAgentState (run_State r)
     \<or> run_State r = AgentRunPending \<and> at_State a = AttemptLeased"

definition tables_ok :: "RunStore \<Rightarrow> bool" where
  "tables_ok st \<longleftrightarrow> distinct (map fst (es_runs (rs_ep st)))
     \<and> (\<forall>i r. run_row st i = Some r \<longrightarrow> run_ID r = i \<and> run_ok r)
     \<and> (\<forall>a \<in> set (attempts st). \<forall>r. run_row st (at_AgentRunID a) = Some r \<longrightarrow> mirrors a r)
     \<and> (\<forall>a \<in> set (attempts st). run_row st (at_AgentRunID a) \<noteq> None)"

definition moves :: "RunStore \<Rightarrow> RunStore \<Rightarrow> bool" where
  "moves st st' \<longleftrightarrow> (\<forall>i r. run_row st i = Some r \<longrightarrow> (\<exists>r'. run_row st' i = Some r'
     \<and> (run_State r' = run_State r \<or> run_edge (run_State r) (run_State r'))))"

definition sound :: "RunStore \<Rightarrow> RunStore \<Rightarrow> bool" where
  "sound st st' \<longleftrightarrow> (tables_ok st \<longrightarrow> tables_ok st' \<and> moves st st')"

lemma same_runs_ok: "same_runs st st' \<Longrightarrow> tables_ok st' \<longleftrightarrow> tables_ok st"
  by (simp add: same_runs_def tables_ok_def)

lemma same_runs_moves: "same_runs st' st'' \<Longrightarrow> moves st st'' \<longleftrightarrow> moves st st'"
  by (simp add: same_runs_def moves_def)

lemma moves_refl [simp]: "moves st st"
  by (simp add: moves_def)

lemma sound_refl [simp]: "sound st st"
  by (simp add: sound_def)

lemma sound_frame: "sound st st' \<Longrightarrow> same_runs st' st'' \<Longrightarrow> sound st st''"
  by (simp add: sound_def same_runs_ok same_runs_moves)

lemma sound_same: "same_runs st st' \<Longrightarrow> sound st st'"
  using sound_frame [OF sound_refl] .

declare map_of_eq_Some_iff [simp del] Some_eq_map_of_iff [simp del]

text \<open>The two shapes of a transaction on a run: it moves the run and its attempt together, or it
  keeps the phase that the attempt shows.\<close>

definition moving :: "(AgentRun \<Rightarrow> bool) \<Rightarrow> (AgentRun \<Rightarrow> AgentRun) \<Rightarrow> string \<Rightarrow> bool" where
  "moving g f to \<longleftrightarrow> (\<forall>r. run_ok r \<longrightarrow> g r \<longrightarrow>
     run_ID (f r) = run_ID r \<and> run_ok (f r) \<and> run_edge (run_State r) (run_State (f r))
     \<and> fromAgentState (run_State (f r)) = to)"

definition keeping :: "(AgentRun \<Rightarrow> bool) \<Rightarrow> (AgentRun \<Rightarrow> AgentRun) \<Rightarrow> bool" where
  "keeping g f \<longleftrightarrow> (\<forall>r. run_ok r \<longrightarrow> g r \<longrightarrow>
     run_ID (f r) = run_ID r \<and> run_ok (f r)
     \<and> (run_State (f r) = run_State r
        \<or> run_edge (run_State r) (run_State (f r)) \<and> run_State r \<noteq> AgentRunPending
          \<and> fromAgentState (run_State (f r)) = fromAgentState (run_State r)))"

lemma update_moves:
  assumes "update_run rid g f st = Inr st'" and "tables_ok st"
    and "\<And>r. run_ok r \<Longrightarrow> g r \<Longrightarrow> run_State (f r) = run_State r \<or> run_edge (run_State r) (run_State (f r))"
  shows "moves st st'"
  using assms(1)
proof (cases rule: update_run_cases)
  case (1 r)
  then show ?thesis
    using assms(2,3) by (auto simp: moves_def map_of_map_entry tables_ok_def)
qed

lemma keep_sound:
  assumes "update_run rid g f st = Inr st'" and "keeping g f"
  shows "sound st st'"
  unfolding sound_def
proof
  assume ok: "tables_ok st"
  from assms(1) obtain r where r: "run_row st rid = Some r" "g r"
    "st' = with_runs (AList.map_entry rid f (es_runs (rs_ep st))) st"
    by (rule update_run_cases)
  from ok r(1) have "run_ok r" by (auto simp: tables_ok_def)
  with assms(2) r(2) have f: "run_ID (f r) = run_ID r" "run_ok (f r)"
    "run_State (f r) = run_State r \<or> run_State r \<noteq> AgentRunPending
       \<and> fromAgentState (run_State (f r)) = fromAgentState (run_State r)"
    by (auto simp: keeping_def)
  have "mirrors a (f r)" if "mirrors a r" for a
    using that f(3) by (auto simp: mirrors_def)
  then have "tables_ok st'"
    using ok r f(1,2) by (auto simp: tables_ok_def map_of_map_entry)
  moreover have "moves st st'"
    using update_moves [OF assms(1) ok] assms(2) by (auto simp: keeping_def)
  ultimately show "tables_ok st' \<and> moves st st'" ..
qed

lemma retarget_ok:
  assumes "update_run rid g f st = Inr st1"
    and "setEpisodeAttemptState now rid to failure lease st1 = Inr st2" and "tables_ok st"
    and f: "\<And>r. run_ok r \<Longrightarrow> g r \<Longrightarrow>
      run_ID (f r) = run_ID r \<and> run_ok (f r) \<and> fromAgentState (run_State (f r)) = to"
  shows "tables_ok st2"
proof -
  from assms(1) obtain r where r: "run_row st rid = Some r" "g r"
    "st1 = with_runs (AList.map_entry rid f (es_runs (rs_ep st))) st"
    by (rule update_run_cases)
  have st2: "st2 = update_attempt rid (moved_attempt now to failure lease) st1"
    by (rule set_attempt_cases [OF assms(2)])
  from assms(3) r(1) have "run_ok r" by (auto simp: tables_ok_def)
  note f = f [OF this r(2)]
  then have "mirrors (moved_attempt now to failure lease a) (f r)" for a
    by (simp add: mirrors_def moved_attempt_def)
  moreover have "at_AgentRunID (moved_attempt now to failure lease a) = at_AgentRunID a" for a
    by (simp add: moved_attempt_def)
  ultimately show ?thesis
    using assms(3) r f unfolding st2 by (auto simp: tables_ok_def map_of_map_entry update_attempt_def)
qed

lemma move_sound:
  assumes "update_run rid g f st = Inr st1"
    and "setEpisodeAttemptState now rid to failure lease st1 = Inr st2" and "moving g f to"
  shows "sound st st2"
  unfolding sound_def
proof
  assume ok: "tables_ok st"
  have "tables_ok st2"
    by (rule retarget_ok [OF assms(1,2) ok]) (use assms(3) in \<open>auto simp: moving_def\<close>)
  moreover have "moves st st1"
    using update_moves [OF assms(1) ok] assms(3) by (auto simp: moving_def)
  then have "moves st st2"
    by (simp add: set_attempt_cases [OF assms(2)] moves_def update_attempt_def)
  ultimately show "tables_ok st2 \<and> moves st st2" ..
qed

lemma ignore_sound:
  assumes "ignore_miss st result = Inr st'" and "\<And>st'. result = Inr st' \<Longrightarrow> sound st st'"
  shows "sound st st'"
  using assms by (auto simp: ignore_miss_def split: if_splits)

text \<open>The rows of a lease, a submission and so on, as facts for the two shapes.\<close>

lemmas shape_defs = moving_def keeping_def run_ok_def in_state_def fromAgentState_def outcomes_def
  state_sets run_edge.simps

section \<open>Every transaction is sound\<close>

lemma moved_then:
  assumes "update_run rid g f st = Inr a" and "setEpisodeAttemptState now rid to fl lease a = Inr b"
    and "same_runs b c" and "moving g f to"
  shows "sound st c"
  using sound_frame [OF move_sound [OF assms(1,2,4)] assms(3)] .

lemma kept_then:
  assumes "update_run rid g f st = Inr a" and "same_runs a b" and "keeping g f"
  shows "sound st b"
  using sound_frame [OF keep_sound [OF assms(1,3)] assms(2)] .

lemma update_attempt_ok:
  assumes "\<And>a. at_State (f a) = at_State a" and "\<And>a. at_AgentRunID (f a) = at_AgentRunID a"
  shows "tables_ok (update_attempt rid f st) \<longleftrightarrow> tables_ok st"
proof -
  have "at_AgentRunID (if at_AgentRunID a = rid then f a else a) = at_AgentRunID a" for a
    by (simp add: assms)
  moreover have "mirrors (if at_AgentRunID a = rid then f a else a) r = mirrors a r" for a r
    by (simp add: assms mirrors_def)
  ultimately show ?thesis by (simp add: tables_ok_def update_attempt_def del: if_image_distrib)
qed

lemma manifest_sound:
  assumes "sound st st'"
  shows "sound st (update_attempt rid (\<lambda>a. a\<lparr>at_ContextManifestID := []\<rparr>) st')"
proof -
  have "tables_ok (update_attempt rid (\<lambda>a. a\<lparr>at_ContextManifestID := []\<rparr>) st') \<longleftrightarrow> tables_ok st'"
    by (rule update_attempt_ok) simp_all
  with assms show ?thesis by (simp add: sound_def moves_def update_attempt_def)
qed

lemma rs_ep_frames [simp]:
  "rs_ep (update_incident iid g f st) = rs_ep st" "rs_ep (advance_status now key st) = rs_ep st"
  "rs_ep (update_deliveries P h st) = rs_ep st" "rs_ep (queue_cleanup now session why st) = rs_ep st"
  by (simp_all add: update_incident_def advance_status_def update_deliveries_def queue_cleanup_def)

lemma rs_ep_retire [simp]: "rs_ep (retire_preparation now key st) = rs_ep st"
  by (simp add: retire_preparation_def Let_def split: option.splits)

lemma update_incident_same [simp]: "same_runs st (update_incident iid g f st)"
  by (simp add: same_runs_def)

lemma expect_incident_same: "expect_incident iid g f st = Inr st' \<Longrightarrow> same_runs st st'"
  by (auto simp: expect_incident_def split: option.splits if_splits)

lemma release_turn_same: "release_turn now r events st = Inr st' \<Longrightarrow> same_runs st st'"
  by (auto simp: release_turn_def split: if_splits dest: expect_incident_same)

lemma retire_same [simp]: "same_runs st (retire_preparation now key st)"
  by (simp add: same_runs_def)

lemma marker_same: "setFailureMarker F now r action b st = Inr st' \<Longrightarrow> same_runs st st'"
  unfolding setFailureMarker_def Let_def
  by (auto split: option.splits if_splits intro: same_runs_trans dest!: insert_same_runs)
    (auto simp: same_runs_def update_deliveries_def)

lemma Bind_sound:
  "BindAgentRunSession now rid session generation repository events c st = Inr st' \<Longrightarrow> sound st st'"
  unfolding BindAgentRunSession_def
  by (auto split: if_splits elim!: keep_sound simp: shape_defs bound_run_def)

lemma BindTriage_sound:
  "BindTriageAgentRunSession now rid ch session generation conv repository events c st = Inr st'
   \<Longrightarrow> sound st st'"
  unfolding BindTriageAgentRunSession_def
  by (auto split: if_splits elim!: keep_sound simp: shape_defs bound_run_def)

lemma SetContext_sound: "SetAgentRunContext now rid c st = Inr st' \<Longrightarrow> sound st st'"
  unfolding SetAgentRunContext_def
  by (auto split: if_splits elim!: keep_sound simp: shape_defs)

lemma Release_sound: "ReleaseAgentRunRevision now random rid st = Inr st' \<Longrightarrow> sound st st'"
  unfolding ReleaseAgentRunRevision_def
  by (erule ignore_sound) (auto elim!: keep_sound simp: shape_defs)

lemma Freeze_sound: "FreezeAgentRunRevision now rid revision st = Inr (n, st') \<Longrightarrow> sound st st'"
  unfolding FreezeAgentRunRevision_def
  by (auto split: if_splits option.splits elim!: keep_sound simp: shape_defs and_then_Inr)

lemma Advance_generation_sound: "AdvanceAgentRunGeneration now rid generation st = Inr st' \<Longrightarrow> sound st st'"
  unfolding AdvanceAgentRunGeneration_def
  by (auto split: if_splits elim!: keep_sound simp: shape_defs)

lemma submission_sound: "submission F now rid turn events st = Inr st' \<Longrightarrow> sound st st'"
  unfolding submission_def
  by (auto simp: and_then_Inr elim!: move_sound) (auto simp: shape_defs submitted_run_def)

lemma Submitted_sound: "markAgentRunSubmitted F now rid turn revision events p st = Inr st' \<Longrightarrow> sound st st'"
  unfolding markAgentRunSubmitted_def Let_def
  by (auto simp: and_then_Inr split: if_splits option.splits dest!: submission_sound set_phase_same_runs
    elim!: sound_frame) (simp_all add: same_runs_def)

lemma Defer_sound: "deferAgentRun F valid now rid c detail next w st = Inr st' \<Longrightarrow> sound st st'"
  unfolding deferAgentRun_def
  by (auto simp: and_then_Inr split: if_splits dest!: set_phase_same_runs elim!: moved_then)
    (auto simp: shape_defs)


lemma MarkTriage_sound:
  "MarkTriageAgentRunSubmitted F now rid turn revision events lane p st = Inr st' \<Longrightarrow> sound st st'"
  unfolding MarkTriageAgentRunSubmitted_def Let_def
  by (auto simp: and_then_Inr split: if_splits option.splits dest: Submitted_sound
    dest!: submission_sound set_phase_same_runs elim!: sound_frame) (simp_all add: same_runs_def)

lemma Retry_sound: "RetryAgentRun F now fresh rid detail next terminally st = Inr st' \<Longrightarrow> sound st st'"
  unfolding RetryAgentRun_def
  by (auto simp: and_then_Inr split: if_splits option.splits dest!: set_phase_same_runs marker_same
    elim!: moved_then intro: same_runs_trans) (auto simp: shape_defs)

lemma HoldOff_sound: "HoldOffAgentRunPoll now rid detail next st = Inr st' \<Longrightarrow> sound st st'"
  unfolding HoldOffAgentRunPoll_def
  by (erule ignore_sound) (auto elim!: keep_sound simp: shape_defs)

lemma Advance_sound: "AdvanceAgentRunEvents now rid sequence st = Inr st' \<Longrightarrow> sound st st'"
  unfolding AdvanceAgentRunEvents_def by (auto elim!: keep_sound simp: shape_defs)

lemma Repair_sound: "RepairAgentRunEventCursor now rid session conversation st = Inr st' \<Longrightarrow> sound st st'"
  unfolding RepairAgentRunEventCursor_def Let_def
  by (auto simp: and_then_Inr split: if_splits option.splits elim!: kept_then)
    (auto simp: shape_defs same_runs_def)

lemma RequeueFailed_cases:
  assumes "RequeueFailedAgentRun F now fresh rid detail st = Inr st'"
  obtains r e r' where "run_row st rid = Some r" "run_State r = AgentRunFailed"
    "episode_row st (run_EpisodeID r) = Some e" "ep_LatestAttemptID e = run_AttemptID r"
    "ep_State e \<noteq> EpisodeCompleted" "tables_ok st \<Longrightarrow> tables_ok st'"
    "run_row st' = (run_row st)(rid \<mapsto> r')" "run_State r' = AgentRunPending"
proof -
  let ?f = "\<lambda>r. (unbound_run r)\<lparr>run_State := AgentRunPending, run_IdempotencyKey := retry_key rid fresh,
    run_LastError := BoundedError detail, run_NextAttemptAt := now, run_UpdatedAt := now\<rparr>"
  note h = assms [unfolded RequeueFailedAgentRun_def]
  from h obtain r where r: "run_row st rid = Some r" "run_State r = AgentRunFailed"
    by (auto split: option.splits if_splits)
  from h r obtain e where e: "episode_row st (run_EpisodeID r) = Some e" "ep_LatestAttemptID e = run_AttemptID r"
    "ep_State e \<noteq> EpisodeCompleted"
    by (auto split: option.splits if_splits)
  from h r e obtain a b where ab: "update_run rid (in_state [AgentRunFailed]) ?f st = Inr a"
    "setEpisodeAttemptState now rid AttemptPending detail False a = Inr b" "same_runs b st'"
    by (auto simp: and_then_Inr dest!: set_phase_same_runs marker_same) (auto simp: same_runs_def)
  have "tables_ok b" if "tables_ok st"
    by (rule retarget_ok [OF ab(1,2) that]) (auto simp: shape_defs unbound_run_def)
  then have "tables_ok st \<Longrightarrow> tables_ok st'" using same_runs_ok [OF ab(3)] by simp
  moreover from ab(1) have "es_runs (rs_ep a) = AList.map_entry rid ?f (es_runs (rs_ep st))"
    by (rule update_run_cases) simp
  then have "es_runs (rs_ep st') = AList.map_entry rid ?f (es_runs (rs_ep st))"
    using ab(3) set_attempt_cases [OF ab(2)] by (simp add: same_runs_def update_attempt_def)
  then have "run_row st' = (run_row st)(rid \<mapsto> ?f r)"
    by (auto simp: map_of_map_entry r(1))
  ultimately show thesis by (intro that [OF r e]) auto
qed

lemma DeferRunning_sound: "DeferRunningAgentRun F now rid detail events next st = Inr st' \<Longrightarrow> sound st st'"
  unfolding DeferRunningAgentRun_def
  by (auto simp: and_then_Inr split: option.splits dest!: set_phase_same_runs release_turn_same
    elim!: moved_then intro: same_runs_trans) (auto simp: shape_defs unbound_run_def requeued_run_def)

lemma Escalate_sound: "EscalateAgentRun F now rid detail c next st = Inr st' \<Longrightarrow> sound st st'"
  unfolding EscalateAgentRun_def
  by (auto simp: and_then_Inr dest!: set_phase_same_runs elim!: moved_then)
    (auto simp: shape_defs unbound_run_def)

lemma RateLimitedFinalization_sound:
  "RequeueRateLimitedFinalization now rid detail next st = Inr st' \<Longrightarrow> sound st st'"
  unfolding RequeueRateLimitedFinalization_def by (auto elim!: keep_sound simp: shape_defs)

lemma RateLimited_sound:
  "RequeueRateLimitedAgentRun F now fresh rid detail next degraded st = Inr st' \<Longrightarrow> sound st st'"
  unfolding RequeueRateLimitedAgentRun_def
  by (auto simp: and_then_Inr dest!: set_phase_same_runs elim!: moved_then) (auto simp: shape_defs)

lemma Nudge_sound: "NudgeLatestAgentRun now channel thread st = Inr (b, st') \<Longrightarrow> sound st st'"
  unfolding NudgeLatestAgentRun_def
  by (auto simp: and_then_Inr split: option.splits if_splits elim!: ignore_sound keep_sound)
    (auto simp: shape_defs)

lemma Stage_sound: "StageAgentRunResult F now rid terminalState result detail events st = Inr st' \<Longrightarrow> sound st st'"
  unfolding StageAgentRunResult_def
  by (auto split: if_splits sum.splits option.splits dest!: set_phase_same_runs elim!: kept_then)
    (auto simp: shape_defs)

lemma RetryFinalization_sound: "RetryAgentRunFinalization now rid detail next st = Inr st' \<Longrightarrow> sound st st'"
  unfolding RetryAgentRunFinalization_def by (auto elim!: keep_sound simp: shape_defs)

lemma Supersede_sound: "SupersedeAgentRun F now rid detail st = Inr st' \<Longrightarrow> sound st st'"
  unfolding SupersedeAgentRun_def
  by (auto simp: and_then_Inr dest!: set_phase_same_runs elim!: moved_then)
    (auto simp: shape_defs superseded_run_def)

lemma BeginFinalization_sound: "BeginAgentRunFinalization now rid st = Inr (r, st') \<Longrightarrow> sound st st'"
  unfolding BeginAgentRunFinalization_def
  by (auto simp: and_then_Inr split: option.splits if_splits elim!: keep_sound)
    (auto simp: shape_defs moved_run_def)

lemma LeaseFinalization_sound: "LeaseAgentRunFinalization F now st = Inr (r, st') \<Longrightarrow> sound st st'"
  unfolding LeaseAgentRunFinalization_def Let_def
  by (auto simp: and_then_Inr split: option.splits if_splits elim!: keep_sound move_sound)
    (auto simp: shape_defs moved_run_def superseded_run_def)

lemma mutate_sound: "mutateAgentRunContext J now rid m st = Inr st' \<Longrightarrow> sound st st'"
  unfolding mutateAgentRunContext_def Let_def
  by (auto split: option.splits if_splits elim!: keep_sound simp: shape_defs)


lemma Requeue_sound:
  assumes "RequeueAgentRun F now fresh rid detail events next spends st = Inr st'"
  shows "sound st st'"
proof -
  let ?phase = "set_phase F now rid (phase_to EpisodeAcknowledged ''continuing'' (BoundedError detail)
    ''Continue unfinished work'' ZeroTime) (''agent-run:'' @ rid @ '':'' @ fresh)"
  let ?f = "requeued_run now (retry_key rid fresh) events (BoundedText detail CorrectionTextLimit) next spends"
  let ?g = "in_state [AgentRunRunning, AgentRunFinalizing]"
  note h = assms [unfolded RequeueAgentRun_def]
  from h obtain r where "run_row st rid = Some r" by (cases "run_row st rid") auto
  with h obtain a b c where steps: "update_run rid ?g ?f st = Inr a"
      "setEpisodeAttemptState now rid AttemptPending detail False a = Inr b"
      "release_turn now r events (update_attempt rid (\<lambda>a. a\<lparr>at_ContextManifestID := []\<rparr>) b) = Inr c"
    and last: "(case ?phase c of Inr st \<Rightarrow> Inr st
      | Inl e \<Rightarrow> if e = RunEpisode AttemptSuperseded then requeue_history now rid c else Inl e) = Inr st'"
    by (simp add: and_then_Inr) blast
  have shape: "moving ?g ?f AttemptPending" by (auto simp: shape_defs requeued_run_def unbound_run_def)
  have c: "sound st c"
    by (rule sound_frame [OF manifest_sound [OF move_sound [OF steps(1,2) shape]] release_turn_same [OF steps(3)]])
  show ?thesis
  proof (cases "?phase c")
    case (Inr d)
    with last show ?thesis using sound_frame [OF c set_phase_same_runs] by simp
  next
    case (Inl e)
    with last have "requeue_history now rid c = Inr st'" by (simp split: if_splits)
    then obtain d where d: "update_run rid (\<lambda>_. True) (superseded_run now newer_owner) c = Inr d"
      "setEpisodeAttemptState now rid AttemptCancelled newer_owner False d = Inr st'"
      by (auto simp: requeue_history_def and_then_Inr)
    from steps(1) obtain r0 where r0: "run_row st rid = Some r0" "?g r0"
      "a = with_runs (AList.map_entry rid ?f (es_runs (rs_ep st))) st" by (rule update_run_cases)
    have runs: "es_runs (rs_ep c) = AList.map_entry rid ?f (es_runs (rs_ep st))"
      using release_turn_same [OF steps(3)] set_attempt_cases [OF steps(2)]
      by (simp add: same_runs_def update_attempt_def r0(3))
    from d(1) have "es_runs (rs_ep d) = AList.map_entry rid (superseded_run now newer_owner) (es_runs (rs_ep c))"
      by (rule update_run_cases) simp
    then have runs': "run_row st' i = (if i = rid then Some (superseded_run now newer_owner (?f r0))
        else run_row st i)" for i
      by (simp add: set_attempt_cases [OF d(2)] update_attempt_def runs map_of_map_entry r0(1))
    show ?thesis
      unfolding sound_def
    proof
      assume "tables_ok st"
      with c have "tables_ok c" by (simp add: sound_def)
      then have "tables_ok st'"
        by (rule retarget_ok [OF d]) (auto simp: shape_defs superseded_run_def)
      moreover have "run_edge (run_State r0) AgentRunSuperseded"
        using r0(2) by (auto simp: shape_defs)
      then have "moves st st'"
        using r0(1) by (auto simp: moves_def runs' superseded_run_def)
      ultimately show "tables_ok st' \<and> moves st st'" ..
    qed
  qed
qed

lemma park_same [simp]: "rs_ep (park_incident now r e st) = rs_ep st"
  by (simp add: park_incident_def)

definition finishing :: "AgentRun \<Rightarrow> string \<Rightarrow> bool" where
  "finishing r final \<longleftrightarrow> final \<in> set outcomes \<and> run_edge (run_State r) final"

lemma finish_sound:
  assumes "finishAgentRun F now r final detail delivery st = Inr st'" and "finishing r final"
  shows "sound st st'"
proof -
  note h = assms(1) [unfolded finishAgentRun_def Let_def]
  from h obtain a b where ab: "update_run (run_ID r) (in_state [run_State r]) (finished_run now final detail) st = Inr a"
      "setEpisodeAttemptState now (run_ID r) (finished_attempt final) detail False a = Inr b"
    and rest: "(case map_option (episode_row (park_incident now r (if final = AgentRunFailed then BoundedError detail else []) b))
        (map_option run_EpisodeID (run_row (park_incident now r (if final = AgentRunFailed then BoundedError detail else []) b) (run_ID r))) of
      Some (Some e) \<Rightarrow> and_then (if agentRunOwnsEpisodeCompletion (ep_State e)
           then set_phase F now (run_ID r) (finished_phase final) (finished_key (run_ID r) final)
             (park_incident now r (if final = AgentRunFailed then BoundedError detail else []) b)
           else Inr (park_incident now r (if final = AgentRunFailed then BoundedError detail else []) b))
         (\<lambda>st. case delivery of None \<Rightarrow> Inr st
            | Some d \<Rightarrow> if final = AgentRunFailed
                then insertTerminalSlackDelivery now (failure_delivery r d) st else Inr st)
      | _ \<Rightarrow> Inl RunNotFound) = Inr st'"
    unfolding and_then_Inr by blast
  have "same_runs b (park_incident now r x b)" for x by (simp add: same_runs_def)
  with rest have "same_runs b st'"
    by (auto simp: and_then_Inr split: option.splits if_splits dest!: set_phase_same_runs insert_same_runs)
      (simp_all add: same_runs_def)
  moreover have "moving (in_state [run_State r]) (finished_run now final detail) (finished_attempt final)"
    using assms(2) unfolding finishing_def
    by (auto simp: moving_def run_ok_def in_state_def fromAgentState_def outcomes_def
      finished_run_def finished_attempt_def state_sets)
  ultimately show ?thesis using moved_then [OF ab] by blast
qed

lemma admit_same [simp]: "rs_ep (admit_input now fresh to input st) = rs_ep st"
  by (simp add: admit_input_def Let_def)

lemma settle_same [simp]: "rs_ep (settle_input now rid detail states st) = rs_ep st"
  by (simp add: settle_input_def)

lemma request_same [simp]: "rs_ep (request_cancellation now rid r st) = rs_ep st"
  by (simp add: request_cancellation_def)

lemma withdraw_same [simp]: "rs_ep (withdraw_deliveries now r detail st) = rs_ep st"
  by (simp add: withdraw_deliveries_def)

lemma retire_session_same [simp]: "rs_ep (retire_session now r fx st) = rs_ep st"
  by (simp add: retire_session_def Let_def)

lemma rs_ep_same_runs: "rs_ep st' = rs_ep st \<Longrightarrow> same_runs st st'"
  by (simp add: same_runs_def)

lemma effects_same: "applyAgentRunFailureEffects now r fx st = Inr st' \<Longrightarrow> same_runs st st'"
  unfolding applyAgentRunFailureEffects_def clear_failed_status_def Let_def
  by (auto simp: and_then_Inr split: if_splits dest!: insert_same_runs) (simp_all add: same_runs_def)

lemma followup_same [simp]:
  "rs_ep (case followup of [input] \<Rightarrow> admit_input now fresh to input st | _ \<Rightarrow> st) = rs_ep st"
  by (simp split: list.splits)

lemma Finish_sound:
  assumes "FinishAgentRun F now fresh rid followup st = Inr st'"
  shows "sound st st'"
proof -
  from assms obtain r c where r: "run_row st rid = Some r" "run_State r = AgentRunFinalizing"
      "run_TerminalState r \<in> {AgentRunCompleted, AgentRunFailed, AgentRunCancelled}"
    and c: "finishAgentRun F now r (run_TerminalState r) (run_LastError r) None st = Inr c"
    and st': "rs_ep st' = rs_ep c"
    unfolding FinishAgentRun_def
    by (auto simp: and_then_Inr simp del: insert_iff del: insertE split: if_splits option.splits)
  have "finishing r (run_TerminalState r)"
    using r(2,3) by (auto simp: finishing_def outcomes_def run_edge.simps state_sets)
  from sound_frame [OF finish_sound [OF c this] rs_ep_same_runs [OF st']] show ?thesis .
qed

lemma report_failure_ok:
  assumes "report_failure F now r out fx st = Inr (final, applied, st')"
  shows "final = out" and applied and "same_runs st st'"
  using assms unfolding report_failure_def
  by (auto simp: and_then_Inr split: if_splits dest!: effects_same marker_same)
    (simp_all add: same_runs_def)

lemma FinishFailure_cases:
  assumes "FinishAgentRunFailure F now rid detail delivery fx st = Inr (final, applied, st')"
  obtains (gone) "st' = st" "\<not> applied"
  | (older) r where "run_row st rid = Some r" "\<not> applied"
      "SupersedeAgentRun F now rid ''superseded by a newer episode attempt'' st = Inr st'"
  | (own) r d c where "run_row st rid = Some r" "in_state [AgentRunPreparing, AgentRunFinalizing] r"
      "final = failure_outcome st r delivery" "applied"
      "finishAgentRun F now r final detail d st = Inr c" "same_runs c st'"
proof -
  note h = assms [unfolded FinishAgentRunFailure_def]
  show thesis
  proof (cases "run_row st rid")
    case None
    with h show thesis using gone by simp
  next
    case (Some r)
    note h = h [unfolded Some option.case]
    show thesis
    proof (cases "in_state [AgentRunPreparing, AgentRunFinalizing] r")
      case False
      with h show thesis using gone by simp
    next
      case True
      let ?final = "failure_outcome st r delivery"
      show thesis
      proof (cases "run_EpisodeID r \<noteq> []
          \<and> map_option ep_LatestAttemptID (episode_row st (run_EpisodeID r)) \<noteq> Some (run_AttemptID r)")
        case True
        with h \<open>in_state _ r\<close> Some show thesis
          by (auto simp: and_then_Inr split: if_splits intro: older)
      next
        case False
        have n: "\<not> (run_EpisodeID r \<noteq> [] \<and> episode_row st (run_EpisodeID r) = None)"
          using h \<open>in_state _ r\<close> by (auto split: if_splits)
        have "and_then (finishAgentRun F now r ?final detail
            (if ?final = AgentRunCompleted then None else delivery) st) (report_failure F now r ?final fx)
          = Inr (final, applied, st')"
          using h unfolding Let_def if_not_P [OF n] if_not_P [OF False]
          by (simp only: \<open>in_state _ r\<close> not_True_eq_False if_False)
        then obtain d c where c: "finishAgentRun F now r ?final detail d st = Inr c"
          and rest: "report_failure F now r ?final fx c = Inr (final, applied, st')"
          unfolding and_then_Inr by blast
        note rest = report_failure_ok [OF rest]
        with own [OF Some \<open>in_state _ r\<close>] c show thesis by simp
      qed
    qed
  qed
qed

lemma FinishFailure_sound:
  assumes "FinishAgentRunFailure F now rid detail delivery fx st = Inr (final, applied, st')"
  shows "sound st st'"
  using assms
proof (cases rule: FinishFailure_cases)
  case (own r d c)
  then have "finishing r final"
    by (auto simp: finishing_def outcomes_def failure_outcome_def run_edge.simps state_sets in_state_def)
  from sound_frame [OF finish_sound [OF own(5) this] own(6)] show ?thesis .
qed (auto intro: Supersede_sound)

lemma find_in_set: "find P xs = Some x \<Longrightarrow> x \<in> set xs"
  by (induction xs) (auto split: if_splits)

lemma run_by_source_row:
  assumes "tables_ok st" and "run_by_source st kind source = Some r"
  shows "run_row st (run_ID r) = Some r" "run_ok r"
proof -
  from assms(2) obtain i where i: "(i, r) \<in> set (es_runs (rs_ep st))"
    by (auto simp: run_by_source_def all_runs_def dest!: find_in_set)
  with assms(1) have "run_row st i = Some r" by (simp add: tables_ok_def)
  with assms(1) show "run_row st (run_ID r) = Some r" "run_ok r" by (auto simp: tables_ok_def)
qed

lemma CancelReplay_sound:
  assumes "CancelSlackReplay F now replayID key detail st = Inr (r', st')"
  shows "sound st st'"
proof -
  note h = assms [unfolded CancelSlackReplay_def Let_def]
  show ?thesis
  proof (cases "run_by_source st ''watch'' replayID")
    case None
    with h show ?thesis
      by (auto split: option.splits if_splits intro!: sound_same rs_ep_same_runs)
  next
    case (Some r)
    let ?st = "withdraw_deliveries now r detail (request_cancellation now replayID r st)"
    let ?f = "\<lambda>r. r\<lparr>run_State := AgentRunCancelled, run_TerminalState := AgentRunCancelled,
       run_CompletedAt := now, run_LastError := BoundedError detail, run_UpdatedAt := now\<rparr>"
    show ?thesis
      unfolding sound_def
    proof
      assume ok: "tables_ok st"
      note r = run_by_source_row [OF ok Some]
      from h Some consider "rs_ep st' = rs_ep st"
        | a b where "\<not> in_state terminal_states r" "update_run (run_ID r) (in_state [run_State r]) ?f ?st = Inr a"
          "setEpisodeAttemptState now (run_ID r) AttemptCancelled detail False a = Inr b" "rs_ep st' = rs_ep b"
        | c where "\<not> in_state terminal_states r"
            "finishAgentRun F now r AgentRunCancelled detail None ?st = Inr c" "rs_ep st' = rs_ep c"
        by (auto simp: and_then_Inr split: option.splits if_splits)
      then have "sound ?st st'"
      proof cases
        case 1
        then show ?thesis by (intro sound_same rs_ep_same_runs) simp
      next
        case (2 a b)
        have "moving (in_state [run_State r]) ?f AttemptCancelled"
          using r(2) 2(1) by (auto simp: shape_defs)
        from sound_frame [OF move_sound [OF 2(2,3) this] rs_ep_same_runs [OF 2(4)]] show ?thesis .
      next
        case (3 c)
        have "finishing r AgentRunCancelled"
          using r(2) 3(1) by (auto simp: finishing_def shape_defs)
        from sound_frame [OF finish_sound [OF 3(2) this] rs_ep_same_runs [OF 3(3)]] show ?thesis .
      qed
      with ok show "tables_ok st' \<and> moves st st'"
        by (simp add: sound_def tables_ok_def moves_def)
    qed
  qed
qed

text \<open>A transaction of several moves on different runs: no run is moved twice.\<close>

definition quiet :: "RunStore \<Rightarrow> RunStore \<Rightarrow> bool" where
  "quiet st st' \<longleftrightarrow> (tables_ok st \<longrightarrow> tables_ok st')
     \<and> (\<forall>i. map_option run_State (run_row st' i) = map_option run_State (run_row st i))"

lemma quiet_refl [simp]: "quiet st st"
  by (simp add: quiet_def)

lemma quiet_trans: "quiet a b \<Longrightarrow> quiet b c \<Longrightarrow> quiet a c"
  by (simp add: quiet_def)

lemma quiet_row:
  assumes "quiet st st'" and "run_row st i = Some r"
  obtains r' where "run_row st' i = Some r'" "run_State r' = run_State r"
proof -
  from assms have "map_option run_State (run_row st' i) = Some (run_State r)" by (simp add: quiet_def)
  with that show thesis by auto
qed

lemma clear_status_quiet: "quiet st (clear_status F now item st)"
proof -
  obtain key r where item: "item = (key, r)" by (cases item) blast
  let ?f = "\<lambda>r. r\<lparr>run_Context := fn_clear_status F (run_Context r), run_UpdatedAt := now\<rparr>"
  have st': "es_runs (rs_ep (clear_status F now item st)) = AList.map_entry (run_ID r) ?f (es_runs (rs_ep st))"
    "attempts (clear_status F now item st) = attempts st"
    by (simp_all add: clear_status_def item Let_def)
  have keep: "run_ok (?f x) = run_ok x" "mirrors a (?f x) = mirrors a x" for a x
    by (simp_all add: run_ok_def mirrors_def)
  show ?thesis
    unfolding quiet_def tables_ok_def st'
    by (auto simp: map_of_map_entry keep option.map_comp comp_def split: if_splits)
qed

lemma clears_quiet: "quiet st (queueTerminalStatusClears F now st)"
proof -
  have "quiet st (foldl (\<lambda>st item. clear_status F now item st) st items)" for items
    by (induction items rule: rev_induct) (auto intro: quiet_trans clear_status_quiet)
  then show ?thesis by (simp add: queueTerminalStatusClears_def)
qed

lemma map_of_map_rows: "map_of (map (\<lambda>(i, r). (i, f r)) al) i = map_option f (map_of al i)"
  by (induction al) auto

lemma fst_map_rows: "map fst (map (\<lambda>(i, r). (i, f r)) al) = map fst al"
  by (induction al) auto

lemma map_rows_ok:
  assumes "tables_ok st"
    and f: "\<And>r. run_ok r \<Longrightarrow> run_ok (f r) \<and> run_ID (f r) = run_ID r"
    and g: "\<And>a. at_AgentRunID (g a) = at_AgentRunID a"
    and m: "\<And>a r. mirrors a r \<Longrightarrow> run_row st (at_AgentRunID a) = Some r \<Longrightarrow> mirrors (g a) (f r)"
  shows "tables_ok (with_runs (map (\<lambda>(i, r). (i, f r)) (es_runs (rs_ep st)))
    (with_attempts (map g (attempts st)) st))"
  using assms(1) f m unfolding tables_ok_def with_simps map_of_map_rows fst_map_rows
  by (auto simp: g)

definition cancels :: "RunStore \<Rightarrow> RunStore \<Rightarrow> bool" where
  "cancels st st' \<longleftrightarrow> (\<forall>i r. run_row st i = Some r \<longrightarrow> (\<exists>r'. run_row st' i = Some r'
     \<and> (run_State r' = run_State r
        \<or> run_State r \<in> {AgentRunPending, AgentRunPreparing} \<and> run_State r' = AgentRunCancelled)))"

lemma CancelQueued_ok:
  assumes ok: "tables_ok st"
  shows "tables_ok (CancelQueuedUnderTerminalEpisodes F now st)"
    and "cancels st (CancelQueuedUnderTerminalEpisodes F now st)"
proof -
  let ?q = "\<lambda>rid. case run_row st rid of None \<Rightarrow> False | Some r \<Rightarrow> queued_under_terminal st r"
  let ?f = "\<lambda>r. if queued_under_terminal st r then cancelled_under_episode now r else r"
  let ?rows = "map (\<lambda>a. if ?q (at_AgentRunID a) then fenced_attempt now a else a) (attempts st)"
  let ?st = "with_runs (map (\<lambda>(i, r). (i, ?f r)) (es_runs (rs_ep st))) (with_attempts ?rows st)"
  have qt: "queued_under_terminal (with_attempts ?rows st) r = queued_under_terminal st r" for r
    by (simp add: queued_under_terminal_def terminal_episode_def)
  have st': "CancelQueuedUnderTerminalEpisodes F now st = queueTerminalStatusClears F now ?st"
    by (simp add: CancelQueuedUnderTerminalEpisodes_def Let_def qt)
  have row: "run_row ?st i = map_option ?f (run_row st i)" for i
    by (simp add: map_of_map_rows)
  have f: "run_ok (?f r)" "run_ID (?f r) = run_ID r" if "run_ok r" for r
    using that by (auto simp: run_ok_def cancelled_under_episode_def state_sets)
  have m: "mirrors (if ?q (at_AgentRunID a) then fenced_attempt now a else a) (?f r)"
    if "mirrors a r" "run_row st (at_AgentRunID a) = Some r" for a r
    using that by (auto simp: mirrors_def fenced_attempt_def cancelled_under_episode_def fromAgentState_def)
  have rid: "at_AgentRunID (if c then fenced_attempt now a else a) = at_AgentRunID a" for a c
    by (simp add: fenced_attempt_def)
  have "tables_ok ?st"
    by (rule map_rows_ok [OF ok]) (use f m rid in auto)
  with clears_quiet [of ?st F now] show "tables_ok (CancelQueuedUnderTerminalEpisodes F now st)"
    by (simp add: st' quiet_def)
  have "cancels st ?st"
    unfolding cancels_def row
    by (auto simp: cancelled_under_episode_def queued_under_terminal_def in_state_def)
  then show "cancels st (CancelQueuedUnderTerminalEpisodes F now st)"
    unfolding st' cancels_def
  proof (intro allI impI)
    fix i r
    assume c: "\<forall>i r. run_row st i = Some r \<longrightarrow> (\<exists>r'. run_row ?st i = Some r' \<and> (run_State r' = run_State r
       \<or> run_State r \<in> {AgentRunPending, AgentRunPreparing} \<and> run_State r' = AgentRunCancelled))"
      and r: "run_row st i = Some r"
    from c r obtain r1 where r1: "run_row ?st i = Some r1" "run_State r1 = run_State r
       \<or> run_State r \<in> {AgentRunPending, AgentRunPreparing} \<and> run_State r1 = AgentRunCancelled"
      by blast
    from clears_quiet [of ?st F now] r1(1) obtain r2
      where r2: "run_row (queueTerminalStatusClears F now ?st) i = Some r2" "run_State r2 = run_State r1"
      by (rule quiet_row)
    from r1(2) r2 show "\<exists>r'. run_row (queueTerminalStatusClears F now ?st) i = Some r'
       \<and> (run_State r' = run_State r
          \<or> run_State r \<in> {AgentRunPending, AgentRunPreparing} \<and> run_State r' = AgentRunCancelled)"
      by (intro exI [of _ r2]) simp
  qed
qed

lemma Lease_sound:
  assumes "LeaseAgentRun F now st = Inr (r, st')"
  shows "sound st st'"
  unfolding sound_def
proof
  assume ok: "tables_ok st"
  let ?st = "CancelQueuedUnderTerminalEpisodes F now st"
  note c = CancelQueued_ok [OF ok, of F now]
  have "sound ?st st'"
    using assms unfolding LeaseAgentRun_def Let_def
    by (auto simp: and_then_Inr split: option.splits dest!: set_phase_same_runs elim!: moved_then)
      (auto simp: shape_defs moved_run_def)
  with c(1) have ok': "tables_ok st'" "moves ?st st'" by (simp_all add: sound_def)
  have "moves st st'"
    unfolding moves_def
  proof (intro allI impI)
    fix i r
    assume "run_row st i = Some r"
    with c(2) obtain r1 where r1: "run_row ?st i = Some r1" "run_State r1 = run_State r
        \<or> run_State r \<in> {AgentRunPending, AgentRunPreparing} \<and> run_State r1 = AgentRunCancelled"
      unfolding cancels_def by blast
    with ok'(2) obtain r2 where r2: "run_row st' i = Some r2"
      "run_State r2 = run_State r1 \<or> run_edge (run_State r1) (run_State r2)"
      unfolding moves_def by blast
    have "\<not> run_edge AgentRunCancelled s" for s using edge_from_final [of AgentRunCancelled s] by (auto simp: state_sets)
    with r1(2) r2(2) have "run_State r2 = run_State r \<or> run_edge (run_State r) (run_State r2)"
      using cancelled [of "run_State r"] by (auto simp: state_sets)
    with r2(1) show "\<exists>r'. run_row st' i = Some r'
        \<and> (run_State r' = run_State r \<or> run_edge (run_State r) (run_State r'))"
      by blast
  qed
  with ok'(1) show "tables_ok st' \<and> moves st st'" by simp
qed

definition backs :: "RunStore \<Rightarrow> RunStore \<Rightarrow> bool" where
  "backs st st' \<longleftrightarrow> (tables_ok st \<longrightarrow> tables_ok st')
     \<and> (\<forall>i r. run_row st i = Some r \<longrightarrow> (\<exists>r'. run_row st' i = Some r'
          \<and> (run_State r' = run_State r
             \<or> run_State r = AgentRunPreparing \<and> run_State r' = AgentRunPending)))"

lemma backs_refl [simp]: "backs st st"
  by (simp add: backs_def)

lemma backs_trans:
  assumes "backs a b" and "backs b c"
  shows "backs a c"
proof -
  have "\<exists>r'. run_row c i = Some r' \<and> (run_State r' = run_State r
      \<or> run_State r = AgentRunPreparing \<and> run_State r' = AgentRunPending)"
    if r: "run_row a i = Some r" for i r
  proof -
    from assms(1) r obtain r1 where r1: "run_row b i = Some r1" "run_State r1 = run_State r
        \<or> run_State r = AgentRunPreparing \<and> run_State r1 = AgentRunPending"
      unfolding backs_def by blast
    from assms(2) r1(1) obtain r2 where r2: "run_row c i = Some r2" "run_State r2 = run_State r1
        \<or> run_State r1 = AgentRunPreparing \<and> run_State r2 = AgentRunPending"
      unfolding backs_def by blast
    from r1(2) r2 show ?thesis by (intro exI [of _ r2]) auto
  qed
  with assms show ?thesis unfolding backs_def by simp
qed

lemma backs_sound: "backs st st' \<Longrightarrow> sound st st'"
  using requeued [of AgentRunPreparing] unfolding backs_def sound_def moves_def by fastforce

lemma recover_one_backs:
  assumes "recover_one F now staleBefore rid (Inr (n, st)) = Inr (m, st')"
  shows "backs st st'"
proof -
  let ?f = "\<lambda>r. r\<lparr>run_State := AgentRunPending, run_NextAttemptAt := now,
    run_LastError := if_set (run_LastError r) recovery_detail, run_UpdatedAt := now\<rparr>"
  show ?thesis
  proof (cases "update_run rid (abandoned F staleBefore) ?f st")
    case (Inl e)
    with assms show ?thesis by (cases e) (auto simp: recover_one_def)
  next
    case (Inr a)
    with assms have b: "setEpisodeAttemptState now rid AttemptPending recovery_detail False a = Inr st'"
      by (auto simp: recover_one_def and_then_Inr)
    from Inr obtain r where r: "run_row st rid = Some r" "abandoned F staleBefore r"
      "a = with_runs (AList.map_entry rid ?f (es_runs (rs_ep st))) st" by (rule update_run_cases)
    have "tables_ok st'" if "tables_ok st"
      by (rule retarget_ok [OF Inr b that]) (auto simp: shape_defs)
    moreover have "es_runs (rs_ep st') = AList.map_entry rid ?f (es_runs (rs_ep st))"
      by (simp add: set_attempt_cases [OF b] update_attempt_def r(3))
    then have "run_row st' i = (if i = rid then Some (?f r) else run_row st i)" for i
      by (simp add: map_of_map_entry r(1))
    ultimately show ?thesis
      using r(1,2) by (auto simp: backs_def abandoned_def in_state_def)
  qed
qed

lemma recover_fold:
  assumes "fold (recover_one F now staleBefore) rids (Inr (n, st)) = Inr (m, st')"
  shows "backs st st'"
  using assms
proof (induction rids arbitrary: n st)
  case (Cons rid rids)
  have stuck: "fold (recover_one F now staleBefore) rids (Inl e) = Inl e" for e rids
    by (induction rids) (auto simp: recover_one_def)
  show ?case
  proof (cases "recover_one F now staleBefore rid (Inr (n, st))")
    case (Inl e)
    with Cons.prems stuck show ?thesis by simp
  next
    case (Inr x)
    obtain k a where x: "x = (k, a)" by (cases x) blast
    with Inr Cons.prems have "fold (recover_one F now staleBefore) rids (Inr (k, a)) = Inr (m, st')" by simp
    from Cons.IH [OF this] recover_one_backs [OF Inr [unfolded x]] show ?thesis
      using backs_trans by blast
  qed
qed simp

lemma RecoverStale_sound:
  "RecoverStaleAgentRunPreparations F now staleBefore st = Inr (n, st') \<Longrightarrow> sound st st'"
  unfolding RecoverStaleAgentRunPreparations_def by (rule backs_sound [OF recover_fold])

lemma RecoverInterrupted_sound: "sound st (RecoverInterrupted now st)"
proof -
  let ?f = "restarted_run st now"
  let ?st = "with_runs (map (\<lambda>(i, r). (i, ?f r)) (es_runs (rs_ep st))) st"
  have frame: "same_runs ?st (RecoverInterrupted now st)"
    by (simp add: RecoverInterrupted_def Let_def same_runs_def)
  have f: "run_ID (?f r) = run_ID r" "run_ok (?f r)" "mirrors a r \<Longrightarrow> mirrors a (?f r)"
    "run_State (?f r) = run_State r \<or> run_edge (run_State r) (run_State (?f r))" if "run_ok r" for r a
    using that by (auto simp: restarted_run_def Let_def run_ok_def mirrors_def fromAgentState_def
      state_sets run_edge.simps)
  have "sound st ?st"
    unfolding sound_def
  proof
    assume ok: "tables_ok st"
    have "tables_ok (with_runs (map (\<lambda>(i, r). (i, ?f r)) (es_runs (rs_ep st)))
        (with_attempts (map id (attempts st)) st))"
      by (rule map_rows_ok [OF ok]) (use f ok in \<open>auto simp: tables_ok_def\<close>)
    then have "tables_ok ?st" by (simp add: tables_ok_def)
    moreover have "moves st ?st"
      using f(4) ok unfolding moves_def with_simps map_of_map_rows by (auto simp: tables_ok_def)
    ultimately show "tables_ok ?st \<and> moves st ?st" ..
  qed
  then show ?thesis using frame by (rule sound_frame)
qed

lemma rs_ep_update_episode [simp]:
  "es_runs (rs_ep (update_episode eid f st)) = es_runs (rs_ep st)"
  "attempts (update_episode eid f st) = attempts st"
  by (simp_all add: update_episode_def)

lemma quiet_frame: "quiet st st' \<Longrightarrow> same_runs st' st'' \<Longrightarrow> quiet st st''"
  unfolding quiet_def using same_runs_ok [of st' st''] by (simp add: same_runs_def)

lemma quiet_frame_left: "same_runs st a \<Longrightarrow> quiet a b \<Longrightarrow> quiet st b"
  unfolding quiet_def using same_runs_ok [of st a] by (simp add: same_runs_def)

lemma quiet_after:
  assumes "sound a b" and "quiet b c"
  shows "sound a c"
  unfolding sound_def
proof
  assume "tables_ok a"
  with assms have ok: "tables_ok c" and m: "moves a b" by (auto simp: sound_def quiet_def)
  have "moves a c"
    unfolding moves_def
  proof (intro allI impI)
    fix i r
    assume "run_row a i = Some r"
    with m obtain r1 where r1: "run_row b i = Some r1"
      "run_State r1 = run_State r \<or> run_edge (run_State r) (run_State r1)" unfolding moves_def by blast
    from assms(2) r1(1) obtain r2 where "run_row c i = Some r2" "run_State r2 = run_State r1"
      by (rule quiet_row)
    with r1(2) show "\<exists>r'. run_row c i = Some r' \<and> (run_State r' = run_State r \<or> run_edge (run_State r) (run_State r'))"
      by (intro exI [of _ r2]) simp
  qed
  with ok show "tables_ok c \<and> moves a c" ..
qed

lemma linked_keeping: "keeping g (linked_run now eid aid n)"
  by (auto simp: keeping_def linked_run_def run_ok_def)

lemma linked_quiet:
  assumes "ignore_miss st (update_run rid g (linked_run now eid aid n) st) = Inr st'"
  shows "quiet st st'"
proof (cases "update_run rid g (linked_run now eid aid n) st")
  case (Inl e)
  with assms show ?thesis by (auto simp: ignore_miss_def split: if_splits)
next
  case (Inr a)
  with assms have "a = st'" by (simp add: ignore_miss_def)
  with Inr have u: "update_run rid g (linked_run now eid aid n) st = Inr st'" by simp
  from keep_sound [OF u linked_keeping] have "tables_ok st \<longrightarrow> tables_ok st'" by (simp add: sound_def)
  moreover from u have "map_option run_State (run_row st' i) = map_option run_State (run_row st i)" for i
    by (rule update_run_cases) (auto simp: map_of_map_entry linked_run_def option.map_comp comp_def)
  ultimately show ?thesis by (simp add: quiet_def)
qed

lemma Ensure_quiet:
  assumes "Ensure now eid r st = Inr st'" and "run_row st (run_ID r) = Some r0"
    and "run_State r0 = run_State r"
  shows "quiet st st'"
proof (cases "find (\<lambda>a. at_AgentRunID a = run_ID r) (attempts st)")
  case (Some a)
  with assms(1) show ?thesis
    unfolding Ensure_def by (auto split: if_splits elim!: linked_quiet)
next
  case None
  let ?n = "next_number st eid"
  let ?aid = "if trim_space (run_AttemptID r) = [] then ''attempt_'' @ run_ID r else trim_space (run_AttemptID r)"
  let ?row = "attempt_for ?aid ?n eid r now"
  let ?st = "with_attempts (attempts st @ [?row]) st"
  from assms(1) None obtain c where c: "ignore_miss ?st (update_run (run_ID r) (\<lambda>_. True)
      (linked_run now eid ?aid ?n) ?st) = Inr c" "same_runs c st'"
    unfolding Ensure_def Let_def
    by (auto simp: and_then_Inr same_runs_def simp del: with_simps split: if_splits)
  have "quiet ?st st'" by (rule quiet_frame [OF linked_quiet [OF c(1)] c(2)])
  moreover have "tables_ok ?st" if "tables_ok st"
    using that assms(2,3) by (auto simp: tables_ok_def attempt_for_def mirrors_def)
  ultimately show ?thesis by (simp add: quiet_def)
qed

lemma ensureWorkEpisode_quiet:
  assumes "ensureWorkEpisode now r st = Inr st'" and "run_row st (run_ID r) = Some r0"
    and "run_State r0 = run_State r"
  shows "quiet st st'"
proof -
  note h = assms(1) [unfolded ensureWorkEpisode_def]
  from h obtain e where "normalizeWorkEpisode r = Inr e" by (cases "normalizeWorkEpisode r") auto
  note h = h [unfolded this sum.case]
  let ?add = "st\<lparr>rs_ep := (rs_ep st)\<lparr>es_episodes := es_episodes (rs_ep st)
      @ [(ep_ID e, accepted_row now (run_ID r) e)]\<rparr>\<rparr>"
  from h consider "Ensure now (ep_ID e) r st = Inr st'"
    | c where "Ensure now (ep_ID e) r ?add = Inr c" "start_stream now (ep_ID e) c = Inr st'"
    by (auto simp: and_then_Inr split: if_splits)
  then show ?thesis
  proof cases
    case 1
    then show ?thesis by (rule Ensure_quiet [OF _ assms(2,3)])
  next
    case (2 c)
    have "same_runs c st'"
      using 2(2) by (auto simp: start_stream_def Let_def same_runs_def split: if_splits)
    moreover have "quiet ?add c" by (rule Ensure_quiet [OF 2(1), of r0]) (use assms(2,3) in simp_all)
    ultimately have "quiet ?add st'" by (blast intro: quiet_frame)
    then show ?thesis by (rule quiet_frame_left [rotated]) (simp add: same_runs_def)
  qed
qed

lemma map_of_snoc: "map_of (xs @ [(k, v)]) i = (case map_of xs i of None \<Rightarrow> if i = k then Some v else None | Some x \<Rightarrow> Some x)"
  by (auto simp: map_add_def split: option.splits)

lemma insert_sound:
  assumes "insertable_run st r" and "run_State r \<in> {AgentRunPending, AgentRunRunning}"
  shows "sound st (with_runs (es_runs (rs_ep st) @ [(run_ID r, inserted_run now r)]) st)"
  unfolding sound_def
proof
  assume ok: "tables_ok st"
  have "run_row st (run_ID r) = None"
  proof (rule ccontr)
    assume "run_row st (run_ID r) \<noteq> None"
    then obtain old where old: "run_row st (run_ID r) = Some old" by blast
    with ok have "run_ID old = run_ID r" by (auto simp: tables_ok_def)
    moreover from old have "old \<in> set (all_runs st)"
      by (auto simp: all_runs_def dest!: map_of_SomeD intro: rev_image_eqI)
    ultimately show False using assms(1) by (auto simp: insertable_run_def list_ex_iff)
  qed
  moreover have "run_ok (inserted_run now r)" "run_ID (inserted_run now r) = run_ID r"
    using assms(2) by (auto simp: run_ok_def inserted_run_def state_sets)
  ultimately show "tables_ok (with_runs (es_runs (rs_ep st) @ [(run_ID r, inserted_run now r)]) st)
      \<and> moves st (with_runs (es_runs (rs_ep st) @ [(run_ID r, inserted_run now r)]) st)"
    using ok by (auto simp: tables_ok_def moves_def map_of_snoc map_of_eq_None_iff split: option.splits if_splits)
qed

lemma ensureCommitment_same [simp]: "rs_ep (ensureCommitment r st) = rs_ep st"
  by (simp add: ensureCommitment_def Let_def)

lemma ProjectResumed_same: "ProjectResumed now r st = Inr st' \<Longrightarrow> same_runs st st'"
  by (auto simp: ProjectResumed_def split: if_splits dest: expect_incident_same)

lemma completed_request_state: "run_State (completed_request now fresh r) = if_set (run_State r) AgentRunPending"
  by (simp add: completed_request_def Let_def)

lemma insert_run_sound:
  assumes "insert_run now r st = Inr st'" and "run_State r \<in> {AgentRunPending, AgentRunRunning}"
  shows "sound st st'"
  using assms insert_sound [OF _ assms(2)] by (auto simp: insert_run_def split: if_splits)

lemma project_resumed_same: "project_resumed F now resume r st = Inr st' \<Longrightarrow> same_runs st st'"
  unfolding project_resumed_def
  by (auto simp: and_then_Inr dest!: set_phase_same_runs ProjectResumed_same intro: same_runs_trans)

lemma bind_quiet:
  assumes "bind_episode F now resume r created st = Inr (stored, c, st')" and "tables_ok st"
  shows "quiet st st'"
proof -
  note h = assms(1) [unfolded bind_episode_def]
  from h obtain s where s: "run_by_source st (run_SourceKind r) (run_SourceID r) = Some s"
    by (cases "run_by_source st (run_SourceKind r) (run_SourceID r)") auto
  note h = h [unfolded s option.case]
  from h have n: "\<not> (resume \<noteq> [] \<and> run_EpisodeID s \<noteq> resume)" by (auto split: if_splits)
  from h [unfolded if_not_P [OF n] and_then_Inr] obtain a where
    a: "ensureWorkEpisode now (bound_request r created s) st = Inr a"
    and rest: "(case run_by_source a (run_SourceKind r) (run_SourceID r) of
         None \<Rightarrow> Inl RunNotFound
       | Some stored \<Rightarrow>
           and_then (if resume \<noteq> [] \<and> created then project_resumed F now resume stored a else Inr a)
           (\<lambda>st. let stored = stored\<lparr>run_CommitmentTitle := run_CommitmentTitle r\<rparr>
                 in Inr (stored, created, ensureCommitment stored st))) = Inr (stored, c, st')"
    unfolding and_then_Inr by blast
  from rest obtain y where y: "run_by_source a (run_SourceKind r) (run_SourceID r) = Some y"
    by (cases "run_by_source a (run_SourceKind r) (run_SourceID r)") auto
  from rest [unfolded y option.case and_then_Inr Let_def] obtain b where
    b: "(if resume \<noteq> [] \<and> created then project_resumed F now resume y a else Inr a) = Inr b"
      "st' = ensureCommitment (y\<lparr>run_CommitmentTitle := run_CommitmentTitle r\<rparr>) b"
    by auto
  from b(1) have "same_runs a b" by (auto split: if_splits dest: project_resumed_same)
  then have "same_runs a st'" by (simp add: b(2) same_runs_def)
  have "quiet st a"
    by (rule ensureWorkEpisode_quiet [OF a, of s])
      (simp_all add: bound_request_def run_by_source_row(1) [OF assms(2) s])
  then show ?thesis using \<open>same_runs a st'\<close> by (rule quiet_frame)
qed

lemma queue_sound:
  assumes "queueAgentRun F now fresh r0 resume st = Inr (stored, created, st')"
  shows "sound st st'"
proof -
  let ?r0 = "completed_request now fresh r0"
  note h = assms [unfolded queueAgentRun_def Let_def]
  from h have st: "run_State ?r0 \<in> {AgentRunPending, AgentRunRunning}"
    by (auto split: if_splits)
  from h have "and_then (map_sum RunRefused (\<lambda>x. x) (normalizeWorkEpisode ?r0)) (\<lambda>e.
      case stale_replay st (?r0\<lparr>run_EpisodeID := ep_ID e\<rparr>) of Some err \<Rightarrow> Inl err | None \<Rightarrow>
      case admission_refused st resume (?r0\<lparr>run_EpisodeID := ep_ID e\<rparr>) of Some err \<Rightarrow> Inl err | None \<Rightarrow>
        and_then (insert_run now (?r0\<lparr>run_EpisodeID := ep_ID e\<rparr>) st)
          (bind_episode F now resume (?r0\<lparr>run_EpisodeID := ep_ID e\<rparr>)
            (insertable_run st (?r0\<lparr>run_EpisodeID := ep_ID e\<rparr>)))) = Inr (stored, created, st')"
    by (simp split: if_splits)
  then obtain e :: WorkEpisode where e: "(case stale_replay st (?r0\<lparr>run_EpisodeID := ep_ID e\<rparr>) of Some err \<Rightarrow> Inl err | None \<Rightarrow>
      case admission_refused st resume (?r0\<lparr>run_EpisodeID := ep_ID e\<rparr>) of Some err \<Rightarrow> Inl err | None \<Rightarrow>
        and_then (insert_run now (?r0\<lparr>run_EpisodeID := ep_ID e\<rparr>) st)
          (bind_episode F now resume (?r0\<lparr>run_EpisodeID := ep_ID e\<rparr>)
            (insertable_run st (?r0\<lparr>run_EpisodeID := ep_ID e\<rparr>)))) = Inr (stored, created, st')"
    unfolding and_then_Inr [of "map_sum f g x" for f g x] by (elim exE conjE) (rule that)
  let ?r = "?r0\<lparr>run_EpisodeID := ep_ID e\<rparr>"
  from e have "stale_replay st ?r = None" by (cases "stale_replay st ?r") auto
  moreover from e this have "admission_refused st resume ?r = None"
    by (cases "admission_refused st resume ?r") auto
  ultimately have "and_then (insert_run now ?r st) (bind_episode F now resume ?r (insertable_run st ?r))
      = Inr (stored, created, st')" using e by simp
  then obtain a where a: "insert_run now ?r st = Inr a"
    "bind_episode F now resume ?r (insertable_run st ?r) a = Inr (stored, created, st')"
    unfolding and_then_Inr by blast
  have s: "sound st a" by (rule insert_run_sound [OF a(1)]) (use st in simp)
  show ?thesis
    unfolding sound_def
  proof
    assume ok: "tables_ok st"
    with s have "tables_ok a" by (simp add: sound_def)
    from quiet_after [OF s bind_quiet [OF a(2) this]] ok show "tables_ok st' \<and> moves st st'"
      by (simp add: sound_def)
  qed
qed

lemma QueueEpisode_sound:
  "QueueEpisodeAttempt F now fresh episodeID r st = Inr (stored, created, st') \<Longrightarrow> sound st st'"
  unfolding QueueEpisodeAttempt_def
  by (auto split: option.splits sum.splits dest: queue_sound)

section \<open>The store as a machine\<close>

datatype RunOp =
    Queue string AgentRun
  | Resume string string AgentRun
  | Lease
  | LeaseFinalization
  | BeginFinalization string
  | Bind string string int string int string
  | BindTriage string string string int bool string int string
  | SetContext string string
  | ReleaseRevision string string
  | FreezeRevision string int
  | AdvanceGeneration string int
  | Submitted string string int int string
  | SubmittedTriage string string int int string string
  | Defer string "string option" string gotime bool
  | RecoverStale gotime
  | Retry string string string gotime bool
  | HoldOff string string gotime
  | AdvanceEvents string int
  | RepairCursor string string bool
  | Requeue string string string int gotime bool
  | RequeueFailed string string string
  | DeferRunning string string int gotime
  | Escalate string string string gotime
  | RateLimitedFinalization string string gotime
  | RateLimited string string string gotime bool
  | Restart
  | Nudge string string
  | Stage string string string string int
  | Finish string string "SlackInput list"
  | FinishFailure string string "SlackDelivery option" AgentRunFailureEffects
  | RetryFinalization string string gotime
  | Supersede string string
  | CancelReplay string string string
  | NoteClass string string
  | ClearClass string string
  | SetFloor string int int

fun run_op :: "SqlFns \<Rightarrow> EnvelopeFns \<Rightarrow> (string \<Rightarrow> bool) \<Rightarrow> RunStore \<Rightarrow> gotime \<times> RunOp \<Rightarrow> RunError + RunStore" where
  "run_op F J valid st (now, Queue fresh r) = map_sum id (snd o snd) (QueueAgentRun F now fresh r st)"
| "run_op F J valid st (now, Resume fresh eid r) = map_sum id (snd o snd) (QueueEpisodeAttempt F now fresh eid r st)"
| "run_op F J valid st (now, Lease) = map_sum id snd (LeaseAgentRun F now st)"
| "run_op F J valid st (now, LeaseFinalization) = map_sum id snd (LeaseAgentRunFinalization F now st)"
| "run_op F J valid st (now, BeginFinalization rid) = map_sum id snd (BeginAgentRunFinalization now rid st)"
| "run_op F J valid st (now, Bind rid s g repository events c) =
     BindAgentRunSession now rid s g repository events c st"
| "run_op F J valid st (now, BindTriage rid ch s g conversation repository events c) =
     BindTriageAgentRunSession now rid ch s g conversation repository events c st"
| "run_op F J valid st (now, SetContext rid c) = SetAgentRunContext now rid c st"
| "run_op F J valid st (now, ReleaseRevision random rid) = ReleaseAgentRunRevision now random rid st"
| "run_op F J valid st (now, FreezeRevision rid revision) =
     map_sum id snd (FreezeAgentRunRevision now rid revision st)"
| "run_op F J valid st (now, AdvanceGeneration rid g) = AdvanceAgentRunGeneration now rid g st"
| "run_op F J valid st (now, Submitted rid turn revision events preparation) =
     markAgentRunSubmitted F now rid turn revision events preparation st"
| "run_op F J valid st (now, SubmittedTriage rid turn revision events lane preparation) =
     MarkTriageAgentRunSubmitted F now rid turn revision events lane preparation st"
| "run_op F J valid st (now, Defer rid c detail next workspace) =
     deferAgentRun F valid now rid c detail next workspace st"
| "run_op F J valid st (now, RecoverStale staleBefore) =
     map_sum id snd (RecoverStaleAgentRunPreparations F now staleBefore st)"
| "run_op F J valid st (now, Retry fresh rid detail next terminally) =
     RetryAgentRun F now fresh rid detail next terminally st"
| "run_op F J valid st (now, HoldOff rid detail next) = HoldOffAgentRunPoll now rid detail next st"
| "run_op F J valid st (now, AdvanceEvents rid n) = AdvanceAgentRunEvents now rid n st"
| "run_op F J valid st (now, RepairCursor rid s conversation) =
     RepairAgentRunEventCursor now rid s conversation st"
| "run_op F J valid st (now, Requeue fresh rid detail events next spends) =
     RequeueAgentRun F now fresh rid detail events next spends st"
| "run_op F J valid st (now, RequeueFailed fresh rid detail) = RequeueFailedAgentRun F now fresh rid detail st"
| "run_op F J valid st (now, DeferRunning rid detail events next) =
     DeferRunningAgentRun F now rid detail events next st"
| "run_op F J valid st (now, Escalate rid detail c next) = EscalateAgentRun F now rid detail c next st"
| "run_op F J valid st (now, RateLimitedFinalization rid detail next) =
     RequeueRateLimitedFinalization now rid detail next st"
| "run_op F J valid st (now, RateLimited fresh rid detail next degraded) =
     RequeueRateLimitedAgentRun F now fresh rid detail next degraded st"
| "run_op F J valid st (now, Restart) = Inr (RecoverInterrupted now st)"
| "run_op F J valid st (now, Nudge ch thread) = map_sum id snd (NudgeLatestAgentRun now ch thread st)"
| "run_op F J valid st (now, Stage rid terminalState result detail events) =
     StageAgentRunResult F now rid terminalState result detail events st"
| "run_op F J valid st (now, Finish fresh rid followup) = FinishAgentRun F now fresh rid followup st"
| "run_op F J valid st (now, FinishFailure rid detail delivery fx) =
     map_sum id (snd o snd) (FinishAgentRunFailure F now rid detail delivery fx st)"
| "run_op F J valid st (now, RetryFinalization rid detail next) =
     RetryAgentRunFinalization now rid detail next st"
| "run_op F J valid st (now, Supersede rid detail) = SupersedeAgentRun F now rid detail st"
| "run_op F J valid st (now, CancelReplay replayID key detail) =
     map_sum id snd (CancelSlackReplay F now replayID key detail st)"
| "run_op F J valid st (now, NoteClass rid class) =
     map_sum id snd (NoteAgentRunCorrectionClass J now rid class st)"
| "run_op F J valid st (now, ClearClass rid class) = ClearAgentRunCorrectionClass J now rid class st"
| "run_op F J valid st (now, SetFloor rid floor refused) = SetAgentRunTargetFloor J now rid floor refused st"

lemma map_sum_Inr: "map_sum id f r = Inr y \<longleftrightarrow> (\<exists>x. r = Inr x \<and> f x = y)"
  by (cases r) auto

lemma Note_sound: "NoteAgentRunCorrectionClass J now rid class st = Inr (n, st') \<Longrightarrow> sound st st'"
  by (auto simp: NoteAgentRunCorrectionClass_def map_sum_def split: if_splits sum.splits dest: mutate_sound)

lemma Clear_sound: "ClearAgentRunCorrectionClass J now rid class st = Inr st' \<Longrightarrow> sound st st'"
  by (auto simp: ClearAgentRunCorrectionClass_def split: if_splits dest: mutate_sound)

lemma Floor_sound: "SetAgentRunTargetFloor J now rid floor refused st = Inr st' \<Longrightarrow> sound st st'"
  by (auto simp: SetAgentRunTargetFloor_def split: if_splits dest: mutate_sound)

definition requeues :: "RunOp \<Rightarrow> string \<Rightarrow> bool" where
  "requeues op rid \<longleftrightarrow> (\<exists>fresh detail. op = RequeueFailed fresh rid detail)"

lemma run_op_sound:
  assumes "run_op F J valid st (now, op) = Inr st'" and "\<And>rid. \<not> requeues op rid"
  shows "sound st st'"
  by (cases op; use assms in \<open>auto simp: map_sum_Inr QueueAgentRun_def requeues_def
      intro: queue_sound QueueEpisode_sound Lease_sound LeaseFinalization_sound
        BeginFinalization_sound Bind_sound BindTriage_sound SetContext_sound Release_sound
        Freeze_sound Advance_generation_sound Submitted_sound MarkTriage_sound Defer_sound
        RecoverStale_sound Retry_sound HoldOff_sound Advance_sound Repair_sound Requeue_sound
        DeferRunning_sound Escalate_sound RateLimitedFinalization_sound
        RateLimited_sound RecoverInterrupted_sound Nudge_sound Stage_sound Finish_sound
        FinishFailure_sound RetryFinalization_sound Supersede_sound CancelReplay_sound
        Note_sound Clear_sound Floor_sound\<close>)

lemma run_op_cases:
  assumes "run_op F J valid st (now, op) = Inr st'"
  obtains (moved) "sound st st'"
  | (requeued) rid r e r' where "requeues op rid" "run_row st rid = Some r" "run_State r = AgentRunFailed"
      "episode_row st (run_EpisodeID r) = Some e" "ep_LatestAttemptID e = run_AttemptID r"
      "ep_State e \<noteq> EpisodeCompleted" "tables_ok st \<Longrightarrow> tables_ok st'"
      "run_row st' = (run_row st)(rid \<mapsto> r')" "run_State r' = AgentRunPending"
proof (cases "\<exists>rid. requeues op rid")
  case True
  then obtain rid fresh detail where op: "op = RequeueFailed fresh rid detail" by (auto simp: requeues_def)
  with assms have "RequeueFailedAgentRun F now fresh rid detail st = Inr st'" by simp
  then show thesis
    by (rule RequeueFailed_cases) (rule requeued, auto simp: op requeues_def)
next
  case False
  then show thesis using run_op_sound [OF assms] moved by blast
qed

interpretation run_store: guarded_machine "run_op F J valid" tables_ok for F J valid
proof
  fix st e st'
  assume ok: "tables_ok st" and step: "run_op F J valid st e = Inr st'"
  obtain now op where "e = (now, op)" by (cases e) blast
  with step have "run_op F J valid st (now, op) = Inr st'" by simp
  then show "tables_ok st'"
    by (rule run_op_cases) (use ok in \<open>auto simp: sound_def\<close>)
qed

section \<open>What every sequence of transactions keeps\<close>


text \<open>C34. The result lane is typed: whatever transactions ran, the state of a run is one of the nine,
  and a run that is applying or finalizing carries one of the three outcomes; so finishing a run
  never refuses it for an invalid terminal state.\<close>

theorem result_lane_is_typed:
  assumes "tables_ok st" and "run_row (run_machine (run_op F J valid) st events) rid = Some r"
  shows "run_State r \<in> set live_states \<union> set terminal_states
    \<and> (run_State r \<in> {AgentRunApplying, AgentRunFinalizing} \<longrightarrow>
       run_TerminalState r \<in> {AgentRunCompleted, AgentRunFailed, AgentRunCancelled})"
proof -
  have "tables_ok (run_machine (run_op F J valid) st events)"
    by (rule run_store.run_inv [OF assms(1)])
  with assms(2) show ?thesis by (auto simp: tables_ok_def run_ok_def outcomes_def)
qed


lemma final_step:
  assumes "run_op F J valid st e = Inr st'" and "tables_ok st" and "run_row st rid = Some r"
    and "run_State r \<in> {AgentRunCompleted, AgentRunCancelled, AgentRunSuperseded}"
  shows "\<exists>r'. run_row st' rid = Some r' \<and> run_State r' = run_State r"
proof -
  obtain now op where "e = (now, op)" by (cases e) blast
  with assms(1) have "run_op F J valid st (now, op) = Inr st'" by simp
  then show ?thesis
  proof (cases rule: run_op_cases)
    case moved
    with assms(2,3) obtain r' where "run_row st' rid = Some r'"
      "run_State r' = run_State r \<or> run_edge (run_State r) (run_State r')"
      by (auto simp: sound_def moves_def)
    with edge_from_final [of "run_State r" "run_State r'"] assms(4) show ?thesis
      by (auto simp: state_sets)
  next
    case (requeued rid0 r0 e r')
    with assms(3,4) show ?thesis by (cases "rid = rid0") auto
  qed
qed

text \<open>C22. Completed, cancelled and superseded are final: no sequence of transactions ever gives such a
  run another state.\<close>

theorem final_runs_stay:
  assumes "tables_ok st" and "run_row st rid = Some r"
    and "run_State r \<in> {AgentRunCompleted, AgentRunCancelled, AgentRunSuperseded}"
  shows "\<exists>r'. run_row (run_machine (run_op F J valid) st events) rid = Some r'
    \<and> run_State r' = run_State r"
  using assms
proof (induction events arbitrary: st r)
  case (Cons e events)
  show ?case
  proof (cases "run_op F J valid st e")
    case (Inl err)
    with Cons show ?thesis by simp
  next
    case (Inr st')
    from final_step [OF Inr Cons.prems] obtain r' where "run_row st' rid = Some r'"
      "run_State r' = run_State r" by blast
    with Cons.IH [of st' r'] Cons.prems run_store.step_inv [OF Cons.prems(1) Inr] Inr
    show ?thesis by simp
  qed
qed simp

section \<open>Leasing\<close>

lemma lease_cases:
  assumes "LeaseAgentRun F now st = Inr (Some r, st')" and "tables_ok st"
  obtains r0 where "r0 \<in> set (all_runs (CancelQueuedUnderTerminalEpisodes F now st))"
    "leasable F now (CancelQueuedUnderTerminalEpisodes F now st) r0"
    "r = r0\<lparr>run_State := AgentRunPreparing\<rparr>"
    "es_runs (rs_ep st') = AList.map_entry (run_ID r0) (moved_run now AgentRunPreparing)
       (es_runs (rs_ep (CancelQueuedUnderTerminalEpisodes F now st)))"
proof -
  let ?st = "CancelQueuedUnderTerminalEpisodes F now st"
  note h = assms(1) [unfolded LeaseAgentRun_def Let_def]
  from h obtain r0 where r0: "lease_candidate F now ?st = Some r0" by (cases "lease_candidate F now ?st") auto
  from h [unfolded r0 option.case and_then_Inr] obtain a b c where
    a: "update_run (run_ID r0) (in_state [AgentRunPending]) (moved_run now AgentRunPreparing) ?st = Inr a"
    and b: "setEpisodeAttemptState now (run_ID r0) AttemptLeased [] True a = Inr b"
    and c: "same_runs b c" and r: "r = r0\<lparr>run_State := AgentRunPreparing\<rparr>" "st' = c"
    using set_phase_same_runs by (metis (no_types, lifting) Pair_inject option.inject sum.inject(2))
  from a have "es_runs (rs_ep a) = AList.map_entry (run_ID r0) (moved_run now AgentRunPreparing) (es_runs (rs_ep ?st))"
    by (rule update_run_cases) simp
  then have "es_runs (rs_ep st') = AList.map_entry (run_ID r0) (moved_run now AgentRunPreparing) (es_runs (rs_ep ?st))"
    using c set_attempt_cases [OF b] by (simp add: r(2) same_runs_def update_attempt_def)
  moreover from r0 have "r0 \<in> set (all_runs ?st)" "leasable F now ?st r0"
    unfolding lease_candidate_def by (auto dest: first_by_in)
  ultimately show thesis using that r(1) by blast
qed

text \<open>C23. A lease serializes its conversation: when a run is leased, every other run of the same
  conversation that is active has failed or been corrected at least three times and was created
  more than an hour ago.\<close>

theorem lease_serializes:
  assumes "LeaseAgentRun F now st = Inr (Some r, st')" and "tables_ok st"
    and "run_row st' rid = Some other" and "rid \<noteq> run_ID r"
    and "run_ConversationKey other = run_ConversationKey r" and "run_State other \<in> set active_states"
  shows "(3 \<le> run_Failures other \<or> 3 \<le> fn_corrections F (run_Context other))
    \<and> fn_julian F (run_CreatedAt other) < fn_julian F now - 3600000"
  using assms(1,2)
proof (cases rule: lease_cases)
  case (1 r0)
  let ?st = "CancelQueuedUnderTerminalEpisodes F now st"
  have row: "run_row ?st rid = Some other"
    using assms(3,4) 1(3,4) by (simp add: map_of_map_entry)
  then have "other \<in> set (all_runs ?st)"
    by (auto simp: all_runs_def dest!: map_of_SomeD intro: rev_image_eqI)
  with 1(2) have "\<not> blocks F now r0 other" by (auto simp: leasable_def list_ex_iff)
  moreover have "run_ID other = rid"
    using CancelQueued_ok(1) [OF assms(2)] row by (auto simp: tables_ok_def)
  ultimately show ?thesis
    using assms(4-6) 1(3) by (auto simp: blocks_def cycling_def older_than_hour_def in_state_def)
qed

end
