(* ===== verification/AgentRunFaults.thy ===== *)
theory AgentRunFaults
  imports AgentRunSafety
begin

text \<open>What the episode of a run learns from the transactions of \<open>internal/store/agent_run.go\<close>: the
  phase changes that are recorded under a key the episode already holds, the idempotence of staging,
  and the precedence of completed results.  The last section evaluates the transactions on small
  stores.\<close>

section \<open>Event keys that are used twice\<close>

text \<open>The stream of an episode already holds a phase change under a key.\<close>

definition phase_recorded :: "RunStore \<Rightarrow> string \<Rightarrow> string \<Rightarrow> bool" where
  "phase_recorded st eid key \<longleftrightarrow>
     map_option evt_Kind (find (\<lambda>e. evt_EpisodeID e = eid \<and> evt_IdempotencyKey e = trim_space key)
       (es_events (rs_ep st))) = Some EventPhaseChanged"

lemma find_in_set_P: "find P xs = Some x \<Longrightarrow> x \<in> set xs \<and> P x"
  by (induction xs) (auto split: if_splits)

lemma append_recorded:
  assumes "phase_recorded st eid key" and "run_row st rid = Some r" and "run_EpisodeID r = eid"
    and "episode_row st eid = Some e" and "ep_ID e = eid"
    and "appendWorkEpisodeEvent decode now rid (host_event EventPhaseChanged key payload) (rs_ep st) = Inr (ev, ep)"
  shows "ep = rs_ep st"
proof -
  from assms(2,3,6) have "appendEpisodeEvent decode now eid (host_event EventPhaseChanged key payload) (rs_ep st) = Inr (ev, ep)"
    by (simp add: appendWorkEpisodeEvent_def split: if_splits)
  then show ?thesis
  proof (cases rule: append_cases)
    case (appended current nxt)
    with assms(1,4,5) show ?thesis
      by (auto simp: phase_recorded_def host_event_def find_None_iff dest!: find_in_set_P)
  qed simp
qed


lemma phase_unseen:
  assumes "phase_recorded st eid key" and "run_row st rid = Some r" and "run_EpisodeID r = eid"
    and "episode_row st eid = Some e" and "ep_ID e = eid"
    and "workEpisodeAttemptOwnership (rs_ep st) rid = Some (ep_State e, rid)"
    and "\<not> terminal (ep_State e)" and "set_phase F now rid t key st = Inr st'"
  shows "st' = st"
proof -
  let ?ev = "host_event EventPhaseChanged key (fn_encode F t)"
  from assms(8) obtain ep where ep: "setWorkEpisodePhase (fn_encode F) (fn_decode F) now rid t key (rs_ep st) = Inr ep"
    and st': "st' = st\<lparr>rs_ep := ep\<rparr>"
    by (auto simp: set_phase_def map_sum_def split: sum.splits)
  from ep assms(6,7) have "map_sum id snd (appendWorkEpisodeEvent (fn_decode F) now rid ?ev (rs_ep st)) = Inr ep"
    by (auto simp: setWorkEpisodePhase_def Let_def split: if_splits)
  then obtain ev where "appendWorkEpisodeEvent (fn_decode F) now rid ?ev (rs_ep st) = Inr (ev, ep)"
    by (auto simp: map_sum_def split: sum.splits)
  from append_recorded [OF assms(1-5) this] show ?thesis by (simp add: st')
qed





text \<open>Of two resumptions of one episode only the first is projected.  The key of the resuming phase
  change is made of the episode and fixed texts, so from the second resumption on it is already
  recorded, and admitting the attempt leaves the episode in the state it waits in.\<close>

theorem second_resume_unseen:
  assumes "project_resumed F now eid stored st = Inr st'"
    and "run_row st (run_ID stored) = Some stored" and "run_EpisodeID stored = eid"
    and "episode_row st eid = Some e" and "ep_ID e = eid" and "\<not> terminal (ep_State e)"
    and "workEpisodeAttemptOwnership (rs_ep st) (run_ID stored) = Some (ep_State e, run_ID stored)"
    and "phase_recorded st eid (resuming_key F eid)"
  shows "rs_ep st' = rs_ep st"
proof -
  from assms(1) obtain a where a: "set_phase F now (run_ID stored)
      (phase_to EpisodeRetrying ''resuming'' ''Resuming work'' ''Run the next attempt'' ZeroTime)
      (resuming_key F eid) st = Inr a" "ProjectResumed now stored a = Inr st'"
    by (auto simp: project_resumed_def and_then_Inr)
  have "a = st" by (rule phase_unseen [OF assms(8,2,3,4,5,7,6) a(1)])
  with a(2) show ?thesis
    by (auto simp: ProjectResumed_def expect_incident_def split: if_splits option.splits)
qed

text \<open>Staging is idempotent: once a result was staged, staging any result again, as the replay of a
  poll does, changes nothing and is no error.\<close>

theorem staging_is_idempotent:
  assumes "StageAgentRunResult F now rid terminalState result detail events st = Inr st'"
    and "terminalState' \<in> {AgentRunCompleted, AgentRunFailed, AgentRunCancelled}"
    and "length result' \<le> result_limit"
  shows "StageAgentRunResult F later rid terminalState' result' detail' events' st' = Inr st'"
proof -
  let ?past = "[AgentRunApplying, AgentRunFinalizing, AgentRunCompleted, AgentRunFailed, AgentRunCancelled]"
  have "\<exists>r. run_row st' rid = Some r \<and> in_state ?past r"
    using assms(1) unfolding StageAgentRunResult_def
    by (auto split: if_splits sum.splits option.splits elim!: update_run_cases
      dest!: set_phase_same_runs simp: same_runs_def map_of_map_entry in_state_def)
  then obtain r where r: "run_row st' rid = Some r" "in_state ?past r" by blast
  have "\<not> in_state [AgentRunRunning] r" using r(2) by (auto simp: in_state_def)
  then have "update_run rid (in_state [AgentRunRunning]) f st' = Inl RunConflict" for f
    by (simp add: update_run_def r(1))
  then show ?thesis
    using assms(2,3) r by (simp add: StageAgentRunResult_def)
qed

text \<open>C28. The finalization lane never supersedes a completed result: whoever owns the episode now, after
  leasing a finalization every run whose staged outcome is completed is still in the lane.\<close>

theorem completed_result_survives:
  assumes "LeaseAgentRunFinalization F now st = Inr (leased, st')" and "tables_ok st"
    and "run_row st rid = Some r" and "run_State r = AgentRunApplying"
    and "run_TerminalState r = AgentRunCompleted"
  shows "\<exists>r'. run_row st' rid = Some r' \<and> run_State r' \<in> {AgentRunApplying, AgentRunFinalizing}
    \<and> run_TerminalState r' = AgentRunCompleted \<and> run_Result r' = run_Result r"
proof -
  let ?due = "filter (\<lambda>r. in_state [AgentRunApplying] r \<and> due F now r) (all_runs st)"
  note h = assms(1) [unfolded LeaseAgentRunFinalization_def Let_def]
  from h obtain x where x: "first_by finalization_before ?due = Some x"
    by (cases "first_by finalization_before ?due") auto
  then have "x \<in> set (all_runs st)" using first_by_in by fastforce
  then obtain i where "(i, x) \<in> set (es_runs (rs_ep st))" by (auto simp: all_runs_def)
  with assms(2) have xi: "run_row st i = Some x" by (simp add: tables_ok_def)
  with assms(2) have xrow: "run_row st (run_ID x) = Some x" by (auto simp: tables_ok_def)
  from h x obtain f where runs: "es_runs (rs_ep st') = AList.map_entry (run_ID x) f (es_runs (rs_ep st))"
    and f: "run_TerminalState x = AgentRunCompleted \<Longrightarrow> f = moved_run now AgentRunFinalizing"
    by (auto simp: and_then_Inr update_attempt_def split: if_splits option.splits
      elim!: update_run_cases dest!: set_attempt_cases)
  show ?thesis
  proof (cases "rid = run_ID x")
    case True
    with xrow assms(3) have "x = r" by simp
    with f assms(5) runs True assms(3) show ?thesis by (simp add: map_of_map_entry moved_run_def)
  next
    case False
    with runs assms(3-5) show ?thesis by (simp add: map_of_map_entry)
  qed
qed

section \<open>The transactions on small stores\<close>

definition split_nul :: "string \<Rightarrow> string \<times> string" where
  "split_nul s = (takeWhile (\<lambda>c. c \<noteq> CHR 0x00) s, tl (dropWhile (\<lambda>c. c \<noteq> CHR 0x00) s))"

definition ex_encode :: "Transition \<Rightarrow> string" where
  "ex_encode t = tr_State t @ [CHR 0x00] @ tr_Phase t @ [CHR 0x00] @ tr_Status t @ [CHR 0x00] @ tr_NextAction t"

definition ex_decode :: "string \<Rightarrow> Transition option" where
  "ex_decode s = (case split_nul s of (a, s) \<Rightarrow> case split_nul s of (b, s) \<Rightarrow> case split_nul s of (c, d) \<Rightarrow>
     Some (phase_to a b c d ZeroTime))"

definition ex_fns :: SqlFns where
  "ex_fns = \<lparr>fn_encode = ex_encode, fn_decode = ex_decode, fn_hash = (\<lambda>parts. concat parts),
     fn_julian = (\<lambda>t. nanos t div 1000000), fn_corrections = (\<lambda>_. 0), fn_disarm = (\<lambda>c. c),
     fn_arm = (\<lambda>c. c), fn_status_set = (\<lambda>_. False), fn_approval_thread = (\<lambda>_. None),
     fn_clear_status = (\<lambda>c. c)\<rparr>"

definition ex_env :: EnvelopeFns where
  "ex_env = \<lparr>env_fields = (\<lambda>_. Some []), env_of_fields = (\<lambda>_. ''{}''), env_counts = (\<lambda>_. Some []),
     env_of_counts = (\<lambda>_. []), env_int = (\<lambda>_. None), env_of_int = (\<lambda>_. [])\<rparr>"

definition empty_runs :: RunStore where
  "empty_runs = \<lparr>rs_ep = \<lparr>es_episodes = [], es_events = [], es_progress = [], es_goals = [],
     es_runs = [], es_attempts = [], es_outcomes = []\<rparr>, rs_incidents = [], rs_inputs = [],
     rs_participation = [], rs_deliveries = [], rs_memories = [], rs_conversations = [],
     rs_cleanup = [], rs_status = [], rs_commitments = [], rs_cancellations = []\<rparr>"

definition no_effects :: AgentRunFailureEffects where
  "no_effects = \<lparr>fx_StatusChannelID = [], fx_StatusThreadTS = [], fx_SessionChannelID = [],
     fx_SessionID = [], fx_SessionGeneration = 0, fx_ConversationSession = False\<rparr>"

definition ex_request :: AgentRun where
  "ex_request = zero_AgentRun\<lparr>run_Mode := AgentRunTriage, run_SourceKind := ''watch'',
     run_SourceID := ''in1'', run_ConversationKey := ''c1'', run_Prompt := ''check''\<rparr>"

abbreviation ex_run :: "RunStore \<Rightarrow> (gotime \<times> RunOp) list \<Rightarrow> RunStore" where
  "ex_run \<equiv> run_machine (run_op ex_fns ex_env (\<lambda>_. True))"


definition one_attempt :: "string \<Rightarrow> AttemptRow" where
  "one_attempt s = zero_AttemptRow\<lparr>at_ID := ''a1'', at_EpisodeID := ''e1'', at_AgentRunID := ''r1'',
     at_Number := 1, at_State := s\<rparr>"

definition one_run :: "string \<Rightarrow> string \<Rightarrow> AgentRun" where
  "one_run s outcome = ex_request\<lparr>run_ID := ''r1'', run_EpisodeID := ''e1'', run_AttemptID := ''a1'',
     run_IdempotencyKey := ''k1'', run_State := s, run_TerminalState := outcome\<rparr>"

definition one_store :: "string \<Rightarrow> string \<Rightarrow> string \<Rightarrow> RunStore" where
  "one_store s outcome attempt = empty_runs\<lparr>rs_ep := (rs_ep empty_runs)\<lparr>
     es_episodes := [(''e1'', zero_WorkEpisode\<lparr>ep_ID := ''e1'', ep_State := EpisodeVerifying,
       ep_LatestAttemptID := ''a1''\<rparr>)],
     es_runs := [(''r1'', one_run s outcome)], es_attempts := [one_attempt attempt]\<rparr>\<rparr>"

lemmas one_defs = one_attempt_def one_run_def one_store_def empty_runs_def ex_request_def

lemma one_tables: "tables_ok (one_store s outcome attempt)"
  if "s \<in> set live_states \<union> set terminal_states" and "attempt = fromAgentState s"
    and "s \<in> {AgentRunApplying, AgentRunFinalizing} \<longrightarrow> outcome \<in> set outcomes"
  using that by (simp add: tables_ok_def mirrors_def run_ok_def one_defs zero_defs zero_AttemptRow_def)

lemma one_rows:
  "run_row (one_store s outcome attempt) ''r1'' = Some (one_run s outcome)"
  "attempts (one_store s outcome attempt) = [one_attempt attempt]"
  by (simp_all add: one_defs)

lemma one_state: "run_State (one_run s outcome) = s" "run_TerminalState (one_run s outcome) = outcome"
    "run_ID (one_run s outcome) = ''r1''" "run_EpisodeID (one_run s outcome) = ''e1''"
  by (simp_all add: one_defs)

definition held_off :: RunStore where
  "held_off = ex_run (one_store AgentRunRunning [] AttemptRunning) [(Time 5, HoldOff ''r1'' ''busy'' (Time 9))]"

lemma held_off_row: "\<exists>r. run_row held_off ''r1'' = Some r \<and> run_State r = AgentRunRunning"
  "attempts held_off = [one_attempt AttemptRunning]"
  by (simp_all add: held_off_def HoldOffAgentRunPoll_def update_run_def ignore_miss_def one_rows
      in_state_def one_state with_runs_def map_of_map_entry)

lemma running_tables: "tables_ok (one_store AgentRunRunning [] AttemptRunning)"
  by (rule one_tables) (simp_all add: state_sets fromAgentState_def)

section \<open>The properties on these stores\<close>

lemma not_isl: "\<not> isl x \<Longrightarrow> \<exists>y. x = Inr y"
  by (cases x) auto


lemma result_lane_is_typed_witness:
  "\<exists>r. run_row held_off ''r1'' = Some r \<and> run_State r \<in> set live_states \<union> set terminal_states"
proof -
  obtain r where "run_row held_off ''r1'' = Some r" using held_off_row by blast
  with result_lane_is_typed [OF running_tables this [unfolded held_off_def]] show ?thesis by blast
qed


lemma final_runs_stay_witness:
  "\<exists>r'. run_row (ex_run (one_store AgentRunCompleted AgentRunCompleted AttemptSucceeded)
       [(Time 5, Restart), (Time 6, Supersede ''r1'' ''late''), (Time 7, RequeueFailed ''k2'' ''r1'' ''again'')])
       ''r1'' = Some r' \<and> run_State r' = AgentRunCompleted"
proof -
  have "tables_ok (one_store AgentRunCompleted AgentRunCompleted AttemptSucceeded)"
    by (rule one_tables) (simp_all add: state_sets fromAgentState_def)
  then show ?thesis by (rule final_runs_stay [OF _ one_rows(1), unfolded one_state]) simp
qed

definition stuck_run :: AgentRun where
  "stuck_run = (one_run AgentRunRunning [])\<lparr>run_ID := ''r2'', run_EpisodeID := [],
     run_IdempotencyKey := ''k2'', run_Failures := 3, run_CreatedAt := Time 10\<rparr>"

definition queued_run :: AgentRun where
  "queued_run = (one_run AgentRunPending [])\<lparr>run_CreatedAt := Time 7000000000000\<rparr>"

definition stuck_store :: RunStore where
  "stuck_store = empty_runs\<lparr>rs_ep := (rs_ep empty_runs)\<lparr>
     es_episodes := [(''e1'', zero_WorkEpisode\<lparr>ep_ID := ''e1'', ep_State := EpisodeAccepted,
       ep_LatestAttemptID := ''a1''\<rparr>)],
     es_runs := [(''r1'', queued_run), (''r2'', stuck_run)], es_attempts := [one_attempt AttemptPending]\<rparr>\<rparr>"

lemma stuck_tables: "tables_ok stuck_store"
proof -
  have rows: "run_row stuck_store i = (if i = ''r1'' then Some queued_run else if i = ''r2'' then Some stuck_run else None)" for i
    by (simp add: stuck_store_def)
  have "run_ID queued_run = ''r1'' \<and> run_ok queued_run" "run_ID stuck_run = ''r2'' \<and> run_ok stuck_run"
    by (simp_all add: run_ok_def queued_run_def stuck_run_def one_defs state_sets)
  moreover have "mirrors (one_attempt AttemptPending) queued_run"
    by (simp add: mirrors_def queued_run_def one_defs fromAgentState_def)
  moreover have "attempts stuck_store = [one_attempt AttemptPending]" "at_AgentRunID (one_attempt s) = ''r1''" for s
    by (simp_all add: stuck_store_def one_attempt_def)
  moreover have "distinct (map fst (es_runs (rs_ep stuck_store)))" by (simp add: stuck_store_def)
  ultimately show ?thesis unfolding tables_ok_def rows by (simp split: if_splits)
qed

definition leases_r1 :: "RunError + AgentRun option \<times> RunStore \<Rightarrow> bool" where
  "leases_r1 res = (case res of Inr (Some r, st') \<Rightarrow> run_ID r = ''r1'' \<and> run_ConversationKey r = ''c1''
       \<and> (case run_row st' ''r2'' of
            Some other \<Rightarrow> run_ConversationKey other = ''c1'' \<and> run_State other = AgentRunRunning
          | None \<Rightarrow> False)
     | _ \<Rightarrow> False)"

lemma leases_r1_cases:
  assumes "leases_r1 res"
  obtains r st' other where "res = Inr (Some r, st')" "run_ID r = ''r1''" "run_ConversationKey r = ''c1''"
    "run_row st' ''r2'' = Some other" "run_ConversationKey other = ''c1''" "run_State other = AgentRunRunning"
proof (cases res)
  case (Inr leased)
  obtain got st' where leased: "leased = (got, st')" by (cases leased)
  show thesis
  proof (cases got)
    case (Some r)
    with assms Inr leased that show thesis by (cases "run_row st' ''r2''") (simp_all add: leases_r1_def)
  qed (use assms Inr leased in \<open>simp add: leases_r1_def\<close>)
qed (use assms in \<open>simp add: leases_r1_def\<close>)

lemma leased: "leases_r1 (LeaseAgentRun ex_fns (Time 7200000000000) stuck_store)"
  by code_simp

lemma lease_serializes_witness:
  "\<exists>other :: AgentRun. (3 \<le> run_Failures other \<or> 3 \<le> fn_corrections ex_fns (run_Context other))
    \<and> fn_julian ex_fns (run_CreatedAt other) < fn_julian ex_fns (Time 7200000000000) - 3600000"
proof -
  from leased obtain r st' other where lease: "LeaseAgentRun ex_fns (Time 7200000000000) stuck_store = Inr (Some r, st')"
    and r: "run_ID r = ''r1''" "run_ConversationKey r = ''c1''"
    and other: "run_row st' ''r2'' = Some other" "run_ConversationKey other = ''c1''"
      "run_State other = AgentRunRunning"
    by (rule leases_r1_cases)
  have "''r2'' \<noteq> run_ID r" "run_ConversationKey other = run_ConversationKey r"
    "run_State other \<in> set active_states"
    using r other(2,3) by (simp_all add: active_states_def)
  from lease_serializes [OF lease stuck_tables other(1) this] show ?thesis by (intro exI)
qed

definition recorded_store :: "string \<Rightarrow> string \<Rightarrow> RunStore" where
  "recorded_store s key = (let st = one_store s [] (fromAgentState s) in st\<lparr>rs_ep := (rs_ep st)\<lparr>
     es_events := [(host_event EventPhaseChanged key [])\<lparr>evt_EpisodeID := ''e1''\<rparr>]\<rparr>\<rparr>)"

lemma recorded_rows:
  "run_row (recorded_store s key) ''r1'' = Some (one_run s [])"
  "episode_row (recorded_store s key) ''e1'' = Some (zero_WorkEpisode\<lparr>ep_ID := ''e1'',
     ep_State := EpisodeVerifying, ep_LatestAttemptID := ''a1''\<rparr>)"
  "workEpisodeAttemptOwnership (rs_ep (recorded_store s key)) ''r1'' = Some (EpisodeVerifying, ''r1'')"
  "phase_recorded (recorded_store s key) ''e1'' key' \<longleftrightarrow> key = trim_space key'"
  by (simp_all add: recorded_store_def one_defs Let_def phase_recorded_def host_event_def
      workEpisodeAttemptOwnership_def zero_AttemptRow_def)


lemma second_resume_unseen_witness:
  "\<exists>st'. project_resumed ex_fns (Time 9) ''e1'' (one_run AgentRunPending [])
      (recorded_store AgentRunPending (trim_space (resuming_key ex_fns ''e1''))) = Inr st'
    \<and> map_option ep_State (episode_row st' ''e1'') = Some EpisodeVerifying"
proof -
  let ?st = "recorded_store AgentRunPending (trim_space (resuming_key ex_fns ''e1''))"
  have "\<not> isl (project_resumed ex_fns (Time 9) ''e1'' (one_run AgentRunPending []) ?st)" by code_simp
  then obtain st' where ok: "project_resumed ex_fns (Time 9) ''e1'' (one_run AgentRunPending []) ?st = Inr st'"
    by (blast dest: not_isl)
  have key: "phase_recorded ?st ''e1'' (resuming_key ex_fns ''e1'')" unfolding recorded_rows by simp
  show ?thesis
    using second_resume_unseen [OF ok, unfolded one_state, OF recorded_rows(1) _ recorded_rows(2) _ _ _ key] ok
    by (simp add: recorded_rows terminal_def)
qed

lemma staging_is_idempotent_witness:
  "\<exists>st'. StageAgentRunResult ex_fns (Time 9) ''r1'' AgentRunCompleted ''done'' [] 4
      (recorded_store AgentRunRunning ''k'') = Inr st'
    \<and> StageAgentRunResult ex_fns (Time 10) ''r1'' AgentRunFailed ''other'' ''late'' 5 st' = Inr st'"
proof -
  have "\<not> isl (StageAgentRunResult ex_fns (Time 9) ''r1'' AgentRunCompleted ''done'' [] 4
      (recorded_store AgentRunRunning ''k''))"
    unfolding StageAgentRunResult_def
    by (subst if_not_P, simp, subst if_not_P, simp add: result_limit_def, code_simp)
  then obtain st' where ok: "StageAgentRunResult ex_fns (Time 9) ''r1'' AgentRunCompleted ''done'' [] 4
      (recorded_store AgentRunRunning ''k'') = Inr st'" by (blast dest: not_isl)
  have "length ''other'' \<le> result_limit" by (simp add: result_limit_def)
  from staging_is_idempotent [OF ok _ this, of AgentRunFailed] ok show ?thesis by blast
qed

lemma completed_result_survives_witness:
  "\<exists>leased st' r'. LeaseAgentRunFinalization ex_fns (Time 9)
      (one_store AgentRunApplying AgentRunCompleted AttemptRunning) = Inr (leased, st')
    \<and> run_row st' ''r1'' = Some r' \<and> run_TerminalState r' = AgentRunCompleted"
proof -
  let ?st = "one_store AgentRunApplying AgentRunCompleted AttemptRunning"
  have tables: "tables_ok ?st" by (rule one_tables) (simp_all add: state_sets fromAgentState_def outcomes_def)
  have "\<not> isl (LeaseAgentRunFinalization ex_fns (Time 9) ?st)" by code_simp
  then obtain leased st' where ok: "LeaseAgentRunFinalization ex_fns (Time 9) ?st = Inr (leased, st')"
    by (metis not_isl prod.exhaust)
  from completed_result_survives [OF ok tables one_rows(1)] ok show ?thesis by (auto simp: one_state)
qed

end
