(* ===== verification/UnionFind.thy ===== *)
theory UnionFind
  imports GoBase "HOL-Library.Monad_Syntax"
begin

text \<open>
  Disjoint sets over \<open>0, \<dots>, n - 1\<close>: the interface of the grouping loop of
  \<open>internal/fanout/cluster.go\<close>, and the parent array with path halving that the loop keeps.
\<close>

section \<open>Interface: disjoint sets with a representative\<close>

text \<open>Joining the sets of two elements, over any \<open>find\<close> and \<open>link\<close>; \<open>None\<close> is a loop that never
  returns.\<close>

definition unite ::
    "('p \<Rightarrow> nat \<Rightarrow> ('p \<times> nat) option) \<Rightarrow> ('p \<Rightarrow> nat \<Rightarrow> nat \<Rightarrow> 'p) \<Rightarrow> 'p \<Rightarrow> nat \<Rightarrow> nat \<Rightarrow> 'p option" where
  "unite seek link p i j =
     do { (p, left) \<leftarrow> seek p i; (p, right) \<leftarrow> seek p j;
          Some (if left \<noteq> right then link p left right else p) }"

fun unite_all ::
    "('p \<Rightarrow> nat \<Rightarrow> ('p \<times> nat) option) \<Rightarrow> ('p \<Rightarrow> nat \<Rightarrow> nat \<Rightarrow> 'p) \<Rightarrow> (nat \<times> nat) list \<Rightarrow> 'p \<Rightarrow> 'p option" where
  "unite_all seek link [] p = Some p"
| "unite_all seek link ((i, j) # ps) p = do { p \<leftarrow> unite seek link p i j; unite_all seek link ps p }"

text \<open>The equivalence a set of links generates.\<close>

definition linked :: "('a \<times> 'a) set \<Rightarrow> ('a \<times> 'a) set" where
  "linked E = (E \<union> E\<inverse>)\<^sup>*"

lemma linked_refl [simp]: "(a, a) \<in> linked E"
  by (simp add: linked_def)

lemma linked_sym: "(a, b) \<in> linked E \<Longrightarrow> (b, a) \<in> linked E"
proof -
  have "sym (E \<union> E\<inverse>)" by (auto intro: symI)
  then show "(a, b) \<in> linked E \<Longrightarrow> (b, a) \<in> linked E"
    unfolding linked_def by (metis sym_rtrancl symD)
qed

lemma linked_trans: "(a, b) \<in> linked E \<Longrightarrow> (b, c) \<in> linked E \<Longrightarrow> (a, c) \<in> linked E"
  unfolding linked_def by (rule rtrancl_trans)

lemma linked_edge: "(a, b) \<in> E \<Longrightarrow> (a, b) \<in> linked E"
  unfolding linked_def by blast

lemma linked_least:
  assumes "(a, b) \<in> linked E" and "\<And>x y. (x, y) \<in> E \<Longrightarrow> P x = P y"
  shows "P a = P b"
  using assms(1) unfolding linked_def
  by (induction rule: rtrancl_induct) (use assms(2) in auto)

lemma linked_mono:
  assumes "\<And>x y. (x, y) \<in> E \<Longrightarrow> (x, y) \<in> linked F"
  shows "linked E \<subseteq> linked F"
proof -
  have "E \<union> E\<inverse> \<subseteq> linked F" by (auto intro: assms linked_sym [OF assms])
  then show ?thesis unfolding linked_def by (metis rtrancl_idemp rtrancl_mono)
qed

lemma linked_eqI:
  assumes "\<And>x y. (x, y) \<in> E \<Longrightarrow> (x, y) \<in> linked F" and "\<And>x y. (x, y) \<in> F \<Longrightarrow> (x, y) \<in> linked E"
  shows "linked E = linked F"
  using linked_mono [OF assms(1)] linked_mono [OF assms(2)] by blast

locale disjoint_sets =
  fixes ok :: "'p \<Rightarrow> bool"
    and size_of :: "'p \<Rightarrow> nat"
    and cls :: "'p \<Rightarrow> nat \<Rightarrow> nat"
    and seek :: "'p \<Rightarrow> nat \<Rightarrow> ('p \<times> nat) option"
    and link :: "'p \<Rightarrow> nat \<Rightarrow> nat \<Rightarrow> 'p"
  assumes seek_returns: "ok p \<Longrightarrow> i < size_of p \<Longrightarrow> \<exists>q. seek p i = Some (q, cls p i) \<and> ok q
      \<and> size_of q = size_of p \<and> (\<forall>k < size_of p. cls q k = cls p k)"
    and link_joins: "ok p \<Longrightarrow> i < size_of p \<Longrightarrow> j < size_of p \<Longrightarrow> cls p i \<noteq> cls p j \<Longrightarrow>
      ok (link p (cls p i) (cls p j)) \<and> size_of (link p (cls p i) (cls p j)) = size_of p
      \<and> (\<forall>k < size_of p. cls (link p (cls p i) (cls p j)) k = (if cls p k = cls p j then cls p i else cls p k))"
begin

text \<open>\<open>unite\<close> returns and merges exactly the two sets.\<close>

lemma unite_joins:
  assumes "ok p" and "i < size_of p" and "j < size_of p"
  shows "\<exists>q. unite seek link p i j = Some q \<and> ok q \<and> size_of q = size_of p
    \<and> (\<forall>k < size_of p. cls q k = (if cls p k = cls p j then cls p i else cls p k))"
proof -
  from seek_returns [OF assms(1,2)] obtain q where q: "seek p i = Some (q, cls p i)" "ok q"
    "size_of q = size_of p" "\<forall>k < size_of p. cls q k = cls p k" by blast
  from seek_returns [OF q(2), of j] assms(3) q(3,4) obtain r where r: "seek q j = Some (r, cls p j)" "ok r"
    "size_of r = size_of p" "\<forall>k < size_of p. cls r k = cls p k" by auto
  show ?thesis
  proof (cases "cls p i = cls p j")
    case True
    with q r show ?thesis by (auto simp: unite_def)
  next
    case False
    with link_joins [of r i j] r assms(2,3) show ?thesis by (auto simp: unite_def q(1))
  qed
qed

definition together :: "'p \<Rightarrow> (nat \<times> nat) set" where
  "together p = {(a, b). a < size_of p \<and> b < size_of p \<and> cls p a = cls p b}"

lemma unite_all_joins:
  assumes "ok p" and "\<forall>(i, j) \<in> set ps. i < size_of p \<and> j < size_of p"
  shows "\<exists>q. unite_all seek link ps p = Some q \<and> ok q \<and> size_of q = size_of p
    \<and> (\<forall>a < size_of p. \<forall>b < size_of p. cls q a = cls q b \<longleftrightarrow> (a, b) \<in> linked (together p \<union> set ps))"
  using assms
proof (induction ps arbitrary: p)
  case Nil
  have "(a, b) \<in> linked (together p) \<Longrightarrow> cls p a = cls p b" for a b
    by (erule linked_least) (simp add: together_def)
  moreover have "(a, b) \<in> linked (together p)" if "a < size_of p" "b < size_of p" "cls p a = cls p b" for a b
    using that by (intro linked_edge) (simp add: together_def)
  ultimately have "\<forall>a < size_of p. \<forall>b < size_of p. cls p a = cls p b \<longleftrightarrow> (a, b) \<in> linked (together p \<union> set [])"
    unfolding list.set Un_empty_right by blast
  with Nil(1) show ?case by (intro exI [of _ p]) (simp only: unite_all.simps simp_thms)
next
  case (Cons ij ps)
  obtain i j where ij: "ij = (i, j)" by (cases ij)
  with Cons.prems have ijs: "i < size_of p" "j < size_of p" by auto
  from unite_joins [OF Cons.prems(1) ijs] obtain q where q: "unite seek link p i j = Some q" "ok q"
    "size_of q = size_of p" "\<forall>k < size_of p. cls q k = (if cls p k = cls p j then cls p i else cls p k)" by blast
  from Cons.IH [OF q(2)] Cons.prems(2) q(3) obtain r where r: "unite_all seek link ps q = Some r" "ok r"
    "size_of r = size_of p" "\<forall>a < size_of p. \<forall>b < size_of p. cls r a = cls r b \<longleftrightarrow> (a, b) \<in> linked (together q \<union> set ps)"
    by auto
  let ?E = "together p \<union> set (ij # ps)"
  have ji: "(j, i) \<in> linked ?E" by (rule linked_sym, rule linked_edge) (simp add: ij)
  have own: "(x, if cls p x = cls p j then i else x) \<in> linked ?E" if "x < size_of p" for x
  proof (cases "cls p x = cls p j")
    case True
    with that ijs have "(x, j) \<in> linked ?E" by (intro linked_edge) (simp add: together_def)
    from linked_trans [OF this ji] True show ?thesis by simp
  qed simp
  have "linked (together q \<union> set ps) = linked ?E"
  proof (rule linked_eqI)
    fix x y
    assume "(x, y) \<in> together q \<union> set ps"
    then show "(x, y) \<in> linked ?E"
    proof
      assume "(x, y) \<in> together q"
      then have xy: "x < size_of p" "y < size_of p" "cls q x = cls q y" by (simp_all add: together_def q(3))
      let ?m = "\<lambda>x. if cls p x = cls p j then i else x"
      from xy q(4) have "cls p (?m x) = cls p (?m y)" by (auto split: if_splits)
      with xy(1,2) ijs have "(?m x, ?m y) \<in> together p" by (simp add: together_def)
      then have "(?m x, ?m y) \<in> linked ?E" by (intro linked_edge) simp
      from linked_trans [OF linked_trans [OF own [OF xy(1)] this] linked_sym [OF own [OF xy(2)]]]
      show ?thesis .
    qed (auto intro: linked_edge)
  next
    fix x y
    assume "(x, y) \<in> ?E"
    then show "(x, y) \<in> linked (together q \<union> set ps)"
      using q(3,4) ijs by (intro linked_edge) (auto simp: together_def ij)
  qed
  with q(1) r show ?case by (simp add: ij)
qed

end

section \<open>The parent array\<close>

text \<open>\<open>find\<close>: every step halves the path, then climbs.\<close>

partial_function (option) find_root :: "nat list \<Rightarrow> nat \<Rightarrow> (nat list \<times> nat) option" where
  "find_root parent index =
     (if parent ! index = index then Some (parent, index)
      else let parent = parent[index := parent ! (parent ! index)] in find_root parent (parent ! index))"

definition link_root :: "nat list \<Rightarrow> nat \<Rightarrow> nat \<Rightarrow> nat list" where
  "link_root parent left right = parent[right := left]"

definition root_of :: "nat list \<Rightarrow> nat \<Rightarrow> nat" where
  "root_of parent index = (case find_root parent index of None \<Rightarrow> index | Some (_, r) \<Rightarrow> r)"

text \<open>A rank that grows towards the leaves: the array has no cycle but the roots.\<close>

definition ranked :: "(nat \<Rightarrow> nat) \<Rightarrow> nat list \<Rightarrow> bool" where
  "ranked h p \<longleftrightarrow> (\<forall>i < length p. p ! i < length p \<and> (p ! i \<noteq> i \<longrightarrow> h (p ! i) < h i))"

definition acyclic_parents :: "nat list \<Rightarrow> bool" where
  "acyclic_parents p \<longleftrightarrow> (\<exists>h. ranked h p)"

inductive climbs :: "nat list \<Rightarrow> nat \<Rightarrow> nat \<Rightarrow> bool" for p where
  top: "p ! i = i \<Longrightarrow> climbs p i i"
| up: "p ! i \<noteq> i \<Longrightarrow> climbs p (p ! i) r \<Longrightarrow> climbs p i r"

inductive_cases climbsE: "climbs p i r"

lemma climbs_det: "climbs p i r \<Longrightarrow> climbs p i s \<Longrightarrow> r = s"
  by (induction rule: climbs.induct) (auto elim: climbsE)

lemma climbs_root: "climbs p i r \<Longrightarrow> p ! r = r"
  by (induction rule: climbs.induct) auto

lemma climbs_range: "climbs p i r \<Longrightarrow> ranked h p \<Longrightarrow> i < length p \<Longrightarrow> r < length p"
  by (induction rule: climbs.induct) (auto simp: ranked_def)

lemma climbs_total: "ranked h p \<Longrightarrow> i < length p \<Longrightarrow> \<exists>r. climbs p i r"
proof (induction "h i" arbitrary: i rule: less_induct)
  case less
  show ?case
  proof (cases "p ! i = i")
    case False
    with less.prems have "h (p ! i) < h i" "p ! i < length p" by (auto simp: ranked_def)
    from less.hyps [OF this(1) less.prems(1) this(2)] False show ?thesis by (blast intro: climbs.up)
  qed (blast intro: climbs.top)
qed

lemma halving_ranked:
  assumes "ranked h p" and "i < length p" and "p ! i \<noteq> i"
  shows "ranked h (p[i := p ! (p ! i)])"
  using assms unfolding ranked_def
  by (auto simp: nth_list_update) (metis less_trans)+

lemma halving_climbs:
  assumes "ranked h p" and "i < length p" and "p ! i \<noteq> i" and "climbs p j r" and "j < length p"
  shows "climbs (p[i := p ! (p ! i)]) j r"
  using assms(4,5)
proof (induction rule: climbs.induct)
  case (top j)
  with assms(3) show ?case by (cases "j = i") (auto intro: climbs.top)
next
  case (up j r)
  let ?q = "p[i := p ! (p ! i)]"
  from assms(1) up.prems have "p ! j < length p" by (simp add: ranked_def)
  with up.IH have IH: "climbs ?q (p ! j) r" by simp
  show ?case
  proof (cases "j = i")
    case False
    with IH up.hyps show ?thesis by (auto intro: climbs.up [of ?q j])
  next
    case True
    have ne: "p ! (p ! i) \<noteq> i"
      using assms(1-3) unfolding ranked_def by (metis less_asym)
    have at: "?q ! i = p ! (p ! i)" and next_at: "?q ! (p ! i) = p ! (p ! i)"
      using assms(2,3) by simp_all
    from IH True have "climbs ?q (p ! i) r" by simp
    then have "climbs ?q (p ! (p ! i)) r"
      by (cases rule: climbs.cases) (simp_all add: next_at climbs.top)
    with True at ne show ?thesis by (simp add: climbs.up)
  qed
qed

lemma halving_climbs_iff:
  assumes "ranked h p" and "i < length p" and "p ! i \<noteq> i" and "j < length p"
  shows "climbs (p[i := p ! (p ! i)]) j r \<longleftrightarrow> climbs p j r"
  by (metis assms climbs_det climbs_total halving_climbs)

lemma find_root_climbs:
  assumes "ranked h p" and "i < length p"
  shows "\<exists>q r. find_root p i = Some (q, r) \<and> climbs p i r \<and> ranked h q \<and> length q = length p
    \<and> (\<forall>j < length p. \<forall>s. climbs q j s \<longleftrightarrow> climbs p j s)"
  using assms
proof (induction "h i" arbitrary: i p rule: less_induct)
  case less
  show ?case
  proof (cases "p ! i = i")
    case True
    with less show ?thesis by (auto simp: find_root.simps [of p i] intro: climbs.top)
  next
    case False
    let ?q = "p[i := p ! (p ! i)]"
    have q: "ranked h ?q" by (rule halving_ranked [OF less.prems False])
    have up: "?q ! i = p ! (p ! i)" using less.prems(2) by simp
    have rank: "h (p ! i) < h i" "p ! i < length p"
      using less.prems False by (auto simp: ranked_def)
    then have "h (p ! (p ! i)) < h i" "p ! (p ! i) < length p"
      using less.prems(1) unfolding ranked_def by (metis less_trans)+
    from less.hyps [OF this(1) q] this(2) obtain t r where t: "find_root ?q (p ! (p ! i)) = Some (t, r)"
      "climbs ?q (p ! (p ! i)) r" "ranked h t" "length t = length p"
      "\<forall>j < length p. \<forall>s. climbs t j s \<longleftrightarrow> climbs ?q j s" by auto
    from t(2) have "climbs ?q i r"
    proof (cases "p ! (p ! i) = i")
      case False
      with t(2) up show ?thesis by (simp add: climbs.up)
    qed simp
    then have "climbs p i r" by (simp add: halving_climbs_iff [OF less.prems False less.prems(2)])
    moreover have "find_root p i = Some (t, r)"
      using t(1) False by (simp add: find_root.simps [of p i] Let_def up)
    moreover have "\<forall>j < length p. \<forall>s. climbs t j s \<longleftrightarrow> climbs p j s"
      using t(5) halving_climbs_iff [OF less.prems False] by simp
    ultimately show ?thesis using t(3,4) by blast
  qed
qed

lemma root_of_climbs: "ranked h p \<Longrightarrow> i < length p \<Longrightarrow> climbs p i r \<longleftrightarrow> root_of p i = r"
  using find_root_climbs [of h p i] by (auto simp: root_of_def dest: climbs_det)

lemma link_climbs:
  assumes "climbs p k r" and "p ! left = left" and "p ! right = right" and "left \<noteq> right"
    and "right < length p"
  shows "climbs (p[right := left]) k (if r = right then left else r)"
  using assms(1)
proof (induction rule: climbs.induct)
  case (top i)
  have left: "climbs (p[right := left]) left left" using assms(2,4) by (intro climbs.top) simp
  show ?case
  proof (cases "i = right")
    case True
    with left assms(4,5) show ?thesis by (auto intro: climbs.up)
  next
    case False
    with top show ?thesis by (auto intro: climbs.top)
  qed
next
  case (up i r)
  with assms(3) have "p[right := left] ! i = p ! i" by (cases "i = right") auto
  with up show ?case by (simp add: climbs.up)
qed

lemma link_ranked:
  assumes "ranked h p" and "p ! left = left" and "p ! right = right" and "left \<noteq> right"
    and "left < length p" and "right < length p"
  shows "ranked (\<lambda>k. if climbs p k right then h k + h left + 1 else h k) (p[right := left])"
proof -
  have l: "\<not> climbs p left right" using assms(2,4) climbs_det climbs.top by metis
  have same: "climbs p (p ! i) right \<longleftrightarrow> climbs p i right" for i
    by (metis climbs.simps)
  show ?thesis
    unfolding ranked_def
  proof (intro allI impI)
    fix i
    assume "i < length (p[right := left])"
    then have i: "i < length p" by simp
    show "p[right := left] ! i < length (p[right := left]) \<and> (p[right := left] ! i \<noteq> i \<longrightarrow>
        (if climbs p (p[right := left] ! i) right then h (p[right := left] ! i) + h left + 1
         else h (p[right := left] ! i)) < (if climbs p i right then h i + h left + 1 else h i))"
    proof (cases "i = right")
      case True
      have "climbs p right right" using assms(3) by (rule climbs.top)
      with True l assms(5,6) show ?thesis by simp
    next
      case False
      with i assms(1) same [of i] show ?thesis by (auto simp: ranked_def)
    qed
  qed
qed

interpretation parents: disjoint_sets acyclic_parents length root_of find_root link_root
proof
  fix p i
  assume "acyclic_parents p" and i: "i < length p"
  then obtain h where h: "ranked h p" by (auto simp: acyclic_parents_def)
  from find_root_climbs [OF h i] obtain q r where q: "find_root p i = Some (q, r)" "ranked h q" "length q = length p"
    "\<forall>j < length p. \<forall>s. climbs q j s \<longleftrightarrow> climbs p j s" by blast
  have "root_of q k = root_of p k" if "k < length p" for k
    by (metis h q(2-4) root_of_climbs that)
  with q show "\<exists>q. find_root p i = Some (q, root_of p i) \<and> acyclic_parents q \<and> length q = length p
      \<and> (\<forall>k < length p. root_of q k = root_of p k)"
    by (auto simp: acyclic_parents_def root_of_def)
next
  fix p i j
  assume "acyclic_parents p" and i: "i < length p" and j: "j < length p" and ne: "root_of p i \<noteq> root_of p j"
  then obtain h where h: "ranked h p" by (auto simp: acyclic_parents_def)
  have roots: "p ! root_of p k = root_of p k \<and> root_of p k < length p" if "k < length p" for k
    using that h by (metis climbs_range climbs_root climbs_total root_of_climbs)
  let ?q = "p[root_of p j := root_of p i]"
  have q: "ranked (\<lambda>k. if climbs p k (root_of p j) then h k + h (root_of p i) + 1 else h k) ?q"
    using roots [OF i] roots [OF j] ne by (intro link_ranked [OF h]) auto
  have "climbs ?q k (if root_of p k = root_of p j then root_of p i else root_of p k)" if "k < length p" for k
    using roots [OF i] roots [OF j] ne that h
    by (intro link_climbs) (auto simp: root_of_climbs)
  with root_of_climbs [OF q] show "acyclic_parents (link_root p (root_of p i) (root_of p j))
      \<and> length (link_root p (root_of p i) (root_of p j)) = length p
      \<and> (\<forall>k < length p. root_of (link_root p (root_of p i) (root_of p j)) k
           = (if root_of p k = root_of p j then root_of p i else root_of p k))"
    using q by (auto simp: link_root_def acyclic_parents_def)
qed

lemma singletons:
  "acyclic_parents [0..<n]" "i < n \<Longrightarrow> root_of [0..<n] i = i"
  by (auto simp: acyclic_parents_def ranked_def root_of_def find_root.simps)

end
