(* ===== verification/Fanout.thy ===== *)
theory Fanout
  imports UnionFind CompletionPolicy "HOL-Library.Multiset"
begin

text \<open>
  Parallel investigations, \<open>internal/fanout\<close>: the pockets of ambiguity the evidence ledger leaves
  (\<open>cluster.go\<close>), the gate that admits branches for them (\<open>admission.go\<close>), and what a branch is
  and may write (\<open>branch.go\<close>).

  \<open>Clusters\<close> returns \<open>None\<close> when a loop of its union-find would not return; that it always returns
  is a theorem.  The result of \<open>sort.Slice\<close> is a stable sort here, which makes no difference
  because the identities it sorts by are distinct.
\<close>

section \<open>Clusters\<close>

record Cluster =
  clu_Identity :: string
  clu_ClaimIDs :: "string list"
  clu_Targets :: "string list"
  clu_Terms :: "string list"

record claimNode =
  nd_ClaimID :: string
  nd_Targets :: "string list"
  nd_Terms :: "string list"

definition lowered :: "string \<Rightarrow> string" where
  "lowered s = to_lower (trim_space s)"

definition claimTargets :: "ClaimView \<Rightarrow> string list \<times> bool" where
  "claimTargets view =
     (let targets = first_occurrences [] (filter (\<lambda>t. t \<noteq> []) (map (lowered \<circ> ev_Target)
            (view_Evidence view @ view_Contradictions view @ view_StaleEvidence view @ view_Superseded view)));
          layer = lowered (req_Layer (view_Requirement view))
      in if targets \<noteq> [] then (sort targets, True)
         else if layer = [] then ([''claim:'' @ lowered (req_ID (view_Requirement view))], False)
         else ([''layer:'' @ layer], False))"

definition sortedUnique :: "string list \<Rightarrow> string list" where
  "sortedUnique values = sort (first_occurrences [] (filter (\<lambda>v. v \<noteq> []) values))"

definition claim_node :: "ClaimRequirement \<Rightarrow> ClaimView \<Rightarrow> claimNode" where
  "claim_node requirement view =
     (case claimTargets view of (targets, observed) \<Rightarrow>
        \<lparr>nd_ClaimID = req_ID requirement, nd_Targets = targets,
         nd_Terms = lowered (req_ID requirement) # (if observed then targets else [])\<rparr>)"

definition open_nodes :: "Ledger \<Rightarrow> claimNode list" where
  "open_nodes ledger =
     concat (map (\<lambda>requirement. case map_of (led_Claims ledger) (req_ID requirement) of
          None \<Rightarrow> []
        | Some view \<Rightarrow> if view_Resolved view \<or> view_State view = ClaimNotApplicable then []
            else [claim_node requirement view]) (ctr_Claims (led_Contract ledger)))"

text \<open>The loop over the targets of every node: the first node that names a target owns it, and every
  later one joins the owner.\<close>

fun join_owners ::
    "(nat \<times> string) list \<Rightarrow> nat list \<Rightarrow> (string \<rightharpoonup> nat) \<Rightarrow> nat list option" where
  "join_owners [] parent owner = Some parent"
| "join_owners ((index, target) # rest) parent owner =
     (case owner target of
        None \<Rightarrow> join_owners rest parent (owner(target \<mapsto> index))
      | Some existing \<Rightarrow>
          do { parent \<leftarrow> unite find_root link_root parent index existing; join_owners rest parent owner })"

definition node_targets :: "claimNode list \<Rightarrow> (nat \<times> string) list" where
  "node_targets nodes = concat (map (\<lambda>(index, node). map (Pair index) (nd_Targets node)) (enumerate 0 nodes))"

definition extend_cluster :: "Cluster \<Rightarrow> claimNode \<Rightarrow> Cluster" where
  "extend_cluster c node =
     c\<lparr>clu_ClaimIDs := clu_ClaimIDs c @ [nd_ClaimID node], clu_Targets := clu_Targets c @ nd_Targets node,
       clu_Terms := clu_Terms c @ nd_Terms node\<rparr>"

definition empty_cluster :: Cluster where
  "empty_cluster = \<lparr>clu_Identity = [], clu_ClaimIDs = [], clu_Targets = [], clu_Terms = []\<rparr>"

definition add_node :: "nat \<Rightarrow> claimNode \<Rightarrow> (nat \<times> Cluster) list \<Rightarrow> (nat \<times> Cluster) list" where
  "add_node root node grouped =
     AList.update root (extend_cluster (case map_of grouped root of None \<Rightarrow> empty_cluster | Some c \<Rightarrow> c) node) grouped"

fun group_nodes ::
    "(nat \<times> claimNode) list \<Rightarrow> nat list \<Rightarrow> (nat \<times> Cluster) list \<Rightarrow> (nat \<times> Cluster) list option" where
  "group_nodes [] parent grouped = Some grouped"
| "group_nodes ((index, node) # rest) parent grouped =
     do { (parent, root) \<leftarrow> find_root parent index; group_nodes rest parent (add_node root node grouped) }"

definition finish_cluster :: "Cluster \<Rightarrow> Cluster" where
  "finish_cluster c =
     (let targets = sortedUnique (clu_Targets c) in
      c\<lparr>clu_ClaimIDs := sort (clu_ClaimIDs c), clu_Targets := targets,
        clu_Terms := sortedUnique (clu_Terms c), clu_Identity := hd targets\<rparr>)"

definition Clusters :: "Ledger \<Rightarrow> Cluster list option" where
  "Clusters ledger =
     (let nodes = open_nodes ledger in
      do { parent \<leftarrow> join_owners (node_targets nodes) [0..<length nodes] (\<lambda>_. None);
           grouped \<leftarrow> group_nodes (enumerate 0 nodes) parent [];
           Some (sort_key clu_Identity (map (finish_cluster \<circ> snd) grouped)) })"

section \<open>Admission\<close>

definition DefaultBranchLimit :: int where
  "DefaultBranchLimit = 3"

definition MinimumBranches :: int where
  "MinimumBranches = 2"

record FanoutProposal =
  fp_GoalID :: string
  fp_Authority :: string
  fp_RequestedOutcome :: string
  fp_CompletionContract :: string

record Spend =
  sp_Tokens :: int
  sp_TokenBudget :: int
  sp_Turns :: int
  sp_TurnBudget :: int

definition Exhausted_spend :: "Spend \<Rightarrow> bool" where
  "Exhausted_spend s =
     (if 0 < sp_Tokens s then 0 < sp_TokenBudget s \<and> sp_TokenBudget s \<le> sp_Tokens s
      else 0 < sp_TurnBudget s \<and> sp_TurnBudget s \<le> sp_Turns s)"

definition describe_spend :: "Spend \<Rightarrow> string" where
  "describe_spend s =
     (if 0 < sp_Tokens s
      then itoa (sp_Tokens s) @ '' of '' @ itoa (sp_TokenBudget s) @ '' tokens''
      else itoa (sp_Turns s) @ '' of '' @ itoa (sp_TurnBudget s)
        @ '' turns, with no provider usage reported'')"

record FanoutRequest =
  fq_Effort :: string
  fq_Lane :: string
  fq_FinishedAttempts :: int
  fq_Clusters :: "Cluster list"
  fq_Proposals :: "FanoutProposal list"
  fq_ActiveBranches :: int
  fq_BranchLimit :: int
  fq_Spend :: Spend

record FanoutBranch =
  fb_GoalID :: string
  fb_Cluster :: Cluster

record FanoutDecision =
  fd_Branches :: "FanoutBranch list"
  fd_Refusal :: string

definition Admitted :: "FanoutDecision \<Rightarrow> bool" where
  "Admitted d \<longleftrightarrow> 0 < length (fd_Branches d)"

definition refuse_fanout :: "string \<Rightarrow> FanoutDecision" where
  "refuse_fanout reason = \<lparr>fd_Branches = [], fd_Refusal = reason\<rparr>"

definition plural :: "int \<Rightarrow> string \<Rightarrow> string \<Rightarrow> string" where
  "plural n one many = itoa n @ '' '' @ (if n = 1 then one else many)"

definition clusterIdentities :: "Cluster list \<Rightarrow> string list" where
  "clusterIdentities clusters = sort (map clu_Identity clusters)"

definition names_cluster :: "FanoutProposal \<Rightarrow> Cluster \<Rightarrow> bool" where
  "names_cluster proposal c \<longleftrightarrow>
     (let text = to_lower (fp_RequestedOutcome proposal @ '' '' @ fp_CompletionContract proposal)
      in list_ex (\<lambda>t. t \<noteq> [] \<and> contains text t) (clu_Terms c))"

definition bind_cluster :: "Cluster list \<Rightarrow> FanoutProposal \<Rightarrow> string + Cluster" where
  "bind_cluster clusters proposal =
     (case filter (names_cluster proposal) clusters of
        [c] \<Rightarrow> Inr c
      | [] \<Rightarrow> Inl (''branch goal '' @ fp_GoalID proposal
          @ '' names none of the unresolved claims or targets the ledger measured (''
          @ join (clusterIdentities clusters) '', '' @ '')'')
      | matched \<Rightarrow> Inl (''branch goal '' @ fp_GoalID proposal @ '' spans '' @ itoa (int (length matched))
          @ '' independent clusters ('' @ join (clusterIdentities matched) '', ''
          @ '') and is not one question''))"

fun admit_branches ::
    "Cluster list \<Rightarrow> FanoutProposal list \<Rightarrow> (string \<times> string) list \<Rightarrow> string + FanoutBranch list" where
  "admit_branches clusters [] claimed = Inr []"
| "admit_branches clusters (proposal # rest) claimed =
     (if fp_Authority proposal \<noteq> [] \<and> fp_Authority proposal \<noteq> AuthorityReadOnly
      then Inl (''branch goal '' @ fp_GoalID proposal @ '' asks for '' @ fp_Authority proposal
        @ '' authority; branches are read-only, and only the lead writes anywhere'')
      else and_then (bind_cluster clusters proposal) (\<lambda>c.
        case map_of claimed (clu_Identity c) of
          Some other \<Rightarrow> Inl (''branch goals '' @ other @ '' and '' @ fp_GoalID proposal
            @ '' both answer the same cluster ('' @ clu_Identity c
            @ ''); two turns would learn what one turn learns'')
        | None \<Rightarrow> and_then (admit_branches clusters rest ((clu_Identity c, fp_GoalID proposal) # claimed))
            (\<lambda>branches. Inr (\<lparr>fb_GoalID = fp_GoalID proposal, fb_Cluster = c\<rparr> # branches))))"

definition branch_limit :: "FanoutRequest \<Rightarrow> int" where
  "branch_limit q = (if fq_BranchLimit q \<le> 0 then DefaultBranchLimit else fq_BranchLimit q)"

definition Decide_fanout :: "FanoutRequest \<Rightarrow> FanoutDecision" where
  "Decide_fanout q =
     (if EqualFold (trim_space (fq_Lane q)) ''conversation''
      then refuse_fanout ''the bounded conversation lane answers a person in a thread and never fans out''
      else if fq_Effort q \<noteq> EffortOperationalAssessment \<and> fq_Effort q \<noteq> EffortIncidentInvestigation
      then refuse_fanout (''effort contract '' @ fq_Effort q @ '' does not fan out; only ''
        @ EffortOperationalAssessment @ '' and '' @ EffortIncidentInvestigation @ '' do'')
      else if fq_FinishedAttempts q < 1
      then refuse_fanout (''the first sweep of an investigation always runs alone, ''
        @ ''so the ambiguity a branch is spent on is measured rather than assumed'')
      else if int (length (fq_Clusters q)) < MinimumBranches
      then refuse_fanout (''the ledger leaves ''
        @ plural (int (length (fq_Clusters q))) ''independent pocket'' ''independent pockets''
        @ '' of unresolved ambiguity, so there is one thing to look at and that is the serial path'')
      else if int (length (fq_Proposals q)) < MinimumBranches
      then refuse_fanout (''the lead proposed '' @ itoa (int (length (fq_Proposals q)))
        @ '' parallel goals against '' @ itoa (int (length (fq_Clusters q)))
        @ '' independent clusters; fan-out is proposed by the model, never imposed'')
      else if Exhausted_spend (fq_Spend q)
      then refuse_fanout (''this episode has spent its budget ('' @ describe_spend (fq_Spend q)
        @ ''); branches are not funded past it'')
      else
        let headroom = branch_limit q - fq_ActiveBranches q in
        if headroom < MinimumBranches
        then refuse_fanout (''the workspace has capacity for '' @ itoa (max headroom 0)
          @ '' more concurrent branches against a limit of '' @ itoa (branch_limit q)
          @ '', and a single branch is the serial path with extra bookkeeping'')
        else case admit_branches (fq_Clusters q) (fq_Proposals q) [] of
            Inl reason \<Rightarrow> refuse_fanout reason
          | Inr all_branches \<Rightarrow>
              let branches = take (nat headroom) all_branches in
              if int (length branches) < MinimumBranches
              then refuse_fanout (''only '' @ plural (int (length branches)) ''branch'' ''branches''
                @ '' survived the gate, which is the serial path with extra bookkeeping'')
              else \<lparr>fd_Branches = branches, fd_Refusal = []\<rparr>)"

section \<open>Branches\<close>

definition BranchAttemptLimit :: int where
  "BranchAttemptLimit = 3"

abbreviation branch_marker :: string where "branch_marker \<equiv> ''#branch:''"

definition lead_key :: "string \<Rightarrow> string" where
  "lead_key base = (case index_of base branch_marker of None \<Rightarrow> base | Some i \<Rightarrow> take i base)"

definition BranchConversationKey :: "string \<Rightarrow> string \<Rightarrow> string" where
  "BranchConversationKey base goalID = lead_key base @ branch_marker @ goalID"

definition GoalOf :: "string \<Rightarrow> string option" where
  "GoalOf conversationKey =
     (case index_of conversationKey branch_marker of
        None \<Rightarrow> None
      | Some i \<Rightarrow>
          let goalID = drop (i + length branch_marker) conversationKey in
          if trim_space goalID = [] then None else Some goalID)"

definition IsBranch :: "string \<Rightarrow> bool" where
  "IsBranch conversationKey \<longleftrightarrow> GoalOf conversationKey \<noteq> None"

definition branchOperations :: "string list" where
  "branchOperations = [''record_evidence'', ''record_coverage'', ''record_finding'', ''update_goal'', ''report_progress'']"

definition BranchMayApply :: "string \<Rightarrow> bool" where
  "BranchMayApply operation \<longleftrightarrow> to_lower (trim_space operation) \<in> set branchOperations"

definition BranchCompletionRefusal :: "string \<Rightarrow> string" where
  "BranchCompletionRefusal goalID =
     ''This attempt is investigating goal '' @ goalID
     @ '', one independent part of a larger incident, and cannot complete the episode: ''
     @ ''it has seen the evidence for its own goal and not the evidence for the others. ''
     @ ''Record what you established with record_evidence and record_coverage, mark the ''
     @ ''goal with update_goal, and the lead attempt will merge every branch's findings ''
     @ ''and decide.''"

record BranchOutcome =
  bo_GoalID :: string
  bo_State :: string
  bo_Blocker :: string
  bo_EndsEpisode :: bool
  bo_NeedsPublicFailure :: bool

definition BranchFailure :: "string \<Rightarrow> string \<Rightarrow> BranchOutcome" where
  "BranchFailure goalID detail =
     \<lparr>bo_GoalID = goalID, bo_State = GoalBlocked, bo_Blocker = trim_space detail,
      bo_EndsEpisode = False, bo_NeedsPublicFailure = False\<rparr>"

definition terminalGoalState :: "string \<Rightarrow> bool" where
  "terminalGoalState s \<longleftrightarrow> s \<in> {GoalCompleted, GoalBlocked, GoalExcluded, GoalCancelled}"

definition SynthesisReady :: "(string \<rightharpoonup> string) \<Rightarrow> string list \<Rightarrow> bool" where
  "SynthesisReady states branchGoalIDs \<longleftrightarrow>
     list_all (\<lambda>goalID. case states goalID of None \<Rightarrow> False | Some s \<Rightarrow> terminalGoalState s) branchGoalIDs
     \<and> branchGoalIDs \<noteq> []"

end
