(* ===== verification/FanoutSafety.thy ===== *)
theory FanoutSafety
  imports Fanout
begin

text \<open>
  What parallel investigation guarantees: the grouping loop returns, its clusters are the connected
  components of the open claims, an admitted fan-out stays inside its bounds and its branches never
  look at the same target, and a branch's conversation key carries its goal.
\<close>

section \<open>The grouping loop\<close>

text \<open>What the owner table makes of the targets: the links it asks for.\<close>

fun owner_links :: "(nat \<times> string) list \<Rightarrow> (string \<rightharpoonup> nat) \<Rightarrow> (nat \<times> nat) list" where
  "owner_links [] owner = []"
| "owner_links ((index, target) # rest) owner =
     (case owner target of
        None \<Rightarrow> owner_links rest (owner(target \<mapsto> index))
      | Some existing \<Rightarrow> (index, existing) # owner_links rest owner)"

lemma join_owners_links:
  "join_owners items parent owner = unite_all find_root link_root (owner_links items owner) parent"
  by (induction items parent owner rule: join_owners.induct) (auto split: option.splits bind_splits simp del: fun_upd_apply)

lemma owner_links_range:
  "(i, j) \<in> set (owner_links items owner) \<Longrightarrow>
   (\<exists>t. (i, t) \<in> set items \<and> (owner t = Some j \<or> (j, t) \<in> set items))"
  by (induction items owner rule: owner_links.induct) (fastforce split: option.splits if_splits)+

lemma owner_links_owned:
  "owner t = Some e \<Longrightarrow> (i, t) \<in> set items \<Longrightarrow> (i, e) \<in> set (owner_links items owner)"
proof (induction items owner rule: owner_links.induct)
  case (2 index target rest owner)
  then show ?case
    by (cases "owner target") (auto simp del: fun_upd_apply, simp_all, metis option.distinct(1))
qed simp

lemma linked_Cons: "(a, b) \<in> linked (set xs) \<Longrightarrow> (a, b) \<in> linked (set (x # xs))"
  using linked_mono [of "set xs" "set (x # xs)"] linked_edge [of _ _ "set (x # xs)"] by auto

lemma owner_links_shared:
  "(i, t) \<in> set items \<Longrightarrow> (j, t) \<in> set items \<Longrightarrow> (i, j) \<in> linked (set (owner_links items owner))"
proof (induction items owner rule: owner_links.induct)
  case (2 index target rest owner)
  show ?case
  proof (cases "owner t")
    case (Some e)
    show ?thesis
      by (rule linked_trans [OF linked_edge linked_sym [OF linked_edge]];
          rule owner_links_owned [of owner t e, OF Some]; fact)
  next
    case None
    show ?thesis
    proof (cases "t = target")
      case True
      with None have "owner target = None" by simp
      have "(k, index) \<in> linked (set (owner_links rest (owner(target \<mapsto> index))))"
        if "(k, t) \<in> set ((index, target) # rest)" for k
        using that True owner_links_owned [of "owner(target \<mapsto> index)" t index k rest] by (auto intro: linked_edge)
      then show ?thesis using "2.prems" \<open>owner target = None\<close> by (simp add: True) (metis linked_sym linked_trans)
    next
      case False
      with 2 show ?thesis
        by (cases "owner target") (auto simp del: fun_upd_apply intro: linked_Cons [unfolded list.set])
    qed
  qed
qed simp

text \<open>Two open claims touch when they name a common target.\<close>

definition touching :: "claimNode list \<Rightarrow> (nat \<times> nat) set" where
  "touching nodes = {(i, j). i < length nodes \<and> j < length nodes
     \<and> set (nd_Targets (nodes ! i)) \<inter> set (nd_Targets (nodes ! j)) \<noteq> {}}"

lemma node_targets_iff:
  "(i, t) \<in> set (node_targets nodes) \<longleftrightarrow> i < length nodes \<and> t \<in> set (nd_Targets (nodes ! i))"
  unfolding node_targets_def set_concat set_map UN_iff image_iff bex_simps
  by (auto simp: in_set_enumerate_eq intro!: bexI [of _ "(i, nodes ! i)"])

lemma linked_owner_links:
  "linked (set (owner_links (node_targets nodes) (\<lambda>_. None))) = linked (touching nodes)"
proof (rule linked_eqI)
  fix i j
  assume "(i, j) \<in> set (owner_links (node_targets nodes) (\<lambda>_. None))"
  from owner_links_range [OF this] show "(i, j) \<in> linked (touching nodes)"
    by (auto simp: node_targets_iff touching_def intro!: linked_edge)
next
  fix i j
  assume "(i, j) \<in> touching nodes"
  then obtain t where "(i, t) \<in> set (node_targets nodes)" "(j, t) \<in> set (node_targets nodes)"
    by (auto simp: touching_def node_targets_iff)
  then show "(i, j) \<in> linked (set (owner_links (node_targets nodes) (\<lambda>_. None)))"
    by (rule owner_links_shared)
qed

lemma join_owners_total:
  "\<exists>p. join_owners (node_targets nodes) [0..<length nodes] (\<lambda>_. None) = Some p \<and> acyclic_parents p
    \<and> length p = length nodes
    \<and> (\<forall>a < length nodes. \<forall>b < length nodes. root_of p a = root_of p b \<longleftrightarrow> (a, b) \<in> linked (touching nodes))"
proof -
  let ?ps = "owner_links (node_targets nodes) (\<lambda>_. None)" and ?p = "[0..<length nodes]"
  have "\<forall>(i, j) \<in> set ?ps. i < length ?p \<and> j < length ?p"
    using owner_links_range by (fastforce simp: node_targets_iff)
  from parents.unite_all_joins [OF singletons(1) this] obtain q where
    q: "unite_all find_root link_root ?ps ?p = Some q" "acyclic_parents q" "length q = length ?p"
      "\<forall>a < length ?p. \<forall>b < length ?p. root_of q a = root_of q b \<longleftrightarrow> (a, b) \<in> linked (parents.together ?p \<union> set ?ps)"
    by blast
  have "linked (parents.together ?p \<union> set ?ps) = linked (set ?ps)"
    by (rule linked_eqI) (auto simp: parents.together_def singletons(2) intro: linked_edge)
  with q show ?thesis by (auto simp: join_owners_links linked_owner_links)
qed

section \<open>The clusters\<close>

text \<open>The grouping, with the representatives fixed in advance.\<close>

lemma group_nodes_fold:
  assumes "acyclic_parents p" and "\<forall>(i, n) \<in> set xs. i < length p"
  shows "group_nodes xs p grouped = Some (fold (\<lambda>(i, n). add_node (root_of p i) n) xs grouped)"
  using assms
proof (induction xs arbitrary: p grouped)
  case (Cons x xs)
  obtain i n where x: "x = (i, n)" by (cases x)
  with Cons.prems have i: "i < length p" by simp
  from parents.seek_returns [OF Cons.prems(1) i] obtain q where q: "find_root p i = Some (q, root_of p i)"
    "acyclic_parents q" "length q = length p" "\<forall>k < length p. root_of q k = root_of p k" by blast
  have "fold (\<lambda>(i, n). add_node (root_of q i) n) xs g = fold (\<lambda>(i, n). add_node (root_of p i) n) xs g" for g
    using Cons.prems(2) q(4) by (intro fold_cong) auto
  with Cons.IH [OF q(2)] Cons.prems(2) q(1,3) show ?case by (simp add: x)
qed simp

definition class_members :: "(nat \<Rightarrow> nat) \<Rightarrow> (nat \<times> claimNode) list \<Rightarrow> nat \<Rightarrow> claimNode list" where
  "class_members rep xs r = map snd (filter (\<lambda>(i, n). rep i = r) xs)"

definition cluster_of :: "claimNode list \<Rightarrow> Cluster" where
  "cluster_of ms = \<lparr>clu_Identity = [], clu_ClaimIDs = map nd_ClaimID ms,
     clu_Targets = concat (map nd_Targets ms), clu_Terms = concat (map nd_Terms ms)\<rparr>"

lemma extend_cluster_of: "extend_cluster (cluster_of ms) n = cluster_of (ms @ [n])"
  by (simp add: extend_cluster_def cluster_of_def)

lemma grouped_members:
  "map_of (fold (\<lambda>(i, n). add_node (rep i) n) xs []) r =
    (if class_members rep xs r = [] then None else Some (cluster_of (class_members rep xs r)))"
proof (induction xs arbitrary: r rule: rev_induct)
  case (snoc x xs)
  obtain i n where x: "x = (i, n)" by (cases x)
  have first: "extend_cluster empty_cluster n = cluster_of [n]"
    by (simp add: empty_cluster_def cluster_of_def extend_cluster_def)
  have "class_members rep (xs @ [x]) r = class_members rep xs r @ (if rep i = r then [n] else [])"
    by (simp add: class_members_def x)
  with snoc show ?case
    by (auto simp: x add_node_def update_conv' extend_cluster_of first)
qed (simp add: class_members_def)

lemma grouped_distinct: "distinct (map fst (fold (\<lambda>(i, n). add_node (rep i) n) xs []))"
  by (induction xs rule: rev_induct) (auto simp: add_node_def)

lemma grouped_entries:
  "(r, c) \<in> set (fold (\<lambda>(i, n). add_node (rep i) n) xs []) \<longleftrightarrow>
   class_members rep xs r \<noteq> [] \<and> c = cluster_of (class_members rep xs r)"
proof -
  have "(r, c) \<in> set (fold (\<lambda>(i, n). add_node (rep i) n) xs []) \<longleftrightarrow>
    map_of (fold (\<lambda>(i, n). add_node (rep i) n) xs []) r = Some c"
    by (rule map_of_eq_Some_iff [OF grouped_distinct, symmetric])
  then show ?thesis unfolding grouped_members by auto
qed

lemma class_members_enumerate:
  "n \<in> set (class_members rep (enumerate 0 nodes) r) \<longleftrightarrow> (\<exists>i < length nodes. rep i = r \<and> n = nodes ! i)"
  by (auto simp: class_members_def in_set_enumerate_eq intro!: rev_image_eqI)


lemma sort_Nil_iff [simp]: "sort xs = [] \<longleftrightarrow> xs = []"
  by (metis length_0_conv length_sort)

lemma claimTargets_nonempty: "fst (claimTargets view) \<noteq> [] \<and> [] \<notin> set (fst (claimTargets view))"
proof -
  have "[] \<notin> set (first_occurrences [] (filter (\<lambda>t. t \<noteq> []) xs))" for xs :: "string list" by simp
  then show ?thesis unfolding claimTargets_def Let_def by (simp del: filter_map map_append filter_append set_first_occurrences)
qed

lemma open_nodes_targets: "n \<in> set (open_nodes ledger) \<Longrightarrow> nd_Targets n \<noteq> [] \<and> [] \<notin> set (nd_Targets n)"
proof -
  assume "n \<in> set (open_nodes ledger)"
  then obtain requirement view where "n = claim_node requirement view"
    by (auto simp: open_nodes_def split: option.splits if_splits)
  then have "nd_Targets n = fst (claimTargets view)" by (simp add: claim_node_def split: prod.split)
  then show ?thesis by (simp only: claimTargets_nonempty simp_thms)
qed

lemma set_sortedUnique: "set (sortedUnique values) = set values - {[]}"
  by (auto simp: sortedUnique_def)

lemma set_entries:
  "c \<in> (\<lambda>rc. finish_cluster (snd rc)) ` set (fold (\<lambda>(i, n). add_node (rep i) n) xs []) \<longleftrightarrow>
   (\<exists>r. class_members rep xs r \<noteq> [] \<and> c = finish_cluster (cluster_of (class_members rep xs r)))"
proof
  assume "c \<in> (\<lambda>rc. finish_cluster (snd rc)) ` set (fold (\<lambda>(i, n). add_node (rep i) n) xs [])"
  then obtain r c' where "(r, c') \<in> set (fold (\<lambda>(i, n). add_node (rep i) n) xs [])" "c = finish_cluster c'" by auto
  then show "\<exists>r. class_members rep xs r \<noteq> [] \<and> c = finish_cluster (cluster_of (class_members rep xs r))"
    by (auto simp: grouped_entries)
next
  assume "\<exists>r. class_members rep xs r \<noteq> [] \<and> c = finish_cluster (cluster_of (class_members rep xs r))"
  then obtain r where "(r, cluster_of (class_members rep xs r)) \<in> set (fold (\<lambda>(i, n). add_node (rep i) n) xs [])"
    "c = finish_cluster (cluster_of (class_members rep xs r))" by (auto simp: grouped_entries)
  then show "c \<in> (\<lambda>rc. finish_cluster (snd rc)) ` set (fold (\<lambda>(i, n). add_node (rep i) n) xs [])"
    by (metis image_eqI snd_conv)
qed

text \<open>The result of \<open>Clusters\<close>, one entry for each representative.\<close>

lemma Clusters_entries:
  obtains p g where "Clusters ledger = Some (sort_key clu_Identity (map (finish_cluster \<circ> snd) g))"
    and "g = fold (\<lambda>(i, n). add_node (root_of p i) n) (enumerate 0 (open_nodes ledger)) []"
    and "\<And>a b. a < length (open_nodes ledger) \<Longrightarrow> b < length (open_nodes ledger) \<Longrightarrow>
      root_of p a = root_of p b \<longleftrightarrow> (a, b) \<in> linked (touching (open_nodes ledger))"
proof -
  let ?nodes = "open_nodes ledger"
  from join_owners_total [of ?nodes] obtain p where p: "join_owners (node_targets ?nodes) [0..<length ?nodes] (\<lambda>_. None) = Some p"
    "acyclic_parents p" "length p = length ?nodes"
    "\<forall>a < length ?nodes. \<forall>b < length ?nodes. root_of p a = root_of p b \<longleftrightarrow> (a, b) \<in> linked (touching ?nodes)" by blast
  have "\<forall>(i, n) \<in> set (enumerate 0 ?nodes). i < length p" by (auto simp: in_set_enumerate_eq p(3))
  note g = group_nodes_fold [OF p(2) this, of "[]"]
  show thesis by (rule that [of "fold (\<lambda>(i, n). add_node (root_of p i) n) (enumerate 0 ?nodes) []" p])
    (use p g in \<open>auto simp: Clusters_def\<close>)
qed

lemma clusters_sorted: "Clusters ledger = Some cs \<Longrightarrow> sorted (map clu_Identity cs)"
  by (rule Clusters_entries [of ledger]) auto

text \<open>The members of a cluster, and what it knows of them.\<close>

lemma finish_cluster_of:
  assumes "ms \<noteq> []" and "\<forall>n \<in> set ms. nd_Targets n \<noteq> [] \<and> [] \<notin> set (nd_Targets n)"
  shows "set (clu_Targets (finish_cluster (cluster_of ms))) = (\<Union>n \<in> set ms. set (nd_Targets n))"
    and "clu_Identity (finish_cluster (cluster_of ms)) \<in> (\<Union>n \<in> set ms. set (nd_Targets n))"
proof -
  show targets: "set (clu_Targets (finish_cluster (cluster_of ms))) = (\<Union>n \<in> set ms. set (nd_Targets n))"
    using assms(2) by (auto simp: finish_cluster_def cluster_of_def set_sortedUnique Let_def)
  have "clu_Targets (finish_cluster (cluster_of ms)) \<noteq> []"
    using assms targets by (cases ms) fastforce+
  then have "clu_Identity (finish_cluster (cluster_of ms)) \<in> set (clu_Targets (finish_cluster (cluster_of ms)))"
    by (simp add: finish_cluster_def Let_def)
  with targets show "clu_Identity (finish_cluster (cluster_of ms)) \<in> (\<Union>n \<in> set ms. set (nd_Targets n))" by simp
qed

lemma finish_cluster_ids: "set (clu_ClaimIDs (finish_cluster (cluster_of ms))) = nd_ClaimID ` set ms"
  by (simp add: finish_cluster_def cluster_of_def Let_def)

lemma class_targets:
  "n \<in> set (class_members rep (enumerate 0 (open_nodes ledger)) r) \<Longrightarrow>
   nd_Targets n \<noteq> [] \<and> [] \<notin> set (nd_Targets n)"
  unfolding class_members_enumerate using open_nodes_targets nth_mem by blast

lemma class_disjoint:
  assumes rep: "\<And>a b. a < length (open_nodes ledger) \<Longrightarrow> b < length (open_nodes ledger) \<Longrightarrow>
      rep a = rep b \<longleftrightarrow> (a, b) \<in> linked (touching (open_nodes ledger))"
    and "t \<in> (\<Union>n \<in> set (class_members rep (enumerate 0 (open_nodes ledger)) r). set (nd_Targets n))"
    and "t \<in> (\<Union>n \<in> set (class_members rep (enumerate 0 (open_nodes ledger)) s). set (nd_Targets n))"
  shows "r = s"
proof -
  from assms(2,3) obtain i j where ij: "i < length (open_nodes ledger)" "rep i = r" "t \<in> set (nd_Targets (open_nodes ledger ! i))"
    "j < length (open_nodes ledger)" "rep j = s" "t \<in> set (nd_Targets (open_nodes ledger ! j))"
    by (auto simp: class_members_enumerate)
  then have "(i, j) \<in> touching (open_nodes ledger)" by (auto simp: touching_def)
  with rep ij show ?thesis by (auto dest: linked_edge)
qed

lemma add_node_ids:
  "distinct (map fst g) \<Longrightarrow> mset (concat (map (clu_ClaimIDs \<circ> snd) (add_node r n g)))
     = mset (concat (map (clu_ClaimIDs \<circ> snd) g)) + {#nd_ClaimID n#}"
  unfolding add_node_def
  by (induction g) (auto simp: extend_cluster_def empty_cluster_def image_iff)

lemma grouped_ids:
  "mset (concat (map (clu_ClaimIDs \<circ> snd) (fold (\<lambda>(i, n). add_node (rep i) n) xs [])))
     = mset (map (nd_ClaimID \<circ> snd) xs)"
proof (induction xs rule: rev_induct)
  case (snoc x xs)
  then show ?case
    by (cases x) (simp add: add_node_ids [OF grouped_distinct, unfolded comp_def] comp_def)
qed simp

text \<open>C32. Grouping returns: whatever the ledger, no loop of the union-find runs forever.\<close>

theorem Clusters_returns: "\<exists>cs. Clusters ledger = Some cs"
  by (rule Clusters_entries [of ledger]) blast

text \<open>C9. The clusters are the connected components of the open claims: two claims stand in one cluster
  exactly when a chain of shared targets leads from one to the other.\<close>

theorem clusters_are_components:
  assumes "Clusters ledger = Some cs" and "distinct (map nd_ClaimID (open_nodes ledger))"
    and "i < length (open_nodes ledger)" and "j < length (open_nodes ledger)"
  shows "(\<exists>c \<in> set cs. nd_ClaimID (open_nodes ledger ! i) \<in> set (clu_ClaimIDs c)
      \<and> nd_ClaimID (open_nodes ledger ! j) \<in> set (clu_ClaimIDs c))
    \<longleftrightarrow> (i, j) \<in> linked (touching (open_nodes ledger))"
proof -
  let ?nodes = "open_nodes ledger"
  obtain p g where cs: "Clusters ledger = Some (sort_key clu_Identity (map (finish_cluster \<circ> snd) g))"
    and g: "g = fold (\<lambda>(i, n). add_node (root_of p i) n) (enumerate 0 ?nodes) []"
    and rep: "\<And>a b. a < length ?nodes \<Longrightarrow> b < length ?nodes \<Longrightarrow>
      root_of p a = root_of p b \<longleftrightarrow> (a, b) \<in> linked (touching ?nodes)"
    by (rule Clusters_entries [of ledger]) blast
  let ?ms = "class_members (root_of p) (enumerate 0 ?nodes)"
  have id_at: "nd_ClaimID (?nodes ! k) \<in> nd_ClaimID ` set (?ms r) \<longleftrightarrow> root_of p k = r" if "k < length ?nodes" for k r
  proof
    assume "nd_ClaimID (?nodes ! k) \<in> nd_ClaimID ` set (?ms r)"
    then obtain l where l: "l < length ?nodes" "root_of p l = r" "nd_ClaimID (?nodes ! k) = nd_ClaimID (?nodes ! l)"
      by (auto simp: class_members_enumerate)
    with assms(2) that have "k = l" by (auto simp: distinct_conv_nth)
    with l show "root_of p k = r" by simp
  next
    assume "root_of p k = r"
    with that have "?nodes ! k \<in> set (?ms r)" by (auto simp: class_members_enumerate)
    then show "nd_ClaimID (?nodes ! k) \<in> nd_ClaimID ` set (?ms r)" by (rule imageI)
  qed
  have clusters: "c \<in> set cs \<longleftrightarrow> (\<exists>r. ?ms r \<noteq> [] \<and> c = finish_cluster (cluster_of (?ms r)))" for c
    using cs assms(1) by (simp add: g set_entries)
  have "(\<exists>c \<in> set cs. nd_ClaimID (?nodes ! i) \<in> set (clu_ClaimIDs c) \<and> nd_ClaimID (?nodes ! j) \<in> set (clu_ClaimIDs c))
    \<longleftrightarrow> (\<exists>r. ?ms r \<noteq> [] \<and> nd_ClaimID (?nodes ! i) \<in> nd_ClaimID ` set (?ms r)
      \<and> nd_ClaimID (?nodes ! j) \<in> nd_ClaimID ` set (?ms r))"
    unfolding Bex_def clusters finish_cluster_ids [symmetric] by blast
  also have "\<dots> \<longleftrightarrow> root_of p i = root_of p j"
    using assms(3,4) by (auto simp: id_at) (metis empty_iff empty_set id_at image_is_empty)
  finally show ?thesis using rep assms(3,4) by simp
qed


text \<open>Clusters are independent questions: no target is in two of them, their identities are distinct
  and sorted, and every open claim is in exactly one.\<close>

theorem clusters_independent:
  assumes "Clusters ledger = Some cs"
  shows "sorted_wrt (\<lambda>c d. clu_Identity c < clu_Identity d \<and> set (clu_Targets c) \<inter> set (clu_Targets d) = {}) cs
    \<and> mset (concat (map clu_ClaimIDs cs)) = mset (map nd_ClaimID (open_nodes ledger))"
proof -
  let ?nodes = "open_nodes ledger"
  obtain p g where "Clusters ledger = Some (sort_key clu_Identity (map (finish_cluster \<circ> snd) g))"
    and g: "g = fold (\<lambda>(i, n). add_node (root_of p i) n) (enumerate 0 ?nodes) []"
    and rep: "\<And>a b. a < length ?nodes \<Longrightarrow> b < length ?nodes \<Longrightarrow>
      root_of p a = root_of p b \<longleftrightarrow> (a, b) \<in> linked (touching ?nodes)"
    by (rule Clusters_entries [of ledger]) blast
  with assms have cs: "cs = sort_key clu_Identity (map (finish_cluster \<circ> snd) g)" by simp
  let ?ms = "class_members (root_of p) (enumerate 0 ?nodes)" and ?f = "\<lambda>c. finish_cluster (snd c)"
  have entry: "?ms r \<noteq> [] \<and> c = cluster_of (?ms r)" if "(r, c) \<in> set g" for r c
    using that by (simp add: g grouped_entries)
  have targets: "set (clu_Targets (?f rc)) = (\<Union>n \<in> set (?ms (fst rc)). set (nd_Targets n))"
    "clu_Identity (?f rc) \<in> (\<Union>n \<in> set (?ms (fst rc)). set (nd_Targets n))" if "rc \<in> set g" for rc
    using entry [of "fst rc" "snd rc"] that class_targets [of _ "root_of p" ledger "fst rc"]
      finish_cluster_of(1,2) [of "?ms (fst rc)"] by auto
  have apart: "clu_Identity (?f a) \<noteq> clu_Identity (?f b) \<and> set (clu_Targets (?f a)) \<inter> set (clu_Targets (?f b)) = {}"
    if "a \<in> set g" "b \<in> set g" "fst a \<noteq> fst b" for a b
    using targets [OF that(1)] targets [OF that(2)] that(3) class_disjoint [OF rep, of _ "fst a" "fst b"]
    by (metis disjoint_iff)
  have "distinct (map fst g)" unfolding g by (rule grouped_distinct)
  then have "distinct g" and "inj_on fst (set g)" by (simp_all add: distinct_map)
  note keys = inj_onD [OF \<open>inj_on fst (set g)\<close>]
  have inj: "inj_on (clu_Identity \<circ> ?f) (set g)"
    using apart keys by (intro inj_onI) (metis comp_apply)
  have "distinct (map (clu_Identity \<circ> ?f) g)" using inj \<open>distinct g\<close> by (subst distinct_map) simp
  moreover have "mset (map clu_Identity cs) = mset (map (clu_Identity \<circ> ?f) g)"
    by (simp add: cs image_mset.compositionality comp_def)
  ultimately have "distinct (map clu_Identity cs)" using mset_eq_imp_distinct_iff by blast
  moreover have "sorted (map clu_Identity cs)" by (simp add: cs)
  ultimately have less: "sorted_wrt (\<lambda>c d. clu_Identity c < clu_Identity d) cs"
    using strict_sorted_iff [of "map clu_Identity cs"] by (simp add: sorted_wrt_map)
  have "set (clu_Targets c) \<inter> set (clu_Targets d) = {}"
    if "c \<in> set cs" "d \<in> set cs" "clu_Identity c < clu_Identity d" for c d
  proof -
    from that(1,2) obtain a b where "a \<in> set g" "b \<in> set g" "c = ?f a" "d = ?f b" by (auto simp: cs)
    with apart [of a b] keys [of b a] that(3) show ?thesis by (metis less_irrefl)
  qed
  with less have "sorted_wrt (\<lambda>c d. clu_Identity c < clu_Identity d \<and> set (clu_Targets c) \<inter> set (clu_Targets d) = {}) cs"
    by (auto simp: sorted_wrt_iff_nth_less)
  moreover have "mset (concat (map clu_ClaimIDs cs)) = mset (map nd_ClaimID ?nodes)"
  proof -
    have ids: "mset (clu_ClaimIDs (finish_cluster c)) = mset (clu_ClaimIDs c)" for c
      by (simp add: finish_cluster_def Let_def)
    have "mset (concat (map clu_ClaimIDs cs)) = \<Sum>\<^sub># (image_mset (mset \<circ> clu_ClaimIDs) (mset cs))"
      by (simp add: mset_concat sum_mset_sum_list image_mset.compositionality comp_def flip: mset_map)
    also have "\<dots> = mset (concat (map (clu_ClaimIDs \<circ> snd) g))"
      by (simp add: cs ids image_mset.compositionality comp_def mset_concat sum_mset_sum_list flip: mset_map)
    also have "\<dots> = mset (map nd_ClaimID ?nodes)"
      unfolding g grouped_ids by (simp flip: map_map add: map_snd_enumerate)
    finally show ?thesis .
  qed
  ultimately show ?thesis by blast
qed


section \<open>Admission\<close>

lemma bind_cluster_Inr: "bind_cluster clusters proposal = Inr c \<longleftrightarrow> filter (names_cluster proposal) clusters = [c]"
  by (auto simp: bind_cluster_def split: list.splits)

definition answers :: "Cluster list \<Rightarrow> FanoutProposal \<Rightarrow> FanoutBranch \<Rightarrow> bool" where
  "answers clusters proposal b \<longleftrightarrow>
     fb_GoalID b = fp_GoalID proposal \<and> fp_Authority proposal \<in> {[], AuthorityReadOnly}
     \<and> filter (names_cluster proposal) clusters = [fb_Cluster b]"

lemma admit_branches_Inr:
  "admit_branches clusters ps claimed = Inr bs \<Longrightarrow>
   list_all2 (answers clusters) ps bs \<and> distinct (map (clu_Identity \<circ> fb_Cluster) bs)
   \<and> (\<forall>b \<in> set bs. map_of claimed (clu_Identity (fb_Cluster b)) = None)"
proof (induction clusters ps claimed arbitrary: bs rule: admit_branches.induct)
  case (2 clusters proposal rest claimed)
  from "2.prems" obtain c bs' where auth: "fp_Authority proposal \<in> {[], AuthorityReadOnly}"
    and c: "bind_cluster clusters proposal = Inr c" and none: "map_of claimed (clu_Identity c) = None"
    and rest: "admit_branches clusters rest ((clu_Identity c, fp_GoalID proposal) # claimed) = Inr bs'"
    and bs: "bs = \<lparr>fb_GoalID = fp_GoalID proposal, fb_Cluster = c\<rparr> # bs'"
    by (auto simp: and_then_Inr split: if_splits option.splits)
  from auth have "\<not> (fp_Authority proposal \<noteq> [] \<and> fp_Authority proposal \<noteq> AuthorityReadOnly)" by auto
  from "2.IH" [OF this none rest] c none auth show ?case
    by (fastforce simp: bs answers_def bind_cluster_Inr split: if_splits)
qed simp

lemma admitted_cases:
  assumes "Admitted (Decide_fanout q)"
  obtains bs where "admit_branches (fq_Clusters q) (fq_Proposals q) [] = Inr bs"
    and "fd_Branches (Decide_fanout q) = take (nat (branch_limit q - fq_ActiveBranches q)) bs"
    and "MinimumBranches \<le> int (length (fd_Branches (Decide_fanout q)))"
    and "MinimumBranches \<le> branch_limit q - fq_ActiveBranches q"
    and "1 \<le> fq_FinishedAttempts q" and "\<not> Exhausted_spend (fq_Spend q)"
    and "fq_Effort q \<in> {EffortOperationalAssessment, EffortIncidentInvestigation}"
proof -
  have refused: "\<not> Admitted (refuse_fanout r)" for r by (simp add: Admitted_def refuse_fanout_def)
  show thesis
    using assms that refused unfolding Decide_fanout_def Let_def
    by (auto split: if_splits sum.splits)
qed

text \<open>What an admitted fan-out spends: at least two branches, never more than the limit leaves beside
  the branches already running, only after a finished sweep, inside the budget, and each of them a
  read-only goal that names its one cluster and no other.\<close>

theorem admission_bounds:
  assumes "Admitted (Decide_fanout q)"
  shows "2 \<le> length (fd_Branches (Decide_fanout q))
    \<and> fq_ActiveBranches q + int (length (fd_Branches (Decide_fanout q))) \<le> branch_limit q
    \<and> 1 \<le> fq_FinishedAttempts q \<and> \<not> Exhausted_spend (fq_Spend q)
    \<and> list_all2 (answers (fq_Clusters q)) (take (length (fd_Branches (Decide_fanout q))) (fq_Proposals q))
        (fd_Branches (Decide_fanout q))"
proof -
  from admitted_cases [OF assms] obtain bs where bs: "admit_branches (fq_Clusters q) (fq_Proposals q) [] = Inr bs"
    and take: "fd_Branches (Decide_fanout q) = take (nat (branch_limit q - fq_ActiveBranches q)) bs"
    and n: "MinimumBranches \<le> int (length (fd_Branches (Decide_fanout q)))"
      "MinimumBranches \<le> branch_limit q - fq_ActiveBranches q"
    and rest: "1 \<le> fq_FinishedAttempts q" "\<not> Exhausted_spend (fq_Spend q)" by blast
  from admit_branches_Inr [OF bs] have "list_all2 (answers (fq_Clusters q)) (fq_Proposals q) bs" by blast
  then have "list_all2 (answers (fq_Clusters q)) (take (length (fd_Branches (Decide_fanout q))) (fq_Proposals q))
      (take (length (fd_Branches (Decide_fanout q))) bs)" by (rule list_all2_takeI)
  moreover have "take (length (fd_Branches (Decide_fanout q))) bs = fd_Branches (Decide_fanout q)"
    by (simp add: take min_def)
  ultimately show ?thesis using n rest by (auto simp: take MinimumBranches_def)
qed

text \<open>C29. Branches admitted over the clusters of a ledger never look at the same thing: no target belongs
  to two of them.\<close>

theorem branches_never_overlap:
  assumes "Clusters ledger = Some (fq_Clusters q)" and "Admitted (Decide_fanout q)"
    and "i < j" and "j < length (fd_Branches (Decide_fanout q))"
  shows "set (clu_Targets (fb_Cluster (fd_Branches (Decide_fanout q) ! i)))
    \<inter> set (clu_Targets (fb_Cluster (fd_Branches (Decide_fanout q) ! j))) = {}"
proof -
  let ?bs = "fd_Branches (Decide_fanout q)"
  from admitted_cases [OF assms(2)] obtain bs where bs: "admit_branches (fq_Clusters q) (fq_Proposals q) [] = Inr bs"
    and take: "?bs = take (nat (branch_limit q - fq_ActiveBranches q)) bs" by blast
  note spec = admit_branches_Inr [OF bs]
  have inside: "fb_Cluster b \<in> set (fq_Clusters q)" if "b \<in> set bs" for b
  proof -
    from that spec obtain p where "answers (fq_Clusters q) p b"
      by (metis in_set_conv_nth list_all2_conv_all_nth)
    then have "fb_Cluster b \<in> set (filter (names_cluster p) (fq_Clusters q))" by (simp add: answers_def)
    then show ?thesis by simp
  qed
  let ?c = "\<lambda>k. fb_Cluster (?bs ! k)"
  have nth: "?bs ! k \<in> set bs" "?bs ! k = bs ! k" "k < length bs" if "k < length ?bs" for k
    using that by (simp_all add: take)
  from spec assms(3,4) nth [of i] nth [of j] have ne: "clu_Identity (?c i) \<noteq> clu_Identity (?c j)"
    by (simp add: distinct_conv_nth)
  have "?c i \<in> set (fq_Clusters q)" "?c j \<in> set (fq_Clusters q)"
    using inside nth(1) assms(3,4) by auto
  then obtain a b where ab: "a < length (fq_Clusters q)" "fq_Clusters q ! a = ?c i"
    "b < length (fq_Clusters q)" "fq_Clusters q ! b = ?c j" by (metis in_set_conv_nth)
  with ne have "a \<noteq> b" by auto
  with clusters_independent [OF assms(1)] ab show ?thesis
    unfolding sorted_wrt_iff_nth_less by (metis Int_commute linorder_neqE_nat)
qed

section \<open>Branch keys\<close>








section \<open>Examples\<close>

text \<open>Three open claims: two of them look at the edge, the third at name resolution.\<close>

definition edge_claim :: "string \<Rightarrow> string \<Rightarrow> ClaimRequirement" where
  "edge_claim identity layer =
     \<lparr>req_ID = identity, req_Layer = layer, req_Question = [], req_Proposition = [], req_Required = True,
      req_Freshness = \<lparr>fr_Class = [], fr_MaxAge = 0\<rparr>, req_Dimensions = []\<rparr>"

definition edge_view :: "string \<Rightarrow> string \<Rightarrow> ClaimView" where
  "edge_view identity layer =
     \<lparr>view_Requirement = edge_claim identity layer, view_State = ''unknown'', view_Confidence = [], view_Evidence = [],
      view_Contradictions = [], view_StaleEvidence = [], view_Superseded = [], view_SupersededBy = [],
      view_SupersessionRefusals = [], view_MissingDimensions = [], view_Stale = False, view_Resolved = False,
      view_CoverageStatus = [], view_Detail = []\<rparr>"

definition edge_ledger :: Ledger where
  "edge_ledger =
     \<lparr>led_Contract = \<lparr>ctr_Version = ContractVersion, ctr_Effort = EffortIncidentInvestigation, ctr_Authority = [],
        ctr_Objective = [], ctr_Claims = [edge_claim ''latency'' ''Edge'', edge_claim ''lookup'' ''dns'',
          edge_claim ''saturation'' ''edge''], ctr_CompletionCriteria = [], ctr_Completion = \<lparr>rule_AllowedStatuses = [],
          rule_ConclusionKind = [], rule_AllowedVerdicts = [], rule_RequireVerdict = False, rule_RequireDiagnosis = False,
          rule_AllowUnknownSLO = False\<rparr>, ctr_ResultOperations = []\<rparr>,
      led_Claims = [(''latency'', edge_view ''latency'' ''Edge''), (''lookup'', edge_view ''lookup'' ''dns''),
        (''saturation'', edge_view ''saturation'' ''edge'')]\<rparr>"

definition edge_clusters :: "Cluster list" where
  "edge_clusters =
     [\<lparr>clu_Identity = ''layer:dns'', clu_ClaimIDs = [''lookup''], clu_Targets = [''layer:dns''], clu_Terms = [''lookup'']\<rparr>,
      \<lparr>clu_Identity = ''layer:edge'', clu_ClaimIDs = [''latency'', ''saturation''], clu_Targets = [''layer:edge''],
       clu_Terms = [''latency'', ''saturation'']\<rparr>]"

lemma edge_nodes: "open_nodes edge_ledger =
    [\<lparr>nd_ClaimID = ''latency'', nd_Targets = [''layer:edge''], nd_Terms = [''latency'']\<rparr>,
     \<lparr>nd_ClaimID = ''lookup'', nd_Targets = [''layer:dns''], nd_Terms = [''lookup'']\<rparr>,
     \<lparr>nd_ClaimID = ''saturation'', nd_Targets = [''layer:edge''], nd_Terms = [''saturation'']\<rparr>]"
  by code_simp

lemma edge_join: "join_owners (node_targets (open_nodes edge_ledger)) [0..<3] (\<lambda>_. None) = Some [2, 1, 2]"
  unfolding edge_nodes
  by (simp add: node_targets_def enumerate_eq_zip upt_rec unite_def find_root.simps Let_def link_root_def)


lemma edge_roots:
  "find_root [2, 1, 2] 0 = Some ([2, 1, 2], 2)" "find_root [2, 1, 2] (Suc 0) = Some ([2, 1, 2], 1)"
  "find_root [2, 1, 2] 2 = Some ([2, 1, 2], 2)"
  by (simp_all add: find_root.simps)

definition edge_grouped :: "Cluster list" where
  "edge_grouped =
    [\<lparr>clu_Identity = [], clu_ClaimIDs = [''latency'', ''saturation''], clu_Targets = [''layer:edge'', ''layer:edge''],
      clu_Terms = [''latency'', ''saturation'']\<rparr>,
     \<lparr>clu_Identity = [], clu_ClaimIDs = [''lookup''], clu_Targets = [''layer:dns''], clu_Terms = [''lookup'']\<rparr>]"

lemma edge_group:
  "map snd (the (group_nodes (enumerate 0 (open_nodes edge_ledger)) [2, 1, 2] [])) = edge_grouped"
  "group_nodes (enumerate 0 (open_nodes edge_ledger)) [2, 1, 2] [] \<noteq> None"
  by (simp_all add: edge_nodes edge_roots [unfolded One_nat_def] add_node_def extend_cluster_def empty_cluster_def edge_grouped_def
      numeral_2_eq_2 [symmetric])

lemma edge_finished: "sort_key clu_Identity (map finish_cluster edge_grouped) = edge_clusters"
  by code_simp

lemma edge_components: "Clusters edge_ledger = Some edge_clusters"
proof -
  have three: "length (open_nodes edge_ledger) = 3" by (simp add: edge_nodes)
  obtain grouped where g: "group_nodes (enumerate 0 (open_nodes edge_ledger)) [2, 1, 2] [] = Some grouped"
    using edge_group by auto
  have "sort_key clu_Identity (map (finish_cluster \<circ> snd) grouped) = edge_clusters"
    using edge_group(1) edge_finished unfolding g option.sel map_map [symmetric] by simp
  then show ?thesis
    unfolding Clusters_def Let_def three edge_join using g by simp
qed

definition edge_proposal :: "string \<Rightarrow> string \<Rightarrow> FanoutProposal" where
  "edge_proposal goal outcome =
     \<lparr>fp_GoalID = goal, fp_Authority = AuthorityReadOnly, fp_RequestedOutcome = outcome, fp_CompletionContract = []\<rparr>"

definition edge_request :: FanoutRequest where
  "edge_request =
     \<lparr>fq_Effort = EffortIncidentInvestigation, fq_Lane = [], fq_FinishedAttempts = 1, fq_Clusters = edge_clusters,
      fq_Proposals = [edge_proposal ''g1'' ''explain the Latency at the edge'', edge_proposal ''g2'' ''check the lookup path''],
      fq_ActiveBranches = 0, fq_BranchLimit = 0,
      fq_Spend = \<lparr>sp_Tokens = 0, sp_TokenBudget = 0, sp_Turns = 1, sp_TurnBudget = 20\<rparr>\<rparr>"


definition edge_branches :: "FanoutBranch list" where
  "edge_branches = [\<lparr>fb_GoalID = ''g1'', fb_Cluster = edge_clusters ! 1\<rparr>, \<lparr>fb_GoalID = ''g2'', fb_Cluster = edge_clusters ! 0\<rparr>]"

lemma edge_bound:
  "admit_branches (fq_Clusters edge_request) (fq_Proposals edge_request) [] = Inr edge_branches"
  by code_simp

lemma edge_lane: "\<not> EqualFold (trim_space (fq_Lane edge_request)) ''conversation''"
proof -
  have "length (runes (trim_space (fq_Lane edge_request))) \<noteq> length (runes ''conversation'')" by code_simp
  then show ?thesis unfolding EqualFold_def by (metis length_map)
qed

lemma edge_fields:
  "fq_Effort edge_request = EffortIncidentInvestigation" "fq_FinishedAttempts edge_request = 1"
  "length (fq_Clusters edge_request) = 2" "length (fq_Proposals edge_request) = 2" "\<not> Exhausted_spend (fq_Spend edge_request)"
  "branch_limit edge_request = 3" "fq_ActiveBranches edge_request = 0" "length edge_branches = 2"
  by (simp_all add: edge_request_def edge_clusters_def Exhausted_spend_def branch_limit_def DefaultBranchLimit_def edge_branches_def)

lemma edge_admitted: "Decide_fanout edge_request = \<lparr>fd_Branches = edge_branches, fd_Refusal = []\<rparr>"
  unfolding Decide_fanout_def by (simp add: edge_lane edge_fields edge_bound MinimumBranches_def)

lemma edge_is_admitted: "Admitted (Decide_fanout edge_request)"
  by (simp add: Admitted_def edge_admitted edge_fields)

corollary clusters_are_components_witness:
  "\<exists>c \<in> set edge_clusters. nd_ClaimID (open_nodes edge_ledger ! 0) \<in> set (clu_ClaimIDs c)
    \<and> nd_ClaimID (open_nodes edge_ledger ! 2) \<in> set (clu_ClaimIDs c)"
proof -
  have "(0, 2) \<in> touching (open_nodes edge_ledger)" by (simp add: edge_nodes touching_def)
  then have "(0, 2) \<in> linked (touching (open_nodes edge_ledger))" by (rule linked_edge)
  then show ?thesis
    by (subst clusters_are_components [OF edge_components]) (simp_all add: edge_nodes)
qed

corollary clusters_independent_witness:
  "sorted_wrt (\<lambda>c d. clu_Identity c < clu_Identity d \<and> set (clu_Targets c) \<inter> set (clu_Targets d) = {}) edge_clusters
    \<and> length edge_clusters = 2"
  using clusters_independent [OF edge_components] by (simp add: edge_clusters_def)

corollary admission_bounds_witness:
  "fq_ActiveBranches edge_request + 2 \<le> 3 \<and> list_all2 (answers edge_clusters) (fq_Proposals edge_request) edge_branches"
  using admission_bounds [OF edge_is_admitted]
  by (simp add: edge_admitted edge_fields) (simp add: edge_request_def)

corollary branches_never_overlap_witness:
  "set (clu_Targets (fb_Cluster (edge_branches ! 0))) \<inter> set (clu_Targets (fb_Cluster (edge_branches ! 1))) = {}"
proof -
  have "Clusters edge_ledger = Some (fq_Clusters edge_request)" by (simp add: edge_components edge_request_def)
  from branches_never_overlap [OF this edge_is_admitted, of 0 1] show ?thesis by (simp add: edge_admitted edge_fields)
qed

end
