(* ===== verification/SlackOutbox.thy ===== *)
theory SlackOutbox
  imports AgentRunStore "HOL-Library.Product_Lexorder"
begin

text \<open>
  The Slack outbox: \<open>internal/store/delivery.go\<close>, \<open>deliveryretrystore/retry.go\<close>, the delivery side
  of \<open>preparationstore\<close> and \<open>slackinputstore.SupersedeDeliveriesAfterAuthorizedInput\<close>.  Every
  function is one transaction over the tables of \<open>RunTables\<close>; the rows of \<open>slack_deliveries\<close> are
  in rowid order, so a position in the list stands for the rowid.

  \<open>Outbox\<close> adds the two tables only these transactions touch: the messages that approvals wait
  for, and the inputs whose admission the audit log records as denied.  \<open>xf_earlier\<close> compares two Slack
  timestamps as SQLite does after \<open>CAST(\<dots> AS REAL)\<close>, and \<open>xf_destination\<close> the JSON form of a destination change.
\<close>

section \<open>Tables\<close>

record ApprovalRow =
  apv_DeliveryID :: string
  apv_MessageTS :: string
  apv_UpdatedAt :: gotime

record Outbox =
  ob_tables :: RunStore
  ob_approvals :: "ApprovalRow list"
  ob_denied :: "string list"

record OutboxFns =
  xf_sql :: SqlFns
  xf_earlier :: "string \<Rightarrow> string \<Rightarrow> bool"
  xf_destination :: "string \<Rightarrow> string \<Rightarrow> int \<Rightarrow> string"

abbreviation deliveries :: "Outbox \<Rightarrow> DeliveryRow list" where
  "deliveries ob \<equiv> rs_deliveries (ob_tables ob)"

text \<open>\<open>UPDATE slack_deliveries SET \<dots> WHERE \<dots>\<close>, where the condition may look at the rowid.\<close>

definition update_indexed ::
    "(nat \<Rightarrow> DeliveryRow \<Rightarrow> bool) \<Rightarrow> (DeliveryRow \<Rightarrow> DeliveryRow) \<Rightarrow> RunStore \<Rightarrow> RunStore" where
  "update_indexed P f st =
     st\<lparr>rs_deliveries := map (\<lambda>(i, d). if P i d then f d else d) (enumerate 0 (rs_deliveries st))\<rparr>"

definition queued :: "DeliveryRow \<Rightarrow> bool" where
  "queued d \<longleftrightarrow> dl_State d \<in> {''pending'', ''retry''}"

definition delivery_by_id :: "string \<Rightarrow> RunStore \<Rightarrow> (nat \<times> DeliveryRow) option" where
  "delivery_by_id rid st = find (\<lambda>(i, d). dl_ID d = rid) (enumerate 0 (rs_deliveries st))"

section \<open>Enqueueing\<close>

definition delivery_operations :: "string list" where
  "delivery_operations = [''post'', ''update'', ''status'', ''file'', ''reaction'', ''delete'']"

text \<open>What \<open>EnqueueSlackDelivery\<close> refuses before it opens a transaction; the operation an unsupported
  one names is left out of the message.\<close>

definition enqueue_refusal :: "SlackDelivery \<Rightarrow> string option" where
  "enqueue_refusal d =
     (let op = dl_Operation d in
      if op \<notin> set delivery_operations then Some ''unsupported Slack delivery operation''
      else if dl_ChannelID d = [] then Some ''Slack delivery channel is required''
      else if (op = ''post'' \<or> op = ''file'') \<and> dl_Body d = []
      then Some ''Slack post delivery body is required''
      else if op = ''update'' \<and> (dl_MessageTS d = [] \<or> dl_Body d = [])
      then Some ''Slack update delivery target and body are required''
      else if op = ''delete'' \<and> dl_MessageTS d = [] then Some ''Slack delete delivery target is required''
      else if op = ''status'' \<and> dl_ThreadTS d = [] then Some ''Slack status delivery thread is required''
      else if op = ''reaction'' \<and> (dl_MessageTS d = [] \<or> dl_Status d = []
        \<or> dl_Kind d \<noteq> ''failure_marker_add'' \<and> dl_Kind d \<noteq> ''failure_marker_remove'')
      then Some ''Slack reaction delivery target, reaction, and action are required''
      else None)"

definition keeps_place :: "string \<Rightarrow> bool" where
  "keeps_place op \<longleftrightarrow> op \<in> {''status'', ''reaction'', ''delete''}"

definition fenced_to_episode :: "RunStore \<Rightarrow> SlackDelivery \<Rightarrow> RunError + SlackDelivery" where
  "fenced_to_episode st d =
     (if dl_EpisodeID d = [] then Inr d
      else case episode_row st (dl_EpisodeID d) of
        None \<Rightarrow> Inl RunNotFound
      | Some e \<Rightarrow>
          let d = (if dl_ExpectedDestinationRevision d = 0
                then d\<lparr>dl_ExpectedDestinationRevision := ep_DestinationRevision e\<rparr> else d)
          in if \<not> keeps_place (dl_Operation d)
               \<and> (dl_ExpectedDestinationRevision d \<noteq> ep_DestinationRevision e
                  \<or> dl_ChannelID d \<noteq> dst_ChannelID (ep_Destination e)
                  \<or> dl_ThreadTS d \<noteq> dst_ThreadTS (ep_Destination e))
             then Inl (RunRefused ''Slack delivery destination does not match the current episode binding'')
             else Inr d)"

text \<open>Which run a delivery belongs to, when its writer did not say.\<close>

definition finalizing_run :: "RunStore \<Rightarrow> string \<Rightarrow> AgentRun option" where
  "finalizing_run st episodeID =
     first_by (\<lambda>a b. run_UpdatedAt b < run_UpdatedAt a \<or> run_UpdatedAt a = run_UpdatedAt b \<and> run_ID b < run_ID a)
       (filter (\<lambda>r. run_EpisodeID r = episodeID \<and> in_state [AgentRunFinalizing] r) (all_runs st))"

definition watching_run :: "RunStore \<Rightarrow> string \<Rightarrow> AgentRun option" where
  "watching_run st sourceID =
     first_by (\<lambda>a b. run_CreatedAt b < run_CreatedAt a \<or> run_CreatedAt a = run_CreatedAt b \<and> run_ID b < run_ID a)
       (filter (\<lambda>r. run_SourceKind r = ''watch'' \<and> run_SourceID r = sourceID) (all_runs st))"

definition attributed_delivery :: "RunStore \<Rightarrow> SlackDelivery \<Rightarrow> SlackDelivery" where
  "attributed_delivery st d =
     (let d = (if dl_AgentRunID d = [] \<and> dl_EpisodeID d \<noteq> []
            then (case finalizing_run st (dl_EpisodeID d) of None \<Rightarrow> d
              | Some r \<Rightarrow> d\<lparr>dl_AgentRunID := run_ID r, dl_AgentRunKey := run_IdempotencyKey r,
                           dl_SourceInputID := run_SourceID r\<rparr>)
            else d);
          d = (if dl_AgentRunID d = [] \<and> dl_SourceInputID d \<noteq> []
            then (case watching_run st (dl_SourceInputID d) of None \<Rightarrow> d
              | Some r \<Rightarrow> d\<lparr>dl_AgentRunID := run_ID r\<rparr>)
            else d)
      in if dl_SourceInputID d = [] \<and> dl_AgentRunID d \<noteq> []
         then (case run_row st (dl_AgentRunID d) of None \<Rightarrow> d
           | Some r \<Rightarrow> d\<lparr>dl_SourceInputID := run_SourceID r, dl_AgentRunKey := run_IdempotencyKey r\<rparr>)
         else if dl_AgentRunID d \<noteq> [] \<and> dl_AgentRunKey d = []
         then (case run_row st (dl_AgentRunID d) of None \<Rightarrow> d
           | Some r \<Rightarrow> d\<lparr>dl_AgentRunKey := run_IdempotencyKey r\<rparr>)
         else d)"

text \<open>A card or a status that is not newer than what the key already carries is not queued.\<close>

definition overtaken :: "RunStore \<Rightarrow> SlackDelivery \<Rightarrow> bool" where
  "overtaken st d \<longleftrightarrow>
     dl_CoalesceKey d \<noteq> [] \<and> 0 < dl_CardVersion d
     \<and> list_ex (\<lambda>r. dl_CoalesceKey r = dl_CoalesceKey d \<and> 0 < dl_CardVersion r
         \<and> dl_State r \<in> {''pending'', ''sending'', ''retry'', ''uncertain'', ''sent''}
         \<and> dl_CardVersion d \<le> dl_CardVersion r) (rs_deliveries st)"

definition notice_retirement :: "DeliveryRow \<Rightarrow> bool" where
  "notice_retirement d \<longleftrightarrow> dl_Operation d = ''delete'' \<and> dl_Kind d = ''notice_retirement''"

text \<open>\<open>PreserveCausalRetirementSQL\<close>: a retirement whose outcome or predecessor is ambiguous.\<close>

definition causal_retirement :: "DeliveryRow list \<Rightarrow> string \<Rightarrow> nat \<Rightarrow> DeliveryRow \<Rightarrow> bool" where
  "causal_retirement rows newID i d \<longleftrightarrow>
     notice_retirement d
     \<and> (0 < dl_Attempts d
        \<or> list_ex (\<lambda>a. preparation_notice (dl_CoalesceKey d) a \<and> dl_State a \<in> {''sending'', ''uncertain''})
            (take i rows)
        \<or> list_ex (\<lambda>a. preparation_notice (dl_CoalesceKey d) a \<and> dl_ID a \<noteq> newID
             \<and> dl_State a \<in> {''pending'', ''retry'', ''sending'', ''uncertain'', ''sent''})
            (drop (Suc i) rows))"

definition coalesced_away :: "RunStore \<Rightarrow> SlackDelivery \<Rightarrow> nat \<Rightarrow> DeliveryRow \<Rightarrow> bool" where
  "coalesced_away st d i row \<longleftrightarrow>
     dl_CoalesceKey row = dl_CoalesceKey d \<and> dl_ID row \<noteq> dl_ID d \<and> queued row
     \<and> (dl_CardVersion d = 0 \<or> dl_CardVersion row \<le> dl_CardVersion d)
     \<and> \<not> (dl_Operation d = ''status'' \<and> dl_Status d = []
           \<and> dl_Operation row = ''status'' \<and> dl_Status row \<noteq> [])
     \<and> \<not> causal_retirement (rs_deliveries st) (dl_ID d) i row"

definition enqueued_row :: "gotime \<Rightarrow> SlackDelivery \<Rightarrow> DeliveryRow" where
  "enqueued_row now d = (delivery_row now d)\<lparr>dl_Steps := dl_Steps d\<rparr>"

definition insert_delivery :: "gotime \<Rightarrow> SlackDelivery \<Rightarrow> RunStore \<Rightarrow> RunError + bool \<times> RunStore" where
  "insert_delivery now d st =
     (if list_ex (\<lambda>row. dl_ID row = dl_ID d) (rs_deliveries st) then Inr (False, st)
      else if dl_IncidentID d \<noteq> [] \<and> map_of (rs_incidents st) (dl_IncidentID d) = None
      then Inl RunConstraint
      else
        let st = st\<lparr>rs_deliveries := rs_deliveries st @ [enqueued_row now d]\<rparr>
        in Inr (True,
             if dl_CoalesceKey d = [] then st
             else update_indexed (coalesced_away st d)
               (\<lambda>row. row\<lparr>dl_State := ''superseded'', dl_UpdatedAt := now\<rparr>) st))"

definition EnqueueSlackDelivery ::
    "gotime \<Rightarrow> string \<Rightarrow> SlackDelivery \<Rightarrow> RunStore \<Rightarrow> RunError + bool \<times> RunStore" where
  "EnqueueSlackDelivery now fresh d0 st =
     (let d = d0\<lparr>dl_Operation := if_set (dl_Operation d0) ''post''\<rparr> in
      case enqueue_refusal d of
        Some why \<Rightarrow> Inl (RunRefused why)
      | None \<Rightarrow>
          and_then (fenced_to_episode st (d\<lparr>dl_ID := if_set (dl_ID d) fresh\<rparr>)) (\<lambda>d.
            let d = attributed_delivery st d in
            if overtaken st d then Inr (False, st) else insert_delivery now d st))"

section \<open>Leasing\<close>

text \<open>A later human turn of the same conversation, in Slack's order.\<close>

definition input_thread :: "InputRow \<Rightarrow> string" where
  "input_thread i = if_set (inp_ThreadTS i) (inp_MessageTS i)"

definition later_turn :: "(string \<Rightarrow> string \<Rightarrow> bool) \<Rightarrow> nat \<times> InputRow \<Rightarrow> nat \<times> InputRow \<Rightarrow> bool" where
  "later_turn earlier newer source \<longleftrightarrow>
     (case (newer, source) of ((j, n), (i, s)) \<Rightarrow>
        j \<noteq> i \<and> inp_ChannelID n = inp_ChannelID s \<and> input_thread n = input_thread s
        \<and> inp_Kind n \<in> {''message'', ''mention'', ''direct''}
        \<and> (if inp_MessageTS s \<noteq> []
           then earlier (inp_MessageTS s) (inp_MessageTS n)
             \<or> inp_MessageTS n = inp_MessageTS s \<and> i < j
           else inp_ReceivedAt s < inp_ReceivedAt n
             \<or> inp_ReceivedAt n = inp_ReceivedAt s \<and> i < j))"

definition input_rows :: "RunStore \<Rightarrow> (nat \<times> InputRow) list" where
  "input_rows st = enumerate 0 (map snd (rs_inputs st))"

definition overtaken_by_turn :: "OutboxFns \<Rightarrow> Outbox \<Rightarrow> DeliveryRow \<Rightarrow> bool" where
  "overtaken_by_turn X ob d \<longleftrightarrow>
     dl_SourceInputID d \<noteq> []
     \<and> list_ex (\<lambda>(i, s). inp_ID s = dl_SourceInputID d \<and> \<not> like_prefix ''replay-public:'' (inp_EnvelopeID s)
         \<and> list_ex (\<lambda>(j, n). later_turn (xf_earlier X) (j, n) (i, s) \<and> inp_ID n \<notin> set (ob_denied ob))
             (input_rows (ob_tables ob)))
         (input_rows (ob_tables ob))"

definition newer_reaction :: "DeliveryRow list \<Rightarrow> nat \<Rightarrow> DeliveryRow \<Rightarrow> bool" where
  "newer_reaction rows i d \<longleftrightarrow>
     list_ex (\<lambda>(j, n). dl_CoalesceKey n = dl_CoalesceKey d \<and> dl_Operation n = ''reaction''
         \<and> (dl_CreatedAt d < dl_CreatedAt n \<or> dl_CreatedAt n = dl_CreatedAt d \<and> i < j))
       (enumerate 0 rows)"

definition misdirected :: "RunStore \<Rightarrow> DeliveryRow \<Rightarrow> bool" where
  "misdirected st d \<longleftrightarrow>
     dl_EpisodeID d \<noteq> [] \<and> \<not> keeps_place (dl_Operation d)
     \<and> (case episode_row st (dl_EpisodeID d) of None \<Rightarrow> False
        | Some e \<Rightarrow> dl_ExpectedDestinationRevision d \<noteq> ep_DestinationRevision e
            \<or> dl_ChannelID d \<noteq> dst_ChannelID (ep_Destination e)
            \<or> dl_ThreadTS d \<noteq> dst_ThreadTS (ep_Destination e)
            \<or> 0 < dl_ExpectedEpisodeRevision d \<and> dl_ExpectedEpisodeRevision d \<noteq> ep_EventSequence e)"

definition withdraw_stale :: "OutboxFns \<Rightarrow> gotime \<Rightarrow> Outbox \<Rightarrow> RunStore" where
  "withdraw_stale X now ob =
     (let st = update_deliveries (\<lambda>d. queued d \<and> overtaken_by_turn X ob d)
            (superseded_delivery now ''newer human turn admitted'') (ob_tables ob);
          st = update_indexed (\<lambda>i d. queued d \<and> dl_Operation d = ''reaction'' \<and> dl_CoalesceKey d \<noteq> []
                 \<and> newer_reaction (rs_deliveries st) i d)
            (superseded_delivery now ''newer reaction intent'') st
      in update_deliveries (\<lambda>d. queued d \<and> misdirected st d)
           (superseded_delivery now ''episode destination changed'') st)"

text \<open>\<open>LeaseBarrierSQL\<close>.\<close>

definition lease_barrier :: "DeliveryRow list \<Rightarrow> nat \<Rightarrow> DeliveryRow \<Rightarrow> bool" where
  "lease_barrier rows i d \<longleftrightarrow>
     (notice_retirement d \<longrightarrow> \<not> list_ex (\<lambda>b. dl_CoalesceKey b = dl_CoalesceKey d
        \<and> (dl_Operation b \<in> {''post'', ''update''} \<and> dl_State b \<in> {''pending'', ''retry'', ''sending'', ''uncertain''}
           \<or> notice_retirement b \<and> dl_State b \<in> {''pending'', ''retry'', ''sending''})) (take i rows))
     \<and> (dl_Kind d = ''notice'' \<and> dl_Operation d \<in> {''post'', ''update''} \<longrightarrow>
        \<not> list_ex (\<lambda>r. dl_CoalesceKey r = dl_CoalesceKey d \<and> notice_retirement r
            \<and> dl_State r \<in> {''pending'', ''retry'', ''sending''}) (take i rows))"

definition delivery_leasable ::
    "SqlFns \<Rightarrow> gotime \<Rightarrow> string list \<Rightarrow> DeliveryRow list \<Rightarrow> nat \<Rightarrow> DeliveryRow \<Rightarrow> bool" where
  "delivery_leasable F now cooling rows i d \<longleftrightarrow>
     queued d \<and> fn_julian F (dl_NextAttemptAt d) \<le> fn_julian F now
     \<and> (cooling = [] \<or> dl_Operation d \<in> {''reaction'', ''delete''} \<or> dl_ChannelID d \<notin> set cooling)
     \<and> (dl_Operation d \<noteq> ''reaction'' \<or> dl_CoalesceKey d = []
        \<or> \<not> list_ex (\<lambda>a. dl_CoalesceKey a = dl_CoalesceKey d \<and> dl_ID a \<noteq> dl_ID d \<and> dl_State a = ''sending'') rows)
     \<and> (dl_SequenceKey d = [] \<or> \<not> list_ex (\<lambda>p. dl_SequenceKey p = dl_SequenceKey d
          \<and> dl_SequenceIndex p < dl_SequenceIndex d \<and> dl_State p \<notin> {''sent'', ''superseded''}) rows)
     \<and> lease_barrier rows i d"

definition operation_rank :: "string \<Rightarrow> nat" where
  "operation_rank op =
     (if op = ''status'' then 0 else if op = ''delete'' then 1 else if op = ''reaction'' then 2
      else if op = ''update'' then 3 else 4)"

definition delivery_before :: "DeliveryRow \<Rightarrow> DeliveryRow \<Rightarrow> bool" where
  "delivery_before a b \<longleftrightarrow>
     (let ra = operation_rank (dl_Operation a); rb = operation_rank (dl_Operation b)
      in ra < rb \<or> ra = rb \<and> (dl_CreatedAt a < dl_CreatedAt b
           \<or> dl_CreatedAt a = dl_CreatedAt b \<and> dl_ID a < dl_ID b))"

definition lease_choice :: "SqlFns \<Rightarrow> gotime \<Rightarrow> string list \<Rightarrow> DeliveryRow list \<Rightarrow> DeliveryRow option" where
  "lease_choice F now cooling rows =
     first_by delivery_before (map snd (filter (\<lambda>(i, d). delivery_leasable F now cooling rows i d) (enumerate 0 rows)))"

text \<open>The withdrawals are committed also when there is nothing to lease.\<close>

definition LeaseSlackDelivery ::
    "OutboxFns \<Rightarrow> gotime \<Rightarrow> string list \<Rightarrow> Outbox \<Rightarrow> DeliveryRow option \<times> Outbox" where
  "LeaseSlackDelivery X now cooling ob =
     (let st = withdraw_stale X now ob in
      case lease_choice (xf_sql X) now cooling (rs_deliveries st) of
        None \<Rightarrow> (None, ob\<lparr>ob_tables := st\<rparr>)
      | Some d \<Rightarrow> (Some (d\<lparr>dl_State := ''sending''\<rparr>),
          ob\<lparr>ob_tables := update_deliveries (\<lambda>r. dl_ID r = dl_ID d \<and> queued r)
            (\<lambda>r. r\<lparr>dl_State := ''sending'', dl_UpdatedAt := now\<rparr>) st\<rparr>))"

section \<open>Finishing\<close>

abbreviation EventDestinationChanged :: string where
  "EventDestinationChanged \<equiv> ''destination_changed''"

definition sent_row :: "gotime \<Rightarrow> string \<Rightarrow> DeliveryRow \<Rightarrow> DeliveryRow" where
  "sent_row now messageTS d =
     d\<lparr>dl_State := ''sent'', dl_MessageTS := (if messageTS = [] then dl_MessageTS d else messageTS),
       dl_LastError := [], dl_UpdatedAt := now\<rparr>"

text \<open>The first root answer of an episode creates its thread: the episode moves there, and so do the
  parts of the answer that were not leased yet.\<close>

definition thread_change :: "OutboxFns \<Rightarrow> DeliveryRow \<Rightarrow> string \<Rightarrow> WorkEpisode \<Rightarrow> WorkEpisodeEvent" where
  "thread_change X d messageTS e =
     zero_WorkEpisodeEvent\<lparr>evt_Kind := EventDestinationChanged, evt_Actor := ''host'',
       evt_IdempotencyKey := ''reply-thread:'' @ dl_ID d,
       evt_Payload := xf_destination X (dl_ChannelID d) messageTS (ep_DestinationRevision e + 1)\<rparr>"

definition moved_episode :: "string \<Rightarrow> string \<Rightarrow> WorkEpisode \<Rightarrow> WorkEpisode" where
  "moved_episode channel messageTS e =
     (if dst_ThreadTS (ep_Destination e) = []
      then e\<lparr>ep_Conversation := (ep_Conversation e)\<lparr>cnv_ThreadTS :=
               (if cnv_ThreadTS (ep_Conversation e) = [] \<and> cnv_ChannelID (ep_Conversation e) = channel
                then messageTS else cnv_ThreadTS (ep_Conversation e))\<rparr>,
             ep_Destination := (ep_Destination e)\<lparr>dst_ThreadTS := messageTS\<rparr>,
             ep_DestinationRevision := ep_DestinationRevision e + 1\<rparr>
      else e)"

definition retargeted_row :: "gotime \<Rightarrow> string \<Rightarrow> int \<Rightarrow> int \<Rightarrow> DeliveryRow \<Rightarrow> DeliveryRow" where
  "retargeted_row now thread destination revision d =
     d\<lparr>dl_ThreadTS := thread, dl_ExpectedDestinationRevision := destination,
       dl_ExpectedEpisodeRevision := revision, dl_UpdatedAt := now\<rparr>"

definition open_reply_thread ::
    "OutboxFns \<Rightarrow> gotime \<Rightarrow> DeliveryRow \<Rightarrow> string \<Rightarrow> RunStore \<Rightarrow> RunError + RunStore" where
  "open_reply_thread X now d messageTS st =
     (if dl_EpisodeID d = [] \<or> \<not> dl_ResponseRoot d \<or> dl_ThreadTS d \<noteq> [] \<or> messageTS = [] then Inr st
      else case episode_row st (dl_EpisodeID d) of
        None \<Rightarrow> Inl RunNotFound
      | Some e \<Rightarrow>
          if dst_ChannelID (ep_Destination e) \<noteq> dl_ChannelID d \<or> dst_ThreadTS (ep_Destination e) \<noteq> [] then Inr st
          else case appendEpisodeEvent (fn_decode (xf_sql X)) now (dl_EpisodeID d)
              (thread_change X d messageTS e) (rs_ep st) of
            Inl err \<Rightarrow> Inl (RunEpisode err)
          | Inr (event, ep) \<Rightarrow>
              let st = st\<lparr>rs_ep := ep\<lparr>es_episodes := AList.map_entry (dl_EpisodeID d)
                    (moved_episode (dl_ChannelID d) messageTS) (es_episodes ep)\<rparr>\<rparr>
              in Inr (if dl_SequenceKey d = [] then st
                else update_deliveries
                  (\<lambda>r. dl_SequenceKey r = dl_SequenceKey d \<and> dl_ID r \<noteq> dl_ID d
                     \<and> dl_State r \<in> {''pending'', ''retry'', ''failed''})
                  (retargeted_row now messageTS (ep_DestinationRevision e + 1) (evt_Sequence event)) st))"

text \<open>\<open>UPDATE incidents SET \<dots> WHERE id = ? AND \<dots>\<close>.\<close>

definition update_incident :: "string \<Rightarrow> (Incident \<Rightarrow> Incident) \<Rightarrow> RunStore \<Rightarrow> RunStore" where
  "update_incident rid f st = st\<lparr>rs_incidents := AList.map_entry rid f (rs_incidents st)\<rparr>"

definition bind_root :: "gotime \<Rightarrow> DeliveryRow \<Rightarrow> string \<Rightarrow> RunStore \<Rightarrow> RunError + RunStore" where
  "bind_root now d messageTS st =
     (if dl_IncidentID d = [] \<or> dl_Kind d \<noteq> ''root'' then Inr st
      else case map_of (rs_incidents st) (dl_IncidentID d) of
        None \<Rightarrow> Inl RunConflict
      | Some i \<Rightarrow>
          if inc_ChannelID i = [] \<or> inc_RootTS i \<noteq> [] then Inl RunConflict
          else Inr (update_incident (dl_IncidentID d)
            (\<lambda>i. i\<lparr>inc_RootTS := messageTS,
                  inc_Workflow := (if inc_CoopSessionID i = [] then WorkflowProvisioningSession else inc_Workflow i),
                  inc_UpdatedAt := now, inc_CardVersion := inc_CardVersion i + 1, inc_LastError := []\<rparr>) st))"

definition card_rendered :: "gotime \<Rightarrow> DeliveryRow \<Rightarrow> RunStore \<Rightarrow> RunStore" where
  "card_rendered now d st =
     (if dl_IncidentID d \<noteq> [] \<and> dl_Kind d = ''card'' \<and> 0 < dl_CardVersion d
      then update_incident (dl_IncidentID d)
        (\<lambda>i. i\<lparr>inc_CardRenderedVersion := max (inc_CardRenderedVersion i) (dl_CardVersion d), inc_UpdatedAt := now\<rparr>) st
      else st)"

definition changes_shown :: "gotime \<Rightarrow> DeliveryRow \<Rightarrow> string \<Rightarrow> RunStore \<Rightarrow> RunStore" where
  "changes_shown now d messageTS st =
     (if dl_IncidentID d \<noteq> [] \<and> dl_Kind d = ''changes'' \<and> messageTS \<noteq> []
      then update_incident (dl_IncidentID d)
        (\<lambda>i. if inc_ChangesMessageTS i = messageTS then i
             else i\<lparr>inc_ChangesMessageTS := messageTS, inc_UpdatedAt := now, inc_CardVersion := inc_CardVersion i + 1\<rparr>) st
      else st)"

definition bind_approval :: "gotime \<Rightarrow> string \<Rightarrow> string \<Rightarrow> ApprovalRow list \<Rightarrow> ApprovalRow list" where
  "bind_approval now rid messageTS approvals =
     (if messageTS = [] then approvals
      else map (\<lambda>a. if apv_DeliveryID a = rid \<and> apv_MessageTS a = []
          then a\<lparr>apv_MessageTS := messageTS, apv_UpdatedAt := now\<rparr> else a) approvals)"

text \<open>\<open>CloseDeleteEpoch\<close>: the notices older than a finished retirement are history.\<close>

definition CloseDeleteEpoch :: "gotime \<Rightarrow> string \<Rightarrow> RunStore \<Rightarrow> RunError + RunStore" where
  "CloseDeleteEpoch now rid st =
     (case delivery_by_id rid st of
        None \<Rightarrow> Inl RunNotFound
      | Some (pos, d) \<Rightarrow>
          if dl_Operation d \<noteq> ''delete'' then Inl RunNotFound
          else Inr (update_indexed
            (\<lambda>i r. i < pos \<and> preparation_notice (dl_CoalesceKey d) r \<and> dl_State r \<in> {''sent'', ''failed''})
            (superseded_delivery now ''preparation notice retired'') st))"

definition upload_replaced :: "gotime \<Rightarrow> DeliveryRow \<Rightarrow> RunStore \<Rightarrow> RunStore" where
  "upload_replaced now d st =
     (if dl_ResponseRoot d \<and> TrimSuffix (dl_ID d) ''_upload_failed'' \<noteq> dl_ID d \<and> dl_SequenceKey d \<noteq> []
      then update_deliveries (\<lambda>r. dl_SequenceKey r = dl_SequenceKey d \<and> dl_Operation r = ''file'' \<and> dl_State r = ''failed'')
        (superseded_delivery now ''replaced by upload failure notice'') st
      else st)"

definition FinishSlackDelivery ::
    "OutboxFns \<Rightarrow> gotime \<Rightarrow> string \<Rightarrow> string \<Rightarrow> string \<Rightarrow> Outbox \<Rightarrow> RunError + Outbox" where
  "FinishSlackDelivery X now rid messageTS fromState ob =
     (case delivery_by_id rid (ob_tables ob) of
        None \<Rightarrow> Inl RunConflict
      | Some (pos, d) \<Rightarrow>
          if dl_State d \<noteq> fromState then Inl RunConflict
          else and_then (open_reply_thread X now d messageTS
              (update_deliveries (\<lambda>r. dl_ID r = rid \<and> dl_State r = fromState) (sent_row now messageTS) (ob_tables ob)))
            (\<lambda>st. and_then (bind_root now d messageTS (upload_replaced now d st))
              (\<lambda>st. let st = changes_shown now d messageTS (card_rendered now d st) in
                map_sum id (\<lambda>st. ob\<lparr>ob_tables := st, ob_approvals := bind_approval now rid messageTS (ob_approvals ob)\<rparr>)
                  (if dl_Operation d = ''delete'' \<and> dl_Kind d = ''notice_retirement''
                   then CloseDeleteEpoch now rid st else Inr st))))"

section \<open>Retries\<close>

text \<open>\<open>preparationstore.NewerRetirement\<close>: recovery became durable after the notice was leased.\<close>

definition NewerRetirement :: "string \<Rightarrow> nat \<Rightarrow> RunStore \<Rightarrow> bool" where
  "NewerRetirement key pos st \<longleftrightarrow>
     key \<noteq> [] \<and> list_ex (\<lambda>d. dl_CoalesceKey d = key \<and> notice_retirement d
        \<and> dl_State d \<in> {''pending'', ''retry'', ''sending'', ''sent''}) (drop (Suc pos) (rs_deliveries st))"

definition newer_intent :: "RunStore \<Rightarrow> nat \<Rightarrow> DeliveryRow \<Rightarrow> bool" where
  "newer_intent st pos d \<longleftrightarrow>
     list_ex (\<lambda>(j, n). dl_CoalesceKey n = dl_CoalesceKey d \<and> dl_Operation n = ''reaction'' \<and> dl_ID n \<noteq> dl_ID d
         \<and> (dl_CreatedAt d < dl_CreatedAt n \<or> dl_CreatedAt n = dl_CreatedAt d \<and> pos < j))
       (enumerate 0 (rs_deliveries st))"

definition retried_row :: "gotime \<Rightarrow> string \<Rightarrow> string \<Rightarrow> gotime \<Rightarrow> DeliveryRow \<Rightarrow> DeliveryRow" where
  "retried_row now to detail next_at d =
     d\<lparr>dl_State := to, dl_Attempts := dl_Attempts d + 1, dl_LastError := BoundedError detail,
       dl_NextAttemptAt := next_at, dl_UpdatedAt := now\<rparr>"

definition retry_outcome :: "RunStore \<Rightarrow> nat \<Rightarrow> DeliveryRow \<Rightarrow> string \<Rightarrow> bool \<Rightarrow> bool \<Rightarrow> string \<times> string" where
  "retry_outcome st pos d detail uncertain terminally =
     (let r = (if uncertain then ''uncertain'' else if terminally then ''failed'' else ''retry'', detail);
          r = (if dl_Operation d = ''reaction'' \<and> dl_CoalesceKey d \<noteq> [] \<and> newer_intent st pos d
               then (''superseded'', ''newer reaction intent'') else r)
      in if dl_Operation d \<noteq> ''delete'' \<and> dl_Kind d = ''notice'' \<and> \<not> uncertain
            \<and> NewerRetirement (dl_CoalesceKey d) pos st
         then (''superseded'', ''preparation recovered while delivery was in flight'') else r)"

definition RetrySlackDelivery ::
    "gotime \<Rightarrow> string \<Rightarrow> string \<Rightarrow> gotime \<Rightarrow> bool \<Rightarrow> bool \<Rightarrow> RunStore \<Rightarrow> RunError + RunStore" where
  "RetrySlackDelivery now rid detail next_at uncertain terminally st =
     (case delivery_by_id rid st of
        None \<Rightarrow> Inl RunConflict
      | Some (pos, d) \<Rightarrow>
          if dl_State d \<noteq> ''sending'' then Inl RunConflict
          else case retry_outcome st pos d detail uncertain terminally of
            (to, why) \<Rightarrow> Inr (update_deliveries (\<lambda>r. dl_ID r = rid \<and> dl_State r = ''sending'')
              (retried_row now to why next_at) st))"

definition SupersedeLeased :: "gotime \<Rightarrow> string \<Rightarrow> string \<Rightarrow> RunStore \<Rightarrow> RunError + RunStore" where
  "SupersedeLeased now rid detail st =
     (if list_ex (\<lambda>r. dl_ID r = rid \<and> dl_State r = ''sending'') (rs_deliveries st)
      then Inr (update_deliveries (\<lambda>r. dl_ID r = rid \<and> dl_State r = ''sending'')
        (superseded_delivery now (BoundedError detail)) st)
      else Inl RunConflict)"

datatype UncertainDisposition = UncertainAgain | UncertainRetry | UncertainTerminal
  | ConfirmedAbsentRetry | ConfirmedAbsentFailed

definition ConfirmedAbsent :: "bool \<Rightarrow> UncertainDisposition" where
  "ConfirmedAbsent terminally = (if terminally then ConfirmedAbsentFailed else ConfirmedAbsentRetry)"

fun disposed_state :: "UncertainDisposition \<Rightarrow> string" where
  "disposed_state UncertainAgain = ''uncertain''"
| "disposed_state UncertainRetry = ''retry''"
| "disposed_state UncertainTerminal = ''failed''"
| "disposed_state ConfirmedAbsentRetry = ''retry''"
| "disposed_state ConfirmedAbsentFailed = ''failed''"

fun confirmed_absent :: "UncertainDisposition \<Rightarrow> bool" where
  "confirmed_absent ConfirmedAbsentRetry = True"
| "confirmed_absent ConfirmedAbsentFailed = True"
| "confirmed_absent _ = False"

definition RetryUncertain ::
    "gotime \<Rightarrow> string \<Rightarrow> string \<Rightarrow> gotime \<Rightarrow> UncertainDisposition \<Rightarrow> RunStore \<Rightarrow> RunError + RunStore" where
  "RetryUncertain now rid detail next_at disposition st =
     (case delivery_by_id rid st of
        None \<Rightarrow> Inl RunNotFound
      | Some (pos, d) \<Rightarrow>
          if dl_State d \<noteq> ''uncertain'' then Inl RunNotFound
          else
            let retired = dl_Kind d = ''notice'' \<and> confirmed_absent disposition \<and> NewerRetirement (dl_CoalesceKey d) pos st;
                to = (if retired then ''superseded'' else disposed_state disposition);
                why = (if retired then ''preparation recovered while delivery was uncertain'' else detail)
            in Inr (update_deliveries (\<lambda>r. dl_ID r = rid \<and> dl_State r = ''uncertain'') (retried_row now to why next_at) st))"

section \<open>Retirements and visuals\<close>

text \<open>\<open>ResolveDelete\<close>: a leased retirement takes the newest older notice that reached Slack.\<close>

definition ResolveDelete :: "gotime \<Rightarrow> string \<Rightarrow> RunStore \<Rightarrow> RunError + (string \<times> string \<times> bool) \<times> RunStore" where
  "ResolveDelete now rid st =
     (case delivery_by_id rid st of
        None \<Rightarrow> Inl RunNotFound
      | Some (pos, d) \<Rightarrow>
          if dl_Operation d \<noteq> ''delete'' \<or> dl_State d \<noteq> ''sending'' then Inl RunNotFound
          else case last_position (\<lambda>r. preparation_notice (dl_CoalesceKey d) r \<and> dl_State r = ''sent''
              \<and> dl_MessageTS r \<noteq> []) (take pos (rs_deliveries st)) of
            None \<Rightarrow> Inr ((dl_ChannelID d, [], False), st)
          | Some i \<Rightarrow>
              let target = rs_deliveries st ! i in
              Inr ((dl_ChannelID target, dl_MessageTS target, True),
                update_deliveries (\<lambda>r. dl_ID r = rid \<and> dl_State r = ''sending'')
                  (\<lambda>r. r\<lparr>dl_ChannelID := dl_ChannelID target, dl_MessageTS := dl_MessageTS target, dl_UpdatedAt := now\<rparr>) st))"

definition given_up :: "DeliveryRow \<Rightarrow> bool" where
  "given_up d \<longleftrightarrow>
     dl_State d = ''failed'' \<or> dl_State d = ''superseded'' \<and> dl_LastError d = ''replaced by upload failure notice''"

definition visual :: "DeliveryRow \<Rightarrow> bool" where
  "visual d \<longleftrightarrow> dl_Operation d = ''file'' \<and> dl_Kind d = ''generated_visual''"

definition retry_visual_choice :: "string \<Rightarrow> string \<Rightarrow> DeliveryRow list \<Rightarrow> DeliveryRow option" where
  "retry_visual_choice channel thread rows =
     (case first_by (\<lambda>a b. dl_CreatedAt b < dl_CreatedAt a \<or> dl_CreatedAt a = dl_CreatedAt b \<and> dl_ID b < dl_ID a)
         (filter (\<lambda>d. visual d \<and> dl_ChannelID d = channel \<and> dl_ThreadTS d = thread \<and> (queued d \<or> given_up d)) rows) of
        None \<Rightarrow> None
      | Some d \<Rightarrow>
          let key = fst (slackDeliverySequence (dl_ID d)) in
          if key = [] then Some d
          else case first_by (\<lambda>a b. dl_SequenceIndex a < dl_SequenceIndex b
                \<or> dl_SequenceIndex a = dl_SequenceIndex b \<and> (dl_CreatedAt a < dl_CreatedAt b
                  \<or> dl_CreatedAt a = dl_CreatedAt b \<and> dl_ID a < dl_ID b))
              (filter (\<lambda>d. dl_SequenceKey d = key \<and> visual d \<and> given_up d) rows) of
            None \<Rightarrow> Some d
          | Some earliest \<Rightarrow> Some earliest)"

definition RetryLatestGeneratedVisual ::
    "gotime \<Rightarrow> string \<Rightarrow> string \<Rightarrow> RunStore \<Rightarrow> RunError + DeliveryRow \<times> RunStore" where
  "RetryLatestGeneratedVisual now channel thread st =
     (if channel = [] then Inl (RunRefused ''Slack visual retry channel is required'')
      else case retry_visual_choice channel thread (rs_deliveries st) of
        None \<Rightarrow> Inl RunNotFound
      | Some d \<Rightarrow>
          Inr (d\<lparr>dl_State := ''retry'', dl_Attempts := 0, dl_NextAttemptAt := now, dl_LastError := []\<rparr>,
            update_deliveries (\<lambda>r. dl_ID r = dl_ID d \<and> dl_State r = dl_State d)
              (\<lambda>r. r\<lparr>dl_State := ''retry'', dl_Attempts := 0, dl_NextAttemptAt := now, dl_LastError := [],
                    dl_UpdatedAt := now\<rparr>) st))"

section \<open>Queries\<close>

definition HasNewerSentReplyInThread :: "string \<Rightarrow> string \<Rightarrow> string \<Rightarrow> gotime \<Rightarrow> RunStore \<Rightarrow> RunError + bool" where
  "HasNewerSentReplyInThread channel thread sourceID after st =
     (if channel = [] \<or> thread = [] then Inl (RunRefused ''Slack reply thread channel and thread are required'')
      else Inr (list_ex (\<lambda>d. dl_ChannelID d = channel \<and> dl_ThreadTS d = thread \<and> dl_Operation d = ''post''
          \<and> dl_ResponseRoot d \<and> dl_State d = ''sent'' \<and> dl_SourceInputID d \<noteq> [] \<and> dl_SourceInputID d \<noteq> sourceID
          \<and> after < dl_CreatedAt d) (rs_deliveries st)))"

definition ListUncertainSlackDeliveries :: "SqlFns \<Rightarrow> gotime \<Rightarrow> int \<Rightarrow> RunStore \<Rightarrow> DeliveryRow list" where
  "ListUncertainSlackDeliveries F now limit st =
     take (nat (if limit \<le> 0 \<or> 100 < limit then 20 else limit))
       (sort_key (\<lambda>d. (dl_CreatedAt d, dl_ID d))
         (filter (\<lambda>d. dl_State d = ''uncertain'' \<and> dl_Operation d \<in> {''post'', ''file''}
            \<and> fn_julian F (dl_NextAttemptAt d) \<le> fn_julian F now) (rs_deliveries st)))"

end
