(* ===== verification/SlackWorker.thy ===== *)
theory SlackWorker
  imports SlackOutbox Timing
begin

text \<open>
  The two lanes that move the outbox, \<open>processSlackDelivery\<close> and \<open>reconcileSlackDelivery\<close> of
  \<open>internal/service/workers.go\<close>, with \<open>enqueueGeneratedVisualFailure\<close> of \<open>visuals.go\<close>.

  Each is cut where it leaves the process: \<open>prepare_delivery\<close> runs up to the Slack call and
  \<open>settle_delivery\<close> from its answer on; \<open>reconcile_delivery\<close> takes what Slack's history said as an
  argument.  \<open>SlackEnv\<close> holds what the lanes only pass through: the decoders of a message and of a
  file, the wording of a failed upload, and the configured number of attempts.  The native status
  line that \<open>processSlackDelivery\<close> refreshes after a reply is kept in memory and is not modelled.
\<close>

record SlackEnv =
  env_message :: "string \<Rightarrow> string option"
  env_file :: "string \<Rightarrow> string option"
  env_failure :: "string \<Rightarrow> string \<Rightarrow> string + string"
  env_maxAttempts :: int

definition PermanentDeliveryError :: "string \<Rightarrow> bool" where
  "PermanentDeliveryError err \<longleftrightarrow>
     list_ex (contains (to_lower (trim_space err)))
       [''missing_scope'', ''not_authed'', ''invalid_auth'', ''account_inactive'', ''not_allowed_token_type'',
        ''file_uploads_disabled'']"

definition queueDelay :: "gotime \<Rightarrow> int \<Rightarrow> gotime" where
  "queueDelay now attempt = time_add now (Timing.Duration attempt)"

text \<open>A transaction that fails leaves the tables as they were.\<close>

definition keep_tables :: "Outbox \<Rightarrow> RunError + RunStore \<Rightarrow> Outbox" where
  "keep_tables ob result = (case result of Inl _ \<Rightarrow> ob | Inr st \<Rightarrow> ob\<lparr>ob_tables := st\<rparr>)"

definition keep_outbox :: "Outbox \<Rightarrow> RunError + Outbox \<Rightarrow> Outbox" where
  "keep_outbox ob result = (case result of Inl _ \<Rightarrow> ob | Inr ob' \<Rightarrow> ob')"

definition retry_leased :: "gotime \<Rightarrow> DeliveryRow \<Rightarrow> string \<Rightarrow> gotime \<Rightarrow> bool \<Rightarrow> bool \<Rightarrow> Outbox \<Rightarrow> Outbox" where
  "retry_leased now item detail next_at uncertain terminally ob =
     keep_tables ob (RetrySlackDelivery now (dl_ID item) detail next_at uncertain terminally (ob_tables ob))"

definition SetIncidentError :: "gotime \<Rightarrow> string \<Rightarrow> string \<Rightarrow> string \<Rightarrow> Outbox \<Rightarrow> Outbox" where
  "SetIncidentError now rid workflow detail ob =
     ob\<lparr>ob_tables := update_incident rid
       (\<lambda>i. i\<lparr>inc_Workflow := workflow, inc_LastError := BoundedError detail, inc_UpdatedAt := now,
             inc_CardVersion := inc_CardVersion i + 1\<rparr>) (ob_tables ob)\<rparr>"

section \<open>Before the call\<close>

definition answered_ahead :: "RunStore \<Rightarrow> DeliveryRow \<Rightarrow> string + bool" where
  "answered_ahead st item =
     (if dl_SourceInputID item = [] \<or> dl_Operation item \<noteq> ''post'' \<or> \<not> dl_ResponseRoot item \<or> dl_ThreadTS item = []
      then Inr False
      else case map_of (rs_inputs st) (dl_SourceInputID item) of
        None \<Rightarrow> Inr False
      | Some source \<Rightarrow>
          if inp_Kind source \<noteq> ''bot_message'' then Inr False
          else case HasNewerSentReplyInThread (dl_ChannelID item) (dl_ThreadTS item) (dl_SourceInputID item)
              (dl_CreatedAt item) st of
            Inl (RunRefused why) \<Rightarrow> Inl why
          | Inl _ \<Rightarrow> Inl []
          | Inr newer \<Rightarrow> Inr newer)"

definition work_channel :: "RunStore \<Rightarrow> DeliveryRow \<Rightarrow> Incident option" where
  "work_channel st item =
     (if dl_IncidentID item = [] then None else map_of (rs_incidents st) (dl_IncidentID item))"

definition channel_closed :: "RunStore \<Rightarrow> DeliveryRow \<Rightarrow> string option" where
  "channel_closed st item =
     (case work_channel st item of
        None \<Rightarrow> None
      | Some i \<Rightarrow> if dl_ChannelID item = inc_ChannelID i \<and> \<not> ChannelWritable i then Some (inc_ChannelState i) else None)"

text \<open>What is left to do for a leased delivery: nothing, a failure without a call, or the call.\<close>

datatype Prepared = Idle | Settled | Failing DeliveryRow string | Calling DeliveryRow

definition prepare_write ::
    "OutboxFns \<Rightarrow> SlackEnv \<Rightarrow> gotime \<Rightarrow> DeliveryRow \<Rightarrow> Outbox \<Rightarrow> Prepared \<times> Outbox" where
  "prepare_write X E now item ob =
     (let op = dl_Operation item in
      if op = ''post'' \<or> op = ''update''
      then (case env_message E (dl_Body item) of
          None \<Rightarrow> (Calling item, ob)
        | Some err \<Rightarrow>
            let ob = retry_leased now item (trim_space err) now False True ob
            in (Settled, case work_channel (ob_tables ob) item of
                None \<Rightarrow> ob
              | Some i \<Rightarrow> SetIncidentError now (dl_IncidentID item) (inc_Workflow i) (trim_space err) ob))
      else if op = ''status'' then (Calling item, ob)
      else if op = ''reaction''
      then (if dl_Kind item \<in> {''failure_marker_add'', ''failure_marker_remove''} then (Calling item, ob)
            else (Failing item ''unsupported Slack reaction action'', ob))
      else if op = ''delete''
      then (case ResolveDelete now (dl_ID item) (ob_tables ob) of
          Inl _ \<Rightarrow> (Failing item ''sql: no rows in result set'', ob)
        | Inr ((channel, ts, found), st) \<Rightarrow>
            if \<not> found
            then (Settled, keep_outbox ob (FinishSlackDelivery X now (dl_ID item) [] ''sending'' ob))
            else (Calling (item\<lparr>dl_ChannelID := channel, dl_MessageTS := ts\<rparr>), ob\<lparr>ob_tables := st\<rparr>))
      else if op = ''file''
      then (case env_file E (dl_Body item) of None \<Rightarrow> (Calling item, ob) | Some err \<Rightarrow> (Failing item err, ob))
      else (Failing item ''unsupported Slack delivery operation'', ob))"

definition prepare_delivery ::
    "OutboxFns \<Rightarrow> SlackEnv \<Rightarrow> gotime \<Rightarrow> string list \<Rightarrow> Outbox \<Rightarrow> Prepared \<times> Outbox" where
  "prepare_delivery X E now cooling ob =
     (case LeaseSlackDelivery X now cooling ob of
        (None, ob) \<Rightarrow> (Idle, ob)
      | (Some item, ob) \<Rightarrow>
          (case answered_ahead (ob_tables ob) item of
             Inl err \<Rightarrow> (Settled, retry_leased now item (trim_space err) now False False ob)
           | Inr True \<Rightarrow> (Settled, keep_tables ob (SupersedeLeased now (dl_ID item)
               ''a newer reply for this thread was already sent'' (ob_tables ob)))
           | Inr False \<Rightarrow>
               if dl_IncidentID item \<noteq> [] \<and> work_channel (ob_tables ob) item = None
               then (Settled, retry_leased now item ''not found'' now False True ob)
               else case channel_closed (ob_tables ob) item of
                 Some closed \<Rightarrow> (Settled, retry_leased now item
                   (''Slack delivery suppressed because the work conversation is '' @ closed) now False True ob)
               | None \<Rightarrow> prepare_write X E now item ob))"

section \<open>After the call\<close>

definition enqueueGeneratedVisualFailure ::
    "SlackEnv \<Rightarrow> gotime \<Rightarrow> DeliveryRow \<Rightarrow> string \<Rightarrow> Outbox \<Rightarrow> Outbox" where
  "enqueueGeneratedVisualFailure E now d detail ob =
     (case env_failure E (dl_Body d) detail of
        Inl _ \<Rightarrow> ob
      | Inr body \<Rightarrow> keep_tables ob (map_sum id snd (EnqueueSlackDelivery now []
          (zero_SlackDelivery\<lparr>dl_ID := dl_ID d @ ''_upload_failed'', dl_IncidentID := dl_IncidentID d,
             dl_EpisodeID := dl_EpisodeID d, dl_AgentRunID := dl_AgentRunID d,
             dl_SourceInputID := dl_SourceInputID d, dl_Operation := ''post'', dl_Kind := ''notice'',
             dl_ChannelID := dl_ChannelID d, dl_ThreadTS := dl_ThreadTS d, dl_Body := body,
             dl_ResponseRoot := True\<rparr>) (ob_tables ob))))"

definition uncertain_operation :: "string \<Rightarrow> bool" where
  "uncertain_operation op \<longleftrightarrow> op = ''post'' \<or> op = ''file''"

definition decoded_file :: "SlackEnv \<Rightarrow> DeliveryRow \<Rightarrow> bool" where
  "decoded_file E item \<longleftrightarrow> dl_Operation item = ''file'' \<and> env_file E (dl_Body item) = None"

definition settle_failure ::
    "SlackEnv \<Rightarrow> gotime \<Rightarrow> DeliveryRow \<Rightarrow> string \<Rightarrow> Outbox \<Rightarrow> Outbox" where
  "settle_failure E now item err ob =
     (let permanent = dl_Operation item = ''file'' \<and> PermanentDeliveryError err;
          terminally = Timing.Exhausted (dl_Attempts item) (env_maxAttempts E) \<or> permanent;
          uncertain = uncertain_operation (dl_Operation item) \<and> \<not> permanent
      in case RetrySlackDelivery now (dl_ID item) (trim_space err) (queueDelay now (dl_Attempts item))
             uncertain terminally (ob_tables ob) of
           Inl _ \<Rightarrow> ob
         | Inr st \<Rightarrow>
             let ob = ob\<lparr>ob_tables := st\<rparr>
             in if terminally \<and> decoded_file E item
                then enqueueGeneratedVisualFailure E now item (trim_space err) ob else ob)"

text \<open>The timestamp that is recorded: Slack's for a new message, the target's otherwise.\<close>

definition settled_ts :: "DeliveryRow \<Rightarrow> string \<Rightarrow> string" where
  "settled_ts item ts =
     (if uncertain_operation (dl_Operation item) then ts
      else if dl_Operation item = ''status'' then [] else dl_MessageTS item)"

definition settle_delivery ::
    "OutboxFns \<Rightarrow> SlackEnv \<Rightarrow> gotime \<Rightarrow> DeliveryRow \<Rightarrow> string + string \<Rightarrow> Outbox \<Rightarrow> Outbox" where
  "settle_delivery X E now item result ob =
     (case result of
        Inl err \<Rightarrow> settle_failure E now item err ob
      | Inr ts \<Rightarrow>
          (case FinishSlackDelivery X now (dl_ID item) (settled_ts item ts) ''sending'' ob of
             Inr ob \<Rightarrow> ob
           | Inl _ \<Rightarrow> retry_leased now item ''Slack accepted the message but local confirmation failed''
               (queueDelay now (dl_Attempts item)) (uncertain_operation (dl_Operation item)) False ob))"

definition processSlackDelivery ::
    "OutboxFns \<Rightarrow> SlackEnv \<Rightarrow> gotime \<Rightarrow> string list \<Rightarrow> (DeliveryRow \<Rightarrow> string + string) \<Rightarrow> Outbox \<Rightarrow> Outbox" where
  "processSlackDelivery X E now cooling slack ob =
     (case prepare_delivery X E now cooling ob of
        (Failing item err, ob) \<Rightarrow> settle_failure E now item err ob
      | (Calling item, ob) \<Rightarrow> settle_delivery X E now item (slack item) ob
      | (_, ob) \<Rightarrow> ob)"

section \<open>Reconciliation\<close>

text \<open>What Slack's history said of an uncertain write.\<close>

datatype History = FoundAt string | Absent | HistoryError string

definition retry_uncertain ::
    "gotime \<Rightarrow> DeliveryRow \<Rightarrow> string \<Rightarrow> gotime \<Rightarrow> UncertainDisposition \<Rightarrow> Outbox \<Rightarrow> Outbox" where
  "retry_uncertain now item detail next_at disposition ob =
     keep_tables ob (RetryUncertain now (dl_ID item) detail next_at disposition (ob_tables ob))"

definition give_up_absent :: "SlackEnv \<Rightarrow> gotime \<Rightarrow> DeliveryRow \<Rightarrow> bool \<Rightarrow> Outbox \<Rightarrow> Outbox" where
  "give_up_absent E now item retried ob =
     (let ob = (case work_channel (ob_tables ob) item of
            None \<Rightarrow> ob
          | Some i \<Rightarrow> SetIncidentError now (dl_IncidentID item) (inc_Workflow i)
              ''Slack delivery failed after the configured retry limit.'' ob)
      in if retried \<and> dl_Operation item = ''file''
         then enqueueGeneratedVisualFailure E now item (dl_LastError item) ob else ob)"

definition reconciled ::
    "OutboxFns \<Rightarrow> SlackEnv \<Rightarrow> gotime \<Rightarrow> DeliveryRow \<Rightarrow> History \<Rightarrow> Outbox \<Rightarrow> Outbox" where
  "reconciled X E now item history ob =
     (case history of
        FoundAt ts \<Rightarrow> keep_outbox ob (FinishSlackDelivery X now (dl_ID item) ts ''uncertain'' ob)
      | Absent \<Rightarrow>
          let terminally = Timing.Exhausted (dl_Attempts item) (env_maxAttempts E);
              result = RetryUncertain now (dl_ID item) ''Slack history confirmed the message was not posted''
                (queueDelay now (dl_Attempts item)) (ConfirmedAbsent terminally) (ob_tables ob);
              ob = keep_tables ob result
          in if terminally then give_up_absent E now item (case result of Inl _ \<Rightarrow> False | Inr _ \<Rightarrow> True) ob else ob
      | HistoryError err \<Rightarrow> retry_uncertain now item (trim_space err) (queueDelay now (dl_Attempts item)) UncertainAgain ob)"

definition reconcile_item ::
    "OutboxFns \<Rightarrow> SlackEnv \<Rightarrow> gotime \<Rightarrow> (DeliveryRow \<Rightarrow> History) \<Rightarrow> DeliveryRow \<Rightarrow> Outbox \<Rightarrow> Outbox" where
  "reconcile_item X E now history item ob =
     (if dl_IncidentID item \<noteq> [] \<and> work_channel (ob_tables ob) item = None then ob
      else case channel_closed (ob_tables ob) item of
        Some closed \<Rightarrow> retry_uncertain now item
          (''Slack reconciliation suppressed because the work conversation is '' @ closed) now UncertainTerminal ob
      | None \<Rightarrow>
          if dl_Operation item = ''file''
          then (case env_file E (dl_Body item) of
              Some err \<Rightarrow> retry_uncertain now item (trim_space err) now UncertainTerminal ob
            | None \<Rightarrow>
                if PermanentDeliveryError (dl_LastError item)
                then (case RetryUncertain now (dl_ID item) (dl_LastError item) now UncertainTerminal (ob_tables ob) of
                    Inl _ \<Rightarrow> ob
                  | Inr st \<Rightarrow> enqueueGeneratedVisualFailure E now item (dl_LastError item) (ob\<lparr>ob_tables := st\<rparr>))
                else reconciled X E now item (history item) ob)
          else reconciled X E now item (history item) ob)"

definition reconcileSlackDelivery ::
    "OutboxFns \<Rightarrow> SlackEnv \<Rightarrow> gotime \<Rightarrow> (DeliveryRow \<Rightarrow> History) \<Rightarrow> Outbox \<Rightarrow> Outbox" where
  "reconcileSlackDelivery X E now history ob =
     (case ListUncertainSlackDeliveries (xf_sql X) now 1 (ob_tables ob) of
        [] \<Rightarrow> ob
      | item # _ \<Rightarrow> reconcile_item X E now history item ob)"

end
