(* ===== verification/SlackSafety.thy ===== *)
theory SlackSafety
  imports SlackWorker
begin

text \<open>
  What the outbox guarantees however its two lanes, the other transactions and restarts interleave:
  a message is written to Slack a second time only after Slack's history said that it is missing, and
  what is leased is in order and goes where its episode speaks now.
\<close>

section \<open>Laws of rows\<close>

text \<open>How one transaction may change the rows: every row keeps its place and changes as the law
  allows, and what is added has identities of its own.\<close>

definition keeps :: "(DeliveryRow \<Rightarrow> DeliveryRow \<Rightarrow> bool) \<Rightarrow> DeliveryRow list \<Rightarrow> DeliveryRow list \<Rightarrow> bool" where
  "keeps R rows rows' \<longleftrightarrow>
     (\<exists>olds news. rows' = olds @ news \<and> list_all2 R rows olds \<and> distinct (map dl_ID news)
        \<and> set (map dl_ID news) \<inter> set (map dl_ID rows) = {})"

locale row_law =
  fixes R :: "DeliveryRow \<Rightarrow> DeliveryRow \<Rightarrow> bool"
  assumes refl: "R d d"
    and trans: "R a b \<Longrightarrow> R b c \<Longrightarrow> R a c"
    and identity: "R d d' \<Longrightarrow> dl_ID d' = dl_ID d"
begin

lemma all_refl [simp]: "list_all2 R rows rows"
  by (simp add: list_all2_refl refl)

lemma ids: "list_all2 R rows olds \<Longrightarrow> map dl_ID olds = map dl_ID rows"
  by (induction rule: list_all2_induct) (auto dest: identity)

lemma keeps_refl [simp]: "keeps R rows rows"
  unfolding keeps_def by (intro exI [of _ rows] exI [of _ "[]"]) simp

lemma keeps_all: "list_all2 R rows rows' \<Longrightarrow> keeps R rows rows'"
  unfolding keeps_def by (intro exI [of _ rows'] exI [of _ "[]"]) simp

lemma keeps_trans:
  assumes "keeps R a b" and "keeps R b c"
  shows "keeps R a c"
proof -
  from assms(1) obtain o1 n1 where b: "b = o1 @ n1" "list_all2 R a o1" "distinct (map dl_ID n1)"
    "set (map dl_ID n1) \<inter> set (map dl_ID a) = {}" by (auto simp: keeps_def)
  from assms(2) obtain o2 n2 where c: "c = o2 @ n2" "list_all2 R b o2" "distinct (map dl_ID n2)"
    "set (map dl_ID n2) \<inter> set (map dl_ID b) = {}" by (auto simp: keeps_def)
  from c(2) b(1) obtain p q where pq: "o2 = p @ q" "list_all2 R o1 p" "list_all2 R n1 q"
    by (auto simp: list_all2_append1)
  have "list_all2 R a p" using b(2) pq(2) by (rule list_all2_trans [rotated]) (rule trans)
  moreover have "map dl_ID q = map dl_ID n1" "map dl_ID o1 = map dl_ID a"
    using ids [OF pq(3)] ids [OF b(2)] by simp_all
  ultimately show ?thesis
    unfolding keeps_def using b c pq
    by (intro exI [of _ p] exI [of _ "q @ n2"]) (auto simp flip: set_map)
qed

lemma keeps_update:
  "(\<And>d. d \<in> set (rs_deliveries st) \<Longrightarrow> P d \<Longrightarrow> R d (f d)) \<Longrightarrow>
   keeps R (rs_deliveries st) (rs_deliveries (update_deliveries P f st))"
  by (rule keeps_all) (auto simp: update_deliveries_def list_all2_conv_all_nth refl)

lemma keeps_indexed:
  "(\<And>i d. P i d \<Longrightarrow> R d (f d)) \<Longrightarrow>
   keeps R (rs_deliveries st) (rs_deliveries (update_indexed P f st))"
  by (rule keeps_all) (auto simp: update_indexed_def list_all2_conv_all_nth refl nth_enumerate_eq)

lemma keeps_append: "dl_ID row \<notin> set (map dl_ID rows) \<Longrightarrow> keeps R rows (rows @ [row])"
  unfolding keeps_def by (intro exI [of _ rows] exI [of _ "[row]"]) auto

lemma keeps_distinct: "keeps R rows rows' \<Longrightarrow> distinct (map dl_ID rows) \<Longrightarrow> distinct (map dl_ID rows')"
  unfolding keeps_def using ids by fastforce

lemma keeps_ids: "keeps R rows rows' \<Longrightarrow> set (map dl_ID rows) \<subseteq> set (map dl_ID rows')"
  unfolding keeps_def using ids by (metis set_append map_append Un_upper1)

end

text \<open>Settled for good: sent, or withdrawn; only the withdrawal of a file can be taken back.\<close>

definition settled :: "DeliveryRow \<Rightarrow> bool" where
  "settled d \<longleftrightarrow> dl_State d = ''sent'' \<or> dl_State d = ''superseded'' \<and> dl_Operation d \<noteq> ''file''"

definition calm :: "DeliveryRow \<Rightarrow> DeliveryRow \<Rightarrow> bool" where
  "calm d d' \<longleftrightarrow>
     dl_ID d' = dl_ID d \<and> dl_Operation d' = dl_Operation d \<and> (settled d \<longrightarrow> settled d')
     \<and> (dl_Operation d = ''post'' \<and> \<not> queued d \<longrightarrow> \<not> queued d')"

text \<open>The law but for one delivery.\<close>

definition calm_but :: "string \<Rightarrow> DeliveryRow \<Rightarrow> DeliveryRow \<Rightarrow> bool" where
  "calm_but rid d d' \<longleftrightarrow>
     dl_ID d' = dl_ID d \<and> dl_Operation d' = dl_Operation d \<and> (settled d \<longrightarrow> settled d')
     \<and> (dl_ID d \<noteq> rid \<longrightarrow> calm d d')"

interpretation calm: row_law calm
  by unfold_locales (auto simp: calm_def)

interpretation but: row_law "calm_but rid" for rid
  by unfold_locales (auto simp: calm_but_def calm_def)

lemma calm_is_but: "calm d d' \<Longrightarrow> calm_but rid d d'"
  by (simp add: calm_but_def calm_def)

lemma keeps_calm_but: "keeps calm a b \<Longrightarrow> keeps (calm_but rid) a b"
  unfolding keeps_def using list_all2_mono [of calm] calm_is_but by metis

lemma keeps_but_calm:
  assumes "keeps (calm_but rid) a b" and "\<And>d. d \<in> set a \<Longrightarrow> dl_ID d = rid \<Longrightarrow> dl_Operation d = ''post'' \<Longrightarrow> queued d"
  shows "keeps calm a b"
proof -
  from assms(1) obtain olds news where b: "b = olds @ news" "list_all2 (calm_but rid) a olds"
    "distinct (map dl_ID news)" "set (map dl_ID news) \<inter> set (map dl_ID a) = {}"
    by (auto simp: keeps_def)
  from b(2) have "list_all2 calm a olds"
  proof (rule list.rel_mono_strong)
    show "calm d d'" if "d \<in> set a" "d' \<in> set olds" "calm_but rid d d'" for d d'
      using that assms(2) [of d] by (auto simp: calm_but_def calm_def)
  qed
  with b show ?thesis by (auto simp: keeps_def)
qed

section \<open>The transactions keep the law\<close>

lemma calm_superseded: "\<not> (dl_Operation d = ''file'' \<and> dl_State d = ''sent'') \<Longrightarrow> calm d (superseded_delivery now why d)"
  by (auto simp: calm_def settled_def superseded_delivery_def queued_def)

lemma calm_withdrawn: "queued d \<Longrightarrow> calm d (superseded_delivery now why d)"
  by (rule calm_superseded) (auto simp: queued_def)

lemma withdraw_stale_calm: "keeps calm (deliveries ob) (rs_deliveries (withdraw_stale X now ob))"
  unfolding withdraw_stale_def Let_def
  by (intro calm.keeps_trans [OF calm.keeps_update calm.keeps_trans [OF calm.keeps_indexed calm.keeps_update]]
      calm_withdrawn) auto

lemma lease_choice_in:
  assumes "lease_choice F now cooling rows = Some d"
  shows "\<exists>i < length rows. rows ! i = d \<and> delivery_leasable F now cooling rows i d"
proof -
  have first: "first_by precedes xs = Some x \<Longrightarrow> x \<in> set xs" for precedes :: "DeliveryRow \<Rightarrow> DeliveryRow \<Rightarrow> bool" and xs x
    by (induction xs arbitrary: x) (auto split: option.splits if_splits)
  from assms have "d \<in> snd ` set (filter (\<lambda>(i, d). delivery_leasable F now cooling rows i d) (enumerate 0 rows))"
    unfolding lease_choice_def by (auto dest: first)
  then show ?thesis by (auto simp: in_set_enumerate_eq)
qed

lemma lease_calm:
  assumes "LeaseSlackDelivery X now cooling ob = (found, ob')"
  shows "keeps calm (deliveries ob) (deliveries ob')"
proof (cases "lease_choice (xf_sql X) now cooling (rs_deliveries (withdraw_stale X now ob))")
  case None
  with assms withdraw_stale_calm [of ob X now] show ?thesis by (auto simp: LeaseSlackDelivery_def)
next
  case (Some d)
  have "keeps calm (rs_deliveries (withdraw_stale X now ob))
     (rs_deliveries (update_deliveries (\<lambda>r. dl_ID r = dl_ID d \<and> queued r)
        (\<lambda>r. r\<lparr>dl_State := ''sending'', dl_UpdatedAt := now\<rparr>) (withdraw_stale X now ob)))"
    by (rule calm.keeps_update) (auto simp: calm_def settled_def queued_def)
  with Some assms withdraw_stale_calm [of ob X now] show ?thesis
    by (auto simp: LeaseSlackDelivery_def Let_def intro: calm.keeps_trans)
qed

lemma lease_found:
  assumes "LeaseSlackDelivery X now cooling ob = (Some item, ob')"
  obtains i where "i < length (rs_deliveries (withdraw_stale X now ob))"
    and "delivery_leasable (xf_sql X) now cooling (rs_deliveries (withdraw_stale X now ob)) i
       (rs_deliveries (withdraw_stale X now ob) ! i)"
    and "item = (rs_deliveries (withdraw_stale X now ob) ! i)\<lparr>dl_State := ''sending''\<rparr>"
  using assms lease_choice_in by (fastforce simp: LeaseSlackDelivery_def Let_def split: option.splits)


lemma lease_queued:
  assumes "LeaseSlackDelivery X now cooling ob = (Some item, ob')" and "distinct (map dl_ID (deliveries ob))"
    and "d \<in> set (deliveries ob)" and "dl_ID d = dl_ID item"
  shows "dl_Operation d = dl_Operation item \<and> (dl_Operation d = ''post'' \<longrightarrow> queued d)"
proof -
  let ?rows = "rs_deliveries (withdraw_stale X now ob)"
  obtain i where i: "i < length ?rows" and leas: "delivery_leasable (xf_sql X) now cooling ?rows i (?rows ! i)"
    and item: "item = (?rows ! i)\<lparr>dl_State := ''sending''\<rparr>" using lease_found [OF assms(1)] by blast
  have len: "length ?rows = length (deliveries ob)"
    by (simp add: withdraw_stale_def Let_def update_deliveries_def update_indexed_def)
  from withdraw_stale_calm [of ob X now] obtain olds news where
    o: "?rows = olds @ news" "list_all2 calm (deliveries ob) olds" by (auto simp: keeps_def)
  with len have all: "list_all2 calm (deliveries ob) ?rows" by (simp add: list_all2_lengthD)
  from assms(3) obtain j where j: "j < length (deliveries ob)" "deliveries ob ! j = d" by (auto simp: in_set_conv_nth)
  have "map dl_ID ?rows = map dl_ID (deliveries ob)" by (rule calm.ids [OF all])
  then have "dl_ID (deliveries ob ! i) = dl_ID (deliveries ob ! j)"
    using i len j item assms(4) nth_map [of i ?rows dl_ID] nth_map [of i "deliveries ob" dl_ID] by simp
  then have "i = j" using assms(2) i len j(1) by (metis distinct_conv_nth length_map nth_map)
  with all i j have "calm d (?rows ! i)" by (auto simp: list_all2_conv_all_nth)
  moreover from leas have "queued (?rows ! i)" by (simp add: delivery_leasable_def)
  ultimately show ?thesis by (auto simp: calm_def item)
qed

lemma enqueued_id [simp]: "dl_ID (enqueued_row now d) = dl_ID d" "dl_State (enqueued_row now d) = ''pending''"
  "dl_Operation (enqueued_row now d) = dl_Operation d"
  by (simp_all add: enqueued_row_def delivery_row_def SlackDelivery.extend_def split: prod.split)

lemma insert_calm:
  assumes "insert_delivery now d st = Inr (fresh, st')"
  shows "keeps calm (rs_deliveries st) (rs_deliveries st')"
proof (cases "list_ex (\<lambda>row. dl_ID row = dl_ID d) (rs_deliveries st)")
  case False
  then have app: "keeps calm (rs_deliveries st) (rs_deliveries st @ [enqueued_row now d])"
    by (intro calm.keeps_append) (auto simp: list_ex_iff)
  let ?st = "st\<lparr>rs_deliveries := rs_deliveries st @ [enqueued_row now d]\<rparr>"
  have "keeps calm (rs_deliveries ?st) (rs_deliveries (update_indexed (coalesced_away ?st d)
      (\<lambda>row. row\<lparr>dl_State := ''superseded'', dl_UpdatedAt := now\<rparr>) ?st))"
    by (rule calm.keeps_indexed) (auto simp: coalesced_away_def calm_def settled_def queued_def)
  with assms False app show ?thesis
    by (auto simp: insert_delivery_def Let_def split: if_splits intro: calm.keeps_trans)
qed (use assms in \<open>simp add: insert_delivery_def\<close>)

lemma enqueue_calm:
  assumes "EnqueueSlackDelivery now fresh d st = Inr (b, st')"
  shows "keeps calm (rs_deliveries st) (rs_deliveries st')"
  using assms insert_calm
  by (auto simp: EnqueueSlackDelivery_def Let_def and_then_Inr split: option.splits if_splits)

lemma open_thread_calm:
  "open_reply_thread X now d ts st = Inr st' \<Longrightarrow> keeps calm (rs_deliveries st) (rs_deliveries st')"
  unfolding open_reply_thread_def Let_def
  by (auto split: if_splits option.splits sum.splits
      intro!: calm.keeps_update [of "st\<lparr>rs_ep := ep\<rparr>" for ep, simplified]
      simp: calm_def settled_def queued_def retargeted_row_def)

lemma bind_root_same: "bind_root now d ts st = Inr st' \<Longrightarrow> rs_deliveries st' = rs_deliveries st"
  by (auto simp: bind_root_def update_incident_def split: if_splits option.splits)

lemma card_changes_same [simp]:
  "rs_deliveries (card_rendered now d st) = rs_deliveries st"
  "rs_deliveries (changes_shown now d ts st) = rs_deliveries st"
  by (simp_all add: card_rendered_def changes_shown_def update_incident_def)

lemma upload_replaced_calm: "keeps calm (rs_deliveries st) (rs_deliveries (upload_replaced now d st))"
  unfolding upload_replaced_def
  by (auto intro!: calm.keeps_update calm_superseded)

lemma close_epoch_calm: "CloseDeleteEpoch now rid st = Inr st' \<Longrightarrow> keeps calm (rs_deliveries st) (rs_deliveries st')"
  unfolding CloseDeleteEpoch_def
  by (auto split: option.splits if_splits intro!: calm.keeps_indexed calm_superseded simp: preparation_notice_def)

lemma sent_calm: "calm d (sent_row now ts d)"
  by (simp add: calm_def settled_def sent_row_def queued_def)

lemma map_sum_id_Inr: "map_sum id f s = Inr y \<longleftrightarrow> (\<exists>z. s = Inr z \<and> y = f z)"
  by (cases s) auto

lemma finish_calm:
  assumes "FinishSlackDelivery X now rid ts was ob = Inr ob'"
  shows "keeps calm (deliveries ob) (deliveries ob')"
proof -
  note calm.keeps_trans [trans]
  obtain pos d where d: "delivery_by_id rid (ob_tables ob) = Some (pos, d)"
    using assms by (cases "delivery_by_id rid (ob_tables ob)") (auto simp: FinishSlackDelivery_def)
  then have was: "dl_State d = was" using assms by (rule_tac ccontr) (simp add: FinishSlackDelivery_def)
  obtain a b c where
    a: "open_reply_thread X now d ts (update_deliveries (\<lambda>r. dl_ID r = rid \<and> dl_State r = was) (sent_row now ts) (ob_tables ob)) = Inr a"
    and b: "bind_root now d ts (upload_replaced now d a) = Inr b"
    and c: "(if dl_Operation d = ''delete'' \<and> dl_Kind d = ''notice_retirement''
        then CloseDeleteEpoch now rid (changes_shown now d ts (card_rendered now d b))
        else Inr (changes_shown now d ts (card_rendered now d b))) = Inr c"
    and ob': "ob_tables ob' = c"
    using assms unfolding FinishSlackDelivery_def d Let_def
    by (auto simp: was and_then_Inr map_sum_id_Inr)
  have "keeps calm (deliveries ob) (rs_deliveries (update_deliveries (\<lambda>r. dl_ID r = rid \<and> dl_State r = was) (sent_row now ts) (ob_tables ob)))"
    by (rule calm.keeps_update) (rule sent_calm)
  also have "keeps calm \<dots> (rs_deliveries a)" by (rule open_thread_calm [OF a])
  also have "keeps calm \<dots> (rs_deliveries b)"
    using upload_replaced_calm bind_root_same [OF b] by metis
  also have "keeps calm \<dots> (rs_deliveries c)"
    using c by (auto split: if_splits dest: close_epoch_calm)
  finally show ?thesis by (simp add: ob')
qed

lemma retried_but: "dl_State d \<in> {''sending'', ''uncertain''} \<Longrightarrow> calm_but (dl_ID d) d (retried_row now to why next_at d)"
  by (auto simp: calm_but_def settled_def retried_row_def)

lemma retried_calm:
  "dl_State d \<in> {''sending'', ''uncertain''} \<Longrightarrow> to \<notin> {''pending'', ''retry''} \<Longrightarrow> calm d (retried_row now to why next_at d)"
  by (auto simp: calm_def settled_def queued_def retried_row_def)

lemma retry_but:
  assumes "RetrySlackDelivery now rid detail next_at uncertain terminally st = Inr st'"
  shows "keeps (calm_but rid) (rs_deliveries st) (rs_deliveries st')"
  using assms unfolding RetrySlackDelivery_def
  by (auto split: option.splits if_splits prod.splits intro!: but.keeps_update retried_but)

lemma retry_uncertain_calm:
  assumes "RetrySlackDelivery now rid detail next_at True terminally st = Inr st'"
  shows "keeps calm (rs_deliveries st) (rs_deliveries st')"
proof -
  have "calm d (retried_row now to why next_at d)"
    if "retry_outcome st pos d' detail True terminally = (to, why)" "dl_State d = ''sending''" for d to why pos d'
    using that by (auto simp: retry_outcome_def Let_def calm_def settled_def queued_def retried_row_def split: if_splits)
  with assms show ?thesis
    unfolding RetrySlackDelivery_def
    by (auto split: option.splits if_splits prod.splits intro!: calm.keeps_update)
qed

lemma supersede_leased_calm:
  "SupersedeLeased now rid detail st = Inr st' \<Longrightarrow> keeps calm (rs_deliveries st) (rs_deliveries st')"
  unfolding SupersedeLeased_def
  by (auto split: if_splits intro!: calm.keeps_update calm_superseded)

lemma retry_uncertain_but:
  assumes "RetryUncertain now rid detail next_at disposition st = Inr st'"
  shows "keeps (calm_but rid) (rs_deliveries st) (rs_deliveries st')"
  using assms unfolding RetryUncertain_def Let_def
  by (auto split: option.splits if_splits intro!: but.keeps_update retried_but)

lemma undecided_calm:
  assumes "RetryUncertain now rid detail next_at disposition st = Inr st'"
    and "disposition \<in> {UncertainAgain, UncertainTerminal, ConfirmedAbsentFailed}"
  shows "keeps calm (rs_deliveries st) (rs_deliveries st')"
proof -
  have "disposed_state disposition \<noteq> ''pending''" "disposed_state disposition \<noteq> ''retry''"
    using assms(2) by auto
  with assms(1) show ?thesis
    unfolding RetryUncertain_def Let_def
    by (auto split: option.splits if_splits intro!: calm.keeps_update retried_calm)
qed

lemma resolve_calm:
  "ResolveDelete now rid st = Inr (r, st') \<Longrightarrow> keeps calm (rs_deliveries st) (rs_deliveries st')"
  unfolding ResolveDelete_def Let_def
  by (auto split: option.splits if_splits intro!: calm.keeps_update simp: calm_def settled_def queued_def)

lemma retire_calm: "keeps calm (rs_deliveries st) (rs_deliveries (retire_preparation now key st))"
proof -
  have "keeps calm (rs_deliveries st) (rs_deliveries (update_deliveries
      (\<lambda>d. preparation_notice key d \<and> dl_ID d \<noteq> rid \<and> dl_State d \<in> {''pending'', ''retry''})
      (superseded_delivery now why) (st\<lparr>rs_deliveries := rs_deliveries st @ [row]\<rparr>)))"
    if "\<not> list_ex (\<lambda>d. dl_ID d = dl_ID row) (rs_deliveries st)" for rid why row
  proof (rule calm.keeps_trans [OF calm.keeps_append])
    show "dl_ID row \<notin> set (map dl_ID (rs_deliveries st))" using that by (auto simp: list_ex_iff)
  qed (rule calm.keeps_update [of "st\<lparr>rs_deliveries := rs_deliveries st @ [row]\<rparr>", simplified],
      auto intro!: calm_withdrawn simp: queued_def)
  moreover have "dl_ID (retirement_row now key rid blocker) = rid" for rid blocker
    by (simp add: retirement_row_def SlackDelivery.extend_def)
  ultimately show ?thesis
    unfolding retire_preparation_def Let_def by (auto split: option.splits)
qed

lemma recover_calm: "keeps calm (rs_deliveries st) (rs_deliveries (RecoverInterrupted now st))"
  unfolding RecoverInterrupted_def Let_def
  by (simp, rule calm.keeps_update [of "with_runs r st" for r, unfolded with_runs_def, simplified, folded with_runs_def])
    (auto simp: calm_def settled_def queued_def)

lemma withdraw_calm: "keeps calm (rs_deliveries st) (rs_deliveries (withdraw_deliveries now r detail st))"
  unfolding withdraw_deliveries_def
  by (rule calm.keeps_update) (auto simp: calm_def settled_def queued_def in_flight_def)

lemma visual_calm:
  assumes "RetryLatestGeneratedVisual now channel thread st = Inr (d, st')" and "distinct (map dl_ID (rs_deliveries st))"
  shows "keeps calm (rs_deliveries st) (rs_deliveries st')"
proof -
  obtain c where c: "retry_visual_choice channel thread (rs_deliveries st) = Some c"
    and st': "st' = update_deliveries (\<lambda>r. dl_ID r = dl_ID c \<and> dl_State r = dl_State c)
       (\<lambda>r. r\<lparr>dl_State := ''retry'', dl_Attempts := 0, dl_NextAttemptAt := now, dl_LastError := [], dl_UpdatedAt := now\<rparr>) st"
    using assms(1) by (auto simp: RetryLatestGeneratedVisual_def split: if_splits option.splits)
  have first: "first_by precedes xs = Some x \<Longrightarrow> x \<in> set xs" for precedes :: "DeliveryRow \<Rightarrow> DeliveryRow \<Rightarrow> bool" and xs x
    by (induction xs arbitrary: x) (auto split: option.splits if_splits)
  from c have in_c: "c \<in> set (rs_deliveries st)" "visual c" "queued c \<or> given_up c"
    unfolding retry_visual_choice_def Let_def by (auto split: option.splits if_splits dest!: first)
  have "calm r (r\<lparr>dl_State := ''retry'', dl_Attempts := 0, dl_NextAttemptAt := now, dl_LastError := [], dl_UpdatedAt := now\<rparr>)"
    if "r \<in> set (rs_deliveries st)" "dl_ID r = dl_ID c" for r
  proof -
    have "r = c" using that in_c(1) assms(2) by (auto simp: distinct_map inj_on_def)
    with in_c(2,3) show ?thesis by (auto simp: calm_def settled_def queued_def given_up_def visual_def)
  qed
  then show ?thesis unfolding st' by (intro calm.keeps_update) auto
qed

lemma delivery_row_id [simp]: "dl_ID (delivery_row now d) = dl_ID d"
  by (simp add: delivery_row_def SlackDelivery.extend_def split: prod.split)

lemma guarded_Inr:
  "(if c then Inl e else f) = Inr y \<longleftrightarrow> \<not> c \<and> f = Inr y"
  "(case x of None \<Rightarrow> Inl e | Some d \<Rightarrow> g d) = Inr y \<longleftrightarrow> (\<exists>d. x = Some d \<and> g d = Inr y)"
  "(if c then Inr z else f) = Inr y \<longleftrightarrow> (if c then z = y else f = Inr y)"
  by (auto split: option.split)

lemma guarded_choice: "(if a \<or> b then z = y else \<not> c \<and> w = y) \<Longrightarrow> y = z \<or> \<not> a \<and> y = w"
  by (auto split: if_splits)

lemma terminal_insert_calm:
  assumes "insertTerminalSlackDelivery now d st = Inr st'"
  shows "keeps calm (rs_deliveries st) (rs_deliveries st')"
proof -
  have "st' = st \<or> (\<exists>d'. \<not> list_ex (\<lambda>row. dl_ID row = dl_ID d') (rs_deliveries st)
      \<and> st' = st\<lparr>rs_deliveries := rs_deliveries st @ [delivery_row now d']\<rparr>)"
    using assms unfolding insertTerminalSlackDelivery_def Let_def guarded_Inr sum.inject
    by - (elim conjE exE, drule guarded_choice, blast)
  then show ?thesis by (fastforce simp: list_ex_iff intro!: calm.keeps_append)
qed

section \<open>The lanes\<close>

lemma keep_tables_cases: "keep_tables ob r = ob \<or> (\<exists>st. r = Inr st \<and> keep_tables ob r = ob\<lparr>ob_tables := st\<rparr>)"
  by (cases r) (auto simp: keep_tables_def)

lemma keep_outbox_calm:
  "keeps calm (deliveries ob) (deliveries (keep_outbox ob (FinishSlackDelivery X now rid ts was ob)))"
  unfolding keep_outbox_def
  by (cases "FinishSlackDelivery X now rid ts was ob") (auto intro: finish_calm)

lemma retry_leased_but:
  "keeps (calm_but (dl_ID item)) (deliveries ob) (deliveries (retry_leased now item why next_at uncertain terminally ob))"
  unfolding retry_leased_def keep_tables_def by (auto split: sum.split dest: retry_but)

lemma retry_leased_calm:
  "keeps calm (deliveries ob) (deliveries (retry_leased now item why next_at True terminally ob))"
  unfolding retry_leased_def keep_tables_def by (auto split: sum.split dest: retry_uncertain_calm)

lemma SetIncidentError_same [simp]: "deliveries (SetIncidentError now rid workflow detail ob) = deliveries ob"
  by (simp add: SetIncidentError_def update_incident_def)

lemma visual_failure_calm: "keeps calm (deliveries ob) (deliveries (enqueueGeneratedVisualFailure E now d detail ob))"
  unfolding enqueueGeneratedVisualFailure_def keep_tables_def map_sum_def
  by (auto split: sum.splits dest: enqueue_calm)

lemma prepare_write_but:
  assumes "prepare_write X E now item ob = (p, ob')"
  shows "keeps (calm_but (dl_ID item)) (deliveries ob) (deliveries ob')
    \<and> (case p of Calling item' \<Rightarrow> keeps calm (deliveries ob) (deliveries ob')
          \<and> dl_ID item' = dl_ID item \<and> dl_Operation item' = dl_Operation item
        | Failing item' why \<Rightarrow> ob' = ob \<and> item' = item \<and> dl_Operation item \<noteq> ''post''
        | _ \<Rightarrow> True)"
  using assms resolve_calm [of now "dl_ID item" "ob_tables ob", THEN keeps_calm_but]
    resolve_calm [of now "dl_ID item" "ob_tables ob"] keeps_calm_but [OF keep_outbox_calm [of ob X now "dl_ID item" "[]" "''sending''"]]
  unfolding prepare_write_def Let_def
  by (auto split: if_splits option.splits sum.splits intro: retry_leased_but)

lemma settle_failure_calm:
  assumes "\<And>d. d \<in> set (deliveries ob) \<Longrightarrow> dl_ID d = dl_ID item \<Longrightarrow> dl_Operation d = dl_Operation item"
  shows "keeps calm (deliveries ob) (deliveries (settle_failure E now item err ob))"
proof -
  let ?permanent = "dl_Operation item = ''file'' \<and> PermanentDeliveryError err"
  let ?uncertain = "uncertain_operation (dl_Operation item) \<and> \<not> ?permanent"
  let ?terminally = "Timing.Exhausted (dl_Attempts item) (env_maxAttempts E) \<or> ?permanent"
  have "keeps calm (deliveries ob) (rs_deliveries st)"
    if "RetrySlackDelivery now (dl_ID item) why next_at ?uncertain ?terminally (ob_tables ob) = Inr st" for why next_at st
  proof (cases "dl_Operation item = ''post''")
    case True
    with that have "RetrySlackDelivery now (dl_ID item) why next_at True ?terminally (ob_tables ob) = Inr st"
      by (simp add: uncertain_operation_def)
    then show ?thesis by (rule retry_uncertain_calm)
  next
    case False
    show ?thesis by (rule keeps_but_calm [OF retry_but [OF that]]) (use assms False in auto)
  qed
  then show ?thesis
    unfolding settle_failure_def Let_def
    by (auto split: sum.splits intro: calm.keeps_trans [OF _ visual_failure_calm] calm.keeps_trans [OF _ visual_failure_calm, of _ "ob\<lparr>ob_tables := st\<rparr>" for st, simplified])
qed

lemma settle_calm:
  assumes "\<And>d. d \<in> set (deliveries ob) \<Longrightarrow> dl_ID d = dl_ID item \<Longrightarrow> dl_Operation d = dl_Operation item"
  shows "keeps calm (deliveries ob) (deliveries (settle_delivery X E now item result ob))"
proof (cases result)
  case (Inl err)
  with settle_failure_calm [OF assms] show ?thesis by (simp add: settle_delivery_def)
next
  case (Inr ts)
  have "keeps calm (deliveries ob) (deliveries (retry_leased now item why next_at (uncertain_operation (dl_Operation item)) False ob))"
    for why next_at
  proof (cases "dl_Operation item = ''post''")
    case True
    then show ?thesis by (simp add: uncertain_operation_def retry_leased_calm)
  next
    case False
    show ?thesis by (rule keeps_but_calm [OF retry_leased_but]) (use assms False in auto)
  qed
  with Inr show ?thesis
    by (auto simp: settle_delivery_def split: sum.split intro: finish_calm)
qed

text \<open>What left the process, newest first: a Slack write that was started, and the answer of Slack's
  history that a message is not there.  Between the lanes, every other transaction that touches the
  outbox may run, and the process may stop at any moment.\<close>

datatype trace = Wrote string | Missing string

record Lanes =
  ln_box :: Outbox
  ln_flight :: "DeliveryRow list"
  ln_log :: "trace list"

definition consults_history :: "SlackEnv \<Rightarrow> RunStore \<Rightarrow> DeliveryRow \<Rightarrow> bool" where
  "consults_history E st item \<longleftrightarrow>
     (dl_IncidentID item = [] \<or> work_channel st item \<noteq> None) \<and> channel_closed st item = None
     \<and> (dl_Operation item = ''file'' \<longrightarrow> env_file E (dl_Body item) = None \<and> \<not> PermanentDeliveryError (dl_LastError item))"

definition history_trace ::
    "OutboxFns \<Rightarrow> SlackEnv \<Rightarrow> gotime \<Rightarrow> (DeliveryRow \<Rightarrow> History) \<Rightarrow> RunStore \<Rightarrow> trace list" where
  "history_trace X E now history st =
     (case ListUncertainSlackDeliveries (xf_sql X) now 1 st of
        [] \<Rightarrow> []
      | item # _ \<Rightarrow> if consults_history E st item \<and> history item = Absent then [Missing (dl_ID item)] else [])"

inductive lane_step :: "OutboxFns \<Rightarrow> SlackEnv \<Rightarrow> Lanes \<Rightarrow> Lanes \<Rightarrow> bool" for X E where
  called: "prepare_delivery X E now cooling (ln_box s) = (Calling item, ob) \<Longrightarrow>
    lane_step X E s (s\<lparr>ln_box := ob, ln_flight := item # ln_flight s, ln_log := Wrote (dl_ID item) # ln_log s\<rparr>)"
| failed: "prepare_delivery X E now cooling (ln_box s) = (Failing item err, ob) \<Longrightarrow>
    lane_step X E s (s\<lparr>ln_box := settle_failure E now item err ob\<rparr>)"
| quiet: "prepare_delivery X E now cooling (ln_box s) = (p, ob) \<Longrightarrow> p = Idle \<or> p = Settled \<Longrightarrow>
    lane_step X E s (s\<lparr>ln_box := ob\<rparr>)"
| answered: "item \<in> set (ln_flight s) \<Longrightarrow>
    lane_step X E s (s\<lparr>ln_box := settle_delivery X E now item result (ln_box s), ln_flight := remove1 item (ln_flight s)\<rparr>)"
| reconciled: "lane_step X E s (s\<lparr>ln_box := reconcileSlackDelivery X E now history (ln_box s),
      ln_log := history_trace X E now history (ob_tables (ln_box s)) @ ln_log s\<rparr>)"
| stopped: "lane_step X E s (s\<lparr>ln_box := (ln_box s)\<lparr>ob_tables := RecoverInterrupted now (ob_tables (ln_box s))\<rparr>,
      ln_flight := []\<rparr>)"
| enqueued: "EnqueueSlackDelivery now fresh d (ob_tables (ln_box s)) = Inr (b, st) \<Longrightarrow>
    lane_step X E s (s\<lparr>ln_box := (ln_box s)\<lparr>ob_tables := st\<rparr>\<rparr>)"
| noticed: "insertTerminalSlackDelivery now d (ob_tables (ln_box s)) = Inr st \<Longrightarrow>
    lane_step X E s (s\<lparr>ln_box := (ln_box s)\<lparr>ob_tables := st\<rparr>\<rparr>)"
| withdrawn: "lane_step X E s (s\<lparr>ln_box := (ln_box s)\<lparr>ob_tables :=
      update_deliveries (\<lambda>d. queued d \<and> P d) (superseded_delivery now why) (ob_tables (ln_box s))\<rparr>\<rparr>)"
| cancelled: "lane_step X E s (s\<lparr>ln_box := (ln_box s)\<lparr>ob_tables :=
      withdraw_deliveries now r detail (ob_tables (ln_box s))\<rparr>\<rparr>)"
| retired: "lane_step X E s (s\<lparr>ln_box := (ln_box s)\<lparr>ob_tables :=
      retire_preparation now key (ob_tables (ln_box s))\<rparr>\<rparr>)"
| redrawn: "RetryLatestGeneratedVisual now channel thread (ob_tables (ln_box s)) = Inr (d, st) \<Longrightarrow>
    lane_step X E s (s\<lparr>ln_box := (ln_box s)\<lparr>ob_tables := st\<rparr>\<rparr>)"
| elsewhere: "deliveries ob = deliveries (ln_box s) \<Longrightarrow> lane_step X E s (s\<lparr>ln_box := ob\<rparr>)"

text \<open>Written, and not known to be missing since.\<close>

fun dirty :: "string \<Rightarrow> trace list \<Rightarrow> bool" where
  "dirty rid [] = False"
| "dirty rid (Wrote i # log) = (i = rid \<or> dirty rid log)"
| "dirty rid (Missing i # log) = (i \<noteq> rid \<and> dirty rid log)"

fun spaced :: "string \<Rightarrow> trace list \<Rightarrow> bool" where
  "spaced rid [] = True"
| "spaced rid (Wrote i # log) = (spaced rid log \<and> (i = rid \<longrightarrow> \<not> dirty rid log))"
| "spaced rid (Missing i # log) = spaced rid log"

lemma clean_unwritten: "Wrote rid \<notin> set log \<Longrightarrow> \<not> dirty rid log \<and> spaced rid log"
  by (induction rid log rule: dirty.induct) auto

lemma clean_missing: "\<not> dirty rid (between @ Wrote rid # older) \<Longrightarrow> Missing rid \<in> set between"
  by (induction rid between rule: dirty.induct) auto

lemma spaced_between:
  "spaced rid (newer @ Wrote rid # between @ Wrote rid # older) \<Longrightarrow> Missing rid \<in> set between"
proof (induction newer)
  case (Cons e newer)
  then show ?case by (cases e) auto
qed (auto dest: clean_missing)

definition lanes_ok :: "Lanes \<Rightarrow> bool" where
  "lanes_ok s \<longleftrightarrow>
     distinct (map dl_ID (deliveries (ln_box s)))
     \<and> (\<forall>item \<in> set (ln_flight s). \<exists>d \<in> set (deliveries (ln_box s)). dl_ID d = dl_ID item \<and> dl_Operation d = dl_Operation item)
     \<and> (\<forall>rid. Wrote rid \<in> set (ln_log s) \<longrightarrow> rid \<in> dl_ID ` set (deliveries (ln_box s)))
     \<and> (\<forall>d \<in> set (deliveries (ln_box s)). dl_Operation d = ''post'' \<longrightarrow>
          spaced (dl_ID d) (ln_log s) \<and> (dirty (dl_ID d) (ln_log s) \<longrightarrow> \<not> queued d))"

lemma keeps_forth:
  assumes "keeps R a b" and "d \<in> set a"
  obtains d' where "d' \<in> set b" "R d d'"
  using assms unfolding keeps_def
  by (metis in_set_conv_nth list_all2_conv_all_nth nth_mem set_append UnCI)

lemma keeps_back:
  assumes "keeps R a b" and "d' \<in> set b"
  shows "(\<exists>d \<in> set a. R d d') \<or> dl_ID d' \<notin> dl_ID ` set a"
proof -
  from assms(1) obtain olds news where b: "b = olds @ news" "list_all2 R a olds" "set (map dl_ID news) \<inter> set (map dl_ID a) = {}"
    by (auto simp: keeps_def)
  with assms(2) consider "d' \<in> set olds" | "d' \<in> set news" by auto
  then show ?thesis
  proof cases
    case 1
    with b(2) show ?thesis by (metis in_set_conv_nth list_all2_conv_all_nth)
  next
    case 2
    with b(3) show ?thesis by auto
  qed
qed

lemma lanes_ok_calm:
  assumes "lanes_ok s" and "keeps calm (deliveries (ln_box s)) (deliveries (ln_box t))"
    and "set (ln_flight t) \<subseteq> set (ln_flight s)" and "ln_log t = ln_log s"
  shows "lanes_ok t"
proof -
  let ?a = "deliveries (ln_box s)" and ?b = "deliveries (ln_box t)"
  have "distinct (map dl_ID ?b)" using assms(1,2) calm.keeps_distinct by (auto simp: lanes_ok_def)
  moreover have "\<exists>d \<in> set ?b. dl_ID d = dl_ID item \<and> dl_Operation d = dl_Operation item" if "item \<in> set (ln_flight t)" for item
  proof -
    from that assms(1,3) obtain d where "d \<in> set ?a" "dl_ID d = dl_ID item" "dl_Operation d = dl_Operation item"
      unfolding lanes_ok_def by blast
    moreover from keeps_forth [OF assms(2) this(1)] obtain d' where "d' \<in> set ?b" "calm d d'" .
    ultimately show ?thesis by (auto simp: calm_def intro!: bexI [of _ d'])
  qed
  moreover have "rid \<in> dl_ID ` set ?b" if "Wrote rid \<in> set (ln_log s)" for rid
    using that assms(1) calm.keeps_ids [OF assms(2)] by (auto simp: lanes_ok_def)
  moreover have "spaced (dl_ID d') (ln_log s) \<and> (dirty (dl_ID d') (ln_log s) \<longrightarrow> \<not> queued d')"
    if "d' \<in> set ?b" "dl_Operation d' = ''post''" for d'
    using keeps_back [OF assms(2) that(1)]
  proof
    assume "\<exists>d \<in> set ?a. calm d d'"
    with that(2) assms(1) show ?thesis by (auto simp: lanes_ok_def calm_def)
  next
    assume "dl_ID d' \<notin> dl_ID ` set ?a"
    with assms(1) have "Wrote (dl_ID d') \<notin> set (ln_log s)" by (auto simp: lanes_ok_def)
    then show ?thesis using clean_unwritten by blast
  qed
  ultimately show ?thesis unfolding lanes_ok_def assms(4) by blast
qed

lemma lease_sending:
  assumes "LeaseSlackDelivery X now cooling ob = (Some item, ob')"
  shows "\<exists>d \<in> set (deliveries ob'). dl_ID d = dl_ID item \<and> dl_Operation d = dl_Operation item \<and> dl_State d = ''sending''"
proof -
  let ?st = "withdraw_stale X now ob"
  obtain d where d: "lease_choice (xf_sql X) now cooling (rs_deliveries ?st) = Some d"
    and ob': "ob' = ob\<lparr>ob_tables := update_deliveries (\<lambda>r. dl_ID r = dl_ID d \<and> queued r)
      (\<lambda>r. r\<lparr>dl_State := ''sending'', dl_UpdatedAt := now\<rparr>) ?st\<rparr>"
    and item: "item = d\<lparr>dl_State := ''sending''\<rparr>"
    using assms by (auto simp: LeaseSlackDelivery_def Let_def split: option.splits)
  from lease_choice_in [OF d] have "d \<in> set (rs_deliveries ?st)" "queued d"
    by (auto simp: delivery_leasable_def)
  then show ?thesis
    by (auto simp: ob' item update_deliveries_def intro!: rev_bexI [of "(if queued d then d\<lparr>dl_State := ''sending'', dl_UpdatedAt := now\<rparr> else d)"]
        rev_image_eqI [of d])
qed

lemma prepare_calm:
  assumes "prepare_delivery X E now cooling ob = (p, ob')" and "distinct (map dl_ID (deliveries ob))"
  shows "keeps calm (deliveries ob) (deliveries ob')
    \<and> (case p of
          Calling item \<Rightarrow> (\<exists>d \<in> set (deliveries ob'). dl_ID d = dl_ID item \<and> dl_Operation d = dl_Operation item
            \<and> (dl_Operation d = ''post'' \<longrightarrow> \<not> queued d))
            \<and> (\<forall>d \<in> set (deliveries ob). dl_ID d = dl_ID item \<longrightarrow> dl_Operation d = ''post'' \<longrightarrow> queued d)
        | Failing item err \<Rightarrow> \<forall>d \<in> set (deliveries ob'). dl_ID d = dl_ID item \<longrightarrow> dl_Operation d = dl_Operation item
        | _ \<Rightarrow> True)"
proof (cases "LeaseSlackDelivery X now cooling ob")
  case (Pair found mid)
  note mid = lease_calm [OF Pair]
  show ?thesis
  proof (cases found)
    case None
    with assms(1) Pair mid show ?thesis by (auto simp: prepare_delivery_def)
  next
    case (Some item)
    note lease = Pair [unfolded Some]
    have queued: "dl_Operation d = dl_Operation item \<and> (dl_Operation d = ''post'' \<longrightarrow> queued d)"
      if "d \<in> set (deliveries ob)" "dl_ID d = dl_ID item" for d
      by (rule lease_queued [OF lease assms(2) that])
    obtain d where d: "d \<in> set (deliveries mid)" "dl_ID d = dl_ID item" "dl_Operation d = dl_Operation item" "dl_State d = ''sending''"
      using lease_sending [OF lease] by blast
    have returns: "keeps calm (deliveries ob) (deliveries ob')" if "keeps (calm_but (dl_ID item)) (deliveries mid) (deliveries ob')"
      by (rule keeps_but_calm [OF but.keeps_trans [OF keeps_calm_but [OF mid] that]]) (use queued in auto)
    have sup: "keeps (calm_but (dl_ID item)) (deliveries mid)
        (deliveries (keep_tables mid (SupersedeLeased now (dl_ID item) why (ob_tables mid))))" for why
      by (cases "SupersedeLeased now (dl_ID item) why (ob_tables mid)")
        (auto simp: keep_tables_def intro: keeps_calm_but [OF supersede_leased_calm])
    from assms(1) lease consider
        (ended) "p = Settled" "keeps (calm_but (dl_ID item)) (deliveries mid) (deliveries ob')"
      | (calls) "prepare_write X E now item mid = (p, ob')"
      unfolding prepare_delivery_def
      by (auto split: sum.splits bool.splits if_splits option.splits
          intro: retry_leased_but sup)
    then show ?thesis
    proof cases
      case ended
      with returns show ?thesis by simp
    next
      case calls
      note w = prepare_write_but [OF calls]
      show ?thesis
      proof (cases p)
        case (Calling item')
        with w have c: "keeps calm (deliveries mid) (deliveries ob')" "dl_ID item' = dl_ID item" "dl_Operation item' = dl_Operation item"
          by auto
        from keeps_forth [OF c(1) d(1)] obtain d' where "d' \<in> set (deliveries ob')" "calm d d'" .
        with d have "\<exists>d \<in> set (deliveries ob'). dl_ID d = dl_ID item \<and> dl_Operation d = dl_Operation item
            \<and> (dl_Operation d = ''post'' \<longrightarrow> \<not> queued d)"
          by (auto simp: calm_def queued_def)
        with Calling c queued calm.keeps_trans [OF mid c(1)] show ?thesis by auto
      next
        case (Failing item' err)
        with w have same: "ob' = mid" "item' = item" by auto
        have "distinct (map dl_ID (deliveries mid))" by (rule calm.keeps_distinct [OF mid assms(2)])
        with d have "\<forall>d' \<in> set (deliveries mid). dl_ID d' = dl_ID item \<longrightarrow> dl_Operation d' = dl_Operation item"
          by (auto simp: distinct_map inj_on_def)
        with Failing same mid show ?thesis by simp
      qed (use w returns in auto)
    qed
  qed
qed

lemma reconcile_item_keeps:
  "keeps (calm_but (dl_ID item)) (deliveries ob) (deliveries (reconcile_item X E now history item ob))
   \<and> (\<not> (consults_history E (ob_tables ob) item \<and> history item = Absent) \<longrightarrow>
      keeps calm (deliveries ob) (deliveries (reconcile_item X E now history item ob)))"
proof -
  have undecided: "keeps calm (deliveries ob) (deliveries (retry_uncertain now item why next_at disposition ob))"
    if "disposition \<in> {UncertainAgain, UncertainTerminal, ConfirmedAbsentFailed}" for why next_at disposition
    using undecided_calm [OF _ that] unfolding retry_uncertain_def keep_tables_def by (auto split: sum.split)
  have given_up: "keeps calm (deliveries ob') (deliveries (give_up_absent E now item r ob'))" for r ob'
    unfolding give_up_absent_def Let_def
    by (auto split: option.split intro: calm.keeps_trans [OF _ visual_failure_calm])
  have absent: "keeps (calm_but (dl_ID item)) (deliveries ob) (deliveries (reconciled X E now item Absent ob))"
  proof (cases "RetryUncertain now (dl_ID item) ''Slack history confirmed the message was not posted''
      (queueDelay now (dl_Attempts item)) (ConfirmedAbsent (Timing.Exhausted (dl_Attempts item) (env_maxAttempts E))) (ob_tables ob)")
    case (Inl e)
    then show ?thesis
      unfolding reconciled_def Let_def by (auto simp: keep_tables_def intro: keeps_calm_but [OF given_up])
  next
    case (Inr st)
    note retried = retry_uncertain_but [OF Inr]
    have "keeps (calm_but (dl_ID item)) (rs_deliveries st) (deliveries (give_up_absent E now item True (ob\<lparr>ob_tables := st\<rparr>)))"
      using keeps_calm_but [OF given_up [of "ob\<lparr>ob_tables := st\<rparr>" True]] by simp
    with Inr retried show ?thesis
      unfolding reconciled_def Let_def by (auto simp: keep_tables_def intro: but.keeps_trans)
  qed
  have other: "keeps calm (deliveries ob) (deliveries (reconciled X E now item h ob))" if "h \<noteq> Absent" for h
    using that by (cases h) (auto simp: reconciled_def intro: keep_outbox_calm undecided)
  have gone: "keeps calm (deliveries ob) (deliveries (enqueueGeneratedVisualFailure E now item why (ob\<lparr>ob_tables := st\<rparr>)))"
    if "RetryUncertain now (dl_ID item) why next_at UncertainTerminal (ob_tables ob) = Inr st" for why next_at st
  proof -
    have "keeps calm (deliveries ob) (deliveries (ob\<lparr>ob_tables := st\<rparr>))" using undecided_calm [OF that] by simp
    from calm.keeps_trans [OF this visual_failure_calm] show ?thesis .
  qed
  show ?thesis
    using absent other undecided gone
    unfolding reconcile_item_def consults_history_def
    by (cases "history item") (auto split: option.splits sum.splits if_splits intro: keeps_calm_but)
qed

lemma lanes_ok_absent:
  assumes "lanes_ok s" and "keeps (calm_but rid) (deliveries (ln_box s)) (deliveries (ln_box t))"
    and "ln_flight t = ln_flight s" and log: "ln_log t = Missing rid # ln_log s"
  shows "lanes_ok t"
proof -
  let ?a = "deliveries (ln_box s)" and ?b = "deliveries (ln_box t)"
  have "distinct (map dl_ID ?b)" using but.keeps_distinct [OF assms(2)] assms(1) by (simp add: lanes_ok_def)
  moreover have "\<exists>d \<in> set ?b. dl_ID d = dl_ID item \<and> dl_Operation d = dl_Operation item" if "item \<in> set (ln_flight t)" for item
  proof -
    from that assms(1,3) obtain d where "d \<in> set ?a" "dl_ID d = dl_ID item" "dl_Operation d = dl_Operation item"
      unfolding lanes_ok_def by auto
    moreover from keeps_forth [OF assms(2) this(1)] obtain d' where "d' \<in> set ?b" "calm_but rid d d'" .
    ultimately show ?thesis by (auto simp: calm_but_def intro!: bexI [of _ d'])
  qed
  moreover have "r \<in> dl_ID ` set ?b" if "Wrote r \<in> set (ln_log t)" for r
    using that assms(1) but.keeps_ids [OF assms(2)] by (auto simp: lanes_ok_def log)
  moreover have "spaced (dl_ID d') (ln_log t) \<and> (dirty (dl_ID d') (ln_log t) \<longrightarrow> \<not> queued d')"
    if "d' \<in> set ?b" "dl_Operation d' = ''post''" for d'
    using keeps_back [OF assms(2) that(1)]
  proof
    assume "\<exists>d \<in> set ?a. calm_but rid d d'"
    then obtain d where "d \<in> set ?a" "calm_but rid d d'" by blast
    with that(2) assms(1) show ?thesis by (auto simp: lanes_ok_def calm_but_def calm_def log)
  next
    assume "dl_ID d' \<notin> dl_ID ` set ?a"
    with assms(1) have "Wrote (dl_ID d') \<notin> set (ln_log t)" by (auto simp: lanes_ok_def log)
    then show ?thesis using clean_unwritten by blast
  qed
  ultimately show ?thesis by (auto simp: lanes_ok_def)
qed

lemma lanes_ok_call:
  assumes ok: "lanes_ok s" and calm: "keeps calm (deliveries (ln_box s)) (deliveries (ln_box t))"
    and flight: "ln_flight t = item # ln_flight s" and log: "ln_log t = Wrote (dl_ID item) # ln_log s"
    and d: "d \<in> set (deliveries (ln_box t))" "dl_ID d = dl_ID item" "dl_Operation d = dl_Operation item"
      "dl_Operation d = ''post'' \<longrightarrow> \<not> queued d"
    and was: "\<forall>d \<in> set (deliveries (ln_box s)). dl_ID d = dl_ID item \<longrightarrow> dl_Operation d = ''post'' \<longrightarrow> queued d"
  shows "lanes_ok t"
proof -
  let ?t = "t\<lparr>ln_flight := ln_flight s, ln_log := ln_log s\<rparr>"
  have ok': "lanes_ok ?t" by (rule lanes_ok_calm [OF ok]) (simp_all add: calm)
  have clean: "\<not> dirty (dl_ID item) (ln_log s)" if "dl_Operation d = ''post''"
  proof
    assume dirty: "dirty (dl_ID item) (ln_log s)"
    from keeps_back [OF calm d(1)] show False
    proof
      assume "\<exists>d0 \<in> set (deliveries (ln_box s)). calm d0 d"
      then obtain d0 where "d0 \<in> set (deliveries (ln_box s))" "calm d0 d" by blast
      with was d that dirty ok show False by (auto simp: lanes_ok_def calm_def)
    next
      assume "dl_ID d \<notin> dl_ID ` set (deliveries (ln_box s))"
      with ok d(2) dirty clean_unwritten show False unfolding lanes_ok_def by metis
    qed
  qed
  have same: "d' = d" if "d' \<in> set (deliveries (ln_box t))" "dl_ID d' = dl_ID item" for d'
    using that d(1,2) ok' by (auto simp: lanes_ok_def distinct_map inj_on_def)
  have posts: "\<forall>d' \<in> set (deliveries (ln_box t)). dl_Operation d' = ''post'' \<longrightarrow> dl_ID d' = dl_ID item
      \<longrightarrow> \<not> dirty (dl_ID item) (ln_log s) \<and> \<not> queued d'"
    using same clean d(4) by blast
  have "\<forall>r. Wrote r \<in> set (ln_log t) \<longrightarrow> r \<in> dl_ID ` set (deliveries (ln_box t))"
    using ok' d(1,2) by (auto simp: lanes_ok_def log intro: rev_image_eqI)
  moreover have "\<forall>i \<in> set (ln_flight t). \<exists>d \<in> set (deliveries (ln_box t)). dl_ID d = dl_ID i \<and> dl_Operation d = dl_Operation i"
    using ok' d(1-3) by (auto simp: lanes_ok_def flight)
  moreover have "\<forall>d' \<in> set (deliveries (ln_box t)). dl_Operation d' = ''post'' \<longrightarrow>
      spaced (dl_ID d') (ln_log t) \<and> (dirty (dl_ID d') (ln_log t) \<longrightarrow> \<not> queued d')"
    using ok' posts by (auto simp: lanes_ok_def log)
  ultimately show ?thesis using ok' by (simp add: lanes_ok_def)
qed

text \<open>What one step of the lanes is: a calm one, the start of a write, or an answer that a message is
  missing.\<close>

lemma lane_step_cases:
  assumes "lane_step X E s t" and ok: "lanes_ok s"
  obtains (quiet) "keeps calm (deliveries (ln_box s)) (deliveries (ln_box t))"
      "set (ln_flight t) \<subseteq> set (ln_flight s)" "ln_log t = ln_log s"
    | (call) item d where "keeps calm (deliveries (ln_box s)) (deliveries (ln_box t))"
      "ln_flight t = item # ln_flight s" "ln_log t = Wrote (dl_ID item) # ln_log s"
      "d \<in> set (deliveries (ln_box t))" "dl_ID d = dl_ID item" "dl_Operation d = dl_Operation item"
      "dl_Operation d = ''post'' \<longrightarrow> \<not> queued d"
      "\<forall>d \<in> set (deliveries (ln_box s)). dl_ID d = dl_ID item \<longrightarrow> dl_Operation d = ''post'' \<longrightarrow> queued d"
    | (absent) rid where "keeps (calm_but rid) (deliveries (ln_box s)) (deliveries (ln_box t))"
      "ln_flight t = ln_flight s" "ln_log t = Missing rid # ln_log s"
  using assms(1)
proof cases
  have dist: "distinct (map dl_ID (deliveries (ln_box s)))" using ok by (simp add: lanes_ok_def)
  {
    case (called now cooling item ob)
    note p = prepare_calm [OF called(2) dist, unfolded Prepared.case]
    then obtain d where "d \<in> set (deliveries ob)" "dl_ID d = dl_ID item" "dl_Operation d = dl_Operation item"
      "dl_Operation d = ''post'' \<longrightarrow> \<not> queued d" by blast
    with p show thesis by (intro call [of item d]) (simp_all add: called(1))
  next
    case (failed now cooling item err ob)
    from prepare_calm [OF failed(2) dist] have calm: "keeps calm (deliveries (ln_box s)) (deliveries ob)"
      and "\<forall>d \<in> set (deliveries ob). dl_ID d = dl_ID item \<longrightarrow> dl_Operation d = dl_Operation item" by auto
    with settle_failure_calm [of ob item E now err] show thesis
      by (intro quiet) (auto simp: failed(1) intro: calm.keeps_trans)
  next
    case (quiet now cooling p ob)
    from prepare_calm [OF quiet(2) dist] show thesis by (intro that(1)) (auto simp: quiet(1))
  next
    case (answered item now result)
    from ok answered(2) obtain d where d: "d \<in> set (deliveries (ln_box s))" "dl_ID d = dl_ID item" "dl_Operation d = dl_Operation item"
      unfolding lanes_ok_def by blast
    have "keeps calm (deliveries (ln_box s)) (deliveries (settle_delivery X E now item result (ln_box s)))"
      by (rule settle_calm) (use d dist in \<open>auto simp: distinct_map inj_on_def\<close>)
    then show thesis by (intro that(1)) (auto simp: answered(1) dest: set_remove1_subset [THEN subsetD])
  next
    case (reconciled now history)
    show thesis
    proof (cases "ListUncertainSlackDeliveries (xf_sql X) now 1 (ob_tables (ln_box s))")
      case Nil
      then show thesis
        by (intro that(1)) (simp_all add: reconciled(1) reconcileSlackDelivery_def history_trace_def)
    next
      case (Cons item items)
      note keeps = reconcile_item_keeps [of item "ln_box s" X E now history]
      show thesis
      proof (cases "consults_history E (ob_tables (ln_box s)) item \<and> history item = Absent")
        case False
        with keeps Cons show thesis
          by (intro that(1)) (auto simp: reconciled(1) reconcileSlackDelivery_def history_trace_def)
      next
        case True
        with keeps Cons show thesis
          by (intro that(3) [of "dl_ID item"]) (simp_all add: reconciled(1) reconcileSlackDelivery_def history_trace_def)
      qed
    qed
  next
    case (stopped now)
    with recover_calm show thesis by (intro that(1)) simp_all
  next
    case (enqueued now fresh d b st)
    with enqueue_calm show thesis by (intro that(1)) simp_all
  next
    case (noticed now d st)
    with terminal_insert_calm show thesis by (intro that(1)) simp_all
  next
    case (withdrawn P now why)
    have "keeps calm (deliveries (ln_box s)) (rs_deliveries (update_deliveries (\<lambda>d. queued d \<and> P d) (superseded_delivery now why) (ob_tables (ln_box s))))"
      by (rule calm.keeps_update) (auto intro: calm_withdrawn)
    then show thesis by (intro that(1)) (simp_all add: withdrawn(1))
  next
    case (cancelled now r detail)
    with withdraw_calm show thesis by (intro that(1)) simp_all
  next
    case (retired now key)
    with retire_calm show thesis by (intro that(1)) simp_all
  next
    case (redrawn now channel thread d st)
    with visual_calm [OF redrawn(2) dist] show thesis by (intro that(1)) simp_all
  next
    case (elsewhere ob)
    then show thesis by (intro that(1)) simp_all
  }
qed

lemma lanes_ok_step: "lane_step X E s t \<Longrightarrow> lanes_ok s \<Longrightarrow> lanes_ok t"
  by (rule lane_step_cases, assumption+) (auto intro: lanes_ok_calm lanes_ok_call lanes_ok_absent)

lemma lanes_ok_run: "(lane_step X E)\<^sup>*\<^sup>* s t \<Longrightarrow> lanes_ok s \<Longrightarrow> lanes_ok t"
  by (induction rule: rtranclp_induct) (auto intro: lanes_ok_step)

lemma lanes_ok_start: "distinct (map dl_ID (deliveries ob)) \<Longrightarrow> lanes_ok \<lparr>ln_box = ob, ln_flight = [], ln_log = []\<rparr>"
  by (simp add: lanes_ok_def)

text \<open>C1. A message reaches Slack again only after Slack's history said that it is not there: between any two
  writes of one post the log has the answer that it is missing.\<close>

theorem post_repeated_only_when_missing:
  assumes "(lane_step X E)\<^sup>*\<^sup>* \<lparr>ln_box = ob, ln_flight = [], ln_log = []\<rparr> s"
    and "distinct (map dl_ID (deliveries ob))"
    and "ln_log s = newer @ Wrote (dl_ID d) # between @ Wrote (dl_ID d) # older"
    and "d \<in> set (deliveries (ln_box s))" and "dl_Operation d = ''post''"
  shows "Missing (dl_ID d) \<in> set between"
proof -
  from lanes_ok_run [OF assms(1) lanes_ok_start [OF assms(2)]] have "lanes_ok s" .
  with assms(3-5) have "spaced (dl_ID d) (newer @ Wrote (dl_ID d) # between @ Wrote (dl_ID d) # older)"
    by (auto simp: lanes_ok_def)
  then show ?thesis by (rule spaced_between)
qed

text \<open>A delivery that was sent is never taken up again: it stays sent, or is retired as history, and only a
  file could come back from there.\<close>

theorem sent_is_final:
  assumes "(lane_step X E)\<^sup>*\<^sup>* s t" and "distinct (map dl_ID (deliveries (ln_box s)))"
    and "ln_flight s = []" and "ln_log s = []"
    and "d \<in> set (deliveries (ln_box s))" and "dl_State d = ''sent''"
  shows "\<exists>d' \<in> set (deliveries (ln_box t)). dl_ID d' = dl_ID d \<and> dl_Operation d' = dl_Operation d
    \<and> (dl_State d' = ''sent'' \<or> dl_State d' = ''superseded'' \<and> dl_Operation d' \<noteq> ''file'')"
proof -
  have ok: "lanes_ok s" using assms(2-4) by (simp add: lanes_ok_def)
  from assms(1) ok have "lanes_ok t \<and> (\<exists>d' \<in> set (deliveries (ln_box t)). dl_ID d' = dl_ID d
      \<and> dl_Operation d' = dl_Operation d \<and> settled d')"
  proof (induction rule: rtranclp_induct)
    case base
    with assms(5,6) show ?case by (auto simp: settled_def)
  next
    case (step t u)
    then obtain d' where t: "lanes_ok t" and d': "d' \<in> set (deliveries (ln_box t))" "dl_ID d' = dl_ID d"
      "dl_Operation d' = dl_Operation d" "settled d'" by blast
    have "\<exists>rid. keeps (calm_but rid) (deliveries (ln_box t)) (deliveries (ln_box u))"
      using step.hyps(2) t by (rule lane_step_cases) (auto intro: keeps_calm_but)
    then obtain rid where "keeps (calm_but rid) (deliveries (ln_box t)) (deliveries (ln_box u))" ..
    from keeps_forth [OF this d'(1)] obtain d'' where "d'' \<in> set (deliveries (ln_box u))" "calm_but rid d' d''" .
    with d' lanes_ok_step [OF step.hyps(2) t] show ?case by (auto simp: calm_but_def intro!: bexI [of _ d''])
  qed
  then show ?thesis by (auto simp: settled_def)
qed

text \<open>C31. What is leased is in order: the earlier parts of its answer are sent or withdrawn, it goes where its
  episode speaks now and was written for what the episode knows now, and no other write of its
  reaction is on its way.\<close>

theorem lease_in_order:
  assumes "LeaseSlackDelivery X now cooling ob = (Some item, ob')"
  shows "(\<forall>p \<in> set (deliveries ob'). dl_SequenceKey item \<noteq> [] \<and> dl_SequenceKey p = dl_SequenceKey item
        \<and> dl_SequenceIndex p < dl_SequenceIndex item \<longrightarrow> dl_State p = ''sent'' \<or> dl_State p = ''superseded'')
    \<and> \<not> misdirected (ob_tables ob') item
    \<and> (\<forall>a \<in> set (deliveries ob'). dl_Operation item = ''reaction'' \<and> dl_CoalesceKey item \<noteq> []
        \<and> dl_CoalesceKey a = dl_CoalesceKey item \<and> dl_ID a \<noteq> dl_ID item \<longrightarrow> dl_State a \<noteq> ''sending'')"
proof -
  let ?st = "withdraw_stale X now ob"
  let ?r = "\<lambda>d. if dl_ID d = dl_ID item \<and> queued d then d\<lparr>dl_State := ''sending'', dl_UpdatedAt := now\<rparr> else d"
  obtain i where i: "i < length (rs_deliveries ?st)"
    and leas: "delivery_leasable (xf_sql X) now cooling (rs_deliveries ?st) i (rs_deliveries ?st ! i)"
    and item: "item = (rs_deliveries ?st ! i)\<lparr>dl_State := ''sending''\<rparr>" using lease_found [OF assms] by blast
  have ob': "ob_tables ob' = update_deliveries (\<lambda>r. dl_ID r = dl_ID item \<and> queued r)
      (\<lambda>r. r\<lparr>dl_State := ''sending'', dl_UpdatedAt := now\<rparr>) ?st"
    using assms by (auto simp: LeaseSlackDelivery_def Let_def split: option.splits)
  then have rows: "deliveries ob' = map ?r (rs_deliveries ?st)" by (simp add: update_deliveries_def)
  from leas have q: "queued (rs_deliveries ?st ! i)" by (simp add: delivery_leasable_def)
  obtain st0 where st0: "?st = update_deliveries (\<lambda>d. queued d \<and> misdirected st0 d)
      (superseded_delivery now ''episode destination changed'') st0"
    by (simp add: withdraw_stale_def Let_def)
  with i q have "\<not> misdirected st0 (rs_deliveries ?st ! i)"
    by (auto simp: update_deliveries_def queued_def superseded_delivery_def split: if_splits)
  moreover have "rs_ep (ob_tables ob') = rs_ep st0"
    unfolding ob' by (subst st0) (simp add: update_deliveries_def)
  ultimately have "\<not> misdirected (ob_tables ob') item"
    unfolding item misdirected_def by (auto split: option.splits)
  moreover have "dl_State p = ''sent'' \<or> dl_State p = ''superseded''"
    if p: "p \<in> set (deliveries ob')" "dl_SequenceKey item \<noteq> []" "dl_SequenceKey p = dl_SequenceKey item"
      "dl_SequenceIndex p < dl_SequenceIndex item" for p
  proof -
    from p(1) obtain p0 where p0: "p0 \<in> set (rs_deliveries ?st)" "p = ?r p0" unfolding rows by auto
    with p leas item have "dl_State p0 = ''sent'' \<or> dl_State p0 = ''superseded''"
      by (auto simp: delivery_leasable_def list_ex_iff split: if_splits)
    with p0(2) show ?thesis by (auto simp: queued_def)
  qed
  moreover have "dl_State a \<noteq> ''sending''"
    if a: "a \<in> set (deliveries ob')" "dl_Operation item = ''reaction''" "dl_CoalesceKey item \<noteq> []"
      "dl_CoalesceKey a = dl_CoalesceKey item" "dl_ID a \<noteq> dl_ID item" for a
  proof -
    from a(1) obtain a0 where a0: "a0 \<in> set (rs_deliveries ?st)" "a = ?r a0" unfolding rows by auto
    with a leas item show ?thesis by (auto simp: delivery_leasable_def list_ex_iff split: if_splits)
  qed
  ultimately show ?thesis by blast
qed

end
