(* ===== verification/SlackFaults.thy ===== *)
theory SlackFaults
  imports SlackSafety AgentRunFaults
begin

text \<open>
  The outbox on small stores: runs of the lanes that are computed, the two faults they show (a card
  that walks back to an older version, uploads that are repeated or misreported), and the witnesses
  of the properties of \<open>SlackSafety\<close>.
\<close>

section \<open>A small outbox\<close>

definition box_fns :: OutboxFns where
  "box_fns = \<lparr>xf_sql = ex_fns, xf_earlier = (\<lambda>a b. a < b), xf_destination = (\<lambda>_ _ _. ''{}'')\<rparr>"

definition box_env :: SlackEnv where
  "box_env = \<lparr>env_message = (\<lambda>_. None), env_file = (\<lambda>_. None), env_failure = (\<lambda>body _. Inr body), env_maxAttempts = 2\<rparr>"

definition empty_box :: Outbox where
  "empty_box = \<lparr>ob_tables = empty_runs\<lparr>rs_incidents := [(''i'', zero_Incident\<lparr>inc_ID := ''i'', inc_ChannelID := ''C'',
     inc_RootTS := ''1'', inc_CardVersion := 2\<rparr>)]\<rparr>, ob_approvals = [], ob_denied = []\<rparr>"

definition start :: "Outbox \<Rightarrow> Lanes" where
  "start ob = \<lparr>ln_box = ob, ln_flight = [], ln_log = []\<rparr>"

text \<open>Moves of the lanes as functions, for runs that are computed.\<close>

fun called_item :: "Prepared \<Rightarrow> DeliveryRow option" where
  "called_item (Calling item) = Some item"
| "called_item _ = None"

definition do_call :: "gotime \<Rightarrow> Lanes \<Rightarrow> Lanes option" where
  "do_call now s = (case prepare_delivery box_fns box_env now [] (ln_box s) of
     (p, ob) \<Rightarrow> map_option (\<lambda>item. s\<lparr>ln_box := ob, ln_flight := item # ln_flight s,
        ln_log := Wrote (dl_ID item) # ln_log s\<rparr>) (called_item p))"

definition do_enqueue :: "gotime \<Rightarrow> SlackDelivery \<Rightarrow> Lanes \<Rightarrow> Lanes option" where
  "do_enqueue now d s = (case EnqueueSlackDelivery now [] d (ob_tables (ln_box s)) of
     Inl _ \<Rightarrow> None | Inr (_, st) \<Rightarrow> Some (s\<lparr>ln_box := (ln_box s)\<lparr>ob_tables := st\<rparr>\<rparr>))"

definition do_answer :: "gotime \<Rightarrow> string \<Rightarrow> string + string \<Rightarrow> Lanes \<Rightarrow> Lanes option" where
  "do_answer now rid result s = map_option
     (\<lambda>item. s\<lparr>ln_box := settle_delivery box_fns box_env now item result (ln_box s), ln_flight := remove1 item (ln_flight s)\<rparr>)
     (find (\<lambda>item. dl_ID item = rid) (ln_flight s))"

definition do_stop :: "gotime \<Rightarrow> Lanes \<Rightarrow> Lanes option" where
  "do_stop now s = Some (s\<lparr>ln_box := (ln_box s)\<lparr>ob_tables := RecoverInterrupted now (ob_tables (ln_box s))\<rparr>, ln_flight := []\<rparr>)"

definition do_reconcile :: "gotime \<Rightarrow> History \<Rightarrow> Lanes \<Rightarrow> Lanes option" where
  "do_reconcile now h s = Some (s\<lparr>ln_box := reconcileSlackDelivery box_fns box_env now (\<lambda>_. h) (ln_box s),
     ln_log := history_trace box_fns box_env now (\<lambda>_. h) (ob_tables (ln_box s)) @ ln_log s\<rparr>)"

definition box_runs :: "Lanes \<Rightarrow> Lanes \<Rightarrow> bool" where
  "box_runs s t \<longleftrightarrow> (lane_step box_fns box_env)\<^sup>*\<^sup>* s t"

lemma box_step: "box_runs s t \<Longrightarrow> lane_step box_fns box_env t u \<Longrightarrow> box_runs s u"
  by (simp add: box_runs_def)

lemma do_moves:
  "do_call now s = Some t \<Longrightarrow> lane_step box_fns box_env s t"
  "do_enqueue now d s = Some t \<Longrightarrow> lane_step box_fns box_env s t"
  "do_answer now rid result s = Some t \<Longrightarrow> lane_step box_fns box_env s t"
  "do_stop now s = Some t \<Longrightarrow> lane_step box_fns box_env s t"
  "do_reconcile now h s = Some t \<Longrightarrow> lane_step box_fns box_env s t"
proof -
  show "lane_step box_fns box_env s t" if "do_call now s = Some t"
  proof -
    obtain p ob where p: "prepare_delivery box_fns box_env now [] (ln_box s) = (p, ob)" by force
    with that obtain item where "p = Calling item"
      "t = s\<lparr>ln_box := ob, ln_flight := item # ln_flight s, ln_log := Wrote (dl_ID item) # ln_log s\<rparr>"
      by (cases p) (auto simp: do_call_def)
    with p show ?thesis by (auto intro: lane_step.called)
  qed
  show "lane_step box_fns box_env s t" if "do_enqueue now d s = Some t"
    using that by (auto simp: do_enqueue_def split: sum.splits intro: lane_step.enqueued)
  show "lane_step box_fns box_env s t" if "do_answer now rid result s = Some t"
  proof -
    from that obtain item where "find (\<lambda>item. dl_ID item = rid) (ln_flight s) = Some item"
      "t = s\<lparr>ln_box := settle_delivery box_fns box_env now item result (ln_box s), ln_flight := remove1 item (ln_flight s)\<rparr>"
      by (auto simp: do_answer_def)
    then show ?thesis by (auto intro: lane_step.answered dest: find_in_set)
  qed
  show "lane_step box_fns box_env s t" if "do_stop now s = Some t"
    using that by (auto simp: do_stop_def intro: lane_step.stopped)
  show "lane_step box_fns box_env s t" if "do_reconcile now h s = Some t"
    using that by (auto simp: do_reconcile_def intro: lane_step.reconciled)
qed

datatype move = Call gotime | Enqueue gotime SlackDelivery | Answer gotime string "string + string" | Stop gotime
  | Reconcile gotime History

fun do_move :: "move \<Rightarrow> Lanes \<Rightarrow> Lanes option" where
  "do_move (Call now) s = do_call now s"
| "do_move (Enqueue now d) s = do_enqueue now d s"
| "do_move (Answer now rid result) s = do_answer now rid result s"
| "do_move (Stop now) s = do_stop now s"
| "do_move (Reconcile now h) s = do_reconcile now h s"

fun do_all :: "move list \<Rightarrow> Lanes \<Rightarrow> Lanes option" where
  "do_all [] s = Some s"
| "do_all (m # ms) s = (case do_move m s of None \<Rightarrow> None | Some t \<Rightarrow> do_all ms t)"

lemma do_all_runs: "do_all ms s = Some t \<Longrightarrow> box_runs s t"
proof (induction ms arbitrary: s)
  case (Cons m ms)
  then obtain u where u: "do_move m s = Some u" "do_all ms u = Some t" by (auto split: option.splits)
  then have "lane_step box_fns box_env s u" by (cases m) (auto intro: do_moves)
  with Cons.IH [OF u(2)] show ?case by (simp add: box_runs_def converse_rtranclp_into_rtranclp)
qed (simp add: box_runs_def)

lemma reached:
  "map_option f (do_all ms s) = Some v \<Longrightarrow> \<exists>t. (lane_step box_fns box_env)\<^sup>*\<^sup>* s t \<and> f t = v"
  using do_all_runs by (auto simp: box_runs_def)

section \<open>A card walks back\<close>


definition at_second :: "int \<Rightarrow> gotime" where
  "at_second n = Time (n * second)"





section \<open>Uploads\<close>

definition upload :: SlackDelivery where
  "upload = zero_SlackDelivery\<lparr>dl_ID := ''f'', dl_Operation := ''file'', dl_Kind := ''generated_visual'', dl_ChannelID := ''C'',
     dl_ThreadTS := ''1'', dl_Body := ''png''\<rparr>"

definition states_of :: "Lanes \<Rightarrow> trace list \<times> (string \<times> string \<times> string) list" where
  "states_of s = (ln_log s, map (\<lambda>d. (dl_ID d, dl_Operation d, dl_State d)) (deliveries (ln_box s)))"

definition interrupted_run :: "move list" where
  "interrupted_run = [Enqueue (at_second 10) upload, Call (at_second 11), Stop (at_second 12), Call (at_second 13)]"

definition reported_run :: "move list" where
  "reported_run = [Enqueue (at_second 10) upload, Call (at_second 11), Answer (at_second 12) ''f'' (Inl ''timeout''),
     Reconcile (at_second 60) Absent, Call (at_second 120), Answer (at_second 130) ''f'' (Inl ''timeout''),
     Reconcile (at_second 200) (FoundAt ''9'')]"

lemma upload_runs:
  "map_option states_of (do_all interrupted_run (start empty_box)) = Some ([Wrote ''f'', Wrote ''f''], [(''f'', ''file'', ''sending'')])"
  "map_option states_of (do_all reported_run (start empty_box)) =
    Some ([Wrote ''f'', Missing ''f'', Wrote ''f''], [(''f'', ''file'', ''sent''), (''f_upload_failed'', ''post'', ''pending'')])"
  by code_simp+

text \<open>Uploads do not have that guarantee.  An upload that a restart interrupts is written again without a
  look at the channel, and one whose last attempt ended in doubt is reported as failed while
  reconciliation goes on to find it delivered.\<close>

theorem uploads_repeat_and_misreport:
  "(\<exists>s. (lane_step box_fns box_env)\<^sup>*\<^sup>* (start empty_box) s
      \<and> states_of s = ([Wrote ''f'', Wrote ''f''], [(''f'', ''file'', ''sending'')]))
   \<and> (\<exists>s. (lane_step box_fns box_env)\<^sup>*\<^sup>* (start empty_box) s
      \<and> states_of s = ([Wrote ''f'', Missing ''f'', Wrote ''f''],
           [(''f'', ''file'', ''sent''), (''f_upload_failed'', ''post'', ''pending'')]))"
  by (intro conjI reached [OF upload_runs(1)] reached [OF upload_runs(2)])

section \<open>The properties at work\<close>

definition answer :: SlackDelivery where
  "answer = zero_SlackDelivery\<lparr>dl_ID := ''p'', dl_Operation := ''post'', dl_Kind := ''answer'', dl_ChannelID := ''C'',
     dl_ThreadTS := ''1'', dl_Body := ''text''\<rparr>"

definition repeated_run :: "move list" where
  "repeated_run = [Enqueue (at_second 10) answer, Call (at_second 11), Stop (at_second 12),
     Reconcile (at_second 60) Absent, Call (at_second 120)]"

lemma repeated_run_ends: "map_option states_of (do_all repeated_run (start empty_box)) =
    Some ([Wrote ''p'', Missing ''p'', Wrote ''p''], [(''p'', ''post'', ''sending'')])"
  by code_simp

corollary post_repeated_only_when_missing_witness:
  "\<exists>s between. (lane_step box_fns box_env)\<^sup>*\<^sup>* (start empty_box) s
     \<and> ln_log s = Wrote ''p'' # between @ [Wrote ''p''] \<and> Missing ''p'' \<in> set between"
proof -
  obtain s where s: "(lane_step box_fns box_env)\<^sup>*\<^sup>* (start empty_box) s"
    "ln_log s = [Wrote ''p'', Missing ''p'', Wrote ''p'']"
    "map (\<lambda>d. (dl_ID d, dl_Operation d, dl_State d)) (deliveries (ln_box s)) = [(''p'', ''post'', ''sending'')]"
    using reached [OF repeated_run_ends] unfolding states_of_def prod.inject by (elim exE conjE)
  from s(3) obtain d where "deliveries (ln_box s) = [d]" and d: "dl_ID d = ''p''" "dl_Operation d = ''post''"
    unfolding map_eq_Cons_conv map_is_Nil_conv prod.inject by blast
  then have d: "d \<in> set (deliveries (ln_box s))" "dl_ID d = ''p''" "dl_Operation d = ''post''" by simp_all
  from s(1) have run: "(lane_step box_fns box_env)\<^sup>*\<^sup>* \<lparr>ln_box = empty_box, ln_flight = [], ln_log = []\<rparr> s"
    by (simp only: start_def)
  have log: "ln_log s = [] @ Wrote (dl_ID d) # [Missing ''p''] @ Wrote (dl_ID d) # []" by (simp only: s(2) d(2) append.simps)
  have "distinct (map dl_ID (deliveries empty_box))" by (simp add: empty_box_def empty_runs_def)
  from post_repeated_only_when_missing [OF run this log d(1,3)] have "Missing ''p'' \<in> set [Missing ''p'']" by (simp only: d(2))
  with s(1,2) show ?thesis by (intro exI [of _ s] exI [of _ "[Missing ''p'']"]) simp
qed

definition part :: "string \<Rightarrow> string \<Rightarrow> DeliveryRow" where
  "part rid state = (enqueued_row (at_second 1) (answer\<lparr>dl_ID := rid\<rparr>))\<lparr>dl_State := state\<rparr>"

definition parts_box :: Outbox where
  "parts_box = empty_box\<lparr>ob_tables := (ob_tables empty_box)\<lparr>rs_deliveries :=
     [part ''a_part_001'' ''sent'', part ''a_part_002'' ''pending'', part ''a_part_003'' ''pending'']\<rparr>\<rparr>"

lemma parts_leased:
  "map_option dl_ID (fst (LeaseSlackDelivery box_fns (at_second 2) [] parts_box)) = Some ''a_part_002''"
  by code_simp

corollary lease_in_order_witness:
  "\<exists>item ob'. LeaseSlackDelivery box_fns (at_second 2) [] parts_box = (Some item, ob') \<and> dl_ID item = ''a_part_002''
     \<and> \<not> misdirected (ob_tables ob') item
     \<and> (\<forall>p \<in> set (deliveries ob'). dl_SequenceKey item \<noteq> [] \<and> dl_SequenceKey p = dl_SequenceKey item
          \<and> dl_SequenceIndex p < dl_SequenceIndex item \<longrightarrow> dl_State p = ''sent'' \<or> dl_State p = ''superseded'')"
proof -
  obtain found ob' where l: "LeaseSlackDelivery box_fns (at_second 2) [] parts_box = (found, ob')" by force
  with parts_leased obtain item where "found = Some item" "dl_ID item = ''a_part_002''" by auto
  with l lease_in_order [of box_fns "at_second 2" "[]" parts_box item ob'] show ?thesis by blast
qed

lemma part_simps: "dl_ID (part rid state) = rid" "dl_State (part rid state) = state"
  by (simp_all add: part_def)

corollary sent_is_final_witness:
  "\<exists>t. (lane_step box_fns box_env)\<^sup>*\<^sup>* (start parts_box) t \<and> ln_box t \<noteq> parts_box
     \<and> (\<exists>d' \<in> set (deliveries (ln_box t)). dl_ID d' = ''a_part_001''
          \<and> (dl_State d' = ''sent'' \<or> dl_State d' = ''superseded'' \<and> dl_Operation d' \<noteq> ''file''))"
proof -
  have "map_option states_of (do_all [Call (at_second 2)] (start parts_box)) = Some ([Wrote ''a_part_002''],
      [(''a_part_001'', ''post'', ''sent''), (''a_part_002'', ''post'', ''sending''), (''a_part_003'', ''post'', ''pending'')])"
    by code_simp
  from reached [OF this] obtain t where t: "(lane_step box_fns box_env)\<^sup>*\<^sup>* (start parts_box) t"
    "map (\<lambda>d. (dl_ID d, dl_Operation d, dl_State d)) (deliveries (ln_box t)) =
      [(''a_part_001'', ''post'', ''sent''), (''a_part_002'', ''post'', ''sending''), (''a_part_003'', ''post'', ''pending'')]"
    unfolding states_of_def prod.inject by (elim exE conjE)
  have "map (\<lambda>d. dl_State d) (deliveries parts_box) = [''sent'', ''pending'', ''pending'']"
    by (simp add: parts_box_def part_simps)
  moreover from t(2) have "map (\<lambda>d. dl_State d) (deliveries (ln_box t)) = [''sent'', ''sending'', ''pending'']"
    by (auto simp: map_eq_Cons_conv)
  ultimately have "ln_box t \<noteq> parts_box" by auto
  moreover have "\<exists>d' \<in> set (deliveries (ln_box t)). dl_ID d' = dl_ID (part ''a_part_001'' ''sent'')
      \<and> dl_Operation d' = dl_Operation (part ''a_part_001'' ''sent'')
      \<and> (dl_State d' = ''sent'' \<or> dl_State d' = ''superseded'' \<and> dl_Operation d' \<noteq> ''file'')"
    by (rule sent_is_final [OF t(1)]) (simp_all add: start_def parts_box_def part_simps)
  ultimately show ?thesis using t(1) unfolding part_simps by blast
qed

end
