(* ===== verification/WorkQueue.thy ===== *)
theory WorkQueue
  imports EpisodeStore
begin

text \<open>
  The queue of scheduled work, \<open>internal/store/work.go\<close>, and the scheduler's side of it in
  \<open>internal/service/scheduler.go\<close>: what is seeded at start, and how a worker settles the item it
  leased.

  The table is an association list by its primary key.  A NULL lease or deadline is the zero time;
  \<open>rerun_at\<close>, whose NULL decides what \<open>CompleteWork\<close> does, is an option.  \<open>J\<close> is SQLite's \<open>julianday\<close>,
  and a lease token, drawn at random by the code, is an argument.
\<close>

section \<open>Work items\<close>

record WorkItem =
  wi_Kind :: string
  wi_SubjectID :: string
  wi_Lane :: string
  wi_ConversationKey :: string
  wi_Priority :: int
  wi_State :: string
  wi_Failures :: int
  wi_AvailableAt :: gotime
  wi_LeaseExpiresAt :: gotime
  wi_LeaseToken :: string
  wi_DeadlineAt :: gotime
  wi_LastError :: string
  wi_CreatedAt :: gotime
  wi_UpdatedAt :: gotime

record WorkRow = WorkItem +
  wi_RerunAt :: "gotime option"

type_synonym WorkKey = "string \<times> string"
type_synonym WorkTable = "(WorkKey \<times> WorkRow) list"

abbreviation work_key :: "'a WorkItem_scheme \<Rightarrow> WorkKey" where
  "work_key item \<equiv> (wi_Kind item, wi_SubjectID item)"

abbreviation WorkPending :: string where "WorkPending \<equiv> ''pending''"
abbreviation WorkRunning :: string where "WorkRunning \<equiv> ''running''"
abbreviation WorkFailed :: string where "WorkFailed \<equiv> ''failed''"

abbreviation WorkLaneControl :: string where "WorkLaneControl \<equiv> ''control''"
abbreviation WorkLaneBackground :: string where "WorkLaneBackground \<equiv> ''background''"
abbreviation WorkLaneMaintenance :: string where "WorkLaneMaintenance \<equiv> ''maintenance''"

datatype WorkError = WorkIdentityMissing | WorkLaneUnsupported string | WorkLeaseNotPositive
  | WorkNotFound | WorkConflict

definition validWorkLane :: "string \<Rightarrow> bool" where
  "validWorkLane lane \<longleftrightarrow> lane = WorkLaneControl \<or> lane = WorkLaneBackground \<or> lane = WorkLaneMaintenance"

section \<open>Asking for work\<close>

text \<open>What both ways of asking refuse, and the row they insert.\<close>

definition work_refusal :: "WorkItem \<Rightarrow> WorkError option" where
  "work_refusal item =
     (if wi_Kind item = [] \<or> wi_SubjectID item = [] then Some WorkIdentityMissing
      else if \<not> validWorkLane (wi_Lane item) then Some (WorkLaneUnsupported (wi_Lane item))
      else None)"

definition wanted_at :: "gotime \<Rightarrow> WorkItem \<Rightarrow> gotime" where
  "wanted_at now item = (if IsZero (wi_AvailableAt item) then now else wi_AvailableAt item)"

definition new_work_row :: "gotime \<Rightarrow> WorkItem \<Rightarrow> WorkRow" where
  "new_work_row now item =
     \<lparr>wi_Kind = wi_Kind item, wi_SubjectID = wi_SubjectID item, wi_Lane = wi_Lane item,
      wi_ConversationKey = wi_ConversationKey item, wi_Priority = wi_Priority item,
      wi_State = WorkPending, wi_Failures = 0, wi_AvailableAt = wanted_at now item,
      wi_LeaseExpiresAt = ZeroTime, wi_LeaseToken = [], wi_DeadlineAt = wi_DeadlineAt item,
      wi_LastError = [], wi_CreatedAt = now, wi_UpdatedAt = now, wi_RerunAt = None\<rparr>"

text \<open>The row an upsert leaves where the key exists: an item that runs is asked to run again.\<close>

definition merged_work_row :: "(gotime \<Rightarrow> int) \<Rightarrow> gotime \<Rightarrow> WorkItem \<Rightarrow> WorkRow \<Rightarrow> WorkRow" where
  "merged_work_row J now item r =
     (let wanted = wanted_at now item in
      r\<lparr>wi_Lane := wi_Lane item,
        wi_ConversationKey := wi_ConversationKey item,
        wi_Priority := min (wi_Priority r) (wi_Priority item),
        wi_State := (if wi_State r = WorkRunning then wi_State r else WorkPending),
        wi_AvailableAt :=
          (if wi_State r = WorkRunning then wi_AvailableAt r
           else if J (wi_AvailableAt r) \<le> J wanted then wi_AvailableAt r else wanted),
        wi_RerunAt :=
          (if wi_State r \<noteq> WorkRunning then wi_RerunAt r
           else case wi_RerunAt r of
               None \<Rightarrow> Some wanted
             | Some t \<Rightarrow> if J t \<le> J wanted then Some t else Some wanted),
        wi_DeadlineAt := (if IsZero (wi_DeadlineAt item) then wi_DeadlineAt r else wi_DeadlineAt item),
        wi_LastError := (if wi_State r = WorkFailed then [] else wi_LastError r),
        wi_UpdatedAt := now\<rparr>)"

definition EnqueueWork :: "(gotime \<Rightarrow> int) \<Rightarrow> gotime \<Rightarrow> WorkItem \<Rightarrow> WorkTable \<Rightarrow> WorkError + WorkTable" where
  "EnqueueWork J now item q =
     (case work_refusal item of
        Some e \<Rightarrow> Inl e
      | None \<Rightarrow>
          Inr (AList.update (work_key item)
            (case map_of q (work_key item) of
               None \<Rightarrow> new_work_row now item
             | Some r \<Rightarrow> merged_work_row J now item r) q))"

definition EnsureWork :: "gotime \<Rightarrow> WorkItem \<Rightarrow> WorkTable \<Rightarrow> WorkError + WorkTable" where
  "EnsureWork now item q =
     (case work_refusal item of
        Some e \<Rightarrow> Inl e
      | None \<Rightarrow>
          Inr (case map_of q (work_key item) of
                 None \<Rightarrow> AList.update (work_key item) (new_work_row now item) q
               | Some r \<Rightarrow> q))"

section \<open>Leases\<close>

text \<open>What becomes of an item whose lease is taken back: it is due since it was leased, or since
  the run it was asked for in the meantime.\<close>

definition released_row :: "(gotime \<Rightarrow> int) \<Rightarrow> gotime \<Rightarrow> string \<Rightarrow> WorkRow \<Rightarrow> WorkRow" where
  "released_row J now detail r =
     r\<lparr>wi_State := WorkPending,
       wi_AvailableAt :=
         (case wi_RerunAt r of
            None \<Rightarrow> wi_UpdatedAt r
          | Some t \<Rightarrow> if J t < J (wi_UpdatedAt r) then t else wi_UpdatedAt r),
       wi_LeaseExpiresAt := ZeroTime, wi_LeaseToken := [], wi_RerunAt := None,
       wi_LastError := (if wi_LastError r = [] then detail else wi_LastError r),
       wi_UpdatedAt := now\<rparr>"

definition lease_expired :: "(gotime \<Rightarrow> int) \<Rightarrow> gotime \<Rightarrow> WorkRow \<Rightarrow> bool" where
  "lease_expired J now r \<longleftrightarrow>
     wi_State r = WorkRunning \<and> \<not> IsZero (wi_LeaseExpiresAt r) \<and> J (wi_LeaseExpiresAt r) \<le> J now"

definition lease_active :: "(gotime \<Rightarrow> int) \<Rightarrow> gotime \<Rightarrow> WorkRow \<Rightarrow> bool" where
  "lease_active J now r \<longleftrightarrow>
     wi_State r = WorkRunning \<and> \<not> IsZero (wi_LeaseExpiresAt r) \<and> J now < J (wi_LeaseExpiresAt r)"

definition update_rows :: "(WorkRow \<Rightarrow> bool) \<Rightarrow> (WorkRow \<Rightarrow> WorkRow) \<Rightarrow> WorkTable \<Rightarrow> WorkTable" where
  "update_rows P f q = map (\<lambda>(k, r). (k, if P r then f r else r)) q"

definition expire_leases :: "(gotime \<Rightarrow> int) \<Rightarrow> gotime \<Rightarrow> WorkTable \<Rightarrow> WorkTable" where
  "expire_leases J now =
     update_rows (lease_expired J now) (released_row J now ''scheduled work lease expired'')"

definition work_leasable :: "(gotime \<Rightarrow> int) \<Rightarrow> gotime \<Rightarrow> string \<Rightarrow> WorkTable \<Rightarrow> WorkRow \<Rightarrow> bool" where
  "work_leasable J now lane q r \<longleftrightarrow>
     wi_Lane r = lane \<and> wi_State r = WorkPending \<and> J (wi_AvailableAt r) \<le> J now \<and>
     (wi_ConversationKey r = [] \<or>
      \<not> list_ex (\<lambda>a. wi_ConversationKey a = wi_ConversationKey r \<and> lease_active J now a) (map snd q))"

text \<open>The order of \<open>LeaseWork\<close>, up to the primary key.\<close>

definition work_before :: "WorkRow \<Rightarrow> WorkRow \<Rightarrow> bool" where
  "work_before a b \<longleftrightarrow>
     wi_Priority a < wi_Priority b \<or> wi_Priority a = wi_Priority b \<and>
       (wi_AvailableAt a < wi_AvailableAt b \<or> wi_AvailableAt a = wi_AvailableAt b \<and>
         (wi_CreatedAt a < wi_CreatedAt b \<or> wi_CreatedAt a = wi_CreatedAt b \<and>
           (wi_Kind a < wi_Kind b \<or> wi_Kind a = wi_Kind b \<and> wi_SubjectID a < wi_SubjectID b)))"

definition leased_row :: "string \<Rightarrow> gotime \<Rightarrow> gotime \<Rightarrow> WorkRow \<Rightarrow> WorkRow" where
  "leased_row token until now r =
     r\<lparr>wi_State := WorkRunning, wi_LeaseExpiresAt := until, wi_LeaseToken := token, wi_UpdatedAt := now\<rparr>"

text \<open>Without a candidate the transaction is rolled back, with the leases it found expired.\<close>

definition LeaseWork ::
    "(gotime \<Rightarrow> int) \<Rightarrow> string \<Rightarrow> gotime \<Rightarrow> string \<Rightarrow> int \<Rightarrow> WorkTable \<Rightarrow> WorkError + WorkItem \<times> WorkTable" where
  "LeaseWork J token now lane leaseDuration q =
     (if \<not> validWorkLane lane then Inl (WorkLaneUnsupported lane)
      else if leaseDuration \<le> 0 then Inl WorkLeaseNotPositive
      else
        let q1 = expire_leases J now q in
        case first_by work_before (filter (work_leasable J now lane q1) (map snd q1)) of
          None \<Rightarrow> Inl WorkNotFound
        | Some r \<Rightarrow>
            (let r' = leased_row token (time_add now leaseDuration) now r in
             Inr (WorkItem.truncate r', AList.map_entry (work_key r) (\<lambda>_. r') q1)))"

section \<open>Settling an item\<close>

text \<open>The row an item still holds: it runs under the item's token.\<close>

definition held_row :: "WorkItem \<Rightarrow> WorkTable \<Rightarrow> WorkRow option" where
  "held_row item q =
     (case map_of q (work_key item) of
        None \<Rightarrow> None
      | Some r \<Rightarrow> if wi_State r = WorkRunning \<and> wi_LeaseToken r = wi_LeaseToken item then Some r else None)"

definition rerun_row :: "gotime \<Rightarrow> gotime \<Rightarrow> WorkRow \<Rightarrow> WorkRow" where
  "rerun_row now t r =
     r\<lparr>wi_State := WorkPending, wi_AvailableAt := t, wi_LeaseExpiresAt := ZeroTime, wi_LeaseToken := [],
       wi_RerunAt := None, wi_LastError := [], wi_UpdatedAt := now\<rparr>"

definition CompleteWork :: "gotime \<Rightarrow> WorkItem \<Rightarrow> WorkTable \<Rightarrow> WorkError + WorkTable" where
  "CompleteWork now item q =
     (case held_row item q of
        None \<Rightarrow> Inl WorkConflict
      | Some r \<Rightarrow>
          (case wi_RerunAt r of
             Some t \<Rightarrow> Inr (AList.map_entry (work_key item) (rerun_row now t) q)
           | None \<Rightarrow> Inr (AList.delete (work_key item) q)))"

definition retry_state :: "WorkItem \<Rightarrow> gotime \<Rightarrow> bool \<Rightarrow> string" where
  "retry_state item next_at terminally =
     (if terminally \<or> \<not> IsZero (wi_DeadlineAt item) \<and> \<not> next_at < wi_DeadlineAt item
      then WorkFailed else WorkPending)"

definition retried_work :: "gotime \<Rightarrow> string \<Rightarrow> string \<Rightarrow> gotime \<Rightarrow> WorkRow \<Rightarrow> WorkRow" where
  "retried_work now state detail next_at r =
     r\<lparr>wi_State := state, wi_Failures := wi_Failures r + 1, wi_AvailableAt := next_at,
       wi_LeaseExpiresAt := ZeroTime, wi_LeaseToken := [], wi_LastError := BoundedError detail,
       wi_UpdatedAt := now\<rparr>"

definition RetryWork ::
    "gotime \<Rightarrow> WorkItem \<Rightarrow> string \<Rightarrow> gotime \<Rightarrow> bool \<Rightarrow> WorkTable \<Rightarrow> WorkError + WorkTable" where
  "RetryWork now item detail next_at terminally q =
     (case held_row item q of
        None \<Rightarrow> Inl WorkConflict
      | Some r \<Rightarrow>
          Inr (AList.map_entry (work_key item)
            (retried_work now (retry_state item next_at terminally) detail next_at) q))"

definition deferred_row :: "gotime \<Rightarrow> gotime \<Rightarrow> WorkRow \<Rightarrow> WorkRow" where
  "deferred_row now next_at r =
     r\<lparr>wi_State := WorkPending, wi_Failures := 0, wi_AvailableAt := next_at,
       wi_LeaseExpiresAt := ZeroTime, wi_LeaseToken := [], wi_LastError := [], wi_UpdatedAt := now\<rparr>"

definition DeferWork :: "gotime \<Rightarrow> WorkItem \<Rightarrow> gotime \<Rightarrow> WorkTable \<Rightarrow> WorkError + WorkTable" where
  "DeferWork now item next_at q =
     (case held_row item q of
        None \<Rightarrow> Inl WorkConflict
      | Some r \<Rightarrow> Inr (AList.map_entry (work_key item) (deferred_row now next_at) q))"

definition RecoverWorkLeases :: "(gotime \<Rightarrow> int) \<Rightarrow> gotime \<Rightarrow> WorkTable \<Rightarrow> WorkTable" where
  "RecoverWorkLeases J now =
     update_rows (\<lambda>r. wi_State r = WorkRunning)
       (released_row J now ''Responder stopped during scheduled work'')"

section \<open>Metrics of a lane\<close>

record WorkQueueMetrics =
  wm_Pending :: nat
  wm_Running :: nat
  wm_Failed :: nat
  wm_OldestDueAge :: int
  wm_OldestRunning :: int

definition age_of :: "gotime \<Rightarrow> gotime list \<Rightarrow> int" where
  "age_of now ts = (if ts = [] then 0 else max (time_sub now (Min (set ts))) 0)"

definition WorkMetrics :: "(gotime \<Rightarrow> int) \<Rightarrow> gotime \<Rightarrow> string \<Rightarrow> WorkTable \<Rightarrow> WorkError + WorkQueueMetrics" where
  "WorkMetrics J now lane q =
     (if \<not> validWorkLane lane then Inl (WorkLaneUnsupported lane)
      else
        let rows = filter (\<lambda>r. wi_Lane r = lane) (map snd q);
            in_state = (\<lambda>s. filter (\<lambda>r. wi_State r = s) rows)
        in Inr \<lparr>wm_Pending = length (in_state WorkPending), wm_Running = length (in_state WorkRunning),
             wm_Failed = length (in_state WorkFailed),
             wm_OldestDueAge = age_of now (map wi_AvailableAt
               (filter (\<lambda>r. J (wi_AvailableAt r) \<le> J now) (in_state WorkPending))),
             wm_OldestRunning = age_of now (map wi_UpdatedAt (in_state WorkRunning))\<rparr>)"

end
