(* ===== verification/Scheduler.thy ===== *)
theory Scheduler
  imports WorkQueue Timing
begin

text \<open>
  The scheduler of \<open>internal/service/scheduler.go\<close> over the queue of \<open>WorkQueue\<close>: the items every start
  seeds, the delays of an idle item, and \<open>handleScheduledWork\<close>, which settles the item a worker
  leased.  What the work itself returns is a value of \<open>WorkOutcome\<close>; the work is not modelled here.
\<close>

section \<open>Kinds of work\<close>

abbreviation workSlackInput :: string where "workSlackInput \<equiv> ''slack_input''"
abbreviation workSlackMembership :: string where "workSlackMembership \<equiv> ''slack_membership''"
abbreviation workSlackReconcile :: string where "workSlackReconcile \<equiv> ''slack_reconcile''"
abbreviation workSlackDelivery :: string where "workSlackDelivery \<equiv> ''slack_delivery''"
abbreviation workWebhook :: string where "workWebhook \<equiv> ''webhook''"
abbreviation workIncidentDiscover :: string where "workIncidentDiscover \<equiv> ''incident_discover''"
abbreviation workIncidentChannel :: string where "workIncidentChannel \<equiv> ''incident_channel''"
abbreviation workIncidentSession :: string where "workIncidentSession \<equiv> ''incident_session''"
abbreviation workAgentRun :: string where "workAgentRun \<equiv> ''agent_run''"
abbreviation workAgentFinalize :: string where "workAgentFinalize \<equiv> ''agent_finalize''"
abbreviation workEmisarApproval :: string where "workEmisarApproval \<equiv> ''emisar_approval''"
abbreviation workCoopPoll :: string where "workCoopPoll \<equiv> ''coop_poll''"
abbreviation workMaintenance :: string where "workMaintenance \<equiv> ''maintenance''"
abbreviation workRepositoryFetch :: string where "workRepositoryFetch \<equiv> ''repository_fetch''"
abbreviation workScheduledTask :: string where "workScheduledTask \<equiv> ''scheduled_task''"
abbreviation workEpisodeWakeup :: string where "workEpisodeWakeup \<equiv> ''episode_wakeup''"
abbreviation workPublicationTrack :: string where "workPublicationTrack \<equiv> ''publication_followup''"
abbreviation workLegacyPause :: string where "workLegacyPause \<equiv> ''legacy_pause_cleanup''"
abbreviation workReplayCancel :: string where "workReplayCancel \<equiv> ''replay_cancel''"
abbreviation schedulerSingletonID :: string where "schedulerSingletonID \<equiv> ''drain''"

definition recurringScheduledWork :: "string \<Rightarrow> bool" where
  "recurringScheduledWork kind \<longleftrightarrow>
     kind \<in> {workSlackInput, workSlackMembership, workSlackReconcile, workSlackDelivery, workWebhook,
       workIncidentDiscover, workAgentRun, workAgentFinalize, workCoopPoll, workMaintenance,
       workRepositoryFetch, workScheduledTask, workEpisodeWakeup, workPublicationTrack,
       workLegacyPause, workReplayCancel}"

section \<open>Delays\<close>

record WorkConfig =
  wc_WorkerInterval :: int
  wc_PollInterval :: int
  wc_FollowupInterval :: int
  wc_MaintenanceInterval :: int
  wc_RepositoryFetchInterval :: int
  wc_BackgroundWorkers :: nat

definition scheduledIdleDelay :: "WorkConfig \<Rightarrow> string \<Rightarrow> int" where
  "scheduledIdleDelay cfg kind =
     (if kind = workCoopPoll then wc_PollInterval cfg
      else if kind = workSlackMembership then minute
      else if kind = workPublicationTrack then wc_FollowupInterval cfg
      else if kind = workMaintenance then wc_MaintenanceInterval cfg
      else if kind = workRepositoryFetch then wc_RepositoryFetchInterval cfg
      else if kind = workLegacyPause then minute
      else wc_WorkerInterval cfg)"

section \<open>What a start seeds\<close>

definition work_item :: "string \<Rightarrow> string \<Rightarrow> string \<Rightarrow> string \<Rightarrow> int \<Rightarrow> gotime \<Rightarrow> WorkItem" where
  "work_item kind subject lane conversation priority available =
     \<lparr>wi_Kind = kind, wi_SubjectID = subject, wi_Lane = lane, wi_ConversationKey = conversation,
      wi_Priority = priority, wi_State = [], wi_Failures = 0, wi_AvailableAt = available,
      wi_LeaseExpiresAt = ZeroTime, wi_LeaseToken = [], wi_DeadlineAt = ZeroTime, wi_LastError = [],
      wi_CreatedAt = ZeroTime, wi_UpdatedAt = ZeroTime\<rparr>"

definition drain :: "gotime \<Rightarrow> string \<times> string \<times> int \<Rightarrow> WorkItem" where
  "drain now = (\<lambda>(kind, lane, priority). work_item kind schedulerSingletonID lane [] priority now)"

definition drains :: "(string \<times> string \<times> int) list" where
  "drains =
     [(workSlackInput, WorkLaneControl, 10), (workSlackReconcile, WorkLaneControl, 20),
      (workSlackDelivery, WorkLaneControl, 30), (workSlackMembership, WorkLaneMaintenance, 5),
      (workLegacyPause, WorkLaneMaintenance, 6), (workReplayCancel, WorkLaneMaintenance, 7),
      (workWebhook, WorkLaneBackground, 10), (workAgentFinalize, WorkLaneBackground, 20),
      (workIncidentDiscover, WorkLaneBackground, 25), (workAgentRun, WorkLaneBackground, 50),
      (workScheduledTask, WorkLaneBackground, 45), (workEpisodeWakeup, WorkLaneBackground, 44),
      (workPublicationTrack, WorkLaneBackground, 47), (workCoopPoll, WorkLaneBackground, 60),
      (workMaintenance, WorkLaneMaintenance, 10), (workRepositoryFetch, WorkLaneMaintenance, 15)]"

text \<open>One drain of the agent lanes per further background worker.\<close>

definition shards :: "WorkConfig \<Rightarrow> gotime \<Rightarrow> WorkItem list" where
  "shards cfg now =
     concat (map (\<lambda>shard.
         [work_item workAgentFinalize (''drain-'' @ itoa (int shard)) WorkLaneBackground [] 20 now,
          work_item workAgentRun (''drain-'' @ itoa (int shard)) WorkLaneBackground [] 50 now])
       [2..<Suc (wc_BackgroundWorkers cfg)])"

fun all_in_order :: "('a \<Rightarrow> 's \<Rightarrow> 'e + 's) \<Rightarrow> 'a list \<Rightarrow> 's \<Rightarrow> ('e option \<times> 's)" where
  "all_in_order f [] s = (None, s)"
| "all_in_order f (x # xs) s =
     (case f x s of Inl e \<Rightarrow> (Some e, s) | Inr t \<Rightarrow> all_in_order f xs t)"

definition emisarApprovalWorkItem :: "EmisarApproval \<Rightarrow> gotime \<Rightarrow> WorkItem" where
  "emisarApprovalWorkItem item now =
     work_item workEmisarApproval (apr_RequestID item) WorkLaneBackground [] 70
       (if IsZero (apr_NextCheckAt item) then now else apr_NextCheckAt item)"

definition seedEmisarApprovalWork ::
    "gotime \<Rightarrow> EmisarApproval list \<Rightarrow> WorkTable \<Rightarrow> WorkError option \<times> WorkTable" where
  "seedEmisarApprovalWork now approvals =
     all_in_order (\<lambda>a. EnsureWork now (emisarApprovalWorkItem a now)) approvals"

definition seedScheduledWork ::
    "(gotime \<Rightarrow> int) \<Rightarrow> WorkConfig \<Rightarrow> gotime \<Rightarrow> EmisarApproval list \<Rightarrow> WorkTable \<Rightarrow> WorkError option \<times> WorkTable" where
  "seedScheduledWork J cfg now approvals q =
     (case all_in_order (EnqueueWork J now) (map (drain now) drains @ shards cfg now) q of
        (Some e, t) \<Rightarrow> (Some e, t)
      | (None, t) \<Rightarrow> seedEmisarApprovalWork now approvals t)"

text \<open>\<open>scheduleIncidentWork\<close>, given the incidents that want a channel or a session.\<close>

definition incident_item :: "string \<Rightarrow> int \<Rightarrow> string \<Rightarrow> WorkItem" where
  "incident_item kind priority incident =
     work_item kind incident WorkLaneBackground (''incident:'' @ incident) priority ZeroTime"

definition scheduleIncidentWork ::
    "gotime \<Rightarrow> string list \<Rightarrow> string list \<Rightarrow> string list \<Rightarrow> WorkTable \<Rightarrow> WorkError option \<times> WorkTable" where
  "scheduleIncidentWork now channelWork rootWork sessionWork q =
     (case all_in_order (EnsureWork now)
         (map (incident_item workIncidentChannel 30) (channelWork @ rootWork)
            @ map (incident_item workIncidentSession 40) sessionWork) q of
        (Some e, t) \<Rightarrow> (Some e, t)
      | (None, t) \<Rightarrow>
          (if channelWork @ rootWork @ sessionWork = [] then (Some WorkNotFound, t) else (None, t)))"

section \<open>Settling leased work\<close>

text \<open>
  What \<open>runScheduledWork\<close> may return: success, \<open>ErrNotFound\<close>, a deferral to a time, or another error
  with its text and the delay Slack asked for.  \<open>WorkAbandoned\<close> is a process that is stopping.
\<close>

datatype WorkOutcome = WorkDone | WorkIdle | WorkDeferred gotime | WorkBroke string int | WorkAbandoned

definition settle_work ::
    "WorkConfig \<Rightarrow> gotime \<Rightarrow> WorkItem \<Rightarrow> WorkOutcome \<Rightarrow> WorkTable \<Rightarrow> WorkError + WorkTable" where
  "settle_work cfg now item outcome q =
     (case outcome of
        WorkAbandoned \<Rightarrow> Inr q
      | WorkDone \<Rightarrow>
          if recurringScheduledWork (wi_Kind item) then DeferWork now item now q else CompleteWork now item q
      | WorkIdle \<Rightarrow>
          if recurringScheduledWork (wi_Kind item)
          then DeferWork now item (time_add now (scheduledIdleDelay cfg (wi_Kind item))) q
          else CompleteWork now item q
      | WorkDeferred t \<Rightarrow> DeferWork now item t q
      | WorkBroke detail retryAfter \<Rightarrow>
          RetryWork now item (trim_space detail) (At now (wi_Failures item + 1) retryAfter) False q)"

text \<open>An error of the settlement is logged: the table stays as it is.\<close>

definition handleScheduledWork ::
    "WorkConfig \<Rightarrow> gotime \<Rightarrow> WorkItem \<Rightarrow> WorkOutcome \<Rightarrow> WorkTable \<Rightarrow> WorkTable" where
  "handleScheduledWork cfg now item outcome q =
     (case settle_work cfg now item outcome q of Inl e \<Rightarrow> q | Inr t \<Rightarrow> t)"

end
