(* ===== verification/Schedule.thy ===== *)
theory Schedule
  imports CoreModel Timing
begin

text \<open>
  When recurring work happens next: \<open>internal/schedule/schedule.go\<close>, with the schedule records of
  \<open>internal/core/model.go\<close>.  A \<open>time.Location\<close> is the list of its offset changes, which the time zone
  database provides; \<open>load\<close> stands for \<open>time.LoadLocation\<close>.  \<open>zone_date\<close> is what \<open>time.Date\<close> does with a wall
  clock, at a resolution of seconds.  The patterns that recognise a request in prose and the rendering
  of a schedule are not modelled; \<open>parse\<close> stands for \<open>time.Parse(time.RFC3339, \<dots>)\<close>.
\<close>

section \<open>Records\<close>

record ScheduledTask =
  sk_ID :: string
  sk_TeamID :: string
  sk_ChannelID :: string
  sk_ThreadTS :: string
  sk_DeliveryChannel :: string
  sk_Repository :: string
  sk_Title :: string
  sk_Prompt :: string
  sk_Recurrence :: string
  sk_StartAt :: gotime
  sk_IntervalSeconds :: int
  sk_Weekdays :: "string list"
  sk_DayOfMonth :: int
  sk_LocalTime :: string
  sk_Timezone :: string
  sk_CatchUp :: string
  sk_Enabled :: bool
  sk_ActorID :: string
  sk_SourceRef :: string
  sk_NextRunAt :: gotime
  sk_LastRunAt :: gotime
  sk_LastOutcome :: string
  sk_ExpiresAt :: gotime
  sk_CreatedAt :: gotime
  sk_UpdatedAt :: gotime

section \<open>Time zones\<close>

text \<open>The offset before the first change, and the changes: from a second on, an offset in seconds.\<close>

type_synonym Zone = "int \<times> (int \<times> int) list"

definition UTC :: Zone where "UTC = (0, [])"

text \<open>\<open>lookup\<close>: the offset in force at a second, and the period it is in force.\<close>

fun zone_period :: "int \<Rightarrow> int option \<Rightarrow> (int \<times> int) list \<Rightarrow> int \<Rightarrow> int \<times> int option \<times> int option" where
  "zone_period offset start [] s = (offset, start, None)"
| "zone_period offset start ((change, offset') # changes) s =
     (if s < change then (offset, start, Some change) else zone_period offset' (Some change) changes s)"

definition zone_lookup :: "Zone \<Rightarrow> int \<Rightarrow> int \<times> int option \<times> int option" where
  "zone_lookup z s = zone_period (fst z) None (snd z) s"

definition zone_offset :: "Zone \<Rightarrow> int \<Rightarrow> int" where
  "zone_offset z s = fst (zone_lookup z s)"

definition outside :: "int option \<Rightarrow> int option \<Rightarrow> int \<Rightarrow> bool" where
  "outside start stop s \<longleftrightarrow>
     (case start of None \<Rightarrow> False | Some b \<Rightarrow> s < b) \<or> (case stop of None \<Rightarrow> False | Some e \<Rightarrow> e \<le> s)"

text \<open>The second a wall clock names; one that the zone skips is moved by the change.\<close>

definition zone_date :: "Zone \<Rightarrow> int \<Rightarrow> int" where
  "zone_date z clock =
     (case zone_lookup z clock of (offset, start, stop) \<Rightarrow>
        if offset = 0 then clock
        else if outside start stop (clock - offset) then clock - zone_offset z (clock - offset)
        else clock - offset)"

definition day_seconds :: int where "day_seconds = 86400"

definition seconds_of :: "gotime \<Rightarrow> int" where
  "seconds_of t = nanos t div second"

definition local_seconds :: "Zone \<Rightarrow> int \<Rightarrow> int" where
  "local_seconds z s = s + zone_offset z s"

section \<open>Wall clocks and weekdays\<close>

definition clock_digit :: "char \<Rightarrow> int option" where
  "clock_digit c = (if 48 \<le> (of_char c :: int) \<and> (of_char c :: int) \<le> 57 then Some (of_char c - 48) else None)"

text \<open>\<open>time.Parse("15:04", value)\<close>: one or two digits of an hour, a colon, two digits of a minute.\<close>

fun clock_hour :: "string \<Rightarrow> (int \<times> string) option" where
  "clock_hour [] = None"
| "clock_hour (a # rest) =
     (case clock_digit a of
        None \<Rightarrow> None
      | Some x \<Rightarrow>
          (case rest of
             [] \<Rightarrow> Some (x, [])
           | b # rest' \<Rightarrow>
               (case clock_digit b of None \<Rightarrow> Some (x, rest) | Some y \<Rightarrow> Some (10 * x + y, rest'))))"

fun clock_minute :: "string \<Rightarrow> int option" where
  "clock_minute [a, b] =
     (case (clock_digit a, clock_digit b) of (Some x, Some y) \<Rightarrow> Some (10 * x + y) | _ \<Rightarrow> None)"
| "clock_minute _ = None"

datatype ScheduleFault = ClockNotHHMM | StartNotRFC3339 | StartMissing | StartPast | NoOccurrence
  | RecurrenceInvalid | IntervalOutOfRange | WeekdayMissing | DayOutOfRange | ContentMissing

definition ParseLocalClock :: "string \<Rightarrow> ScheduleFault + int \<times> int" where
  "ParseLocalClock value =
     (case clock_hour value of
        Some (h, colon # rest) \<Rightarrow>
          (case clock_minute rest of
             Some m \<Rightarrow> if colon = CHR '':'' \<and> h < 24 \<and> m < 60 then Inr (h, m) else Inl ClockNotHHMM
           | None \<Rightarrow> Inl ClockNotHHMM)
      | _ \<Rightarrow> Inl ClockNotHHMM)"

definition weekday_names :: "string list" where
  "weekday_names = [''sunday'', ''monday'', ''tuesday'', ''wednesday'', ''thursday'', ''friday'', ''saturday'']"

fun position :: "'a \<Rightarrow> 'a list \<Rightarrow> nat option" where
  "position x [] = None"
| "position x (y # ys) = (if x = y then Some 0 else map_option Suc (position x ys))"

definition WeekdayNumber :: "string \<Rightarrow> nat option" where
  "WeekdayNumber value = position value weekday_names"

text \<open>1 January of year 1 is a Monday.\<close>

definition weekday_of :: "int \<Rightarrow> int" where
  "weekday_of d = (d + 1) mod 7"

section \<open>The next occurrence\<close>

definition MustLocation :: "(string \<Rightarrow> Zone option) \<Rightarrow> string \<Rightarrow> Zone" where
  "MustLocation load name = (case load name of None \<Rightarrow> UTC | Some z \<Rightarrow> z)"

definition day_matches :: "ScheduledTask \<Rightarrow> int \<Rightarrow> bool" where
  "day_matches task d =
     (if sk_Recurrence task = ''weekly''
      then list_ex (\<lambda>value. case WeekdayNumber value of None \<Rightarrow> False | Some n \<Rightarrow> weekday_of d = int n)
        (sk_Weekdays task)
      else if sk_Recurrence task = ''monthly'' then snd (snd (civil d)) = sk_DayOfMonth task
      else sk_Recurrence task = ''daily'')"

text \<open>The candidate of a day: the second its wall clock names, if the clock exists on that day.\<close>

definition candidate_on :: "Zone \<Rightarrow> int \<Rightarrow> int \<Rightarrow> int \<Rightarrow> int option" where
  "candidate_on z d h m =
     (let c = zone_date z (d * day_seconds + h * 3600 + m * 60); l = local_seconds z c in
      if civil (l div day_seconds) = civil d \<and> l mod day_seconds div 3600 = h \<and> l mod 3600 div 60 = m
      then Some c else None)"

text \<open>\<open>localAfter.AddDate(0, 0, offset)\<close>, as the day it falls on.\<close>

definition day_after :: "Zone \<Rightarrow> gotime \<Rightarrow> int \<Rightarrow> int" where
  "day_after z t offset =
     local_seconds z (zone_date z (local_seconds z (seconds_of t) + offset * day_seconds)) div day_seconds"

definition accepted_on :: "Zone \<Rightarrow> ScheduledTask \<Rightarrow> gotime \<Rightarrow> int \<Rightarrow> int \<Rightarrow> int \<Rightarrow> gotime option" where
  "accepted_on z task after h m offset =
     (let d = day_after z after offset in
      case candidate_on z d h m of
        None \<Rightarrow> None
      | Some c \<Rightarrow>
          if after < Time (c * second) \<and> day_matches task d then Some (Time (c * second)) else None)"

fun first_accepted :: "(int \<Rightarrow> gotime option) \<Rightarrow> int list \<Rightarrow> gotime" where
  "first_accepted f [] = ZeroTime"
| "first_accepted f (x # xs) = (case f x of Some t \<Rightarrow> t | None \<Rightarrow> first_accepted f xs)"

definition NextScheduledOccurrence :: "(string \<Rightarrow> Zone option) \<Rightarrow> ScheduledTask \<Rightarrow> gotime \<Rightarrow> gotime" where
  "NextScheduledOccurrence load task after =
     (if sk_Recurrence task = ''once'' then ZeroTime
      else if sk_Recurrence task = ''interval'' then
        (let step = sk_IntervalSeconds task * second in
         if step \<le> 0 then ZeroTime
         else if after < sk_StartAt task then sk_StartAt task
         else time_add (sk_StartAt task) ((time_sub after (sk_StartAt task) div step + 1) * step))
      else
        (case ParseLocalClock (sk_LocalTime task) of
           Inl e \<Rightarrow> ZeroTime
         | Inr (h, m) \<Rightarrow>
             first_accepted (accepted_on (MustLocation load (sk_Timezone task)) task after h m) [0..370]))"

section \<open>What a schedule may be\<close>

definition ParseScheduleStart ::
    "(string \<Rightarrow> Zone option) \<Rightarrow> (string \<Rightarrow> gotime option) \<Rightarrow> ScheduledTask \<Rightarrow> string \<Rightarrow> gotime
      \<Rightarrow> ScheduleFault + gotime" where
  "ParseScheduleStart load parse task value now =
     and_then (if value = [] then Inr ZeroTime
               else case parse value of None \<Rightarrow> Inl StartNotRFC3339 | Some t \<Rightarrow> Inr t) (\<lambda>start.
       if sk_Recurrence task = ''once'' then
         (if IsZero start then Inl StartMissing
          else if start < time_add now (- 5 * minute) then Inl StartPast
          else if start < now then Inr now else Inr start)
       else if sk_Recurrence task = ''interval'' then
         (if IsZero start then Inr (time_add now (sk_IntervalSeconds task * second))
          else if start < now then Inr (NextScheduledOccurrence load (task\<lparr>sk_StartAt := start\<rparr>) now)
          else Inr start)
       else if sk_Recurrence task \<in> {''daily'', ''weekly'', ''monthly''} then
         (let next_at = NextScheduledOccurrence load task (if now < start then time_add start (- 1) else now)
          in if IsZero next_at then Inl NoOccurrence else Inr next_at)
       else Inl RecurrenceInvalid)"

definition interval_in_range :: "int \<Rightarrow> bool" where
  "interval_in_range s \<longleftrightarrow> 300 \<le> s \<and> s \<le> 365 * 24 * 3600"

definition ValidateScheduleShape :: "ScheduledTask \<Rightarrow> ScheduleFault option" where
  "ValidateScheduleShape task =
     (if sk_Recurrence task = ''interval'' \<and> \<not> interval_in_range (sk_IntervalSeconds task)
      then Some IntervalOutOfRange
      else if sk_Recurrence task = ''weekly'' \<and> sk_Weekdays task = [] then Some WeekdayMissing
      else if sk_Recurrence task = ''monthly'' \<and> \<not> (1 \<le> sk_DayOfMonth task \<and> sk_DayOfMonth task \<le> 31)
      then Some DayOutOfRange
      else if sk_Recurrence task \<notin> {''once'', ''interval'', ''daily'', ''weekly'', ''monthly''}
      then Some RecurrenceInvalid
      else if sk_Title task = [] \<or> sk_Prompt task = [] then Some ContentMissing
      else None)"

definition ScheduledSourceInputID :: "string \<Rightarrow> gotime \<Rightarrow> string" where
  "ScheduledSourceInputID taskID scheduledFor =
     ''schedule_'' @ taskID @ ''_'' @ itoa (nanos scheduledFor - days_before_year 1970 * day)"

end
