(* ===== verification/ScheduleLaws.thy ===== *)
theory ScheduleLaws
  imports Schedule
begin

text \<open>
  What \<open>NextScheduledOccurrence\<close> promises: an answer lies strictly ahead, on the schedule's wall clock and
  on one of its days; without clock changes it is the first such instant and there always is one; and the
  day that a clock change makes it overlook.
\<close>

section \<open>Days\<close>

text \<open>A date determines its day.\<close>

lemma civil_inject: "civil d = civil e \<longleftrightarrow> d = e"
proof
  have inv: "d = days_before_year (fst (civil d))
      + month_starts (leap_year (fst (civil d))) ! (nat (fst (snd (civil d))) - 1) + snd (snd (civil d)) - 1" for d
    by (simp add: Let_def)
  assume "civil d = civil e"
  then show "d = e" using inv [of d] inv [of e] by metis
qed simp

declare civil.simps [simp del]

lemma civil_of:
  assumes "days_before_year y \<le> d" and "d < days_before_year (y + 1)"
  shows "civil d = (y, int (month_of (leap_year y) (d - days_before_year y)),
    d - days_before_year y
      - month_starts (leap_year y) ! (month_of (leap_year y) (d - days_before_year y) - 1) + 1)"
  using year_of_day_unique [OF assms] by (simp add: civil.simps Let_def)

lemma first_month: "0 \<le> n \<Longrightarrow> n < 31 \<Longrightarrow> month_of l n = 1"
  by (simp add: month_of_def month_starts_def)

lemma last_month:
  "month_starts l ! 11 \<le> n \<Longrightarrow> month_of l n = 12"
  by (cases l) (simp_all add: month_of_def month_starts_def)

text \<open>Every day of a month comes again within 366 days: January and December have all of them.\<close>

lemma day_of_month_ahead:
  assumes "1 \<le> k" and "k \<le> 31"
  obtains e where "D < e" "e \<le> D + 366" "snd (snd (civil e)) = k"
proof -
  define y where "y = year_of_day D"
  define last where "last = days_before_year y + month_starts (leap_year y) ! 11"
  have D: "days_before_year y \<le> D" "D < days_before_year (y + 1)"
    unfolding y_def by (rule year_of_day)+
  have next_year: "days_before_year (y + 1) = last + 31"
    by (simp add: last_def days_before_year_step month_starts_def)
  have len: "days_before_year y \<le> last" "last + 31 \<le> days_before_year y + 366"
    by (simp_all add: last_def month_starts_def)
  show thesis
  proof (cases "D < last + k - 1")
    case True
    have "civil (last + k - 1) = (y, 12, k)"
      using civil_of [of y "last + k - 1"] last_month [of "leap_year y" "last + k - 1 - days_before_year y"]
        assms next_year len by (simp add: last_def)
    then show thesis using that [of "last + k - 1"] True D(1) len assms by simp
  next
    case False
    have "days_before_year (y + 1) + 31 \<le> days_before_year (y + 1 + 1)"
      using days_before_year_step [of "y + 1"] by (simp split: if_splits)
    then have "civil (days_before_year (y + 1) + k - 1) = (y + 1, 1, k)"
      using civil_of [of "y + 1" "days_before_year (y + 1) + k - 1"] first_month [of "k - 1" "leap_year (y + 1)"]
        assms by (simp add: month_starts_def)
    then show thesis
      using that [of "days_before_year (y + 1) + k - 1"] False D next_year assms by simp
  qed
qed

lemma weekday_ahead:
  assumes "n < 7"
  obtains e where "D < e" "e \<le> D + 7" "weekday_of e = int n"
proof -
  let ?e = "D + 1 + (int n - (D + 2)) mod 7"
  have r: "0 \<le> (int n - (D + 2)) mod 7" "(int n - (D + 2)) mod 7 < 7" by simp_all
  have "weekday_of ?e = ((int n - (D + 2)) mod 7 + (D + 2)) mod 7"
    by (simp add: weekday_of_def algebra_simps)
  also have "\<dots> = (int n - (D + 2) + (D + 2)) mod 7" by (rule mod_add_left_eq)
  also have "\<dots> = int n" using assms by simp
  finally show thesis using that [of ?e] r by simp
qed

lemma position_less: "position x xs = Some n \<Longrightarrow> n < length xs"
  by (induction xs arbitrary: n) (auto split: if_splits)

lemma WeekdayNumber_less: "WeekdayNumber v = Some n \<Longrightarrow> n < 7"
  by (drule position_less [of v weekday_names n, folded WeekdayNumber_def]) (simp add: weekday_names_def)

section \<open>The search over days\<close>

lemma first_accepted_cases:
  obtains (none) "first_accepted f xs = ZeroTime" "\<forall>x \<in> set xs. f x = None"
  | (some) i where "i < length xs" "f (xs ! i) = Some (first_accepted f xs)" "\<forall>j < i. f (xs ! j) = None"
proof (induction xs arbitrary: thesis)
  case Nil
  then show ?case by simp
next
  case (Cons x xs)
  show ?case
  proof (cases "f x")
    case (Some t)
    then show ?thesis using Cons.prems(2) [of 0] by simp
  next
    case None
    show ?thesis
    proof (rule Cons.IH, goal_cases)
      case 1
      then show ?case using Cons.prems(1) None by simp
    next
      case (2 i)
      have "f ((x # xs) ! j) = None" if "j < Suc i" for j
        using that 2(3) None by (cases j) simp_all
      then show ?case using Cons.prems(2) [of "Suc i"] 2(1,2) None by simp
    qed
  qed
qed

lemma upto_nth: "i < length [0..370] \<Longrightarrow> [0..370] ! i = int i"
  by (simp add: nth_upto)

lemma accepted_Some:
  "accepted_on z task after h m offset = Some t \<longleftrightarrow>
     (\<exists>c. candidate_on z (day_after z after offset) h m = Some c \<and> t = Time (c * second) \<and> after < t
        \<and> day_matches task (day_after z after offset))"
  by (auto simp: accepted_on_def Let_def split: option.splits if_splits)

lemma next_calendar:
  assumes "sk_Recurrence task \<in> {''daily'', ''weekly'', ''monthly''}"
    and "ParseLocalClock (sk_LocalTime task) = Inr (h, m)"
  shows "NextScheduledOccurrence load task after =
    first_accepted (accepted_on (MustLocation load (sk_Timezone task)) task after h m) [0..370]"
  using assms by (auto simp: NextScheduledOccurrence_def)

lemma seconds_of_Time: "seconds_of (Time (c * second)) = c"
  by (simp add: seconds_of_def second_def)

text \<open>C14. 
  In any time zone: whatever the schedule answers lies strictly after the instant asked for, and the wall
  clock there shows the schedule's hour and minute on a day the schedule names.
\<close>

theorem next_occurrence_on_schedule:
  assumes "sk_Recurrence task \<in> {''daily'', ''weekly'', ''monthly''}"
    and "NextScheduledOccurrence load task after \<noteq> ZeroTime"
  shows "after < NextScheduledOccurrence load task after \<and>
    (let l = local_seconds (MustLocation load (sk_Timezone task))
               (seconds_of (NextScheduledOccurrence load task after))
     in ParseLocalClock (sk_LocalTime task) = Inr (l mod day_seconds div 3600, l mod 3600 div 60)
        \<and> day_matches task (l div day_seconds))"
proof -
  let ?z = "MustLocation load (sk_Timezone task)" and ?t = "NextScheduledOccurrence load task after"
  obtain h m where hm: "ParseLocalClock (sk_LocalTime task) = Inr (h, m)"
    using assms by (cases "ParseLocalClock (sk_LocalTime task)") (auto simp: NextScheduledOccurrence_def)
  note t = next_calendar [OF assms(1) hm]
  obtain i where "accepted_on ?z task after h m i = Some ?t"
    by (cases rule: first_accepted_cases [of "accepted_on ?z task after h m" "[0..370]"])
      (use assms(2) t in auto)
  then obtain c where c: "candidate_on ?z (day_after ?z after i) h m = Some c" "?t = Time (c * second)"
    "after < ?t" "day_matches task (day_after ?z after i)"
    unfolding accepted_Some by blast
  then have "civil (local_seconds ?z c div day_seconds) = civil (day_after ?z after i)"
    "local_seconds ?z c mod day_seconds div 3600 = h" "local_seconds ?z c mod 3600 div 60 = m"
    by (auto simp: candidate_on_def Let_def split: if_splits)
  with c hm show ?thesis by (simp add: seconds_of_Time civil_inject Let_def)
qed

section \<open>Without clock changes\<close>

text \<open>The instants a schedule means in a zone of one offset.\<close>

definition on_schedule :: "int \<Rightarrow> ScheduledTask \<Rightarrow> int \<Rightarrow> int \<Rightarrow> gotime \<Rightarrow> bool" where
  "on_schedule offset task h m t \<longleftrightarrow>
     (\<exists>d. t = Time ((d * day_seconds + h * 3600 + m * 60 - offset) * second) \<and> day_matches task d)"

lemma fixed_zone:
  "zone_offset (offset, []) s = offset" "zone_date (offset, []) s = s - offset"
  by (simp_all add: zone_offset_def zone_date_def zone_lookup_def outside_def)

lemma fixed_day_after:
  "day_after (offset, []) t k = (seconds_of t + offset) div day_seconds + k"
  by (simp add: day_after_def local_seconds_def fixed_zone day_seconds_def)

lemma clock_parts:
  assumes "0 \<le> h" "h < 24" "0 \<le> m" "m < 60"
  shows "(d * day_seconds + h * 3600 + m * 60) div day_seconds = (d::int)"
    "(d * day_seconds + h * 3600 + m * 60) mod day_seconds div 3600 = h"
    "(d * day_seconds + h * 3600 + m * 60) mod 3600 div 60 = m"
proof -
  show "(d * day_seconds + h * 3600 + m * 60) div day_seconds = d"
    using assms by (intro int_div_pos_eq [of _ _ _ "h * 3600 + m * 60"]) (simp_all add: day_seconds_def)
  have "(d * day_seconds + h * 3600 + m * 60) mod day_seconds = h * 3600 + m * 60"
    using assms by (intro int_mod_pos_eq [of _ _ d]) (simp_all add: day_seconds_def)
  moreover have "(h * 3600 + m * 60) div 3600 = h"
    using assms by (intro int_div_pos_eq [of _ _ _ "m * 60"]) simp_all
  ultimately show "(d * day_seconds + h * 3600 + m * 60) mod day_seconds div 3600 = h" by simp
  have "(d * day_seconds + h * 3600 + m * 60) mod 3600 = m * 60"
    using assms by (intro int_mod_pos_eq [of _ _ "d * 24 + h"]) (simp_all add: day_seconds_def)
  then show "(d * day_seconds + h * 3600 + m * 60) mod 3600 div 60 = m" by simp
qed

lemma fixed_candidate:
  assumes "0 \<le> h" "h < 24" "0 \<le> m" "m < 60"
  shows "candidate_on (offset, []) d h m = Some (d * day_seconds + h * 3600 + m * 60 - offset)"
  using clock_parts [OF assms] by (simp add: candidate_on_def Let_def local_seconds_def fixed_zone)

lemma digit_value_range: "clock_digit c = Some x \<Longrightarrow> 0 \<le> x \<and> x \<le> 9"
  by (auto simp: clock_digit_def split: if_splits)

lemma clock_hour_nonneg: "clock_hour s = Some (h, r) \<Longrightarrow> 0 \<le> h"
  by (induction s rule: clock_hour.induct)
    (auto split: option.splits list.splits dest!: digit_value_range)

lemma clock_minute_nonneg: "clock_minute s = Some m \<Longrightarrow> 0 \<le> m"
  by (induction s rule: clock_minute.induct) (auto split: option.splits dest!: digit_value_range)

lemma ParseLocalClock_range:
  assumes "ParseLocalClock value = Inr (h, m)"
  shows "0 \<le> h" "h < 24" "0 \<le> m" "m < 60"
  using assms
  by (auto simp: ParseLocalClock_def split: option.splits list.splits if_splits
      dest: clock_hour_nonneg clock_minute_nonneg)

definition instant_on :: "int \<Rightarrow> int \<Rightarrow> int \<Rightarrow> int \<Rightarrow> gotime" where
  "instant_on offset h m d = Time ((d * day_seconds + h * 3600 + m * 60 - offset) * second)"

lemma seconds_of_bounds:
  "seconds_of t * second \<le> nanos t" "nanos t < (seconds_of t + 1) * second"
  using div_bounds [of second "nanos t"] by (simp_all add: seconds_of_def second_def algebra_simps)

lemma instant_after:
  assumes "0 \<le> h" "h < 24" "0 \<le> m" "m < 60"
  shows "(seconds_of t + offset) div day_seconds < d \<Longrightarrow> t < instant_on offset h m d"
    "d < (seconds_of t + offset) div day_seconds \<Longrightarrow> instant_on offset h m d \<le> t"
proof -
  let ?s = "seconds_of t" and ?D = "(seconds_of t + offset) div day_seconds"
  have D: "?D * day_seconds \<le> ?s + offset" "?s + offset < (?D + 1) * day_seconds"
    using div_bounds [of day_seconds "?s + offset"] by (simp_all add: day_seconds_def algebra_simps)
  have hm: "0 \<le> h * 3600 + m * 60" "h * 3600 + m * 60 < day_seconds"
    using assms by (simp_all add: day_seconds_def)
  show "t < instant_on offset h m d" if "?D < d"
  proof -
    have "(?D + 1) * day_seconds \<le> d * day_seconds" using that by (intro mult_right_mono) (simp_all add: day_seconds_def)
    then have "?s + 1 \<le> d * day_seconds + h * 3600 + m * 60 - offset" using D hm by linarith
    then have "(?s + 1) * second \<le> (d * day_seconds + h * 3600 + m * 60 - offset) * second"
      by (intro mult_right_mono) (simp_all add: second_def)
    then show ?thesis using seconds_of_bounds(2) [of t] by (simp add: instant_on_def less_gotime_def)
  qed
  show "instant_on offset h m d \<le> t" if "d < ?D"
  proof -
    have "(d + 1) * day_seconds \<le> ?D * day_seconds" using that by (intro mult_right_mono) (simp_all add: day_seconds_def)
    then have "d * day_seconds + h * 3600 + m * 60 - offset \<le> ?s" using D hm by (simp add: algebra_simps)
    then have "(d * day_seconds + h * 3600 + m * 60 - offset) * second \<le> ?s * second"
      by (intro mult_right_mono) (simp_all add: second_def)
    then show ?thesis using seconds_of_bounds(1) [of t] by (simp add: instant_on_def less_eq_gotime_def)
  qed
qed

lemma instant_on_mono: "d \<le> e \<Longrightarrow> instant_on offset h m d \<le> instant_on offset h m e"
  by (simp add: instant_on_def day_seconds_def second_def)

lemma fixed_accepted:
  assumes "0 \<le> h" "h < 24" "0 \<le> m" "m < 60"
  shows "accepted_on (offset, []) task after h m k =
    (let d = (seconds_of after + offset) div day_seconds + k in
     if after < instant_on offset h m d \<and> day_matches task d then Some (instant_on offset h m d) else None)"
  by (simp add: accepted_on_def Let_def fixed_day_after fixed_candidate [OF assms] instant_on_def)

text \<open>A valid calendar schedule has a day within 366 days of any other.\<close>

definition calendar_shape :: "ScheduledTask \<Rightarrow> bool" where
  "calendar_shape task \<longleftrightarrow>
     (if sk_Recurrence task = ''weekly'' then list_ex (\<lambda>v. WeekdayNumber v \<noteq> None) (sk_Weekdays task)
      else if sk_Recurrence task = ''monthly'' then 1 \<le> sk_DayOfMonth task \<and> sk_DayOfMonth task \<le> 31
      else sk_Recurrence task = ''daily'')"

lemma matching_day_ahead:
  assumes "calendar_shape task"
  obtains e where "D < e" "e \<le> D + 366" "day_matches task e"
proof (cases "sk_Recurrence task = ''weekly''")
  case True
  with assms obtain v n where v: "v \<in> set (sk_Weekdays task)" "WeekdayNumber v = Some n"
    by (auto simp: calendar_shape_def list_ex_iff)
  obtain e where "D < e" "e \<le> D + 7" "weekday_of e = int n"
    by (rule weekday_ahead [OF WeekdayNumber_less [OF v(2)]])
  then show ?thesis using that [of e] True v by (force simp: day_matches_def list_ex_iff)
next
  case False
  show ?thesis
  proof (cases "sk_Recurrence task = ''monthly''")
    case True
    then have k: "1 \<le> sk_DayOfMonth task" "sk_DayOfMonth task \<le> 31"
      using assms by (simp_all add: calendar_shape_def)
    obtain e where "D < e" "e \<le> D + 366" "snd (snd (civil e)) = sk_DayOfMonth task"
      by (rule day_of_month_ahead [OF k])
    then show ?thesis using that [of e] True by (simp add: day_matches_def)
  next
    case monthly: False
    then have "sk_Recurrence task = ''daily''" using assms False by (simp add: calendar_shape_def)
    then show ?thesis using that [of "D + 1"] by (simp add: day_matches_def)
  qed
qed

text \<open>C7. 
  In a zone of one offset a calendar schedule always has a next occurrence, within the 370 days that are
  searched, and it is the first instant of the schedule strictly after the one asked for.
\<close>

theorem next_is_the_first:
  assumes "MustLocation load (sk_Timezone task) = (offset, [])"
    and "ParseLocalClock (sk_LocalTime task) = Inr (h, m)" and "calendar_shape task"
  shows "on_schedule offset task h m (NextScheduledOccurrence load task after) \<and>
    after < NextScheduledOccurrence load task after \<and>
    (\<forall>t. on_schedule offset task h m t \<and> after < t \<longrightarrow> NextScheduledOccurrence load task after \<le> t)"
proof -
  note hm = ParseLocalClock_range [OF assms(2)]
  let ?D = "(seconds_of after + offset) div day_seconds"
  let ?f = "accepted_on (offset, []) task after h m"
  have rec: "sk_Recurrence task \<in> {''daily'', ''weekly'', ''monthly''}"
    using assms(3) by (auto simp: calendar_shape_def split: if_splits)
  have N: "NextScheduledOccurrence load task after = first_accepted ?f [0..370]"
    using next_calendar [OF rec assms(2), of load after] assms(1) by simp
  obtain e where e: "?D < e" "e \<le> ?D + 366" "day_matches task e"
    by (rule matching_day_ahead [OF assms(3)])
  have "?f (e - ?D) \<noteq> None"
    using e instant_after(1) [OF hm e(1)] by (simp add: fixed_accepted [OF hm] Let_def)
  moreover have "e - ?D \<in> set [0..370]" using e by simp
  ultimately obtain i where i: "i < length [0..370]" "?f ([0..370] ! i) = Some (first_accepted ?f [0..370])"
    "\<forall>j < i. ?f ([0..370] ! j) = None"
    by (cases rule: first_accepted_cases [of ?f "[0..370]"]) auto
  let ?d = "?D + int i"
  have at: "NextScheduledOccurrence load task after = instant_on offset h m ?d"
    "after < instant_on offset h m ?d" "day_matches task ?d"
    using i(2) upto_nth [OF i(1)] by (auto simp: N fixed_accepted [OF hm] Let_def split: if_splits)
  have "instant_on offset h m ?d \<le> t" if t: "on_schedule offset task h m t" "after < t" for t
  proof -
    obtain d where d: "t = instant_on offset h m d" "day_matches task d"
      using t(1) by (auto simp: on_schedule_def instant_on_def)
    have "?D \<le> d"
      using instant_after(2) [OF hm, of d after offset] t(2) d(1) by (meson leD not_le_imp_less)
    have "?d \<le> d"
    proof (rule ccontr)
      assume "\<not> ?d \<le> d"
      then have j: "nat (d - ?D) < i" using \<open>?D \<le> d\<close> by simp
      then have "?f ([0..370] ! nat (d - ?D)) = None" using i(3) by blast
      moreover have "[0..370] ! nat (d - ?D) = d - ?D"
        using upto_nth [of "nat (d - ?D)"] j i(1) \<open>?D \<le> d\<close> by simp
      ultimately show False using t(2) d by (simp add: fixed_accepted [OF hm] Let_def)
    qed
    then show ?thesis using d(1) instant_on_mono by simp
  qed
  moreover have "on_schedule offset task h m (instant_on offset h m ?d)"
    using at(3) by (auto simp: on_schedule_def instant_on_def)
  ultimately show ?thesis using at by simp
qed

text \<open>An interval schedule answers the least point of its grid strictly after the instant asked for.\<close>

theorem next_interval_is_least:
  assumes "sk_Recurrence task = ''interval''" and "0 < sk_IntervalSeconds task"
    and "nanos after - nanos (sk_StartAt task) < 2 ^ 63"
  shows "after < NextScheduledOccurrence load task after \<and>
    (\<exists>k \<ge> 0. NextScheduledOccurrence load task after
       = time_add (sk_StartAt task) (k * (sk_IntervalSeconds task * second))) \<and>
    (\<forall>k \<ge> 0. after < time_add (sk_StartAt task) (k * (sk_IntervalSeconds task * second)) \<longrightarrow>
       NextScheduledOccurrence load task after
         \<le> time_add (sk_StartAt task) (k * (sk_IntervalSeconds task * second)))"
proof -
  define step where "step = sk_IntervalSeconds task * second"
  have step: "0 < step" using assms(2) by (simp add: step_def second_def)
  let ?s = "nanos (sk_StartAt task)" and ?a = "nanos after" and ?N = "NextScheduledOccurrence load task after"
  show ?thesis
  proof (cases "after < sk_StartAt task")
    case True
    then have N: "?N = sk_StartAt task"
      using assms(1) step by (simp add: NextScheduledOccurrence_def Let_def step_def [symmetric])
    have "sk_StartAt task \<le> time_add (sk_StartAt task) (k * step)" if "0 \<le> k" for k
      using that step by (simp add: less_eq_gotime_def)
    moreover have "sk_StartAt task = time_add (sk_StartAt task) (0 * step)" by (cases "sk_StartAt task") simp
    ultimately show ?thesis using True unfolding N step_def [symmetric] by blast
  next
    case False
    then have le: "?s \<le> ?a" by (simp add: less_gotime_def)
    then have "time_sub after (sk_StartAt task) = ?a - ?s" using assms(3) by (simp add: time_sub_def)
    then have N: "?N = time_add (sk_StartAt task) (((?a - ?s) div step + 1) * step)"
      using assms(1) step False by (simp add: NextScheduledOccurrence_def Let_def step_def [symmetric])
    note b = div_bounds [OF step, of "?a - ?s"]
    have q: "0 \<le> (?a - ?s) div step" using le step by (simp add: pos_imp_zdiv_nonneg_iff)
    have "after < ?N" using b by (simp add: N less_gotime_def algebra_simps)
    moreover have "?N \<le> time_add (sk_StartAt task) (k * step)"
      if "after < time_add (sk_StartAt task) (k * step)" for k
    proof -
      have "?a - ?s < k * step" using that by (simp add: less_gotime_def)
      then have "(?a - ?s) div step < k" by (rule zdiv_less [OF step])
      then have "((?a - ?s) div step + 1) * step \<le> k * step" using step by (intro mult_right_mono) simp_all
      then show ?thesis by (simp add: N less_eq_gotime_def)
    qed
    ultimately show ?thesis using q N unfolding step_def [symmetric] by (auto intro!: exI [of _ "(?a - ?s) div step + 1"])
  qed
qed

section \<open>A day that a clock change hides\<close>

text \<open>
  A zone west of Greenwich that goes from -4 to -3 hours at midnight, as Chile does in September 2024.
\<close>

definition daily_task :: ScheduledTask where
  "daily_task = \<lparr>sk_ID = ''s1'', sk_TeamID = ''T1'', sk_ChannelID = ''C1'', sk_ThreadTS = [],
     sk_DeliveryChannel = ''C1'', sk_Repository = ''repo'', sk_Title = ''check'', sk_Prompt = ''check'',
     sk_Recurrence = ''daily'', sk_StartAt = ZeroTime, sk_IntervalSeconds = 0, sk_Weekdays = [],
     sk_DayOfMonth = 0, sk_LocalTime = ''09:00'', sk_Timezone = ''America/Santiago'',
     sk_CatchUp = ''latest'', sk_Enabled = True, sk_ActorID = ''U1'', sk_SourceRef = ''r1'',
     sk_NextRunAt = ZeroTime, sk_LastRunAt = ZeroTime, sk_LastOutcome = [],
     sk_ExpiresAt = PermanentExpiry, sk_CreatedAt = ZeroTime, sk_UpdatedAt = ZeroTime\<rparr>"

definition sunday_task :: ScheduledTask where
  "sunday_task = daily_task\<lparr>sk_Recurrence := ''weekly'', sk_Weekdays := [''sunday'']\<rparr>"

text \<open>8 September 2024, and the second its midnight would be.\<close>

definition change_day :: int where "change_day = days_before_year 2024 + 251"

definition santiago :: Zone where
  "santiago = (- 4 * 3600, [(change_day * day_seconds + 4 * 3600, - 3 * 3600)])"

definition santiago_db :: "string \<Rightarrow> Zone option" where
  "santiago_db name = (if name = ''America/Santiago'' then Some santiago else None)"

text \<open>Half past midnight of the Tuesday before, in Santiago.\<close>

definition tuesday_night :: gotime where
  "tuesday_night = Time (((change_day - 5) * day_seconds + 1800 + 4 * 3600) * second)"


section \<open>Instances\<close>

theorem next_occurrence_on_schedule_witness:
  "tuesday_night < NextScheduledOccurrence santiago_db sunday_task tuesday_night \<and>
    day_matches sunday_task (local_seconds santiago
      (seconds_of (NextScheduledOccurrence santiago_db sunday_task tuesday_night)) div day_seconds)"
proof -
  have r: "sk_Recurrence sunday_task \<in> {''daily'', ''weekly'', ''monthly''}"
    by (simp add: sunday_task_def)
  have n: "NextScheduledOccurrence santiago_db sunday_task tuesday_night \<noteq> ZeroTime"
    by code_simp
  have "MustLocation santiago_db (sk_Timezone sunday_task) = santiago" by code_simp
  with next_occurrence_on_schedule [OF r n] show ?thesis by (simp add: Let_def)
qed

definition month_end_task :: ScheduledTask where
  "month_end_task = daily_task\<lparr>sk_Recurrence := ''monthly'', sk_DayOfMonth := 31, sk_Timezone := ''UTC''\<rparr>"

theorem next_is_the_first_witness:
  "on_schedule 0 month_end_task 9 0 (NextScheduledOccurrence (\<lambda>_. Some UTC) month_end_task tuesday_night) \<and>
   tuesday_night < NextScheduledOccurrence (\<lambda>_. Some UTC) month_end_task tuesday_night"
proof -
  have "MustLocation (\<lambda>_. Some UTC) (sk_Timezone month_end_task) = (0, [])"
    by (simp add: MustLocation_def UTC_def)
  moreover have "ParseLocalClock (sk_LocalTime month_end_task) = Inr (9, 0)" by code_simp
  moreover have "calendar_shape month_end_task" by code_simp
  ultimately show ?thesis using next_is_the_first by blast
qed

definition hourly_task :: ScheduledTask where
  "hourly_task = daily_task\<lparr>sk_Recurrence := ''interval'', sk_IntervalSeconds := 3600, sk_StartAt := Time second\<rparr>"

theorem next_interval_is_least_witness:
  "NextScheduledOccurrence santiago_db hourly_task (Time (7200 * second)) = Time (7201 * second)
   \<and> (\<nexists>k. 0 \<le> k \<and> Time (7200 * second) < time_add (Time second) (k * (3600 * second)) \<and>
        time_add (Time second) (k * (3600 * second)) < Time (7201 * second))"
proof -
  have n: "NextScheduledOccurrence santiago_db hourly_task (Time (7200 * second)) = Time (7201 * second)"
    by code_simp
  have "sk_Recurrence hourly_task = ''interval''" "0 < sk_IntervalSeconds hourly_task"
    "nanos (Time (7200 * second)) - nanos (sk_StartAt hourly_task) < 2 ^ 63"
    by (simp_all add: hourly_task_def daily_task_def second_def)
  from next_interval_is_least [OF this, of santiago_db] n show ?thesis
    by (auto simp: hourly_task_def daily_task_def not_less)
qed

end
