(* ===== verification/ScheduleStore.thy ===== *)
theory ScheduleStore
  imports Schedule EpisodeStore
begin

text \<open>
  Schedules at rest: \<open>internal/store/schedulestore\<close> (proposals, the tasks they become, the runs of a task),
  \<open>internal/scheduleoffer\<close> (the task an offer means) and the transactions that
  \<open>internal/service/schedule.go\<close> makes for the operator's controls and for what is due.

  Tables are lists in rowid order.  A NULL \<open>next_run_at\<close> is the zero time.  \<open>J\<close> is SQLite's \<open>julianday\<close>,
  \<open>load\<close> is \<open>time.LoadLocation\<close>, and an identity the code draws at random is an argument.
\<close>

section \<open>Tables\<close>

record ScheduleProposal =
  sp_ID :: string
  sp_TeamID :: string
  sp_ChannelID :: string
  sp_ThreadTS :: string
  sp_ActorID :: string
  sp_SourceRef :: string
  sp_Task :: ScheduledTask
  sp_ReplaceTaskID :: string
  sp_Status :: string
  sp_AcceptedTaskID :: string
  sp_ExpiresAt :: gotime
  sp_CreatedAt :: gotime
  sp_UpdatedAt :: gotime

record ScheduledTaskRun =
  sr_TaskID :: string
  sr_ScheduledFor :: gotime
  sr_SourceInput :: string
  sr_AgentRunID :: string
  sr_EpisodeID :: string
  sr_Outcome :: string
  sr_LastError :: string
  sr_StartedAt :: gotime
  sr_CompletedAt :: gotime
  sr_CreatedAt :: gotime
  sr_UpdatedAt :: gotime

record Schedules =
  sc_proposals :: "ScheduleProposal list"
  sc_tasks :: "ScheduledTask list"
  sc_runs :: "ScheduledTaskRun list"

datatype ScheduleError = ScheduleRefused string | ScheduleFieldMissing | ScheduleNotFound
  | ScheduleConflict | ScheduleConstraint

definition find_task :: "string \<Rightarrow> Schedules \<Rightarrow> ScheduledTask option" where
  "find_task key st = find (\<lambda>t. sk_ID t = key) (sc_tasks st)"

definition find_proposal :: "string \<Rightarrow> Schedules \<Rightarrow> ScheduleProposal option" where
  "find_proposal key st = find (\<lambda>p. sp_ID p = key) (sc_proposals st)"

definition or_missing :: "'a option \<Rightarrow> ScheduleError + 'a" where
  "or_missing x = (case x of None \<Rightarrow> Inl ScheduleNotFound | Some a \<Rightarrow> Inr a)"

definition refuse_if :: "bool \<Rightarrow> ScheduleError \<Rightarrow> ScheduleError + unit" where
  "refuse_if b e = (if b then Inl e else Inr ())"

section \<open>What a task must look like\<close>

text \<open>The order in which the code looks at the required fields is that of a Go map.\<close>

definition validateTask :: "(string \<Rightarrow> Zone option) \<Rightarrow> ScheduledTask \<Rightarrow> ScheduleError + unit" where
  "validateTask load task =
     (if list_ex (\<lambda>v. trim_space v = [])
           [sk_TeamID task, sk_ChannelID task, sk_Repository task, sk_Title task, sk_Prompt task,
            sk_ActorID task, sk_SourceRef task]
      then Inl ScheduleFieldMissing
      else if 64 < length (sk_TeamID task) \<or> 64 < length (sk_ChannelID task)
        \<or> 64 < length (sk_ThreadTS task) \<or> 64 < length (sk_DeliveryChannel task)
        \<or> 63 < length (sk_Repository task) \<or> 160 < length (sk_Title task)
        \<or> 1200 < length (sk_Prompt task) \<or> 64 < length (sk_ActorID task)
        \<or> 200 < length (sk_SourceRef task)
      then Inl (ScheduleRefused ''scheduled task contains an oversized field'')
      else if sk_Recurrence task = ''interval'' \<and> \<not> interval_in_range (sk_IntervalSeconds task)
      then Inl (ScheduleRefused ''scheduled task interval must be between 5 minutes and 365 days'')
      else if sk_Recurrence task = ''daily'' \<and> sk_LocalTime task = []
      then Inl (ScheduleRefused ''daily schedule requires local_time'')
      else if sk_Recurrence task = ''weekly''
        \<and> (sk_LocalTime task = [] \<or> sk_Weekdays task = [] \<or> 7 < length (sk_Weekdays task))
      then Inl (ScheduleRefused ''weekly schedule requires local_time and weekdays'')
      else if sk_Recurrence task = ''monthly''
        \<and> (sk_LocalTime task = [] \<or> \<not> (1 \<le> sk_DayOfMonth task \<and> sk_DayOfMonth task \<le> 31))
      then Inl (ScheduleRefused ''monthly schedule requires local_time and day_of_month from 1 to 31'')
      else if sk_Recurrence task \<notin> {''once'', ''interval'', ''daily'', ''weekly'', ''monthly''}
      then Inl (ScheduleRefused (''scheduled task recurrence is invalid: '' @ sk_Recurrence task))
      else if sk_CatchUp task \<noteq> ''latest'' \<and> sk_CatchUp task \<noteq> ''skip''
      then Inl (ScheduleRefused ''scheduled task catch_up must be latest or skip'')
      else if load (sk_Timezone task) = None
      then Inl (ScheduleRefused ''scheduled task timezone is invalid'')
      else Inr ())"

text \<open>\<open>validateScheduledTask\<close> of \<open>schedule.go\<close> is the same text.\<close>

definition validateScheduledTask :: "(string \<Rightarrow> Zone option) \<Rightarrow> ScheduledTask \<Rightarrow> ScheduleError + unit" where
  "validateScheduledTask load task = validateTask load task"

section \<open>Proposals\<close>

definition prepared_proposal :: "gotime \<Rightarrow> string \<Rightarrow> ScheduleProposal \<Rightarrow> ScheduleProposal" where
  "prepared_proposal now fresh p =
     p\<lparr>sp_ExpiresAt := (if IsZero (sp_ExpiresAt p) then time_add now (24 * hour) else sp_ExpiresAt p),
       sp_ID := (if sp_ID p = [] then fresh else sp_ID p),
       sp_Status := ''pending'', sp_CreatedAt := now, sp_UpdatedAt := now\<rparr>"

text \<open>The first loop of \<open>CreateMany\<close>: nothing is written before every proposal of the batch is sound.\<close>

fun prepare_proposals ::
    "(string \<Rightarrow> Zone option) \<Rightarrow> gotime \<Rightarrow> string list \<Rightarrow> (ScheduleProposal \<times> string) list
      \<Rightarrow> ScheduleError + ScheduleProposal list" where
  "prepare_proposals load now seen [] = Inr []"
| "prepare_proposals load now seen ((p, fresh) # ps) =
     (if sp_TeamID p = [] \<or> sp_ChannelID p = [] \<or> sp_ActorID p = [] \<or> sp_SourceRef p = []
      then Inl (ScheduleRefused ''schedule proposal identity is incomplete'')
      else if sp_SourceRef p \<in> set seen
      then Inl (ScheduleRefused (''schedule proposal source is duplicated: '' @ sp_SourceRef p))
      else and_then (validateTask load (sp_Task p)) (\<lambda>_.
        let q = prepared_proposal now fresh p in
        if \<not> now < sp_ExpiresAt q
        then Inl (ScheduleRefused ''schedule proposal expiration must be in the future'')
        else and_then (prepare_proposals load now (sp_SourceRef p # seen) ps) (\<lambda>qs. Inr (q # qs))))"

definition same_source :: "ScheduleProposal \<Rightarrow> ScheduleProposal \<Rightarrow> bool" where
  "same_source p q \<longleftrightarrow> sp_TeamID q = sp_TeamID p \<and> sp_ChannelID q = sp_ChannelID p
     \<and> sp_SourceRef q = sp_SourceRef p"

text \<open>\<open>INSERT OR IGNORE\<close>, and the proposal that already stands for the same source.\<close>

fun insert_proposals ::
    "ScheduleProposal list \<Rightarrow> ScheduleProposal list \<Rightarrow> ScheduleError + ScheduleProposal list \<times> ScheduleProposal list" where
  "insert_proposals rows [] = Inr ([], rows)"
| "insert_proposals rows (p # ps) =
     (if list_ex (\<lambda>q. sp_ID q = sp_ID p \<or> same_source p q) rows then
        and_then (or_missing (find (same_source p) rows)) (\<lambda>old.
          and_then (insert_proposals rows ps) (\<lambda>(stored, rows'). Inr (old # stored, rows')))
      else
        and_then (insert_proposals (rows @ [p\<lparr>sp_AcceptedTaskID := []\<rparr>]) ps) (\<lambda>(stored, rows').
          Inr (p # stored, rows')))"

definition CreateMany ::
    "(string \<Rightarrow> Zone option) \<Rightarrow> gotime \<Rightarrow> (ScheduleProposal \<times> string) list \<Rightarrow> Schedules
      \<Rightarrow> ScheduleError + ScheduleProposal list \<times> Schedules" where
  "CreateMany load now proposals st =
     (if proposals = [] then Inl (ScheduleRefused ''schedule proposal batch is empty'')
      else and_then (prepare_proposals load now [] proposals) (\<lambda>prepared.
        and_then (insert_proposals (sc_proposals st) prepared) (\<lambda>(stored, rows).
          Inr (stored, st\<lparr>sc_proposals := rows\<rparr>))))"

definition CreateProposal ::
    "(string \<Rightarrow> Zone option) \<Rightarrow> gotime \<Rightarrow> string \<Rightarrow> ScheduleProposal \<Rightarrow> Schedules
      \<Rightarrow> ScheduleError + ScheduleProposal \<times> Schedules" where
  "CreateProposal load now fresh p st =
     and_then (CreateMany load now [(p, fresh)] st) (\<lambda>(stored, st'). Inr (hd stored, st'))"

definition GetProposal :: "string \<Rightarrow> Schedules \<Rightarrow> ScheduleError + ScheduleProposal" where
  "GetProposal key st = or_missing (find_proposal key st)"

definition GetPendingForConversation ::
    "(gotime \<Rightarrow> int) \<Rightarrow> gotime \<Rightarrow> string \<Rightarrow> string \<Rightarrow> string \<Rightarrow> string \<Rightarrow> Schedules
      \<Rightarrow> ScheduleError + ScheduleProposal" where
  "GetPendingForConversation J now teamID channelID threadTS actorID st =
     or_missing (first_by (\<lambda>a b. sp_CreatedAt b < sp_CreatedAt a)
       (filter (\<lambda>p. sp_TeamID p = teamID \<and> sp_ChannelID p = channelID \<and> sp_ThreadTS p = threadTS
           \<and> sp_ActorID p = actorID \<and> sp_Status p = ''pending'' \<and> J now < J (sp_ExpiresAt p))
         (sc_proposals st)))"

section \<open>Accepting\<close>

definition stored_delivery :: "ScheduledTask \<Rightarrow> string" where
  "stored_delivery task =
     FirstNonempty [sk_DeliveryChannel task, sk_ChannelID task]"

definition task_source :: "ScheduledTask \<Rightarrow> string \<times> string \<times> string" where
  "task_source task = (sk_TeamID task, sk_ChannelID task, sk_SourceRef task)"

text \<open>The row an update leaves, and the task it reports.\<close>

definition replaced_row :: "gotime \<Rightarrow> ScheduledTask \<Rightarrow> ScheduledTask \<Rightarrow> ScheduledTask" where
  "replaced_row now task r =
     r\<lparr>sk_ThreadTS := sk_ThreadTS task, sk_DeliveryChannel := stored_delivery task,
       sk_Repository := sk_Repository task, sk_Title := sk_Title task, sk_Prompt := sk_Prompt task,
       sk_Recurrence := sk_Recurrence task, sk_StartAt := sk_StartAt task,
       sk_IntervalSeconds := sk_IntervalSeconds task, sk_Weekdays := sk_Weekdays task,
       sk_DayOfMonth := sk_DayOfMonth task, sk_LocalTime := sk_LocalTime task,
       sk_Timezone := sk_Timezone task, sk_CatchUp := sk_CatchUp task, sk_Enabled := True,
       sk_ActorID := sk_ActorID task, sk_SourceRef := sk_SourceRef task,
       sk_NextRunAt := sk_NextRunAt task, sk_ExpiresAt := sk_ExpiresAt task, sk_UpdatedAt := now\<rparr>"

definition map_task :: "string \<Rightarrow> (ScheduledTask \<Rightarrow> ScheduledTask) \<Rightarrow> Schedules \<Rightarrow> Schedules" where
  "map_task key f st = st\<lparr>sc_tasks := map (\<lambda>t. if sk_ID t = key then f t else t) (sc_tasks st)\<rparr>"

definition updateTask ::
    "gotime \<Rightarrow> ScheduledTask \<Rightarrow> ScheduledTask \<Rightarrow> Schedules \<Rightarrow> ScheduleError + ScheduledTask \<times> Schedules" where
  "updateTask now task existing st =
     (if list_ex (\<lambda>t. sk_ID t \<noteq> sk_ID existing
            \<and> task_source t = task_source (replaced_row now task existing)) (sc_tasks st)
      then Inl ScheduleConstraint
      else Inr (task\<lparr>sk_ID := sk_ID existing, sk_Enabled := True, sk_LastRunAt := sk_LastRunAt existing,
          sk_LastOutcome := sk_LastOutcome existing, sk_CreatedAt := sk_CreatedAt existing,
          sk_UpdatedAt := now\<rparr>,
        map_task (sk_ID existing) (replaced_row now task) st))"

definition checkCapacity ::
    "(gotime \<Rightarrow> int) \<Rightarrow> string \<Rightarrow> gotime \<Rightarrow> nat \<Rightarrow> nat \<Rightarrow> Schedules \<Rightarrow> ScheduleError + unit" where
  "checkCapacity J channelID now maxTotal maxPerChannel st =
     (let live = filter (\<lambda>t. J now < J (sk_ExpiresAt t)) (sc_tasks st) in
      if maxTotal \<le> length live then Inl (ScheduleRefused ''scheduled task capacity reached'')
      else if maxPerChannel \<le> length (filter (\<lambda>t. sk_ChannelID t = channelID) live)
      then Inl (ScheduleRefused ''scheduled task capacity reached for this channel'')
      else Inr ())"

definition inserted_task :: "gotime \<Rightarrow> string \<Rightarrow> ScheduledTask \<Rightarrow> ScheduledTask" where
  "inserted_task now fresh task =
     task\<lparr>sk_ID := (if sk_ID task = [] then fresh else sk_ID task), sk_Enabled := True,
       sk_CreatedAt := now, sk_UpdatedAt := now\<rparr>"

definition insertTask ::
    "gotime \<Rightarrow> string \<Rightarrow> ScheduledTask \<Rightarrow> Schedules \<Rightarrow> ScheduleError + ScheduledTask \<times> Schedules" where
  "insertTask now fresh task st =
     (let t = inserted_task now fresh task in
      if list_ex (\<lambda>r. sk_ID r = sk_ID t \<or> task_source r = task_source t) (sc_tasks st)
      then Inl ScheduleConstraint
      else Inr (t, st\<lparr>sc_tasks := sc_tasks st @
        [t\<lparr>sk_DeliveryChannel := stored_delivery t, sk_LastRunAt := ZeroTime, sk_LastOutcome := []\<rparr>]\<rparr>))"

definition runnable :: "gotime \<Rightarrow> ScheduledTask \<Rightarrow> bool" where
  "runnable now task \<longleftrightarrow> now < sk_ExpiresAt task \<and> time_add now (- second) < sk_NextRunAt task
     \<and> sk_NextRunAt task < sk_ExpiresAt task"

definition accepted_proposal :: "gotime \<Rightarrow> string \<Rightarrow> string \<Rightarrow> Schedules \<Rightarrow> Schedules" where
  "accepted_proposal now key taskID st =
     st\<lparr>sc_proposals := map (\<lambda>p. if sp_ID p = key \<and> sp_Status p = ''pending''
         then p\<lparr>sp_Status := ''accepted'', sp_AcceptedTaskID := taskID, sp_UpdatedAt := now\<rparr> else p)
       (sc_proposals st)\<rparr>"

definition acceptOne ::
    "(gotime \<Rightarrow> int) \<Rightarrow> (string \<Rightarrow> Zone option) \<Rightarrow> gotime \<Rightarrow> string \<Rightarrow> string \<Rightarrow> string \<Rightarrow> string \<Rightarrow> string
      \<Rightarrow> nat \<Rightarrow> nat \<Rightarrow> Schedules \<Rightarrow> ScheduleError + ScheduledTask \<times> Schedules" where
  "acceptOne J load now fresh key teamID channelID actorID maxTotal maxPerChannel st =
     and_then (or_missing (find_proposal key st)) (\<lambda>p.
     if sp_TeamID p \<noteq> teamID \<or> sp_ChannelID p \<noteq> channelID \<or> sp_ActorID p \<noteq> actorID
     then Inl (ScheduleRefused ''schedule proposal belongs to another conversation or operator'')
     else if sp_Status p = ''accepted'' \<and> sp_AcceptedTaskID p \<noteq> []
     then and_then (or_missing (find_task (sp_AcceptedTaskID p) st)) (\<lambda>t. Inr (t, st))
     else if sp_Status p \<noteq> ''pending'' \<or> \<not> now < sp_ExpiresAt p
     then Inl (ScheduleRefused ''schedule proposal is no longer pending'')
     else
       and_then (validateTask load (sp_Task p)) (\<lambda>_.
       if \<not> runnable now (sp_Task p)
       then Inl (ScheduleRefused ''scheduled task must have a future expiry and runnable next occurrence'')
       else
         and_then
           (if sp_ReplaceTaskID p \<noteq> [] then
              and_then (or_missing (find_task (sp_ReplaceTaskID p) st)) (\<lambda>existing.
                if sk_TeamID existing \<noteq> teamID \<or> sk_ChannelID existing \<noteq> channelID
                then Inl (ScheduleRefused ''replacement schedule belongs to another conversation'')
                else updateTask now (sp_Task p) existing st)
            else
              and_then (checkCapacity J channelID now maxTotal maxPerChannel st) (\<lambda>_.
                insertTask now fresh (sp_Task p) st))
           (\<lambda>(task, st'). Inr (task, accepted_proposal now key (sk_ID task) st'))))"

fun accept_all ::
    "(string \<Rightarrow> string \<Rightarrow> Schedules \<Rightarrow> ScheduleError + ScheduledTask \<times> Schedules) \<Rightarrow> string list
      \<Rightarrow> (string \<times> string) list \<Rightarrow> Schedules \<Rightarrow> ScheduleError + ScheduledTask list \<times> Schedules" where
  "accept_all accept seen [] st = Inr ([], st)"
| "accept_all accept seen ((raw, fresh) # ids) st =
     (let key = trim_space raw in
      if key = [] then Inl (ScheduleRefused ''schedule proposal id is empty'')
      else if key \<in> set seen then Inl (ScheduleRefused (''schedule proposal is duplicated: '' @ key))
      else and_then (accept fresh key st) (\<lambda>(task, st').
        and_then (accept_all accept (key # seen) ids st') (\<lambda>(tasks, st''). Inr (task # tasks, st''))))"

definition AcceptMany ::
    "(gotime \<Rightarrow> int) \<Rightarrow> (string \<Rightarrow> Zone option) \<Rightarrow> gotime \<Rightarrow> (string \<times> string) list \<Rightarrow> string \<Rightarrow> string
      \<Rightarrow> string \<Rightarrow> nat \<Rightarrow> nat \<Rightarrow> Schedules \<Rightarrow> ScheduleError + ScheduledTask list \<times> Schedules" where
  "AcceptMany J load now ids teamID channelID actorID maxTotal maxPerChannel st =
     (if maxTotal < 1 \<or> maxPerChannel < 1 \<or> maxTotal < maxPerChannel
      then Inl (ScheduleRefused ''scheduled task limits are invalid'')
      else if ids = [] then Inl (ScheduleRefused ''schedule proposal batch is empty'')
      else accept_all (\<lambda>fresh key. acceptOne J load now fresh key teamID channelID actorID maxTotal maxPerChannel)
        [] ids st)"

definition AcceptProposal ::
    "(gotime \<Rightarrow> int) \<Rightarrow> (string \<Rightarrow> Zone option) \<Rightarrow> gotime \<Rightarrow> string \<Rightarrow> string \<Rightarrow> string \<Rightarrow> string \<Rightarrow> string
      \<Rightarrow> nat \<Rightarrow> nat \<Rightarrow> Schedules \<Rightarrow> ScheduleError + ScheduledTask \<times> Schedules" where
  "AcceptProposal J load now fresh key teamID channelID actorID maxTotal maxPerChannel st =
     and_then (AcceptMany J load now [(key, fresh)] teamID channelID actorID maxTotal maxPerChannel st)
       (\<lambda>(tasks, st'). Inr (hd tasks, st'))"

section \<open>Tasks\<close>

definition CreateScheduledTask ::
    "(gotime \<Rightarrow> int) \<Rightarrow> (string \<Rightarrow> Zone option) \<Rightarrow> gotime \<Rightarrow> string \<Rightarrow> ScheduledTask \<Rightarrow> nat \<Rightarrow> nat
      \<Rightarrow> Schedules \<Rightarrow> ScheduleError + ScheduledTask \<times> Schedules" where
  "CreateScheduledTask J load now fresh task maxTotal maxPerChannel st =
     and_then (validateScheduledTask load task) (\<lambda>_.
     if maxTotal < 1 \<or> maxPerChannel < 1 \<or> maxTotal < maxPerChannel
     then Inl (ScheduleRefused ''scheduled task limits are invalid'')
     else if \<not> runnable now task
     then Inl (ScheduleRefused ''scheduled task must have a future expiry and runnable next occurrence'')
     else
       (case find (\<lambda>t. task_source t = task_source task) (sc_tasks st) of
          Some old \<Rightarrow> Inr (old, st)
        | None \<Rightarrow>
            (let live = filter (\<lambda>t. now < sk_ExpiresAt t) (sc_tasks st) in
             if maxTotal \<le> length live then Inl (ScheduleRefused ''scheduled task capacity reached'')
             else if maxPerChannel \<le> length (filter (\<lambda>t. sk_ChannelID t = sk_ChannelID task) live)
             then Inl (ScheduleRefused ''scheduled task capacity reached for this channel'')
             else insertTask now fresh task st)))"

definition GetScheduledTask :: "string \<Rightarrow> Schedules \<Rightarrow> ScheduleError + ScheduledTask" where
  "GetScheduledTask key st = or_missing (find_task key st)"

text \<open>Newest first; tasks of one instant keep the order of their rows.\<close>

definition newest_first :: "ScheduledTask list \<Rightarrow> ScheduledTask list" where
  "newest_first = sort_key (\<lambda>t. - nanos (sk_UpdatedAt t))"

definition ListScheduledTasksForChannel ::
    "gotime \<Rightarrow> string \<Rightarrow> int \<Rightarrow> Schedules \<Rightarrow> ScheduleError + ScheduledTask list" where
  "ListScheduledTasksForChannel now channelID limit st =
     (if channelID = [] \<or> limit < 1 \<or> 100 < limit
      then Inl (ScheduleRefused ''scheduled task list requires a channel and limit between 1 and 100'')
      else Inr (take (nat limit) (newest_first
        (filter (\<lambda>t. sk_ChannelID t = channelID \<and> now < sk_ExpiresAt t) (sc_tasks st)))))"

definition ListScheduledTasksForTeam ::
    "gotime \<Rightarrow> string \<Rightarrow> int \<Rightarrow> Schedules \<Rightarrow> ScheduleError + ScheduledTask list" where
  "ListScheduledTasksForTeam now teamID limit st =
     (if teamID = [] \<or> limit < 1 \<or> 100 < limit
      then Inl (ScheduleRefused ''scheduled task list requires a team and limit between 1 and 100'')
      else Inr (take (nat limit) (newest_first
        (filter (\<lambda>t. sk_TeamID t = teamID \<and> now < sk_ExpiresAt t) (sc_tasks st)))))"

definition task_due :: "(gotime \<Rightarrow> int) \<Rightarrow> gotime \<Rightarrow> ScheduledTask \<Rightarrow> bool" where
  "task_due J now t \<longleftrightarrow> sk_Enabled t \<and> \<not> IsZero (sk_NextRunAt t) \<and> J (sk_NextRunAt t) \<le> J now
     \<and> J now < J (sk_ExpiresAt t)"

definition due_order :: "ScheduledTask list \<Rightarrow> ScheduledTask list" where
  "due_order ts = sort_key (\<lambda>t. nanos (sk_NextRunAt t)) (sort_key sk_ID ts)"

definition ListDueScheduledTasks ::
    "(gotime \<Rightarrow> int) \<Rightarrow> gotime \<Rightarrow> int \<Rightarrow> Schedules \<Rightarrow> ScheduleError + ScheduledTask list" where
  "ListDueScheduledTasks J now limit st =
     (if limit < 1 \<or> 100 < limit
      then Inl (ScheduleRefused ''due scheduled task limit must be between 1 and 100'')
      else Inr (take (nat limit) (due_order (filter (task_due J now) (sc_tasks st)))))"

definition SetScheduledTaskEnabled ::
    "gotime \<Rightarrow> string \<Rightarrow> bool \<Rightarrow> Schedules \<Rightarrow> ScheduleError + ScheduledTask \<times> Schedules" where
  "SetScheduledTaskEnabled now key enabled st =
     (case find_task key st of
        None \<Rightarrow> Inl ScheduleConflict
      | Some t \<Rightarrow>
          if now < sk_ExpiresAt t \<and> (enabled \<longrightarrow> \<not> IsZero (sk_NextRunAt t)) then
            Inr (t\<lparr>sk_Enabled := enabled, sk_UpdatedAt := now\<rparr>,
              map_task key (\<lambda>t. t\<lparr>sk_Enabled := enabled, sk_UpdatedAt := now\<rparr>) st)
          else Inl ScheduleConflict)"

text \<open>A deletion takes the runs of the task along.\<close>

definition delete_tasks :: "(ScheduledTask \<Rightarrow> bool) \<Rightarrow> Schedules \<Rightarrow> Schedules" where
  "delete_tasks P st =
     st\<lparr>sc_tasks := filter (\<lambda>t. \<not> P t) (sc_tasks st),
        sc_runs := filter (\<lambda>r. \<not> list_ex (\<lambda>t. P t \<and> sk_ID t = sr_TaskID r) (sc_tasks st)) (sc_runs st)\<rparr>"

definition DeleteScheduledTask :: "string \<Rightarrow> Schedules \<Rightarrow> ScheduleError + ScheduledTask \<times> Schedules" where
  "DeleteScheduledTask key st =
     and_then (GetScheduledTask key st) (\<lambda>t. Inr (t, delete_tasks (\<lambda>t. sk_ID t = key) st))"

definition DeleteChannelSchedules :: "string \<Rightarrow> Schedules \<Rightarrow> nat \<times> Schedules" where
  "DeleteChannelSchedules channelID st =
     (length (filter (\<lambda>t. sk_ChannelID t = channelID) (sc_tasks st)),
      delete_tasks (\<lambda>t. sk_ChannelID t = channelID) st)"

definition PruneOrphanSchedules :: "string list \<Rightarrow> Schedules \<Rightarrow> ScheduleError + nat \<times> Schedules" where
  "PruneOrphanSchedules valid st =
     (if valid = [] then Inl (ScheduleRefused ''valid repository list is empty'')
      else Inr (length (filter (\<lambda>t. sk_Repository t \<notin> set valid) (sc_tasks st)),
        delete_tasks (\<lambda>t. sk_Repository t \<notin> set valid) st))"

section \<open>Runs\<close>

definition active_outcome :: "string \<Rightarrow> bool" where
  "active_outcome s \<longleftrightarrow> s = ''queued'' \<or> s = ''running''"

definition active_runs :: "string \<Rightarrow> Schedules \<Rightarrow> ScheduledTaskRun list" where
  "active_runs taskID st = filter (\<lambda>r. sr_TaskID r = taskID \<and> active_outcome (sr_Outcome r)) (sc_runs st)"

definition claim_outcome :: "bool \<Rightarrow> bool \<Rightarrow> string \<Rightarrow> ScheduleError + string" where
  "claim_outcome busy execute skipOutcome =
     (let skipped = (if skipOutcome = [] then ''skipped_missed'' else skipOutcome) in
      if skipped \<noteq> ''skipped_missed'' \<and> skipped \<noteq> ''skipped_unauthorized''
      then Inl (ScheduleRefused ''scheduled task skip outcome is invalid'')
      else Inr (if execute then if busy then ''skipped_overlap'' else ''queued'' else skipped))"

definition new_run :: "gotime \<Rightarrow> string \<Rightarrow> gotime \<Rightarrow> string \<Rightarrow> string \<Rightarrow> ScheduledTaskRun" where
  "new_run now taskID scheduledFor sourceInput outcome =
     \<lparr>sr_TaskID = taskID, sr_ScheduledFor = scheduledFor, sr_SourceInput = sourceInput,
      sr_AgentRunID = [], sr_EpisodeID = [], sr_Outcome = outcome, sr_LastError = [],
      sr_StartedAt = ZeroTime, sr_CompletedAt = ZeroTime, sr_CreatedAt = now, sr_UpdatedAt = now\<rparr>"

definition run_taken :: "ScheduledTaskRun \<Rightarrow> Schedules \<Rightarrow> bool" where
  "run_taken r st \<longleftrightarrow> list_ex (\<lambda>q. sr_TaskID q = sr_TaskID r \<and> sr_ScheduledFor q = sr_ScheduledFor r
     \<or> sr_SourceInput r \<noteq> [] \<and> sr_SourceInput q = sr_SourceInput r) (sc_runs st)"

definition advanced_task ::
    "gotime \<Rightarrow> gotime \<Rightarrow> gotime \<Rightarrow> gotime \<Rightarrow> string \<Rightarrow> ScheduledTask \<Rightarrow> ScheduledTask" where
  "advanced_task now scheduledFor next_at expires outcome t =
     (let more = \<not> IsZero next_at \<and> next_at < expires in
      t\<lparr>sk_NextRunAt := (if more then next_at else ZeroTime), sk_Enabled := more,
        sk_LastRunAt := scheduledFor, sk_LastOutcome := outcome, sk_UpdatedAt := now\<rparr>)"

text \<open>\<open>None\<close> is the answer for an occurrence that was already recorded; the table is left alone.\<close>

definition ClaimScheduledTaskRun ::
    "gotime \<Rightarrow> ScheduledTask \<Rightarrow> gotime \<Rightarrow> gotime \<Rightarrow> string \<Rightarrow> bool \<Rightarrow> bool \<Rightarrow> string \<Rightarrow> Schedules
      \<Rightarrow> ScheduleError + (ScheduledTaskRun \<times> bool) option \<times> Schedules" where
  "ClaimScheduledTaskRun now task scheduledFor next_at sourceInput advance execute skipOutcome st =
     (let busy = active_runs (sk_ID task) st \<noteq> [] in
      and_then (claim_outcome busy execute skipOutcome) (\<lambda>outcome.
        let run = new_run now (sk_ID task) scheduledFor (if execute \<and> busy then [] else sourceInput) outcome in
        if run_taken run st then Inr (None, st)
        else if find_task (sk_ID task) st = None then Inl ScheduleConstraint
        else
          (let st1 = st\<lparr>sc_runs := sc_runs st @ [run]\<rparr> in
           Inr (Some (run, outcome = ''queued''),
             if advance
             then map_task (sk_ID task) (advanced_task now scheduledFor next_at (sk_ExpiresAt task) outcome) st1
             else st1))))"

definition map_run :: "(ScheduledTaskRun \<Rightarrow> bool) \<Rightarrow> (ScheduledTaskRun \<Rightarrow> ScheduledTaskRun) \<Rightarrow> Schedules \<Rightarrow> Schedules" where
  "map_run P f st = st\<lparr>sc_runs := map (\<lambda>r. if P r then f r else r) (sc_runs st)\<rparr>"

definition LinkScheduledTaskRun ::
    "gotime \<Rightarrow> string \<Rightarrow> gotime \<Rightarrow> string \<Rightarrow> string \<Rightarrow> Schedules \<Rightarrow> ScheduleError + Schedules" where
  "LinkScheduledTaskRun now taskID scheduledFor agentRunID episodeID st =
     (let P = (\<lambda>r. sr_TaskID r = taskID \<and> sr_ScheduledFor r = scheduledFor \<and> sr_Outcome r = ''queued'') in
      if list_ex P (sc_runs st) then
        Inr (map_run P (\<lambda>r. r\<lparr>sr_AgentRunID := agentRunID, sr_EpisodeID := episodeID,
          sr_Outcome := ''running'',
          sr_StartedAt := (if IsZero (sr_StartedAt r) then now else sr_StartedAt r),
          sr_UpdatedAt := now\<rparr>) st)
      else Inl ScheduleConflict)"

definition CompleteScheduledTaskRun ::
    "gotime \<Rightarrow> string \<Rightarrow> gotime \<Rightarrow> string \<Rightarrow> string \<Rightarrow> Schedules \<Rightarrow> ScheduleError + Schedules" where
  "CompleteScheduledTaskRun now taskID scheduledFor outcome detail st =
     (if outcome \<noteq> ''completed'' \<and> outcome \<noteq> ''failed''
      then Inl (ScheduleRefused ''scheduled task terminal outcome must be completed or failed'')
      else
        (let P = (\<lambda>r. sr_TaskID r = taskID \<and> sr_ScheduledFor r = scheduledFor \<and> active_outcome (sr_Outcome r)) in
         if list_ex P (sc_runs st) then
           Inr (map_task taskID (\<lambda>t. t\<lparr>sk_LastOutcome := outcome, sk_UpdatedAt := now\<rparr>)
             (map_run P (\<lambda>r. r\<lparr>sr_Outcome := outcome, sr_LastError := BoundedError detail,
               sr_CompletedAt := now, sr_UpdatedAt := now\<rparr>) st))
         else Inl ScheduleConflict))"

definition ListActiveScheduledTaskRuns :: "nat \<Rightarrow> Schedules \<Rightarrow> ScheduledTaskRun list" where
  "ListActiveScheduledTaskRuns limit st =
     take limit (sort_key (\<lambda>r. nanos (sr_CreatedAt r))
       (filter (\<lambda>r. active_outcome (sr_Outcome r)) (sc_runs st)))"

section \<open>The service's use of them\<close>

text \<open>
  One due task of \<open>processScheduledTasks\<close>: whether its operator may still act, and the claim.  The result
  says which run is to be executed.
\<close>

definition process_due ::
    "(string \<Rightarrow> Zone option) \<Rightarrow> gotime \<Rightarrow> int \<Rightarrow> bool \<Rightarrow> ScheduledTask \<Rightarrow> Schedules
      \<Rightarrow> ScheduleError + ScheduledTaskRun option \<times> Schedules" where
  "process_due load now grace allowed task st =
     (let scheduledFor = sk_NextRunAt task;
          sourceID = ScheduledSourceInputID (sk_ID task) scheduledFor
      in
      if \<not> allowed then
        and_then (ClaimScheduledTaskRun now task scheduledFor ZeroTime sourceID True False ''skipped_unauthorized'' st)
          (\<lambda>(claim, st'). Inr (None, st'))
      else
        and_then (ClaimScheduledTaskRun now task scheduledFor (NextScheduledOccurrence load task now) sourceID
            True (sk_CatchUp task = ''latest'' \<or> time_sub now scheduledFor \<le> grace) ''skipped_missed'' st)
          (\<lambda>(claim, st'). Inr (case claim of Some (run, True) \<Rightarrow> Some run | _ \<Rightarrow> None, st')))"

text \<open>
  The claims of one pass in the order of the due list; the executions between them are external.  The first
  error ends the pass; what was claimed before it stays claimed.
\<close>

fun process_all ::
    "(string \<Rightarrow> Zone option) \<Rightarrow> gotime \<Rightarrow> int \<Rightarrow> (ScheduledTask \<Rightarrow> bool) \<Rightarrow> ScheduledTask list \<Rightarrow> Schedules
      \<Rightarrow> ScheduleError option \<times> ScheduledTaskRun list \<times> Schedules" where
  "process_all load now grace allowed [] st = (None, [], st)"
| "process_all load now grace allowed (t # ts) st =
     (case process_due load now grace (allowed t) t st of
        Inl e \<Rightarrow> (Some e, [], st)
      | Inr (run, st') \<Rightarrow>
          (case process_all load now grace allowed ts st' of
             (err, runs, st'') \<Rightarrow> (err, (case run of None \<Rightarrow> runs | Some r \<Rightarrow> r # runs), st'')))"

definition processScheduledTasks ::
    "(gotime \<Rightarrow> int) \<Rightarrow> (string \<Rightarrow> Zone option) \<Rightarrow> gotime \<Rightarrow> int \<Rightarrow> (ScheduledTask \<Rightarrow> bool) \<Rightarrow> Schedules
      \<Rightarrow> ScheduleError option \<times> ScheduledTaskRun list \<times> Schedules" where
  "processScheduledTasks J load now grace allowed st =
     (case ListDueScheduledTasks J now 50 st of
        Inl e \<Rightarrow> (Some e, [], st)
      | Inr tasks \<Rightarrow>
          if tasks = [] then (Some ScheduleNotFound, [], st)
          else process_all load now grace allowed tasks st)"

definition authorizedScheduledTask :: "SlackInput \<Rightarrow> string \<Rightarrow> Schedules \<Rightarrow> ScheduleError + ScheduledTask" where
  "authorizedScheduledTask input key st =
     and_then (GetScheduledTask key st) (\<lambda>t.
       if sk_TeamID t \<noteq> inp_TeamID input \<or> sk_ChannelID t \<noteq> inp_ChannelID input
       then Inl (ScheduleRefused ''scheduled task belongs to another Slack channel'')
       else Inr t)"

text \<open>The store's part of the operator's \<open>Run now\<close>: \<open>None\<close> when the task already runs.\<close>

definition run_schedule_now ::
    "gotime \<Rightarrow> SlackInput \<Rightarrow> Schedules \<Rightarrow> ScheduleError + ScheduledTaskRun option \<times> Schedules" where
  "run_schedule_now now input st =
     and_then (authorizedScheduledTask input (trim_space (inp_ActionValue input)) st) (\<lambda>t.
       and_then (ClaimScheduledTaskRun now t now ZeroTime (ScheduledSourceInputID (sk_ID t) now) False True [] st)
         (\<lambda>(claim, st'). Inr (case claim of Some (run, True) \<Rightarrow> Some run | _ \<Rightarrow> None, st')))"

text \<open>What \<open>reconcileScheduledTaskRuns\<close> makes of an active run whose agent run it found.\<close>

definition run_settled :: "AgentRun \<Rightarrow> (string \<times> string) option" where
  "run_settled a =
     (if run_State a \<notin> {AgentRunCompleted, AgentRunFailed, AgentRunCancelled, AgentRunSuperseded} then None
      else Some (if run_TerminalState a \<noteq> ''completed'' \<or> run_State a \<noteq> AgentRunCompleted
                 then ''failed'' else ''completed'', run_LastError a))"

definition reconcile_run ::
    "gotime \<Rightarrow> (string \<Rightarrow> AgentRun option) \<Rightarrow> ScheduledTaskRun \<Rightarrow> Schedules \<Rightarrow> ScheduleError + Schedules" where
  "reconcile_run now agent_run r st =
     (if find_task (sr_TaskID r) st = None \<or> sr_AgentRunID r = [] then Inr st
      else and_then (or_missing (agent_run (sr_AgentRunID r))) (\<lambda>a.
        case run_settled a of
          None \<Rightarrow> Inr st
        | Some (outcome, detail) \<Rightarrow>
            CompleteScheduledTaskRun now (sr_TaskID r) (sr_ScheduledFor r) outcome detail st))"

end
