(* ===== verification/ScheduleOffer.thy ===== *)
theory ScheduleOffer
  imports ScheduleStore GoRunes
begin

text \<open>
  From an offer to a task: \<open>internal/scheduleoffer/offer.go\<close> with the retention periods and the
  credential check of \<open>internal/memory/memory.go\<close>, and the matching of an offer to an existing schedule in
  \<open>internal/service/schedule.go\<close>.  The JSON of a confirmation button is not modelled; the checks on the
  proposals it carries are.
\<close>

section \<open>Retention periods and credentials\<close>

definition DefaultTTL :: int where "DefaultTTL = 30 * 24 * hour"
definition MaxTTL :: int where "MaxTTL = 365 * 24 * hour"
definition PermanentTTL :: int where "PermanentTTL = 2 ^ 63 - 1"

definition ParseMemoryTTL :: "string \<Rightarrow> int option" where
  "ParseMemoryTTL value =
     (let v = trim_space (to_lower value) in
      if v = [] then Some DefaultTTL
      else if v = ''never'' \<or> v = ''forever'' \<or> v = ''permanent'' then Some PermanentTTL
      else if v = ''7d'' then Some (7 * 24 * hour)
      else if v = ''30d'' then Some (30 * 24 * hour)
      else if v = ''90d'' then Some (90 * 24 * hour)
      else if v = ''365d'' then Some MaxTTL
      else None)"

definition ContainsSecretLikeValue :: "string \<Rightarrow> bool" where
  "ContainsSecretLikeValue value \<longleftrightarrow>
     list_ex (contains (to_lower value)) [''xoxb-'', ''xapp-'', ''emk-'', ''ghp_'', ''akia'']"

section \<open>Offers\<close>

record ScheduleOffer =
  so_Title :: string
  so_Prompt :: string
  so_Repository :: string
  so_DeliveryChannel :: string
  so_Recurrence :: string
  so_StartAt :: string
  so_IntervalSeconds :: int
  so_Weekdays :: "string list"
  so_DayOfMonth :: int
  so_LocalTime :: string
  so_Timezone :: string
  so_CatchUp :: string
  so_ExpiresIn :: string

record TaskContext =
  tc_TeamID :: string
  tc_ChannelID :: string
  tc_ThreadTS :: string
  tc_ActorID :: string
  tc_SourceRef :: string
  tc_Now :: gotime

definition lowered_trim :: "string \<Rightarrow> string" where
  "lowered_trim v = to_lower (trim_space v)"

definition normalized_offer :: "TaskContext \<Rightarrow> ScheduleOffer \<Rightarrow> ScheduleOffer" where
  "normalized_offer ctx offer =
     offer\<lparr>so_Title := trim_space (so_Title offer), so_Prompt := trim_space (so_Prompt offer),
       so_Repository := lowered_trim (so_Repository offer),
       so_DeliveryChannel :=
         (if trim_space (so_DeliveryChannel offer) = [] then tc_ChannelID ctx
          else trim_space (so_DeliveryChannel offer)),
       so_Recurrence := lowered_trim (so_Recurrence offer),
       so_Timezone := trim_space (so_Timezone offer), so_LocalTime := trim_space (so_LocalTime offer),
       so_CatchUp :=
         (if lowered_trim (so_CatchUp offer) = [] then ''latest'' else lowered_trim (so_CatchUp offer))\<rparr>"

text \<open>The loop over the weekdays: known, lower case, none twice.\<close>

fun offered_weekdays :: "string list \<Rightarrow> string list \<Rightarrow> string list option" where
  "offered_weekdays seen [] = Some []"
| "offered_weekdays seen (raw # rest) =
     (let day = lowered_trim raw in
      if WeekdayNumber day = None \<or> day \<in> set seen then None
      else map_option ((#) day) (offered_weekdays (day # seen) rest))"

datatype OfferFault = OfferCredential | OfferRetention | OfferPermanent | OfferWeekday | OfferTimezone
  | OfferSchedule ScheduleFault | OfferExpires

definition offered_task :: "TaskContext \<Rightarrow> ScheduleOffer \<Rightarrow> int \<Rightarrow> string list \<Rightarrow> ScheduledTask" where
  "offered_task ctx offer ttl weekdays =
     \<lparr>sk_ID = [], sk_TeamID = tc_TeamID ctx, sk_ChannelID = tc_ChannelID ctx, sk_ThreadTS = tc_ThreadTS ctx,
      sk_DeliveryChannel = so_DeliveryChannel offer, sk_Repository = so_Repository offer,
      sk_Title = so_Title offer, sk_Prompt = so_Prompt offer, sk_Recurrence = so_Recurrence offer,
      sk_StartAt = ZeroTime, sk_IntervalSeconds = so_IntervalSeconds offer, sk_Weekdays = weekdays,
      sk_DayOfMonth = so_DayOfMonth offer, sk_LocalTime = so_LocalTime offer,
      sk_Timezone = so_Timezone offer, sk_CatchUp = so_CatchUp offer, sk_Enabled = True,
      sk_ActorID = tc_ActorID ctx, sk_SourceRef = tc_SourceRef ctx, sk_NextRunAt = ZeroTime,
      sk_LastRunAt = ZeroTime, sk_LastOutcome = [], sk_ExpiresAt = time_add (tc_Now ctx) ttl,
      sk_CreatedAt = ZeroTime, sk_UpdatedAt = ZeroTime\<rparr>"

fun lift_fault :: "ScheduleFault + 'a \<Rightarrow> OfferFault + 'a" where
  "lift_fault (Inl e) = Inl (OfferSchedule e)"
| "lift_fault (Inr x) = Inr x"

definition started_task :: "gotime \<Rightarrow> ScheduledTask \<Rightarrow> ScheduledTask" where
  "started_task start task = task\<lparr>sk_StartAt := start, sk_NextRunAt := start\<rparr>"

definition TaskFromOffer ::
    "(string \<Rightarrow> Zone option) \<Rightarrow> (string \<Rightarrow> gotime option) \<Rightarrow> ScheduleOffer \<Rightarrow> TaskContext
      \<Rightarrow> OfferFault + ScheduledTask" where
  "TaskFromOffer load parse raw ctx =
     (let offer = normalized_offer ctx raw in
      if ContainsSecretLikeValue (so_Prompt offer) then Inl OfferCredential
      else case ParseMemoryTTL (so_ExpiresIn offer) of
        None \<Rightarrow> Inl OfferRetention
      | Some ttl \<Rightarrow>
          if ttl = PermanentTTL then Inl OfferPermanent
          else case offered_weekdays [] (so_Weekdays offer) of
            None \<Rightarrow> Inl OfferWeekday
          | Some weekdays \<Rightarrow>
              (let task = offered_task ctx offer ttl (sort weekdays) in
               and_then (if sk_Recurrence task \<in> {''daily'', ''weekly'', ''monthly''}
                         then lift_fault (ParseLocalClock (sk_LocalTime task)) else Inr (0, 0)) (\<lambda>_.
               if load (sk_Timezone task) = None then Inl OfferTimezone
               else case ValidateScheduleShape task of
                 Some e \<Rightarrow> Inl (OfferSchedule e)
               | None \<Rightarrow>
                   and_then (lift_fault (ParseScheduleStart load parse task (trim_space (so_StartAt offer)) (tc_Now ctx)))
                     (\<lambda>start.
                       if \<not> start < sk_ExpiresAt task then Inl OfferExpires
                       else Inr (started_task start task)))))"

section \<open>Confirmation batches\<close>

definition MaxScheduleOffers :: nat where "MaxScheduleOffers = 8"

fun distinct_ids :: "string list \<Rightarrow> string list \<Rightarrow> string list option" where
  "distinct_ids seen [] = Some []"
| "distinct_ids seen (raw # rest) =
     (let key = trim_space raw in
      if key = [] \<or> key \<in> set seen then None
      else map_option ((#) key) (distinct_ids (key # seen) rest))"

definition validProposalIDs :: "string list \<Rightarrow> nat \<Rightarrow> string list option" where
  "validProposalIDs ids minimum =
     (if length ids < minimum \<or> MaxScheduleOffers < length ids then None else distinct_ids [] ids)"

section \<open>The schedule an offer replaces\<close>

definition SameDefinition :: "ScheduledTask \<Rightarrow> ScheduledTask \<Rightarrow> bool" where
  "SameDefinition left right \<longleftrightarrow>
     FirstNonempty [sk_DeliveryChannel left, sk_ChannelID left]
       = FirstNonempty [sk_DeliveryChannel right, sk_ChannelID right] \<and>
     sk_Repository left = sk_Repository right \<and> sk_Recurrence left = sk_Recurrence right \<and>
     sk_IntervalSeconds left = sk_IntervalSeconds right \<and> sk_DayOfMonth left = sk_DayOfMonth right \<and>
     sk_LocalTime left = sk_LocalTime right \<and> sk_Timezone left = sk_Timezone right \<and>
     sk_Weekdays left = sk_Weekdays right"

definition only_match :: "ScheduledTask list \<Rightarrow> ScheduledTask option" where
  "only_match ts = (case ts of [t] \<Rightarrow> Some t | _ \<Rightarrow> None)"

definition scheduleReplacementCandidate ::
    "gotime \<Rightarrow> ScheduledTask \<Rightarrow> Schedules \<Rightarrow> ScheduleError + string" where
  "scheduleReplacementCandidate now proposed st =
     and_then (ListScheduledTasksForChannel now (sk_ChannelID proposed) 100 st) (\<lambda>tasks.
       Inr (case only_match (filter (\<lambda>t. sk_Enabled t \<and> sk_TeamID t = sk_TeamID proposed
               \<and> SameDefinition t proposed) tasks) of
              None \<Rightarrow> [] | Some t \<Rightarrow> sk_ID t))"

definition scheduleOfferCompatibleWithTask :: "ScheduleOffer \<Rightarrow> ScheduledTask \<Rightarrow> bool" where
  "scheduleOfferCompatibleWithTask offer task \<longleftrightarrow>
     (lowered_trim (so_Repository offer) = [] \<or> lowered_trim (so_Repository offer) = sk_Repository task) \<and>
     (trim_space (so_DeliveryChannel offer) = [] \<or>
      trim_space (so_DeliveryChannel offer) = FirstNonempty [sk_DeliveryChannel task, sk_ChannelID task]) \<and>
     (lowered_trim (so_Recurrence offer) = [] \<or> lowered_trim (so_Recurrence offer) = sk_Recurrence task) \<and>
     (so_IntervalSeconds offer = 0 \<or> so_IntervalSeconds offer = sk_IntervalSeconds task) \<and>
     (so_DayOfMonth offer = 0 \<or> so_DayOfMonth offer = sk_DayOfMonth task) \<and>
     (trim_space (so_LocalTime offer) = [] \<or> trim_space (so_LocalTime offer) = sk_LocalTime task) \<and>
     (trim_space (so_Timezone offer) = [] \<or> trim_space (so_Timezone offer) = sk_Timezone task) \<and>
     (lowered_trim (so_CatchUp offer) = [] \<or> lowered_trim (so_CatchUp offer) = sk_CatchUp task) \<and>
     (so_Weekdays offer = [] \<or> sort (map lowered_trim (so_Weekdays offer)) = sk_Weekdays task)"

definition inherited_offer :: "ScheduledTask \<Rightarrow> ScheduleOffer \<Rightarrow> ScheduleOffer" where
  "inherited_offer old offer =
     (let keep = (\<lambda>v old. if trim_space v = [] then old else v) in
      offer\<lparr>so_Title := keep (so_Title offer) (sk_Title old),
        so_Prompt := keep (so_Prompt offer) (sk_Prompt old),
        so_Repository := keep (so_Repository offer) (sk_Repository old),
        so_DeliveryChannel := keep (so_DeliveryChannel offer) (sk_DeliveryChannel old),
        so_Recurrence := keep (so_Recurrence offer) (sk_Recurrence old),
        so_IntervalSeconds :=
          (if so_IntervalSeconds offer = 0 then sk_IntervalSeconds old else so_IntervalSeconds offer),
        so_Weekdays := (if so_Weekdays offer = [] then sk_Weekdays old else so_Weekdays offer),
        so_DayOfMonth := (if so_DayOfMonth offer = 0 then sk_DayOfMonth old else so_DayOfMonth offer),
        so_LocalTime := keep (so_LocalTime offer) (sk_LocalTime old),
        so_Timezone := keep (so_Timezone offer) (sk_Timezone old),
        so_CatchUp := keep (so_CatchUp offer) (sk_CatchUp old)\<rparr>)"

definition inheritScheduleOfferFromConversation ::
    "gotime \<Rightarrow> string \<Rightarrow> SlackInput \<Rightarrow> ScheduleOffer \<Rightarrow> Schedules \<Rightarrow> ScheduleError + string \<times> ScheduleOffer" where
  "inheritScheduleOfferFromConversation now teamID input offer st =
     (if inp_ThreadTS input = [] then Inr ([], offer)
      else and_then (ListScheduledTasksForChannel now (inp_ChannelID input) 100 st) (\<lambda>tasks.
        Inr (case only_match (filter (\<lambda>t. sk_Enabled t \<and> sk_TeamID t = teamID
                \<and> sk_ThreadTS t = inp_ThreadTS input \<and> scheduleOfferCompatibleWithTask offer t) tasks) of
               None \<Rightarrow> ([], offer) | Some t \<Rightarrow> (sk_ID t, inherited_offer t offer))))"

end
