(* ===== verification/ScheduleSafety.thy ===== *)
theory ScheduleSafety
  imports ScheduleLaws ScheduleOffer
begin

text \<open>
  What the schedule store guarantees over any sequence of its transactions: a task has one run at a time
  and an occurrence is recorded once, accepting is final, a due task moves on; and the two ways in which
  replacing a schedule breaks what new schedules keep.
\<close>

section \<open>The store as a machine\<close>

datatype ScheduleOp =
    OpPropose gotime "(ScheduleProposal \<times> string) list"
  | OpAccept gotime "(string \<times> string) list" string string string nat nat
  | OpCreate gotime string ScheduledTask nat nat
  | OpEnable gotime string bool
  | OpDelete string
  | OpDeleteChannel string
  | OpPrune "string list"
  | OpClaim gotime ScheduledTask gotime gotime string bool bool string
  | OpLink gotime string gotime string string
  | OpComplete gotime string gotime string string

definition dropping :: "'e + 'a \<times> 's \<Rightarrow> 'e + 's" where
  "dropping r = and_then r (\<lambda>(x, st). Inr st)"

lemma dropping_Inr: "dropping r = Inr st \<longleftrightarrow> (\<exists>x. r = Inr (x, st))"
  by (cases r) (auto simp: dropping_def)

fun schedule_step ::
    "(gotime \<Rightarrow> int) \<Rightarrow> (string \<Rightarrow> Zone option) \<Rightarrow> Schedules \<Rightarrow> ScheduleOp \<Rightarrow> ScheduleError + Schedules" where
  "schedule_step J load st (OpPropose now ps) = dropping (CreateMany load now ps st)"
| "schedule_step J load st (OpAccept now ids team channel actor most per) =
     dropping (AcceptMany J load now ids team channel actor most per st)"
| "schedule_step J load st (OpCreate now fresh task most per) =
     dropping (CreateScheduledTask J load now fresh task most per st)"
| "schedule_step J load st (OpEnable now key on) = dropping (SetScheduledTaskEnabled now key on st)"
| "schedule_step J load st (OpDelete key) = dropping (DeleteScheduledTask key st)"
| "schedule_step J load st (OpDeleteChannel channel) = Inr (snd (DeleteChannelSchedules channel st))"
| "schedule_step J load st (OpPrune valid) = dropping (PruneOrphanSchedules valid st)"
| "schedule_step J load st (OpClaim now task at next_at source advance execute skip) =
     dropping (ClaimScheduledTaskRun now task at next_at source advance execute skip st)"
| "schedule_step J load st (OpLink now task at run episode) = LinkScheduledTaskRun now task at run episode st"
| "schedule_step J load st (OpComplete now task at outcome detail) =
     CompleteScheduledTaskRun now task at outcome detail st"

definition no_schedules :: Schedules where
  "no_schedules = \<lparr>sc_proposals = [], sc_tasks = [], sc_runs = []\<rparr>"

section \<open>One run at a time\<close>

definition run_key :: "ScheduledTaskRun \<Rightarrow> string \<times> gotime" where
  "run_key r = (sr_TaskID r, sr_ScheduledFor r)"

definition runs_ok :: "ScheduledTaskRun list \<Rightarrow> bool" where
  "runs_ok rs \<longleftrightarrow> distinct (map run_key rs) \<and>
     (\<forall>key. length (filter (\<lambda>r. sr_TaskID r = key \<and> active_outcome (sr_Outcome r)) rs) \<le> 1)"

definition schedules_ok :: "Schedules \<Rightarrow> bool" where
  "schedules_ok st \<longleftrightarrow> runs_ok (sc_runs st) \<and> distinct (map sk_ID (sc_tasks st))"

lemma length_filter_map_le:
  "(\<And>x. Q (g x) \<Longrightarrow> Q x) \<Longrightarrow> length (filter Q (map g xs)) \<le> length (filter Q xs)"
  by (induction xs) (auto simp: le_SucI)

lemma runs_ok_map:
  assumes "runs_ok rs" and "\<And>r. run_key (g r) = run_key r"
    and "\<And>r. active_outcome (sr_Outcome (g r)) \<Longrightarrow> active_outcome (sr_Outcome r)"
  shows "runs_ok (map g rs)"
proof -
  have k: "map run_key (map g rs) = map run_key rs" using assms(2) by simp
  have "length (filter (\<lambda>r. sr_TaskID r = key \<and> active_outcome (sr_Outcome r)) (map g rs)) \<le> 1" for key
  proof (rule le_trans)
    show "length (filter (\<lambda>r. sr_TaskID r = key \<and> active_outcome (sr_Outcome r)) (map g rs))
        \<le> length (filter (\<lambda>r. sr_TaskID r = key \<and> active_outcome (sr_Outcome r)) rs)"
      using assms(2,3) by (intro length_filter_map_le) (auto simp: run_key_def)
    show "length (filter (\<lambda>r. sr_TaskID r = key \<and> active_outcome (sr_Outcome r)) rs) \<le> 1"
      using assms(1) by (simp add: runs_ok_def)
  qed
  then show ?thesis using assms(1) unfolding runs_ok_def k by blast
qed

lemma runs_ok_filter:
  assumes "runs_ok rs"
  shows "runs_ok (filter P rs)"
proof -
  have "length (filter Q (filter P rs)) \<le> length (filter Q rs)" for Q :: "ScheduledTaskRun \<Rightarrow> bool"
    by (induction rs) auto
  then have "length (filter (\<lambda>r. sr_TaskID r = key \<and> active_outcome (sr_Outcome r)) (filter P rs)) \<le> 1" for key
    using assms le_trans unfolding runs_ok_def by blast
  then show ?thesis using assms by (simp add: runs_ok_def distinct_map_filter)
qed

lemma runs_ok_new:
  assumes "runs_ok rs" and "run_key r \<notin> run_key ` set rs"
    and "active_outcome (sr_Outcome r) \<Longrightarrow>
      filter (\<lambda>q. sr_TaskID q = sr_TaskID r \<and> active_outcome (sr_Outcome q)) rs = []"
  shows "runs_ok (rs @ [r])"
  using assms by (auto simp: runs_ok_def)

lemma map_task_simps [simp]:
  "sc_runs (map_task key f st) = sc_runs st" "sc_proposals (map_task key f st) = sc_proposals st"
  by (simp_all add: map_task_def)

lemma map_task_ids:
  "(\<And>t. sk_ID (f t) = sk_ID t) \<Longrightarrow> map sk_ID (sc_tasks (map_task key f st)) = map sk_ID (sc_tasks st)"
  by (simp add: map_task_def)

lemma find_task_map_task:
  "(\<And>t. sk_ID (f t) = sk_ID t) \<Longrightarrow>
    find_task k (map_task key f st) = (if k = key then map_option f (find_task k st) else find_task k st)"
proof -
  assume f: "\<And>t. sk_ID (f t) = sk_ID t"
  have "find (\<lambda>t. sk_ID t = k) (map (\<lambda>t. if sk_ID t = key then f t else t) ts) =
      (if k = key then map_option f (find (\<lambda>t. sk_ID t = k) ts) else find (\<lambda>t. sk_ID t = k) ts)" for ts
    using f by (induction ts) auto
  then show ?thesis by (simp add: find_task_def map_task_def)
qed

lemma map_task_ok:
  "(\<And>t. sk_ID (f t) = sk_ID t) \<Longrightarrow> schedules_ok (map_task key f st) \<longleftrightarrow> schedules_ok st"
  by (simp add: schedules_ok_def map_task_ids)

lemma updateTask_ok:
  "updateTask now task old st = Inr (t, st') \<Longrightarrow> sc_runs st' = sc_runs st \<and> sc_proposals st' = sc_proposals st
    \<and> map sk_ID (sc_tasks st') = map sk_ID (sc_tasks st)"
  by (auto simp: updateTask_def replaced_row_def intro!: map_task_ids split: if_splits)

lemma insertTask_ok:
  "insertTask now fresh task st = Inr (t, st') \<Longrightarrow> sc_runs st' = sc_runs st \<and> sc_proposals st' = sc_proposals st
    \<and> map sk_ID (sc_tasks st') = map sk_ID (sc_tasks st) @ [sk_ID t] \<and> sk_ID t \<notin> sk_ID ` set (sc_tasks st)"
  by (auto simp: insertTask_def Let_def list_ex_iff split: if_splits)

lemma accepted_proposal_simps [simp]:
  "sc_runs (accepted_proposal now key taskID st) = sc_runs st"
  "sc_tasks (accepted_proposal now key taskID st) = sc_tasks st"
  by (simp_all add: accepted_proposal_def)

lemma acceptOne_ok:
  assumes "acceptOne J load now fresh key team channel actor most per st = Inr (t, st')" and "schedules_ok st"
  shows "schedules_ok st'"
  using assms
  by (auto simp: acceptOne_def and_then_Inr schedules_ok_def dest!: updateTask_ok insertTask_ok
      split: if_splits)

lemma accept_all_ok:
  assumes "\<And>fresh key st t st'. accept fresh key st = Inr (t, st') \<Longrightarrow> schedules_ok st \<Longrightarrow> schedules_ok st'"
  shows "accept_all accept seen ids st = Inr (ts, st') \<Longrightarrow> schedules_ok st \<Longrightarrow> schedules_ok st'"
proof (induction ids arbitrary: seen st ts)
  case (Cons a ids)
  then show ?case using assms
    by (cases a) (fastforce simp: Let_def and_then_Inr split: if_splits)
qed simp

lemma claim_ok:
  assumes "ClaimScheduledTaskRun now task at next_at source advance execute skip st = Inr (c, st')"
    and "schedules_ok st"
  shows "schedules_ok st'"
proof -
  let ?busy = "active_runs (sk_ID task) st \<noteq> []"
  from assms(1) obtain outcome where o: "claim_outcome ?busy execute skip = Inr outcome"
    by (auto simp: ClaimScheduledTaskRun_def Let_def and_then_Inr)
  let ?run = "new_run now (sk_ID task) at (if execute \<and> ?busy then [] else source) outcome"
  have active: "active_outcome outcome \<Longrightarrow> \<not> ?busy"
    using o by (auto simp: claim_outcome_def active_outcome_def Let_def split: if_splits)
  show ?thesis
  proof (cases "run_taken ?run st")
    case True
    then show ?thesis using assms o by (simp add: ClaimScheduledTaskRun_def Let_def)
  next
    case False
    then have "run_key ?run \<notin> run_key ` set (sc_runs st)"
      by (auto simp: run_taken_def list_ex_iff run_key_def new_run_def)
    moreover have "filter (\<lambda>q. sr_TaskID q = sr_TaskID ?run \<and> active_outcome (sr_Outcome q)) (sc_runs st) = []"
      if "active_outcome (sr_Outcome ?run)"
      using active that by (simp add: new_run_def active_runs_def)
    ultimately have "runs_ok (sc_runs st @ [?run])"
      using assms(2) by (intro runs_ok_new) (auto simp: schedules_ok_def)
    then have "schedules_ok (st\<lparr>sc_runs := sc_runs st @ [?run]\<rparr>)"
      using assms(2) by (simp add: schedules_ok_def)
    moreover have "sk_ID (advanced_task now at next_at (sk_ExpiresAt task) outcome t) = sk_ID t" for t
      by (simp add: advanced_task_def Let_def)
    ultimately show ?thesis using assms(1) o False
      by (auto simp: ClaimScheduledTaskRun_def Let_def map_task_ok split: if_splits)
  qed
qed

lemma delete_tasks_ok: "schedules_ok st \<Longrightarrow> schedules_ok (delete_tasks P st)"
  by (simp add: schedules_ok_def delete_tasks_def runs_ok_filter distinct_map_filter)

lemma insert_proposals_rest:
  "CreateMany load now ps st = Inr (stored, st') \<Longrightarrow> sc_runs st' = sc_runs st \<and> sc_tasks st' = sc_tasks st"
  by (auto simp: CreateMany_def and_then_Inr split: if_splits)

lemma schedule_step_ok:
  assumes "schedule_step J load st op = Inr st'" and "schedules_ok st"
  shows "schedules_ok st'"
proof (cases op)
  case (OpPropose now ps)
  with assms show ?thesis by (auto simp: dropping_Inr schedules_ok_def dest: insert_proposals_rest)
next
  case (OpAccept now ids team channel actor most per)
  with assms show ?thesis
    by (auto simp: dropping_Inr AcceptMany_def split: if_splits intro: accept_all_ok acceptOne_ok)
next
  case (OpCreate now fresh task most per)
  with assms show ?thesis
    by (auto simp: dropping_Inr CreateScheduledTask_def and_then_Inr Let_def schedules_ok_def
        dest!: insertTask_ok split: if_splits option.splits)
next
  case (OpEnable now key on)
  with assms show ?thesis
    by (auto simp: dropping_Inr SetScheduledTaskEnabled_def schedules_ok_def map_task_ids
        split: if_splits option.splits)
next
  case (OpDelete key)
  with assms show ?thesis
    by (auto simp: dropping_Inr DeleteScheduledTask_def and_then_Inr delete_tasks_ok)
next
  case (OpDeleteChannel channel)
  with assms show ?thesis by (auto simp: DeleteChannelSchedules_def delete_tasks_ok)
next
  case (OpPrune valid)
  with assms show ?thesis
    by (auto simp: dropping_Inr PruneOrphanSchedules_def delete_tasks_ok split: if_splits)
next
  case (OpClaim now task at next_at source advance execute skip)
  with assms show ?thesis by (auto simp: dropping_Inr dest: claim_ok)
next
  case (OpLink now task at run episode)
  with assms show ?thesis
    by (auto simp: LinkScheduledTaskRun_def Let_def schedules_ok_def map_run_def run_key_def active_outcome_def
        intro!: runs_ok_map split: if_splits)
next
  case (OpComplete now task at outcome detail)
  with assms show ?thesis
    by (auto simp: CompleteScheduledTaskRun_def Let_def schedules_ok_def map_task_ids map_run_def run_key_def
        active_outcome_def intro!: runs_ok_map split: if_splits)
qed

interpretation schedule_store: guarded_machine "schedule_step J load" schedules_ok for J load
  by unfold_locales (rule schedule_step_ok)

text \<open>C8. 
  Whatever is proposed, accepted, claimed, linked, completed, switched and deleted in whatever order, a
  task has at most one run queued or running, and no occurrence of it is recorded twice.
\<close>

theorem one_run_at_a_time:
  "length (active_runs key (run_machine (schedule_step J load) no_schedules ops)) \<le> 1 \<and>
   distinct (map run_key (sc_runs (run_machine (schedule_step J load) no_schedules ops)))"
proof -
  have "schedules_ok no_schedules" by (simp add: schedules_ok_def runs_ok_def no_schedules_def)
  then have "schedules_ok (run_machine (schedule_step J load) no_schedules ops)"
    by (rule schedule_store.run_inv)
  then show ?thesis by (simp add: schedules_ok_def runs_ok_def active_runs_def)
qed

section \<open>A due task moves on\<close>

lemma next_after:
  assumes "sk_Recurrence task = ''interval'' \<Longrightarrow> nanos after - nanos (sk_StartAt task) < 2 ^ 63"
    and "NextScheduledOccurrence load task after = t" and "t \<noteq> ZeroTime"
  shows "after < t"
proof (cases "sk_Recurrence task = ''interval''")
  case True
  define step where "step = sk_IntervalSeconds task * second"
  show ?thesis
  proof (cases "after < sk_StartAt task")
    case start: True
    then show ?thesis using assms(2,3) True
      by (auto simp: NextScheduledOccurrence_def Let_def step_def [symmetric] split: if_splits)
  next
    case False
    then have le: "nanos (sk_StartAt task) \<le> nanos after" by (simp add: less_gotime_def)
    then have e: "time_sub after (sk_StartAt task) = nanos after - nanos (sk_StartAt task)"
      using assms(1) [OF True] by (simp add: time_sub_def)
    have step: "0 < step"
      using assms(2,3) True by (auto simp: NextScheduledOccurrence_def Let_def step_def split: if_splits)
    then have "t = time_add (sk_StartAt task) (((nanos after - nanos (sk_StartAt task)) div step + 1) * step)"
      using assms(2) True False e by (simp add: NextScheduledOccurrence_def Let_def step_def)
    then show ?thesis
      using div_bounds(2) [OF step, of "nanos after - nanos (sk_StartAt task)"]
      by (simp add: less_gotime_def algebra_simps)
  qed
next
  case False
  then obtain h m where "t = first_accepted (accepted_on (MustLocation load (sk_Timezone task)) task after h m) [0..370]"
    using assms(2,3) by (auto simp: NextScheduledOccurrence_def split: if_splits sum.splits)
  then show ?thesis
    using assms(3)
    by (cases rule: first_accepted_cases
        [of "accepted_on (MustLocation load (sk_Timezone task)) task after h m" "[0..370]"])
      (auto simp: accepted_Some)
qed

definition unclaimed :: "ScheduledTask \<Rightarrow> Schedules \<Rightarrow> bool" where
  "unclaimed task st \<longleftrightarrow>
     \<not> list_ex (\<lambda>r. run_key r = (sk_ID task, sk_NextRunAt task)
       \<or> sr_SourceInput r = ScheduledSourceInputID (sk_ID task) (sk_NextRunAt task)) (sc_runs st)"

lemma claim_unclaimed:
  assumes "unclaimed task st" and "find_task (sk_ID task) st = Some task"
    and "skip = ''skipped_missed'' \<or> skip = ''skipped_unauthorized''"
  obtains run outcome st' where
    "ClaimScheduledTaskRun now task (sk_NextRunAt task) next_at
       (ScheduledSourceInputID (sk_ID task) (sk_NextRunAt task)) True execute skip st = Inr (Some run, st')"
    "find_task (sk_ID task) st' =
       Some (advanced_task now (sk_NextRunAt task) next_at (sk_ExpiresAt task) outcome task)"
proof -
  let ?busy = "active_runs (sk_ID task) st \<noteq> []"
  let ?source = "ScheduledSourceInputID (sk_ID task) (sk_NextRunAt task)"
  obtain outcome where o: "claim_outcome ?busy execute skip = Inr outcome"
    using assms(3) by (auto simp: claim_outcome_def Let_def)
  let ?run = "new_run now (sk_ID task) (sk_NextRunAt task) (if execute \<and> ?busy then [] else ?source) outcome"
  have free: "\<not> run_taken ?run st"
    using assms(1) by (auto simp: run_taken_def unclaimed_def list_ex_iff run_key_def new_run_def)
  let ?st = "map_task (sk_ID task) (advanced_task now (sk_NextRunAt task) next_at (sk_ExpiresAt task) outcome)
      (st\<lparr>sc_runs := sc_runs st @ [?run]\<rparr>)"
  have "sk_ID (advanced_task now (sk_NextRunAt task) next_at (sk_ExpiresAt task) outcome t) = sk_ID t" for t
    by (simp add: advanced_task_def Let_def)
  then have "find_task (sk_ID task) ?st =
      map_option (advanced_task now (sk_NextRunAt task) next_at (sk_ExpiresAt task) outcome)
        (find_task (sk_ID task) (st\<lparr>sc_runs := sc_runs st @ [?run]\<rparr>))"
    by (simp add: find_task_map_task)
  also have "find_task (sk_ID task) (st\<lparr>sc_runs := sc_runs st @ [?run]\<rparr>) = Some task"
    using assms(2) by (simp add: find_task_def)
  finally show thesis
    using that [of "(?run, outcome = ''queued'')" ?st outcome] o free assms(2)
    by (simp add: ClaimScheduledTaskRun_def Let_def)
qed

text \<open>C38. 
  Processing a due task whose occurrence is not on record always succeeds and moves it on: afterwards it is
  switched off, or its next run is strictly ahead and before it expires.
\<close>

theorem due_task_advances:
  assumes "find_task (sk_ID task) st = Some task" and "unclaimed task st"
    and "sk_Recurrence task = ''interval'' \<Longrightarrow> nanos now - nanos (sk_StartAt task) < 2 ^ 63"
  shows "\<exists>run st' t'. process_due load now grace allowed task st = Inr (run, st') \<and>
    find_task (sk_ID task) st' = Some t' \<and> sk_LastRunAt t' = sk_NextRunAt task \<and>
    (if sk_Enabled t' then allowed \<and> now < sk_NextRunAt t' \<and> sk_NextRunAt t' < sk_ExpiresAt task
     else IsZero (sk_NextRunAt t'))"
proof -
  let ?next = "if allowed then NextScheduledOccurrence load task now else ZeroTime"
  let ?skip = "if allowed then ''skipped_missed'' else ''skipped_unauthorized''"
  let ?execute = "allowed \<and> (sk_CatchUp task = ''latest'' \<or> time_sub now (sk_NextRunAt task) \<le> grace)"
  have skip: "?skip = ''skipped_missed'' \<or> ?skip = ''skipped_unauthorized''" by simp
  obtain claim outcome st' where c: "ClaimScheduledTaskRun now task (sk_NextRunAt task) ?next
      (ScheduledSourceInputID (sk_ID task) (sk_NextRunAt task)) True ?execute ?skip st = Inr (Some claim, st')"
    "find_task (sk_ID task) st' =
      Some (advanced_task now (sk_NextRunAt task) ?next (sk_ExpiresAt task) outcome task)"
    by (rule claim_unclaimed [OF assms(2,1) skip])
  have p: "\<exists>run. process_due load now grace allowed task st = Inr (run, st')"
    using c(1) by (cases allowed) (simp_all add: process_due_def Let_def)
  have "now < ?next" if "\<not> IsZero ?next"
    using that next_after [OF assms(3) refl] by (auto simp: IsZero_iff split: if_splits)
  then show ?thesis
    using p c(2) by (fastforce simp: advanced_task_def Let_def split: if_splits)
qed

section \<open>Replacing a schedule\<close>

text \<open>C39. 
  An occurrence that is on record stops its task for good: every pass claims it again, is told that it was
  recorded, and leaves the task due.
\<close>

theorem recorded_occurrence_stops_task:
  assumes "r \<in> set (sc_runs st)" and "run_key r = (sk_ID task, sk_NextRunAt task)"
  shows "process_due load now grace allowed task st = Inr (None, st)"
proof -
  have "run_taken (new_run now (sk_ID task) (sk_NextRunAt task) source outcome) st" for now source outcome
    using assms by (auto simp: run_taken_def list_ex_iff run_key_def new_run_def)
  then show ?thesis
    by (simp add: process_due_def Let_def ClaimScheduledTaskRun_def claim_outcome_def)
qed

text \<open>How a task becomes that: it fires, and within a second an operator accepts a replacement made earlier.\<close>

definition hourly_offer :: ScheduledTask where
  "hourly_offer = daily_task\<lparr>sk_ID := [], sk_Recurrence := ''interval'', sk_IntervalSeconds := 3600,
     sk_Timezone := ''UTC'', sk_StartAt := Time (1000 * second), sk_NextRunAt := Time (1000 * second),
     sk_ExpiresAt := Time (10 ^ 6 * second)\<rparr>"

definition proposal_of :: "string \<Rightarrow> string \<Rightarrow> ScheduledTask \<Rightarrow> ScheduleProposal" where
  "proposal_of source replaced task =
     \<lparr>sp_ID = [], sp_TeamID = ''T1'', sp_ChannelID = ''C1'', sp_ThreadTS = [], sp_ActorID = ''U1'',
      sp_SourceRef = source, sp_Task = task\<lparr>sk_SourceRef := source\<rparr>, sp_ReplaceTaskID = replaced,
      sp_Status = [], sp_AcceptedTaskID = [], sp_ExpiresAt = ZeroTime, sp_CreatedAt = ZeroTime,
      sp_UpdatedAt = ZeroTime\<rparr>"

definition any_zone :: "string \<Rightarrow> Zone option" where "any_zone name = Some UTC"

definition before_firing :: "ScheduleOp list" where
  "before_firing =
     [OpPropose (Time (10 * second)) [(proposal_of ''e1'' [] hourly_offer, ''p1'')],
      OpAccept (Time (20 * second)) [(''p1'', ''t1'')] ''T1'' ''C1'' ''U1'' 5 5,
      OpPropose (Time (900 * second)) [(proposal_of ''e2'' ''t1'' hourly_offer, ''p2'')]]"

definition "scheduled_once = run_machine (schedule_step nanos any_zone) no_schedules before_firing"

definition "fired_once = run_machine (schedule_step nanos any_zone) scheduled_once
  [OpClaim (Time (1000 * second)) (hd (sc_tasks scheduled_once)) (Time (1000 * second)) (Time (4600 * second))
     ''schedule_t1_1000'' True True ''skipped_missed'']"

definition "replaced_after = run_machine (schedule_step nanos any_zone) fired_once
  [OpAccept (Time (1000 * second + 5 * 10 ^ 8)) [(''p2'', ''x'')] ''T1'' ''C1'' ''U1'' 5 5]"

definition "replaced_task = the (find_task ''t1'' replaced_after)"

theorem recorded_occurrence_stops_task_witness:
  "process_due any_zone (Time (5000 * second)) second True replaced_task replaced_after = Inr (None, replaced_after)
   \<and> find_task ''t1'' replaced_after = Some replaced_task
   \<and> task_due nanos (Time (5000 * second)) replaced_task"
proof -
  have "hd (sc_runs replaced_after) \<in> set (sc_runs replaced_after)"
    "run_key (hd (sc_runs replaced_after)) = (sk_ID replaced_task, sk_NextRunAt replaced_task)"
    "find_task ''t1'' replaced_after = Some replaced_task"
    "task_due nanos (Time (5000 * second)) replaced_task"
    by code_simp+
  then show ?thesis using recorded_occurrence_stops_task [of "hd (sc_runs replaced_after)"] by simp
qed

theorem due_task_advances_witness:
  "\<exists>run st' t'. process_due any_zone (Time (1000 * second)) second True (hd (sc_tasks scheduled_once)) scheduled_once
      = Inr (run, st') \<and> find_task ''t1'' st' = Some t' \<and> sk_LastRunAt t' = Time (1000 * second)"
proof -
  let ?t = "hd (sc_tasks scheduled_once)"
  have t: "find_task (sk_ID ?t) scheduled_once = Some ?t" "sk_ID ?t = ''t1''"
    "nanos (Time (1000 * second)) - nanos (sk_StartAt ?t) < 2 ^ 63"
    "sk_NextRunAt ?t = Time (1000 * second)" "sc_runs scheduled_once = []"
    by code_simp+
  then have "unclaimed ?t scheduled_once" by (simp add: unclaimed_def)
  from due_task_advances [OF t(1) this t(3), of any_zone second True] t(2,4) show ?thesis by auto
qed

text \<open>
  A limit of one task, and two live ones: the first expires, a second takes its place, and then a
  replacement that was proposed for the first is accepted, which nothing counts.
\<close>

definition capacity_ops :: "ScheduleOp list" where
  "capacity_ops =
     [OpPropose (Time (10 * second)) [(proposal_of ''e1'' [] (hourly_offer\<lparr>sk_ExpiresAt := Time (2000 * second)\<rparr>), ''p1'')],
      OpAccept (Time (20 * second)) [(''p1'', ''t1'')] ''T1'' ''C1'' ''U1'' 1 1,
      OpPropose (Time (1500 * second))
        [(proposal_of ''e2'' ''t1'' (hourly_offer\<lparr>sk_NextRunAt := Time (4000 * second)\<rparr>), ''p2'')],
      OpPropose (Time (2100 * second))
        [(proposal_of ''e3'' [] (hourly_offer\<lparr>sk_NextRunAt := Time (4000 * second)\<rparr>), ''p3'')],
      OpAccept (Time (2200 * second)) [(''p3'', ''t3'')] ''T1'' ''C1'' ''U1'' 1 1,
      OpAccept (Time (2300 * second)) [(''p2'', ''x'')] ''T1'' ''C1'' ''U1'' 1 1]"

text \<open>Replacing an expired schedule is not held to the capacity that the acceptances name.\<close>

theorem replacement_exceeds_capacity:
  "length (filter (\<lambda>t. Time (2300 * second) < sk_ExpiresAt t)
     (sc_tasks (run_machine (schedule_step nanos any_zone) no_schedules capacity_ops))) = 2 \<and>
   list_all (\<lambda>op. case op of OpAccept now ids team channel actor most per \<Rightarrow> most = 1 \<and> per = 1 | _ \<Rightarrow> True)
     capacity_ops"
  by code_simp

section \<open>Accepting\<close>

lemma find_accepted:
  "find (\<lambda>p. sp_ID p = key) ps = Some p \<Longrightarrow> sp_Status p = ''pending'' \<Longrightarrow>
    find (\<lambda>p. sp_ID p = key) (map (\<lambda>p. if sp_ID p = key \<and> sp_Status p = ''pending''
      then p\<lparr>sp_Status := ''accepted'', sp_AcceptedTaskID := taskID, sp_UpdatedAt := now\<rparr> else p) ps)
    = Some (p\<lparr>sp_Status := ''accepted'', sp_AcceptedTaskID := taskID, sp_UpdatedAt := now\<rparr>)"
  by (induction ps) (auto split: if_splits)

lemma find_task_append:
  "sk_ID t \<notin> sk_ID ` set ts \<Longrightarrow> sk_ID r = sk_ID t \<Longrightarrow> find (\<lambda>x. sk_ID x = sk_ID t) (ts @ [r]) = Some r"
  by (induction ts) auto

lemma find_task_ID: "find_task key st = Some t \<Longrightarrow> sk_ID t = key"
  by (auto simp: find_task_def find_Some_iff)

lemma updateTask_task:
  assumes "updateTask now task old st = Inr (t, st')" and "find_task key st = Some old"
  shows "\<exists>row. find_task (sk_ID t) st' = Some row"
proof -
  have "sk_ID old = key" using find_task_ID [OF assms(2)] .
  with assms show ?thesis
    by (auto simp: updateTask_def find_task_map_task replaced_row_def split: if_splits)
qed

lemma insertTask_task:
  assumes "insertTask now fresh task st = Inr (t, st')"
  shows "\<exists>row. find_task (sk_ID t) st' = Some row"
  using assms insertTask_ok [OF assms]
  by (auto simp: insertTask_def Let_def find_task_def find_task_append split: if_splits)

lemma accepted_find [simp]: "find_task k (accepted_proposal now key taskID st) = find_task k st"
  by (simp add: find_task_def)

text \<open>What a successful acceptance leaves: an accepted proposal of that conversation and operator, whose task exists.\<close>

lemma acceptOne_result:
  assumes "acceptOne J load now fresh key team channel actor most per st = Inr (t, st')"
  obtains p row where "find_proposal key st' = Some p" "sp_TeamID p = team" "sp_ChannelID p = channel"
    "sp_ActorID p = actor" "sp_Status p = ''accepted''" "sp_AcceptedTaskID p = sk_ID t"
    "find_task (sk_ID t) st' = Some row"
proof -
  obtain p where p: "find_proposal key st = Some p" "sp_TeamID p = team" "sp_ChannelID p = channel"
    "sp_ActorID p = actor"
    using assms by (auto simp: acceptOne_def and_then_Inr or_missing_def split: option.splits if_splits)
  show thesis
  proof (cases "sp_Status p = ''accepted'' \<and> sp_AcceptedTaskID p \<noteq> []")
    case True
    then have "find_task (sp_AcceptedTaskID p) st = Some t" "st' = st"
      using assms p by (auto simp: acceptOne_def and_then_Inr or_missing_def split: option.splits)
    moreover from this(1) have "sk_ID t = sp_AcceptedTaskID p" by (rule find_task_ID)
    ultimately show thesis using p True by (intro that [of p t]) simp_all
  next
    case False
    then obtain st1 where st1: "st' = accepted_proposal now key (sk_ID t) st1" "sp_Status p = ''pending''"
      "if sp_ReplaceTaskID p \<noteq> []
       then \<exists>old. find_task (sp_ReplaceTaskID p) st = Some old \<and> updateTask now (sp_Task p) old st = Inr (t, st1)
       else insertTask now fresh (sp_Task p) st = Inr (t, st1)"
      using assms p
      by (auto simp: acceptOne_def and_then_Inr or_missing_def split: option.splits if_splits)
    then have "find_proposal key st1 = Some p" "\<exists>row. find_task (sk_ID t) st1 = Some row"
      using p(1) updateTask_task insertTask_task
      by (auto simp: find_proposal_def dest: updateTask_ok insertTask_ok split: if_splits)
    then show thesis
      using that [of "p\<lparr>sp_Status := ''accepted'', sp_AcceptedTaskID := sk_ID t, sp_UpdatedAt := now\<rparr>"]
        p find_accepted [of key "sc_proposals st1" p now "sk_ID t"] st1(1,2)
      by (auto simp: find_proposal_def accepted_proposal_def find_task_def)
  qed
qed

text \<open>
  Accepting is final: the same operator accepting again, at any time and under any limits, gets the same
  task and changes nothing; anyone else, or from elsewhere, is refused.
\<close>

theorem accepting_is_final:
  assumes "acceptOne J load now fresh key team channel actor most per st = Inr (t, st')" and "sk_ID t \<noteq> []"
  shows "(\<exists>t'. acceptOne J load now' fresh' key team channel actor most' per' st' = Inr (t', st')
      \<and> sk_ID t' = sk_ID t) \<and>
    ((team', channel', actor') = (team, channel, actor) \<or>
      acceptOne J load now' fresh' key team' channel' actor' most' per' st'
        = Inl (ScheduleRefused ''schedule proposal belongs to another conversation or operator''))"
proof -
  obtain p row where p: "find_proposal key st' = Some p" "sp_TeamID p = team" "sp_ChannelID p = channel"
    "sp_ActorID p = actor" "sp_Status p = ''accepted''" "sp_AcceptedTaskID p = sk_ID t"
    "find_task (sk_ID t) st' = Some row"
    by (rule acceptOne_result [OF assms(1)])
  then have "\<exists>t'. acceptOne J load now' fresh' key team channel actor most' per' st' = Inr (t', st')
      \<and> sk_ID t' = sk_ID t"
    using assms(2) find_task_ID [OF p(7)] by (simp add: acceptOne_def or_missing_def)
  moreover have "(team', channel', actor') = (team, channel, actor) \<or>
      acceptOne J load now' fresh' key team' channel' actor' most' per' st'
        = Inl (ScheduleRefused ''schedule proposal belongs to another conversation or operator'')"
    using p by (auto simp: acceptOne_def or_missing_def)
  ultimately show ?thesis by blast
qed

definition "proposed_once = run_machine (schedule_step nanos any_zone) no_schedules (take 1 before_firing)"

definition "accepted_once =
  projr (acceptOne nanos any_zone (Time (20 * second)) ''t1'' ''p1'' ''T1'' ''C1'' ''U1'' 5 5 proposed_once)"

theorem accepting_is_final_witness:
  "(\<exists>t'. acceptOne nanos any_zone (Time (90 * second)) ''t9'' ''p1'' ''T1'' ''C1'' ''U1'' 1 1 (snd accepted_once)
      = Inr (t', snd accepted_once) \<and> sk_ID t' = ''t1'') \<and>
   acceptOne nanos any_zone (Time (90 * second)) ''t9'' ''p1'' ''T1'' ''C1'' ''U2'' 1 1 (snd accepted_once)
     = Inl (ScheduleRefused ''schedule proposal belongs to another conversation or operator'')"
proof -
  have a: "acceptOne nanos any_zone (Time (20 * second)) ''t1'' ''p1'' ''T1'' ''C1'' ''U1'' 5 5 proposed_once
      = Inr (fst accepted_once, snd accepted_once)" "sk_ID (fst accepted_once) = ''t1''"
    by code_simp+
  then have ne: "sk_ID (fst accepted_once) \<noteq> []" by simp
  show ?thesis
    using accepting_is_final [OF a(1) ne, of "Time (90 * second)" "''t9''" 1 1 "''T1''" "''C1''" "''U2''"] a(2)
      accepting_is_final [OF a(1) ne, of "Time (90 * second)" "''t9''" 1 1] by auto
qed

section \<open>Offers\<close>

definition start_given ::
    "(string \<Rightarrow> Zone option) \<Rightarrow> ScheduledTask \<Rightarrow> gotime \<Rightarrow> gotime \<Rightarrow> ScheduleFault + gotime" where
  "start_given load task now start =
      (if sk_Recurrence task = ''once'' then
         (if IsZero start then Inl StartMissing
          else if start < time_add now (- 5 * minute) then Inl StartPast
          else if start < now then Inr now else Inr start)
       else if sk_Recurrence task = ''interval'' then
         (if IsZero start then Inr (time_add now (sk_IntervalSeconds task * second))
          else if start < now then Inr (NextScheduledOccurrence load (task\<lparr>sk_StartAt := start\<rparr>) now)
          else Inr start)
       else if sk_Recurrence task \<in> {''daily'', ''weekly'', ''monthly''} then
         (let next_at = NextScheduledOccurrence load task (if now < start then time_add start (- 1) else now)
          in if IsZero next_at then Inl NoOccurrence else Inr next_at)
       else Inl RecurrenceInvalid)"

lemma ParseScheduleStart_start:
  assumes "ParseScheduleStart load parse task value now = Inr t"
  obtains start where "start = ZeroTime \<or> parse value = Some start" "start_given load task now start = Inr t"
proof -
  have "ParseScheduleStart load parse task value now =
      and_then (if value = [] then Inr ZeroTime
        else case parse value of None \<Rightarrow> Inl StartNotRFC3339 | Some t \<Rightarrow> Inr t) (start_given load task now)"
    unfolding ParseScheduleStart_def start_given_def [abs_def] by (rule refl)
  from assms [unfolded this and_then_Inr] obtain start where "(if value = [] then Inr ZeroTime
        else case parse value of None \<Rightarrow> Inl StartNotRFC3339 | Some t \<Rightarrow> Inr t) = Inr start"
    "start_given load task now start = Inr t"
    by (elim exE conjE)
  then show thesis by (intro that) (auto split: if_splits option.splits)
qed

lemma start_not_past:
  assumes "ParseScheduleStart load parse task value now = Inr t" and "ValidateScheduleShape task = None"
    and "\<And>v s. parse v = Some s \<Longrightarrow> nanos now - nanos s < 2 ^ 63"
  shows "now \<le> t"
proof -
  obtain start where s0: "start = ZeroTime \<or> parse value = Some start" "start_given load task now start = Inr t"
    by (rule ParseScheduleStart_start [OF assms(1)])
  note s = s0(1) s0(2) [unfolded start_given_def]
  show ?thesis
  proof (cases "sk_Recurrence task = ''interval''")
    case True
    then have i: "0 < sk_IntervalSeconds task * second"
      using assms(2) by (simp add: ValidateScheduleShape_def interval_in_range_def second_def split: if_splits)
    have "now < NextScheduledOccurrence load (task\<lparr>sk_StartAt := start\<rparr>) now" if "\<not> IsZero start" "start < now"
    proof -
      have b: "nanos now - nanos start < 2 ^ 63" using assms(3) s(1) that(1) by auto
      define q where "q = (nanos now - nanos start) div (sk_IntervalSeconds task * second)"
      have "NextScheduledOccurrence load (task\<lparr>sk_StartAt := start\<rparr>) now
          = time_add start ((q + 1) * (sk_IntervalSeconds task * second))"
        using True i that(2) b by (auto simp: NextScheduledOccurrence_def Let_def q_def time_sub_def less_gotime_def)
      then show ?thesis
        using div_bounds(2) [OF i, of "nanos now - nanos start"] unfolding q_def [symmetric]
        by (simp add: less_gotime_def algebra_simps)
    qed
    then show ?thesis using s(2) True i by (auto simp: less_eq_gotime_def less_gotime_def split: if_splits)
  next
    case False
    note after = next_after [of task "if now < start then time_add start (- 1) else now" load, OF _ refl]
    show ?thesis
      using s(2) False after
      by (auto simp: Let_def IsZero_iff less_eq_gotime_def less_gotime_def split: if_splits)
  qed
qed

lemma ParseMemoryTTL_range: "ParseMemoryTTL v = Some ttl \<Longrightarrow> ttl \<noteq> PermanentTTL \<Longrightarrow> 0 < ttl \<and> ttl \<le> MaxTTL"
  by (auto simp: ParseMemoryTTL_def Let_def DefaultTTL_def MaxTTL_def duration_units split: if_splits)

lemma started_task_shape: "ValidateScheduleShape (started_task start task) = ValidateScheduleShape task"
  by (simp add: started_task_def ValidateScheduleShape_def)

text \<open>
  A task made from an offer can be accepted at once: its first run is not in the past and comes before its
  expiry, which is ahead by at most a year, and its timezone is known.
\<close>

theorem offered_task_is_runnable:
  assumes "TaskFromOffer load parse raw ctx = Inr task"
    and "\<And>v s. parse v = Some s \<Longrightarrow> nanos (tc_Now ctx) - nanos s < 2 ^ 63"
  shows "runnable (tc_Now ctx) task \<and> tc_Now ctx \<le> sk_NextRunAt task \<and>
    sk_ExpiresAt task \<le> time_add (tc_Now ctx) MaxTTL \<and> load (sk_Timezone task) \<noteq> None \<and>
    ValidateScheduleShape task = None"
proof -
  let ?offer = "normalized_offer ctx raw" and ?now = "tc_Now ctx"
  obtain ttl weekdays where t: "ParseMemoryTTL (so_ExpiresIn ?offer) = Some ttl" "ttl \<noteq> PermanentTTL"
    "offered_weekdays [] (so_Weekdays ?offer) = Some weekdays"
    using assms(1) by (auto simp: TaskFromOffer_def Let_def split: if_splits option.splits)
  let ?task = "offered_task ctx ?offer ttl (sort weekdays)"
  obtain start where s: "load (sk_Timezone ?task) \<noteq> None" "ValidateScheduleShape ?task = None"
    "lift_fault (ParseScheduleStart load parse ?task (trim_space (so_StartAt ?offer)) ?now) = Inr start"
    "start < sk_ExpiresAt ?task" "task = started_task start ?task"
    using assms(1) t by (auto simp: TaskFromOffer_def Let_def and_then_Inr split: if_splits option.splits)
  have "ParseScheduleStart load parse ?task (trim_space (so_StartAt ?offer)) ?now = Inr start"
    using s(3) by (cases "ParseScheduleStart load parse ?task (trim_space (so_StartAt ?offer)) ?now") auto
  from start_not_past [OF this s(2) assms(2)] have start: "?now \<le> start" .
  have e: "sk_ExpiresAt ?task = time_add ?now ttl" unfolding offered_task_def by simp
  have "ValidateScheduleShape task = None"
    using s(2) unfolding s(5) started_task_shape .
  moreover have ttl: "0 < ttl" "ttl \<le> MaxTTL" using ParseMemoryTTL_range [OF t(1,2)] by auto
  moreover have task: "sk_NextRunAt task = start" "sk_ExpiresAt task = sk_ExpiresAt ?task"
    "sk_Timezone task = sk_Timezone ?task"
    unfolding s(5) by (simp_all add: started_task_def)
  moreover have "time_add ?now (- second) < start" using start
    by (simp add: less_eq_gotime_def less_gotime_def second_def)
  moreover have "?now < sk_ExpiresAt ?task" using start s(4) by simp
  moreover have "sk_ExpiresAt ?task \<le> time_add ?now MaxTTL" unfolding e using ttl
    by (simp add: less_eq_gotime_def)
  ultimately show ?thesis using s(1,4) start by (simp add: runnable_def)
qed

definition "sample_offer = \<lparr>so_Title = ''check'', so_Prompt = ''check the logs'', so_Repository = ''repo'',
  so_DeliveryChannel = [], so_Recurrence = '' Once'', so_StartAt = ''2026-01-06T05:30:00Z'', so_IntervalSeconds = 0,
  so_Weekdays = [], so_DayOfMonth = 0, so_LocalTime = [], so_Timezone = ''UTC'',
  so_CatchUp = [], so_ExpiresIn = ''90d''\<rparr>"

definition "sample_context = \<lparr>tc_TeamID = ''T1'', tc_ChannelID = ''C1'', tc_ThreadTS = [], tc_ActorID = ''U1'',
  tc_SourceRef = ''e1'', tc_Now = tuesday_night\<rparr>"

definition an_hour_later :: "string \<Rightarrow> gotime option" where
  "an_hour_later v = (if v = [] then None else Some (time_add tuesday_night hour))"

theorem offered_task_is_runnable_witness:
  "\<exists>task. TaskFromOffer any_zone an_hour_later sample_offer sample_context = Inr task
     \<and> runnable tuesday_night task"
proof -
  have "is_ok (TaskFromOffer any_zone an_hour_later sample_offer sample_context)" by code_simp
  then obtain task where "TaskFromOffer any_zone an_hour_later sample_offer sample_context = Inr task"
    by (auto simp: is_ok_iff)
  moreover have "tc_Now sample_context = tuesday_night" by (simp add: sample_context_def)
  moreover have "nanos tuesday_night - nanos s < 2 ^ 63" if "an_hour_later v = Some s" for v s
    using that by (auto simp: an_hour_later_def duration_units split: if_splits)
  ultimately show ?thesis
    using offered_task_is_runnable [of any_zone an_hour_later sample_offer sample_context] by metis
qed

end
