(* ===== verification/IncidentStore.thy ===== *)
theory IncidentStore
  imports EpisodeStore Timing
begin

text \<open>
  Alerts and incidents (\<open>internal/store/store.go\<close>): webhook deliveries, the signals they carry, and the
  incidents the signals are correlated to; the incidents and tasks an operator opens; and the columns of
  an incident that the coordinator moves.  The random part of an identity is an argument; a NULL text column is the
  empty string and a NULL instant the zero time.
\<close>

section \<open>Tables\<close>

record SignalRow = Signal +
  sg_IncidentID :: string
  sg_UpdatedAt :: gotime

record WebhookEvent =
  wh_ID :: string
  wh_Route :: string
  wh_DedupeKey :: string
  wh_BodyDigest :: string
  wh_Signals :: "Signal list"
  wh_IncidentIDs :: "string list"
  wh_Applied :: bool
  wh_State :: string
  wh_Attempts :: nat
  wh_NextAttemptAt :: gotime
  wh_LastError :: string
  wh_ReceivedAt :: gotime
  wh_UpdatedAt :: gotime

record Alerts =
  al_webhooks :: "WebhookEvent list"
  al_signals :: "SignalRow list"
  al_incidents :: "Incident list"
  al_revision :: "string option"

datatype AlertError = AlertNotFound | AlertConflict | AlertCapacity | AlertTaskCapacity
  | AlertTaskRateLimit | AlertConstraint | AlertRefused string

definition find_incident :: "string \<Rightarrow> Alerts \<Rightarrow> Incident option" where
  "find_incident key st = find (\<lambda>i. inc_ID i = key) (al_incidents st)"

text \<open>An \<open>UPDATE incidents SET \<dots> WHERE \<dots>\<close>.\<close>

definition map_incidents :: "(Incident \<Rightarrow> bool) \<Rightarrow> (Incident \<Rightarrow> Incident) \<Rightarrow> Alerts \<Rightarrow> Alerts" where
  "map_incidents P f st = st\<lparr>al_incidents := map (\<lambda>i. if P i then f i else i) (al_incidents st)\<rparr>"

text \<open>The same under \<open>sqlutil.ExpectOne\<close>: no row is a conflict.\<close>

definition update_one :: "(Incident \<Rightarrow> bool) \<Rightarrow> (Incident \<Rightarrow> Incident) \<Rightarrow> Alerts \<Rightarrow> AlertError + Alerts" where
  "update_one P f st = (if list_ex P (al_incidents st) then Inr (map_incidents P f st) else Inl AlertConflict)"

definition bumped :: "gotime \<Rightarrow> Incident \<Rightarrow> Incident" where
  "bumped now i = i\<lparr>inc_UpdatedAt := now, inc_CardVersion := inc_CardVersion i + 1\<rparr>"

section \<open>Webhooks\<close>

definition webhook_by_key :: "string \<Rightarrow> string \<Rightarrow> Alerts \<Rightarrow> WebhookEvent option" where
  "webhook_by_key route key st = find (\<lambda>w. wh_Route w = route \<and> wh_DedupeKey w = key) (al_webhooks st)"

definition GetWebhookByKey :: "string \<Rightarrow> string \<Rightarrow> Alerts \<Rightarrow> AlertError + WebhookEvent" where
  "GetWebhookByKey route key st =
     (case webhook_by_key route key st of None \<Rightarrow> Inl AlertNotFound | Some w \<Rightarrow> Inr w)"

definition new_webhook :: "gotime \<Rightarrow> string \<Rightarrow> string \<Rightarrow> string \<Rightarrow> string \<Rightarrow> Signal list \<Rightarrow> WebhookEvent" where
  "new_webhook now fresh route key digest signals =
     \<lparr>wh_ID = fresh, wh_Route = route, wh_DedupeKey = key, wh_BodyDigest = digest, wh_Signals = signals,
      wh_IncidentIDs = [], wh_Applied = False, wh_State = ''pending'', wh_Attempts = 0,
      wh_NextAttemptAt = now, wh_LastError = [], wh_ReceivedAt = now, wh_UpdatedAt = now\<rparr>"

definition AdmitWebhook ::
    "gotime \<Rightarrow> string \<Rightarrow> string \<Rightarrow> string \<Rightarrow> string \<Rightarrow> Signal list \<Rightarrow> Alerts
      \<Rightarrow> AlertError + (WebhookEvent \<times> bool) \<times> Alerts" where
  "AdmitWebhook now fresh route key digest signals st =
     (let taken = list_ex (\<lambda>w. wh_ID w = fresh \<or> wh_Route w = route \<and> wh_DedupeKey w = key) (al_webhooks st);
          st' = (if taken then st
                 else st\<lparr>al_webhooks := al_webhooks st @ [new_webhook now fresh route key digest signals]\<rparr>)
      in and_then (GetWebhookByKey route key st') (\<lambda>w. Inr ((w, \<not> taken), st')))"

definition webhook_waiting :: "WebhookEvent \<Rightarrow> bool" where
  "webhook_waiting w \<longleftrightarrow> wh_State w = ''pending'' \<or> wh_State w = ''retry''"

definition map_webhooks :: "(WebhookEvent \<Rightarrow> bool) \<Rightarrow> (WebhookEvent \<Rightarrow> WebhookEvent) \<Rightarrow> Alerts \<Rightarrow> Alerts" where
  "map_webhooks P f st = st\<lparr>al_webhooks := map (\<lambda>w. if P w then f w else w) (al_webhooks st)\<rparr>"

definition leased_webhook :: "gotime \<Rightarrow> WebhookEvent \<Rightarrow> WebhookEvent" where
  "leased_webhook now w =
     w\<lparr>wh_State := ''processing'', wh_Attempts := wh_Attempts w + 1, wh_UpdatedAt := now\<rparr>"

definition LeaseWebhook ::
    "(gotime \<Rightarrow> int) \<Rightarrow> gotime \<Rightarrow> Alerts \<Rightarrow> AlertError + WebhookEvent \<times> Alerts" where
  "LeaseWebhook J now st =
     (case first_by (\<lambda>a b. wh_ReceivedAt a < wh_ReceivedAt b)
        (filter (\<lambda>w. webhook_waiting w \<and> J (wh_NextAttemptAt w) \<le> J now) (al_webhooks st)) of
        None \<Rightarrow> Inl AlertNotFound
      | Some w \<Rightarrow>
          Inr (w\<lparr>wh_State := ''processing'', wh_Attempts := wh_Attempts w + 1\<rparr>,
            map_webhooks (\<lambda>v. wh_ID v = wh_ID w) (leased_webhook now) st))"

definition held_webhook :: "string \<Rightarrow> WebhookEvent \<Rightarrow> bool" where
  "held_webhook key w \<longleftrightarrow> wh_ID w = key \<and> wh_State w = ''processing''"

definition update_webhook ::
    "string \<Rightarrow> (WebhookEvent \<Rightarrow> WebhookEvent) \<Rightarrow> Alerts \<Rightarrow> AlertError + Alerts" where
  "update_webhook key f st =
     (if list_ex (held_webhook key) (al_webhooks st) then Inr (map_webhooks (held_webhook key) f st)
      else Inl AlertConflict)"

definition FinishWebhook :: "gotime \<Rightarrow> string \<Rightarrow> Alerts \<Rightarrow> AlertError + Alerts" where
  "FinishWebhook now key =
     update_webhook key (\<lambda>w. w\<lparr>wh_State := ''done'', wh_LastError := [], wh_UpdatedAt := now\<rparr>)"

definition RetryWebhook ::
    "gotime \<Rightarrow> string \<Rightarrow> string \<Rightarrow> gotime \<Rightarrow> bool \<Rightarrow> Alerts \<Rightarrow> AlertError + Alerts" where
  "RetryWebhook now key detail next_at terminally =
     update_webhook key (\<lambda>w. w\<lparr>wh_State := (if terminally then ''failed'' else ''retry''),
       wh_LastError := BoundedError detail, wh_NextAttemptAt := next_at, wh_UpdatedAt := now\<rparr>)"

text \<open>The webhook part of \<open>RecoverInterrupted\<close>.\<close>

definition recover_webhooks :: "Alerts \<Rightarrow> Alerts" where
  "recover_webhooks = map_webhooks (\<lambda>w. wh_State w = ''processing'')
     (\<lambda>w. w\<lparr>wh_State := ''retry'', wh_NextAttemptAt := wh_UpdatedAt w\<rparr>)"

section \<open>Correlation\<close>

definition severityRank :: "string \<Rightarrow> nat" where
  "severityRank value =
     (let v = to_lower value in
      if v \<in> {''critical'', ''p0'', ''sev0''} then 5
      else if v \<in> {''high'', ''error'', ''p1'', ''sev1''} then 4
      else if v \<in> {''warning'', ''warn'', ''medium'', ''p2'', ''sev2''} then 3
      else if v \<in> {''low'', ''info'', ''p3'', ''sev3''} then 2
      else 1)"

definition open_incidents :: "Alerts \<Rightarrow> Incident list" where
  "open_incidents st = filter (\<lambda>i. inc_Status i \<noteq> ''closed'') (al_incidents st)"

definition requireOpenIncidentSlot :: "int \<Rightarrow> Alerts \<Rightarrow> AlertError + unit" where
  "requireOpenIncidentSlot maximum st =
     (if maximum < 1 \<or> maximum \<le> int (length (open_incidents st)) then Inl AlertCapacity else Inr ())"

definition enforceOpenIncidentCapacity :: "int \<Rightarrow> Alerts \<Rightarrow> AlertError + unit" where
  "enforceOpenIncidentCapacity maximum st =
     (if maximum < 1 \<or> maximum < int (length (open_incidents st)) then Inl AlertCapacity else Inr ())"

definition same_signal :: "Signal \<Rightarrow> SignalRow \<Rightarrow> bool" where
  "same_signal s r \<longleftrightarrow> sig_Route r = sig_Route s \<and> sig_SourceID r = sig_SourceID s"

definition signal_row :: "gotime \<Rightarrow> string \<Rightarrow> Signal \<Rightarrow> SignalRow" where
  "signal_row now incidentID s =
     Signal.extend (s\<lparr>sig_ResolveAfter := 0\<rparr>) \<lparr>sg_IncidentID = incidentID, sg_UpdatedAt = now\<rparr>"

text \<open>What the upsert keeps of the row that is there: its repository and its correlation key.\<close>

definition upsert_signal :: "gotime \<Rightarrow> string \<Rightarrow> Signal \<Rightarrow> SignalRow list \<Rightarrow> SignalRow list" where
  "upsert_signal now incidentID s rows =
     (if list_ex (same_signal s) rows
      then map (\<lambda>r. if same_signal s r
          then (signal_row now incidentID s)\<lparr>sig_Repository := sig_Repository r,
                 sig_CorrelationKey := sig_CorrelationKey r\<rparr> else r) rows
      else rows @ [signal_row now incidentID s])"

definition signal_changed :: "string \<Rightarrow> Signal \<Rightarrow> SignalRow option \<Rightarrow> bool" where
  "signal_changed incidentID s old =
     (case old of
        None \<Rightarrow> True
      | Some r \<Rightarrow> incidentID \<noteq> sg_IncidentID r \<or> sig_EventID r \<noteq> sig_EventID s \<or> sig_Status r \<noteq> sig_Status s
          \<or> sig_Title r \<noteq> sig_Title s \<or> sig_Severity r \<noteq> sig_Severity s \<or> sig_Summary r \<noteq> sig_Summary s
          \<or> sig_SourceURL r \<noteq> sig_SourceURL s)"

text \<open>An incident whose occurrence is over: a signal that fires again does not belong to it.\<close>

definition ended_occurrence :: "gotime \<Rightarrow> int \<Rightarrow> Incident \<Rightarrow> bool" where
  "ended_occurrence now window i \<longleftrightarrow>
     inc_Status i = ''closed'' \<or>
     inc_Status i = ''resolved'' \<and> inc_UpdatedAt i < time_add now (- window)"

definition correlated :: "gotime \<Rightarrow> int \<Rightarrow> Signal \<Rightarrow> Alerts \<Rightarrow> Incident option" where
  "correlated now window s st =
     first_by (\<lambda>a b. inc_UpdatedAt b < inc_UpdatedAt a)
       (filter (\<lambda>i. inc_Route i = sig_Route s \<and> inc_Repository i = sig_Repository s
          \<and> inc_CorrelationKey i = sig_CorrelationKey s \<and> inc_Status i \<noteq> ''closed''
          \<and> time_add now (- window) \<le> inc_UpdatedAt i) (al_incidents st))"

definition alert_incident :: "gotime \<Rightarrow> string \<Rightarrow> Signal \<Rightarrow> Incident" where
  "alert_incident now fresh s =
     zero_Incident\<lparr>inc_ID := ''inc_'' @ fresh, inc_Route := sig_Route s, inc_Repository := sig_Repository s,
       inc_CorrelationKey := sig_CorrelationKey s, inc_SourceIncidentID := sig_SourceIncidentID s,
       inc_WorkKind := ''incident'', inc_WorkScope := ''room'', inc_Title := sig_Title s,
       inc_Severity := sig_Severity s, inc_Status := ''active'', inc_Workflow := ''provisioning_channel'',
       inc_ChannelState := ''pending'', inc_CoopSessionGeneration := 1, inc_CardVersion := 1, inc_CreatedAt := now,
       inc_UpdatedAt := now, inc_LastFiringAt := now\<rparr>"

definition insert_incident :: "Incident \<Rightarrow> Alerts \<Rightarrow> AlertError + Alerts" where
  "insert_incident i st =
     (if list_ex (\<lambda>j. inc_ID j = inc_ID i) (al_incidents st) then Inl AlertConstraint
      else Inr (st\<lparr>al_incidents := al_incidents st @ [i]\<rparr>))"

text \<open>
  The incident a signal belongs to: the one it has, unless that occurrence is over; for a signal that
  fires, an incident of the same correlation within the window, or a new one.  The flag says that a
  notice for a finished occurrence refreshes nothing.
\<close>

definition assigned_incident ::
    "gotime \<Rightarrow> int \<Rightarrow> int \<Rightarrow> string \<Rightarrow> Signal \<Rightarrow> Alerts \<Rightarrow> AlertError + (string \<times> bool) \<times> Alerts" where
  "assigned_incident now window maximum fresh s st =
     (let existing = (case find (same_signal s) (al_signals st) of None \<Rightarrow> [] | Some r \<Rightarrow> sg_IncidentID r);
          firing = (sig_Status s = ''firing'')
      in
      and_then
        (if existing = [] then Inr ([], False)
         else case find_incident existing st of
             None \<Rightarrow> Inl AlertNotFound
           | Some i \<Rightarrow>
               Inr (if ended_occurrence now window i
                    then if firing then ([], False) else (existing, True)
                    else (existing, False)))
        (\<lambda>(incidentID, suppress).
          if incidentID = [] \<and> firing then
            (case correlated now window s st of
               Some i \<Rightarrow> Inr ((inc_ID i, suppress), st)
             | None \<Rightarrow>
                 and_then (requireOpenIncidentSlot maximum st) (\<lambda>_.
                   and_then (insert_incident (alert_incident now fresh s) st) (\<lambda>st'.
                     Inr ((''inc_'' @ fresh, suppress), st'))))
          else Inr ((incidentID, suppress), st)))"

definition applySignal ::
    "gotime \<Rightarrow> int \<Rightarrow> int \<Rightarrow> string \<Rightarrow> Signal \<Rightarrow> Alerts \<Rightarrow> AlertError + (string \<times> bool) \<times> Alerts" where
  "applySignal now window maximum fresh s st =
     and_then (assigned_incident now window maximum fresh s st) (\<lambda>((incidentID, suppress), st').
       let st'' = st'\<lparr>al_signals := upsert_signal now incidentID s (al_signals st')\<rparr> in
       Inr (if suppress then ([], False)
            else (incidentID, signal_changed incidentID s (find (same_signal s) (al_signals st))), st''))"

section \<open>Refreshing an incident from its signals\<close>

record Refreshed =
  rf_Firing :: int
  rf_Title :: string
  rf_Severity :: string
  rf_LastFiring :: gotime

fun refresh_scan :: "SignalRow list \<Rightarrow> Refreshed \<Rightarrow> Refreshed" where
  "refresh_scan [] acc = acc"
| "refresh_scan (r # rows) acc =
     (let acc = (if severityRank (rf_Severity acc) < severityRank (sig_Severity r)
                 then acc\<lparr>rf_Severity := sig_Severity r\<rparr> else acc) in
      refresh_scan rows
        (if sig_Status r = ''firing''
         then acc\<lparr>rf_Firing := rf_Firing acc + 1, rf_Title := sig_Title r, rf_LastFiring := sig_ReceivedAt r\<rparr>
         else if rf_Title acc = [] then acc\<lparr>rf_Title := sig_Title r\<rparr>
         else acc))"

definition signals_of :: "string \<Rightarrow> Alerts \<Rightarrow> SignalRow list" where
  "signals_of key st = filter (\<lambda>r. sg_IncidentID r = key) (al_signals st)"

definition refreshed_incident :: "gotime \<Rightarrow> int \<Rightarrow> SignalRow list \<Rightarrow> Incident \<Rightarrow> Incident" where
  "refreshed_incident now resolveAfter rows i =
     (let acc = refresh_scan (sort_key (\<lambda>r. nanos (sig_ReceivedAt r)) rows)
            \<lparr>rf_Firing = 0, rf_Title = [], rf_Severity = [], rf_LastFiring = ZeroTime\<rparr>;
          quiet = (rf_Firing acc = 0)
      in
      bumped now (i\<lparr>inc_Title := rf_Title acc, inc_Severity := rf_Severity acc,
        inc_Status := (if \<not> quiet then ''active'' else if resolveAfter = 0 then ''resolved'' else ''monitoring''),
        inc_SignalCount := int (length rows), inc_FiringCount := rf_Firing acc,
        inc_LastFiringAt := (if IsZero (rf_LastFiring acc) then inc_LastFiringAt i else rf_LastFiring acc),
        inc_ResolveDueAt := (if quiet \<and> resolveAfter \<noteq> 0 then time_add now resolveAfter else ZeroTime),
        inc_ResolvedAt := (if quiet \<and> resolveAfter = 0 then now else ZeroTime)\<rparr>))"

definition refreshIncident :: "gotime \<Rightarrow> int \<Rightarrow> string \<Rightarrow> Alerts \<Rightarrow> Alerts" where
  "refreshIncident now resolveAfter key st =
     map_incidents (\<lambda>i. inc_ID i = key) (refreshed_incident now resolveAfter (signals_of key st)) st"

text \<open>
  The loop of \<open>ApplySignals\<close>.  A signal for which there is no room is passed over and the rest are still
  applied; any other error undoes the transaction.  The identities drawn on the way are a list, one for
  each signal.
\<close>

fun apply_signals ::
    "gotime \<Rightarrow> int \<Rightarrow> int \<Rightarrow> int \<Rightarrow> (Signal \<times> string) list \<Rightarrow> string list \<Rightarrow> bool \<Rightarrow> Alerts
      \<Rightarrow> AlertError + (string list \<times> bool) \<times> Alerts" where
  "apply_signals now window resolveAfter maximum [] affected full st = Inr ((affected, full), st)"
| "apply_signals now window resolveAfter maximum ((s, fresh) # rest) affected full st =
     (case applySignal now window maximum fresh s st of
        Inl e \<Rightarrow>
          if e = AlertCapacity then apply_signals now window resolveAfter maximum rest affected True st
          else Inl e
      | Inr ((incidentID, changed), st') \<Rightarrow>
          if incidentID = [] \<or> \<not> changed
          then apply_signals now window resolveAfter maximum rest affected full st'
          else apply_signals now window resolveAfter maximum rest
            (if incidentID \<in> set affected then affected else affected @ [incidentID]) full
            (refreshIncident now resolveAfter incidentID st'))"

definition recorded_webhook :: "gotime \<Rightarrow> string list \<Rightarrow> bool \<Rightarrow> WebhookEvent \<Rightarrow> WebhookEvent" where
  "recorded_webhook now affected applied w =
     w\<lparr>wh_Applied := applied, wh_IncidentIDs := affected, wh_UpdatedAt := now\<rparr>"

text \<open>The transaction, and what the caller reads back after it: the affected incidents.\<close>

definition ApplySignals ::
    "gotime \<Rightarrow> WebhookEvent \<Rightarrow> string list \<Rightarrow> int \<Rightarrow> int \<Rightarrow> int \<Rightarrow> Alerts
      \<Rightarrow> (AlertError option \<times> Incident list) \<times> Alerts" where
  "ApplySignals now event fresh window resolveAfter maximum st =
     (case and_then (apply_signals now window resolveAfter maximum (zip (wh_Signals event) fresh)
              (wh_IncidentIDs event) False st)
            (\<lambda>((affected, full), st').
              if wh_ID event = [] then Inr ((affected, full), st')
              else and_then (update_webhook (wh_ID event) (recorded_webhook now affected (\<not> full)) st')
                (\<lambda>st''. Inr ((affected, full), st''))) of
        Inl e \<Rightarrow> ((Some e, []), st)
      | Inr ((affected, full), st') \<Rightarrow>
          (case those (map (\<lambda>key. find_incident key st') affected) of
             None \<Rightarrow> ((Some AlertNotFound, []), st')
           | Some incidents \<Rightarrow> ((if full then Some AlertCapacity else None, incidents), st')))"

section \<open>The life of an incident\<close>

definition GetIncident :: "string \<Rightarrow> Alerts \<Rightarrow> AlertError + Incident" where
  "GetIncident key st = (case find_incident key st of None \<Rightarrow> Inl AlertNotFound | Some i \<Rightarrow> Inr i)"

definition incident_due :: "gotime \<Rightarrow> Incident \<Rightarrow> bool" where
  "incident_due now i \<longleftrightarrow> inc_Status i = ''monitoring'' \<and> inc_FiringCount i = 0
     \<and> \<not> IsZero (inc_ResolveDueAt i) \<and> inc_ResolveDueAt i \<le> now"

definition ResolveDueIncidents :: "gotime \<Rightarrow> Alerts \<Rightarrow> nat \<times> Alerts" where
  "ResolveDueIncidents now st =
     (length (filter (incident_due now) (al_incidents st)),
      map_incidents (incident_due now)
        (\<lambda>i. bumped now (i\<lparr>inc_Status := ''resolved'', inc_ResolvedAt := now, inc_ResolveDueAt := ZeroTime\<rparr>)) st)"

text \<open>\<open>publishing\<close> says that a publication of the incident is under review, being published or retried.\<close>

definition CloseIncident :: "gotime \<Rightarrow> (string \<Rightarrow> bool) \<Rightarrow> string \<Rightarrow> Alerts \<Rightarrow> AlertError + Alerts" where
  "CloseIncident now publishing key =
     update_one (\<lambda>i. inc_ID i = key \<and> inc_Status i \<noteq> ''closed'' \<and> \<not> publishing key)
       (\<lambda>i. bumped now (i\<lparr>inc_Status := ''closed'', inc_Workflow := ''closed'', inc_ClosedAt := now,
          inc_ActiveTurnID := []\<rparr>))"

definition MarkInitialTurnQueued :: "gotime \<Rightarrow> string \<Rightarrow> Alerts \<Rightarrow> AlertError + Alerts" where
  "MarkInitialTurnQueued now key =
     update_one (\<lambda>i. inc_ID i = key \<and> \<not> inc_InitialTurnQueued i)
       (\<lambda>i. i\<lparr>inc_InitialTurnQueued := True, inc_UpdatedAt := now\<rparr>)"

definition set_incident_error :: "gotime \<Rightarrow> string \<Rightarrow> string \<Rightarrow> string \<Rightarrow> Alerts \<Rightarrow> Alerts" where
  "set_incident_error now key workflow detail =
     map_incidents (\<lambda>i. inc_ID i = key)
       (\<lambda>i. bumped now (i\<lparr>inc_Workflow := workflow, inc_LastError := BoundedError detail\<rparr>))"

definition UpdateCoopState :: "gotime \<Rightarrow> string \<Rightarrow> int \<Rightarrow> int \<Rightarrow> string \<Rightarrow> string \<Rightarrow> Alerts \<Rightarrow> Alerts" where
  "UpdateCoopState now key revision cursor activeTurn workflow =
     map_incidents (\<lambda>i. inc_ID i = key)
       (\<lambda>i. i\<lparr>inc_CardVersion := inc_CardVersion i +
              (if inc_CoopRevision i \<noteq> revision \<or> inc_CoopEventSequence i \<noteq> cursor
                 \<or> inc_ActiveTurnID i \<noteq> activeTurn \<or> inc_Workflow i \<noteq> workflow then 1 else 0),
            inc_CoopRevision := revision, inc_CoopEventSequence := cursor, inc_ActiveTurnID := activeTurn,
            inc_Workflow := workflow, inc_UpdatedAt := now,
            inc_LastError := (if activeTurn \<noteq> [] then [] else inc_LastError i)\<rparr>)"

text \<open>\<open>incidentHasConversation\<close>: the work has somewhere to speak.\<close>

definition incidentThreadScoped :: "Incident \<Rightarrow> bool" where
  "incidentThreadScoped i \<longleftrightarrow> inc_WorkScope i = ''thread'' \<or>
     inc_WorkScope i = [] \<and> inc_WorkKind i = ''engineering_task'' \<and> inc_OriginThreadTS i \<noteq> []"

definition incidentHasConversation :: "Incident \<Rightarrow> bool" where
  "incidentHasConversation i \<longleftrightarrow> inc_RootTS i \<noteq> [] \<or> inc_OriginThreadTS i \<noteq> [] \<and> incidentThreadScoped i"

definition SetCoopSession :: "gotime \<Rightarrow> string \<Rightarrow> string \<Rightarrow> string \<Rightarrow> int \<Rightarrow> Alerts \<Rightarrow> AlertError + Alerts" where
  "SetCoopSession now key session fork revision =
     update_one (\<lambda>i. inc_ID i = key \<and> incidentHasConversation i \<and> inc_CoopSessionID i = [])
       (\<lambda>i. bumped now (i\<lparr>inc_CoopSessionID := session, inc_CoopForkName := fork, inc_CoopRevision := revision,
          inc_Workflow := ''investigating'', inc_LastError := []\<rparr>))"

definition AdvanceSessionGeneration :: "gotime \<Rightarrow> string \<Rightarrow> int \<Rightarrow> Alerts \<Rightarrow> AlertError + Alerts" where
  "AdvanceSessionGeneration now key failed st =
     (if key = [] \<or> failed < 1 then Inl (AlertRefused ''incident session generation identity is incomplete'')
      else update_one (\<lambda>i. inc_ID i = key \<and> inc_CoopSessionID i = [] \<and> inc_CoopSessionGeneration i = failed)
        (\<lambda>i. i\<lparr>inc_CoopSessionGeneration := inc_CoopSessionGeneration i + 1, inc_UpdatedAt := now\<rparr>) st)"

section \<open>The conversation of an incident\<close>

definition bound_channel :: "gotime \<Rightarrow> Incident \<Rightarrow> Incident" where
  "bound_channel now i =
     bumped now (i\<lparr>inc_Workflow := ''provisioning_channel'', inc_ChannelState := ''active'',
       inc_ChannelStateChangedAt := now, inc_ChannelCheckedAt := now, inc_LastError := []\<rparr>)"

definition SetChannel :: "gotime \<Rightarrow> string \<Rightarrow> string \<Rightarrow> string \<Rightarrow> Alerts \<Rightarrow> AlertError + Alerts" where
  "SetChannel now key channel channelName =
     update_one (\<lambda>i. inc_ID i = key \<and> inc_ChannelID i = [])
       (\<lambda>i. bound_channel now (i\<lparr>inc_ChannelID := channel, inc_ChannelName := channelName\<rparr>))"

definition BindThreadWork :: "gotime \<Rightarrow> string \<Rightarrow> Alerts \<Rightarrow> AlertError + Alerts" where
  "BindThreadWork now key =
     update_one (\<lambda>i. inc_ID i = key \<and> inc_WorkScope i = ''thread'' \<and> inc_ChannelID i = []
         \<and> inc_OriginChannelID i \<noteq> [] \<and> inc_OriginThreadTS i \<noteq> [])
       (\<lambda>i. bound_channel now (i\<lparr>inc_ChannelID := inc_OriginChannelID i\<rparr>))"

definition channelStateError :: "string \<Rightarrow> bool \<Rightarrow> string" where
  "channelStateError state threadScoped =
     (if threadScoped then
        (if state = ''archived'' then ''The Slack channel containing this task thread was archived. The Coop session and isolated fork are preserved; unarchive the channel to continue.''
         else if state = ''deleted'' then ''The Slack channel containing this task thread was deleted. The Coop session and isolated fork are preserved, but this thread can no longer continue.''
         else if state = ''unreachable'' then ''The Slack channel containing this task thread is unavailable to Responder. Restore channel access to continue; the Coop session and isolated fork are preserved.''
         else [])
      else if state = ''archived'' then ''Slack incident room was archived. The Coop session and isolated fork are preserved; unarchive the room to continue.''
      else if state = ''deleted'' then ''Slack incident room was deleted. The Coop session and isolated fork are preserved; create or rebind a room before continuing.''
      else if state = ''unreachable'' then ''Slack incident room is unavailable to Responder. The room may be inaccessible or deleted; restore access or rebind a room before continuing.''
      else [])"

text \<open>SQLite's \<open>LIKE 'prefix%'\<close>, which ignores the case of ASCII letters.\<close>

definition like_prefix_ci :: "string \<Rightarrow> string \<Rightarrow> bool" where
  "like_prefix_ci s p \<longleftrightarrow> has_prefix (map lower_byte s) (map lower_byte p)"

definition channel_error :: "string \<Rightarrow> bool" where
  "channel_error e \<longleftrightarrow> like_prefix_ci e ''Slack incident room''
     \<or> like_prefix_ci e ''The Slack channel containing this task thread''"

definition observed_channel :: "string \<Rightarrow> gotime \<Rightarrow> Incident \<Rightarrow> Incident" where
  "observed_channel state observed i =
     (let changed = (inc_ChannelState i \<noteq> state); back = (inc_ChannelState i \<noteq> ''active'');
          lost = (state \<noteq> ''active''); live = (inc_Status i \<noteq> ''closed'') in
      i\<lparr>inc_ChannelStateChangedAt := (if changed then observed else inc_ChannelStateChangedAt i),
        inc_ChannelCheckedAt := observed,
        inc_Workflow :=
          (if \<not> live then inc_Workflow i
           else if lost then ''blocked''
           else if back then
             (if inc_CoopSessionID i = [] \<and> \<not> incidentHasConversation i then ''provisioning_channel''
              else if inc_CoopSessionID i = [] then ''provisioning_session''
              else if inc_ActiveTurnID i \<noteq> [] then ''investigating'' else ''parked'')
           else inc_Workflow i),
        inc_LastError :=
          (if \<not> live then inc_LastError i
           else if lost then channelStateError state (inc_WorkScope i = ''thread'')
           else if back \<and> channel_error (inc_LastError i) then []
           else inc_LastError i),
        inc_CardVersion := inc_CardVersion i + (if changed then 1 else 0),
        inc_UpdatedAt := (if changed then observed else inc_UpdatedAt i),
        inc_ChannelState := state\<rparr>)"

definition channel_observable :: "string \<Rightarrow> string \<Rightarrow> gotime \<Rightarrow> Incident \<Rightarrow> bool" where
  "channel_observable channel state observed i \<longleftrightarrow>
     inc_ChannelID i = channel
     \<and> (IsZero (inc_ChannelStateChangedAt i) \<or> inc_ChannelStateChangedAt i \<le> observed)
     \<and> \<not> (inc_ChannelState i = ''deleted'' \<and> state \<noteq> ''deleted'')"

text \<open>It answers every incident of the channel once one row was written, in order of creation.\<close>

definition SetIncidentChannelState ::
    "gotime \<Rightarrow> string \<Rightarrow> string \<Rightarrow> gotime \<Rightarrow> Alerts \<Rightarrow> AlertError + Incident list \<times> Alerts" where
  "SetIncidentChannelState now channel state observedAt st =
     (if channel = [] then Inl (AlertRefused ''incident channel ID is required'')
      else if state \<notin> {''active'', ''archived'', ''deleted'', ''unreachable''}
      then Inl (AlertRefused (''invalid incident channel state '' @ state))
      else
        (let observed = (if IsZero observedAt then now else observedAt);
             st' = map_incidents (channel_observable channel state observed) (observed_channel state observed) st
         in Inr (if list_ex (channel_observable channel state observed) (al_incidents st)
                 then sort_key (\<lambda>i. nanos (inc_CreatedAt i))
                   (filter (\<lambda>i. inc_ChannelID i = channel) (al_incidents st')) else [], st')))"

section \<open>Work an operator opens\<close>

definition manual_labels :: "string \<Rightarrow> string \<Rightarrow> string \<Rightarrow> string \<Rightarrow> (string \<times> string) list" where
  "manual_labels user channel thread kind =
     [(''slack_user'', user), (''slack_origin_channel'', channel), (''slack_origin_thread'', thread),
      (''work_kind'', kind)]"

text \<open>The tasks whose signals name a member.\<close>

definition member_tasks :: "string \<Rightarrow> (Incident \<Rightarrow> bool) \<Rightarrow> Alerts \<Rightarrow> Incident list" where
  "member_tasks user P st =
     filter (\<lambda>i. inc_WorkKind i = ''engineering_task'' \<and> P i \<and>
       list_ex (\<lambda>r. sg_IncidentID r = inc_ID i \<and> map_of (sig_Labels r) ''slack_user'' = Some user)
         (al_signals st)) (al_incidents st)"

text \<open>The cooldown and the limit for a member who opens tasks; a limit of zero stands for neither.\<close>

definition member_allowed :: "gotime \<Rightarrow> string \<Rightarrow> int \<Rightarrow> int \<Rightarrow> Alerts \<Rightarrow> AlertError + unit" where
  "member_allowed now user limit cooldown st =
     (if limit \<le> 0 then Inr ()
      else if 0 < cooldown \<and> member_tasks user (\<lambda>i. time_add now (- cooldown) < inc_CreatedAt i) st \<noteq> []
      then Inl AlertTaskRateLimit
      else if limit \<le> int (length (member_tasks user (\<lambda>i. inc_Status i \<noteq> ''closed'') st))
      then Inl AlertTaskCapacity
      else Inr ())"

definition manual_incident ::
    "gotime \<Rightarrow> string \<Rightarrow> string \<Rightarrow> string \<Rightarrow> string \<Rightarrow> string \<Rightarrow> string \<Rightarrow> bool \<Rightarrow> PullRequestTarget option \<Rightarrow> Incident" where
  "manual_incident now fresh repository source title channel thread task target =
     zero_Incident\<lparr>inc_ID := ''inc_'' @ fresh, inc_Route := ''manual'', inc_Repository := repository,
       inc_CorrelationKey := ''manual:'' @ source, inc_SourceIncidentID := source,
       inc_WorkKind := (if task then ''engineering_task'' else ''incident''),
       inc_WorkScope := (if task then ''thread'' else ''room''),
       inc_OriginChannelID := channel, inc_OriginThreadTS := thread, inc_TaskPullRequest := target,
       inc_Title := title, inc_Status := ''active'', inc_Workflow := ''provisioning_channel'',
       inc_SignalCount := 1, inc_FiringCount := 1, inc_ChannelState := ''pending'',
       inc_CoopSessionGeneration := 1, inc_CardVersion := 1, inc_CreatedAt := now, inc_UpdatedAt := now,
       inc_LastFiringAt := now\<rparr>"

definition manual_signal :: "gotime \<Rightarrow> string \<Rightarrow> string \<Rightarrow> string \<Rightarrow> string \<Rightarrow> (string \<times> string) list \<Rightarrow> Signal" where
  "manual_signal now repository source title summary labels =
     zero_Signal\<lparr>sig_Route := ''manual'', sig_SourceID := source, sig_SourceIncidentID := source,
       sig_EventID := source, sig_Repository := repository, sig_CorrelationKey := ''manual:'' @ source,
       sig_Status := ''firing'', sig_Title := title, sig_Summary := summary, sig_Labels := labels,
       sig_ReceivedAt := now\<rparr>"

text \<open>
  \<open>createManualWork\<close>: the row is ignored when its identity or its manual source is on file, and the
  incident on file is answered, if it is bound to the same pull request.
\<close>

definition createManualWork ::
    "gotime \<Rightarrow> string \<Rightarrow> string \<Rightarrow> string \<Rightarrow> string \<Rightarrow> string \<Rightarrow> string \<Rightarrow> string \<Rightarrow> string \<Rightarrow> int \<Rightarrow> int \<Rightarrow> int \<Rightarrow> bool
      \<Rightarrow> PullRequestTarget list \<Rightarrow> Alerts \<Rightarrow> AlertError + (Incident \<times> bool) \<times> Alerts" where
  "createManualWork now fresh repository sourceID title summary user channel thread maximum
      memberLimit cooldown task targets st =
     (let source = (if task then ''task:'' @ sourceID else sourceID);
          correlation = ''manual:'' @ source;
          target = (case targets of [] \<Rightarrow> None | t # _ \<Rightarrow> Some t);
          row = manual_incident now fresh repository source title channel thread task target;
          taken = list_ex (\<lambda>i. inc_ID i = inc_ID row \<or> inc_Route i = ''manual'' \<and> inc_CorrelationKey i = correlation)
            (al_incidents st);
          st1 = st\<lparr>al_incidents := al_incidents st @ [row]\<rparr>;
          signal = manual_signal now repository source title summary
            (manual_labels user channel thread (inc_WorkKind row))
      in
      if 1 < length targets \<or> length targets = 1 \<and> (\<not> task \<or> \<not> ValidTarget (hd targets))
      then Inl (AlertRefused ''invalid engineering task pull request binding'')
      else if taken then
        (case find (\<lambda>i. inc_Route i = ''manual'' \<and> inc_CorrelationKey i = correlation) (al_incidents st) of
           None \<Rightarrow> Inl AlertNotFound
         | Some i \<Rightarrow> if inc_TaskPullRequest i \<noteq> target then Inl AlertConflict else Inr ((i, False), st))
      else
        and_then (enforceOpenIncidentCapacity maximum st1) (\<lambda>_.
        and_then (if task then member_allowed now user memberLimit cooldown st1 else Inr ()) (\<lambda>_.
        if list_ex (same_signal signal) (al_signals st1) then Inl AlertConstraint
        else Inr ((row, True), st1\<lparr>al_signals := al_signals st1 @ [signal_row now (inc_ID row) signal]\<rparr>))))"

definition CreateManualIncident where
  "CreateManualIncident now fresh repository source title summary user channel thread maximum targets =
     createManualWork now fresh repository source title summary user channel thread maximum 0 0 False targets"

definition CreateEngineeringTask where
  "CreateEngineeringTask now fresh repository source title summary user channel thread maximum targets =
     createManualWork now fresh repository source title summary user channel thread maximum 0 0 True targets"

definition CreateMemberEngineeringTask where
  "CreateMemberEngineeringTask now fresh repository source title summary user channel thread maximum
      memberLimit cooldown targets =
     createManualWork now fresh repository source title summary user channel thread maximum
       memberLimit cooldown True targets"

definition EngineeringTaskCreator :: "string \<Rightarrow> Alerts \<Rightarrow> AlertError + string" where
  "EngineeringTaskCreator key st =
     (case sort_key (\<lambda>r. nanos (sig_ReceivedAt r))
             (sort_key sig_SourceID (filter (\<lambda>r. sig_Route r = ''manual'') (signals_of key st))) of
        [] \<Rightarrow> Inl AlertNotFound
      | r # _ \<Rightarrow>
          (case map_of (sig_Labels r) ''slack_user'' of
             None \<Rightarrow> Inl AlertNotFound
           | Some user \<Rightarrow> if trim_space user = [] then Inl AlertNotFound else Inr user))"

section \<open>Small columns\<close>

definition BindTaskPullRequest :: "gotime \<Rightarrow> string \<Rightarrow> PullRequestTarget \<Rightarrow> Alerts \<Rightarrow> AlertError + Alerts" where
  "BindTaskPullRequest now key target st =
     (if \<not> ValidTarget target then Inl (AlertRefused ''bind engineering task pull request: invalid target'')
      else
        let P = (\<lambda>i. inc_ID i = key \<and> inc_WorkKind i = ''engineering_task'' \<and> inc_TaskPullRequest i = None) in
        if list_ex P (al_incidents st)
        then Inr (map_incidents P (\<lambda>i. bumped now (i\<lparr>inc_TaskPullRequest := Some target\<rparr>)) st)
        else case find_incident key st of
            None \<Rightarrow> Inl AlertNotFound
          | Some i \<Rightarrow> if inc_TaskPullRequest i = Some target then Inr st else Inl AlertConflict)"

definition ClearChangesMessage :: "gotime \<Rightarrow> string \<Rightarrow> Alerts \<Rightarrow> Alerts" where
  "ClearChangesMessage now key =
     map_incidents (\<lambda>i. inc_ID i = key \<and> inc_ChangesMessageTS i \<noteq> [])
       (\<lambda>i. bumped now (i\<lparr>inc_ChangesMessageTS := []\<rparr>))"

definition SetChangesStat :: "gotime \<Rightarrow> string \<Rightarrow> string \<Rightarrow> Alerts \<Rightarrow> Alerts" where
  "SetChangesStat now key stat =
     map_incidents (\<lambda>i. inc_ID i = key \<and> inc_ChangesStat i \<noteq> stat)
       (\<lambda>i. i\<lparr>inc_ChangesStat := stat, inc_UpdatedAt := now\<rparr>)"

definition EnsureIncidentCardRevision :: "gotime \<Rightarrow> string \<Rightarrow> Alerts \<Rightarrow> AlertError + bool \<times> Alerts" where
  "EnsureIncidentCardRevision now raw st =
     (let revision = trim_space raw in
      if revision = [] \<or> 128 < length revision then Inl (AlertRefused ''incident card revision is invalid'')
      else if al_revision st = Some revision then Inr (False, st)
      else Inr (True,
        (map_incidents (\<lambda>i. inc_RootTS i \<noteq> [] \<and> inc_ChannelState i = ''active'') (bumped now) st)
          \<lparr>al_revision := Some revision\<rparr>))"

section \<open>Queries that drive the coordinator\<close>

definition listIncidentsWhere :: "(Incident \<Rightarrow> bool) \<Rightarrow> int \<Rightarrow> Alerts \<Rightarrow> Incident list" where
  "listIncidentsWhere P limit st =
     take (if limit \<le> 0 \<or> 1000 < limit then 100 else nat limit)
       (sort_key (\<lambda>i. nanos (inc_CreatedAt i)) (filter P (al_incidents st)))"

definition ListChannelWork where
  "ListChannelWork = listIncidentsWhere (\<lambda>i. inc_ChannelID i = [] \<and> inc_Workflow i = ''provisioning_channel'')"

definition ListRootWork where
  "ListRootWork = listIncidentsWhere (\<lambda>i. inc_ChannelID i \<noteq> [] \<and> inc_ChannelState i = ''active''
     \<and> inc_RootTS i = [] \<and> inc_Workflow i = ''provisioning_channel'')"

definition wants_session :: "Incident \<Rightarrow> bool" where
  "wants_session i \<longleftrightarrow> inc_ChannelState i = ''active'' \<and> inc_CoopSessionID i = [] \<and> incidentHasConversation i
     \<and> (inc_Workflow i \<in> {''provisioning_session'', ''holding''} \<or>
        inc_Workflow i = ''provisioning_channel'' \<and> inc_ChannelID i \<noteq> [] \<and> incidentThreadScoped i)"

definition ListSessionWork where "ListSessionWork = listIncidentsWhere wants_session"

definition ListBoundIncidents where
  "ListBoundIncidents = listIncidentsWhere (\<lambda>i. inc_CoopSessionID i \<noteq> [] \<and> inc_Status i \<noteq> ''closed'')"

definition ListDirtyCards where
  "ListDirtyCards = listIncidentsWhere (\<lambda>i. inc_RootTS i \<noteq> [] \<and> inc_ChannelState i = ''active''
     \<and> inc_CardRenderedVersion i < inc_CardVersion i)"

definition ListChannelReconciliationWork :: "int \<Rightarrow> Alerts \<Rightarrow> Incident list" where
  "ListChannelReconciliationWork limit st =
     take (if limit \<le> 0 \<or> 1000 < limit then 100 else nat limit)
       (sort_key (\<lambda>i. nanos (if IsZero (inc_ChannelCheckedAt i) then inc_CreatedAt i else inc_ChannelCheckedAt i))
         (sort_key (\<lambda>i. nanos (inc_CreatedAt i))
           (filter (\<lambda>i. inc_ChannelID i \<noteq> [] \<and> inc_Status i \<noteq> ''closed''
              \<and> inc_ChannelState i \<in> {''active'', ''archived'', ''unreachable''}) (al_incidents st))))"

definition CountOpenSessions :: "Alerts \<Rightarrow> nat" where
  "CountOpenSessions st =
     length (filter (\<lambda>i. inc_CoopSessionID i \<noteq> [] \<and> inc_Workflow i \<noteq> ''closed'') (al_incidents st))"

section \<open>The webhook worker\<close>

text \<open>
  What became of the turns queued for the affected incidents, which are rows of the agent-run store: they
  were queued, queueing failed, or the alert is too large for a turn of the named incident.
\<close>

datatype TurnsQueued = TurnsQueued | TurnsFailed string | TurnTooLarge string string

record WebhookConfig =
  wc_Route :: "string \<Rightarrow> (int \<times> int) option"
  wc_MaxOpenIncidents :: int
  wc_MaxWebhookAttempts :: int
  wc_QueueDelay :: "nat \<Rightarrow> gotime"

definition settle_webhook ::
    "WebhookConfig \<Rightarrow> gotime \<Rightarrow> WebhookEvent \<Rightarrow> AlertError option \<Rightarrow> TurnsQueued \<Rightarrow> string \<Rightarrow> Alerts \<Rightarrow> AlertError + Alerts" where
  "settle_webhook cfg now event applyErr turns detail st =
     (let attempts = wh_Attempts event; delay = wc_QueueDelay cfg attempts in
      case turns of
        TurnsFailed why \<Rightarrow> RetryWebhook now (wh_ID event) why delay False st
      | TurnTooLarge incidentID why \<Rightarrow>
          RetryWebhook now (wh_ID event) why now True (set_incident_error now incidentID ''blocked'' why st)
      | TurnsQueued \<Rightarrow>
          if applyErr \<noteq> None
          then RetryWebhook now (wh_ID event) detail delay
            (Exhausted (int attempts) (wc_MaxWebhookAttempts cfg)) st
          else FinishWebhook now (wh_ID event) st)"

definition processWebhook ::
    "WebhookConfig \<Rightarrow> (gotime \<Rightarrow> int) \<Rightarrow> gotime \<Rightarrow> string list \<Rightarrow> (Incident list \<Rightarrow> TurnsQueued) \<Rightarrow> string \<Rightarrow> Alerts
      \<Rightarrow> AlertError + Alerts" where
  "processWebhook cfg J now fresh queue detail st =
     and_then (LeaseWebhook J now st) (\<lambda>(event, st1).
       case wc_Route cfg (wh_Route event) of
         None \<Rightarrow> RetryWebhook now (wh_ID event) ''webhook route was removed from configuration'' now True st1
       | Some (window, resolveAfter) \<Rightarrow>
           if wh_Applied event then
             (case those (map (\<lambda>key. find_incident key st1) (wh_IncidentIDs event)) of
                None \<Rightarrow> RetryWebhook now (wh_ID event) detail (wc_QueueDelay cfg (wh_Attempts event)) False st1
              | Some incidents \<Rightarrow> settle_webhook cfg now event None (queue incidents) detail st1)
           else
             (case ApplySignals now event fresh window resolveAfter (wc_MaxOpenIncidents cfg) st1 of
                ((err, incidents), st2) \<Rightarrow>
                  if err \<noteq> None \<and> incidents = []
                  then RetryWebhook now (wh_ID event) detail (wc_QueueDelay cfg (wh_Attempts event))
                    (Exhausted (int (wh_Attempts event)) (wc_MaxWebhookAttempts cfg)) st2
                  else settle_webhook cfg now event err (queue incidents) detail st2))"

end
