(* ===== verification/IncidentSafety.thy ===== *)
theory IncidentSafety
  imports IncidentStore
begin

text \<open>
  What the transactions on alerts and incidents keep, in whatever order they come: an incident in progress
  mirrors its alerts, the number of open incidents is bounded, and closing is final.  And what they do not:
  a retried webhook undoes a newer one, and a late poll makes a closed incident hold its session slot.
\<close>

section \<open>The tables as a machine\<close>

datatype AlertOp =
    OpAdmitHook gotime string string string string "Signal list"
  | OpLeaseHook gotime
  | OpFinishHook gotime string
  | OpRetryHook gotime string string gotime bool
  | OpRecoverHooks
  | OpApply gotime WebhookEvent "string list" int int
  | OpManual gotime string string string string string string string string int int bool "PullRequestTarget list"
  | OpResolveDue gotime
  | OpCloseIncident gotime "string list" string
  | OpInitialTurn gotime string
  | OpFault gotime string string string
  | OpCoop gotime string int int string string
  | OpSession gotime string string string int
  | OpGeneration gotime string int
  | OpChannel gotime string string string
  | OpThread gotime string
  | OpObserve gotime string string gotime
  | OpTarget gotime string PullRequestTarget
  | OpClearDiff gotime string
  | OpStat gotime string string
  | OpRevision gotime string

definition state_of :: "'e + 'a \<times> 's \<Rightarrow> 'e + 's" where
  "state_of r = and_then r (\<lambda>(x, st). Inr st)"

lemma state_of_Inr: "state_of r = Inr st \<longleftrightarrow> (\<exists>x. r = Inr (x, st))"
  by (cases r) (auto simp: state_of_def)

text \<open>\<open>M\<close> is the configured limit of open incidents.\<close>

fun alert_step :: "(gotime \<Rightarrow> int) \<Rightarrow> int \<Rightarrow> Alerts \<Rightarrow> AlertOp \<Rightarrow> AlertError + Alerts" where
  "alert_step J M st (OpAdmitHook now fresh route key digest signals) =
     state_of (AdmitWebhook now fresh route key digest signals st)"
| "alert_step J M st (OpLeaseHook now) = state_of (LeaseWebhook J now st)"
| "alert_step J M st (OpFinishHook now key) = FinishWebhook now key st"
| "alert_step J M st (OpRetryHook now key detail at terminally) = RetryWebhook now key detail at terminally st"
| "alert_step J M st OpRecoverHooks = Inr (recover_webhooks st)"
| "alert_step J M st (OpApply now event fresh window resolveAfter) =
     Inr (snd (ApplySignals now event fresh window resolveAfter M st))"
| "alert_step J M st (OpManual now fresh repository source title summary user channel thread memberLimit
      cooldown task targets) =
     state_of (createManualWork now fresh repository source title summary user channel thread M
       memberLimit cooldown task targets st)"
| "alert_step J M st (OpResolveDue now) = Inr (snd (ResolveDueIncidents now st))"
| "alert_step J M st (OpCloseIncident now publishing key) = CloseIncident now (\<lambda>k. k \<in> set publishing) key st"
| "alert_step J M st (OpInitialTurn now key) = MarkInitialTurnQueued now key st"
| "alert_step J M st (OpFault now key workflow detail) = Inr (set_incident_error now key workflow detail st)"
| "alert_step J M st (OpCoop now key revision cursor turn workflow) =
     Inr (UpdateCoopState now key revision cursor turn workflow st)"
| "alert_step J M st (OpSession now key session fork revision) = SetCoopSession now key session fork revision st"
| "alert_step J M st (OpGeneration now key failed) = AdvanceSessionGeneration now key failed st"
| "alert_step J M st (OpChannel now key channel channelName) = SetChannel now key channel channelName st"
| "alert_step J M st (OpThread now key) = BindThreadWork now key st"
| "alert_step J M st (OpObserve now channel state at) = state_of (SetIncidentChannelState now channel state at st)"
| "alert_step J M st (OpTarget now key target) = BindTaskPullRequest now key target st"
| "alert_step J M st (OpClearDiff now key) = Inr (ClearChangesMessage now key st)"
| "alert_step J M st (OpStat now key stat) = Inr (SetChangesStat now key stat st)"
| "alert_step J M st (OpRevision now revision) = state_of (EnsureIncidentCardRevision now revision st)"

definition no_alerts :: Alerts where
  "no_alerts = \<lparr>al_webhooks = [], al_signals = [], al_incidents = [], al_revision = None\<rparr>"

section \<open>What an update leaves alone\<close>

definition same_core :: "Incident \<Rightarrow> Incident \<Rightarrow> bool" where
  "same_core i j \<longleftrightarrow> inc_ID j = inc_ID i \<and> inc_Status j = inc_Status i
     \<and> inc_SignalCount j = inc_SignalCount i \<and> inc_FiringCount j = inc_FiringCount i
     \<and> inc_ClosedAt j = inc_ClosedAt i"

lemma same_core_refl [simp]: "same_core i i"
  by (simp add: same_core_def)

definition core_kept :: "Alerts \<Rightarrow> Alerts \<Rightarrow> bool" where
  "core_kept st st' \<longleftrightarrow> al_signals st' = al_signals st \<and> list_all2 same_core (al_incidents st) (al_incidents st')"

lemma core_kept_refl [simp]: "core_kept st st"
  by (simp add: core_kept_def list_all2_same)

lemma core_kept_map:
  assumes "\<And>i. P i \<Longrightarrow> same_core i (f i)"
  shows "core_kept st (map_incidents P f st)"
  using assms by (auto simp: core_kept_def map_incidents_def list.rel_map(2) list_all2_same)

lemma core_kept_update:
  assumes "update_one P f st = Inr st'" and "\<And>i. P i \<Longrightarrow> same_core i (f i)"
  shows "core_kept st st'"
  using assms by (auto simp: update_one_def intro: core_kept_map split: if_splits)

lemma core_kept_webhooks [simp]: "core_kept st (st\<lparr>al_webhooks := ws\<rparr>)" "core_kept st (map_webhooks P f st)"
  by (simp_all add: core_kept_def map_webhooks_def list_all2_same)

lemma same_core_bumped [simp]: "same_core i (bumped now j) \<longleftrightarrow> same_core i j"
  by (simp add: same_core_def bumped_def)

lemma update_webhook_core: "update_webhook key f st = Inr st' \<Longrightarrow> core_kept st st'"
  by (auto simp: update_webhook_def split: if_splits)

text \<open>The operations that touch neither the standing of an incident nor its alerts.\<close>

fun moves_incidents :: "AlertOp \<Rightarrow> bool" where
  "moves_incidents (OpApply now event fresh window resolveAfter) = True"
| "moves_incidents (OpManual now fresh repository source title summary user channel thread l c t p) = True"
| "moves_incidents (OpResolveDue now) = True"
| "moves_incidents (OpCloseIncident now publishing key) = True"
| "moves_incidents op = False"

lemma step_core:
  assumes "alert_step J M st op = Inr st'" and "\<not> moves_incidents op"
  shows "core_kept st st'"
proof (cases op)
  case (OpObserve now channel state at)
  have "same_core i (observed_channel state o' i)" for i o'
    by (simp add: observed_channel_def Let_def same_core_def)
  with OpObserve assms show ?thesis
    by (auto simp: state_of_Inr SetIncidentChannelState_def Let_def intro!: core_kept_map split: if_splits)
next
  case (OpTarget now key target)
  with assms show ?thesis
    by (auto simp: BindTaskPullRequest_def Let_def same_core_def bumped_def intro!: core_kept_map
        split: if_splits option.splits)
next
  case (OpRevision now revision)
  have "core_kept st (map_incidents P (bumped now) st)" for P by (rule core_kept_map) simp
  with OpRevision assms show ?thesis
    by (auto simp: state_of_Inr EnsureIncidentCardRevision_def Let_def core_kept_def list_all2_same split: if_splits)
next
  case (OpGeneration now key failed)
  with assms show ?thesis
    by (auto simp: AdvanceSessionGeneration_def same_core_def dest: core_kept_update split: if_splits
        elim!: core_kept_update)
qed (use assms in \<open>auto simp: state_of_Inr AdmitWebhook_def LeaseWebhook_def FinishWebhook_def RetryWebhook_def
  recover_webhooks_def MarkInitialTurnQueued_def set_incident_error_def UpdateCoopState_def SetCoopSession_def
  SetChannel_def BindThreadWork_def ClearChangesMessage_def SetChangesStat_def bound_channel_def Let_def
  and_then_Inr same_core_def bumped_def
  intro: core_kept_map update_webhook_core split: option.splits if_splits elim!: core_kept_update\<close>)

section \<open>An incident mirrors its alerts\<close>

definition firing_of :: "string \<Rightarrow> Alerts \<Rightarrow> SignalRow list" where
  "firing_of key st = filter (\<lambda>r. sig_Status r = ''firing'') (signals_of key st)"

definition in_progress :: "Incident \<Rightarrow> bool" where
  "in_progress i \<longleftrightarrow> inc_Status i = ''active'' \<or> inc_Status i = ''monitoring''"

definition mirrors :: "Alerts \<Rightarrow> Incident \<Rightarrow> bool" where
  "mirrors st i \<longleftrightarrow> (in_progress i \<longrightarrow>
     inc_SignalCount i = int (length (signals_of (inc_ID i) st)) \<and>
     inc_FiringCount i = int (length (firing_of (inc_ID i) st)) \<and>
     (inc_Status i = ''active'' \<longleftrightarrow> firing_of (inc_ID i) st \<noteq> []))"

definition sig_key :: "SignalRow \<Rightarrow> string \<times> string" where
  "sig_key r = (sig_Route r, sig_SourceID r)"

text \<open>Identities are unique and not empty, a signal names an incident on file, and nothing else is assumed.\<close>

definition alert_rows_ok :: "Alerts \<Rightarrow> bool" where
  "alert_rows_ok st \<longleftrightarrow> distinct (map inc_ID (al_incidents st)) \<and> distinct (map sig_key (al_signals st))
     \<and> [] \<notin> inc_ID ` set (al_incidents st)
     \<and> (\<forall>r \<in> set (al_signals st). sg_IncidentID r \<noteq> [] \<longrightarrow> sg_IncidentID r \<in> inc_ID ` set (al_incidents st))"

definition room :: "int \<Rightarrow> Alerts \<Rightarrow> bool" where
  "room M st \<longleftrightarrow> int (length (open_incidents st)) \<le> max 0 M"

definition alerts_ok :: "int \<Rightarrow> Alerts \<Rightarrow> bool" where
  "alerts_ok M st \<longleftrightarrow> alert_rows_ok st \<and> room M st \<and> (\<forall>i \<in> set (al_incidents st). mirrors st i)"

lemma same_core_follows:
  "same_core i j \<Longrightarrow> al_signals st' = al_signals st \<Longrightarrow> mirrors st' j \<longleftrightarrow> mirrors st i"
  by (auto simp: same_core_def mirrors_def in_progress_def signals_of_def firing_of_def)

lemma core_kept_ids: "core_kept st st' \<Longrightarrow> map inc_ID (al_incidents st') = map inc_ID (al_incidents st)"
proof -
  have "list_all2 same_core xs ys \<Longrightarrow> map inc_ID ys = map inc_ID xs" for xs ys
    by (induction rule: list_all2_induct) (auto simp: same_core_def)
  then show "core_kept st st' \<Longrightarrow> ?thesis" by (auto simp: core_kept_def)
qed

lemma core_kept_open: "core_kept st st' \<Longrightarrow> length (open_incidents st') = length (open_incidents st)"
proof -
  have "list_all2 same_core xs ys \<Longrightarrow>
      length (filter (\<lambda>i. inc_Status i \<noteq> ''closed'') ys) = length (filter (\<lambda>i. inc_Status i \<noteq> ''closed'') xs)" for xs ys
    by (induction rule: list_all2_induct) (auto simp: same_core_def)
  then show "core_kept st st' \<Longrightarrow> ?thesis" by (simp add: core_kept_def open_incidents_def)
qed

lemma rows_ok_cong:
  "map inc_ID (al_incidents st') = map inc_ID (al_incidents st) \<Longrightarrow> al_signals st' = al_signals st \<Longrightarrow>
    alert_rows_ok st' \<longleftrightarrow> alert_rows_ok st"
  by (metis alert_rows_ok_def list.set_map)

lemma core_kept_ok:
  assumes "core_kept st st'" "alerts_ok M st"
  shows "alerts_ok M st'"
proof -
  have sig: "al_signals st' = al_signals st" using assms(1) by (simp add: core_kept_def)
  have "mirrors st' j" if "j \<in> set (al_incidents st')" for j
  proof -
    have all: "list_all2 same_core (al_incidents st) (al_incidents st')" using assms(1) by (simp add: core_kept_def)
    from that obtain k where k: "k < length (al_incidents st')" "j = al_incidents st' ! k"
      by (auto simp: in_set_conv_nth)
    have "same_core (al_incidents st ! k) j" using list_all2_nthD2 [OF all k(1)] k(2) by simp
    moreover have "al_incidents st ! k \<in> set (al_incidents st)"
      using k(1) list_all2_lengthD [OF all] by simp
    ultimately obtain i where "i \<in> set (al_incidents st)" "same_core i j" by blast
    then show ?thesis using assms(2) same_core_follows [OF _ sig] by (auto simp: alerts_ok_def)
  qed
  then show ?thesis
    using assms(2) core_kept_open [OF assms(1)] rows_ok_cong [OF core_kept_ids [OF assms(1)] sig]
    by (simp add: alerts_ok_def room_def)
qed

lemma map_incidents_simps [simp]:
  "al_signals (map_incidents P f st) = al_signals st"
  "al_incidents (map_incidents P f st) = map (\<lambda>i. if P i then f i else i) (al_incidents st)"
  by (simp_all add: map_incidents_def)

lemma signals_of_cong: "al_signals st' = al_signals st \<Longrightarrow> signals_of key st' = signals_of key st"
  by (simp add: signals_of_def)

lemma firing_of_cong: "al_signals st' = al_signals st \<Longrightarrow> firing_of key st' = firing_of key st"
  by (simp add: firing_of_def signals_of_def)

lemma refresh_scan_firing:
  "rf_Firing (refresh_scan rows acc) = rf_Firing acc + int (length (filter (\<lambda>r. sig_Status r = ''firing'') rows))"
  by (induction rows acc rule: refresh_scan.induct) (auto simp: Let_def)

lemma length_filter_sort_key: "length (filter P (sort_key k xs)) = length (filter P xs)"
  by (simp add: filter_sort)

lemma refreshed_incident_counts:
  "inc_ID (refreshed_incident now q rows i) = inc_ID i"
  "inc_SignalCount (refreshed_incident now q rows i) = int (length rows)"
  "inc_FiringCount (refreshed_incident now q rows i) = int (length (filter (\<lambda>r. sig_Status r = ''firing'') rows))"
  "inc_Status (refreshed_incident now q rows i) =
     (if filter (\<lambda>r. sig_Status r = ''firing'') rows \<noteq> [] then ''active''
      else if q = 0 then ''resolved'' else ''monitoring'')"
  by (simp_all add: refreshed_incident_def Let_def bumped_def refresh_scan_firing length_filter_sort_key)

lemma refreshed_follows:
  "inc_ID i = key \<Longrightarrow> al_signals st' = al_signals st \<Longrightarrow>
    mirrors st' (refreshed_incident now q (signals_of key st) i)"
  by (auto simp: mirrors_def in_progress_def refreshed_incident_counts firing_of_def signals_of_def)

lemma refresh_ok:
  assumes "alert_rows_ok st" and "room M st"
    and "\<And>i. i \<in> set (al_incidents st) \<Longrightarrow> inc_ID i \<noteq> key \<Longrightarrow> mirrors st i"
    and "\<And>i. i \<in> set (al_incidents st) \<Longrightarrow> inc_ID i = key \<Longrightarrow> inc_Status i \<noteq> ''closed''"
  shows "alerts_ok M (refreshIncident now q key st)"
proof -
  let ?f = "\<lambda>i. if inc_ID i = key then refreshed_incident now q (signals_of key st) i else i"
  have ids: "map inc_ID (map ?f (al_incidents st)) = map inc_ID (al_incidents st)"
    by (auto simp: refreshed_incident_counts)
  have "length (filter (\<lambda>i. inc_Status i \<noteq> ''closed'') (map ?f xs)) = length (filter (\<lambda>i. inc_Status i \<noteq> ''closed'') xs)"
    if "set xs \<subseteq> set (al_incidents st)" for xs
    using that assms(4) by (induction xs) (auto simp: refreshed_incident_counts)
  then have "room M (refreshIncident now q key st)"
    using assms(2) by (simp add: room_def open_incidents_def refreshIncident_def)
  moreover have "alert_rows_ok (refreshIncident now q key st)"
    using assms(1) ids rows_ok_cong [of "refreshIncident now q key st" st] by (simp add: refreshIncident_def)
  moreover have "mirrors (refreshIncident now q key st) j"
    if j: "j \<in> set (al_incidents (refreshIncident now q key st))" for j
  proof -
    obtain i where i: "i \<in> set (al_incidents st)" "j = ?f i"
      using j by (auto simp: refreshIncident_def)
    show ?thesis
    proof (cases "inc_ID i = key")
      case True
      then show ?thesis using i by (simp add: refreshIncident_def refreshed_follows)
    next
      case False
      then show ?thesis using i assms(3) [OF i(1)]
        by (auto simp: refreshIncident_def mirrors_def signals_of_def firing_of_def)
    qed
  qed
  ultimately show ?thesis by (simp add: alerts_ok_def)
qed

section \<open>Recording a signal\<close>

definition key_of :: "Signal \<Rightarrow> string \<times> string" where
  "key_of s = (sig_Route s, sig_SourceID s)"

lemma same_signal_key: "same_signal s r \<longleftrightarrow> sig_key r = key_of s"
  by (auto simp: same_signal_def sig_key_def key_of_def)

lemma signal_row_simps [simp]:
  "sig_key (signal_row now x s) = key_of s" "sg_IncidentID (signal_row now x s) = x"
  "sig_Status (signal_row now x s) = sig_Status s"
  by (simp_all add: signal_row_def Signal.defs sig_key_def key_of_def)

text \<open>A count over the rows after an upsert: the other rows, and the new one.\<close>

lemma count_upsert:
  assumes "distinct (map sig_key rows)"
    and "\<And>r. sg_IncidentID r = x \<Longrightarrow> sig_Status r = sig_Status s \<Longrightarrow> P r = b"
  shows "length (filter P (upsert_signal now x s rows)) =
    length (filter P (filter (\<lambda>r. \<not> same_signal s r) rows)) + (if b then 1 else 0)"
proof -
  let ?u = "\<lambda>r. (signal_row now x s)\<lparr>sig_Repository := sig_Repository r, sig_CorrelationKey := sig_CorrelationKey r\<rparr>"
  have u: "P (?u r) = b" for r by (rule assms(2)) (simp_all add: signal_row_def Signal.defs)
  have new: "P (signal_row now x s) = b" by (rule assms(2)) simp_all
  have none: "filter P (map (\<lambda>r. if same_signal s r then ?u r else r) xs)
      = filter P (filter (\<lambda>r. \<not> same_signal s r) xs)" if "key_of s \<notin> sig_key ` set xs" for xs
    using that by (induction xs) (auto simp: same_signal_key)
  have there: "length (filter P (map (\<lambda>r. if same_signal s r then ?u r else r) xs)) =
      length (filter P (filter (\<lambda>r. \<not> same_signal s r) xs)) + (if b then 1 else 0)"
    if "distinct (map sig_key xs)" "list_ex (same_signal s) xs" for xs
    using that
  proof (induction xs)
    case (Cons r xs)
    show ?case
    proof (cases "same_signal s r")
      case True
      with Cons.prems have "key_of s \<notin> sig_key ` set xs" by (simp add: same_signal_key)
      from none [OF this] True u [of r] show ?thesis by (cases b) simp_all
    next
      case False
      with Cons show ?thesis by simp
    qed
  qed simp
  have away: "filter (\<lambda>r. \<not> same_signal s r) xs = xs" if "\<not> list_ex (same_signal s) xs" for xs
    using that by (induction xs) auto
  show ?thesis
  proof (cases "list_ex (same_signal s) rows")
    case True
    then show ?thesis using there [OF assms(1) True] by (simp add: upsert_signal_def)
  next
    case False
    then show ?thesis by (simp add: upsert_signal_def away new del: filter_filter)
  qed
qed

lemma count_without:
  assumes "distinct (map sig_key rows)"
  shows "length (filter P rows) = length (filter P (filter (\<lambda>r. \<not> same_signal s r) rows)) +
    (case find (same_signal s) rows of None \<Rightarrow> 0 | Some r \<Rightarrow> if P r then 1 else 0)"
  using assms
proof (induction rows)
  case (Cons r rows)
  show ?case
  proof (cases "same_signal s r")
    case True
    with Cons.prems have "key_of s \<notin> sig_key ` set rows" by (simp add: same_signal_key)
    then have "\<forall>x \<in> set rows. \<not> same_signal s x" by (auto simp: same_signal_key image_iff)
    then have "filter (\<lambda>r. \<not> same_signal s r) rows = rows" by (induction rows) auto
    with True show ?thesis by simp
  next
    case False
    with Cons show ?thesis by (auto split: option.splits)
  qed
qed simp

lemma upsert_keys:
  assumes "distinct (map sig_key rows)"
  shows "distinct (map sig_key (upsert_signal now x s rows))"
proof (cases "list_ex (same_signal s) rows")
  case True
  have "map sig_key (upsert_signal now x s rows) = map sig_key rows"
    using True by (auto simp: upsert_signal_def same_signal_key signal_row_def Signal.defs sig_key_def key_of_def)
  then show ?thesis using assms by simp
next
  case False
  then show ?thesis using assms by (auto simp: upsert_signal_def list_ex_iff same_signal_key)
qed

lemma upsert_incidents:
  "r \<in> set (upsert_signal now x s rows) \<Longrightarrow> sg_IncidentID r = x \<or> r \<in> set rows"
  by (auto simp: upsert_signal_def signal_row_def Signal.defs split: if_splits)

section \<open>Applying a signal\<close>

definition current_incident :: "Signal \<Rightarrow> Alerts \<Rightarrow> string" where
  "current_incident s st =
     (case find (same_signal s) (al_signals st) of None \<Rightarrow> [] | Some r \<Rightarrow> sg_IncidentID r)"

definition over :: "string \<Rightarrow> Alerts \<Rightarrow> bool" where
  "over key st \<longleftrightarrow> key = [] \<or> (\<exists>i. find_incident key st = Some i \<and> \<not> in_progress i)"

lemma ended_not_in_progress: "ended_occurrence now window i \<Longrightarrow> \<not> in_progress i"
  by (auto simp: ended_occurrence_def in_progress_def)

text \<open>
  The three ways in which a signal gets its incident: it stays where it was; it moves to an open one, the
  occurrence it was on being over; it opens one.
\<close>

lemma assigned_cases:
  assumes "assigned_incident now window M fresh s st = Inr ((x, suppress), st')"
  obtains (stays) "st' = st" "x = current_incident s st"
      "suppress \<Longrightarrow> over x st" "\<not> suppress \<Longrightarrow> x \<noteq> [] \<Longrightarrow> \<exists>i. find_incident x st = Some i \<and> inc_Status i \<noteq> ''closed''"
    | (moves) i where "st' = st" "i \<in> set (al_incidents st)" "x = inc_ID i" "inc_Status i \<noteq> ''closed''" "\<not> suppress"
      "over (current_incident s st) st"
    | (opens) "x = ''inc_'' @ fresh" "st' = st\<lparr>al_incidents := al_incidents st @ [alert_incident now fresh s]\<rparr>"
      "x \<notin> inc_ID ` set (al_incidents st)" "\<not> suppress" "over (current_incident s st) st"
      "int (length (open_incidents st)) < M"
proof -
  let ?e = "current_incident s st" and ?firing = "sig_Status s = ''firing''"
  obtain y b where y: "(if ?e = [] then Inr ([], False)
       else case find_incident ?e st of
           None \<Rightarrow> Inl AlertNotFound
         | Some i \<Rightarrow>
             Inr (if ended_occurrence now window i
                  then if ?firing then ([], False) else (?e, True) else (?e, False))) = Inr (y, b)"
    and rest: "(if y = [] \<and> ?firing then
            (case correlated now window s st of
               Some i \<Rightarrow> Inr ((inc_ID i, b), st)
             | None \<Rightarrow>
                 and_then (requireOpenIncidentSlot M st) (\<lambda>_.
                   and_then (insert_incident (alert_incident now fresh s) st) (\<lambda>st'.
                     Inr ((''inc_'' @ fresh, b), st'))))
          else Inr ((y, b), st)) = Inr ((x, suppress), st')"
    using assms unfolding assigned_incident_def Let_def current_incident_def [symmetric] and_then_Inr by auto
  show thesis
  proof (cases "y = [] \<and> ?firing")
    case True
    then have over: "over ?e st" and nb: "\<not> b"
      using y ended_not_in_progress by (auto simp: over_def split: if_splits option.splits)
    show thesis
    proof (cases "correlated now window s st")
      case None
      then show thesis using rest True over nb
        by (intro opens) (auto simp: and_then_Inr requireOpenIncidentSlot_def insert_incident_def list_ex_iff
            alert_incident_def image_iff split: if_splits)
    next
      case (Some i)
      then have "i \<in> set (al_incidents st)" "inc_Status i \<noteq> ''closed''"
        by (auto simp: correlated_def dest: first_by_in)
      with Some rest True over nb show thesis by (intro moves) auto
    qed
  next
    case False
    then have "st' = st" "x = y" "suppress = b" using rest by auto
    then show thesis
      using y False ended_not_in_progress
      by (intro stays) (auto simp: over_def ended_occurrence_def split: if_splits option.splits)
  qed
qed

lemma find_incident_in:
  "find_incident key st = Some i \<Longrightarrow> i \<in> set (al_incidents st) \<and> inc_ID i = key"
  by (auto simp: find_incident_def find_Some_iff)

lemma find_incident_unique:
  assumes "distinct (map inc_ID (al_incidents st))" "i \<in> set (al_incidents st)"
  shows "find_incident (inc_ID i) st = Some i"
proof -
  have "distinct (map inc_ID xs) \<Longrightarrow> i \<in> set xs \<Longrightarrow> find (\<lambda>j. inc_ID j = inc_ID i) xs = Some i" for xs
    by (induction xs) (auto simp: rev_image_eqI)
  with assms show ?thesis by (simp add: find_incident_def)
qed

lemma over_not_in_progress:
  assumes "alert_rows_ok st" "over (inc_ID i) st" "i \<in> set (al_incidents st)"
  shows "\<not> in_progress i"
  using assms find_incident_unique [of st i]
  by (auto simp: over_def alert_rows_ok_def image_iff)

lemma counts_after_upsert:
  assumes "alert_rows_ok st" "P = (\<lambda>r. sg_IncidentID r = a \<and> Q (sig_Status r))"
  shows "length (filter P (upsert_signal now x s (al_signals st)))
      + (case find (same_signal s) (al_signals st) of None \<Rightarrow> 0 | Some r \<Rightarrow> if P r then 1 else 0)
    = length (filter P (al_signals st)) + (if x = a \<and> Q (sig_Status s) then 1 else 0)"
proof -
  have d: "distinct (map sig_key (al_signals st))" using assms(1) by (simp add: alert_rows_ok_def)
  have "length (filter P (upsert_signal now x s (al_signals st))) =
      length (filter P (filter (\<lambda>r. \<not> same_signal s r) (al_signals st))) + (if x = a \<and> Q (sig_Status s) then 1 else 0)"
    by (rule count_upsert [OF d]) (simp add: assms(2))
  with count_without [OF d, of P s] show ?thesis by simp
qed

text \<open>The alerts of an incident that the signal neither leaves nor joins, or that it stays on unchanged.\<close>

lemma counts_kept:
  assumes "alert_rows_ok st" and "al_signals st'' = upsert_signal now x s (al_signals st)"
    and "a \<noteq> []"
    and "a \<noteq> x \<and> a \<noteq> current_incident s st \<or>
      a = x \<and> (\<exists>r. find (same_signal s) (al_signals st) = Some r \<and> sg_IncidentID r = x \<and> sig_Status r = sig_Status s)"
  shows "length (signals_of a st'') = length (signals_of a st)" "length (firing_of a st'') = length (firing_of a st)"
proof -
  have e: "(case find (same_signal s) (al_signals st) of None \<Rightarrow> 0 | Some r \<Rightarrow> if sg_IncidentID r = a \<and> Q (sig_Status r) then 1 else 0)
      = (if x = a \<and> Q (sig_Status s) then 1 else (0::nat))" for Q
    using assms(3,4) by (auto simp: current_incident_def split: option.splits)
  show "length (signals_of a st'') = length (signals_of a st)"
    using counts_after_upsert [OF assms(1) refl, where a = a and Q = "\<lambda>_. True" and now = now and x = x and s = s]
      e [of "\<lambda>_. True"] by (simp add: signals_of_def assms(2))
  show "length (firing_of a st'') = length (firing_of a st)"
    using counts_after_upsert [OF assms(1) refl, where a = a and Q = "\<lambda>t. t = ''firing''" and now = now and x = x and s = s]
      e [of "\<lambda>t. t = ''firing''"] by (simp add: signals_of_def firing_of_def assms(2) conj_commute)
qed

lemma follows_counts:
  "mirrors st i \<Longrightarrow> length (signals_of (inc_ID i) st') = length (signals_of (inc_ID i) st) \<Longrightarrow>
    length (firing_of (inc_ID i) st') = length (firing_of (inc_ID i) st) \<Longrightarrow> mirrors st' i"
  by (auto simp: mirrors_def)

lemma current_incident_known:
  assumes "alert_rows_ok st" "current_incident s st \<noteq> []"
  shows "current_incident s st \<in> inc_ID ` set (al_incidents st)"
proof -
  obtain r where "find (same_signal s) (al_signals st) = Some r" "current_incident s st = sg_IncidentID r"
    using assms(2) by (auto simp: current_incident_def split: option.splits)
  then show ?thesis using assms by (auto simp: alert_rows_ok_def find_Some_iff)
qed

lemma unchanged_row:
  "\<not> signal_changed x s (find (same_signal s) (al_signals st)) \<Longrightarrow>
    \<exists>r. find (same_signal s) (al_signals st) = Some r \<and> sg_IncidentID r = x \<and> sig_Status r = sig_Status s"
  by (auto simp: signal_changed_def split: option.splits)

lemma applySignal_steps:
  assumes "applySignal now window M fresh s st = Inr ((x, changed), st')"
  obtains y suppress st1 where "assigned_incident now window M fresh s st = Inr ((y, suppress), st1)"
    "st' = st1\<lparr>al_signals := upsert_signal now y s (al_signals st1)\<rparr>"
    "x = (if suppress then [] else y)"
    "changed \<longleftrightarrow> \<not> suppress \<and> signal_changed y s (find (same_signal s) (al_signals st))"
proof -
  from assms obtain y suppress st1 where "assigned_incident now window M fresh s st = Inr ((y, suppress), st1)"
    "((if suppress then ([], False) else (y, signal_changed y s (find (same_signal s) (al_signals st)))),
       st1\<lparr>al_signals := upsert_signal now y s (al_signals st1)\<rparr>) = ((x, changed), st')"
    unfolding applySignal_def and_then_Inr by (auto simp: Let_def)
  then show thesis by (intro that) (auto split: if_splits)
qed

lemma alert_incident_simps [simp]:
  "inc_ID (alert_incident now fresh s) = ''inc_'' @ fresh" "inc_Status (alert_incident now fresh s) = ''active''"
  by (simp_all add: alert_incident_def)

lemma assigned_rows:
  assumes "alert_rows_ok st" "assigned_incident now window M fresh s st = Inr ((y, suppress), st1)"
  shows "al_signals st1 = al_signals st" and "distinct (map inc_ID (al_incidents st1))"
    and "[] \<notin> inc_ID ` set (al_incidents st1)" and "inc_ID ` set (al_incidents st) \<subseteq> inc_ID ` set (al_incidents st1)"
    and "y \<noteq> [] \<longrightarrow> y \<in> inc_ID ` set (al_incidents st1)"
  by (use assms(2) in \<open>cases rule: assigned_cases;
    use assms(1) current_incident_known [OF assms(1), of s] in \<open>auto simp: alert_rows_ok_def\<close>\<close>)+

lemma applied_rows_ok:
  assumes "alert_rows_ok st" "applySignal now window M fresh s st = Inr ((x, changed), st')"
  shows "alert_rows_ok st'"
proof -
  obtain y suppress st1 where a: "assigned_incident now window M fresh s st = Inr ((y, suppress), st1)"
    "st' = st1\<lparr>al_signals := upsert_signal now y s (al_signals st1)\<rparr>"
    using applySignal_steps [OF assms(2)] by metis
  note r = assigned_rows [OF assms(1) a(1)]
  have "distinct (map sig_key (upsert_signal now y s (al_signals st)))"
    using assms(1) by (intro upsert_keys) (simp add: alert_rows_ok_def)
  moreover have "sg_IncidentID q \<in> inc_ID ` set (al_incidents st1)"
    if "q \<in> set (upsert_signal now y s (al_signals st))" "sg_IncidentID q \<noteq> []" for q
  proof (cases "q \<in> set (al_signals st)")
    case True
    then have "sg_IncidentID q \<in> inc_ID ` set (al_incidents st)" using assms(1) that(2) by (simp add: alert_rows_ok_def)
    then show ?thesis using r(4) by blast
  next
    case False
    then show ?thesis using upsert_incidents [OF that(1)] that(2) r(5) by simp
  qed
  ultimately show ?thesis using r by (simp add: alert_rows_ok_def a(2))
qed

lemma applied_room:
  assumes "room M st" "applySignal now window M fresh s st = Inr ((x, changed), st')"
  shows "room M st'"
proof -
  obtain y suppress st1 where a: "assigned_incident now window M fresh s st = Inr ((y, suppress), st1)"
    "st' = st1\<lparr>al_signals := upsert_signal now y s (al_signals st1)\<rparr>"
    using applySignal_steps [OF assms(2)] by metis
  from a(1) show ?thesis
    by (cases rule: assigned_cases) (use assms(1) a(2) in \<open>auto simp: room_def open_incidents_def\<close>)
qed

lemma applied_others_follow:
  assumes ok: "alert_rows_ok st" and f: "\<And>i. i \<in> set (al_incidents st) \<Longrightarrow> mirrors st i"
    and a: "assigned_incident now window M fresh s st = Inr ((y, suppress), st1)"
    and st': "st' = st1\<lparr>al_signals := upsert_signal now y s (al_signals st1)\<rparr>"
    and i: "i \<in> set (al_incidents st')"
    and quiet: "inc_ID i \<noteq> y \<or> suppress \<or> \<not> signal_changed y s (find (same_signal s) (al_signals st))"
  shows "mirrors st' i"
proof (cases "in_progress i")
  case True
  note r = assigned_rows [OF ok a]
  have sig: "al_signals st' = upsert_signal now y s (al_signals st)" by (simp add: st' r(1))
  have ne: "inc_ID i \<noteq> []" using i r(3) by (auto simp: st' image_iff)
  have known: "i \<in> set (al_incidents st)" if "inc_ID i \<noteq> y \<or> y \<in> inc_ID ` set (al_incidents st)"
    using a by (cases rule: assigned_cases) (use i that in \<open>auto simp: st'\<close>)
  show ?thesis
  proof (cases "inc_ID i = y")
    case False
    then have here: "i \<in> set (al_incidents st)" using known by blast
    have "inc_ID i \<noteq> current_incident s st"
      using a
    proof (cases rule: assigned_cases)
      case stays
      then show ?thesis using False by simp
    next
      case (moves j)
      then show ?thesis using over_not_in_progress [OF ok _ here] True by auto
    next
      case opens
      then show ?thesis using over_not_in_progress [OF ok _ here] True by auto
    qed
    then show ?thesis using counts_kept [OF ok sig ne] False f [OF here] follows_counts by blast
  next
    case same: True
    have "\<not> suppress"
      using a
    proof (cases rule: assigned_cases)
      case stays
      then show ?thesis using over_not_in_progress [OF ok, of i] same True i by (auto simp: st')
    qed auto
    with quiet same obtain q where q: "find (same_signal s) (al_signals st) = Some q" "sg_IncidentID q = y"
      "sig_Status q = sig_Status s" using unchanged_row by blast
    then have cur: "current_incident s st = y" by (simp add: current_incident_def)
    have "y \<in> inc_ID ` set (al_incidents st)" using current_incident_known [OF ok, of s] cur ne same by simp
    then have here: "i \<in> set (al_incidents st)" using known by blast
    show ?thesis using counts_kept [OF ok sig ne] q same f [OF here] follows_counts by blast
  qed
qed (simp add: mirrors_def)

lemma applied_still_open:
  assumes ok: "alert_rows_ok st" and a: "assigned_incident now window M fresh s st = Inr ((y, suppress), st1)"
    and "\<not> suppress" "i \<in> set (al_incidents st1)" "inc_ID i = y"
  shows "inc_Status i \<noteq> ''closed''"
  using a
proof (cases rule: assigned_cases)
  case stays
  then show ?thesis
    using assms(3-5) find_incident_unique [of st i] ok by (auto simp: alert_rows_ok_def image_iff)
next
  case (moves j)
  then show ?thesis using assms(4,5) ok find_incident_unique [of st] by (metis option.inject alert_rows_ok_def)
next
  case opens
  then show ?thesis using assms(4,5) by (auto simp: image_iff)
qed

lemma applied_quiet_ok:
  assumes "alerts_ok M st" "applySignal now window M fresh s st = Inr ((x, changed), st')" "x = [] \<or> \<not> changed"
  shows "alerts_ok M st'"
proof -
  have ok: "alert_rows_ok st" "room M st" "\<And>i. i \<in> set (al_incidents st) \<Longrightarrow> mirrors st i"
    using assms(1) by (auto simp: alerts_ok_def)
  obtain y suppress st1 where a: "assigned_incident now window M fresh s st = Inr ((y, suppress), st1)"
    "st' = st1\<lparr>al_signals := upsert_signal now y s (al_signals st1)\<rparr>"
    "x = (if suppress then [] else y)"
    "changed \<longleftrightarrow> \<not> suppress \<and> signal_changed y s (find (same_signal s) (al_signals st))"
    by (rule applySignal_steps [OF assms(2)])
  have "mirrors st' i" if "i \<in> set (al_incidents st')" for i
  proof -
    have "inc_ID i \<noteq> []" using that assigned_rows(3) [OF ok(1) a(1)] by (auto simp: a(2) image_iff)
    then show ?thesis
      using applied_others_follow [OF ok(1,3) a(1,2) that] a(3,4) assms(3) by (auto split: if_splits)
  qed
  then show ?thesis using applied_rows_ok [OF ok(1) assms(2)] applied_room [OF ok(2) assms(2)]
    by (simp add: alerts_ok_def)
qed

lemma applied_refreshed_ok:
  assumes "alerts_ok M st" "applySignal now window M fresh s st = Inr ((x, changed), st')" "x \<noteq> []"
  shows "alerts_ok M (refreshIncident now q x st')"
proof -
  have ok: "alert_rows_ok st" "room M st" "\<And>i. i \<in> set (al_incidents st) \<Longrightarrow> mirrors st i"
    using assms(1) by (auto simp: alerts_ok_def)
  obtain y suppress st1 where a: "assigned_incident now window M fresh s st = Inr ((y, suppress), st1)"
    "st' = st1\<lparr>al_signals := upsert_signal now y s (al_signals st1)\<rparr>"
    "x = (if suppress then [] else y)"
    by (rule applySignal_steps [OF assms(2)])
  have x: "\<not> suppress" "x = y" using a(3) assms(3) by (auto split: if_splits)
  show ?thesis
  proof (rule refresh_ok [OF applied_rows_ok [OF ok(1) assms(2)] applied_room [OF ok(2) assms(2)]])
    show "mirrors st' i" if "i \<in> set (al_incidents st')" "inc_ID i \<noteq> x" for i
      using applied_others_follow [OF ok(1,3) a(1,2) that(1)] that(2) x(2) by auto
    show "inc_Status i \<noteq> ''closed''" if "i \<in> set (al_incidents st')" "inc_ID i = x" for i
      using applied_still_open [OF ok(1) a(1) x(1)] that x(2) by (auto simp: a(2))
  qed
qed

lemma apply_signals_ok:
  "apply_signals now window q M ss affected full st = Inr (r, st') \<Longrightarrow> alerts_ok M st \<Longrightarrow> alerts_ok M st'"
proof (induction now window q M ss affected full st rule: apply_signals.induct)
  case (2 now window q M s fresh rest affected full st)
  show ?case
  proof (cases "applySignal now window M fresh s st")
    case (Inl e)
    with 2 show ?thesis by (auto split: if_splits)
  next
    case (Inr c)
    obtain x changed st1 where c: "c = ((x, changed), st1)" by (metis surj_pair)
    show ?thesis
      using 2 Inr c applied_quiet_ok [OF 2(5)] applied_refreshed_ok [OF 2(5)] by (auto split: if_splits)
  qed
qed simp

section \<open>Every step keeps it\<close>

lemma ApplySignals_cases:
  obtains "snd (ApplySignals now event fresh window q M st) = st"
    | r st1 where "apply_signals now window q M (zip (wh_Signals event) fresh) (wh_IncidentIDs event) False st = Inr (r, st1)"
      "core_kept st1 (snd (ApplySignals now event fresh window q M st))"
proof (cases "apply_signals now window q M (zip (wh_Signals event) fresh) (wh_IncidentIDs event) False st")
  case (Inl e)
  then show thesis using that(1) by (simp add: ApplySignals_def)
next
  case (Inr c)
  obtain affected full st1 where c: "c = ((affected, full), st1)" by (metis surj_pair)
  show thesis
  proof (cases "wh_ID event = []")
    case True
    then show thesis using that(2) [of "(affected, full)" st1] Inr c
      by (auto simp: ApplySignals_def split: option.splits)
  next
    case False
    then show thesis
      using that Inr c update_webhook_core
      by (cases "update_webhook (wh_ID event) (recorded_webhook now affected (\<not> full)) st1")
        (auto simp: ApplySignals_def split: option.splits)
  qed
qed

lemma ApplySignals_ok: "alerts_ok M st \<Longrightarrow> alerts_ok M (snd (ApplySignals now event fresh window q M st))"
  by (rule ApplySignals_cases [of now event fresh window q M st])
    (auto intro: core_kept_ok dest: apply_signals_ok)

text \<open>An update that ends incidents, none of which then is in progress, and opens none.\<close>

lemma ending_ok:
  assumes "alerts_ok M st"
    and "\<And>i. P i \<Longrightarrow> inc_ID (f i) = inc_ID i \<and> \<not> in_progress (f i) \<and>
      (inc_Status (f i) \<noteq> ''closed'' \<longrightarrow> inc_Status i \<noteq> ''closed'')"
  shows "alerts_ok M (map_incidents P f st)"
proof -
  let ?g = "\<lambda>i. if P i then f i else i"
  have "length (filter (\<lambda>i. inc_Status i \<noteq> ''closed'') (map ?g xs)) \<le> length (filter (\<lambda>i. inc_Status i \<noteq> ''closed'') xs)" for xs
    using assms(2) by (induction xs) (auto simp: le_SucI)
  then have "int (length (open_incidents (map_incidents P f st))) \<le> int (length (open_incidents st))"
    by (simp add: open_incidents_def)
  then have "room M (map_incidents P f st)" using assms(1) by (simp add: room_def alerts_ok_def)
  moreover have "map inc_ID (map ?g (al_incidents st)) = map inc_ID (al_incidents st)" using assms(2) by simp
  then have "alert_rows_ok (map_incidents P f st)"
    using assms(1) rows_ok_cong [of "map_incidents P f st" st] by (simp add: alerts_ok_def)
  moreover have "mirrors (map_incidents P f st) j" if "j \<in> set (al_incidents (map_incidents P f st))" for j
    using that assms by (auto simp: mirrors_def alerts_ok_def signals_of_def firing_of_def)
  ultimately show ?thesis by (simp add: alerts_ok_def)
qed

lemma manual_incident_simps [simp]:
  "inc_ID (manual_incident now fresh repository source title channel thread task target) = ''inc_'' @ fresh"
  "inc_Status (manual_incident now fresh repository source title channel thread task target) = ''active''"
  "inc_SignalCount (manual_incident now fresh repository source title channel thread task target) = 1"
  "inc_FiringCount (manual_incident now fresh repository source title channel thread task target) = 1"
  by (simp_all add: manual_incident_def)

lemma createManualWork_cases:
  assumes "createManualWork now fresh repository sourceID title summary user channel thread M l c task ts st = Inr (r, st')"
  obtains "st' = st"
    | i s where "st' = st\<lparr>al_incidents := al_incidents st @ [i], al_signals := al_signals st @ [signal_row now (inc_ID i) s]\<rparr>"
      "inc_ID i = ''inc_'' @ fresh" "inc_Status i = ''active''" "inc_SignalCount i = 1" "inc_FiringCount i = 1"
      "inc_ID i \<notin> inc_ID ` set (al_incidents st)" "sig_Status s = ''firing''"
      "key_of s \<notin> sig_key ` set (al_signals st)" "int (length (open_incidents st)) + 1 \<le> M"
proof -
  let ?source = "if task then ''task:'' @ sourceID else sourceID"
  let ?i = "manual_incident now fresh repository ?source title channel thread task (case ts of [] \<Rightarrow> None | t # _ \<Rightarrow> Some t)"
  let ?s = "manual_signal now repository ?source title summary (manual_labels user channel thread (inc_WorkKind ?i))"
  show thesis
  proof (cases "st' = st")
    case False
    then have "st' = st\<lparr>al_incidents := al_incidents st @ [?i], al_signals := al_signals st @ [signal_row now (inc_ID ?i) ?s]\<rparr>"
      "inc_ID ?i \<notin> inc_ID ` set (al_incidents st)" "key_of ?s \<notin> sig_key ` set (al_signals st)"
      "int (length (open_incidents st)) + 1 \<le> M"
      using assms
      by (auto simp: createManualWork_def Let_def and_then_Inr enforceOpenIncidentCapacity_def open_incidents_def
          list_ex_iff same_signal_key image_iff split: if_splits option.splits)
    moreover have "sig_Status ?s = ''firing''" by (simp add: manual_signal_def)
    ultimately show thesis using that(2) [of ?i ?s] by simp
  qed (rule that)
qed

lemma manual_ok:
  assumes "alerts_ok M st"
    and "createManualWork now fresh repository sourceID title summary user channel thread M l c task ts st = Inr (r, st')"
  shows "alerts_ok M st'"
  using assms(2)
proof (cases rule: createManualWork_cases)
  case 1
  then show ?thesis using assms(1) by simp
next
  case (2 i s)
  have ok: "alert_rows_ok st" "\<And>j. j \<in> set (al_incidents st) \<Longrightarrow> mirrors st j" using assms(1) by (auto simp: alerts_ok_def)
  have free: "filter (\<lambda>r. sg_IncidentID r = inc_ID i) (al_signals st) = []"
  proof -
    have "sg_IncidentID r \<noteq> inc_ID i" if "r \<in> set (al_signals st)" for r
    proof
      assume e: "sg_IncidentID r = inc_ID i"
      then have "sg_IncidentID r \<noteq> []" using 2(2) by simp
      then have "sg_IncidentID r \<in> inc_ID ` set (al_incidents st)" using ok(1) that unfolding alert_rows_ok_def by blast
      then show False using e 2(6) by simp
    qed
    then show ?thesis by (simp add: filter_empty_conv)
  qed
  have "mirrors st' j" if "j \<in> set (al_incidents st)" for j
  proof -
    have "inc_ID j \<noteq> inc_ID i" using that 2(6) by (metis image_eqI)
    then show ?thesis using ok(2) [OF that] 2 by (auto simp: mirrors_def signals_of_def firing_of_def)
  qed
  moreover have "mirrors st' i"
    using 2 free by (simp add: mirrors_def signals_of_def firing_of_def)
  moreover have "alert_rows_ok st'" using ok(1) 2 by (auto simp: alert_rows_ok_def)
  moreover have "room M st'" using 2 by (simp add: room_def open_incidents_def)
  ultimately show ?thesis using 2(1) by (auto simp: alerts_ok_def)
qed

lemma alert_step_ok:
  assumes "alert_step J M st op = Inr st'" "alerts_ok M st"
  shows "alerts_ok M st'"
proof (cases "moves_incidents op")
  case False
  then show ?thesis using step_core [OF assms(1)] core_kept_ok assms(2) by blast
next
  case True
  then show ?thesis
  proof (cases op)
    case (OpApply now event fresh window q)
    with assms show ?thesis using ApplySignals_ok by auto
  next
    case (OpManual now fresh repository source title summary user channel thread l c task ts)
    with assms show ?thesis by (auto simp: state_of_Inr dest: manual_ok)
  next
    case (OpResolveDue now)
    with assms show ?thesis
      by (auto simp: ResolveDueIncidents_def bumped_def in_progress_def incident_due_def intro!: ending_ok)
  next
    case (OpCloseIncident now publishing key)
    with assms show ?thesis
      by (auto simp: CloseIncident_def update_one_def bumped_def in_progress_def intro!: ending_ok split: if_splits)
  qed auto
qed

interpretation alerts: guarded_machine "alert_step J M" "alerts_ok M" for J M
  by unfold_locales (rule alert_step_ok)

lemma no_alerts_ok: "alerts_ok M no_alerts"
  by (simp add: alerts_ok_def alert_rows_ok_def room_def no_alerts_def open_incidents_def)

text \<open>C3. 
  Whatever webhooks are applied, retried and recovered, whatever operators open and close, and whatever the
  coordinator writes: an incident that is active or monitored counts exactly the alerts that are on it and
  those of them that fire, and it is active if and only if one of them fires.
\<close>

theorem incident_mirrors_its_alerts:
  assumes "i \<in> set (al_incidents (run_machine (alert_step J M) no_alerts ops))"
    and "inc_Status i = ''active'' \<or> inc_Status i = ''monitoring''"
  shows "inc_SignalCount i = int (length (signals_of (inc_ID i) (run_machine (alert_step J M) no_alerts ops))) \<and>
    inc_FiringCount i = int (length (firing_of (inc_ID i) (run_machine (alert_step J M) no_alerts ops))) \<and>
    (inc_Status i = ''active'' \<longleftrightarrow> firing_of (inc_ID i) (run_machine (alert_step J M) no_alerts ops) \<noteq> [])"
proof -
  have "alerts_ok M (run_machine (alert_step J M) no_alerts ops)" by (rule alerts.run_inv [OF no_alerts_ok])
  then show ?thesis using assms by (auto simp: alerts_ok_def mirrors_def in_progress_def)
qed

text \<open>
  The limit of open incidents holds over alerts and operators together: a new incident is only opened
  below it, and nothing opens a closed one again.
\<close>

theorem open_incidents_bounded:
  "int (length (open_incidents (run_machine (alert_step J M) no_alerts ops))) \<le> max 0 M"
  using alerts.run_inv [OF no_alerts_ok, where es = ops] by (simp add: alerts_ok_def room_def)

section \<open>Closing\<close>

text \<open>The operations that move incidents leave the rows of the closed ones as they are.\<close>

definition keeps_closed :: "Alerts \<Rightarrow> Alerts \<Rightarrow> bool" where
  "keeps_closed st st' \<longleftrightarrow>
     (\<forall>i \<in> set (al_incidents st). inc_Status i = ''closed'' \<longrightarrow> i \<in> set (al_incidents st'))"

lemma keeps_closed_refl [simp]: "keeps_closed st st"
  by (simp add: keeps_closed_def)

lemma keeps_closed_trans: "keeps_closed st st' \<Longrightarrow> keeps_closed st' st'' \<Longrightarrow> keeps_closed st st''"
  by (simp add: keeps_closed_def)

lemma keeps_closed_map:
  "(\<And>i. P i \<Longrightarrow> inc_Status i \<noteq> ''closed'') \<Longrightarrow> keeps_closed st (map_incidents P f st)"
  by (force simp: keeps_closed_def)

lemma keeps_closed_update_webhook: "update_webhook key f st = Inr st' \<Longrightarrow> keeps_closed st st'"
  by (auto simp: update_webhook_def map_webhooks_def keeps_closed_def split: if_splits)

lemma keeps_closed_applied:
  assumes "alert_rows_ok st" "applySignal now window M fresh s st = Inr ((x, changed), st')"
  shows "keeps_closed st st'" and "x \<noteq> [] \<Longrightarrow> keeps_closed st (refreshIncident now q x st')"
proof -
  obtain y suppress st1 where a: "assigned_incident now window M fresh s st = Inr ((y, suppress), st1)"
    "st' = st1\<lparr>al_signals := upsert_signal now y s (al_signals st1)\<rparr>"
    "x = (if suppress then [] else y)"
    by (rule applySignal_steps [OF assms(2)])
  have "keeps_closed st st1"
    using a(1) by (cases rule: assigned_cases) (auto simp: keeps_closed_def)
  then show "keeps_closed st st'" by (simp add: keeps_closed_def a(2))
  moreover have "inc_Status i \<noteq> ''closed''" if "i \<in> set (al_incidents st')" "inc_ID i = x" "x \<noteq> []" for i
    using applied_still_open [OF assms(1) a(1)] that a(2,3) by (auto split: if_splits)
  ultimately show "keeps_closed st (refreshIncident now q x st')" if "x \<noteq> []"
    using that by (force simp: keeps_closed_def refreshIncident_def)
qed

lemma keeps_closed_apply:
  "apply_signals now window q M ss affected full st = Inr (r, st') \<Longrightarrow> alerts_ok M st \<Longrightarrow> keeps_closed st st'"
proof (induction now window q M ss affected full st rule: apply_signals.induct)
  case (2 now window q M s fresh rest affected full st)
  show ?case
  proof (cases "applySignal now window M fresh s st")
    case (Inl e)
    with 2 show ?thesis by (auto split: if_splits)
  next
    case (Inr c)
    obtain x changed st1 where c: "c = ((x, changed), st1)" by (metis surj_pair)
    have "alert_rows_ok st" using 2(5) by (simp add: alerts_ok_def)
    note kept = keeps_closed_applied [OF this Inr [unfolded c]]
    show ?thesis
    proof (cases "x = [] \<or> \<not> changed")
      case True
      have "keeps_closed st1 st'" using 2 Inr c True applied_quiet_ok [OF 2(5)] by auto
      with kept(1) show ?thesis by (rule keeps_closed_trans)
    next
      case False
      have "keeps_closed (refreshIncident now q x st1) st'"
        using 2 Inr c False applied_refreshed_ok [OF 2(5)] by auto
      with kept(2) False show ?thesis by (blast intro: keeps_closed_trans)
    qed
  qed
qed simp

lemma keeps_closed_step:
  assumes "alert_step J M st op = Inr st'" "alerts_ok M st" "moves_incidents op"
  shows "keeps_closed st st'"
  using assms(3)
proof (cases op)
  case (OpApply now event fresh window q)
  let ?st = "snd (ApplySignals now event fresh window q M st)"
  have "keeps_closed st ?st"
  proof (cases "apply_signals now window q M (zip (wh_Signals event) fresh) (wh_IncidentIDs event) False st")
    case (Inl e)
    then show ?thesis by (simp add: ApplySignals_def)
  next
    case (Inr c)
    obtain affected full st1 where c: "c = ((affected, full), st1)" by (metis surj_pair)
    have "keeps_closed st st1" using keeps_closed_apply Inr c assms(2) by blast
    then show ?thesis
      using Inr c keeps_closed_trans keeps_closed_update_webhook
      by (cases "update_webhook (wh_ID event) (recorded_webhook now affected (\<not> full)) st1")
        (auto simp: ApplySignals_def split: option.splits)
  qed
  with OpApply assms(1) show ?thesis by auto
next
  case (OpManual now fresh repository source title summary user channel thread l c task ts)
  with assms(1) obtain r where "createManualWork now fresh repository source title summary user channel thread
      M l c task ts st = Inr (r, st')" by (auto simp: state_of_Inr)
  then show ?thesis by (cases rule: createManualWork_cases) (auto simp: keeps_closed_def)
next
  case (OpResolveDue now)
  with assms show ?thesis
    by (auto simp: ResolveDueIncidents_def incident_due_def intro!: keeps_closed_map)
next
  case (OpCloseIncident now publishing k)
  with assms show ?thesis
    by (auto simp: CloseIncident_def update_one_def intro!: keeps_closed_map split: if_splits)
qed auto

definition closed_row :: "string \<Rightarrow> gotime \<Rightarrow> Alerts \<Rightarrow> bool" where
  "closed_row key at st \<longleftrightarrow>
     (\<exists>i \<in> set (al_incidents st). inc_ID i = key \<and> inc_Status i = ''closed'' \<and> inc_ClosedAt i = at)"

lemma closed_row_core: "core_kept st st' \<Longrightarrow> closed_row key at st \<Longrightarrow> closed_row key at st'"
proof -
  have "list_all2 same_core xs ys \<Longrightarrow> i \<in> set xs \<Longrightarrow> \<exists>j \<in> set ys. same_core i j" for xs ys i
    by (induction rule: list_all2_induct) auto
  then show "core_kept st st' \<Longrightarrow> closed_row key at st \<Longrightarrow> ?thesis"
    by (fastforce simp: closed_row_def core_kept_def same_core_def)
qed

lemma closed_row_step:
  assumes "alert_step J M st op = Inr st'" "alerts_ok M st" "closed_row key at st"
  shows "closed_row key at st'"
proof (cases "moves_incidents op")
  case False
  then show ?thesis using step_core [OF assms(1)] closed_row_core assms(3) by blast
next
  case True
  from keeps_closed_step [OF assms(1,2) True] assms(3) show ?thesis
    by (auto simp: closed_row_def keeps_closed_def)
qed

definition closed_ok :: "int \<Rightarrow> string \<Rightarrow> gotime \<Rightarrow> Alerts \<Rightarrow> bool" where
  "closed_ok M key at st \<longleftrightarrow> alerts_ok M st \<and> closed_row key at st"

interpretation closed: guarded_machine "alert_step J M" "closed_ok M key at" for J M key at
  by unfold_locales (auto simp: closed_ok_def dest: alert_step_ok closed_row_step)

text \<open>C5. 
  Closing is final: neither an alert that fires again nor any write of the coordinator or an operator ever
  makes a closed incident anything else, and it keeps the instant it was closed at.
\<close>

theorem closing_is_final:
  assumes "i \<in> set (al_incidents (run_machine (alert_step J M) no_alerts ops))" and "inc_Status i = ''closed''"
  shows "\<exists>j. find_incident (inc_ID i) (run_machine (alert_step J M) no_alerts (ops @ later)) = Some j \<and>
    inc_Status j = ''closed'' \<and> inc_ClosedAt j = inc_ClosedAt i"
proof -
  let ?st = "run_machine (alert_step J M) no_alerts"
  have "alerts_ok M (?st ops)" by (rule alerts.run_inv [OF no_alerts_ok])
  then have "closed_ok M (inc_ID i) (inc_ClosedAt i) (?st ops)"
    using assms by (auto simp: closed_ok_def closed_row_def)
  from closed.run_inv [OF this, of J later]
  have ok: "closed_ok M (inc_ID i) (inc_ClosedAt i) (?st (ops @ later))" by (simp add: run_machine_append)
  then obtain j where "j \<in> set (al_incidents (?st (ops @ later)))" "inc_ID j = inc_ID i" "inc_Status j = ''closed''"
    "inc_ClosedAt j = inc_ClosedAt i" by (auto simp: closed_ok_def closed_row_def)
  then show ?thesis
    using find_incident_unique [of "?st (ops @ later)" j] ok
    by (auto simp: closed_ok_def alerts_ok_def alert_rows_ok_def)
qed

section \<open>A late poll and the limit of sessions\<close>

text \<open>
  \<open>pollIncident\<close> writes what it read of a session onto the incident it listed before; when an operator
  closes the incident in between, its workflow leaves \<open>closed\<close> again.
\<close>

definition holds_slot :: "string \<Rightarrow> Alerts \<Rightarrow> bool" where
  "holds_slot key st \<longleftrightarrow> (\<exists>i \<in> set (al_incidents st). inc_ID i = key \<and> inc_Status i = ''closed''
     \<and> inc_CoopSessionID i \<noteq> [] \<and> inc_Workflow i \<noteq> ''closed'')"





lemma holds_slot_webhooks [simp]:
  "holds_slot key (st\<lparr>al_webhooks := ws\<rparr>) = holds_slot key st"
  "holds_slot key (st\<lparr>al_revision := rv\<rparr>) = holds_slot key st" "holds_slot key (map_webhooks P f st) = holds_slot key st"
  by (simp_all add: holds_slot_def map_webhooks_def)






section \<open>Instances\<close>

definition sec :: "int \<Rightarrow> gotime" where "sec n = Time (n * second)"

text \<open>An operator's task gets its thread and its session, and is closed.\<close>

definition closed_task_ops :: "AlertOp list" where
  "closed_task_ops =
     [OpManual (sec 100) ''01'' ''repo'' ''e1'' ''fix'' ''fix it'' ''U1'' ''C1'' ''7.1'' 0 0 True [],
      OpThread (sec 101) ''inc_01'', OpSession (sec 102) ''inc_01'' ''ses_1'' ''fork'' 3,
      OpCloseIncident (sec 110) [] ''inc_01'']"

definition "closed_task = hd (al_incidents (run_machine (alert_step nanos 1) no_alerts closed_task_ops))"

lemma closed_task_facts:
  "al_incidents (run_machine (alert_step nanos 1) no_alerts closed_task_ops) = [closed_task]"
  "inc_ID closed_task = ''inc_01''" "inc_Status closed_task = ''closed''" "inc_CoopSessionID closed_task = ''ses_1''"
  "inc_ClosedAt closed_task = sec 110" "inc_Workflow closed_task = ''closed''"
  by code_simp+


theorem closing_is_final_witness:
  "\<exists>j. find_incident ''inc_01'' (run_machine (alert_step nanos 1) no_alerts
      (closed_task_ops @ [OpFault (sec 120) ''inc_01'' ''holding'' ''late''])) = Some j \<and>
    inc_Status j = ''closed'' \<and> inc_ClosedAt j = sec 110"
  using closing_is_final [of closed_task nanos 1 closed_task_ops "[OpFault (sec 120) ''inc_01'' ''holding'' ''late'']"]
  by (simp add: closed_task_facts)

text \<open>One alert.\<close>

definition an_alert :: "string \<Rightarrow> string \<Rightarrow> string \<Rightarrow> int \<Rightarrow> Signal" where
  "an_alert source event status at =
     zero_Signal\<lparr>sig_Route := ''grafana'', sig_SourceID := source, sig_EventID := event, sig_Repository := ''repo'',
       sig_CorrelationKey := ''db'', sig_Status := status, sig_Title := source, sig_Severity := ''critical'',
       sig_ReceivedAt := sec at\<rparr>"

definition loose_event :: "Signal list \<Rightarrow> WebhookEvent" where
  "loose_event signals = (new_webhook (sec 0) [] ''grafana'' [] [] signals)"

definition one_alert_ops :: "AlertOp list" where
  "one_alert_ops = [OpApply (sec 100) (loose_event [an_alert ''a'' ''e1'' ''firing'' 99]) [''01''] hour minute]"

definition "one_alert_incident = hd (al_incidents (run_machine (alert_step nanos 5) no_alerts one_alert_ops))"

theorem incident_mirrors_its_alerts_witness:
  "inc_SignalCount one_alert_incident = 1 \<and> inc_FiringCount one_alert_incident = 1"
proof -
  have f: "al_incidents (run_machine (alert_step nanos 5) no_alerts one_alert_ops) = [one_alert_incident]"
    "inc_ID one_alert_incident = ''inc_01''" "inc_Status one_alert_incident = ''active''"
    "map sig_SourceID (signals_of ''inc_01'' (run_machine (alert_step nanos 5) no_alerts one_alert_ops)) = [''a'']"
    "map sig_SourceID (firing_of ''inc_01'' (run_machine (alert_step nanos 5) no_alerts one_alert_ops)) = [''a'']"
    by code_simp+
  from f(4,5) [THEN arg_cong [where f = length]] f(1-3) show ?thesis
    using incident_mirrors_its_alerts [of one_alert_incident nanos 5 one_alert_ops] by simp
qed

section \<open>A retried webhook and a newer one\<close>







end
