(* ===== verification/Spec2Isabelle.thy ===== *)
theory Spec2Isabelle
  imports GoRunes Timing GrantLadder EpisodeStore PublicationSafety LedgerSafety CompletionSafety AgentRunFaults
    FanoutSafety SlackFaults WorkSafety ScheduleSafety IncidentSafety
begin

text \<open>
  A verification development for the responder: a Go service that investigates operational
  alerts with coding agents, talks to its operators in Slack, and proposes remediations and pull
  requests.  The theories model the parts that decide things and the transactions that record
  them; what is left out is listed at the end.

  \<^bold>\<open>How the program is put together.\<close>  Alert webhooks are stored and correlated into incidents
  (\<open>internal/store/store.go\<close>, \<open>incidentstore\<close>).  A message or an alert becomes a work episode with a
  durable event stream (\<open>internal/episode\<close>, \<open>internal/store/work_episode.go\<close>).  An episode is worked on
  by agent runs, which are leased, submitted to an external agent service, and staged, finalized or
  retried (\<open>internal/store/agent_run.go\<close>).  A contract compiled for the episode
  (\<open>internal/investigationcontract\<close>) says which claims it has to establish; the evidence ledger
  (\<open>internal/investigation/ledger.go\<close>) says what the recorded evidence establishes, and completion
  validation (\<open>completion.go\<close>, \<open>internal/completionpolicy\<close>) accepts a run's result or sends it back with
  a correction.  What the ledger leaves open may be split over parallel branches (\<open>internal/fanout\<close>).
  Everything said in Slack goes through an outbox (\<open>internal/store/delivery.go\<close>) that two lanes of
  \<open>internal/service/workers.go\<close> drain.  Changes become draft pull requests
  (\<open>internal/store/publicationstore\<close>) and actions are offered under a trust ladder
  (\<open>internal/remediation\<close>, \<open>grantstore\<close>).  The workers of the service are driven by a table of leased work
  (\<open>internal/store/work.go\<close>), and operators may have tasks run on a schedule (\<open>schedulestore\<close>).

  \<^bold>\<open>Theories.\<close>
  \<^item> \<open>GoBase\<close>, \<open>GoText\<close>, \<open>GoRunes\<close>, \<open>GoTime\<close>: the parts of Go's library the program uses (byte strings,
    UTF-8, \<open>strings.ToLower\<close>, instants, the calendar and the stored text form of a time), with the text
    bounds of \<open>internal/core/text.go\<close>, and the generic lemmas on lists, results and association lists.
    \<open>GoBase\<close> also holds the interfaces that several components implement.
  \<^item> \<open>CoreModel\<close>: the records of \<open>internal/core/model.go\<close>.
  \<^item> \<open>Timing\<close>: \<open>internal/retrydelay\<close> and \<open>internal/schedule/external_poll.go\<close>.
  \<^item> \<open>Remediation\<close>, \<open>GrantLadder\<close>: rungs, grants, the matcher, promotion and demotion
    (\<open>internal/remediation\<close>), and the grants table with the operator's click (\<open>grantstore\<close>,
    \<open>internal/service/remediation_grant.go\<close>).
  \<^item> \<open>EpisodeKernel\<close>, \<open>EpisodeStore\<close>: the episode reducer, its projections, and the event stream.
  \<^item> \<open>PublicationStore\<close>, \<open>PublicationSafety\<close>: publication records, their transactions and follow-ups.
  \<^item> \<open>Contract\<close>, \<open>Ledger\<close>, \<open>LedgerSafety\<close>: the investigation contract and the evidence ledger.
  \<^item> \<open>CompletionPolicy\<close>, \<open>Completion\<close>, \<open>CompletionSafety\<close>: what a result may claim.
  \<^item> \<open>RunTables\<close>, \<open>AgentRunStore\<close>, \<open>AgentRunSafety\<close>, \<open>AgentRunFaults\<close>: the agent-run tables, the
    transactions on them, what every sequence of transactions keeps, and the faults found.
  \<^item> \<open>UnionFind\<close>, \<open>Fanout\<close>, \<open>FanoutSafety\<close>: grouping the open claims and admitting branches.
  \<^item> \<open>SlackOutbox\<close>, \<open>SlackWorker\<close>, \<open>SlackSafety\<close>, \<open>SlackFaults\<close>: the outbox transactions, the lanes, what
    their interleavings keep, and the faults found.
  \<^item> \<open>WorkQueue\<close>, \<open>Scheduler\<close>, \<open>WorkSafety\<close>: the table of scheduled work (\<open>internal/store/work.go\<close>), the
    seeding and settling of it by \<open>internal/service/scheduler.go\<close>, and what their interleavings keep.
  \<^item> \<open>Schedule\<close>, \<open>ScheduleLaws\<close>: the recurrence arithmetic of \<open>internal/schedule\<close> over a time zone, and its
    laws; \<open>ScheduleStore\<close>, \<open>ScheduleOffer\<close>, \<open>ScheduleSafety\<close>: proposals, tasks and their runs
    (\<open>internal/store/schedulestore\<close>), the way from an offer to a task (\<open>internal/scheduleoffer\<close>), the worker
    of \<open>internal/service/schedule.go\<close>, and what any sequence of the transactions keeps.
  \<^item> \<open>IncidentStore\<close>, \<open>IncidentSafety\<close>: webhooks, alert signals and the incidents they are correlated into
    (\<open>internal/store/store.go\<close>, \<open>internal/store/incidentstore\<close>), \<open>processWebhook\<close> of the service, what any
    sequence of the transactions keeps, and two faults.

  \<^bold>\<open>What is shown.\<close>  The \<open>\<dots>Safety\<close> theories state each component's contract: an invariant or a
  lifecycle relation proved over every sequence of its transactions (publications, agent runs, the
  outbox with its two lanes, restarts and other writers), functional equivalence with a reference
  definition (clusters are connected components; the stream determines the episode; the search of the days
  finds the first occurrence), bounds (an admitted fan-out, a task made from an offer, the open incidents), termination
  (the union-find loop) and round trips (branch keys, confirmation payloads).  The \<open>\<dots>Faults\<close> theories evaluate the transactions on small stores: they carry the witnesses of
  the properties and the runs that show where the code does not do what it means to.

  \<^bold>\<open>Conventions.\<close>  A Go struct is a record whose fields carry the struct's abbreviation as a prefix;
  string enumerations stay strings, because the values come from a database and a model.  A Go error
  is the left injection of a sum; prose is kept where a caller reads it and is a
  constructor otherwise.  A transaction is one function from the tables to an error or
  to new tables, reads the clock once, and gets what it draws at random (identities, lease tokens) as an
  argument.  A table is the list of its rows in rowid order or a map by key.  A Go integer that only
  counts is \<open>nat\<close> or \<open>int\<close>; \<open>time.Time\<close> is a number of nanoseconds and \<open>Time.Sub\<close> saturates as in Go.

  \<^bold>\<open>Parameters.\<close>  What is not under \<open>src/\<close> is an argument: \<open>SqlFns\<close> (SQLite's date
  arithmetic and JSON functions), \<open>EnvelopeFns\<close> and \<open>SlackEnv\<close> (JSON decoding of stored payloads, the
  Slack client's answers, sanitizing of text), \<open>OutboxFns\<close> (what SQLite compares and reads from
  JSON), \<open>decode\<close> of episode events, \<open>J\<close> (\<open>julianday\<close>), \<open>load\<close> (\<open>time.LoadLocation\<close>),
  \<open>parse\<close> (\<open>time.Parse\<close> of RFC 3339), the table of \<open>unicode.ToLower\<close> outside ASCII.  What a theorem needs of
  them is a hypothesis of the theorem, and its witness instantiates it.

  \<^bold>\<open>Loops.\<close>  Loops over slices are recursion on lists.  The path-halving loop of the union-find is a
  \<open>partial_function (option)\<close>, and \<open>FanoutSafety.Clusters_returns\<close> shows that it returns.  No definition
  uses fuel.

  \<^bold>\<open>Not modelled.\<close>  The coordinator \<open>internal/service\<close> outside the functions named above, which is
  assembly of prompts and calls of external services around the modelled transactions; the web console,
  Slack rendering, HTTP ingress, configuration, command line and clients of external services (input,
  output and rendering); of \<open>internal/store/store.go\<close> the settings, metrics and listings of failed work; JSON decoding of model results; schema and migration text; full-text recall.
  Rows removed by retention are not removed in the model.
\<close>

end
